(* ===== verification/JsPrelude.thy ===== *)
theory JsPrelude
  imports Complex_Main "HOL-Library.Multiset"
begin

text \<open>
  The part of JavaScript that the modelled components rely on, and the lemmas they share.

  \<^item> Plain objects used as dictionaries (\<open>Record<string, V>\<close>) are association lists in the
    order in which \<open>Object.keys/values/entries\<close> enumerates them: canonical array-index keys
    first, ascending, then all other keys in insertion order (\<open>obj_put\<close>, \<open>obj_del\<close>).
  \<^item> The built-in \<open>Map\<close> and \<open>Set\<close> keep pure insertion order (\<open>jmap_set\<close>).
  \<^item> \<open>Array.prototype.sort\<close> with a comparison callback is a stable sort (\<open>js_sort\<close>); what the
    callbacks have to satisfy is the locale \<open>comparator\<close>.
  \<^item> Numbers that may be fractional or not finite are \<open>jnum\<close>, values of type \<open>unknown\<close> are \<open>jsv\<close>.
    Finite numbers are exact rationals: the model does not round, which agrees with the code
    for integers below \<open>2 ^ 53\<close>.
  \<^item> Strings are lists of code units below 256; template literals print integers in decimal
    (\<open>show_nat\<close>), and \<open>trim\<close> removes JavaScript's white space.
  \<^item> An exception is the value \<open>Inl message\<close> of type \<open>'a result\<close>.
\<close>

named_theorems js_simps \<open>evaluation rules of the JavaScript layer\<close>

type_synonym 'a result = "string + 'a"

text \<open>Sequencing of computations that may throw.\<close>

fun bind_result :: "'a result \<Rightarrow> ('a \<Rightarrow> 'b result) \<Rightarrow> 'b result" where
  "bind_result (Inl e) f = Inl e"
| "bind_result (Inr a) f = f a"

lemma bind_result_eq_Inr:
  "bind_result m f = Inr b \<longleftrightarrow> (\<exists>a. m = Inr a \<and> f a = Inr b)"
  by (cases m) auto

lemma bind_result_split:
  "P (bind_result m f) \<longleftrightarrow> (\<forall>e. m = Inl e \<longrightarrow> P (Inl e)) \<and> (\<forall>a. m = Inr a \<longrightarrow> P (f a))"
  by (cases m) auto

text \<open>The first exception of a list of computations, or all their results.\<close>

fun map_result :: "('a \<Rightarrow> 'b result) \<Rightarrow> 'a list \<Rightarrow> 'b list result" where
  "map_result f [] = Inr []"
| "map_result f (x # xs) = bind_result (f x) (\<lambda>y. bind_result (map_result f xs) (\<lambda>ys. Inr (y # ys)))"

lemma map_result_Inr:
  "map_result f xs = Inr ys \<longleftrightarrow> list_all2 (\<lambda>x y. f x = Inr y) xs ys"
  by (induction xs arbitrary: ys) (auto simp: bind_result_eq_Inr list_all2_Cons1)

text \<open>The operator \<open>??\<close> on values where \<open>null\<close> and \<open>undefined\<close> are \<open>None\<close>.\<close>

definition nullish :: "'a option \<Rightarrow> 'a \<Rightarrow> 'a" where
  "nullish a d = (case a of None \<Rightarrow> d | Some x \<Rightarrow> x)"

definition orElse :: "'a option \<Rightarrow> 'a option \<Rightarrow> 'a option" where
  "orElse a b = (case a of None \<Rightarrow> b | Some x \<Rightarrow> Some x)"

lemma nullish_simps [simp, js_simps]: "nullish None d = d" "nullish (Some x) d = x"
  by (simp_all add: nullish_def)

lemma orElse_simps [simp, js_simps]: "orElse None b = b" "orElse (Some x) b = Some x"
  by (simp_all add: orElse_def)

lemma orElse_None_right [simp]: "orElse a None = a"
  by (cases a) simp_all

text \<open>The operator \<open>||\<close> on numbers: the right operand where the left one is zero.\<close>

definition numOr :: "int \<Rightarrow> int \<Rightarrow> int" where
  "numOr a b = (if a \<noteq> 0 then a else b)"

section \<open>Numbers and strings\<close>

definition digit_char :: "nat \<Rightarrow> char" where
  "digit_char n = char_of (48 + n)"

definition is_digit :: "char \<Rightarrow> bool" where
  "is_digit c \<longleftrightarrow> 48 \<le> (of_char c :: nat) \<and> (of_char c :: nat) \<le> 57"

fun show_nat :: "nat \<Rightarrow> string" where
  "show_nat n = (if n < 10 then [digit_char n] else show_nat (n div 10) @ [digit_char (n mod 10)])"

declare show_nat.simps [simp del]

definition show_int :: "int \<Rightarrow> string" where
  "show_int i = (if i < 0 then CHR ''-'' # show_nat (nat (- i)) else show_nat (nat i))"

definition parse_nat :: "string \<Rightarrow> nat" where
  "parse_nat cs = foldl (\<lambda>a c. a * 10 + (of_char c - 48)) 0 cs"

lemma of_char_digit: "d < 10 \<Longrightarrow> of_char (digit_char d) = 48 + d"
  by (simp add: digit_char_def)

lemma is_digit_digit: "d < 10 \<Longrightarrow> is_digit (digit_char d)"
  by (simp add: is_digit_def of_char_digit)

lemma parse_nat_snoc: "parse_nat (cs @ [c]) = parse_nat cs * 10 + (of_char c - 48)"
  by (simp add: parse_nat_def)

lemma parse_show_nat [simp]: "parse_nat (show_nat n) = n"
proof (induction n rule: show_nat.induct)
  case (1 n)
  show ?case
  proof (cases "n < 10")
    case True
    then show ?thesis by (simp add: show_nat.simps [of n] parse_nat_def of_char_digit)
  next
    case False
    with "1.IH" show ?thesis
      by (simp add: show_nat.simps [of n] parse_nat_snoc of_char_digit)
  qed
qed

lemma show_nat_digits: "c \<in> set (show_nat n) \<Longrightarrow> is_digit c"
proof (induction n rule: show_nat.induct)
  case (1 n)
  then show ?case
    by (cases "n < 10") (auto simp: show_nat.simps [of n] is_digit_digit)
qed

lemma show_nat_nonempty [simp]: "show_nat n \<noteq> []"
  by (subst show_nat.simps) simp

lemma show_nat_inject [simp]: "show_nat m = show_nat n \<longleftrightarrow> m = n"
  by (metis parse_show_nat)

lemma minus_not_digit: "\<not> is_digit (CHR ''-'')"
  by (simp add: is_digit_def)

lemma show_nat_no_minus: "show_nat n \<noteq> CHR ''-'' # cs"
  by (metis list.set_intros(1) minus_not_digit show_nat_digits)

lemma show_int_inject [simp]: "show_int i = show_int j \<longleftrightarrow> i = j"
  using show_nat_no_minus by (auto simp: show_int_def) (metis show_nat_no_minus)

definition js_space :: "char \<Rightarrow> bool" where
  "js_space c \<longleftrightarrow> (of_char c :: nat) \<in> {9, 10, 11, 12, 13, 32, 160}"

definition js_trim :: "string \<Rightarrow> string" where
  "js_trim s = rev (dropWhile js_space (rev (dropWhile js_space s)))"

lemma dropWhile_rev_fix:
  "s \<noteq> [] \<Longrightarrow> \<not> P (hd s) \<Longrightarrow> dropWhile P s = s"
  by (cases s) auto

lemma hd_js_trim: "js_trim s \<noteq> [] \<Longrightarrow> \<not> js_space (hd (js_trim s))"
proof -
  assume ne: "js_trim s \<noteq> []"
  let ?t = "dropWhile js_space s"
  have t: "?t \<noteq> []" using ne by (metis dropWhile.simps(1) js_trim_def rev.simps(1))
  then have hd: "\<not> js_space (hd ?t)" by (rule hd_dropWhile)
  obtain us where us: "rev ?t = us @ dropWhile js_space (rev ?t)"
    by (metis takeWhile_dropWhile_id)
  then have "?t = js_trim s @ rev us"
    by (metis js_trim_def rev_append rev_rev_ident)
  with ne have "hd ?t = hd (js_trim s)" by (metis hd_append2)
  with hd show ?thesis by simp
qed

lemma js_trim_idem [simp]: "js_trim (js_trim s) = js_trim s"
proof (cases "js_trim s = []")
  case True
  then show ?thesis by (simp only:) (simp add: js_trim_def)
next
  case False
  then have 1: "dropWhile js_space (js_trim s) = js_trim s"
    by (simp add: dropWhile_rev_fix hd_js_trim)
  let ?r = "dropWhile js_space (rev (dropWhile js_space s))"
  have "?r \<noteq> []" using False by (metis js_trim_def rev.simps(1))
  then have "\<not> js_space (hd ?r)" by (rule hd_dropWhile)
  with \<open>?r \<noteq> []\<close> have "dropWhile js_space ?r = ?r" by (rule dropWhile_rev_fix)
  with 1 show ?thesis by (simp add: js_trim_def)
qed

definition starts_with :: "string \<Rightarrow> string \<Rightarrow> bool" where
  "starts_with p s \<longleftrightarrow> take (length p) s = p"

lemma starts_with_append [simp]: "starts_with p (p @ s)"
  by (simp add: starts_with_def)

lemma starts_withE: "starts_with p s \<Longrightarrow> (\<And>r. s = p @ r \<Longrightarrow> thesis) \<Longrightarrow> thesis"
  by (metis append_take_drop_id starts_with_def)

definition js_includes :: "string \<Rightarrow> string \<Rightarrow> bool" where
  "js_includes s sub \<longleftrightarrow> list_ex (\<lambda>i. starts_with sub (drop i s)) [0..<Suc (length s)]"

text \<open>\<open>slice(0, n)\<close> and \<open>slice(-n)\<close>; a negative end counts from the end of the array.\<close>

definition slice_to :: "int \<Rightarrow> 'a list \<Rightarrow> 'a list" where
  "slice_to n xs = (if 0 \<le> n then take (nat n) xs else take (nat (int (length xs) + n)) xs)"

definition slice_last :: "int \<Rightarrow> 'a list \<Rightarrow> 'a list" where
  "slice_last n xs = drop (nat (int (length xs) - n)) xs"

lemma length_slice_to: "0 \<le> n \<Longrightarrow> int (length (slice_to n xs)) \<le> n"
  by (simp add: slice_to_def)

lemma length_slice_last: "0 \<le> n \<Longrightarrow> int (length (slice_last n xs)) \<le> n"
  by (simp add: slice_last_def)

lemma set_slice_to: "set (slice_to n xs) \<subseteq> set xs"
  by (auto simp: slice_to_def dest: in_set_takeD)

lemma set_slice_last: "set (slice_last n xs) \<subseteq> set xs"
  by (auto simp: slice_last_def dest: in_set_dropD)

text \<open>The last element of an array, \<open>undefined\<close> for an empty one.\<close>

definition last_opt :: "'a list \<Rightarrow> 'a option" where
  "last_opt xs = (if xs = [] then None else Some (last xs))"

definition first_opt :: "'a list \<Rightarrow> 'a option" where
  "first_opt xs = (if xs = [] then None else Some (hd xs))"

fun js_join :: "string \<Rightarrow> string list \<Rightarrow> string" where
  "js_join sep [] = []"
| "js_join sep [x] = x"
| "js_join sep (x # y # ys) = x @ sep @ js_join sep (y # ys)"

section \<open>Numbers\<close>

text \<open>A number of the language: a finite one, \<open>NaN\<close> or an infinity. \<open>NaN\<close> is unequal to itself and
  not ordered with anything.\<close>

datatype jnum = Fin rat | NaN | PInf | NInf

fun num_finite :: "jnum \<Rightarrow> bool" where
  "num_finite (Fin _) = True"
| "num_finite _ = False"

definition num_neq :: "jnum \<Rightarrow> jnum \<Rightarrow> bool" where
  "num_neq a b \<longleftrightarrow> a = NaN \<or> b = NaN \<or> a \<noteq> b"

fun num_less :: "jnum \<Rightarrow> jnum \<Rightarrow> bool" where
  "num_less (Fin a) (Fin b) = (a < b)"
| "num_less (Fin _) PInf = True"
| "num_less NInf (Fin _) = True"
| "num_less NInf PInf = True"
| "num_less _ _ = False"

fun num_is_integer :: "jnum \<Rightarrow> bool" where
  "num_is_integer (Fin q) = (q \<in> \<int>)"
| "num_is_integer _ = False"

definition max_safe_integer :: int where
  "max_safe_integer = 9007199254740991"

definition is_safe_integer :: "int \<Rightarrow> bool" where
  "is_safe_integer i \<longleftrightarrow> \<bar>i\<bar> \<le> max_safe_integer"

section \<open>Values of type unknown\<close>

datatype jsv =
    JUndef
  | JNull
  | JBool bool
  | JNum jnum
  | JStr string
  | JArr "jsv list"
  | JObj "(string \<times> jsv) list"

fun truthy :: "jsv \<Rightarrow> bool" where
  "truthy JUndef = False"
| "truthy JNull = False"
| "truthy (JBool b) = b"
| "truthy (JNum n) = (n \<noteq> Fin 0 \<and> n \<noteq> NaN)"
| "truthy (JStr s) = (s \<noteq> [])"
| "truthy (JArr _) = True"
| "truthy (JObj _) = True"

text \<open>Reading a property of a value: arrays have no named property the code reads.\<close>

fun js_prop :: "jsv \<Rightarrow> string \<Rightarrow> jsv" where
  "js_prop (JObj ps) k = (case map_of ps k of Some v \<Rightarrow> v | None \<Rightarrow> JUndef)"
| "js_prop _ k = JUndef"

fun as_str :: "jsv \<Rightarrow> string" where
  "as_str (JStr s) = s"
| "as_str _ = []"

text \<open>\<open>String(v)\<close>; finite numbers are rendered by \<open>shw\<close>.\<close>

fun js_String :: "(rat \<Rightarrow> string) \<Rightarrow> jsv \<Rightarrow> string" where
  "js_String shw JUndef = ''undefined''"
| "js_String shw JNull = ''null''"
| "js_String shw (JBool b) = (if b then ''true'' else ''false'')"
| "js_String shw (JNum n) = (case n of Fin q \<Rightarrow> shw q | NaN \<Rightarrow> ''NaN'' | PInf \<Rightarrow> ''Infinity'' | NInf \<Rightarrow> ''-Infinity'')"
| "js_String shw (JStr s) = s"
| "js_String shw (JArr xs) =
     js_join '','' (map (\<lambda>x. if x = JUndef \<or> x = JNull then [] else js_String shw x) xs)"
| "js_String shw (JObj ps) = ''[object Object]''"

section \<open>Dictionaries\<close>

type_synonym 'v obj = "(string \<times> 'v) list"

text \<open>A canonical array index: the decimal numeral, without leading zeros, of a number below
  \<open>2 ^ 32 - 1\<close>. JavaScript enumerates such keys first, in ascending order.\<close>

definition index_key :: "string \<Rightarrow> bool" where
  "index_key k \<longleftrightarrow> k \<noteq> [] \<and> (\<forall>c \<in> set k. is_digit c) \<and> (hd k \<noteq> CHR ''0'' \<or> length k = 1)
     \<and> parse_nat k < 2 ^ 32 - 1"

text \<open>The position of a new key among the present ones.\<close>

definition key_before :: "string \<Rightarrow> string \<Rightarrow> bool" where
  "key_before k k' \<longleftrightarrow> index_key k \<and> (\<not> index_key k' \<or> parse_nat k < parse_nat k')"

fun obj_insert :: "string \<Rightarrow> 'v \<Rightarrow> 'v obj \<Rightarrow> 'v obj" where
  "obj_insert k v [] = [(k, v)]"
| "obj_insert k v ((k', v') # ps) =
     (if key_before k k' then (k, v) # (k', v') # ps else (k', v') # obj_insert k v ps)"

fun kv_replace :: "'k \<Rightarrow> 'v \<Rightarrow> ('k \<times> 'v) list \<Rightarrow> ('k \<times> 'v) list" where
  "kv_replace k v [] = []"
| "kv_replace k v ((k', v') # ps) =
     (if k' = k then (k, v) # ps else (k', v') # kv_replace k v ps)"

definition obj_put :: "string \<Rightarrow> 'v \<Rightarrow> 'v obj \<Rightarrow> 'v obj" where
  "obj_put k v ps = (if k \<in> fst ` set ps then kv_replace k v ps else obj_insert k v ps)"

definition kv_delete :: "'k \<Rightarrow> ('k \<times> 'v) list \<Rightarrow> ('k \<times> 'v) list" where
  "kv_delete k ps = filter (\<lambda>p. fst p \<noteq> k) ps"

text \<open>A built-in \<open>Map\<close>: an existing key keeps its place, a new key goes last.\<close>

definition jmap_set :: "'k \<Rightarrow> 'v \<Rightarrow> ('k \<times> 'v) list \<Rightarrow> ('k \<times> 'v) list" where
  "jmap_set k v ps = (if k \<in> fst ` set ps then kv_replace k v ps else ps @ [(k, v)])"

text \<open>\<open>new Map(entries)\<close> and \<open>Object.fromEntries(entries)\<close>.\<close>

definition jmap_of :: "('k \<times> 'v) list \<Rightarrow> ('k \<times> 'v) list" where
  "jmap_of es = foldl (\<lambda>m e. jmap_set (fst e) (snd e) m) [] es"

definition obj_of :: "(string \<times> 'v) list \<Rightarrow> 'v obj" where
  "obj_of es = foldl (\<lambda>m e. obj_put (fst e) (snd e) m) [] es"

abbreviation obj_values :: "('k \<times> 'v) list \<Rightarrow> 'v list" where
  "obj_values ps \<equiv> map snd ps"

abbreviation obj_keys :: "('k \<times> 'v) list \<Rightarrow> 'k list" where
  "obj_keys ps \<equiv> map fst ps"

lemma map_of_kv_replace:
  "k \<in> fst ` set ps \<Longrightarrow> map_of (kv_replace k v ps) = (map_of ps)(k \<mapsto> v)"
  by (induction ps) (force simp: fun_eq_iff)+

lemma map_of_obj_insert:
  "k \<notin> fst ` set ps \<Longrightarrow> map_of (obj_insert k v ps) = (map_of ps)(k \<mapsto> v)"
  by (induction ps) (auto simp: fun_eq_iff)

lemma kv_replace_entries:
  "(k', v') \<in> set (kv_replace k v ps) \<Longrightarrow> k' = k \<and> v' = v \<or> (k', v') \<in> set ps"
  by (induction k v ps rule: kv_replace.induct) (auto split: if_splits)

lemma keys_kv_replace [simp]: "map fst (kv_replace k v ps) = map fst ps"
  by (induction ps) auto

lemma set_obj_insert [simp]: "set (obj_insert k v ps) = insert (k, v) (set ps)"
proof (induction ps)
  case (Cons p ps)
  then show ?case by (cases p) auto
qed simp

lemma distinct_obj_insert:
  "k \<notin> fst ` set ps \<Longrightarrow> distinct (map fst ps) \<Longrightarrow> distinct (map fst (obj_insert k v ps))"
  by (induction ps) force+

text \<open>The contract both kinds of dictionary satisfy: what a lookup returns after a store, which
  keys a store adds, and that keys stay distinct.\<close>

locale dictionary =
  fixes store :: "'k \<Rightarrow> 'v \<Rightarrow> ('k \<times> 'v) list \<Rightarrow> ('k \<times> 'v) list"
  assumes lookup_store: "map_of (store k v ps) = (map_of ps)(k \<mapsto> v)"
    and keys_store: "fst ` set (store k v ps) = insert k (fst ` set ps)"
    and distinct_store: "distinct (map fst ps) \<Longrightarrow> distinct (map fst (store k v ps))"
begin

lemma lookup_same: "map_of (store k v ps) k = Some v"
  by (simp add: lookup_store)

lemma lookup_other: "k' \<noteq> k \<Longrightarrow> map_of (store k v ps) k' = map_of ps k'"
  by (simp add: lookup_store)

lemma values_store:
  assumes "distinct (map fst ps)"
  shows "x \<in> snd ` set (store k v ps) \<Longrightarrow> x = v \<or> x \<in> snd ` set ps"
proof -
  assume "x \<in> snd ` set (store k v ps)"
  then obtain j where "(j, x) \<in> set (store k v ps)" by auto
  with distinct_store [OF assms] have "map_of (store k v ps) j = Some x" by simp
  then show ?thesis
    by (auto simp: lookup_store split: if_splits intro: map_of_SomeD rev_image_eqI)
qed

lemma lookup_fold:
  "map_of (foldl (\<lambda>m e. store (fst e) (snd e) m) ps es) = map_of ps ++ map_of (rev es)"
proof (induction es arbitrary: ps)
  case (Cons e es)
  then show ?case by (cases e) (auto simp: lookup_store fun_eq_iff map_add_def split: option.splits)
qed simp

lemma distinct_fold:
  "distinct (map fst ps) \<Longrightarrow> distinct (map fst (foldl (\<lambda>m e. store (fst e) (snd e) m) ps es))"
  by (induction es arbitrary: ps) (auto intro: distinct_store)

lemma keys_fold:
  "fst ` set (foldl (\<lambda>m e. store (fst e) (snd e) m) ps es) = fst ` set ps \<union> fst ` set es"
  by (induction es arbitrary: ps) (auto simp: keys_store)

end

interpretation jso: dictionary obj_put
proof (unfold_locales, goal_cases)
  case (1 k v ps)
  then show ?case by (simp add: obj_put_def map_of_kv_replace map_of_obj_insert)
next
  case (2 k v ps)
  have "k \<in> fst ` set ps \<Longrightarrow> fst ` set (kv_replace k v ps) = fst ` set ps"
    by (metis keys_kv_replace set_map)
  then show ?case by (auto simp: obj_put_def)
next
  case (3 ps k v)
  then show ?case by (simp add: obj_put_def distinct_obj_insert)
qed

interpretation jsm: dictionary jmap_set
proof (unfold_locales, goal_cases)
  case (1 k v ps)
  have "k \<notin> fst ` set ps \<Longrightarrow> map_of (ps @ [(k, v)]) = (map_of ps)(k \<mapsto> v)"
    by (auto simp: fun_eq_iff map_add_def split: option.splits)
       (metis map_of_eq_None_iff option.distinct(1))
  then show ?case by (simp add: jmap_set_def map_of_kv_replace)
next
  case (2 k v ps)
  have "k \<in> fst ` set ps \<Longrightarrow> fst ` set (kv_replace k v ps) = fst ` set ps"
    by (metis keys_kv_replace set_map)
  then show ?case by (auto simp: jmap_set_def)
next
  case (3 ps k v)
  then show ?case by (simp add: jmap_set_def)
qed

lemmas dict_simps [js_simps] =
  jso.lookup_store jso.keys_store jsm.lookup_store jsm.keys_store

declare jso.distinct_store [intro] jsm.distinct_store [intro]

lemma map_of_kv_delete [simp, js_simps]: "map_of (kv_delete k ps) = (map_of ps)(k := None)"
  by (induction ps) (auto simp: kv_delete_def fun_eq_iff)

lemma set_kv_delete: "set (kv_delete k ps) = {p \<in> set ps. fst p \<noteq> k}"
  by (simp add: kv_delete_def)

lemma distinct_kv_delete [intro]: "distinct (map fst ps) \<Longrightarrow> distinct (map fst (kv_delete k ps))"
  by (induction ps) (auto simp: kv_delete_def)

lemma map_of_jmap_of [js_simps]: "map_of (jmap_of es) = map_of (rev es)"
  by (simp add: jmap_of_def jsm.lookup_fold)

lemma distinct_jmap_of [simp]: "distinct (map fst (jmap_of es))"
  by (simp add: jmap_of_def jsm.distinct_fold)

lemma keys_jmap_of [simp]: "fst ` set (jmap_of es) = fst ` set es"
  by (simp add: jmap_of_def jsm.keys_fold)

lemma jmap_set_length: "length (jmap_set k v m) \<le> Suc (length m)"
proof -
  have "length (kv_replace k v m) = length m" by (metis keys_kv_replace length_map)
  then show ?thesis by (simp add: jmap_set_def)
qed

lemma jmap_fold_length:
  "length (foldl (\<lambda>m e. jmap_set (fst e) (snd e) m) m0 es) \<le> length m0 + length es"
proof (induction es arbitrary: m0)
  case (Cons e es)
  have "length (jmap_set (fst e) (snd e) m0) \<le> Suc (length m0)" by (rule jmap_set_length)
  with Cons.IH [of "jmap_set (fst e) (snd e) m0"] show ?case by simp
qed simp

lemma jmap_of_length: "length (jmap_of es) \<le> length es"
  using jmap_fold_length [of "[]" es] by (simp add: jmap_of_def)

lemma jmap_of_entries: "set (jmap_of es) \<subseteq> set es"
proof
  fix e
  assume "e \<in> set (jmap_of es)"
  then have "map_of (jmap_of es) (fst e) = Some (snd e)"
    by (metis distinct_jmap_of map_of_is_SomeI prod.collapse)
  then have "map_of (rev es) (fst e) = Some (snd e)" by (simp add: map_of_jmap_of)
  then show "e \<in> set es" by (metis map_of_SomeD prod.collapse set_rev)
qed

lemma jmap_of_keyed:
  assumes "\<And>k v. (k, v) \<in> set es \<Longrightarrow> k = f v"
  shows "map f (obj_values (jmap_of es)) = obj_keys (jmap_of es)"
  using assms jmap_of_entries [of es] by force

lemma map_of_obj_of [js_simps]: "map_of (obj_of es) = map_of (rev es)"
  by (simp add: obj_of_def jso.lookup_fold)

lemma distinct_obj_of [simp]: "distinct (map fst (obj_of es))"
  by (simp add: obj_of_def jso.distinct_fold)

lemma map_of_in_values: "map_of ps k = Some v \<Longrightarrow> v \<in> snd ` set ps"
  by (force dest: map_of_SomeD)

section \<open>Sorting with a comparison callback\<close>

fun js_insert :: "('a \<Rightarrow> 'a \<Rightarrow> int) \<Rightarrow> 'a \<Rightarrow> 'a list \<Rightarrow> 'a list" where
  "js_insert cmp x [] = [x]"
| "js_insert cmp x (y # ys) =
     (if cmp x y < 0 then x # y # ys else y # js_insert cmp x ys)"

definition js_sort :: "('a \<Rightarrow> 'a \<Rightarrow> int) \<Rightarrow> 'a list \<Rightarrow> 'a list" where
  "js_sort cmp xs = foldl (\<lambda>acc x. js_insert cmp x acc) [] xs"

lemma mset_js_insert [simp]: "mset (js_insert cmp x ys) = add_mset x (mset ys)"
  by (induction ys) auto

lemma set_js_insert [simp]: "set (js_insert cmp x ys) = insert x (set ys)"
  by (induction ys) auto

lemma mset_js_sort_acc:
  "mset (foldl (\<lambda>acc x. js_insert cmp x acc) ys xs) = mset ys + mset xs"
  by (induction xs arbitrary: ys) auto

lemma mset_js_sort [simp]: "mset (js_sort cmp xs) = mset xs"
  by (simp add: js_sort_def mset_js_sort_acc)

lemma set_js_sort [simp]: "set (js_sort cmp xs) = set xs"
  by (metis mset_js_sort set_mset_mset)

lemma length_js_sort [simp]: "length (js_sort cmp xs) = length xs"
  by (metis mset_js_sort size_mset)

lemma distinct_map_js_sort [simp]: "distinct (map f (js_sort cmp xs)) = distinct (map f xs)"
  by (metis mset_eq_imp_distinct_iff mset_js_sort mset_map)

lemma js_sort_Nil [simp]: "js_sort cmp [] = []"
  by (simp add: js_sort_def)

lemma js_sort_eq_Nil [simp]: "js_sort cmp xs = [] \<longleftrightarrow> xs = []"
  by (metis length_0_conv length_js_sort)

locale comparator =
  fixes cmp :: "'a \<Rightarrow> 'a \<Rightarrow> int"
  assumes cmp_flip: "cmp a b < 0 \<longleftrightarrow> 0 < cmp b a"
    and cmp_trans: "cmp a b \<le> 0 \<Longrightarrow> cmp b c \<le> 0 \<Longrightarrow> cmp a c \<le> 0"
begin

lemma cmp_total: "cmp a b \<le> 0 \<or> cmp b a \<le> 0"
  using cmp_flip [of a b] by linarith

lemma sorted_js_insert:
  "sorted_wrt (\<lambda>a b. cmp a b \<le> 0) ys \<Longrightarrow> sorted_wrt (\<lambda>a b. cmp a b \<le> 0) (js_insert cmp x ys)"
proof (induction ys)
  case (Cons y ys)
  show ?case
  proof (cases "cmp x y < 0")
    case True
    with Cons.prems show ?thesis by (auto intro: cmp_trans [of x y])
  next
    case False
    then have "cmp y x \<le> 0" using cmp_flip [of x y] cmp_flip [of y x] by linarith
    with False Cons show ?thesis by auto
  qed
qed simp

lemma sorted_js_sort_acc:
  "sorted_wrt (\<lambda>a b. cmp a b \<le> 0) ys \<Longrightarrow>
   sorted_wrt (\<lambda>a b. cmp a b \<le> 0) (foldl (\<lambda>acc x. js_insert cmp x acc) ys xs)"
  by (induction xs arbitrary: ys) (auto intro: sorted_js_insert)

lemma sorted_js_sort: "sorted_wrt (\<lambda>a b. cmp a b \<le> 0) (js_sort cmp xs)"
  by (simp add: js_sort_def sorted_js_sort_acc)

lemma hd_js_sort_least:
  assumes "x \<in> set xs"
  shows "cmp (hd (js_sort cmp xs)) x \<le> 0"
proof -
  from assms have "x \<in> set (js_sort cmp xs)" by simp
  then obtain y ys where s: "js_sort cmp xs = y # ys" by (cases "js_sort cmp xs") auto
  have "cmp y y \<le> 0" using cmp_total by blast
  moreover have "sorted_wrt (\<lambda>a b. cmp a b \<le> 0) (y # ys)" using sorted_js_sort s by metis
  ultimately show ?thesis using \<open>x \<in> set (js_sort cmp xs)\<close> by (auto simp: s)
qed

end

text \<open>The comparison callbacks of the code: a difference of keys, and two callbacks joined by
  \<open>||\<close>.\<close>

lemma comparator_diff: "comparator (\<lambda>a b. f a - f b)"
  by unfold_locales auto

lemma comparator_lex:
  assumes "comparator c1" and "comparator c2"
  shows "comparator (\<lambda>a b. numOr (c1 a b) (c2 a b))"
proof (unfold_locales, goal_cases)
  case (1 a b)
  then show ?case
    using comparator.cmp_flip [OF assms(1), of a b] comparator.cmp_flip [OF assms(1), of b a]
      comparator.cmp_flip [OF assms(2), of a b]
    by (auto simp: numOr_def)
next
  case (2 a b c)
  have *: "c1 a b \<le> 0" "c1 b c \<le> 0" using 2 by (auto simp: numOr_def split: if_splits)
  then have "c1 a c \<le> 0" by (rule comparator.cmp_trans [OF assms(1)])
  moreover have "c2 a c \<le> 0" if "c1 a c = 0"
  proof -
    have flip: "\<And>x y. c1 x y < 0 \<longleftrightarrow> 0 < c1 y x" by (rule comparator.cmp_flip [OF assms(1)])
    have "c1 c a \<le> 0" using that flip [of a c] by linarith
    then have "c1 b a \<le> 0" "c1 c b \<le> 0"
      using comparator.cmp_trans [OF assms(1)] * by blast+
    then have "c1 a b = 0" "c1 b c = 0" using * flip [of a b] flip [of b c] by linarith+
    then show ?thesis
      using 2 comparator.cmp_trans [OF assms(2), of a b c] by (simp add: numOr_def)
  qed
  ultimately show ?case by (auto simp: numOr_def)
qed

lemma comparator_map: "comparator c \<Longrightarrow> comparator (\<lambda>a b. c (f a) (f b))"
  unfolding comparator_def by blast

lemmas comparator_intros = comparator_diff comparator_lex comparator_map

text \<open>Comparison of strings by code units. \<open>localeCompare\<close> is implementation-defined: it is a
  parameter of the model wherever the code uses it, assumed to be a consistent comparison
  function; this one shows that such functions exist.\<close>

fun unit_compare :: "string \<Rightarrow> string \<Rightarrow> int" where
  "unit_compare [] [] = 0"
| "unit_compare [] (_ # _) = - 1"
| "unit_compare (_ # _) [] = 1"
| "unit_compare (c # cs) (d # ds) =
     numOr (int (of_char c) - int (of_char d)) (unit_compare cs ds)"

lemma unit_compare_flip: "unit_compare a b < 0 \<longleftrightarrow> 0 < unit_compare b a"
  by (induction a b rule: unit_compare.induct) (auto simp: numOr_def)

lemma unit_compare_trans:
  "unit_compare a b \<le> 0 \<Longrightarrow> unit_compare b c \<le> 0 \<Longrightarrow> unit_compare a c \<le> 0"
proof (induction a b arbitrary: c rule: unit_compare.induct)
  case (4 x xs y ys)
  then show ?case by (cases c) (auto simp: numOr_def split: if_splits)
next
  case 1
  then show ?case by (cases c) auto
next
  case 2
  then show ?case by (cases c) auto
qed auto

interpretation unit_cmp: comparator unit_compare
  by unfold_locales (use unit_compare_flip unit_compare_trans in blast)+

end
