(* ===== verification/TurnReducer.thy ===== *)
theory TurnReducer
  imports JsPrelude
begin

text \<open>
  The turn state machine of an agent: the data of
  \<open>ai-core-contract/src/runtime/TurnState.ts\<close> and the reducer of
  \<open>ai-organ-logic/src/runtime/TurnReducer.ts\<close>. A state or event of the code is a tagged
  union; here it is a datatype with one constructor per tag, in the order of the source. The
  reducer returns the next state and the effects its caller has to perform.

  Shown: terminal states absorb every event; cancellation always fails the turn; completions of
  an operation the state does not wait for change nothing; the turn counter moves only when a
  model call is requested in the drain state; the effect of a step names the operation its state
  waits for; and over a whole run a tool call is dispatched only after it was selected and then
  decided by the gate, with the selected name and arguments.
\<close>

section \<open>Data\<close>

datatype TurnStartReason = Fresh | ToolContinuation | CompressFollowup

datatype TurnStopReason =
  NoToolCalls | StopAfterTool | StopAfterFirstTool | StopCancelled | MaxIterations

datatype TurnCompressionReason = TokenThreshold | ReactivePromptTooLong | ManualCompression

datatype TurnHumanWaitReason = Clarification | Approval | Answer

datatype DenyReason = ToolDisabled | NetworkDisabled

datatype TurnToolGateDecision =
    GateAllow
  | GateDeny DenyReason string
  | GateDefer string string \<comment> \<open>message, id of the plan approval request waited for\<close>

datatype TurnState =
    Drain (turn: int)
  | StartLlm (turn: int) TurnStartReason
  | WaitLlm (turn: int) string string \<comment> \<open>operation, provider call\<close>
  | StartTool (turn: int) string string jsv \<comment> \<open>tool call, function, arguments\<close>
  | WaitTool (turn: int) string string string TurnToolGateDecision
  | WaitQuestionnaireParse (turn: int) string string string string
      \<comment> \<open>operation, tool call, questionnaire, raw text\<close>
  | WaitCompress (turn: int) string TurnCompressionReason
  | WaitHuman (turn: int) TurnHumanWaitReason
  | Completed (turn: int) TurnStopReason
  | Failed (turn: int) string

datatype TurnEvent =
    StartLlmRequested TurnStartReason
  | ProviderCallStarted string string
  | ProviderCompleted string bool
  | ProviderFailed string string
  | ToolCallSelected string string jsv
  | ToolGateDecided string TurnToolGateDecision
  | ToolCompleted string
  | ToolFailed string string
  | QuestionnaireParseStarted string string string string
      \<comment> \<open>operation, questionnaire, tool call, raw text\<close>
  | QuestionnaireParseCompleted string
  | CompressionStarted string TurnCompressionReason
  | CompressionCompleted string
  | HumanWaitRequested TurnHumanWaitReason
  | TurnCancelled string

datatype TurnEffect =
    PrepareProviderCall int TurnStartReason
  | AwaitProviderCall string string
  | DispatchToolCall string string string jsv TurnToolGateDecision
      \<comment> \<open>operation, tool call, function, arguments, gate decision\<close>
  | AwaitQuestionnaireParse string string string
  | AwaitCompression string TurnCompressionReason
  | AwaitHuman TurnHumanWaitReason

type_synonym TurnReducerResult = "TurnState \<times> TurnEffect list"

section \<open>The reducer\<close>

fun isTerminalTurnState :: "TurnState \<Rightarrow> bool" where
  "isTerminalTurnState (Completed _ _) = True"
| "isTerminalTurnState (Failed _ _) = True"
| "isTerminalTurnState _ = False"

definition startToolFromEvent :: "int \<Rightarrow> string \<Rightarrow> string \<Rightarrow> jsv \<Rightarrow> TurnReducerResult" where
  "startToolFromEvent t toolCallId funcName args = (StartTool t toolCallId funcName args, [])"

text \<open>The two sub-reducers take the fields of the state they are called in; the last equation
  returns that state unchanged.\<close>

fun reduceWaitLlm :: "int \<Rightarrow> string \<Rightarrow> string \<Rightarrow> TurnEvent \<Rightarrow> TurnReducerResult" where
  "reduceWaitLlm t opId callId (ProviderCompleted op hasToolCalls) =
     (if op = opId
      then (if hasToolCalls then (Drain t, []) else (Completed t NoToolCalls, []))
      else (WaitLlm t opId callId, []))"
| "reduceWaitLlm t opId callId (ProviderFailed op err) =
     (if op = opId then (Failed t err, []) else (WaitLlm t opId callId, []))"
| "reduceWaitLlm t opId callId (ToolCallSelected tc fn args) = startToolFromEvent t tc fn args"
| "reduceWaitLlm t opId callId _ = (WaitLlm t opId callId, [])"

fun reduceWaitTool ::
  "int \<Rightarrow> string \<Rightarrow> string \<Rightarrow> string \<Rightarrow> TurnToolGateDecision \<Rightarrow> TurnEvent \<Rightarrow> TurnReducerResult"
where
  "reduceWaitTool t opId tc fn g (ToolCompleted op) =
     (if op = opId then (Drain t, []) else (WaitTool t opId tc fn g, []))"
| "reduceWaitTool t opId tc fn g (ToolFailed op err) =
     (if op = opId then (Failed t err, []) else (WaitTool t opId tc fn g, []))"
| "reduceWaitTool t opId tc fn g (QuestionnaireParseStarted op q tc' raw) =
     (WaitQuestionnaireParse t op tc' q raw, [AwaitQuestionnaireParse op q tc'])"
| "reduceWaitTool t opId tc fn g (CompressionStarted op reason) =
     (WaitCompress t op reason, [AwaitCompression op reason])"
| "reduceWaitTool t opId tc fn g (HumanWaitRequested reason) =
     (WaitHuman t reason, [AwaitHuman reason])"
| "reduceWaitTool t opId tc fn g _ = (WaitTool t opId tc fn g, [])"

text \<open>The body of the switch: \<open>None\<close> where a case breaks out, so that the reducer returns the
  state it was given.\<close>

definition turnSwitch :: "TurnState \<Rightarrow> TurnEvent \<Rightarrow> TurnReducerResult option" where
  "turnSwitch state event = (case state of
     Drain t \<Rightarrow> (case event of
         StartLlmRequested reason \<Rightarrow>
           Some (StartLlm (t + 1) reason, [PrepareProviderCall (t + 1) reason])
       | ToolCallSelected tc fn args \<Rightarrow> Some (startToolFromEvent t tc fn args)
       | _ \<Rightarrow> None)
   | StartLlm t _ \<Rightarrow> (case event of
         ProviderCallStarted op callId \<Rightarrow>
           Some (WaitLlm t op callId, [AwaitProviderCall op callId])
       | _ \<Rightarrow> None)
   | WaitLlm t op callId \<Rightarrow> Some (reduceWaitLlm t op callId event)
   | StartTool t tc fn args \<Rightarrow> (case event of
         ToolGateDecided op g \<Rightarrow>
           Some (WaitTool t op tc fn g, [DispatchToolCall op tc fn args g])
       | _ \<Rightarrow> None)
   | WaitTool t op tc fn g \<Rightarrow> Some (reduceWaitTool t op tc fn g event)
   | WaitQuestionnaireParse t opId _ _ _ \<Rightarrow> (case event of
         QuestionnaireParseCompleted op \<Rightarrow> if op = opId then Some (Drain t, []) else None
       | _ \<Rightarrow> None)
   | WaitCompress t opId _ \<Rightarrow> (case event of
         CompressionCompleted op \<Rightarrow>
           if op = opId then Some (StartLlm t CompressFollowup, []) else None
       | _ \<Rightarrow> None)
   | WaitHuman _ _ \<Rightarrow> None
   | _ \<Rightarrow> None)"

definition turnReducer :: "TurnState \<Rightarrow> TurnEvent \<Rightarrow> TurnReducerResult" where
  "turnReducer state event =
     (if isTerminalTurnState state then (state, [])
      else case event of
        TurnCancelled reason \<Rightarrow> (Failed (turn state) reason, [])
      | _ \<Rightarrow> (case turnSwitch state event of Some r \<Rightarrow> r | None \<Rightarrow> (state, [])))"

text \<open>A run folds the reducer over the events and collects the effects in order.\<close>

fun turn_run :: "TurnState \<Rightarrow> TurnEvent list \<Rightarrow> TurnReducerResult" where
  "turn_run s [] = (s, [])"
| "turn_run s (e # es) =
     (let (s', fx) = turnReducer s e; (s'', fx') = turn_run s' es in (s'', fx @ fx'))"

section \<open>One step\<close>

lemmas reducer_defs = turnReducer_def turnSwitch_def startToolFromEvent_def

text \<open>The operation a state waits for, and the operation an event reports on.\<close>

fun waiting_op :: "TurnState \<Rightarrow> string option" where
  "waiting_op (WaitLlm _ op _) = Some op"
| "waiting_op (WaitTool _ op _ _ _) = Some op"
| "waiting_op (WaitQuestionnaireParse _ op _ _ _) = Some op"
| "waiting_op (WaitCompress _ op _) = Some op"
| "waiting_op _ = None"

fun completed_op :: "TurnEvent \<Rightarrow> string option" where
  "completed_op (ProviderCompleted op _) = Some op"
| "completed_op (ProviderFailed op _) = Some op"
| "completed_op (ToolCompleted op) = Some op"
| "completed_op (ToolFailed op _) = Some op"
| "completed_op (QuestionnaireParseCompleted op) = Some op"
| "completed_op (CompressionCompleted op) = Some op"
| "completed_op _ = None"

fun effect_op :: "TurnEffect \<Rightarrow> string option" where
  "effect_op (AwaitProviderCall op _) = Some op"
| "effect_op (DispatchToolCall op _ _ _ _) = Some op"
| "effect_op (AwaitQuestionnaireParse op _ _) = Some op"
| "effect_op (AwaitCompression op _) = Some op"
| "effect_op _ = None"

text \<open>A completion or failure report of an operation the turn is not waiting for, such as a
  late completion of an operation that was replaced, neither changes the state nor produces an
  effect.\<close>

theorem stale_completion_ignored:
  assumes "completed_op e = Some op" and "waiting_op s \<noteq> Some op"
  shows "turnReducer s e = (s, [])"
  using assms by (cases e; cases s) (auto simp: reducer_defs)

theorem stale_completion_ignored_witness:
  "turnReducer (WaitTool 3 ''op-2'' ''tc'' ''bash'' GateAllow) (ToolCompleted ''op-1'') =
     (WaitTool 3 ''op-2'' ''tc'' ''bash'' GateAllow, [])"
  by (rule stale_completion_ignored [where op = "''op-1''"]) simp_all

lemma turnReducer_terminal: "isTerminalTurnState s \<Longrightarrow> turnReducer s e = (s, [])"
  by (simp add: turnReducer_def)

lemma turn_run_terminal: "isTerminalTurnState s \<Longrightarrow> turn_run s es = (s, [])"
  by (induction es) (simp_all add: turnReducer_terminal)

text \<open>C10: completed and failed turns are final: no sequence of events changes them or produces
  an effect, cancellation included; and a cancellation in any other state ends the turn as failed
  with the cancellation's reason and the turn number unchanged.\<close>

theorem terminal_absorbing_and_cancel:
  "if isTerminalTurnState s then turn_run s es = (s, [])
   else turn_run s (TurnCancelled r # es) = (Failed (turn s) r, [])"
  by (simp add: turn_run_terminal turnReducer_def)

text \<open>The turn counter never decreases in a step, and it grows, by exactly one, only when a
  model call is requested in the drain state.\<close>

theorem turn_counter_step:
  "turn (fst (turnReducer s e)) =
     (if (\<exists>t reason. s = Drain t \<and> e = StartLlmRequested reason) then turn s + 1 else turn s)"
  by (cases s; cases e) (auto simp: reducer_defs)

text \<open>A step produces at most one effect, and an effect that starts an operation names
  exactly the operation the new state waits for, so that its completion will be accepted.\<close>

theorem effect_matches_waiting_state:
  "length (snd (turnReducer s e)) \<le> 1
   \<and> (\<forall>fx op. fx \<in> set (snd (turnReducer s e)) \<and> effect_op fx = Some op \<longrightarrow>
        waiting_op (fst (turnReducer s e)) = Some op)"
  by (cases s; cases e) (auto simp: reducer_defs)

theorem effect_matches_waiting_state_witness:
  "length (snd (turnReducer (StartLlm 1 Fresh) (ProviderCallStarted ''op'' ''call''))) \<le> 1
   \<and> waiting_op (fst (turnReducer (StartLlm 1 Fresh) (ProviderCallStarted ''op'' ''call''))) = Some ''op''"
  using effect_matches_waiting_state [of "StartLlm 1 Fresh" "ProviderCallStarted ''op'' ''call''"]
  by (simp add: reducer_defs)

section \<open>Whole runs\<close>

text \<open>The step facts the trace argument needs: the start-tool state is entered by a selection
  only, and a tool call is dispatched from that state by a gate decision only.\<close>

lemma enter_StartTool:
  "fst (turnReducer s e) = StartTool t tc fn args \<Longrightarrow>
     s = StartTool t tc fn args \<or> e = ToolCallSelected tc fn args"
  by (cases s; cases e) (auto simp: reducer_defs split: if_splits)

lemma dispatch_origin:
  "DispatchToolCall op tc fn args g \<in> set (snd (turnReducer s e)) \<Longrightarrow>
     (\<exists>t. s = StartTool t tc fn args) \<and> e = ToolGateDecided op g"
  by (cases s; cases e) (auto simp: reducer_defs split: if_splits)

lemma dispatch_traced:
  assumes "DispatchToolCall op tc fn args g \<in> set (snd (turn_run s es))"
  shows "(\<exists>es1 es2 es3. es = es1 @ ToolCallSelected tc fn args # es2 @ ToolGateDecided op g # es3)
    \<or> ((\<exists>t. s = StartTool t tc fn args) \<and> (\<exists>es2 es3. es = es2 @ ToolGateDecided op g # es3))"
  using assms
proof (induction es arbitrary: s)
  case (Cons e es)
  let ?s' = "fst (turnReducer s e)"
  from Cons.prems have
    "DispatchToolCall op tc fn args g \<in> set (snd (turnReducer s e)) \<or>
     DispatchToolCall op tc fn args g \<in> set (snd (turn_run ?s' es))"
    by (auto simp: split_beta Let_def)
  then show ?case
  proof
    assume "DispatchToolCall op tc fn args g \<in> set (snd (turnReducer s e))"
    from dispatch_origin [OF this] show ?thesis by blast
  next
    assume "DispatchToolCall op tc fn args g \<in> set (snd (turn_run ?s' es))"
    from Cons.IH [OF this] show ?thesis
    proof
      assume "\<exists>es1 es2 es3. es = es1 @ ToolCallSelected tc fn args # es2 @ ToolGateDecided op g # es3"
      then show ?thesis by (metis append_Cons)
    next
      assume "(\<exists>t. ?s' = StartTool t tc fn args) \<and> (\<exists>es2 es3. es = es2 @ ToolGateDecided op g # es3)"
      then obtain t es2 es3 where "?s' = StartTool t tc fn args"
        and es: "es = es2 @ ToolGateDecided op g # es3" by blast
      with enter_StartTool have "s = StartTool t tc fn args \<or> e = ToolCallSelected tc fn args" by blast
      with es show ?thesis by (metis append_Cons append_Nil)
    qed
  qed
qed simp

text \<open>C9: in every run that starts in the drain state, a tool call is dispatched only after it
  was selected, with the same id, function name and arguments, and after a later gate decision,
  whose operation and decision the dispatch carries.\<close>

theorem dispatch_only_selected_and_gated:
  assumes "DispatchToolCall op tc fn args g \<in> set (snd (turn_run (Drain t) es))"
  shows "\<exists>es1 es2 es3. es = es1 @ ToolCallSelected tc fn args # es2 @ ToolGateDecided op g # es3"
  using dispatch_traced [OF assms] by simp

theorem dispatch_only_selected_and_gated_witness:
  "\<exists>es1 es2 es3.
     [StartLlmRequested Fresh, ProviderCallStarted ''op1'' ''c1'', ProviderCompleted ''op1'' True,
      ToolCallSelected ''tc'' ''bash'' JNull, ToolGateDecided ''op2'' GateAllow]
     = es1 @ ToolCallSelected ''tc'' ''bash'' JNull # es2 @ ToolGateDecided ''op2'' GateAllow # es3"
  by (rule dispatch_only_selected_and_gated [where t = 0])
     (simp add: reducer_defs)

end
