(* ===== verification/ScrollModel.thy ===== *)
theory ScrollModel
  imports JsPrelude
begin

text \<open>
  The scroll controller of \<open>shared/packages/depa-scroll-logic\<close>: the data of
  \<open>depa-scroll-contract/src/index.ts\<close>, the geometry functions of \<open>geometry.ts\<close> and the transition
  function of \<open>index.ts\<close>. The code pushes effects onto an array it is given; the model returns the
  effects a function pushes, in order, beside the new state.

  Viewport positions are rationals (hosts report finite positions); heights, orders and the
  target of a user scroll, which the code checks with \<open>Number.isFinite\<close>, are \<open>jnum\<close>. Counts are
  integers. Two things are parameters: \<open>lc\<close>, the \<open>localeCompare\<close> of the host, and \<open>sameRef\<close>, which
  says whether an updated row is the very object it replaces (the code compares references).
\<close>

section \<open>Data\<close>

datatype ScrollOrder = Scalar jnum | OrderTuple "jnum list"

record 'p ScrollRow =
  row_id :: string
  row_order :: ScrollOrder
  row_contentRevision :: string
  row_payload :: 'p
  row_presentation :: "string option"
  row_estimatedHeight :: jnum

record 'p ScrollPage =
  page_rows :: "'p ScrollRow list"
  page_before :: "string option"
  page_after :: "string option"
  page_snapshot :: string
  page_hasEarlier :: bool
  page_hasLater :: bool

record SourceIdentity =
  sourceId :: string
  actorId :: string
  sourceEpoch :: int
  generation :: int

record RequestToken =
  tok_identity :: SourceIdentity
  tok_windowRevision :: int
  tok_snapshot :: "string option"
  tok_requestId :: int
  tok_intentRevision :: int

record CorrectionToken =
  ct_request :: RequestToken
  ct_correctionId :: int
  ct_layoutEpoch :: string

record RowMeasurement =
  ms_rowId :: string
  ms_contentRevision :: string
  ms_layoutEpoch :: string
  ms_height :: jnum

record ScrollGeometry =
  geo_width :: jnum
  geo_height :: jnum
  geo_scrollTop :: rat
  geo_scrollHeight :: rat
  geo_layoutEpoch :: string

record ReadingAnchor =
  anchor_rowId :: string
  anchor_rowOffset :: rat
  anchor_viewportOffset :: rat

datatype NavigationIntent = FollowLatest | BrowseAnchor ReadingAnchor

datatype PageDirection = Latest | Earlier | Later

record PageRequest =
  req_token :: RequestToken
  req_direction :: PageDirection
  req_cursor :: "string option"
  req_limit :: int

datatype PageFailureCode = StaleCursor | Timeout | Rejected | Budget | NoProgress

record PageFailure =
  fail_code :: PageFailureCode
  fail_message :: string

record ScrollCorrection =
  cor_token :: CorrectionToken
  cor_scrollTop :: rat

record ScrollDiagnostic =
  diag_code :: string
  diag_rowId :: "string option"

record ScrollConfig =
  pageSize :: int
  maxPages :: int
  maxLiveRows :: int
  maxDiagnostics :: int
  overscanViewports :: rat
  timeoutMs :: int

datatype ScrollStatus = StIdle | StLoading | StError | StStale | StExhausted

record 'p ScrollState =
  st_identity :: SourceIdentity
  st_snapshot :: "string option"
  st_pages :: "'p ScrollPage list"
  st_liveRows :: "'p ScrollRow list"
  st_liveHead :: "(string \<times> ScrollOrder) option"
  st_liveOverflow :: "int option option" \<comment> \<open>outer \<open>None\<close>: no overflow; inner: the refresh request\<close>
  st_measurements :: "RowMeasurement list"
  st_geometry :: ScrollGeometry
  st_intent :: NavigationIntent
  st_intentRevision :: int
  st_unreadCount :: int
  st_status :: ScrollStatus
  st_error :: "PageFailure option"
  st_pendingRequest :: "PageRequest option"
  st_pendingLiveIds :: "string list"
  st_failedRequest :: "PageRequest option"
  st_windowRevision :: int
  st_pendingCorrection :: "ScrollCorrection option"
  st_nextRequestId :: int
  st_nextCorrectionId :: int
  st_diagnostics :: "ScrollDiagnostic list"
  st_disposed :: bool

datatype 'p ScrollInput =
    InRequestPage PageDirection
  | InJumpToLatest
  | InRetry
  | InPageResult RequestToken "'p ScrollPage"
  | InPageError RequestToken PageFailure
  | InUserScroll jnum
  | InGeometry SourceIdentity ScrollGeometry "CorrectionToken option"
  | InMeasured SourceIdentity "RowMeasurement list"
  | InLive SourceIdentity "'p ScrollRow list"
  | InSwitchSource SourceIdentity
  | InCorrectionApplied CorrectionToken
  | InCancel
  | InDispose

datatype ScrollEffect =
    LoadPage PageRequest
  | CancelPage RequestToken
  | ApplyScroll ScrollCorrection
  | EmitDiagnostic ScrollDiagnostic

record 'p WindowRow =
  win_row :: "'p ScrollRow"
  win_top :: int
  win_height :: int

record 'p ScrollWindow =
  sw_rows :: "'p WindowRow list"
  sw_totalHeight :: int
  sw_topSpacer :: int
  sw_bottomSpacer :: int
  sw_scrollTop :: rat

type_synonym lcompare = "string \<Rightarrow> string \<Rightarrow> int"
type_synonym 'p transition = "'p ScrollState \<times> ScrollEffect list"

section \<open>Geometry\<close>

definition sameIdentity :: "SourceIdentity \<Rightarrow> SourceIdentity \<Rightarrow> bool" where
  "sameIdentity a b \<longleftrightarrow> sourceId a = sourceId b \<and> actorId a = actorId b
     \<and> sourceEpoch a = sourceEpoch b \<and> generation a = generation b"

fun orderParts :: "ScrollOrder \<Rightarrow> jnum list" where
  "orderParts (Scalar a) = [a]"
| "orderParts (OrderTuple as) = as"

fun comparePart :: "jnum list \<Rightarrow> jnum list \<Rightarrow> int option" where
  "comparePart (a # as) (b # bs) =
     (if num_less a b then Some (- 1)
      else if num_less b a then Some 1
      else comparePart as bs)"
| "comparePart _ _ = None"

definition compareScrollOrder :: "ScrollOrder \<Rightarrow> ScrollOrder \<Rightarrow> int" where
  "compareScrollOrder a b =
     (let left = orderParts a; right = orderParts b in
      case comparePart left right of
        Some c \<Rightarrow> c
      | None \<Rightarrow> int (length left) - int (length right))"

definition compareRowOrder ::
  "lcompare \<Rightarrow> string \<times> ScrollOrder \<Rightarrow> string \<times> ScrollOrder \<Rightarrow> int" where
  "compareRowOrder lc a b = numOr (compareScrollOrder (snd a) (snd b)) (lc (fst a) (fst b))"

definition row_key :: "'p ScrollRow \<Rightarrow> string \<times> ScrollOrder" where
  "row_key r = (row_id r, row_order r)"

definition orderedRows :: "lcompare \<Rightarrow> 'p ScrollRow list \<Rightarrow> 'p ScrollRow list" where
  "orderedRows lc rows =
     js_sort (\<lambda>a b. compareRowOrder lc (row_key a) (row_key b))
       (obj_values (jmap_of (map (\<lambda>r. (row_id r, r)) rows)))"

fun validScrollOrder :: "ScrollOrder \<Rightarrow> bool" where
  "validScrollOrder (Scalar a) = num_finite a"
| "validScrollOrder (OrderTuple as) = (as \<noteq> [] \<and> list_all num_finite as)"

text \<open>The copy of a tuple order is frozen; on immutable data the row is the same.\<close>

definition snapshotRowOrder :: "'p ScrollRow \<Rightarrow> 'p ScrollRow" where
  "snapshotRowOrder row = row"

definition pageRows :: "'p ScrollPage list \<Rightarrow> 'p ScrollRow list" where
  "pageRows pages = concat (map page_rows pages)"

definition hasLatestPage :: "'p ScrollState \<Rightarrow> bool" where
  "hasLatestPage s \<longleftrightarrow> st_pages s \<noteq> [] \<and> \<not> page_hasLater (last (st_pages s))"

definition retainedRows :: "lcompare \<Rightarrow> 'p ScrollState \<Rightarrow> 'p ScrollRow list" where
  "retainedRows lc s = orderedRows lc (pageRows (st_pages s) @ st_liveRows s)"

definition visibleRows :: "lcompare \<Rightarrow> 'p ScrollState \<Rightarrow> 'p ScrollRow list" where
  "visibleRows lc s =
     orderedRows lc (pageRows (st_pages s) @ (if hasLatestPage s then st_liveRows s else []))"

fun positiveHeight :: "jnum \<Rightarrow> int" where
  "positiveHeight (Fin q) = (if 0 < q then \<lceil>q\<rceil> else 1)"
| "positiveHeight _ = 1"

definition measurementMap :: "'p ScrollState \<Rightarrow> (string \<times> RowMeasurement) list" where
  "measurementMap s = jmap_of (map (\<lambda>m. (ms_rowId m, m)) (st_measurements s))"

definition rowHeight :: "'p ScrollState \<Rightarrow> 'p ScrollRow \<Rightarrow> int" where
  "rowHeight s row =
     positiveHeight (case map_of (measurementMap s) (row_id row) of
         Some m \<Rightarrow> if ms_contentRevision m = row_contentRevision row
                     \<and> ms_layoutEpoch m = geo_layoutEpoch (st_geometry s)
                   then ms_height m else row_estimatedHeight row
       | None \<Rightarrow> row_estimatedHeight row)"

fun layoutRows :: "('p ScrollRow \<Rightarrow> int) \<Rightarrow> int \<Rightarrow> 'p ScrollRow list \<Rightarrow> 'p WindowRow list" where
  "layoutRows h pos [] = []"
| "layoutRows h pos (r # rs) =
     \<lparr>win_row = r, win_top = pos, win_height = h r\<rparr> # layoutRows h (pos + h r) rs"

definition rowGeometry :: "lcompare \<Rightarrow> 'p ScrollState \<Rightarrow> 'p WindowRow list" where
  "rowGeometry lc s = layoutRows (rowHeight s) 0 (visibleRows lc s)"

definition totalHeight :: "'p WindowRow list \<Rightarrow> int" where
  "totalHeight rows = (case last_opt rows of Some l \<Rightarrow> win_top l + win_height l | None \<Rightarrow> 0)"

definition clampTop :: "jnum \<Rightarrow> int \<Rightarrow> jnum \<Rightarrow> rat" where
  "clampTop pos tot height =
     max 0 (min (case pos of Fin t \<Rightarrow> t | _ \<Rightarrow> 0)
                (max 0 (of_int tot - of_int (positiveHeight height))))"

definition anchorAt :: "lcompare \<Rightarrow> 'p ScrollState \<Rightarrow> rat \<Rightarrow> ReadingAnchor" where
  "anchorAt lc s pos =
     (let rows = rowGeometry lc s;
          entry = orElse (find (\<lambda>item. pos < of_int (win_top item + win_height item)) rows)
                    (last_opt rows)
      in \<lparr>anchor_rowId = (case entry of Some e \<Rightarrow> row_id (win_row e) | None \<Rightarrow> []),
          anchor_rowOffset = (case entry of
              Some e \<Rightarrow> max 0 (min (pos - of_int (win_top e)) (of_int (win_height e) - 1))
            | None \<Rightarrow> 0),
          anchor_viewportOffset = 0\<rparr>)"

definition pruneMeasurements :: "lcompare \<Rightarrow> 'p ScrollState \<Rightarrow> 'p ScrollState" where
  "pruneMeasurements lc s =
     (let retained = jmap_of (map (\<lambda>r. (row_id r, r)) (retainedRows lc s)) in
      s\<lparr>st_measurements := filter (\<lambda>m.
          (case map_of retained (ms_rowId m) of
             Some r \<Rightarrow> row_contentRevision r = ms_contentRevision m
           | None \<Rightarrow> False)
          \<and> ms_layoutEpoch m = geo_layoutEpoch (st_geometry s)) (st_measurements s)\<rparr>)"

section \<open>The controller\<close>

definition createScrollState :: "SourceIdentity \<Rightarrow> ScrollGeometry \<Rightarrow> 'p ScrollState" where
  "createScrollState identity geometry =
     \<lparr>st_identity = identity, st_snapshot = None, st_pages = [], st_liveRows = [],
      st_liveHead = None, st_liveOverflow = None, st_measurements = [], st_geometry = geometry,
      st_intent = FollowLatest, st_intentRevision = 0, st_unreadCount = 0,
      st_status = StIdle, st_error = None, st_pendingRequest = None, st_pendingLiveIds = [],
      st_failedRequest = None, st_windowRevision = 0, st_pendingCorrection = None,
      st_nextRequestId = 1, st_nextCorrectionId = 1, st_diagnostics = [], st_disposed = False\<rparr>"

definition checkConfig :: "ScrollConfig \<Rightarrow> unit result" where
  "checkConfig c =
     (let bad = (\<lambda>v. \<not> is_safe_integer v \<or> v < 1) in
      if bad (pageSize c) then Inl ''Invalid scroll pageSize''
      else if bad (maxPages c) then Inl ''Invalid scroll maxPages''
      else if bad (maxLiveRows c) then Inl ''Invalid scroll maxLiveRows''
      else if bad (maxDiagnostics c) then Inl ''Invalid scroll maxDiagnostics''
      else if bad (timeoutMs c) then Inl ''Invalid scroll timeoutMs''
      else if overscanViewports c < 0 then Inl ''Invalid scroll overscanViewports''
      else Inr ())"

definition diagnostic :: "'p ScrollState \<Rightarrow> ScrollDiagnostic \<Rightarrow> ScrollConfig \<Rightarrow> 'p transition" where
  "diagnostic s item c =
     (s\<lparr>st_diagnostics := slice_last (maxDiagnostics c) (st_diagnostics s @ [item])\<rparr>,
      [EmitDiagnostic item])"

definition matchesRequest :: "RequestToken \<Rightarrow> RequestToken \<Rightarrow> bool" where
  "matchesRequest a b \<longleftrightarrow> sameIdentity (tok_identity a) (tok_identity b)
     \<and> tok_requestId a = tok_requestId b \<and> tok_snapshot a = tok_snapshot b
     \<and> tok_windowRevision a = tok_windowRevision b \<and> tok_intentRevision a = tok_intentRevision b"

definition matchesCorrection :: "'p ScrollState \<Rightarrow> CorrectionToken \<Rightarrow> bool" where
  "matchesCorrection s token =
     (case st_pendingCorrection s of
        None \<Rightarrow> False
      | Some cor \<Rightarrow>
          matchesRequest (ct_request (cor_token cor)) (ct_request token)
          \<and> ct_correctionId (cor_token cor) = ct_correctionId token
          \<and> ct_layoutEpoch token = geo_layoutEpoch (st_geometry s)
          \<and> tok_intentRevision (ct_request token) = st_intentRevision s)"

definition acceptsPage :: "'p ScrollState \<Rightarrow> RequestToken \<Rightarrow> bool" where
  "acceptsPage s token =
     (case st_pendingRequest s of
        None \<Rightarrow> False
      | Some req \<Rightarrow> matchesRequest (req_token req) token
          \<and> sameIdentity (st_identity s) (tok_identity token)
          \<and> tok_windowRevision token = st_windowRevision s)"

text \<open>The target of a correction. In browse mode the anchor's row is looked up, and an evicted
  anchor moves to the first row at or after its old order.\<close>

definition correctAnchor ::
  "lcompare \<Rightarrow> 'p ScrollState \<Rightarrow> 'p ScrollState \<Rightarrow> ReadingAnchor \<Rightarrow> ScrollConfig
    \<Rightarrow> 'p transition \<times> jnum" where
  "correctAnchor lc state previous anchor c =
     (let rows = rowGeometry lc state;
          (entry, anchor', (state', fx)) =
            (case find (\<lambda>i. row_id (win_row i) = anchor_rowId anchor) rows of
               Some e \<Rightarrow> (e, anchor, (state, []))
             | None \<Rightarrow>
                 let old = find (\<lambda>i. row_id (win_row i) = anchor_rowId anchor) (rowGeometry lc previous);
                     oldOrder = (case old of Some o' \<Rightarrow> row_order (win_row o') | None \<Rightarrow> Scalar (Fin 0));
                     e = nullish (find (\<lambda>i. 0 \<le> compareScrollOrder (row_order (win_row i)) oldOrder) rows)
                           (last rows)
                 in (e, anchor\<lparr>anchor_rowId := row_id (win_row e)\<rparr>,
                     diagnostic state
                       \<lparr>diag_code = ''anchor-evicted'', diag_rowId = Some (anchor_rowId anchor)\<rparr> c));
          offset = min (max 0 (anchor_rowOffset anchor')) (of_int (win_height entry) - 1);
          anchor'' = anchor'\<lparr>anchor_rowOffset := offset\<rparr>
      in ((state'\<lparr>st_intent := BrowseAnchor anchor''\<rparr>, fx),
          Fin (of_int (win_top entry) + offset - anchor_viewportOffset anchor'')))"

definition correct ::
  "lcompare \<Rightarrow> 'p ScrollState \<Rightarrow> 'p ScrollState \<Rightarrow> ScrollConfig \<Rightarrow> 'p transition" where
  "correct lc next previous c =
     (let rows = rowGeometry lc next in
      if rows = [] then (next\<lparr>st_pendingCorrection := None\<rparr>, [])
      else
        let ((state, fx), target) =
              (case st_intent next of
                 BrowseAnchor anchor \<Rightarrow> correctAnchor lc next previous anchor c
               | FollowLatest \<Rightarrow>
                   ((next, []),
                    case geo_height (st_geometry next) of
                      Fin h \<Rightarrow> Fin (of_int (totalHeight rows) - h)
                    | _ \<Rightarrow> NaN));
            scrollTop = clampTop target (totalHeight rows) (geo_height (st_geometry state));
            token = \<lparr>ct_request = \<lparr>tok_identity = st_identity state,
                        tok_windowRevision = st_windowRevision state,
                        tok_snapshot = st_snapshot state,
                        tok_requestId = st_nextRequestId state,
                        tok_intentRevision = st_intentRevision state\<rparr>,
                     ct_correctionId = st_nextCorrectionId state,
                     ct_layoutEpoch = geo_layoutEpoch (st_geometry state)\<rparr>;
            correction = \<lparr>cor_token = token, cor_scrollTop = scrollTop\<rparr>
        in (state\<lparr>st_pendingCorrection := Some correction,
                  st_nextCorrectionId := st_nextCorrectionId state + 1\<rparr>,
            fx @ [ApplyScroll correction]))"

definition cancelPending :: "'p ScrollState \<Rightarrow> 'p transition" where
  "cancelPending s =
     (s\<lparr>st_pendingRequest := None, st_pendingLiveIds := [], st_pendingCorrection := None,
        st_status := StIdle, st_error := None\<rparr>,
      case st_pendingRequest s of Some r \<Rightarrow> [CancelPage (req_token r)] | None \<Rightarrow> [])"

definition beginBrowse :: "lcompare \<Rightarrow> 'p ScrollState \<Rightarrow> rat \<Rightarrow> 'p transition" where
  "beginBrowse lc s scrollTop =
     (let (next, fx) =
            (if map_option req_direction (st_pendingRequest s) = Some Latest
             then cancelPending s else (s, []))
      in (next\<lparr>st_geometry := (st_geometry next)\<lparr>geo_scrollTop := scrollTop\<rparr>,
               st_pendingCorrection := None,
               st_intentRevision := st_intentRevision next + 1,
               st_intent := BrowseAnchor (anchorAt lc next scrollTop)\<rparr>, fx))"

definition emptyCursor :: "string option \<Rightarrow> bool" where
  "emptyCursor cur \<longleftrightarrow> cur = None \<or> cur = Some []"

definition beginPage :: "'p ScrollState \<Rightarrow> PageDirection \<Rightarrow> ScrollConfig \<Rightarrow> 'p transition" where
  "beginPage s direction c =
     (if st_pendingRequest s \<noteq> None then (s, [])
      else
        let edge = (if direction = Earlier then first_opt (st_pages s) else last_opt (st_pages s));
            latest = (direction = Latest);
            more = (case edge of None \<Rightarrow> False
                    | Some p \<Rightarrow> if direction = Earlier then page_hasEarlier p else page_hasLater p)
        in if \<not> latest \<and> \<not> more then (s\<lparr>st_status := StExhausted\<rparr>, [])
           else
             let cursor = (if latest then None
                           else case edge of None \<Rightarrow> None
                                | Some p \<Rightarrow> if direction = Earlier then page_before p else page_after p)
             in if \<not> latest \<and> emptyCursor cursor then
                  (s\<lparr>st_status := StError,
                     st_error := Some \<lparr>fail_code = NoProgress, fail_message = ''Missing page boundary''\<rparr>\<rparr>, [])
                else
                  let request =
                        \<lparr>req_token = \<lparr>tok_identity = st_identity s,
                                     tok_windowRevision = st_windowRevision s,
                                     tok_snapshot = (if latest then None else st_snapshot s),
                                     tok_requestId = st_nextRequestId s,
                                     tok_intentRevision = st_intentRevision s\<rparr>,
                         req_direction = direction, req_cursor = cursor, req_limit = pageSize c\<rparr>
                  in (s\<lparr>st_pendingRequest := Some request, st_pendingLiveIds := [],
                        st_failedRequest := None, st_nextRequestId := st_nextRequestId s + 1,
                        st_liveOverflow :=
                          (if latest \<and> st_liveOverflow s \<noteq> None
                           then Some (Some (tok_requestId (req_token request)))
                           else st_liveOverflow s),
                        st_status := StLoading, st_error := None\<rparr>,
                      [LoadPage request]))"

definition latest :: "'p ScrollState \<Rightarrow> ScrollConfig \<Rightarrow> 'p transition" where
  "latest s c =
     (let (next, fx) = cancelPending s;
          (s', fx') = beginPage (next\<lparr>st_windowRevision := st_windowRevision next + 1,
                                     st_intentRevision := st_intentRevision next + 1,
                                     st_intent := FollowLatest\<rparr>) Latest c
      in (s', fx @ fx'))"

definition failed :: "'p ScrollState \<Rightarrow> PageFailure \<Rightarrow> 'p ScrollState" where
  "failed s err =
     s\<lparr>st_failedRequest := st_pendingRequest s, st_pendingRequest := None, st_pendingLiveIds := [],
       st_status := (if fail_code err = StaleCursor then StStale else StError),
       st_error := Some err\<rparr>"

text \<open>Row bodies belong to one page only: of a row id the first page keeps the row.\<close>

fun dedupeRows :: "string list \<Rightarrow> 'p ScrollRow list \<Rightarrow> 'p ScrollRow list \<times> string list" where
  "dedupeRows seen [] = ([], seen)"
| "dedupeRows seen (r # rs) =
     (if row_id r \<in> set seen then dedupeRows seen rs
      else let (rs', seen') = dedupeRows (row_id r # seen) rs in (r # rs', seen'))"

fun dedupePages :: "string list \<Rightarrow> 'p ScrollPage list \<Rightarrow> 'p ScrollPage list" where
  "dedupePages seen [] = []"
| "dedupePages seen (p # ps) =
     (let (rs, seen') = dedupeRows seen (page_rows p) in p\<lparr>page_rows := rs\<rparr> # dedupePages seen' ps)"

definition exhaustEdge :: "bool \<Rightarrow> 'p ScrollPage list \<Rightarrow> 'p ScrollPage list" where
  "exhaustEdge earlier pages =
     (let edge = (if earlier then 0 else length pages - 1) in
      map (\<lambda>(i, p). if i \<noteq> edge then p
                     else if earlier then p\<lparr>page_before := None, page_hasEarlier := False\<rparr>
                     else p\<lparr>page_after := None, page_hasLater := False\<rparr>)
        (enumerate 0 pages))"

definition mergePages ::
  "PageDirection \<Rightarrow> 'p ScrollPage \<Rightarrow> 'p ScrollPage list \<Rightarrow> ScrollConfig \<Rightarrow> 'p ScrollPage list" where
  "mergePages direction normalized pages c =
     dedupePages [] (case direction of
         Latest \<Rightarrow> [normalized]
       | Earlier \<Rightarrow> slice_to (maxPages c) (normalized # pages)
       | Later \<Rightarrow> slice_last (maxPages c) (pages @ [normalized]))"

text \<open>The checks of a page against the pending request, in the order of the code: the first
  failure, if any.\<close>

definition pageFailure ::
  "'p ScrollState \<Rightarrow> PageRequest \<Rightarrow> 'p ScrollPage \<Rightarrow> ScrollConfig \<Rightarrow> PageFailure option" where
  "pageFailure s request page c =
     (let oldIds = map row_id (pageRows (st_pages s));
          progress = (\<exists>row \<in> set (page_rows page). row_id row \<notin> set oldIds);
          earlier = (req_direction request = Earlier);
          adjacent = (req_direction request \<noteq> Latest);
          continuing = (if earlier then page_hasEarlier page else page_hasLater page);
          nextCursor = (if earlier then page_before page else page_after page)
      in if adjacent \<and> Some (page_snapshot page) \<noteq> st_snapshot s
         then Some \<lparr>fail_code = StaleCursor, fail_message = ''Page snapshot changed''\<rparr>
         else if int (length (page_rows page)) > pageSize c
         then Some \<lparr>fail_code = Budget, fail_message = ''Page exceeds row budget''\<rparr>
         else if (\<exists>row \<in> set (page_rows page). row_id row = [] \<or> \<not> validScrollOrder (row_order row))
         then Some \<lparr>fail_code = Rejected, fail_message = ''Invalid row identity or order''\<rparr>
         else if adjacent \<and> continuing \<and> (emptyCursor nextCursor \<or> nextCursor = req_cursor request)
         then Some \<lparr>fail_code = NoProgress, fail_message = ''Page cursor did not advance''\<rparr>
         else if adjacent \<and> \<not> progress \<and> continuing
         then Some \<lparr>fail_code = NoProgress, fail_message = ''Page did not advance visible rows''\<rparr>
         else None)"

definition normalizePage ::
  "lcompare \<Rightarrow> 'p ScrollState \<Rightarrow> PageRequest \<Rightarrow> 'p ScrollPage \<Rightarrow> 'p ScrollPage" where
  "normalizePage lc s request page =
     (let live = jmap_of (map (\<lambda>r. (row_id r, r))
            (filter (\<lambda>r. req_direction request \<noteq> Latest \<or> row_id r \<in> set (st_pendingLiveIds s))
              (st_liveRows s)))
      in page\<lparr>page_rows := orderedRows lc
           (map (\<lambda>r. nullish (map_of live (row_id r)) (snapshotRowOrder r)) (page_rows page))\<rparr>)"

text \<open>After a page was taken: recover dropped live rows through the source when following.\<close>

definition recoverOverflow ::
  "'p ScrollState \<Rightarrow> bool \<Rightarrow> ScrollConfig \<Rightarrow> 'p transition \<Rightarrow> 'p transition" where
  "recoverOverflow s overflow c t =
     (if overflow \<and> st_intent s = FollowLatest
      then let (s', fx') = beginPage (fst t) Latest c in (s', snd t @ fx')
      else t)"

definition acceptPage ::
  "lcompare \<Rightarrow> 'p ScrollState \<Rightarrow> PageRequest \<Rightarrow> 'p ScrollPage \<Rightarrow> ScrollConfig \<Rightarrow> 'p transition" where
  "acceptPage lc s request page c =
     (case pageFailure s request page c of
        Some err \<Rightarrow> (failed s err, [])
      | None \<Rightarrow>
          let direction = req_direction request;
              continuing = (if direction = Earlier then page_hasEarlier page else page_hasLater page)
          in if direction \<noteq> Latest \<and> page_rows page = [] then
               recoverOverflow s (st_liveOverflow s \<noteq> None) c
                 (s\<lparr>st_pages := exhaustEdge (direction = Earlier) (st_pages s),
                    st_pendingRequest := None, st_pendingLiveIds := [], st_failedRequest := None,
                    st_error := None, st_status := StExhausted\<rparr>, [])
             else
               let normalized = normalizePage lc s request page;
                   pages = mergePages direction normalized (st_pages s) c;
                   unreadCount = (if st_intent s = FollowLatest then 0 else st_unreadCount s);
                   liveRows = (if direction = Latest
                     then filter (\<lambda>row. page_rows normalized \<noteq> []
                              \<and> 0 \<le> compareScrollOrder (row_order row) (row_order (hd (page_rows normalized)))
                              \<and> row_id row \<notin> row_id ` set (page_rows normalized)) (st_liveRows s)
                     else st_liveRows s);
                   liveOverflow = (if direction = Latest
                       \<and> st_liveOverflow s = Some (Some (tok_requestId (req_token request)))
                     then None else st_liveOverflow s);
                   next = pruneMeasurements lc
                     (s\<lparr>st_pages := pages, st_liveRows := liveRows, st_liveOverflow := liveOverflow,
                        st_snapshot := Some (page_snapshot page), st_pendingRequest := None,
                        st_pendingLiveIds := [], st_failedRequest := None,
                        st_status := (if continuing then StIdle else StExhausted),
                        st_error := None, st_unreadCount := unreadCount\<rparr>)
               in recoverOverflow s (liveOverflow \<noteq> None) c (correct lc next s c))"

definition observeGeometry ::
  "lcompare \<Rightarrow> 'p ScrollState \<Rightarrow> SourceIdentity \<Rightarrow> ScrollGeometry \<Rightarrow> CorrectionToken option
    \<Rightarrow> ScrollConfig \<Rightarrow> 'p transition" where
  "observeGeometry lc s identity geo correctionToken c =
     (if \<not> sameIdentity (st_identity s) identity then (s, [])
      else if (case correctionToken of None \<Rightarrow> False | Some t \<Rightarrow> \<not> matchesCorrection s t) then (s, [])
      else
        let old = st_geometry s;
            geometry = geo\<lparr>geo_height := Fin (of_int (positiveHeight (geo_height geo))),
                           geo_width := Fin (of_int (positiveHeight (geo_width geo))),
                           geo_scrollTop := max 0 (geo_scrollTop geo)\<rparr>;
            rowLayoutChanged = (geo_layoutEpoch geometry \<noteq> geo_layoutEpoch old
                                \<or> num_neq (geo_width geometry) (geo_width old));
            layoutChanged = (rowLayoutChanged \<or> num_neq (geo_height geometry) (geo_height old)
                             \<or> geo_scrollHeight geometry \<noteq> geo_scrollHeight old);
            moved = (geo_scrollTop geometry \<noteq> geo_scrollTop old);
            next = s\<lparr>st_geometry := geometry\<rparr>
        in if layoutChanged then
             correct lc (next\<lparr>st_measurements := (if rowLayoutChanged then [] else st_measurements s),
                              st_pendingCorrection := None\<rparr>) s c
           else if correctionToken \<noteq> None then (next\<lparr>st_pendingCorrection := None\<rparr>, [])
           else if moved then beginBrowse lc next (geo_scrollTop geometry)
           else (next, []))"

text \<open>The branch for measurements reported by the renderer.\<close>

definition measureRows ::
  "lcompare \<Rightarrow> 'p ScrollState \<Rightarrow> SourceIdentity \<Rightarrow> RowMeasurement list \<Rightarrow> ScrollConfig \<Rightarrow> 'p transition"
where
  "measureRows lc s identity items c =
     (if \<not> sameIdentity (st_identity s) identity then (s, [])
      else
        let retained = jmap_of (map (\<lambda>r. (row_id r, r)) (retainedRows lc s));
            accepted = filter (\<lambda>m.
                (case map_of retained (ms_rowId m) of
                   Some r \<Rightarrow> row_contentRevision r = ms_contentRevision m | None \<Rightarrow> False)
                \<and> ms_layoutEpoch m = geo_layoutEpoch (st_geometry s)
                \<and> num_finite (ms_height m) \<and> num_less (Fin 0) (ms_height m)) items;
            measurements = foldl (\<lambda>mm m. jmap_set (ms_rowId m) m mm) (measurementMap s) accepted;
            next = pruneMeasurements lc (s\<lparr>st_measurements := obj_values measurements\<rparr>);
            changed = (length (st_measurements next) \<noteq> length (st_measurements s)
              \<or> (\<exists>(item, old) \<in> set (zip (st_measurements next) (st_measurements s)).
                    ms_rowId item \<noteq> ms_rowId old \<or> num_neq (ms_height item) (ms_height old)
                    \<or> ms_contentRevision item \<noteq> ms_contentRevision old
                    \<or> ms_layoutEpoch item \<noteq> ms_layoutEpoch old))
        in if changed then correct lc next s c else (s, []))"

text \<open>The branch for live rows pushed by the source: invalid rows are reported and dropped.\<close>

fun reportInvalid ::
  "'p ScrollState \<Rightarrow> 'p ScrollRow list \<Rightarrow> ScrollConfig \<Rightarrow> 'p transition" where
  "reportInvalid s [] c = (s, [])"
| "reportInvalid s (r # rs) c =
     (if row_id r \<noteq> [] \<and> validScrollOrder (row_order r) then reportInvalid s rs c
      else let (s1, fx1) = diagnostic s \<lparr>diag_code = ''invalid-row'', diag_rowId = Some (row_id r)\<rparr> c;
               (s2, fx2) = reportInvalid s1 rs c
           in (s2, fx1 @ fx2))"

definition incomingRows :: "lcompare \<Rightarrow> 'p ScrollRow list \<Rightarrow> 'p ScrollRow list" where
  "incomingRows lc rows = orderedRows lc
     (map snapshotRowOrder (filter (\<lambda>r. row_id r \<noteq> [] \<and> validScrollOrder (row_order r)) rows))"

text \<open>The live buffer after the incoming rows, and whether rows had to be dropped.\<close>

definition liveBuffer ::
  "lcompare \<Rightarrow> 'p ScrollState \<Rightarrow> 'p ScrollRow list \<Rightarrow> ScrollConfig \<Rightarrow> 'p ScrollRow list \<times> bool" where
  "liveBuffer lc s incoming c =
     (let updates = jmap_of (map (\<lambda>r. (row_id r, r)) incoming);
          allLive = orderedRows lc (st_liveRows s @ incoming);
          retainedLive = map (\<lambda>r. nullish (map_of updates (row_id r)) r) (st_liveRows s);
          additions = filter (\<lambda>r. row_id r \<notin> row_id ` set (st_liveRows s)) incoming;
          overflowed = (int (length allLive) > maxLiveRows c)
      in if st_liveOverflow s \<noteq> None then (retainedLive, additions \<noteq> [])
         else if overflowed then
           (orderedRows lc (retainedLive
              @ slice_to (maxLiveRows c - int (length retainedLive)) additions), True)
         else (allLive, False))"

definition liveRowsInput ::
  "lcompare \<Rightarrow> ('p ScrollRow \<Rightarrow> 'p ScrollRow \<Rightarrow> bool) \<Rightarrow> 'p ScrollState \<Rightarrow> SourceIdentity
    \<Rightarrow> 'p ScrollRow list \<Rightarrow> ScrollConfig \<Rightarrow> 'p transition" where
  "liveRowsInput lc sameRef s identity rows c =
     (if \<not> sameIdentity (st_identity s) identity then (s, [])
      else
        let (reported, fx0) = reportInvalid s rows c;
            incoming = incomingRows lc rows;
            updates = jmap_of (map (\<lambda>r. (row_id r, r)) incoming);
            known = map row_id (st_liveRows s @ pageRows (st_pages s));
            pages = map (\<lambda>p. p\<lparr>page_rows :=
                map (\<lambda>r. nullish (map_of updates (row_id r)) r) (page_rows p)\<rparr>) (st_pages s);
            (liveRows, overflowed) = liveBuffer lc s incoming c;
            newer = (\<lambda>row. case st_liveHead s of
                None \<Rightarrow> True | Some h \<Rightarrow> 0 < compareRowOrder lc (row_key row) h);
            liveHead = (case last_opt incoming of
                Some newest \<Rightarrow> if newer newest then Some (row_key newest) else st_liveHead s
              | None \<Rightarrow> st_liveHead s);
            unreadCount = (if st_intent s = FollowLatest then 0
              else st_unreadCount s
                + int (length (filter (\<lambda>r. row_id r \<notin> set known \<and> newer r) incoming)));
            pendingLiveIds =
              (if map_option req_direction (st_pendingRequest s) = Some Latest
               then map row_id (filter (\<lambda>r. row_id r \<in> set (st_pendingLiveIds s)
                        \<or> map_of updates (row_id r) \<noteq> None) liveRows)
               else []);
            next = pruneMeasurements lc
              (reported\<lparr>st_pages := pages, st_liveRows := liveRows, st_liveHead := liveHead,
                 st_unreadCount := unreadCount, st_pendingLiveIds := pendingLiveIds,
                 st_liveOverflow := (if overflowed then Some None else st_liveOverflow s)\<rparr>);
            visibleChanged = (\<exists>r \<in> set (pageRows (st_pages s)).
                case map_of updates (row_id r) of None \<Rightarrow> False | Some r' \<Rightarrow> \<not> sameRef r' r);
            visibleLiveChanged = (hasLatestPage s
              \<and> (st_intent s = FollowLatest
                 \<or> (\<exists>r \<in> set (st_liveRows s). map_of updates (row_id r) \<noteq> None)));
            (s1, fx1) = (if visibleChanged \<or> visibleLiveChanged then correct lc next s c else (next, []))
        in if overflowed then
             let (s2, fx2) = diagnostic s1 \<lparr>diag_code = ''live-buffer-overflow'', diag_rowId = None\<rparr> c;
                 (s3, fx3) = (if st_pendingRequest s2 = None \<and> st_intent s = FollowLatest
                              then beginPage s2 Latest c else (s2, []))
             in (s3, fx0 @ fx1 @ fx2 @ fx3)
           else (s1, fx0 @ fx1))"

definition scrollStep ::
  "lcompare \<Rightarrow> ('p ScrollRow \<Rightarrow> 'p ScrollRow \<Rightarrow> bool) \<Rightarrow> ScrollConfig \<Rightarrow> 'p ScrollState
    \<Rightarrow> 'p ScrollInput \<Rightarrow> 'p transition" where
  "scrollStep lc sameRef c s input =
     (if st_disposed s then (s, [])
      else case input of
        InRequestPage d \<Rightarrow> if d = Latest then latest s c else beginPage s d c
      | InJumpToLatest \<Rightarrow> latest s c
      | InRetry \<Rightarrow>
          (if st_status s = StStale
              \<or> map_option req_direction (st_failedRequest s) = Some Latest then latest s c
           else case st_failedRequest s of
             Some r \<Rightarrow> beginPage s (req_direction r) c
           | None \<Rightarrow> (s, []))
      | InPageResult token page \<Rightarrow>
          (case st_pendingRequest s of
             Some request \<Rightarrow> if acceptsPage s token then acceptPage lc s request page c else (s, [])
           | None \<Rightarrow> (s, []))
      | InPageError token err \<Rightarrow> if acceptsPage s token then (failed s err, []) else (s, [])
      | InUserScroll pos \<Rightarrow>
          beginBrowse lc s (clampTop pos (totalHeight (rowGeometry lc s)) (geo_height (st_geometry s)))
      | InGeometry identity geo token \<Rightarrow> observeGeometry lc s identity geo token c
      | InMeasured identity items \<Rightarrow> measureRows lc s identity items c
      | InLive identity rows \<Rightarrow> liveRowsInput lc sameRef s identity rows c
      | InSwitchSource identity \<Rightarrow>
          ((createScrollState identity
              ((st_geometry s)\<lparr>geo_scrollTop := 0, geo_scrollHeight := 0\<rparr>))
             \<lparr>st_nextRequestId := st_nextRequestId s, st_nextCorrectionId := st_nextCorrectionId s,
              st_windowRevision := st_windowRevision s + 1\<rparr>,
           snd (cancelPending s))
      | InCorrectionApplied token \<Rightarrow>
          (case st_pendingCorrection s of
             Some cor \<Rightarrow>
               if matchesCorrection s token
               then (s\<lparr>st_geometry := (st_geometry s)\<lparr>geo_scrollTop := cor_scrollTop cor\<rparr>,
                       st_pendingCorrection := None\<rparr>, [])
               else (s, [])
           | None \<Rightarrow> (s, []))
      | InCancel \<Rightarrow>
          (case cancelPending s of (s', fx) \<Rightarrow>
             (s'\<lparr>st_failedRequest := None, st_windowRevision := st_windowRevision s + 1\<rparr>, fx))
      | InDispose \<Rightarrow>
          (case cancelPending s of (s', fx) \<Rightarrow>
             (s'\<lparr>st_pages := [], st_liveRows := [], st_liveHead := None, st_liveOverflow := None,
                 st_measurements := [], st_diagnostics := [], st_disposed := True\<rparr>, fx)))"

definition transitionScroll ::
  "lcompare \<Rightarrow> ('p ScrollRow \<Rightarrow> 'p ScrollRow \<Rightarrow> bool) \<Rightarrow> 'p ScrollState \<Rightarrow> 'p ScrollInput
    \<Rightarrow> ScrollConfig \<Rightarrow> 'p transition result" where
  "transitionScroll lc sameRef s input c =
     bind_result (checkConfig c) (\<lambda>_. Inr (scrollStep lc sameRef c s input))"

definition deriveScrollWindow :: "lcompare \<Rightarrow> 'p ScrollState \<Rightarrow> ScrollConfig \<Rightarrow> 'p ScrollWindow" where
  "deriveScrollWindow lc s c =
     (let all = rowGeometry lc s;
          tot = totalHeight all;
          height = positiveHeight (geo_height (st_geometry s));
          pos = clampTop (Fin (case st_pendingCorrection s of
                    Some cor \<Rightarrow> cor_scrollTop cor | None \<Rightarrow> geo_scrollTop (st_geometry s)))
                  tot (Fin (of_int height));
          overscan = of_int height * max 0 (overscanViewports c);
          rows = filter (\<lambda>item. pos - overscan < of_int (win_top item + win_height item)
                   \<and> of_int (win_top item) < pos + of_int height + overscan) all
      in \<lparr>sw_rows = rows, sw_totalHeight = tot,
          sw_topSpacer = (case first_opt rows of Some f \<Rightarrow> win_top f | None \<Rightarrow> 0),
          sw_bottomSpacer = (case last_opt rows of
              Some l \<Rightarrow> max 0 (tot - win_top l - win_height l) | None \<Rightarrow> 0),
          sw_scrollTop = pos\<rparr>)"

end
