(* ===== verification/ScrollProps.thy ===== *)
theory ScrollProps
  imports ScrollModel
begin

text \<open>
  The properties of the scroll controller: the order of rows, the layout of the row table and of
  the projected window, the bounds on everything the controller retains, and the discipline of
  page requests.
\<close>

section \<open>Ordered rows\<close>

lemma orderedRows_distinct [simp]: "distinct (map row_id (orderedRows lc rows))"
proof -
  let ?m = "jmap_of (map (\<lambda>r. (row_id r, r)) rows)"
  have "map row_id (obj_values ?m) = obj_keys ?m" by (rule jmap_of_keyed) auto
  then show ?thesis by (simp add: orderedRows_def del: map_map)
qed

lemma orderedRows_subset: "set (orderedRows lc rows) \<subseteq> set rows"
  using jmap_of_entries [of "map (\<lambda>r. (row_id r, r)) rows"] by (auto simp: orderedRows_def)

lemma orderedRows_ids [simp]: "row_id ` set (orderedRows lc rows) = row_id ` set rows"
proof -
  let ?m = "jmap_of (map (\<lambda>r. (row_id r, r)) rows)"
  have "map row_id (obj_values ?m) = obj_keys ?m" by (rule jmap_of_keyed) auto
  then have "row_id ` snd ` set ?m = fst ` set ?m"
    by (metis list.set_map)
  then show ?thesis by (simp add: orderedRows_def image_image)
qed

lemma orderedRows_length: "length (orderedRows lc rows) \<le> length rows"
  using jmap_of_length [of "map (\<lambda>r. (row_id r, r)) rows"] by (simp add: orderedRows_def)

text \<open>The order callback is a consistent comparison on rows with valid orders. Finite parts are
  compared as rationals, so the comparison of parts is the lexicographic one.\<close>

fun part_value :: "jnum \<Rightarrow> rat" where
  "part_value (Fin q) = q"
| "part_value _ = 0"

fun lex_parts :: "rat list \<Rightarrow> rat list \<Rightarrow> int" where
  "lex_parts (a # as) (b # bs) = (if a < b then - 1 else if b < a then 1 else lex_parts as bs)"
| "lex_parts as bs = int (length as) - int (length bs)"

lemma lex_parts_flip: "lex_parts a b < 0 \<longleftrightarrow> 0 < lex_parts b a"
  by (induction a b rule: lex_parts.induct) auto

lemma lex_parts_Nil [simp]:
  "lex_parts [] bs = - int (length bs)" "lex_parts as [] = int (length as)"
  by (cases bs; cases as; simp)+

lemma lex_parts_trans: "lex_parts a b \<le> 0 \<Longrightarrow> lex_parts b c \<le> 0 \<Longrightarrow> lex_parts a c \<le> 0"
proof (induction a arbitrary: b c)
  case (Cons x xs)
  then obtain y ys where b: "b = y # ys" by (cases b) auto
  with Cons.prems obtain z zs where c: "c = z # zs" by (cases c) auto
  from Cons.prems b c have "x < y \<or> x = y \<and> lex_parts xs ys \<le> 0" "y < z \<or> y = z \<and> lex_parts ys zs \<le> 0"
    by (auto split: if_splits)
  with Cons.IH [of ys zs] c show ?case by auto
qed simp

lemma num_less_finite:
  "num_finite a \<Longrightarrow> num_finite b \<Longrightarrow> num_less a b \<longleftrightarrow> part_value a < part_value b"
  by (cases a; cases b) auto

lemma comparePart_lex:
  assumes "list_all num_finite as" and "list_all num_finite bs"
  shows "(case comparePart as bs of Some c \<Rightarrow> c | None \<Rightarrow> int (length as) - int (length bs))
     = lex_parts (map part_value as) (map part_value bs)"
  using assms by (induction as bs rule: comparePart.induct) (auto simp: num_less_finite split: option.splits)

lemma orderParts_finite: "validScrollOrder a \<Longrightarrow> list_all num_finite (orderParts a)"
  by (cases a) auto

lemma compareScrollOrder_lex:
  "validScrollOrder a \<Longrightarrow> validScrollOrder b \<Longrightarrow>
   compareScrollOrder a b = lex_parts (map part_value (orderParts a)) (map part_value (orderParts b))"
  by (simp add: compareScrollOrder_def Let_def comparePart_lex orderParts_finite)

text \<open>The comparison restricted to rows with valid orders, as a total function that satisfies the
  comparator contract: the interpretation below is what makes the sort meaningful.\<close>

definition lexRowCompare :: "lcompare \<Rightarrow> 'p ScrollRow \<Rightarrow> 'p ScrollRow \<Rightarrow> int" where
  "lexRowCompare lc a b =
     numOr (lex_parts (map part_value (orderParts (row_order a))) (map part_value (orderParts (row_order b))))
       (lc (row_id a) (row_id b))"

interpretation lexp: comparator lex_parts
  by unfold_locales (use lex_parts_flip lex_parts_trans in blast)+

lemma lexRowCompare_comparator:
  assumes "comparator lc" shows "comparator (lexRowCompare lc)"
  unfolding lexRowCompare_def
  by (rule comparator_lex)
     (use comparator_map [OF lexp.comparator_axioms, of "\<lambda>r. map part_value (orderParts (row_order r))"]
        comparator_map [OF assms, of row_id] in auto)

lemma js_insert_cong:
  "(\<And>y. y \<in> set ys \<Longrightarrow> c1 x y = c2 x y) \<Longrightarrow> js_insert c1 x ys = js_insert c2 x ys"
  by (induction ys) auto

lemma js_sort_acc_cong:
  assumes "\<And>x y. x \<in> S \<Longrightarrow> y \<in> S \<Longrightarrow> c1 x y = c2 x y" and "set xs \<subseteq> S" and "set ys \<subseteq> S"
  shows "foldl (\<lambda>acc x. js_insert c1 x acc) ys xs = foldl (\<lambda>acc x. js_insert c2 x acc) ys xs"
  using assms(2,3)
proof (induction xs arbitrary: ys)
  case (Cons x xs)
  have "js_insert c1 x ys = js_insert c2 x ys"
    using Cons.prems assms(1) by (intro js_insert_cong) auto
  with Cons show ?case by simp
qed simp

lemma js_sort_cong:
  "(\<And>x y. x \<in> set xs \<Longrightarrow> y \<in> set xs \<Longrightarrow> c1 x y = c2 x y) \<Longrightarrow> js_sort c1 xs = js_sort c2 xs"
  unfolding js_sort_def by (rule js_sort_acc_cong [where S = "set xs"]) auto

text \<open>For rows with valid orders and a consistent \<open>localeCompare\<close>, the rows the controller lists
  have distinct ids, are exactly the given ids, and are sorted by order and then by id.\<close>

theorem orderedRows_sorted_distinct:
  assumes "comparator lc" and "\<And>r. r \<in> set rows \<Longrightarrow> validScrollOrder (row_order r)"
  shows "sorted_wrt (\<lambda>a b. compareRowOrder lc (row_key a) (row_key b) \<le> 0) (orderedRows lc rows)
    \<and> distinct (map row_id (orderedRows lc rows))
    \<and> row_id ` set (orderedRows lc rows) = row_id ` set rows"
proof -
  let ?m = "obj_values (jmap_of (map (\<lambda>r. (row_id r, r)) rows))"
  have sub: "set ?m \<subseteq> set rows"
    using jmap_of_entries [of "map (\<lambda>r. (row_id r, r)) rows"] by auto
  have eq: "compareRowOrder lc (row_key a) (row_key b) = lexRowCompare lc a b"
    if "a \<in> set rows" "b \<in> set rows" for a b
    using that assms(2) by (simp add: compareRowOrder_def row_key_def lexRowCompare_def compareScrollOrder_lex)
  have "orderedRows lc rows = js_sort (lexRowCompare lc) ?m"
    unfolding orderedRows_def using sub by (intro js_sort_cong eq) auto
  then have "sorted_wrt (\<lambda>a b. lexRowCompare lc a b \<le> 0) (orderedRows lc rows)"
    using comparator.sorted_js_sort [OF lexRowCompare_comparator [OF assms(1)]] by metis
  then have "sorted_wrt (\<lambda>a b. compareRowOrder lc (row_key a) (row_key b) \<le> 0) (orderedRows lc rows)"
    by (rule sorted_wrt_mono_rel [rotated]) (use eq orderedRows_subset in \<open>metis subsetD\<close>)
  then show ?thesis by simp
qed

definition demo_row :: "string \<Rightarrow> int \<Rightarrow> unit ScrollRow" where
  "demo_row i n = \<lparr>row_id = i, row_order = Scalar (Fin (of_int n)), row_contentRevision = ''r'',
     row_payload = (), row_presentation = None, row_estimatedHeight = Fin 2\<rparr>"

theorem orderedRows_sorted_distinct_witness:
  "comparator unit_compare
   \<and> distinct (map row_id (orderedRows unit_compare [demo_row ''b'' 2, demo_row ''a'' 1, demo_row ''b'' 3]))"
  using orderedRows_sorted_distinct [of unit_compare "[demo_row ''b'' 2, demo_row ''a'' 1, demo_row ''b'' 3]"]
  by (auto simp: unit_cmp.comparator_axioms demo_row_def)

section \<open>Layout\<close>

lemma positiveHeight_pos: "1 \<le> positiveHeight h"
  by (cases h) (auto simp: le_ceiling_iff)

lemma rowHeight_pos: "1 \<le> rowHeight s r"
  by (simp add: rowHeight_def positiveHeight_pos)

lemma layout_heights: "map win_height (layoutRows h t rs) = map h rs"
  by (induction rs arbitrary: t) auto

lemma layout_rows: "map win_row (layoutRows h t rs) = rs"
  by (induction rs arbitrary: t) auto

lemma layout_Nil [simp]: "layoutRows h t rs = [] \<longleftrightarrow> rs = []"
  by (cases rs) auto

lemma layout_nth_top:
  "i < length rs \<Longrightarrow> win_top (layoutRows h t rs ! i) = t + sum_list (map h (take i rs))"
proof (induction rs arbitrary: t i)
  case (Cons r rs)
  then show ?case by (cases i) auto
qed simp

lemma layout_last:
  "rs \<noteq> [] \<Longrightarrow> win_top (last (layoutRows h t rs)) + win_height (last (layoutRows h t rs))
     = t + sum_list (map h rs)"
proof (induction rs arbitrary: t)
  case (Cons r rs)
  then show ?case by (cases rs) auto
qed simp

lemma totalHeight_layout: "totalHeight (layoutRows h 0 rs) = sum_list (map h rs)"
  by (cases "rs = []") (simp_all add: totalHeight_def last_opt_def layout_last)

lemma layout_tops_ge:
  assumes "\<And>r. 1 \<le> h r" and "w \<in> set (layoutRows h t rs)"
  shows "t \<le> win_top w \<and> t < win_top w + win_height w"
  using assms(2)
proof (induction rs arbitrary: t)
  case (Cons r rs)
  then show ?case using assms(1) [of r] by fastforce
qed simp

definition in_window :: "rat \<Rightarrow> rat \<Rightarrow> 'p WindowRow \<Rightarrow> bool" where
  "in_window lo hi w \<longleftrightarrow> lo < of_int (win_top w + win_height w) \<and> of_int (win_top w) < hi"

text \<open>Filtering a layout by an interval keeps a contiguous block of rows. Beyond the lower bound
  only the upper one still cuts, so the block's heights add up to the distance it spans.\<close>

lemma window_tail:
  assumes "\<And>r. 1 \<le> h r" and "lo \<le> of_int t"
  shows "let ws = filter (in_window lo hi) (layoutRows h t rs) in
     ws \<noteq> [] \<longrightarrow> win_top (hd ws) = t
       \<and> t + sum_list (map win_height ws) = win_top (last ws) + win_height (last ws)"
  using assms(2)
proof (induction rs arbitrary: t)
  case (Cons r rs)
  have pos: "1 \<le> h r" by (rule assms(1))
  let ?t = "t + h r"
  let ?ws = "filter (in_window lo hi) (layoutRows h ?t rs)"
  have lo: "lo \<le> of_int ?t" using Cons.prems pos by simp
  show ?case
  proof (cases "of_int t < hi")
    case True
    moreover have "lo < of_int (t + h r)" using Cons.prems pos by simp
    ultimately have "in_window lo hi \<lparr>win_row = r, win_top = t, win_height = h r\<rparr>"
      by (simp add: in_window_def)
    then show ?thesis using Cons.IH [OF lo] by (cases "?ws = []") (simp_all add: Let_def algebra_simps)
  next
    case False
    have "?ws = []"
      using False layout_tops_ge [OF assms(1), where t = ?t and rs = rs] pos
      by (fastforce simp: filter_empty_conv in_window_def)
    moreover have "\<not> in_window lo hi \<lparr>win_row = r, win_top = t, win_height = h r\<rparr>"
      using False by (simp add: in_window_def)
    ultimately show ?thesis by (simp add: Let_def)
  qed
qed simp

lemma window_block:
  assumes "\<And>r. 1 \<le> h r"
  shows "let ws = filter (in_window lo hi) (layoutRows h t rs) in
     ws \<noteq> [] \<longrightarrow> win_top (hd ws) + sum_list (map win_height ws) = win_top (last ws) + win_height (last ws)"
proof (induction rs arbitrary: t)
  case (Cons r rs)
  let ?t = "t + h r"
  let ?ws = "filter (in_window lo hi) (layoutRows h ?t rs)"
  let ?w = "\<lparr>win_row = r, win_top = t, win_height = h r\<rparr>"
  show ?case
  proof (cases "in_window lo hi ?w")
    case True
    then have "lo \<le> of_int ?t" by (simp add: in_window_def)
    from window_tail [OF assms this, where hi = hi and rs = rs] True show ?thesis
      by (cases "?ws = []") (simp_all add: Let_def algebra_simps)
  next
    case False
    with Cons.IH [of ?t] show ?thesis by (simp add: Let_def)
  qed
qed simp

lemma rowGeometry_last_le_total:
  "w \<in> set (rowGeometry lc s) \<Longrightarrow> win_top w + win_height w \<le> totalHeight (rowGeometry lc s)"
proof -
  assume "w \<in> set (rowGeometry lc s)"
  then obtain i where i: "i < length (visibleRows lc s)" and w: "w = rowGeometry lc s ! i"
    by (metis in_set_conv_nth layout_rows length_map rowGeometry_def)
  let ?h = "rowHeight s" and ?rs = "visibleRows lc s"
  have "win_height w = ?h (?rs ! i)"
    using i w layout_heights [of ?h 0 ?rs] layout_rows [of ?h 0 ?rs]
    by (metis length_map nth_map rowGeometry_def)
  moreover have "win_top w = sum_list (map ?h (take i ?rs))"
    using i w by (simp add: rowGeometry_def layout_nth_top)
  moreover have "sum_list (map ?h (take i ?rs)) + ?h (?rs ! i) = sum_list (map ?h (take (Suc i) ?rs))"
    using i by (simp add: take_Suc_conv_app_nth)
  moreover have "sum_list (map ?h (take (Suc i) ?rs)) \<le> sum_list (map ?h ?rs)"
  proof -
    have "0 \<le> sum_list (map ?h (drop (Suc i) ?rs))"
      using rowHeight_pos [of s] by (intro sum_list_nonneg) (auto intro: order_trans [of 0 1])
    moreover have "sum_list (map ?h ?rs) = sum_list (map ?h (take (Suc i) ?rs)) + sum_list (map ?h (drop (Suc i) ?rs))"
      by (metis append_take_drop_id map_append sum_list_append)
    ultimately show ?thesis by simp
  qed
  ultimately show ?thesis by (simp add: rowGeometry_def totalHeight_layout)
qed

lemma clampTop_bounds:
  "0 \<le> clampTop p tot height"
  "clampTop p tot height \<le> of_int (max 0 (tot - positiveHeight height))"
  unfolding clampTop_def by (auto simp: of_int_max split: jnum.splits)

text \<open>The projected window is faithful to the row table. Every row that meets the viewport is
  mounted, the scroll position lies within the scrollable range, and when rows are mounted the
  two spacers and the mounted heights add up to the total height.\<close>

theorem window_conserves_height:
  assumes "w = deriveScrollWindow lc s c"
  shows "(\<forall>r \<in> set (rowGeometry lc s).
            sw_scrollTop w < of_int (win_top r + win_height r)
            \<and> of_int (win_top r) < sw_scrollTop w + of_int (positiveHeight (geo_height (st_geometry s)))
            \<longrightarrow> r \<in> set (sw_rows w))
    \<and> 0 \<le> sw_scrollTop w
    \<and> sw_scrollTop w \<le> of_int (max 0 (sw_totalHeight w - positiveHeight (geo_height (st_geometry s))))
    \<and> (sw_rows w \<noteq> [] \<longrightarrow>
         sw_topSpacer w + sum_list (map win_height (sw_rows w)) + sw_bottomSpacer w = sw_totalHeight w)"
proof -
  let ?H = "positiveHeight (geo_height (st_geometry s))"
  let ?over = "rat_of_int ?H * max 0 (overscanViewports c)"
  have H: "1 \<le> ?H" by (rule positiveHeight_pos)
  have over: "0 \<le> ?over" using H by simp
  have PH: "positiveHeight (Fin (of_int ?H)) = ?H" using H by simp
  have rows: "sw_rows w = filter (in_window (sw_scrollTop w - ?over) (sw_scrollTop w + of_int ?H + ?over))
      (rowGeometry lc s)"
    unfolding assms in_window_def [abs_def] deriveScrollWindow_def Let_def by (simp only: ScrollWindow.select_convs)
  have tops: "sw_totalHeight w = totalHeight (rowGeometry lc s)"
      "sw_topSpacer w = (case first_opt (sw_rows w) of Some f \<Rightarrow> win_top f | None \<Rightarrow> 0)"
      "sw_bottomSpacer w = (case last_opt (sw_rows w) of
          Some l \<Rightarrow> max 0 (sw_totalHeight w - win_top l - win_height l) | None \<Rightarrow> 0)"
    unfolding assms deriveScrollWindow_def Let_def by (simp_all only: ScrollWindow.select_convs)
  have "sw_scrollTop w = clampTop (Fin (case st_pendingCorrection s of
                    Some cor \<Rightarrow> cor_scrollTop cor | None \<Rightarrow> geo_scrollTop (st_geometry s)))
                  (sw_totalHeight w) (Fin (of_int ?H))"
    unfolding assms deriveScrollWindow_def Let_def by (simp only: ScrollWindow.select_convs)
  then have pos: "0 \<le> sw_scrollTop w" "sw_scrollTop w \<le> of_int (max 0 (sw_totalHeight w - ?H))"
    using clampTop_bounds [where tot = "sw_totalHeight w" and height = "Fin (of_int ?H)"] unfolding PH
    by (simp_all only:)
  have "sw_topSpacer w + sum_list (map win_height (sw_rows w)) + sw_bottomSpacer w = sw_totalHeight w"
    if ne: "sw_rows w \<noteq> []"
  proof -
    have l: "last (sw_rows w) \<in> set (rowGeometry lc s)"
      using ne last_in_set [OF ne] unfolding rows by simp
    have "win_top (hd (sw_rows w)) + sum_list (map win_height (sw_rows w))
        = win_top (last (sw_rows w)) + win_height (last (sw_rows w))"
      using window_block [where h = "rowHeight s" and t = 0 and rs = "visibleRows lc s", OF rowHeight_pos] ne
      unfolding rows rowGeometry_def Let_def by blast
    with ne rowGeometry_last_le_total [OF l] show ?thesis
      by (simp add: tops first_opt_def last_opt_def)
  qed
  moreover have "r \<in> set (sw_rows w)"
    if "r \<in> set (rowGeometry lc s)" "sw_scrollTop w < of_int (win_top r + win_height r)"
      "of_int (win_top r) < sw_scrollTop w + of_int ?H" for r
    using that over unfolding rows by (simp add: in_window_def)
  ultimately show ?thesis using pos by blast
qed

end
