(* ===== verification/ScrollBounds.thy ===== *)
theory ScrollBounds
  imports ScrollProps
begin

text \<open>
  What the scroll controller keeps is bounded by its configuration, and its page requests are
  disciplined: at most one is outstanding, request ids are never reused, and late answers are
  ignored. Each operation gets its frame lemma first; the step and run theorems combine them.
\<close>

section \<open>Frames of the operations\<close>

lemma diagnostic_frame [simp]:
  "st_pages (fst (diagnostic s d c)) = st_pages s"
  "st_liveRows (fst (diagnostic s d c)) = st_liveRows s"
  "st_measurements (fst (diagnostic s d c)) = st_measurements s"
  "st_pendingRequest (fst (diagnostic s d c)) = st_pendingRequest s"
  "st_nextRequestId (fst (diagnostic s d c)) = st_nextRequestId s"
  "st_disposed (fst (diagnostic s d c)) = st_disposed s"
  by (simp_all add: diagnostic_def)

lemma correctAnchor_frame [simp]:
  "st_pages (fst (fst (correctAnchor lc s p a c))) = st_pages s"
  "st_liveRows (fst (fst (correctAnchor lc s p a c))) = st_liveRows s"
  "st_measurements (fst (fst (correctAnchor lc s p a c))) = st_measurements s"
  "st_pendingRequest (fst (fst (correctAnchor lc s p a c))) = st_pendingRequest s"
  "st_nextRequestId (fst (fst (correctAnchor lc s p a c))) = st_nextRequestId s"
  "st_disposed (fst (fst (correctAnchor lc s p a c))) = st_disposed s"
  by (simp_all add: correctAnchor_def Let_def split_beta split: option.split)

lemma correct_frame [simp]:
  "st_pages (fst (correct lc s p c)) = st_pages s"
  "st_liveRows (fst (correct lc s p c)) = st_liveRows s"
  "st_measurements (fst (correct lc s p c)) = st_measurements s"
  "st_pendingRequest (fst (correct lc s p c)) = st_pendingRequest s"
  "st_nextRequestId (fst (correct lc s p c)) = st_nextRequestId s"
  "st_disposed (fst (correct lc s p c)) = st_disposed s"
  by (simp_all add: correct_def Let_def split_beta split: NavigationIntent.split)

lemma prune_frame [simp]:
  "st_pages (pruneMeasurements lc s) = st_pages s"
  "st_liveRows (pruneMeasurements lc s) = st_liveRows s"
  "st_diagnostics (pruneMeasurements lc s) = st_diagnostics s"
  "st_pendingRequest (pruneMeasurements lc s) = st_pendingRequest s"
  "st_nextRequestId (pruneMeasurements lc s) = st_nextRequestId s"
  "st_disposed (pruneMeasurements lc s) = st_disposed s"
  by (simp_all add: pruneMeasurements_def Let_def)

lemma cancelPending_frame [simp]:
  "st_pages (fst (cancelPending s)) = st_pages s"
  "st_liveRows (fst (cancelPending s)) = st_liveRows s"
  "st_measurements (fst (cancelPending s)) = st_measurements s"
  "st_diagnostics (fst (cancelPending s)) = st_diagnostics s"
  "st_pendingRequest (fst (cancelPending s)) = None"
  "st_nextRequestId (fst (cancelPending s)) = st_nextRequestId s"
  "st_disposed (fst (cancelPending s)) = st_disposed s"
  by (simp_all add: cancelPending_def)

lemma beginPage_frame [simp]:
  "st_pages (fst (beginPage s d c)) = st_pages s"
  "st_liveRows (fst (beginPage s d c)) = st_liveRows s"
  "st_measurements (fst (beginPage s d c)) = st_measurements s"
  "st_diagnostics (fst (beginPage s d c)) = st_diagnostics s"
  "st_disposed (fst (beginPage s d c)) = st_disposed s"
  by (simp_all add: beginPage_def Let_def)

lemma latest_frame [simp]:
  "st_pages (fst (latest s c)) = st_pages s"
  "st_liveRows (fst (latest s c)) = st_liveRows s"
  "st_measurements (fst (latest s c)) = st_measurements s"
  "st_diagnostics (fst (latest s c)) = st_diagnostics s"
  "st_disposed (fst (latest s c)) = st_disposed s"
  by (simp_all add: latest_def Let_def split_beta)

lemma beginBrowse_frame [simp]:
  "st_pages (fst (beginBrowse lc s t)) = st_pages s"
  "st_liveRows (fst (beginBrowse lc s t)) = st_liveRows s"
  "st_measurements (fst (beginBrowse lc s t)) = st_measurements s"
  "st_diagnostics (fst (beginBrowse lc s t)) = st_diagnostics s"
  "st_nextRequestId (fst (beginBrowse lc s t)) = st_nextRequestId s"
  "st_disposed (fst (beginBrowse lc s t)) = st_disposed s"
  by (simp_all add: beginBrowse_def Let_def split_beta)

lemma reportInvalid_frame [simp]:
  "st_pages (fst (reportInvalid s rs c)) = st_pages s"
  "st_liveRows (fst (reportInvalid s rs c)) = st_liveRows s"
  "st_measurements (fst (reportInvalid s rs c)) = st_measurements s"
  "st_pendingRequest (fst (reportInvalid s rs c)) = st_pendingRequest s"
  "st_nextRequestId (fst (reportInvalid s rs c)) = st_nextRequestId s"
  "st_disposed (fst (reportInvalid s rs c)) = st_disposed s"
  by (induction rs arbitrary: s) (simp_all add: Let_def split_beta)

lemma failed_frame [simp]:
  "st_pages (failed s e) = st_pages s" "st_liveRows (failed s e) = st_liveRows s"
  "st_measurements (failed s e) = st_measurements s" "st_diagnostics (failed s e) = st_diagnostics s"
  "st_pendingRequest (failed s e) = None" "st_nextRequestId (failed s e) = st_nextRequestId s"
  "st_disposed (failed s e) = st_disposed s"
  by (simp_all add: failed_def)

section \<open>Bounded retention\<close>

definition row_ids :: "'p ScrollState \<Rightarrow> string set" where
  "row_ids s = row_id ` (set (pageRows (st_pages s)) \<union> set (st_liveRows s))"

definition pages_bounded :: "ScrollConfig \<Rightarrow> 'p ScrollPage list \<Rightarrow> bool" where
  "pages_bounded c ps \<longleftrightarrow> int (length ps) \<le> maxPages c
     \<and> (\<forall>p \<in> set ps. int (length (page_rows p)) \<le> pageSize c)"

definition measurements_ok :: "'p ScrollState \<Rightarrow> bool" where
  "measurements_ok s \<longleftrightarrow> distinct (map ms_rowId (st_measurements s))
     \<and> ms_rowId ` set (st_measurements s) \<subseteq> row_ids s"

definition scroll_bounded :: "ScrollConfig \<Rightarrow> 'p ScrollState \<Rightarrow> bool" where
  "scroll_bounded c s \<longleftrightarrow> pages_bounded c (st_pages s)
     \<and> int (length (st_liveRows s)) \<le> maxLiveRows c
     \<and> int (length (st_diagnostics s)) \<le> maxDiagnostics c
     \<and> measurements_ok s"

definition valid_config :: "ScrollConfig \<Rightarrow> bool" where
  "valid_config c \<longleftrightarrow> checkConfig c = Inr ()"

lemma valid_config_pos:
  "valid_config c \<Longrightarrow> 1 \<le> pageSize c \<and> 1 \<le> maxPages c \<and> 1 \<le> maxLiveRows c \<and> 1 \<le> maxDiagnostics c"
  by (auto simp: valid_config_def checkConfig_def Let_def split: if_splits)

lemma row_ids_retained: "row_id ` set (retainedRows lc s) = row_ids s"
  by (simp add: retainedRows_def row_ids_def)

lemma diag_bounded:
  "0 \<le> maxDiagnostics c \<Longrightarrow> int (length (st_diagnostics (fst (diagnostic s d c)))) \<le> maxDiagnostics c"
  by (simp add: diagnostic_def length_slice_last)

lemma correct_diag:
  "0 \<le> maxDiagnostics c \<Longrightarrow> int (length (st_diagnostics s)) \<le> maxDiagnostics c \<Longrightarrow>
   int (length (st_diagnostics (fst (correct lc s p c)))) \<le> maxDiagnostics c"
  by (auto simp: correct_def correctAnchor_def Let_def split_beta diag_bounded
      split: NavigationIntent.split option.split)

lemma reportInvalid_diag:
  "0 \<le> maxDiagnostics c \<Longrightarrow> int (length (st_diagnostics s)) \<le> maxDiagnostics c \<Longrightarrow>
   int (length (st_diagnostics (fst (reportInvalid s rs c)))) \<le> maxDiagnostics c"
  by (induction rs arbitrary: s) (simp_all add: Let_def split_beta diag_bounded)

lemma map_of_row_ids:
  "map_of (jmap_of (map (\<lambda>r. (row_id r, r)) rs)) k = Some r \<Longrightarrow> row_id r = k \<and> r \<in> set rs"
  using map_of_SomeD jmap_of_entries [of "map (\<lambda>r. (row_id r, r)) rs"] by fastforce

lemma prune_ok:
  assumes "distinct (map ms_rowId (st_measurements s))"
  shows "measurements_ok (pruneMeasurements lc s)"
proof -
  let ?s = "pruneMeasurements lc s"
  have "ms_rowId m \<in> row_ids s" if "m \<in> set (st_measurements ?s)" for m
  proof -
    from that obtain r where
      "map_of (jmap_of (map (\<lambda>r. (row_id r, r)) (retainedRows lc s))) (ms_rowId m) = Some r"
      by (auto simp: pruneMeasurements_def Let_def split: option.splits)
    then have "row_id r = ms_rowId m" and "r \<in> set (retainedRows lc s)"
      using map_of_row_ids by blast+
    then show ?thesis unfolding row_ids_retained [of lc s, symmetric] by (metis imageI)
  qed
  moreover have "row_ids ?s = row_ids s" by (simp add: row_ids_def)
  moreover have "distinct (map ms_rowId (st_measurements ?s))"
    using assms by (simp add: pruneMeasurements_def Let_def distinct_map_filter)
  ultimately show ?thesis by (auto simp: measurements_ok_def)
qed

lemma measurements_ok_cong:
  "st_pages t = st_pages s \<Longrightarrow> st_liveRows t = st_liveRows s \<Longrightarrow> st_measurements t = st_measurements s
   \<Longrightarrow> measurements_ok t = measurements_ok s"
  by (simp add: measurements_ok_def row_ids_def)

lemma bounded_cong:
  "scroll_bounded c s \<Longrightarrow> st_pages t = st_pages s \<Longrightarrow> st_liveRows t = st_liveRows s
   \<Longrightarrow> st_measurements t = st_measurements s \<Longrightarrow> int (length (st_diagnostics t)) \<le> maxDiagnostics c
   \<Longrightarrow> scroll_bounded c t"
  by (simp add: scroll_bounded_def measurements_ok_cong [of t s])

lemma bounded_diag: "scroll_bounded c s \<Longrightarrow> int (length (st_diagnostics s)) \<le> maxDiagnostics c"
  by (simp add: scroll_bounded_def)

text \<open>Merging, normalizing and exhausting pages keep the page budget.\<close>

lemma dedupeRows_length: "length (fst (dedupeRows seen rs)) \<le> length rs"
  by (induction seen rs rule: dedupeRows.induct) (auto simp: split_beta)

lemma dedupePages_bounded:
  "(\<forall>p \<in> set ps. int (length (page_rows p)) \<le> n) \<Longrightarrow>
   (\<forall>p \<in> set (dedupePages seen ps). int (length (page_rows p)) \<le> n)"
proof (induction ps arbitrary: seen)
  case (Cons p ps)
  have "int (length (fst (dedupeRows seen (page_rows p)))) \<le> n"
    using dedupeRows_length [of seen "page_rows p"] Cons.prems by fastforce
  with Cons show ?case by (auto simp: split_beta Let_def)
qed simp

lemma dedupePages_length [simp]: "length (dedupePages seen ps) = length ps"
  by (induction ps arbitrary: seen) (simp_all add: split_beta Let_def)

lemma mergePages_bounded:
  assumes "valid_config c" and "pages_bounded c ps" and "int (length (page_rows n)) \<le> pageSize c"
  shows "pages_bounded c (mergePages d n ps c)"
proof -
  let ?ps = "case d of Latest \<Rightarrow> [n] | Earlier \<Rightarrow> slice_to (maxPages c) (n # ps)
       | Later \<Rightarrow> slice_last (maxPages c) (ps @ [n])"
  have pos: "1 \<le> maxPages c" using valid_config_pos [OF assms(1)] by simp
  have "set ?ps \<subseteq> insert n (set ps)"
    using set_slice_to [of "maxPages c" "n # ps"] set_slice_last [of "maxPages c" "ps @ [n]"]
    by (auto split: PageDirection.split)
  then have "\<forall>p \<in> set ?ps. int (length (page_rows p)) \<le> pageSize c"
    using assms(2,3) by (auto simp: pages_bounded_def)
  moreover have "int (length ?ps) \<le> maxPages c"
    using pos length_slice_to [of "maxPages c"] length_slice_last [of "maxPages c"]
    by (auto split: PageDirection.split)
  ultimately show ?thesis
    unfolding pages_bounded_def mergePages_def by (simp add: dedupePages_bounded)
qed

lemma normalizePage_length: "length (page_rows (normalizePage lc s r p)) \<le> length (page_rows p)"
  using orderedRows_length by (auto simp: normalizePage_def Let_def intro: order_trans [OF orderedRows_length])

lemma exhaustEdge_rows: "map page_rows (exhaustEdge e ps) = map page_rows ps"
  by (rule nth_equalityI) (simp_all add: exhaustEdge_def Let_def nth_enumerate_eq)

lemma pages_bounded_rows:
  "pages_bounded c ps \<longleftrightarrow> int (length ps) \<le> maxPages c
     \<and> (\<forall>rs \<in> set (map page_rows ps). int (length rs) \<le> pageSize c)"
  by (simp add: pages_bounded_def)

lemma exhaustEdge_length [simp]: "length (exhaustEdge e ps) = length ps"
  by (simp add: exhaustEdge_def Let_def)

lemma exhaustEdge_bounded: "pages_bounded c ps \<Longrightarrow> pages_bounded c (exhaustEdge e ps)"
  unfolding pages_bounded_rows by (simp add: exhaustEdge_rows del: set_map)

lemma recoverOverflow_frame [simp]:
  "st_pages (fst (recoverOverflow s b c t)) = st_pages (fst t)"
  "st_liveRows (fst (recoverOverflow s b c t)) = st_liveRows (fst t)"
  "st_measurements (fst (recoverOverflow s b c t)) = st_measurements (fst t)"
  "st_diagnostics (fst (recoverOverflow s b c t)) = st_diagnostics (fst t)"
  "st_disposed (fst (recoverOverflow s b c t)) = st_disposed (fst t)"
  by (simp_all add: recoverOverflow_def split_beta Let_def)

lemma pageFailure_None_length:
  "pageFailure s r p c = None \<Longrightarrow> int (length (page_rows p)) \<le> pageSize c"
  by (auto simp: pageFailure_def Let_def split: if_splits)

lemma bounded_recover: "scroll_bounded c (fst t) \<Longrightarrow> scroll_bounded c (fst (recoverOverflow s b c t))"
  by (rule bounded_cong [where s = "fst t"]) (simp_all add: bounded_diag)

lemma bounded_correct:
  assumes "valid_config c" and "scroll_bounded c s"
  shows "scroll_bounded c (fst (correct lc s p c))"
proof (rule bounded_cong [OF assms(2)])
  have "0 \<le> maxDiagnostics c" using valid_config_pos [OF assms(1)] by linarith
  then show "int (length (st_diagnostics (fst (correct lc s p c)))) \<le> maxDiagnostics c"
    by (rule correct_diag) (rule bounded_diag [OF assms(2)])
qed (rule correct_frame)+

lemma bounded_prune:
  assumes "pages_bounded c (st_pages s)" and "int (length (st_liveRows s)) \<le> maxLiveRows c"
    and "int (length (st_diagnostics s)) \<le> maxDiagnostics c"
    and "distinct (map ms_rowId (st_measurements s))"
  shows "scroll_bounded c (pruneMeasurements lc s)"
  using assms prune_ok by (simp add: scroll_bounded_def)

lemma bounded_distinct: "scroll_bounded c s \<Longrightarrow> distinct (map ms_rowId (st_measurements s))"
  by (simp add: scroll_bounded_def measurements_ok_def)

lemma exhaust_keeps_ids: "pageRows (exhaustEdge e ps) = pageRows ps"
  by (simp only: pageRows_def exhaustEdge_rows)

lemma acceptPage_bounded:
  assumes c: "valid_config c" and s: "scroll_bounded c s"
  shows "scroll_bounded c (fst (acceptPage lc s r p c))"
proof (cases "pageFailure s r p c")
  case None
  have pos: "int (length (page_rows (normalizePage lc s r p))) \<le> pageSize c"
    using normalizePage_length [of lc s r p] pageFailure_None_length [OF None] by linarith
  have s': "pages_bounded c (st_pages s)" "int (length (st_liveRows s)) \<le> maxLiveRows c"
    using s by (simp_all add: scroll_bounded_def)
  have filt: "int (length (filter P (st_liveRows s))) \<le> maxLiveRows c" for P
    using s'(2) length_filter_le [of P "st_liveRows s"] by linarith
  show ?thesis
  proof (cases "req_direction r \<noteq> Latest \<and> page_rows p = []")
    case True
    have "row_ids (s\<lparr>st_pages := exhaustEdge e (st_pages s)\<rparr>) = row_ids s" for e
      by (simp add: row_ids_def exhaust_keeps_ids)
    with True None s show ?thesis
      by (auto simp: acceptPage_def Let_def scroll_bounded_def exhaustEdge_bounded measurements_ok_def
          row_ids_def exhaust_keeps_ids intro!: bounded_recover)
  next
    case False
    then show ?thesis unfolding acceptPage_def Let_def using None
      apply (simp only: option.case if_not_P if_False)
      apply (intro bounded_recover bounded_correct c bounded_prune)
      by (simp_all add: mergePages_bounded c s' pos filt bounded_diag [OF s] bounded_distinct [OF s])
  qed
qed (use s in \<open>auto simp: acceptPage_def scroll_bounded_def measurements_ok_def row_ids_def\<close>)

lemma observeGeometry_bounded:
  assumes "valid_config c" and "scroll_bounded c s"
  shows "scroll_bounded c (fst (observeGeometry lc s i g tok c))"
proof -
  have 1: "scroll_bounded c (s\<lparr>st_geometry := g', st_measurements := (if b then [] else st_measurements s),
      st_pendingCorrection := None\<rparr>)" for g' b
    using assms(2) by (auto simp: scroll_bounded_def measurements_ok_def row_ids_def)
  have 2: "scroll_bounded c (s\<lparr>st_geometry := g'\<rparr>)"
    "scroll_bounded c (s\<lparr>st_geometry := g', st_pendingCorrection := None\<rparr>)"
    "scroll_bounded c (fst (beginBrowse lc (s\<lparr>st_geometry := g'\<rparr>) t))" for g' t
    using assms(2) by (auto simp: scroll_bounded_def measurements_ok_def row_ids_def)
  show ?thesis unfolding observeGeometry_def Let_def
    by (simp add: 1 2 assms bounded_correct del: fun_upd_apply)
qed

lemma jmap_set_keyed:
  "(\<And>k v. (k, v) \<in> set mm \<Longrightarrow> f v = k) \<Longrightarrow> (k, v) \<in> set (jmap_set (f x) x mm) \<Longrightarrow> f v = k"
  using kv_replace_entries [of k v "f x" x mm] by (auto simp: jmap_set_def split: if_splits)

lemma jmap_fold_keyed:
  assumes "\<And>k v. (k, v) \<in> set mm \<Longrightarrow> f v = k" and "distinct (map fst mm)"
  shows "distinct (map f (obj_values (foldl (\<lambda>mm m. jmap_set (f m) m mm) mm xs)))"
  using assms
proof (induction xs arbitrary: mm)
  case Nil
  then have "map f (obj_values mm) = map fst mm" by force
  with Nil show ?case by (simp del: map_map)
next
  case (Cons x xs)
  have "distinct (map fst (jmap_set (f x) x mm))"
    using Cons.prems(2) by (rule jsm.distinct_store)
  moreover have "f v = k" if "(k, v) \<in> set (jmap_set (f x) x mm)" for k v
    by (rule jmap_set_keyed [where mm = mm and f = f and x = x]) (use Cons.prems(1) that in auto)
  ultimately show ?case unfolding foldl_Cons by (intro Cons.IH)
qed

lemma measureRows_bounded:
  assumes "valid_config c" and "scroll_bounded c s"
  shows "scroll_bounded c (fst (measureRows lc s i items c))"
proof -
  have "distinct (map ms_rowId (obj_values (foldl (\<lambda>mm m. jmap_set (ms_rowId m) m mm) (measurementMap s) xs)))" for xs
  proof -
    have "(k, v) \<in> set (measurementMap s) \<Longrightarrow> ms_rowId v = k" for k v
      using jmap_of_entries [of "map (\<lambda>m. (ms_rowId m, m)) (st_measurements s)"]
      by (auto simp: measurementMap_def)
    then show ?thesis by (rule jmap_fold_keyed) (simp_all add: measurementMap_def)
  qed
  then have "scroll_bounded c (pruneMeasurements lc (s\<lparr>st_measurements :=
      obj_values (foldl (\<lambda>mm m. jmap_set (ms_rowId m) m mm) (measurementMap s) xs)\<rparr>))" for xs
    using assms(2) by (intro bounded_prune) (simp_all add: scroll_bounded_def)
  then show ?thesis using assms unfolding measureRows_def Let_def by (simp add: bounded_correct)
qed

lemma liveBuffer_length:
  assumes "int (length (st_liveRows s)) \<le> maxLiveRows c"
  shows "int (length (fst (liveBuffer lc s inc c))) \<le> maxLiveRows c"
proof -
  let ?ret = "map (\<lambda>r. nullish (map_of (jmap_of (map (\<lambda>r. (row_id r, r)) inc)) (row_id r)) r) (st_liveRows s)"
  have "int (length (orderedRows lc (?ret @ slice_to (maxLiveRows c - int (length ?ret)) add))) \<le> maxLiveRows c"
    for add
    using orderedRows_length [of lc "?ret @ slice_to (maxLiveRows c - int (length ?ret)) add"]
      length_slice_to [of "maxLiveRows c - int (length ?ret)" add] assms by simp
  then show ?thesis using assms by (simp add: liveBuffer_def Let_def)
qed

lemma pages_update_bounded:
  "pages_bounded c ps \<Longrightarrow> pages_bounded c (map (\<lambda>p. p\<lparr>page_rows := map f (page_rows p)\<rparr>) ps)"
  by (auto simp: pages_bounded_def)

text \<open>The state of the live branch before corrections and the overflow report.\<close>

lemma live_next_bounded:
  assumes "valid_config c" and "scroll_bounded c s"
    and "int (length live) \<le> maxLiveRows c"
  shows "scroll_bounded c (pruneMeasurements lc
      ((fst (reportInvalid s rows c))\<lparr>
         st_pages := map (\<lambda>p. p\<lparr>page_rows := map f (page_rows p)\<rparr>) (st_pages s),
         st_liveRows := live, st_liveHead := h, st_unreadCount := u, st_pendingLiveIds := ids,
         st_liveOverflow := ov\<rparr>))"
proof (rule bounded_prune)
  have "0 \<le> maxDiagnostics c" using valid_config_pos [OF assms(1)] by linarith
  from reportInvalid_diag [OF this bounded_diag [OF assms(2)]]
  show "int (length (st_diagnostics ((fst (reportInvalid s rows c))\<lparr>
         st_pages := map (\<lambda>p. p\<lparr>page_rows := map f (page_rows p)\<rparr>) (st_pages s),
         st_liveRows := live, st_liveHead := h, st_unreadCount := u, st_pendingLiveIds := ids,
         st_liveOverflow := ov\<rparr>))) \<le> maxDiagnostics c" by simp
qed (use assms in \<open>simp_all add: scroll_bounded_def pages_update_bounded measurements_ok_def\<close>)

lemma bounded_diagnostic:
  assumes "valid_config c" and "scroll_bounded c s"
  shows "scroll_bounded c (fst (diagnostic s d c))"
proof (rule bounded_cong [OF assms(2)])
  show "int (length (st_diagnostics (fst (diagnostic s d c)))) \<le> maxDiagnostics c"
    using valid_config_pos [OF assms(1)] by (intro diag_bounded) linarith
qed (rule diagnostic_frame)+

lemma bounded_beginPage: "scroll_bounded c s \<Longrightarrow> scroll_bounded c (fst (beginPage s d c))"
  by (rule bounded_cong [where s = s]) (simp_all add: bounded_diag)

lemma live_tail_bounded:
  assumes "valid_config c" and "scroll_bounded c s1"
  shows "scroll_bounded c (fst (if b then
       let (s2, fx2) = diagnostic s1 d c;
           (s3, fx3) = (if b' s2 then beginPage s2 Latest c else (s2, []))
       in (s3, fx0 @ fx1 @ fx2 @ fx3) else (s1, fx')))"
  using bounded_diagnostic [OF assms, of d] assms(2) by (simp add: split_beta Let_def bounded_beginPage)

lemma liveRowsInput_bounded:
  assumes "valid_config c" and "scroll_bounded c s"
  shows "scroll_bounded c (fst (liveRowsInput lc sameRef s i rows c))"
proof -
  have live: "int (length (fst (liveBuffer lc s inc c))) \<le> maxLiveRows c" for inc
    using assms(2) by (intro liveBuffer_length) (simp add: scroll_bounded_def)
  show ?thesis using assms(2) unfolding liveRowsInput_def Let_def split_beta
    by (simp add: bounded_diagnostic bounded_beginPage bounded_correct live_next_bounded live assms)
qed

lemma switch_bounded:
  "valid_config c \<Longrightarrow> scroll_bounded c ((createScrollState i g)\<lparr>st_nextRequestId := a,
     st_nextCorrectionId := b, st_windowRevision := w\<rparr>)"
  using valid_config_pos [of c]
  by (simp add: scroll_bounded_def createScrollState_def pages_bounded_def measurements_ok_def)

lemma create_bounded: "valid_config c \<Longrightarrow> scroll_bounded c (createScrollState i g)"
  using valid_config_pos [of c]
  by (simp add: scroll_bounded_def createScrollState_def pages_bounded_def measurements_ok_def)

lemma dispose_bounded:
  "valid_config c \<Longrightarrow> scroll_bounded c (s\<lparr>st_pages := [], st_liveRows := [], st_liveHead := None,
     st_liveOverflow := None, st_measurements := [], st_diagnostics := [], st_disposed := True\<rparr>)"
  using valid_config_pos [of c]
  by (simp add: scroll_bounded_def pages_bounded_def measurements_ok_def)

lemma scrollStep_bounded:
  assumes c: "valid_config c" and s: "scroll_bounded c s"
  shows "scroll_bounded c (fst (scrollStep lc sameRef c s input))"
proof -
  have same: "scroll_bounded c t"
    if "st_pages t = st_pages s" "st_liveRows t = st_liveRows s" "st_measurements t = st_measurements s"
      "st_diagnostics t = st_diagnostics s" for t
    using that bounded_cong [OF s, of t] bounded_diag [OF s] by simp
  show ?thesis
  proof (cases "st_disposed s")
    case False
    then show ?thesis
      by (cases input)
        (simp_all add: scrollStep_def same s c acceptPage_bounded observeGeometry_bounded
          measureRows_bounded liveRowsInput_bounded switch_bounded dispose_bounded split_beta
          split: option.split)
  qed (simp add: scrollStep_def s)
qed

text \<open>Runs of the controller: the inputs in the order they arrive.\<close>

fun scrollRun ::
  "lcompare \<Rightarrow> ('p ScrollRow \<Rightarrow> 'p ScrollRow \<Rightarrow> bool) \<Rightarrow> ScrollConfig \<Rightarrow> 'p ScrollState
    \<Rightarrow> 'p ScrollInput list \<Rightarrow> 'p transition" where
  "scrollRun lc sameRef c s [] = (s, [])"
| "scrollRun lc sameRef c s (i # is) =
     (let (s', fx) = scrollStep lc sameRef c s i; (s'', fx') = scrollRun lc sameRef c s' is
      in (s'', fx @ fx'))"

lemma scrollRun_bounded:
  "valid_config c \<Longrightarrow> scroll_bounded c s \<Longrightarrow> scroll_bounded c (fst (scrollRun lc sameRef c s is))"
  by (induction "is" arbitrary: s) (simp_all add: split_beta Let_def scrollStep_bounded)

lemma pageRows_length:
  "(\<forall>p \<in> set ps. int (length (page_rows p)) \<le> n) \<Longrightarrow> int (length (pageRows ps)) \<le> int (length ps) * n"
  by (induction ps) (auto simp: pageRows_def algebra_simps)

lemma retained_length:
  assumes "valid_config c" and "scroll_bounded c s"
  shows "int (length (retainedRows lc s)) \<le> maxPages c * pageSize c + maxLiveRows c"
proof -
  have "int (length (pageRows (st_pages s))) \<le> int (length (st_pages s)) * pageSize c"
    using assms(2) by (intro pageRows_length) (simp add: scroll_bounded_def pages_bounded_def)
  also have "\<dots> \<le> maxPages c * pageSize c"
    using assms valid_config_pos [OF assms(1)]
    by (intro mult_right_mono) (simp_all add: scroll_bounded_def pages_bounded_def)
  finally show ?thesis
    using assms(2) orderedRows_length [of lc "pageRows (st_pages s) @ st_liveRows s"]
    by (simp add: scroll_bounded_def retainedRows_def)
qed

lemma measurements_length:
  assumes "measurements_ok s"
  shows "length (st_measurements s) \<le> length (retainedRows lc s)"
proof -
  have "length (st_measurements s) = card (ms_rowId ` set (st_measurements s))"
    using assms unfolding measurements_ok_def by (metis distinct_card length_map list.set_map)
  also have "\<dots> \<le> card (row_id ` set (retainedRows lc s))"
    using assms unfolding measurements_ok_def row_ids_retained by (intro card_mono) (simp_all add: row_ids_def)
  also have "\<dots> \<le> length (retainedRows lc s)"
    by (metis card_length length_map list.set_map)
  finally show ?thesis .
qed

text \<open>C6: under an accepted configuration, whatever inputs arrive in whatever order, the controller
  keeps at most \<open>maxPages\<close> pages, \<open>maxPages * pageSize + maxLiveRows\<close> distinct rows, one
  measurement per retained row and \<open>maxDiagnostics\<close> diagnostics.\<close>

theorem scroll_retention_bounded:
  assumes "checkConfig c = Inr ()"
    and "s = fst (scrollRun lc sameRef c (createScrollState i g) inputs)"
  shows "int (length (st_pages s)) \<le> maxPages c
    \<and> int (length (retainedRows lc s)) \<le> maxPages c * pageSize c + maxLiveRows c
    \<and> length (st_measurements s) \<le> length (retainedRows lc s)
    \<and> int (length (st_diagnostics s)) \<le> maxDiagnostics c"
proof -
  have c: "valid_config c" using assms(1) by (simp add: valid_config_def)
  have s: "scroll_bounded c s" unfolding assms(2) by (rule scrollRun_bounded [OF c create_bounded [OF c]])
  then show ?thesis using retained_length [OF c s, of lc] measurements_length [of s lc]
    by (simp add: scroll_bounded_def pages_bounded_def)
qed

section \<open>Page requests\<close>

fun loads :: "ScrollEffect list \<Rightarrow> PageRequest list" where
  "loads [] = []"
| "loads (LoadPage r # fx) = r # loads fx"
| "loads (_ # fx) = loads fx"

lemma loads_append [simp]: "loads (fx @ fx') = loads fx @ loads fx'"
  by (induction fx rule: loads.induct) auto

text \<open>The request slot: an operation either sends nothing and at most gives up the outstanding
  request, or sends exactly the request that becomes the outstanding one, with the next id.\<close>

definition slot_step :: "'p ScrollState \<Rightarrow> 'p transition \<Rightarrow> bool" where
  "slot_step s t \<longleftrightarrow>
     loads (snd t) = [] \<and> st_nextRequestId (fst t) = st_nextRequestId s
       \<and> (st_pendingRequest (fst t) = st_pendingRequest s \<or> st_pendingRequest (fst t) = None)
     \<or> (\<exists>r. loads (snd t) = [r] \<and> st_pendingRequest (fst t) = Some r
          \<and> tok_requestId (req_token r) = st_nextRequestId s
          \<and> st_nextRequestId (fst t) = st_nextRequestId s + 1)"

definition quiet :: "'p ScrollState \<Rightarrow> 'p transition \<Rightarrow> bool" where
  "quiet s t \<longleftrightarrow> loads (snd t) = [] \<and> st_nextRequestId (fst t) = st_nextRequestId s
     \<and> st_pendingRequest (fst t) = st_pendingRequest s"

lemma quiet_slot: "quiet s t \<Longrightarrow> slot_step s t"
  by (simp add: quiet_def slot_step_def)

lemma diagnostic_loads [simp]: "loads (snd (diagnostic s d c)) = []"
  by (simp add: diagnostic_def)

lemma correct_loads [simp]: "loads (snd (correct lc s p c)) = []"
  by (auto simp: correct_def correctAnchor_def Let_def split_beta split: NavigationIntent.split option.split)

lemma reportInvalid_loads [simp]: "loads (snd (reportInvalid s rs c)) = []"
  by (induction rs arbitrary: s) (simp_all add: Let_def split_beta)

lemma cancelPending_loads [simp]: "loads (snd (cancelPending s)) = []"
  by (simp add: cancelPending_def split: option.split)

lemma beginBrowse_slot: "slot_step s (beginBrowse lc s t)"
  by (simp add: beginBrowse_def Let_def slot_step_def split_beta)

lemma beginPage_slot: "slot_step s (beginPage s d c)"
  by (simp add: beginPage_def Let_def slot_step_def)

lemma slot_step_pre:
  assumes "st_nextRequestId s' = st_nextRequestId s"
    and "st_pendingRequest s' = st_pendingRequest s \<or> st_pendingRequest s' = None"
    and "slot_step s' t" and "loads fx = []"
  shows "slot_step s (fst t, fx @ snd t)"
  using assms by (auto simp: slot_step_def)

lemma latest_slot: "slot_step s (latest s c)"
  unfolding latest_def Let_def split_beta
  by (rule slot_step_pre [OF _ _ beginPage_slot]) simp_all

lemma recoverOverflow_slot:
  assumes "st_nextRequestId (fst t) = st_nextRequestId s" and "st_pendingRequest (fst t) = None"
    and "loads (snd t) = []"
  shows "slot_step s (recoverOverflow s b c t)"
proof (cases "b \<and> st_intent s = FollowLatest")
  case True
  then show ?thesis unfolding recoverOverflow_def split_beta Let_def
    using slot_step_pre [OF _ _ beginPage_slot, of "fst t" s "snd t" Latest c] assms by simp
qed (use assms in \<open>auto simp: recoverOverflow_def slot_step_def\<close>)

lemma acceptPage_slot: "slot_step s (acceptPage lc s r p c)"
proof (cases "pageFailure s r p c")
  case None
  show ?thesis
    unfolding acceptPage_def Let_def None option.case
    by (rule if_split [THEN iffD2], intro conjI impI recoverOverflow_slot; simp)
qed (simp add: acceptPage_def slot_step_def)

lemma observeGeometry_slot: "slot_step s (observeGeometry lc s i g tok c)"
proof -
  have "slot_step s (beginBrowse lc (s\<lparr>st_geometry := g'\<rparr>) t)" for g' t
    using beginBrowse_slot [of "s\<lparr>st_geometry := g'\<rparr>"] by (simp add: slot_step_def)
  moreover have "quiet s (correct lc (s\<lparr>st_geometry := g', st_measurements := m, st_pendingCorrection := None\<rparr>) s c)"
    "quiet s (s\<lparr>st_geometry := g'\<rparr>, [])" "quiet s (s\<lparr>st_geometry := g', st_pendingCorrection := None\<rparr>, [])"
    "quiet s (s, [])" for g' m
    by (simp_all add: quiet_def)
  ultimately show ?thesis unfolding observeGeometry_def Let_def by (simp add: quiet_slot)
qed

lemma measureRows_slot: "slot_step s (measureRows lc s i items c)"
  by (rule quiet_slot) (simp add: measureRows_def Let_def quiet_def)

lemma live_tail_slot:
  assumes "st_nextRequestId (fst t1) = st_nextRequestId s"
    and "st_pendingRequest (fst t1) = st_pendingRequest s"
    and "loads fx0 = []" and "loads (snd t1) = []"
  shows "slot_step s (if b then
       let (s2, fx2) = diagnostic (fst t1) d c;
           (s3, fx3) = (if st_pendingRequest s2 = None \<and> P then beginPage s2 Latest c else (s2, []))
       in (s3, fx0 @ snd t1 @ fx2 @ fx3) else (fst t1, fx0 @ snd t1))"
  using assms slot_step_pre [OF _ _ beginPage_slot, of "fst (diagnostic (fst t1) d c)" s
      "fx0 @ snd t1 @ snd (diagnostic (fst t1) d c)" Latest c]
  by (simp add: split_beta Let_def) (auto simp: slot_step_def)

lemma liveRowsInput_slot: "slot_step s (liveRowsInput lc sameRef s i rows c)"
proof (cases "sameIdentity (st_identity s) i")
  case True
  then show ?thesis unfolding liveRowsInput_def Let_def split_beta not_True_eq_False if_False
    apply (simp only: not_True_eq_False if_False)
    apply (rule live_tail_slot [unfolded Let_def split_beta])
    by simp_all
qed (simp add: liveRowsInput_def quiet_slot quiet_def)

lemma scrollStep_slot: "slot_step s (scrollStep lc sameRef c s input)"
proof (cases "st_disposed s")
  case False
  have triv: "slot_step s (s, [])" by (simp add: slot_step_def)
  have clear: "slot_step s (t, fx)"
    if "loads fx = []" "st_nextRequestId t = st_nextRequestId s"
      "st_pendingRequest t = st_pendingRequest s \<or> st_pendingRequest t = None" for t fx
    using that by (simp add: slot_step_def)
  show ?thesis
  proof (cases input)
    case (InPageResult tok p)
    then show ?thesis using False triv
      by (simp add: scrollStep_def acceptPage_slot split: option.split)
  next
    case (InPageError tok e)
    then show ?thesis using False triv by (simp add: scrollStep_def clear)
  qed (use False triv in \<open>auto simp: scrollStep_def clear beginPage_slot latest_slot beginBrowse_slot
      observeGeometry_slot measureRows_slot liveRowsInput_slot split_beta createScrollState_def
      split: option.split\<close>)
qed (simp add: scrollStep_def slot_step_def)

text \<open>Along every run the page requests the controller sends carry consecutive ids from the
  counter it started with, so no id is ever reused, and a request that is outstanding at the end is
  the last one sent or, when none was sent, the one outstanding at the start.\<close>

theorem request_ids_consecutive:
  "map (\<lambda>r. tok_requestId (req_token r)) (loads (snd (scrollRun lc sameRef c s inputs)))
     = map (\<lambda>k. st_nextRequestId s + int k) [0..<length (loads (snd (scrollRun lc sameRef c s inputs)))]
   \<and> st_nextRequestId (fst (scrollRun lc sameRef c s inputs))
     = st_nextRequestId s + int (length (loads (snd (scrollRun lc sameRef c s inputs))))
   \<and> st_pendingRequest (fst (scrollRun lc sameRef c s inputs))
     \<in> {None, if loads (snd (scrollRun lc sameRef c s inputs)) = [] then st_pendingRequest s
            else Some (last (loads (snd (scrollRun lc sameRef c s inputs))))}"
proof (induction inputs arbitrary: s)
  case (Cons i "is")
  let ?t = "scrollStep lc sameRef c s i"
  let ?l = "loads (snd (scrollRun lc sameRef c (fst ?t) is))"
  have shift: "map (\<lambda>k. n + int k) [0..<Suc (length ?l)] = n # map (\<lambda>k. n + 1 + int k) [0..<length ?l]" for n
    by (simp add: upt_conv_Cons flip: map_Suc_upt del: upt_Suc)
  from scrollStep_slot [of s lc sameRef c i] Cons.IH [of "fst ?t"] show ?case
    unfolding slot_step_def
    by (elim disjE exE conjE) (auto simp: split_beta Let_def shift simp del: upt_Suc split: if_splits)
qed simp

definition answered :: "RequestToken \<Rightarrow> 'p ScrollState \<Rightarrow> bool" where
  "answered tok s \<longleftrightarrow> tok_requestId tok < st_nextRequestId s
     \<and> (\<forall>r. st_pendingRequest s = Some r \<longrightarrow> tok_requestId (req_token r) \<noteq> tok_requestId tok)"

lemma answered_slot: "slot_step s t \<Longrightarrow> answered tok s \<Longrightarrow> answered tok (fst t)"
  by (auto simp: slot_step_def answered_def)

lemma answered_run: "answered tok s \<Longrightarrow> answered tok (fst (scrollRun lc sameRef c s is))"
  by (induction "is" arbitrary: s) (simp_all add: split_beta Let_def answered_slot [OF scrollStep_slot])

text \<open>Once a request is no longer outstanding (answered, failed, cancelled or superseded), a late
  page or a late error for it changes nothing and has no effect, however the run goes on.\<close>

theorem stale_answer_ignored:
  assumes "tok_requestId tok < st_nextRequestId s"
    and "\<forall>r. st_pendingRequest s = Some r \<longrightarrow> tok_requestId (req_token r) \<noteq> tok_requestId tok"
    and "s' = fst (scrollRun lc sameRef c s inputs)"
  shows "scrollStep lc sameRef c s' (InPageResult tok page) = (s', [])
    \<and> scrollStep lc sameRef c s' (InPageError tok err) = (s', [])"
proof -
  have "answered tok s'" unfolding assms(3) using assms(1,2) by (intro answered_run) (simp add: answered_def)
  then have "\<not> acceptsPage s' tok"
    by (auto simp: acceptsPage_def answered_def matchesRequest_def split: option.splits)
  then show ?thesis by (simp add: scrollStep_def split: option.split)
qed

lemma disposed_run: "st_disposed s \<Longrightarrow> scrollRun lc sameRef c s is = (s, [])"
  by (induction "is" arbitrary: s) (simp_all add: scrollStep_def)

text \<open>Disposal is final. It drops every retained row, measurement and diagnostic and the
  outstanding request, and no later input changes the state or has an effect.\<close>

theorem dispose_final:
  "let s' = fst (scrollStep lc sameRef c s InDispose) in
     scrollRun lc sameRef c s' inputs = (s', []) \<and> st_disposed s'
     \<and> (if st_disposed s then s' = s else
          retainedRows lc s' = [] \<and> st_measurements s' = [] \<and> st_diagnostics s' = []
          \<and> st_pendingRequest s' = None)"
proof -
  have "st_disposed (fst (scrollStep lc sameRef c s InDispose))"
    by (simp add: scrollStep_def split_beta)
  then show ?thesis
    by (simp add: Let_def disposed_run)
      (simp add: scrollStep_def split_beta retainedRows_def orderedRows_def pageRows_def jmap_of_def)
qed

section \<open>A concrete run\<close>

definition demo_config :: ScrollConfig where
  "demo_config = \<lparr>pageSize = 2, maxPages = 2, maxLiveRows = 2, maxDiagnostics = 3,
     overscanViewports = 0, timeoutMs = 100\<rparr>"

definition demo_identity :: SourceIdentity where
  "demo_identity = \<lparr>sourceId = ''s'', actorId = ''a'', sourceEpoch = 1, generation = 1\<rparr>"

definition demo_geometry :: ScrollGeometry where
  "demo_geometry = \<lparr>geo_width = Fin 80, geo_height = Fin 3, geo_scrollTop = 0, geo_scrollHeight = 0,
     geo_layoutEpoch = ''e''\<rparr>"

definition demo_token :: RequestToken where
  "demo_token = \<lparr>tok_identity = demo_identity, tok_windowRevision = 1, tok_snapshot = None,
     tok_requestId = 1, tok_intentRevision = 1\<rparr>"

definition demo_page :: "unit ScrollPage" where
  "demo_page = \<lparr>page_rows = [demo_row ''a'' 1, demo_row ''b'' 2], page_before = Some ''c'', page_after = None,
     page_snapshot = ''v1'', page_hasEarlier = True, page_hasLater = False\<rparr>"

definition demo_state :: "unit ScrollState" where
  "demo_state = fst (scrollRun unit_compare (\<lambda>a b. a = b) demo_config
     (createScrollState demo_identity demo_geometry) [InJumpToLatest, InPageResult demo_token demo_page])"

lemma demo_state_values:
  "length (retainedRows unit_compare demo_state) = 2" "st_nextRequestId demo_state = 2"
  "st_pendingRequest demo_state = None" "checkConfig demo_config = Inr ()"
  by code_simp+

theorem window_conserves_height_witness:
  "let w = deriveScrollWindow unit_compare demo_state demo_config in
     sw_rows w \<noteq> [] \<and> sw_totalHeight w = 4
     \<and> sw_topSpacer w + sum_list (map win_height (sw_rows w)) + sw_bottomSpacer w = 4"
proof -
  let ?w = "deriveScrollWindow unit_compare demo_state demo_config"
  have "sw_rows ?w \<noteq> []" "sw_totalHeight ?w = 4" by code_simp+
  with window_conserves_height [OF refl, of unit_compare demo_state demo_config] show ?thesis
    unfolding Let_def by simp
qed

theorem scroll_retention_bounded_witness:
  "checkConfig demo_config = Inr () \<and> length (retainedRows unit_compare demo_state) = 2
   \<and> int (length (retainedRows unit_compare demo_state)) \<le> maxPages demo_config * pageSize demo_config + maxLiveRows demo_config"
  using scroll_retention_bounded [OF demo_state_values(4) demo_state_def] demo_state_values
  by simp

theorem stale_answer_ignored_witness:
  "scrollStep unit_compare (\<lambda>a b. a = b) demo_config
     (fst (scrollRun unit_compare (\<lambda>a b. a = b) demo_config demo_state [InRequestPage Earlier]))
     (InPageResult demo_token demo_page)
   = (fst (scrollRun unit_compare (\<lambda>a b. a = b) demo_config demo_state [InRequestPage Earlier]), [])"
proof -
  have "tok_requestId demo_token < st_nextRequestId demo_state"
    "\<forall>r. st_pendingRequest demo_state = Some r \<longrightarrow> tok_requestId (req_token r) \<noteq> tok_requestId demo_token"
    using demo_state_values by (simp_all add: demo_token_def)
  from stale_answer_ignored [OF this refl] show ?thesis by blast
qed

end
