(* ===== verification/ControlModel.thy ===== *)
theory ControlModel
  imports JsPrelude
begin

text \<open>
  The runtime-control engine: the data of \<open>ai-runtime-control-contract/src/index.ts\<close> and
  \<open>capsule.ts\<close>, the engine of \<open>ai-runtime-control-logic/src/engineCapsule/coreLogic.ts\<close> and the
  in-memory ports of \<open>ai-runtime-control-support/src/index.ts\<close>.

  The command deque group is the package \<open>depa-actor\<close>, which is not part of the repository: its two
  functions are the parameters \<open>push\<close> and \<open>take\<close> of the definitions that call them, and what the
  engine relies on is the predicate \<open>deque_laws\<close>. The engine's ports are functions on a world of
  type \<open>'w\<close> and may fail; a failure of a port rejects the step. JSON values carried as payloads are
  \<open>jsv\<close>; cloning a state takes them through the JSON round trip, as the code does.
\<close>

section \<open>Data\<close>

datatype AiRuntimeControlCommand =
    EffectRequest (commandId: string) (cmd_effectId: string) (cmd_handlerKey: string)
      (cmd_idempotencyKey: "string option") (cmd_payload: jsv)
  | EffectResult (commandId: string) (cmd_effectId: string) (cmd_resultId: string) (cmd_payload: jsv)
  | DurableHeadBuffer (commandId: string) (cmd_headId: string) (cmd_sequence: int) (cmd_value: jsv)
  | SafepointEvaluate (commandId: string) (cmd_cohortId: string) (cmd_reason: "string option")
  | CohortCommit (commandId: string) (cmd_cohortId: string)

datatype AiRuntimeEffectStatus =
  Requested | Dispatching | Waiting | Completed | Failed | Cancelled | Orphaned | Dirty

record AiRuntimeEffectRecord =
  ef_effectId :: string
  ef_handlerKey :: "string option"
  ef_idempotencyKey :: "string option"
  ef_status :: AiRuntimeEffectStatus
  ef_requestCommandId :: "string option"
  ef_resultId :: "string option"
  ef_requestSeen :: bool
  ef_resultSeen :: bool
  ef_payload :: jsv
  ef_resultPayload :: jsv

record AiRuntimeDurableHeadState =
  hd_headId :: string
  hd_kind :: string
  hd_committedSequence :: int
  hd_bufferedSequence :: "int option"
  hd_value :: jsv

datatype AiRuntimeDurableCohortStatus =
  CohortOpen | CohortReady | CohortCommitting | CohortCommitted | CohortDirty

record AiRuntimeDurableCohortState =
  co_cohortId :: string
  co_headIds :: "string list"
  co_status :: AiRuntimeDurableCohortStatus
  co_commitMarker :: "string option"

datatype AiRuntimeRecoveryClass = RcClean | RcPending | RcRetryable | RcOrphaned | RcDirty

record AiRuntimeControlPersistenceState =
  effects :: "AiRuntimeEffectRecord obj"
  heads :: "AiRuntimeDurableHeadState obj"
  cohorts :: "AiRuntimeDurableCohortState obj"

record CommandItem =
  it_id :: string
  it_command :: AiRuntimeControlCommand
  it_order :: int

record CommandDeque =
  dq_id :: string
  dq_lane :: string
  dq_priority :: int
  dq_items :: "CommandItem list"

record CommandDequeGroupState =
  deques :: "CommandDeque obj"
  group_sequence :: int

record AiRuntimeConcreteControlState =
  commands :: CommandDequeGroupState
  persistence :: AiRuntimeControlPersistenceState
  classification :: AiRuntimeRecoveryClass

record AiRuntimeEffectDispatchRequest =
  rq_effectId :: string
  rq_handlerKey :: string
  rq_idempotencyKey :: "string option"
  rq_payload :: jsv

record AiRuntimeEffectDispatchResult =
  rs_effectId :: string
  rs_resultId :: string
  rs_payload :: jsv

record 'w AiRuntimeControlPorts =
  hasHandler :: "string \<Rightarrow> bool"
  dispatchEffect :: "AiRuntimeEffectDispatchRequest \<Rightarrow> 'w \<Rightarrow> AiRuntimeEffectDispatchResult result \<times> 'w"
  bufferHead :: "string \<Rightarrow> int \<Rightarrow> jsv \<Rightarrow> 'w \<Rightarrow> unit result \<times> 'w"
  commitCohort :: "AiRuntimeDurableCohortState \<Rightarrow> AiRuntimeDurableHeadState obj \<Rightarrow> 'w
    \<Rightarrow> string result \<times> 'w"

type_synonym push_fun =
  "CommandDequeGroupState \<Rightarrow> AiRuntimeControlCommand \<Rightarrow> string \<Rightarrow> string \<Rightarrow> CommandDequeGroupState"
type_synonym selector = "CommandDequeGroupState \<Rightarrow> (string \<times> string) option"
type_synonym take_fun =
  "CommandDequeGroupState \<Rightarrow> selector \<Rightarrow> CommandDequeGroupState \<times> CommandItem option"
type_synonym step_result = "AiRuntimeConcreteControlState \<times> AiRuntimeControlCommand option"

section \<open>Cloning\<close>

text \<open>\<open>JSON.parse(JSON.stringify(v))\<close>: numbers that are not finite become \<open>null\<close>, undefined
  properties disappear and undefined array elements become \<open>null\<close>.\<close>

fun json_clone :: "jsv \<Rightarrow> jsv" where
  "json_clone (JNum n) = (if num_finite n then JNum n else JNull)"
| "json_clone (JArr xs) = JArr (map (\<lambda>x. if x = JUndef then JNull else json_clone x) xs)"
| "json_clone (JObj ps) =
     JObj (map (\<lambda>(k, v). (k, json_clone v)) (filter (\<lambda>(k, v). v \<noteq> JUndef) ps))"
| "json_clone v = v"

fun clone_command :: "AiRuntimeControlCommand \<Rightarrow> AiRuntimeControlCommand" where
  "clone_command (EffectRequest c e h i p) = EffectRequest c e h i (json_clone p)"
| "clone_command (EffectResult c e r p) = EffectResult c e r (json_clone p)"
| "clone_command (DurableHeadBuffer c h n v) = DurableHeadBuffer c h n (json_clone v)"
| "clone_command c = c"

definition clone_item :: "CommandItem \<Rightarrow> CommandItem" where
  "clone_item it = it\<lparr>it_command := clone_command (it_command it)\<rparr>"

definition clone_deque :: "CommandDeque \<Rightarrow> CommandDeque" where
  "clone_deque q = q\<lparr>dq_items := map clone_item (dq_items q)\<rparr>"

definition clone_effect :: "AiRuntimeEffectRecord \<Rightarrow> AiRuntimeEffectRecord" where
  "clone_effect e = e\<lparr>ef_payload := json_clone (ef_payload e), ef_resultPayload := json_clone (ef_resultPayload e)\<rparr>"

definition clone_head :: "AiRuntimeDurableHeadState \<Rightarrow> AiRuntimeDurableHeadState" where
  "clone_head h = h\<lparr>hd_value := json_clone (hd_value h)\<rparr>"

definition clone_obj :: "('v \<Rightarrow> 'v) \<Rightarrow> 'v obj \<Rightarrow> 'v obj" where
  "clone_obj f ps = map (\<lambda>(k, v). (k, f v)) ps"

definition cloneState :: "AiRuntimeConcreteControlState \<Rightarrow> AiRuntimeConcreteControlState" where
  "cloneState st =
     \<lparr>commands = (commands st)\<lparr>deques := clone_obj clone_deque (deques (commands st))\<rparr>,
      persistence = \<lparr>effects = clone_obj clone_effect (effects (persistence st)),
                     heads = clone_obj clone_head (heads (persistence st)),
                     cohorts = cohorts (persistence st)\<rparr>,
      classification = classification st\<rparr>"

section \<open>Queueing\<close>

fun commandQueueFor :: "AiRuntimeControlCommand \<Rightarrow> string" where
  "commandQueueFor (EffectResult _ _ _ _) = ''effectResult''"
| "commandQueueFor (SafepointEvaluate _ _ _) = ''safepoint''"
| "commandQueueFor (CohortCommit _ _) = ''commit''"
| "commandQueueFor _ = ''normal''"

definition buffered :: "AiRuntimeControlPersistenceState \<Rightarrow> string \<Rightarrow> bool" where
  "buffered p headId = (case map_of (heads p) headId of
     Some h \<Rightarrow> hd_bufferedSequence h \<noteq> None | None \<Rightarrow> False)"

definition canCommitCohort :: "AiRuntimeConcreteControlState \<Rightarrow> string \<Rightarrow> bool" where
  "canCommitCohort st cohortId = (case map_of (cohorts (persistence st)) cohortId of
      None \<Rightarrow> False
    | Some cohort \<Rightarrow> co_status cohort \<noteq> CohortDirty
        \<and> list_all (buffered (persistence st)) (co_headIds cohort))"

text \<open>The selector of the group options: the heads of the eligible deques, by priority and then by
  order of arrival.\<close>

definition eligible :: "AiRuntimeConcreteControlState \<Rightarrow> CommandDeque \<Rightarrow> bool" where
  "eligible st q \<longleftrightarrow> dq_items q \<noteq> []
     \<and> (if dq_id q = ''safepoint'' then True
        else if dq_id q \<noteq> ''commit'' then True
        else case it_command (hd (dq_items q)) of
            CohortCommit _ c \<Rightarrow> canCommitCohort st c
          | _ \<Rightarrow> False)"

definition commandSelector :: "AiRuntimeConcreteControlState \<Rightarrow> selector" where
  "commandSelector st g =
     (case js_sort (\<lambda>a b. numOr (dq_priority a - dq_priority b)
                              (it_order (hd (dq_items a)) - it_order (hd (dq_items b))))
             (filter (eligible st) (obj_values (deques g))) of
        [] \<Rightarrow> None
      | q # _ \<Rightarrow> Some (dq_id q, it_id (hd (dq_items q))))"

definition new_deque :: "string \<Rightarrow> string \<Rightarrow> int \<Rightarrow> string \<times> CommandDeque" where
  "new_deque i l p = (i, \<lparr>dq_id = i, dq_lane = l, dq_priority = p, dq_items = []\<rparr>)"

definition createAiRuntimeControlState ::
  "AiRuntimeDurableHeadState obj \<Rightarrow> AiRuntimeDurableCohortState obj \<Rightarrow> AiRuntimeEffectRecord obj
    \<Rightarrow> AiRuntimeConcreteControlState" where
  "createAiRuntimeControlState hs cs es =
     \<lparr>commands = \<lparr>deques = [new_deque ''effectResult'' ''result'' 5, new_deque ''safepoint'' ''commit'' 15,
                            new_deque ''commit'' ''commit'' 20, new_deque ''normal'' ''work'' 50],
                  group_sequence = 0\<rparr>,
      persistence = \<lparr>effects = clone_obj clone_effect es, heads = clone_obj clone_head hs, cohorts = cs\<rparr>,
      classification = RcClean\<rparr>"

definition enqueueAiRuntimeControlCommand ::
  "push_fun \<Rightarrow> AiRuntimeConcreteControlState \<Rightarrow> AiRuntimeControlCommand \<Rightarrow> AiRuntimeConcreteControlState"
where
  "enqueueAiRuntimeControlCommand push st command =
     (let next = cloneState st in
      next\<lparr>commands := push (commands next) command (commandQueueFor command) (commandId command)\<rparr>)"

definition selectNextAiRuntimeControlCommand ::
  "take_fun \<Rightarrow> AiRuntimeConcreteControlState \<Rightarrow> AiRuntimeControlCommand option" where
  "selectNextAiRuntimeControlCommand take_next st =
     map_option it_command (snd (take_next (commands st) (commandSelector st)))"

definition ensureHead ::
  "AiRuntimeDurableHeadState obj \<Rightarrow> string \<Rightarrow> AiRuntimeDurableHeadState" where
  "ensureHead hs headId = (case map_of hs headId of
      Some h \<Rightarrow> h
    | None \<Rightarrow> \<lparr>hd_headId = headId, hd_kind = headId, hd_committedSequence = 0,
              hd_bufferedSequence = None, hd_value = JUndef\<rparr>)"

definition is_safepoint_for :: "string \<Rightarrow> AiRuntimeControlCommand \<Rightarrow> bool" where
  "is_safepoint_for cohortId c = (case c of SafepointEvaluate _ i _ \<Rightarrow> i = cohortId | _ \<Rightarrow> False)"

definition is_commit_for :: "string \<Rightarrow> AiRuntimeControlCommand \<Rightarrow> bool" where
  "is_commit_for cohortId c = (case c of CohortCommit _ i \<Rightarrow> i = cohortId | _ \<Rightarrow> False)"

definition hasQueuedCohortCommand ::
  "AiRuntimeConcreteControlState \<Rightarrow> (AiRuntimeControlCommand \<Rightarrow> bool) \<Rightarrow> bool" where
  "hasQueuedCohortCommand st wanted \<longleftrightarrow>
     list_ex (\<lambda>q. list_ex (\<lambda>it. wanted (it_command it)) (dq_items q)) (obj_values (deques (commands st)))"

fun safepointLoop ::
  "push_fun \<Rightarrow> string \<Rightarrow> int \<Rightarrow> AiRuntimeDurableCohortState list \<Rightarrow> AiRuntimeConcreteControlState
    \<Rightarrow> AiRuntimeConcreteControlState" where
  "safepointLoop push headId sequence [] st = st"
| "safepointLoop push headId sequence (cohort # cs) st =
     safepointLoop push headId sequence cs
       (if headId \<notin> set (co_headIds cohort) then st
        else if hasQueuedCohortCommand st (is_safepoint_for (co_cohortId cohort)) then st
        else if hasQueuedCohortCommand st (is_commit_for (co_cohortId cohort)) then st
        else enqueueAiRuntimeControlCommand push st
               (SafepointEvaluate (''safepoint:'' @ co_cohortId cohort @ '':'' @ headId @ '':'' @ show_int sequence)
                  (co_cohortId cohort) (Some ''durable_head_buffered'')))"

definition enqueueSafepointEvaluationForHead ::
  "push_fun \<Rightarrow> AiRuntimeConcreteControlState \<Rightarrow> string \<Rightarrow> int \<Rightarrow> AiRuntimeConcreteControlState" where
  "enqueueSafepointEvaluationForHead push st headId sequence =
     safepointLoop push headId sequence (obj_values (cohorts (persistence st))) st"

definition enqueueCohortCommitIfAbsent ::
  "push_fun \<Rightarrow> AiRuntimeConcreteControlState \<Rightarrow> string \<Rightarrow> AiRuntimeConcreteControlState" where
  "enqueueCohortCommitIfAbsent push st cohortId =
     (if hasQueuedCohortCommand st (is_commit_for cohortId) then st
      else enqueueAiRuntimeControlCommand push st
             (CohortCommit (''cohort-commit:'' @ cohortId) cohortId))"

section \<open>One step\<close>

definition put_effect ::
  "AiRuntimeEffectRecord \<Rightarrow> AiRuntimeConcreteControlState \<Rightarrow> AiRuntimeConcreteControlState" where
  "put_effect e st = st\<lparr>persistence := (persistence st)
     \<lparr>effects := obj_put (ef_effectId e) e (effects (persistence st))\<rparr>\<rparr>"

definition stepEffectRequest ::
  "push_fun \<Rightarrow> 'w AiRuntimeControlPorts \<Rightarrow> AiRuntimeConcreteControlState \<Rightarrow> string \<Rightarrow> string \<Rightarrow> string
    \<Rightarrow> string option \<Rightarrow> jsv \<Rightarrow> 'w \<Rightarrow> AiRuntimeConcreteControlState result \<times> 'w" where
  "stepEffectRequest push ports next cid effectId handlerKey idem payload w =
     (let handlerKnown = hasHandler ports handlerKey;
          next1 = put_effect
            \<lparr>ef_effectId = effectId, ef_handlerKey = Some handlerKey, ef_idempotencyKey = idem,
             ef_status = (if handlerKnown then Requested else Dirty), ef_requestCommandId = Some cid,
             ef_resultId = None, ef_requestSeen = True, ef_resultSeen = False, ef_payload = payload,
             ef_resultPayload = JUndef\<rparr> next
      in if \<not> handlerKnown then (Inr (next1\<lparr>classification := RcDirty\<rparr>), w)
         else case dispatchEffect ports \<lparr>rq_effectId = effectId, rq_handlerKey = handlerKey,
                     rq_idempotencyKey = idem, rq_payload = payload\<rparr> w of
             (Inl e, w') \<Rightarrow> (Inl e, w')
           | (Inr r, w') \<Rightarrow>
               (Inr (enqueueAiRuntimeControlCommand push next1
                  (EffectResult (cid @ '':result'') (rs_effectId r) (rs_resultId r) (rs_payload r))), w'))"

definition stepEffectResult ::
  "AiRuntimeConcreteControlState \<Rightarrow> string \<Rightarrow> string \<Rightarrow> jsv \<Rightarrow> AiRuntimeConcreteControlState" where
  "stepEffectResult next effectId resultId payload =
     (case map_of (effects (persistence next)) effectId of
        None \<Rightarrow>
          (put_effect
             \<lparr>ef_effectId = effectId, ef_handlerKey = None, ef_idempotencyKey = None, ef_status = Orphaned,
              ef_requestCommandId = None, ef_resultId = Some resultId, ef_requestSeen = False,
              ef_resultSeen = True, ef_payload = JUndef, ef_resultPayload = payload\<rparr> next)
            \<lparr>classification := RcOrphaned\<rparr>
      | Some existing \<Rightarrow>
          next\<lparr>persistence := (persistence next)\<lparr>effects := obj_put effectId
            (existing\<lparr>ef_status := (if ef_status existing = Dirty then Dirty else Completed),
                      ef_resultId := Some resultId, ef_resultSeen := True, ef_resultPayload := payload\<rparr>)
            (effects (persistence next))\<rparr>\<rparr>)"

definition stepBufferHead ::
  "push_fun \<Rightarrow> 'w AiRuntimeControlPorts \<Rightarrow> AiRuntimeConcreteControlState \<Rightarrow> string \<Rightarrow> int \<Rightarrow> jsv \<Rightarrow> 'w
    \<Rightarrow> AiRuntimeConcreteControlState result \<times> 'w" where
  "stepBufferHead push ports next headId sequence val w =
     (case bufferHead ports headId sequence val w of
        (Inl e, w') \<Rightarrow> (Inl e, w')
      | (Inr _, w') \<Rightarrow>
          (Inr (enqueueSafepointEvaluationForHead push
             (next\<lparr>persistence := (persistence next)\<lparr>heads := obj_put headId
                ((ensureHead (heads (persistence next)) headId)
                   \<lparr>hd_bufferedSequence := Some sequence, hd_value := val\<rparr>)
                (heads (persistence next))\<rparr>\<rparr>) headId sequence), w'))"

text \<open>The loop over the heads of a committed cohort. Every head exists here, because the cohort can
  be committed.\<close>

definition commitHead :: "string \<Rightarrow> AiRuntimeDurableHeadState obj \<Rightarrow> AiRuntimeDurableHeadState obj" where
  "commitHead headId hs = (case map_of hs headId of
      None \<Rightarrow> hs
    | Some h \<Rightarrow> obj_put headId
        (h\<lparr>hd_committedSequence := nullish (hd_bufferedSequence h) (hd_committedSequence h),
           hd_bufferedSequence := None\<rparr>) hs)"

definition stepCohortCommit ::
  "'w AiRuntimeControlPorts \<Rightarrow> AiRuntimeConcreteControlState \<Rightarrow> string \<Rightarrow> 'w
    \<Rightarrow> AiRuntimeConcreteControlState result \<times> 'w" where
  "stepCohortCommit ports next cohortId w =
     (case map_of (cohorts (persistence next)) cohortId of
        None \<Rightarrow> (Inr next, w)
      | Some cohort \<Rightarrow>
          if \<not> canCommitCohort next cohortId then (Inr next, w)
          else case commitCohort ports cohort (heads (persistence next)) w of
            (Inl e, w') \<Rightarrow> (Inl e, w')
          | (Inr marker, w') \<Rightarrow>
              (Inr (next\<lparr>persistence := (persistence next)
                 \<lparr>heads := foldl (\<lambda>hs h. commitHead h hs) (heads (persistence next)) (co_headIds cohort),
                  cohorts := obj_put cohortId
                    (cohort\<lparr>co_status := CohortCommitted, co_commitMarker := Some marker\<rparr>)
                    (cohorts (persistence next))\<rparr>\<rparr>), w'))"

definition runCommand ::
  "push_fun \<Rightarrow> 'w AiRuntimeControlPorts \<Rightarrow> AiRuntimeConcreteControlState \<Rightarrow> AiRuntimeControlCommand \<Rightarrow> 'w
    \<Rightarrow> AiRuntimeConcreteControlState result \<times> 'w" where
  "runCommand push ports next command w = (case command of
      EffectRequest cid e h i p \<Rightarrow> stepEffectRequest push ports next cid e h i p w
    | EffectResult cid e r p \<Rightarrow> (Inr (stepEffectResult next e r p), w)
    | DurableHeadBuffer cid h n v \<Rightarrow> stepBufferHead push ports next h n v w
    | SafepointEvaluate cid c r \<Rightarrow>
        (Inr (if canCommitCohort next c then enqueueCohortCommitIfAbsent push next c else next), w)
    | CohortCommit cid c \<Rightarrow> stepCohortCommit ports next c w)"

definition runOneAiRuntimeControlStep ::
  "push_fun \<Rightarrow> take_fun \<Rightarrow> 'w AiRuntimeControlPorts \<Rightarrow> AiRuntimeConcreteControlState \<Rightarrow> 'w
    \<Rightarrow> step_result result \<times> 'w" where
  "runOneAiRuntimeControlStep push take_next ports st w =
     (let next = cloneState st;
          taken = take_next (commands next) (commandSelector next);
          next = next\<lparr>commands := fst taken\<rparr>
      in case snd taken of
           None \<Rightarrow> (Inr (next, None), w)
         | Some item \<Rightarrow>
             (case runCommand push ports next (it_command item) w of
                (Inl e, w') \<Rightarrow> (Inl e, w')
              | (Inr next', w') \<Rightarrow> (Inr (next', Some (it_command item)), w')))"

section \<open>Running\<close>

definition classifyAiRuntimeControlRecovery :: "AiRuntimeConcreteControlState \<Rightarrow> AiRuntimeRecoveryClass" where
  "classifyAiRuntimeControlRecovery st =
     (let es = obj_values (effects (persistence st)); cs = obj_values (cohorts (persistence st)) in
      if list_ex (\<lambda>e. ef_status e = Dirty) es then RcDirty
      else if list_ex (\<lambda>c. co_status c = CohortDirty) cs then RcDirty
      else if list_ex (\<lambda>e. ef_status e = Orphaned) es then RcOrphaned
      else if list_ex (\<lambda>e. ef_status e = Failed) es then RcRetryable
      else if list_ex (\<lambda>e. ef_status e = Requested \<or> ef_status e = Waiting) es then RcPending
      else classification st)"

fun controlLoop ::
  "push_fun \<Rightarrow> take_fun \<Rightarrow> 'w AiRuntimeControlPorts \<Rightarrow> nat \<Rightarrow> AiRuntimeConcreteControlState \<Rightarrow> 'w
    \<Rightarrow> AiRuntimeConcreteControlState result \<times> 'w" where
  "controlLoop push take_next ports 0 st w = (Inr st, w)"
| "controlLoop push take_next ports (Suc n) st w =
     (case runOneAiRuntimeControlStep push take_next ports st w of
        (Inl e, w') \<Rightarrow> (Inl e, w')
      | (Inr (st', None), w') \<Rightarrow> (Inr st', w')
      | (Inr (st', Some c), w') \<Rightarrow> controlLoop push take_next ports n st' w')"

definition runAiRuntimeControlUntilIdle ::
  "push_fun \<Rightarrow> take_fun \<Rightarrow> 'w AiRuntimeControlPorts \<Rightarrow> int option \<Rightarrow> AiRuntimeConcreteControlState \<Rightarrow> 'w
    \<Rightarrow> AiRuntimeConcreteControlState result \<times> 'w" where
  "runAiRuntimeControlUntilIdle push take_next ports maxSteps st w =
     (case controlLoop push take_next ports (nat (nullish maxSteps 100)) st w of
        (Inl e, w') \<Rightarrow> (Inl e, w')
      | (Inr st', w') \<Rightarrow> (Inr (st'\<lparr>classification := classifyAiRuntimeControlRecovery st'\<rparr>), w'))"

section \<open>The in-memory ports\<close>

record MemoryWorld =
  bufferedHeads :: "(string \<times> (int \<times> jsv)) list"
  committedCohorts :: "(string \<times> (string \<times> int obj)) list"

definition headSequence :: "AiRuntimeDurableHeadState obj \<Rightarrow> string \<Rightarrow> int" where
  "headSequence hs headId =
     nullish (orElse (Option.bind (map_of hs headId) hd_bufferedSequence)
       (map_option hd_committedSequence (map_of hs headId))) 0"

text \<open>A handler answers a dispatch request; the pure handlers here stand for any registered one.\<close>

type_synonym handlers =
  "(string \<times> (AiRuntimeEffectDispatchRequest \<Rightarrow> AiRuntimeEffectDispatchResult result)) list"

definition createInMemoryAiRuntimeControlSupport :: "handlers \<Rightarrow> MemoryWorld AiRuntimeControlPorts" where
  "createInMemoryAiRuntimeControlSupport hs =
     \<lparr>hasHandler = (\<lambda>k. map_of hs k \<noteq> None),
      dispatchEffect = (\<lambda>request w. (case map_of hs (rq_handlerKey request) of
          None \<Rightarrow> (Inl (''missing_ai_runtime_effect_handler:'' @ rq_handlerKey request), w)
        | Some handler \<Rightarrow> (handler request, w))),
      bufferHead = (\<lambda>headId sequence val w.
          (Inr (), w\<lparr>bufferedHeads := jmap_set headId (sequence, val) (bufferedHeads w)\<rparr>)),
      commitCohort = (\<lambda>cohort hds w.
          let marker = co_cohortId cohort @ '':''
                @ js_join ''.'' (map (\<lambda>h. show_int (headSequence hds h)) (co_headIds cohort))
          in (Inr marker, w\<lparr>committedCohorts := jmap_set (co_cohortId cohort)
                (marker, obj_of (map (\<lambda>h. (h, headSequence hds h)) (co_headIds cohort)))
                (committedCohorts w)\<rparr>))\<rparr>"

end
