(* ===== verification/ControlProps.thy ===== *)
theory ControlProps
  imports ControlModel
begin

text \<open>
  Properties of the runtime-control engine: which command is taken next, that a run with enough
  steps reaches idleness, that a commit moves a whole cohort at once and agrees with what the port
  recorded, and what the records of effects mean.
\<close>

section \<open>The deque group\<close>

text \<open>What the engine relies on of the deque group: a push appends to the named deque, a take without
  a selection changes nothing, and a take of the front item of a deque removes and returns it.\<close>

definition set_items :: "string \<Rightarrow> (CommandItem list \<Rightarrow> CommandItem list) \<Rightarrow> CommandDeque obj \<Rightarrow> CommandDeque obj" where
  "set_items d f qs = map (\<lambda>(k, q). (k, if k = d then q\<lparr>dq_items := f (dq_items q)\<rparr> else q)) qs"

definition deque_laws :: "push_fun \<Rightarrow> take_fun \<Rightarrow> bool" where
  "deque_laws push take_next \<longleftrightarrow>
     (\<forall>g c d i. d \<in> fst ` set (deques g) \<longrightarrow>
        (\<exists>ord. deques (push g c d i)
           = set_items d (\<lambda>its. its @ [\<lparr>it_id = i, it_command = c, it_order = ord\<rparr>]) (deques g)))
     \<and> (\<forall>g sel. sel g = None \<longrightarrow> take_next g sel = (g, None))
     \<and> (\<forall>g sel d q it rest. sel g = Some (d, it_id it) \<longrightarrow> map_of (deques g) d = Some q
          \<longrightarrow> dq_items q = it # rest \<longrightarrow>
          snd (take_next g sel) = Some it
          \<and> deques (fst (take_next g sel)) = set_items d (\<lambda>_. rest) (deques g))"

lemma deque_laws_push:
  assumes "deque_laws push take_next" and "d \<in> fst ` set (deques g)"
  obtains ord where "deques (push g c d i)
    = set_items d (\<lambda>its. its @ [\<lparr>it_id = i, it_command = c, it_order = ord\<rparr>]) (deques g)"
proof -
  have "\<exists>ord. deques (push g c d i)
    = set_items d (\<lambda>its. its @ [\<lparr>it_id = i, it_command = c, it_order = ord\<rparr>]) (deques g)"
    using assms unfolding deque_laws_def by (elim conjE) simp
  with that show thesis by (elim exE)
qed

lemma deque_laws_none: "deque_laws push take_next \<Longrightarrow> sel g = None \<Longrightarrow> take_next g sel = (g, None)"
  by (simp add: deque_laws_def)

lemma deque_laws_some:
  assumes "deque_laws push take_next" and "sel g = Some (d, it_id it)"
    and "map_of (deques g) d = Some q" and "dq_items q = it # rest"
  shows "snd (take_next g sel) = Some it"
    and "deques (fst (take_next g sel)) = set_items d (\<lambda>_. rest) (deques g)"
  using assms unfolding deque_laws_def by (elim conjE, simp)+

lemma keys_set_items [simp]: "fst ` set (set_items d f qs) = fst ` set qs"
  by (force simp: set_items_def)

lemma map_of_set_items:
  "map_of (set_items d f qs) k
     = map_option (\<lambda>q. if k = d then q\<lparr>dq_items := f (dq_items q)\<rparr> else q) (map_of qs k)"
  by (induction qs) (auto simp: set_items_def)

text \<open>The group the engine works with: its four deques, in the order they were created.\<close>

fun shape :: "CommandDeque obj \<Rightarrow> (string \<times> string \<times> int) list" where
  "shape qs = map (\<lambda>(k, q). (k, dq_id q, dq_priority q)) qs"

definition wf_group :: "CommandDequeGroupState \<Rightarrow> bool" where
  "wf_group g \<longleftrightarrow> shape (deques g) = [(''effectResult'', ''effectResult'', 5), (''safepoint'', ''safepoint'', 15),
     (''commit'', ''commit'', 20), (''normal'', ''normal'', 50)]"

definition queue :: "CommandDequeGroupState \<Rightarrow> string \<Rightarrow> CommandItem list" where
  "queue g d = (case map_of (deques g) d of Some q \<Rightarrow> dq_items q | None \<Rightarrow> [])"

lemma shape_set_items [simp]: "shape (set_items d f qs) = shape qs"
  by (auto simp: set_items_def)

lemma wf_group_cases:
  assumes "wf_group g"
  obtains q1 q2 q3 q4 where
    "deques g = [(''effectResult'', q1), (''safepoint'', q2), (''commit'', q3), (''normal'', q4)]"
    "dq_id q1 = ''effectResult''" "dq_id q2 = ''safepoint''" "dq_id q3 = ''commit''" "dq_id q4 = ''normal''"
    "dq_priority q1 = 5" "dq_priority q2 = 15" "dq_priority q3 = 20" "dq_priority q4 = 50"
    "queue g ''effectResult'' = dq_items q1" "queue g ''safepoint'' = dq_items q2"
    "queue g ''commit'' = dq_items q3" "queue g ''normal'' = dq_items q4"
  using assms by (auto simp: wf_group_def Cons_eq_map_conv queue_def)

lemma wf_keys: "wf_group g \<Longrightarrow> commandQueueFor c \<in> fst ` set (deques g)"
  by (erule wf_group_cases) (cases c, auto)

text \<open>The selector's choice, spelled out.\<close>

definition commit_ready :: "AiRuntimeConcreteControlState \<Rightarrow> CommandItem list \<Rightarrow> bool" where
  "commit_ready st its \<longleftrightarrow> its \<noteq> [] \<and> (case it_command (hd its) of
      CohortCommit _ c \<Rightarrow> canCommitCohort st c | _ \<Rightarrow> False)"

definition front :: "string \<Rightarrow> CommandDequeGroupState \<Rightarrow> (string \<times> string) option" where
  "front d g = Some (d, it_id (hd (queue g d)))"

lemma commandSelector_spec:
  assumes "wf_group g"
  shows "commandSelector st g =
    (if queue g ''effectResult'' \<noteq> [] then front ''effectResult'' g
     else if queue g ''safepoint'' \<noteq> [] then front ''safepoint'' g
     else if commit_ready st (queue g ''commit'') then front ''commit'' g
     else if queue g ''normal'' \<noteq> [] then front ''normal'' g
     else None)"
  using assms
  by (rule wf_group_cases)
    (simp add: commandSelector_def eligible_def commit_ready_def front_def js_sort_def numOr_def)

section \<open>Cloning and queueing\<close>

lemma map_of_clone_obj [simp]: "map_of (clone_obj f ps) k = map_option f (map_of ps k)"
  by (induction ps) (auto simp: clone_obj_def)

lemma keys_clone_obj [simp]: "fst ` set (clone_obj f ps) = fst ` set ps"
  by (force simp: clone_obj_def)

lemma clone_deque_simps [simp]:
  "dq_id (clone_deque q) = dq_id q" "dq_priority (clone_deque q) = dq_priority q"
  "dq_items (clone_deque q) = map clone_item (dq_items q)"
  by (simp_all add: clone_deque_def)

lemma cloneState_simps [simp]:
  "deques (commands (cloneState st)) = clone_obj clone_deque (deques (commands st))"
  "effects (persistence (cloneState st)) = clone_obj clone_effect (effects (persistence st))"
  "heads (persistence (cloneState st)) = clone_obj clone_head (heads (persistence st))"
  "cohorts (persistence (cloneState st)) = cohorts (persistence st)"
  "classification (cloneState st) = classification st"
  by (simp_all add: cloneState_def)

lemma wf_clone [simp]: "wf_group (commands (cloneState st)) \<longleftrightarrow> wf_group (commands st)"
  by (simp add: wf_group_def clone_obj_def case_prod_unfold comp_def)

lemma queue_clone [simp]: "queue (commands (cloneState st)) d = map clone_item (queue (commands st) d)"
  by (simp add: queue_def split: option.split)

lemma push_wf: "deque_laws push take_next \<Longrightarrow> wf_group g \<Longrightarrow> wf_group (push g c (commandQueueFor c) i)"
  using deque_laws_push [OF _ wf_keys] shape_set_items unfolding wf_group_def by metis

lemma queue_set_items:
  "deques g' = set_items d f (deques g) \<Longrightarrow> d \<in> fst ` set (deques g) \<Longrightarrow>
   queue g' d' = (if d' = d then f (queue g d) else queue g d')"
  by (auto simp: queue_def map_of_set_items split: option.split dest: map_of_eq_None_iff [THEN iffD1])

lemma push_queue:
  assumes "deque_laws push take_next" and "wf_group g"
  obtains ord where "\<And>d. queue (push g c (commandQueueFor c) i) d
    = queue g d @ (if d = commandQueueFor c then [\<lparr>it_id = i, it_command = c, it_order = ord\<rparr>] else [])"
proof -
  obtain ord where "deques (push g c (commandQueueFor c) i) = set_items (commandQueueFor c)
      (\<lambda>its. its @ [\<lparr>it_id = i, it_command = c, it_order = ord\<rparr>]) (deques g)"
    using deque_laws_push [OF assms(1) wf_keys [OF assms(2)]] by blast
  from queue_set_items [OF this wf_keys [OF assms(2)]] show thesis by (intro that [of ord]) simp
qed

text \<open>A potential that every processed command lowers: what processing it can still cause.\<close>

fun cost :: "nat \<Rightarrow> AiRuntimeControlCommand \<Rightarrow> nat" where
  "cost nc (EffectRequest _ _ _ _ _) = 2"
| "cost nc (EffectResult _ _ _ _) = 1"
| "cost nc (DurableHeadBuffer _ _ _ _) = 1 + 2 * nc"
| "cost nc (SafepointEvaluate _ _ _) = 2"
| "cost nc (CohortCommit _ _) = 1"

definition queue_cost :: "nat \<Rightarrow> CommandDequeGroupState \<Rightarrow> string \<Rightarrow> nat" where
  "queue_cost nc g d = sum_list (map (\<lambda>it. cost nc (it_command it)) (queue g d))"

definition potential :: "nat \<Rightarrow> CommandDequeGroupState \<Rightarrow> nat" where
  "potential nc g = queue_cost nc g ''effectResult'' + queue_cost nc g ''safepoint''
     + queue_cost nc g ''commit'' + queue_cost nc g ''normal''"

lemma cost_pos: "1 \<le> cost nc c"
  by (cases c) auto

lemma cost_clone [simp]: "cost nc (clone_command c) = cost nc c"
  by (cases c) auto

lemma potential_clone [simp]: "potential nc (commands (cloneState st)) = potential nc (commands st)"
  by (simp add: potential_def queue_cost_def comp_def clone_item_def)

lemma potential_push:
  assumes "deque_laws push take_next" and "wf_group g"
  shows "potential nc (push g c (commandQueueFor c) i) = potential nc g + cost nc c"
proof -
  obtain ord where q: "\<And>d. queue (push g c (commandQueueFor c) i) d
    = queue g d @ (if d = commandQueueFor c then [\<lparr>it_id = i, it_command = c, it_order = ord\<rparr>] else [])"
    using push_queue [OF assms] by blast
  show ?thesis using q by (cases c) (simp_all add: potential_def queue_cost_def)
qed

lemma potential_zero: "potential nc g = 0 \<Longrightarrow> d \<in> {''effectResult'', ''safepoint'', ''commit'', ''normal''} \<Longrightarrow> queue g d = []"
proof -
  have "queue_cost nc g d = 0 \<Longrightarrow> queue g d = []" for d
    using cost_pos [of nc "it_command (hd (queue g d))"] by (cases "queue g d") (auto simp: queue_cost_def)
  then show "potential nc g = 0 \<Longrightarrow> d \<in> {''effectResult'', ''safepoint'', ''commit'', ''normal''} \<Longrightarrow> queue g d = []"
    unfolding potential_def by auto
qed

definition same_cohorts :: "AiRuntimeConcreteControlState \<Rightarrow> AiRuntimeConcreteControlState \<Rightarrow> bool" where
  "same_cohorts a b \<longleftrightarrow> length (cohorts (persistence a)) = length (cohorts (persistence b))"

lemma enqueue_simps [simp]:
  "persistence (enqueueAiRuntimeControlCommand push st c) = persistence (cloneState st)"
  "classification (enqueueAiRuntimeControlCommand push st c) = classification st"
  by (simp_all add: enqueueAiRuntimeControlCommand_def Let_def)

lemma enqueue_wf:
  "deque_laws push take_next \<Longrightarrow> wf_group (commands st) \<Longrightarrow>
   wf_group (commands (enqueueAiRuntimeControlCommand push st c))"
  by (simp add: enqueueAiRuntimeControlCommand_def Let_def push_wf)

lemma enqueue_potential:
  "deque_laws push take_next \<Longrightarrow> wf_group (commands st) \<Longrightarrow>
   potential nc (commands (enqueueAiRuntimeControlCommand push st c)) = potential nc (commands st) + cost nc c"
  by (simp add: enqueueAiRuntimeControlCommand_def Let_def potential_push)

lemma safepointLoop_facts:
  assumes "deque_laws push take_next" and "wf_group (commands st)"
  shows "wf_group (commands (safepointLoop push h n cs st))
    \<and> cohorts (persistence (safepointLoop push h n cs st)) = cohorts (persistence st)
    \<and> potential nc (commands (safepointLoop push h n cs st)) \<le> potential nc (commands st) + 2 * length cs"
  using assms(2)
proof (induction cs arbitrary: st)
  case (Cons c cs)
  let ?st = "if h \<notin> set (co_headIds c) then st
        else if hasQueuedCohortCommand st (is_safepoint_for (co_cohortId c)) then st
        else if hasQueuedCohortCommand st (is_commit_for (co_cohortId c)) then st
        else enqueueAiRuntimeControlCommand push st
               (SafepointEvaluate (''safepoint:'' @ co_cohortId c @ '':'' @ h @ '':'' @ show_int n)
                  (co_cohortId c) (Some ''durable_head_buffered''))"
  have "wf_group (commands ?st)" "potential nc (commands ?st) \<le> potential nc (commands st) + 2"
    "cohorts (persistence ?st) = cohorts (persistence st)"
    using enqueue_wf [OF assms(1) Cons.prems] enqueue_potential [OF assms(1) Cons.prems] Cons.prems
    by simp_all
  with Cons.IH [of ?st] show ?case unfolding safepointLoop.simps by (simp del: if_split)
qed simp

section \<open>Steps\<close>

lemma obj_put_length: "k \<in> fst ` set ps \<Longrightarrow> length (obj_put k v ps) = length ps"
  unfolding obj_put_def by (metis keys_kv_replace length_map)

text \<open>Processing a command queues at most what its cost announces, and keeps the cohorts.\<close>

lemma runCommand_facts:
  assumes laws: "deque_laws push take_next" and wf: "wf_group (commands st)"
    and nc: "length (cohorts (persistence st)) = nc"
    and run: "runCommand push ports st c w = (Inr st', w')"
  shows "wf_group (commands st') \<and> length (cohorts (persistence st')) = nc
    \<and> potential nc (commands st') < potential nc (commands st) + cost nc c"
proof (cases c)
  case (EffectRequest cid e h i p)
  have "wf_group (commands (put_effect r st))" "potential nc (commands (put_effect r st)) = potential nc (commands st)"
    "cohorts (persistence (put_effect r st)) = cohorts (persistence st)" for r
    using wf by (simp_all add: put_effect_def)
  with run nc EffectRequest enqueue_wf [OF laws] enqueue_potential [OF laws] show ?thesis
    by (auto simp: runCommand_def stepEffectRequest_def Let_def split: if_splits prod.splits sum.splits)
next
  case (EffectResult cid e r p)
  with run wf nc show ?thesis
    by (auto simp: runCommand_def stepEffectResult_def put_effect_def split: option.splits)
next
  case (DurableHeadBuffer cid h n v)
  let ?st = "st\<lparr>persistence := (persistence st)\<lparr>heads := obj_put h
      ((ensureHead (heads (persistence st)) h)\<lparr>hd_bufferedSequence := Some n, hd_value := v\<rparr>)
      (heads (persistence st))\<rparr>\<rparr>"
  have st': "st' = safepointLoop push h n (obj_values (cohorts (persistence st))) ?st"
    using run DurableHeadBuffer
    by (auto simp: runCommand_def stepBufferHead_def enqueueSafepointEvaluationForHead_def
        split: prod.splits sum.splits)
  from safepointLoop_facts [OF laws, of ?st h n "obj_values (cohorts (persistence st))" nc] wf nc DurableHeadBuffer
  show ?thesis unfolding st' by simp
next
  case (SafepointEvaluate cid co r)
  with run wf nc enqueue_wf [OF laws wf] enqueue_potential [OF laws wf] show ?thesis
    by (auto simp: runCommand_def enqueueCohortCommitIfAbsent_def)
next
  case (CohortCommit cid co)
  have "length (obj_put co x (cohorts (persistence st))) = nc"
    if "map_of (cohorts (persistence st)) co = Some y" for x y
    using that nc obj_put_length by (metis domI dom_map_of_conv_image_fst)
  with CohortCommit run wf nc show ?thesis
    by (auto simp: runCommand_def stepCohortCommit_def split: option.splits if_splits prod.splits sum.splits)
qed

text \<open>Idle: the selector finds no command.\<close>

definition idle :: "AiRuntimeConcreteControlState \<Rightarrow> bool" where
  "idle st \<longleftrightarrow> commandSelector st (commands st) = None"

lemma selected_front:
  assumes "wf_group g" and "commandSelector st g = Some (d, i)"
  obtains it rest q where "i = it_id it" "map_of (deques g) d = Some q" "dq_items q = it # rest"
    "queue g d = it # rest" "d \<in> {''effectResult'', ''safepoint'', ''commit'', ''normal''}"
proof -
  have ne: "queue g d \<noteq> []" and i: "i = it_id (hd (queue g d))"
    and d: "d \<in> {''effectResult'', ''safepoint'', ''commit'', ''normal''}"
    using assms(2) unfolding commandSelector_spec [OF assms(1)]
    by (auto simp: front_def commit_ready_def split: if_splits)
  from ne obtain q where q: "map_of (deques g) d = Some q" "queue g d = dq_items q"
    by (auto simp: queue_def split: option.splits)
  from that [OF i q(1) _ _ d] ne q(2) show thesis by (metis list.collapse)
qed

lemma potential_take:
  assumes "deques g' = set_items d (\<lambda>_. rest) (deques g)" and "queue g d = it # rest"
    and "d \<in> fst ` set (deques g)" and "d \<in> {''effectResult'', ''safepoint'', ''commit'', ''normal''}"
  shows "potential nc g = potential nc g' + cost nc (it_command it)"
  using queue_set_items [OF assms(1,3)] assms(2,4) by (auto simp: potential_def queue_cost_def)

lemma runOne_none:
  assumes laws: "deque_laws push take_next" and wf: "wf_group (commands st)"
    and run: "runOneAiRuntimeControlStep push take_next ports st w = (Inr (st', None), w')"
  shows "st' = cloneState st \<and> idle st'"
proof -
  let ?n = "cloneState st"
  have none: "snd (take_next (commands ?n) (commandSelector ?n)) = None"
    using run by (auto simp: runOneAiRuntimeControlStep_def Let_def split: option.splits prod.splits sum.splits)
  have "commandSelector ?n (commands ?n) = None"
  proof (rule ccontr)
    assume "commandSelector ?n (commands ?n) \<noteq> None"
    then obtain d i where sel: "commandSelector ?n (commands ?n) = Some (d, i)" by auto
    have wf': "wf_group (commands ?n)" using wf by simp
    from selected_front [OF wf' sel] deque_laws_some(1) [OF laws] sel none show False
      by (metis option.distinct(1))
  qed
  moreover from this have "take_next (commands ?n) (commandSelector ?n) = (commands ?n, None)"
    by (rule deque_laws_none [OF laws])
  ultimately show ?thesis
    using run by (simp add: runOneAiRuntimeControlStep_def Let_def idle_def)
qed

lemma runOne_some:
  assumes laws: "deque_laws push take_next" and wf: "wf_group (commands st)"
    and run: "runOneAiRuntimeControlStep push take_next ports st w = (Inr (st', Some c), w')"
  obtains d it rest g where
    "commandSelector (cloneState st) (commands (cloneState st)) = Some (d, it_id it)"
    "queue (commands (cloneState st)) d = it # rest" "c = it_command it"
    "wf_group g" "\<And>nc. potential nc (commands st) = potential nc g + cost nc c"
    "\<And>d'. queue g d' = (if d' = d then rest else queue (commands (cloneState st)) d')"
    "runCommand push ports ((cloneState st)\<lparr>commands := g\<rparr>) c w = (Inr st', w')"
proof -
  let ?n = "cloneState st"
  have wf': "wf_group (commands ?n)" using wf by simp
  obtain item where item: "snd (take_next (commands ?n) (commandSelector ?n)) = Some item" "c = it_command item"
    and rc: "runCommand push ports (?n\<lparr>commands := fst (take_next (commands ?n) (commandSelector ?n))\<rparr>) c w = (Inr st', w')"
    using run by (auto simp: runOneAiRuntimeControlStep_def Let_def split: option.splits prod.splits sum.splits)
  from item(1) deque_laws_none [OF laws, of "commandSelector ?n" "commands ?n"] obtain d i where
    sel: "commandSelector ?n (commands ?n) = Some (d, i)" by fastforce
  from selected_front [OF wf' sel] obtain it rest q where
    it: "i = it_id it" "map_of (deques (commands ?n)) d = Some q" "dq_items q = it # rest"
    and q: "queue (commands ?n) d = it # rest" and d: "d \<in> {''effectResult'', ''safepoint'', ''commit'', ''normal''}"
    by blast
  let ?g = "fst (take_next (commands ?n) (commandSelector ?n))"
  have tk: "snd (take_next (commands ?n) (commandSelector ?n)) = Some it"
    "deques ?g = set_items d (\<lambda>_. rest) (deques (commands ?n))"
    using deque_laws_some [OF laws _ it(2,3), of "commandSelector ?n"] sel it(1) by blast+
  have key: "d \<in> fst ` set (deques (commands ?n))" using it(2) by (metis domI dom_map_of_conv_image_fst)
  have "wf_group ?g" using wf' tk(2) shape_set_items unfolding wf_group_def by metis
  moreover have "potential nc (commands st) = potential nc ?g + cost nc c" for nc
    using potential_take [OF tk(2) q key d, of nc] item tk(1) by simp
  ultimately show thesis
    using that [of d it rest ?g] sel it(1) q item tk(1) queue_set_items [OF tk(2) key] rc by simp
qed

end
