(* ===== verification/ControlTheorems.thy ===== *)
theory ControlTheorems
  imports ControlProps
begin

text \<open>
  The theorems on whole steps and whole runs of the runtime-control engine, over the lemmas of
  \<open>ControlProps\<close>: liveness of the run loop, resolution of requested effects, atomic commits and the
  meaning of effect records. At the end a deque group that satisfies the laws, and concrete runs.
\<close>

section \<open>Idleness\<close>

lemma canCommit_cong:
  "persistence a = persistence b \<Longrightarrow> canCommitCohort a = canCommitCohort b"
  unfolding canCommitCohort_def [abs_def] by (erule ssubst) (rule refl)

lemma commandSelector_cong:
  assumes "persistence a = persistence b"
  shows "commandSelector a = commandSelector b"
  using canCommit_cong [OF assms] unfolding commandSelector_def [abs_def] eligible_def [abs_def]
  by (rule ssubst) (rule refl)

lemma idle_classification [simp]: "idle (st\<lparr>classification := x\<rparr>) = idle st"
  using commandSelector_cong [of "st\<lparr>classification := x\<rparr>" st] by (simp add: idle_def)

lemma idle_queues:
  assumes "wf_group (commands st)" and "idle st"
  shows "queue (commands st) ''effectResult'' = [] \<and> queue (commands st) ''safepoint'' = []
    \<and> queue (commands st) ''normal'' = [] \<and> \<not> commit_ready st (queue (commands st) ''commit'')"
  using assms unfolding idle_def commandSelector_spec [OF assms(1)] by (auto simp: front_def split: if_splits)

lemma empty_idle:
  assumes "wf_group (commands st)" and "potential nc (commands st) = 0"
  shows "idle st"
  using potential_zero [OF assms(2)] unfolding idle_def commandSelector_spec [OF assms(1)]
  by (simp add: commit_ready_def)

lemma controlLoop_idle:
  assumes laws: "deque_laws push take_next" and wf: "wf_group (commands st)"
    and nc: "length (cohorts (persistence st)) = nc" and fuel: "potential nc (commands st) \<le> n"
    and run: "controlLoop push take_next ports n st w = (Inr st', w')"
  shows "idle st' \<and> wf_group (commands st')"
  using wf nc fuel run
proof (induction n arbitrary: st w)
  case 0
  then show ?case using empty_idle by auto
next
  case (Suc n)
  from Suc.prems(4) obtain s1 oc w1 where
    one: "runOneAiRuntimeControlStep push take_next ports st w = (Inr (s1, oc), w1)"
    by (auto split: prod.splits sum.splits)
  show ?case
  proof (cases oc)
    case None
    with one have "runOneAiRuntimeControlStep push take_next ports st w = (Inr (s1, None), w1)" by simp
    from runOne_none [OF laws Suc.prems(1) this] this Suc.prems show ?thesis by auto
  next
    case (Some c)
    with one have "runOneAiRuntimeControlStep push take_next ports st w = (Inr (s1, Some c), w1)" by simp
    from runOne_some [OF laws Suc.prems(1) this] obtain g where g: "wf_group g"
      "potential nc (commands st) = potential nc g + cost nc c"
      "runCommand push ports ((cloneState st)\<lparr>commands := g\<rparr>) c w = (Inr s1, w1)" by metis
    from runCommand_facts [OF laws _ _ g(3), of nc] g Suc.prems
    have "wf_group (commands s1)" "length (cohorts (persistence s1)) = nc" "potential nc (commands s1) \<le> n"
      by simp_all
    with Suc.IH [of s1 w1] Suc.prems(4) one Some show ?thesis by simp
  qed
qed

text \<open>Ports that never reject.\<close>

definition ports_total :: "'w AiRuntimeControlPorts \<Rightarrow> bool" where
  "ports_total ports \<longleftrightarrow>
     (\<forall>r w. hasHandler ports (rq_handlerKey r) \<longrightarrow> (\<exists>x w'. dispatchEffect ports r w = (Inr x, w')))
     \<and> (\<forall>h n v w. \<exists>w'. bufferHead ports h n v w = (Inr (), w'))
     \<and> (\<forall>c hs w. \<exists>m w'. commitCohort ports c hs w = (Inr m, w'))"

lemma runCommand_total:
  assumes "ports_total ports"
  shows "\<exists>st' w'. runCommand push ports st c w = (Inr st', w')"
proof (cases c)
  case (EffectRequest cid e h i p)
  show ?thesis
  proof (cases "hasHandler ports h")
    case True
    then obtain x w' where "dispatchEffect ports \<lparr>rq_effectId = e, rq_handlerKey = h,
        rq_idempotencyKey = i, rq_payload = p\<rparr> w = (Inr x, w')"
      using assms unfolding ports_total_def by fastforce
    with True EffectRequest show ?thesis by (simp add: runCommand_def stepEffectRequest_def Let_def)
  qed (simp add: EffectRequest runCommand_def stepEffectRequest_def Let_def)
next
  case (DurableHeadBuffer cid h n v)
  then show ?thesis using assms unfolding ports_total_def runCommand_def stepBufferHead_def
    by (metis (no_types, lifting) AiRuntimeControlCommand.case(3) old.prod.case old.sum.simps(6))
next
  case (CohortCommit cid co)
  show ?thesis
  proof (cases "map_of (cohorts (persistence st)) co")
    case (Some y)
    obtain m w' where "commitCohort ports y (heads (persistence st)) w = (Inr m, w')"
      using assms unfolding ports_total_def by blast
    with CohortCommit Some show ?thesis by (simp add: runCommand_def stepCohortCommit_def)
  qed (simp add: CohortCommit runCommand_def stepCohortCommit_def)
qed (simp_all add: runCommand_def)

lemma runOne_total:
  assumes "ports_total ports"
  shows "\<exists>s1 oc w1. runOneAiRuntimeControlStep push take_next ports st w = (Inr (s1, oc), w1)"
proof -
  let ?tk = "take_next (commands (cloneState st)) (commandSelector (cloneState st))"
  show ?thesis
  proof (cases "snd ?tk")
    case (Some item)
    obtain s1 w1 where "runCommand push ports ((cloneState st)\<lparr>commands := fst ?tk\<rparr>) (it_command item) w = (Inr s1, w1)"
      using runCommand_total [OF assms] by blast
    with Some show ?thesis by (simp add: runOneAiRuntimeControlStep_def Let_def)
  qed (simp add: runOneAiRuntimeControlStep_def Let_def)
qed

lemma controlLoop_total:
  assumes "ports_total ports"
  shows "\<exists>st' w'. controlLoop push take_next ports n st w = (Inr st', w')"
proof (induction n arbitrary: st w)
  case (Suc n)
  obtain s1 oc w1 where "runOneAiRuntimeControlStep push take_next ports st w = (Inr (s1, oc), w1)"
    using runOne_total [OF assms] by blast
  then show ?case using Suc.IH [of s1 w1] by (cases oc) auto
qed simp

text \<open>C8: with ports that do not reject, a run whose step budget covers the queued commands (an
  effect request and a safepoint evaluation count two, a head buffer one and two per cohort, the
  others one) returns a state in which every result, safepoint and normal command was processed,
  and the commit queue is empty or the command at its head is for a cohort that cannot be committed.
  The commands behind such a head wait with it, also those whose own cohort could be committed.\<close>

theorem engine_reaches_idle:
  assumes "deque_laws push take_next" and "ports_total ports" and "wf_group (commands st)"
    and "int (potential (length (cohorts (persistence st))) (commands st)) \<le> nullish maxSteps 100"
  shows "\<exists>st' w'. runAiRuntimeControlUntilIdle push take_next ports maxSteps st w = (Inr st', w')
    \<and> queue (commands st') ''effectResult'' = [] \<and> queue (commands st') ''safepoint'' = []
    \<and> queue (commands st') ''normal'' = [] \<and> \<not> commit_ready st' (queue (commands st') ''commit'')"
proof -
  let ?n = "nat (nullish maxSteps 100)"
  obtain s1 w1 where run: "controlLoop push take_next ports ?n st w = (Inr s1, w1)"
    using controlLoop_total [OF assms(2)] by blast
  have "potential (length (cohorts (persistence st))) (commands st) \<le> ?n" using assms(4) by linarith
  from controlLoop_idle [OF assms(1,3) refl this run] have "idle s1" "wf_group (commands s1)" by auto
  then have "idle (s1\<lparr>classification := x\<rparr>)" "wf_group (commands (s1\<lparr>classification := x\<rparr>))" for x by simp_all
  from idle_queues [OF this(2,1)] run show ?thesis by (auto simp: runAiRuntimeControlUntilIdle_def)
qed

section \<open>The command a step takes\<close>

lemma canCommit_clone [simp]: "canCommitCohort (cloneState st) = canCommitCohort st"
proof -
  have "buffered (persistence (cloneState st)) = buffered (persistence st)"
    by (rule ext) (simp add: buffered_def clone_head_def split: option.split)
  then show ?thesis by (intro ext) (simp only: canCommitCohort_def cloneState_simps)
qed

lemma commit_ready_clone: "commit_ready (cloneState st) (map clone_item its) = commit_ready st its"
proof (cases its)
  case (Cons it its')
  then show ?thesis by (cases "it_command it") (simp_all add: commit_ready_def clone_item_def)
qed (simp add: commit_ready_def)

text \<open>A step takes the front command of the result queue if there is one, else of the safepoint
  queue, else of the commit queue provided its cohort can be committed, else of the normal queue;
  the other queues are left to the processing of that command.\<close>

theorem step_takes_by_priority:
  assumes "deque_laws push take_next" and "wf_group (commands st)"
    and "runOneAiRuntimeControlStep push take_next ports st w = (Inr (st', Some c), w')"
  shows "\<exists>d. c = clone_command (it_command (hd (queue (commands st) d))) \<and> queue (commands st) d \<noteq> []
    \<and> d = (if queue (commands st) ''effectResult'' \<noteq> [] then ''effectResult''
           else if queue (commands st) ''safepoint'' \<noteq> [] then ''safepoint''
           else if commit_ready st (queue (commands st) ''commit'') then ''commit'' else ''normal'')"
proof -
  let ?n = "cloneState st"
  have wf: "wf_group (commands ?n)" using assms(2) by simp
  from runOne_some [OF assms] obtain d it rest where
    sel: "commandSelector ?n (commands ?n) = Some (d, it_id it)"
    and q: "queue (commands ?n) d = it # rest" and c: "c = it_command it" by metis
  have d: "d = (if queue (commands st) ''effectResult'' \<noteq> [] then ''effectResult''
           else if queue (commands st) ''safepoint'' \<noteq> [] then ''safepoint''
           else if commit_ready st (queue (commands st) ''commit'') then ''commit'' else ''normal'')"
    using sel unfolding commandSelector_spec [OF wf]
    by (auto simp: front_def commit_ready_clone split: if_splits)
  have ne: "queue (commands st) d \<noteq> []" using q by auto
  moreover have "c = clone_command (it_command (hd (queue (commands st) d)))"
    using q c ne by (cases "queue (commands st) d") (auto simp: clone_item_def)
  ultimately show ?thesis using d by blast
qed

section \<open>Commits\<close>

definition committed_head :: "AiRuntimeDurableHeadState \<Rightarrow> AiRuntimeDurableHeadState" where
  "committed_head h = h\<lparr>hd_committedSequence := nullish (hd_bufferedSequence h) (hd_committedSequence h),
     hd_bufferedSequence := None\<rparr>"

lemma committed_head_idem [simp]: "committed_head (committed_head h) = committed_head h"
  by (simp add: committed_head_def)

lemma map_of_commitHead:
  "map_of (commitHead k hs) h = (if h = k then map_option committed_head (map_of hs h) else map_of hs h)"
  by (auto simp: commitHead_def committed_head_def jso.lookup_store split: option.split)

lemma map_of_commitHeads:
  "map_of (foldl (\<lambda>hs h. commitHead h hs) hs ids) h
     = (if h \<in> set ids then map_option committed_head (map_of hs h) else map_of hs h)"
  by (induction ids arbitrary: hs)
    (auto simp: map_of_commitHead option.map_comp comp_def)

text \<open>C5: a commit through the in-memory ports is all or nothing. When the cohort cannot be committed
  nothing changes. When it can, every head of the cohort moves from its buffered sequence to the same
  committed sequence, which is also what the port recorded under the marker the cohort now carries;
  heads outside the cohort and other cohorts are untouched.\<close>

theorem commit_atomic:
  assumes "stepCohortCommit (createInMemoryAiRuntimeControlSupport hs) st c w = (Inr st', w')"
  shows "if canCommitCohort st c then
      (\<exists>cohort marker seqs.
         map_of (cohorts (persistence st)) c = Some cohort
         \<and> map_of (cohorts (persistence st')) =
             (map_of (cohorts (persistence st)))(c \<mapsto> cohort\<lparr>co_status := CohortCommitted, co_commitMarker := Some marker\<rparr>)
         \<and> map_of (committedCohorts w') (co_cohortId cohort) = Some (marker, seqs)
         \<and> (\<forall>h \<in> set (co_headIds cohort). \<exists>x n. map_of (heads (persistence st)) h = Some x
               \<and> hd_bufferedSequence x = Some n \<and> map_of seqs h = Some n
               \<and> map_of (heads (persistence st')) h
                   = Some (x\<lparr>hd_committedSequence := n, hd_bufferedSequence := None\<rparr>))
         \<and> (\<forall>h. h \<notin> set (co_headIds cohort) \<longrightarrow>
               map_of (heads (persistence st')) h = map_of (heads (persistence st)) h))
    else st' = st \<and> w' = w"
proof (cases "canCommitCohort st c")
  case True
  then obtain co where co: "map_of (cohorts (persistence st)) c = Some co"
    and buf: "list_all (buffered (persistence st)) (co_headIds co)"
    by (auto simp: canCommitCohort_def split: option.splits)
  let ?hs = "heads (persistence st)"
  let ?seqs = "obj_of (map (\<lambda>h. (h, headSequence ?hs h)) (co_headIds co))"
  have st': "persistence st' = (persistence st)
      \<lparr>heads := foldl (\<lambda>hs h. commitHead h hs) ?hs (co_headIds co),
       cohorts := obj_put c (co\<lparr>co_status := CohortCommitted, co_commitMarker := Some (co_cohortId co @ '':''
                @ js_join ''.'' (map (\<lambda>h. show_int (headSequence ?hs h)) (co_headIds co)))\<rparr>) (cohorts (persistence st))\<rparr>"
    and w': "w' = w\<lparr>committedCohorts := jmap_set (co_cohortId co)
        (co_cohortId co @ '':'' @ js_join ''.'' (map (\<lambda>h. show_int (headSequence ?hs h)) (co_headIds co)), ?seqs)
        (committedCohorts w)\<rparr>"
    using assms True co
    by (auto simp: stepCohortCommit_def createInMemoryAiRuntimeControlSupport_def Let_def)
  have head: "\<exists>x n. map_of ?hs h = Some x \<and> hd_bufferedSequence x = Some n \<and> map_of ?seqs h = Some n
      \<and> map_of (heads (persistence st')) h = Some (x\<lparr>hd_committedSequence := n, hd_bufferedSequence := None\<rparr>)"
    if h: "h \<in> set (co_headIds co)" for h
  proof -
    from buf h obtain x n where x: "map_of ?hs h = Some x" "hd_bufferedSequence x = Some n"
      by (auto simp: list_all_iff buffered_def split: option.splits)
    have "map_of ?seqs h = Some (headSequence ?hs h)"
      using h by (simp add: map_of_obj_of rev_map map_of_map_restrict restrict_map_def)
    then show ?thesis using x h
      by (simp add: st' map_of_commitHeads committed_head_def headSequence_def)
  qed
  show ?thesis using True co head st' w'
    by (auto simp: jso.lookup_store jsm.lookup_store map_of_commitHeads intro!: exI [of _ co])
next
  case False
  with assms show ?thesis by (auto simp: stepCohortCommit_def split: option.splits)
qed

section \<open>Requested effects are resolved\<close>

definition requested :: "AiRuntimeConcreteControlState \<Rightarrow> string \<Rightarrow> bool" where
  "requested st k \<longleftrightarrow> (\<exists>r. map_of (effects (persistence st)) k = Some r \<and> ef_status r = Requested)"

definition answers :: "AiRuntimeConcreteControlState \<Rightarrow> string \<Rightarrow> bool" where
  "answers st k \<longleftrightarrow> (\<exists>it \<in> set (queue (commands st) ''effectResult'').
     \<exists>cid rid p. it_command it = EffectResult cid k rid p)"

definition awaiting :: "AiRuntimeConcreteControlState \<Rightarrow> bool" where
  "awaiting st \<longleftrightarrow> (\<forall>k. requested st k \<longrightarrow> answers st k)"

definition faithful_ports :: "'w AiRuntimeControlPorts \<Rightarrow> bool" where
  "faithful_ports ports \<longleftrightarrow> (\<forall>r w x w'. dispatchEffect ports r w = (Inr x, w') \<longrightarrow> rs_effectId x = rq_effectId r)"

lemma clone_command_result:
  "clone_command c = EffectResult cid k rid p \<longleftrightarrow> (\<exists>p'. c = EffectResult cid k rid p' \<and> p = json_clone p')"
  by (cases c) auto

lemma answers_clone [simp]: "answers (cloneState st) k = answers st k"
  by (auto simp: answers_def clone_item_def clone_command_result)

lemma requested_clone [simp]: "requested (cloneState st) k = requested st k"
  by (auto simp: requested_def clone_effect_def)

lemma answers_cong: "commands a = commands b \<Longrightarrow> answers a k = answers b k"
  by (simp add: answers_def)

lemma requested_cong: "persistence a = persistence b \<Longrightarrow> requested a k = requested b k"
  by (simp add: requested_def)

lemma requested_enqueue [simp]: "requested (enqueueAiRuntimeControlCommand push st c) k = requested st k"
  using requested_cong [of "enqueueAiRuntimeControlCommand push st c" "cloneState st"] by simp

lemma answers_enqueue:
  assumes "deque_laws push take_next" and "wf_group (commands st)"
  shows "answers (enqueueAiRuntimeControlCommand push st c) k
    \<longleftrightarrow> answers st k \<or> (\<exists>cid rid p. c = EffectResult cid k rid p)"
proof -
  let ?n = "cloneState st"
  have "wf_group (commands ?n)" using assms(2) by simp
  from push_queue [OF assms(1) this, of c "commandId c"] obtain ord where
    "\<And>d. queue (push (commands ?n) c (commandQueueFor c) (commandId c)) d = queue (commands ?n) d
       @ (if d = commandQueueFor c then [\<lparr>it_id = commandId c, it_command = c, it_order = ord\<rparr>] else [])" by blast
  then have "answers (enqueueAiRuntimeControlCommand push st c) k
      \<longleftrightarrow> answers ?n k \<or> (\<exists>cid rid p. c = EffectResult cid k rid p)"
    unfolding answers_def enqueueAiRuntimeControlCommand_def Let_def by (cases c) (auto simp del: queue_clone)
  then show ?thesis by simp
qed

lemma awaiting_enqueue:
  "deque_laws push take_next \<Longrightarrow> wf_group (commands st) \<Longrightarrow> awaiting st \<Longrightarrow>
   awaiting (enqueueAiRuntimeControlCommand push st c)"
  by (simp add: awaiting_def answers_enqueue)

lemma awaiting_safepointLoop:
  assumes "deque_laws push take_next" and "wf_group (commands st)" and "awaiting st"
  shows "awaiting (safepointLoop push h n cs st)"
  using assms(2,3)
  by (induction cs arbitrary: st)
    (simp_all add: awaiting_enqueue [OF assms(1)] enqueue_wf [OF assms(1)])

text \<open>The command in hand counts as an answer until it is processed.\<close>

lemma awaiting_runCommand:
  assumes laws: "deque_laws push take_next" and wf: "wf_group (commands st)" and "faithful_ports ports"
    and pre: "\<And>k. requested st k \<Longrightarrow> answers st k \<or> (\<exists>cid rid p. c = EffectResult cid k rid p)"
    and run: "runCommand push ports st c w = (Inr st', w')"
  shows "awaiting st'"
proof (cases c)
  case (EffectRequest cid e h i p)
  have ans: "answers (put_effect r st) k = answers st k" for r k by (simp add: answers_def put_effect_def)
  have req: "requested (put_effect r st) k \<longleftrightarrow> (if k = ef_effectId r then ef_status r = Requested else requested st k)" for r k
    by (simp add: requested_def put_effect_def jso.lookup_store)
  have wf': "wf_group (commands (put_effect r st))" for r using wf by (simp add: put_effect_def)
  have dirty: "requested (st''\<lparr>classification := x\<rparr>) = requested st''"
    "answers (st''\<lparr>classification := x\<rparr>) = answers st''" for st'' x
    by (auto simp: requested_def answers_def)
  show ?thesis
  proof (cases "hasHandler ports h")
    case False
    with run EffectRequest pre show ?thesis
      by (auto simp: runCommand_def stepEffectRequest_def Let_def dirty awaiting_def ans req split: if_splits)
  next
    case True
    with run EffectRequest obtain x w1 where
      x: "dispatchEffect ports \<lparr>rq_effectId = e, rq_handlerKey = h, rq_idempotencyKey = i, rq_payload = p\<rparr> w = (Inr x, w1)"
      by (auto simp: runCommand_def stepEffectRequest_def Let_def split: prod.splits sum.splits)
    then have "rs_effectId x = e" using assms(3) unfolding faithful_ports_def by fastforce
    with run EffectRequest pre True x show ?thesis
      by (auto simp: runCommand_def stepEffectRequest_def Let_def awaiting_def ans req answers_enqueue [OF laws wf'])
  qed
next
  case (EffectResult cid e r p)
  have "requested st' k \<Longrightarrow> requested st k \<and> k \<noteq> e" for k
    using run EffectResult
    by (auto simp: runCommand_def stepEffectResult_def put_effect_def requested_def jso.lookup_store
        split: option.splits if_splits)
  moreover have "answers st' k = answers st k" for k
    using run EffectResult
    by (intro answers_cong) (auto simp: runCommand_def stepEffectResult_def put_effect_def split: option.splits)
  ultimately show ?thesis using pre EffectResult unfolding awaiting_def by auto
next
  case (DurableHeadBuffer cid h n v)
  let ?st = "st\<lparr>persistence := (persistence st)\<lparr>heads := obj_put h
      ((ensureHead (heads (persistence st)) h)\<lparr>hd_bufferedSequence := Some n, hd_value := v\<rparr>)
      (heads (persistence st))\<rparr>\<rparr>"
  have "st' = safepointLoop push h n (obj_values (cohorts (persistence st))) ?st"
    using run DurableHeadBuffer
    by (auto simp: runCommand_def stepBufferHead_def enqueueSafepointEvaluationForHead_def
        split: prod.splits sum.splits)
  moreover have "awaiting ?st" using pre DurableHeadBuffer
    by (auto simp: awaiting_def requested_def answers_def)
  moreover have "wf_group (commands ?st)" using wf by simp
  ultimately show ?thesis using awaiting_safepointLoop [OF laws] by blast
next
  case (SafepointEvaluate cid co r)
  with pre have "awaiting st" by (simp add: awaiting_def)
  with run SafepointEvaluate awaiting_enqueue [OF laws wf] show ?thesis
    by (auto simp: runCommand_def enqueueCohortCommitIfAbsent_def)
next
  case (CohortCommit cid co)
  with pre have "awaiting st" by (simp add: awaiting_def)
  moreover have "commands st' = commands st" "requested st' k = requested st k" for k
    using run CohortCommit
    by (auto simp: runCommand_def stepCohortCommit_def requested_def
        split: option.splits if_splits prod.splits sum.splits)
  ultimately show ?thesis using answers_cong [of st' st] by (simp add: awaiting_def)
qed

lemma awaiting_step:
  assumes laws: "deque_laws push take_next" and wf: "wf_group (commands st)" and fp: "faithful_ports ports"
    and aw: "awaiting st" and run: "runOneAiRuntimeControlStep push take_next ports st w = (Inr (st', Some c), w')"
  shows "awaiting st'"
proof -
  let ?n = "cloneState st"
  from runOne_some [OF laws wf run] obtain d it rest g where
    q: "queue (commands ?n) d = it # rest" and c: "c = it_command it" and g: "wf_group g"
    and qg: "\<And>d'. queue g d' = (if d' = d then rest else queue (commands ?n) d')"
    and rc: "runCommand push ports (?n\<lparr>commands := g\<rparr>) c w = (Inr st', w')" by metis
  have "answers (?n\<lparr>commands := g\<rparr>) k \<or> (\<exists>cid rid p. c = EffectResult cid k rid p)"
    if "requested (?n\<lparr>commands := g\<rparr>) k" for k
  proof -
    from that have "requested ?n k" by (simp add: requested_def)
    then have "answers ?n k" using aw by (simp add: awaiting_def)
    then show ?thesis using q c unfolding answers_def
      by (cases "d = ''effectResult''") (auto simp: qg simp del: queue_clone)
  qed
  then show ?thesis using awaiting_runCommand [OF laws _ fp _ rc] g by simp
qed

lemma awaiting_loop:
  assumes laws: "deque_laws push take_next" and wf: "wf_group (commands st)" and fp: "faithful_ports ports"
    and aw: "awaiting st" and run: "controlLoop push take_next ports n st w = (Inr st', w')"
  shows "awaiting st'"
  using wf aw run
proof (induction n arbitrary: st w)
  case (Suc n)
  from Suc.prems(3) obtain s1 oc w1 where
    one: "runOneAiRuntimeControlStep push take_next ports st w = (Inr (s1, oc), w1)"
    by (auto split: prod.splits sum.splits)
  show ?case
  proof (cases oc)
    case None
    with one have "runOneAiRuntimeControlStep push take_next ports st w = (Inr (s1, None), w1)" by simp
    from runOne_none [OF laws Suc.prems(1) this] this Suc.prems show ?thesis by (auto simp: awaiting_def)
  next
    case (Some c)
    with one have s1: "runOneAiRuntimeControlStep push take_next ports st w = (Inr (s1, Some c), w1)" by simp
    from runOne_some [OF laws Suc.prems(1) s1] obtain g where g: "wf_group g"
      "runCommand push ports ((cloneState st)\<lparr>commands := g\<rparr>) c w = (Inr s1, w1)" by metis
    have "wf_group (commands s1)" using runCommand_facts [OF laws _ _ g(2)] g(1) by simp
    with Suc.IH [OF _ awaiting_step [OF laws Suc.prems(1) fp Suc.prems(2) s1]] Suc.prems(3) s1
    show ?thesis by simp
  qed
qed simp

lemma create_wf: "wf_group (commands (createAiRuntimeControlState hs cs es))"
  by (simp add: createAiRuntimeControlState_def wf_group_def new_deque_def)

lemma create_potential: "potential nc (commands (createAiRuntimeControlState hs cs es)) = 0"
  by (simp add: createAiRuntimeControlState_def potential_def queue_cost_def queue_def new_deque_def)

lemma enqueue_all_facts:
  assumes "deque_laws push take_next" and "wf_group (commands st)" and "awaiting st"
  shows "wf_group (commands (foldl (enqueueAiRuntimeControlCommand push) st cmds))
    \<and> awaiting (foldl (enqueueAiRuntimeControlCommand push) st cmds)
    \<and> cohorts (persistence (foldl (enqueueAiRuntimeControlCommand push) st cmds)) = cohorts (persistence st)
    \<and> potential nc (commands (foldl (enqueueAiRuntimeControlCommand push) st cmds))
        = potential nc (commands st) + sum_list (map (cost nc) cmds)"
  using assms(2,3)
  by (induction cmds arbitrary: st)
    (simp_all add: enqueue_wf [OF assms(1)] awaiting_enqueue [OF assms(1)] enqueue_potential [OF assms(1)])

text \<open>C1: a run of a new engine, over ports that do not reject and that answer for the effect they were
  asked for, ends with no effect left requested (each was answered, found orphaned or found without a
  handler) provided its step budget, 100 unless given, is at least the cost of the commands it was
  given: two for an effect request and for a safepoint evaluation, one and two per cohort for a head
  buffer, one for the others. A run with a smaller budget may stop with an effect requested.
  The queue library is a parameter: adding to a deque and taking from it keep the commands and their order.\<close>

theorem requested_effects_resolved:
  assumes "deque_laws push take_next" and "ports_total ports" and "faithful_ports ports"
    and "st = foldl (enqueueAiRuntimeControlCommand push) (createAiRuntimeControlState hs cs []) cmds"
    and "int (sum_list (map (cost (length cs)) cmds)) \<le> nullish maxSteps 100"
  shows "\<exists>st' w'. runAiRuntimeControlUntilIdle push take_next ports maxSteps st w = (Inr st', w')
    \<and> (\<forall>k r. map_of (effects (persistence st')) k = Some r \<longrightarrow> ef_status r \<noteq> Requested)"
proof -
  let ?n = "nat (nullish maxSteps 100)" and ?c = "createAiRuntimeControlState hs cs []"
  have "awaiting ?c" by (simp add: awaiting_def requested_def createAiRuntimeControlState_def clone_obj_def)
  from enqueue_all_facts [OF assms(1) create_wf this] assms(4)
  have st: "wf_group (commands st)" "awaiting st" "length (cohorts (persistence st)) = length cs"
    "potential (length cs) (commands st) \<le> ?n"
    using assms(5) create_potential by (auto simp: createAiRuntimeControlState_def)
  obtain s1 w1 where run: "controlLoop push take_next ports ?n st w = (Inr s1, w1)"
    using controlLoop_total [OF assms(2)] by blast
  from controlLoop_idle [OF assms(1) st(1,3,4) run] have "queue (commands s1) ''effectResult'' = []"
    using idle_queues by blast
  with awaiting_loop [OF assms(1) st(1) assms(3) st(2) run] have "\<not> requested s1 k" for k
    by (auto simp: awaiting_def answers_def)
  then have "requested (s1\<lparr>classification := x\<rparr>) k = False" for k x by (simp add: requested_def)
  with run show ?thesis by (auto simp: runAiRuntimeControlUntilIdle_def requested_def)
qed

section \<open>A deque group and concrete runs\<close>

text \<open>A group as the laws describe it: orders are drawn from the group's sequence.\<close>

definition seq_push :: push_fun where
  "seq_push g c d i = \<lparr>deques = set_items d (\<lambda>its. its @ [\<lparr>it_id = i, it_command = c, it_order = group_sequence g\<rparr>]) (deques g),
     group_sequence = group_sequence g + 1\<rparr>"

definition seq_take :: take_fun where
  "seq_take g sel = (case sel g of
      None \<Rightarrow> (g, None)
    | Some (d, i) \<Rightarrow> (case queue g d of
          [] \<Rightarrow> (g, None)
        | it # rest \<Rightarrow> if it_id it = i then (g\<lparr>deques := set_items d (\<lambda>_. rest) (deques g)\<rparr>, Some it) else (g, None)))"

lemma seq_laws: "deque_laws seq_push seq_take"
  unfolding deque_laws_def by (auto simp: seq_push_def seq_take_def queue_def split: option.splits)

definition echo_handler :: handlers where
  "echo_handler = [(''echo'', \<lambda>r. Inr \<lparr>rs_effectId = rq_effectId r, rs_resultId = ''ok'', rs_payload = rq_payload r\<rparr>)]"

definition echo_ports :: "MemoryWorld AiRuntimeControlPorts" where
  "echo_ports = createInMemoryAiRuntimeControlSupport echo_handler"

lemma echo_total: "ports_total echo_ports"
  by (auto simp: ports_total_def echo_ports_def createInMemoryAiRuntimeControlSupport_def echo_handler_def Let_def
      split: if_splits)

lemma echo_faithful: "faithful_ports echo_ports"
  by (auto simp: faithful_ports_def echo_ports_def createInMemoryAiRuntimeControlSupport_def echo_handler_def
      split: if_splits)

definition demo_world :: MemoryWorld where
  "demo_world = \<lparr>bufferedHeads = [], committedCohorts = []\<rparr>"

definition demo_cohorts :: "AiRuntimeDurableCohortState obj" where
  "demo_cohorts = [(''cp'', \<lparr>co_cohortId = ''cp'', co_headIds = [''a'', ''b''], co_status = CohortOpen, co_commitMarker = None\<rparr>)]"

definition demo_commands :: "AiRuntimeControlCommand list" where
  "demo_commands = [EffectRequest ''c1'' ''e1'' ''echo'' None (JStr ''x''), EffectRequest ''c2'' ''e2'' ''none'' None JNull,
     DurableHeadBuffer ''c3'' ''a'' 7 JNull, DurableHeadBuffer ''c4'' ''b'' 9 JNull, EffectResult ''c5'' ''e3'' ''r'' JNull]"

definition demo_engine :: AiRuntimeConcreteControlState where
  "demo_engine = foldl (enqueueAiRuntimeControlCommand seq_push) (createAiRuntimeControlState [] demo_cohorts []) demo_commands"

lemma demo_engine_wf: "wf_group (commands demo_engine)"
  using enqueue_all_facts [OF seq_laws create_wf [of "[]" demo_cohorts "[]"]]
  by (simp add: demo_engine_def awaiting_def requested_def createAiRuntimeControlState_def clone_obj_def)

lemma demo_budget:
  "potential (length (cohorts (persistence demo_engine))) (commands demo_engine) = 11"
  "sum_list (map (cost (length demo_cohorts)) demo_commands) = 11"
  by code_simp+

theorem engine_reaches_idle_witness:
  "\<exists>st' w'. runAiRuntimeControlUntilIdle seq_push seq_take echo_ports None demo_engine demo_world = (Inr st', w')
    \<and> queue (commands st') ''normal'' = []"
  using engine_reaches_idle [OF seq_laws echo_total demo_engine_wf, of None demo_world] demo_budget by auto

theorem requested_effects_resolved_witness:
  "\<exists>st' w'. runAiRuntimeControlUntilIdle seq_push seq_take echo_ports None demo_engine demo_world = (Inr st', w')
    \<and> (\<forall>k r. map_of (effects (persistence st')) k = Some r \<longrightarrow> ef_status r \<noteq> Requested)"
  using requested_effects_resolved [OF seq_laws echo_total echo_faithful demo_engine_def, of None demo_world]
    demo_budget by simp

lemma demo_step:
  "case runOneAiRuntimeControlStep seq_push seq_take echo_ports demo_engine demo_world of
     (Inr (st', Some c), w') \<Rightarrow> c = EffectResult ''c5'' ''e3'' ''r'' JNull | _ \<Rightarrow> False"
  by code_simp

theorem step_takes_by_priority_witness:
  "\<exists>d. EffectResult ''c5'' ''e3'' ''r'' JNull = clone_command (it_command (hd (queue (commands demo_engine) d)))
     \<and> queue (commands demo_engine) d \<noteq> [] \<and> d = ''effectResult''"
proof -
  obtain st' w' where "runOneAiRuntimeControlStep seq_push seq_take echo_ports demo_engine demo_world
      = (Inr (st', Some (EffectResult ''c5'' ''e3'' ''r'' JNull)), w')"
    using demo_step by (auto split: prod.splits sum.splits option.splits)
  from step_takes_by_priority [OF seq_laws demo_engine_wf this]
  have "\<exists>d. EffectResult ''c5'' ''e3'' ''r'' JNull = clone_command (it_command (hd (queue (commands demo_engine) d)))
     \<and> queue (commands demo_engine) d \<noteq> []
     \<and> d = (if queue (commands demo_engine) ''effectResult'' \<noteq> [] then ''effectResult''
           else if queue (commands demo_engine) ''safepoint'' \<noteq> [] then ''safepoint''
           else if commit_ready demo_engine (queue (commands demo_engine) ''commit'') then ''commit'' else ''normal'')" .
  moreover have "queue (commands demo_engine) ''effectResult'' \<noteq> []" by code_simp
  ultimately show ?thesis by simp
qed

definition buffered_state :: AiRuntimeConcreteControlState where
  "buffered_state = createAiRuntimeControlState
     [(''a'', \<lparr>hd_headId = ''a'', hd_kind = ''a'', hd_committedSequence = 1, hd_bufferedSequence = Some 7, hd_value = JNull\<rparr>),
      (''b'', \<lparr>hd_headId = ''b'', hd_kind = ''b'', hd_committedSequence = 2, hd_bufferedSequence = Some 9, hd_value = JNull\<rparr>)]
     demo_cohorts []"

theorem commit_atomic_witness:
  "\<exists>st' w' x. stepCohortCommit echo_ports buffered_state ''cp'' demo_world = (Inr st', w')
     \<and> map_of (heads (persistence st')) ''b'' = Some x \<and> hd_committedSequence x = 9"
proof -
  obtain st' w' where run: "stepCohortCommit echo_ports buffered_state ''cp'' demo_world = (Inr st', w')"
    using runCommand_total [OF echo_total, of seq_push buffered_state "CohortCommit ''x'' ''cp''" demo_world]
    by (auto simp: runCommand_def)
  have can: "canCommitCohort buffered_state ''cp''" by code_simp
  have co: "map_of (cohorts (persistence buffered_state)) ''cp''
      = Some \<lparr>co_cohortId = ''cp'', co_headIds = [''a'', ''b''], co_status = CohortOpen, co_commitMarker = None\<rparr>"
    by code_simp
  have b: "map_option hd_bufferedSequence (map_of (heads (persistence buffered_state)) ''b'') = Some (Some 9)" by code_simp
  from commit_atomic [OF run [unfolded echo_ports_def]] can obtain cohort where
    c: "map_of (cohorts (persistence buffered_state)) ''cp'' = Some cohort"
    and all: "\<forall>h \<in> set (co_headIds cohort). \<exists>x n. map_of (heads (persistence buffered_state)) h = Some x
               \<and> hd_bufferedSequence x = Some n
               \<and> map_of (heads (persistence st')) h = Some (x\<lparr>hd_committedSequence := n, hd_bufferedSequence := None\<rparr>)"
    by (simp only: if_True) metis
  have "''b'' \<in> set (co_headIds cohort)" using c co by auto
  from bspec [OF all this] b have "\<exists>x. map_of (heads (persistence st')) ''b'' = Some x \<and> hd_committedSequence x = 9"
    by force
  with run show ?thesis by blast
qed

text \<open>A second result for an effect that was never requested turns its orphaned record into a
  completed one, although no request was seen.\<close>

theorem orphan_forgotten_on_second_result:
  "map_of (effects (persistence st)) e = None \<Longrightarrow>
   (\<exists>r. map_of (effects (persistence (stepEffectResult (stepEffectResult st e r1 p1) e r2 p2))) e = Some r
      \<and> ef_status r = Completed \<and> \<not> ef_requestSeen r)"
  by (simp add: stepEffectResult_def put_effect_def jso.lookup_store)

theorem orphan_forgotten_on_second_result_witness:
  "\<exists>r. map_of (effects (persistence (stepEffectResult (stepEffectResult buffered_state ''e'' ''r1'' JNull) ''e'' ''r2'' JNull))) ''e'' = Some r
      \<and> ef_status r = Completed \<and> \<not> ef_requestSeen r"
  by (rule orphan_forgotten_on_second_result) code_simp

end
