(* ===== verification/Recovery.thy ===== *)
theory Recovery
  imports ControlModel
begin

text \<open>
  Recovery of a session: rebuilding effect records from the lifecycle evidence and classifying what
  is on disk (\<open>ai-runtime-control-logic/src/recoveryScanner.ts\<close>), the coordinator's decisions
  (\<open>ai-runtime-control-composer/src/coordinatorCapsule/coreLogic.ts\<close>) and the checkpoint helpers of
  \<open>ai-runtime-control-composer/src/index.ts\<close>.
\<close>

section \<open>Data\<close>

datatype AiRuntimeEffectKind =
  KToolCall | KMcpTool | KBash | KPermission | KQuestionnaire | KProviderCompletion | KRuntimeCheckpoint

datatype AiRuntimeEffectLifecycleEvent =
    EvRequest (ev_effectKind: AiRuntimeEffectKind) (ev_effectId: string) (ev_handlerKey: string)
      (ev_idempotencyKey: string) (ev_sourceCommandId: "string option") (ev_payload: jsv)
  | EvWaiting (ev_effectKind: AiRuntimeEffectKind) (ev_effectId: string) (ev_handlerKey: string)
      (ev_idempotencyKey: string) (ev_waitReason: string) (ev_payload: jsv)
  | EvResult (ev_effectKind: AiRuntimeEffectKind) (ev_effectId: string) (ev_handlerKey: string)
      (ev_resultId: string) (ev_payload: jsv)
  | EvFailed (ev_effectKind: AiRuntimeEffectKind) (ev_effectId: string) (ev_handlerKey: string)
      (ev_error: string) (ev_retryable: bool)

record RealSessionCommitMarker =
  mk_cohortId :: string
  mk_marker :: string
  mk_headSequences :: "int obj"

record RealSessionRecoveryInput =
  in_heads :: "AiRuntimeDurableHeadState obj"
  in_commitMarkers :: "RealSessionCommitMarker obj"
  in_effects :: "AiRuntimeEffectRecord obj"
  in_authoritativeHeadIds :: "string list option"

datatype BlockerReason =
  MissingCommitMarker | HeadCommitSequenceMismatch | EffectOrphaned | EffectDirty | EffectPending

record RealSessionRecoveryBlocker =
  bl_reason :: BlockerReason
  bl_headId :: "string option"
  bl_effectId :: "string option"
  bl_expected :: "int option"
  bl_actual :: "int option"

record RealSessionRecoveryResult =
  rr_classification :: AiRuntimeRecoveryClass
  rr_blockers :: "RealSessionRecoveryBlocker list"

record AiRuntimeSessionHeadDescriptor =
  ds_headId :: string
  ds_kind :: string
  ds_requiredForCheckpoint :: bool

text \<open>The heads of a session; the source and sequence strategy of a descriptor play no role in what
  follows.\<close>

definition AI_RUNTIME_REAL_SESSION_HEADS :: "AiRuntimeSessionHeadDescriptor list" where
  "AI_RUNTIME_REAL_SESSION_HEADS =
     [\<lparr>ds_headId = ''runtime_snapshot'', ds_kind = ''runtime_snapshot'', ds_requiredForCheckpoint = True\<rparr>,
      \<lparr>ds_headId = ''conversation'', ds_kind = ''conversation_head'', ds_requiredForCheckpoint = True\<rparr>,
      \<lparr>ds_headId = ''mailbox'', ds_kind = ''mailbox_head'', ds_requiredForCheckpoint = True\<rparr>,
      \<lparr>ds_headId = ''control_signals'', ds_kind = ''control_signal_head'', ds_requiredForCheckpoint = True\<rparr>,
      \<lparr>ds_headId = ''ingress_log'', ds_kind = ''ingress_log'', ds_requiredForCheckpoint = False\<rparr>,
      \<lparr>ds_headId = ''diagnostics_log'', ds_kind = ''diagnostics_log'', ds_requiredForCheckpoint = False\<rparr>]"

section \<open>Classification\<close>

definition hasAnyMarker :: "RealSessionRecoveryInput \<Rightarrow> bool" where
  "hasAnyMarker i \<longleftrightarrow> obj_keys (in_commitMarkers i) \<noteq> []"

definition has_reason :: "BlockerReason set \<Rightarrow> RealSessionRecoveryBlocker list \<Rightarrow> bool" where
  "has_reason rs bs \<longleftrightarrow> list_ex (\<lambda>b. bl_reason b \<in> rs) bs"

definition classifyFromBlockers :: "RealSessionRecoveryBlocker list \<Rightarrow> AiRuntimeRecoveryClass" where
  "classifyFromBlockers bs =
     (if has_reason {EffectDirty, HeadCommitSequenceMismatch} bs then RcDirty
      else if has_reason {EffectOrphaned} bs then RcOrphaned
      else if has_reason {EffectPending, MissingCommitMarker} bs then RcPending
      else RcClean)"

definition authoritativeHeadIdSet :: "RealSessionRecoveryInput \<Rightarrow> string list" where
  "authoritativeHeadIdSet i = nullish (in_authoritativeHeadIds i)
     (map ds_headId (filter ds_requiredForCheckpoint AI_RUNTIME_REAL_SESSION_HEADS))"

definition isForwardOnlyConversationHead :: "string \<Rightarrow> int \<Rightarrow> int option \<Rightarrow> bool" where
  "isForwardOnlyConversationHead headId expected actual \<longleftrightarrow>
     headId = ''conversation'' \<and> (case actual of Some a \<Rightarrow> expected \<le> a | None \<Rightarrow> False)"

definition headBlocker :: "RealSessionRecoveryInput \<Rightarrow> string \<times> int \<Rightarrow> RealSessionRecoveryBlocker list" where
  "headBlocker i e =
     (let headId = fst e; expected = snd e;
          actual = map_option hd_committedSequence (map_of (in_heads i) headId) in
      if headId \<notin> set (authoritativeHeadIdSet i) then []
      else if isForwardOnlyConversationHead headId expected actual then []
      else if actual \<noteq> Some expected then
        [\<lparr>bl_reason = HeadCommitSequenceMismatch, bl_headId = Some headId, bl_effectId = None,
          bl_expected = Some expected, bl_actual = actual\<rparr>]
      else [])"

definition effect_blocker :: "BlockerReason \<Rightarrow> string \<Rightarrow> RealSessionRecoveryBlocker" where
  "effect_blocker r e = \<lparr>bl_reason = r, bl_headId = None, bl_effectId = Some e, bl_expected = None, bl_actual = None\<rparr>"

definition pendingStatus :: "AiRuntimeEffectStatus \<Rightarrow> bool" where
  "pendingStatus s \<longleftrightarrow> s = Requested \<or> s = Waiting \<or> s = Dispatching"

definition effectBlocker :: "AiRuntimeEffectRecord \<Rightarrow> RealSessionRecoveryBlocker list" where
  "effectBlocker e =
     (if ef_status e = Dirty then [effect_blocker EffectDirty (ef_effectId e)]
      else if ef_status e = Orphaned then [effect_blocker EffectOrphaned (ef_effectId e)]
      else if pendingStatus (ef_status e) then [effect_blocker EffectPending (ef_effectId e)]
      else [])"

definition classifyRealSessionRecovery :: "RealSessionRecoveryInput \<Rightarrow> RealSessionRecoveryResult" where
  "classifyRealSessionRecovery i =
     (let blockers =
        (if hasAnyMarker i then []
         else [\<lparr>bl_reason = MissingCommitMarker, bl_headId = None, bl_effectId = None,
                bl_expected = None, bl_actual = None\<rparr>])
        @ concat (map (\<lambda>marker. concat (map (headBlocker i) (mk_headSequences marker)))
            (obj_values (in_commitMarkers i)))
        @ concat (map effectBlocker (obj_values (in_effects i)))
      in \<lparr>rr_classification = classifyFromBlockers blockers, rr_blockers = blockers\<rparr>)"

section \<open>Evidence\<close>

definition undef_or :: "jsv \<Rightarrow> jsv \<Rightarrow> jsv" where
  "undef_or a b = (if a = JUndef \<or> a = JNull then b else a)"

definition cur :: "('r \<Rightarrow> 'a) \<Rightarrow> 'a \<Rightarrow> 'r option \<Rightarrow> 'a" where
  "cur f d c = (case c of Some r \<Rightarrow> f r | None \<Rightarrow> d)"

text \<open>One event of the loop, on the record the effect has so far. A record without a current one is
  built from the fields the code writes.\<close>

fun applyEvidence ::
  "AiRuntimeEffectLifecycleEvent \<Rightarrow> AiRuntimeEffectRecord option \<Rightarrow> AiRuntimeEffectRecord" where
  "applyEvidence (EvRequest k e h i src p) current =
     (if cur ef_resultSeen False current then
        (case current of Some c \<Rightarrow> c\<lparr>ef_requestSeen := True,
            ef_requestCommandId := orElse (ef_requestCommandId c) src,
            ef_idempotencyKey := orElse (ef_idempotencyKey c) (Some i),
            ef_payload := undef_or (ef_payload c) p\<rparr>)
      else \<lparr>ef_effectId = e, ef_handlerKey = Some h, ef_idempotencyKey = Some i, ef_status = Requested,
            ef_requestCommandId = orElse src (cur ef_requestCommandId None current),
            ef_resultId = cur ef_resultId None current, ef_requestSeen = True,
            ef_resultSeen = cur ef_resultSeen False current,
            ef_payload = undef_or p (cur ef_payload JUndef current),
            ef_resultPayload = cur ef_resultPayload JUndef current\<rparr>)"
| "applyEvidence (EvWaiting k e h i reason p) current =
     (if cur ef_resultSeen False current then
        (case current of Some c \<Rightarrow> c\<lparr>ef_requestSeen := True,
            ef_idempotencyKey := orElse (ef_idempotencyKey c) (Some i),
            ef_payload := undef_or (ef_payload c) p\<rparr>)
      else \<lparr>ef_effectId = e, ef_handlerKey = Some h, ef_idempotencyKey = Some i, ef_status = Waiting,
            ef_requestCommandId = cur ef_requestCommandId None current,
            ef_resultId = cur ef_resultId None current, ef_requestSeen = True,
            ef_resultSeen = cur ef_resultSeen False current,
            ef_payload = undef_or p (cur ef_payload JUndef current),
            ef_resultPayload = cur ef_resultPayload JUndef current\<rparr>)"
| "applyEvidence (EvResult k e h r p) current =
     \<lparr>ef_effectId = e, ef_handlerKey = Some h, ef_idempotencyKey = cur ef_idempotencyKey None current,
      ef_status = (if cur ef_requestSeen False current then Completed else Orphaned),
      ef_requestCommandId = cur ef_requestCommandId None current, ef_resultId = Some r,
      ef_requestSeen = cur ef_requestSeen False current, ef_resultSeen = True,
      ef_payload = cur ef_payload JUndef current, ef_resultPayload = p\<rparr>"
| "applyEvidence (EvFailed k e h err retry) current =
     \<lparr>ef_effectId = e, ef_handlerKey = Some h, ef_idempotencyKey = cur ef_idempotencyKey None current,
      ef_status = (if cur ef_requestSeen False current then Failed else Orphaned),
      ef_requestCommandId = cur ef_requestCommandId None current,
      ef_resultId = cur ef_resultId None current,
      ef_requestSeen = cur ef_requestSeen False current,
      ef_resultSeen = cur ef_resultSeen False current,
      ef_payload = cur ef_payload JUndef current,
      ef_resultPayload = undef_or (cur ef_resultPayload JUndef current)
        (JObj [(''error'', JStr err), (''retryable'', JBool retry)])\<rparr>"

definition rebuildEffectsFromLifecycleEvidence ::
  "AiRuntimeEffectLifecycleEvent list \<Rightarrow> AiRuntimeEffectRecord obj" where
  "rebuildEffectsFromLifecycleEvidence events =
     foldl (\<lambda>es ev. obj_put (ev_effectId ev) (applyEvidence ev (map_of es (ev_effectId ev))) es) [] events"

section \<open>The coordinator\<close>

record AiRuntimeRecoveredInflightDescriptor =
  if_opId :: string
  if_kind :: string
  if_handlerKey :: "string option"
  if_toolName :: "string option"

record AiRuntimePendingEffectRecoveryDecision =
  rd_recoverable :: bool
  rd_pendingEffectIds :: "string list"
  rd_danglingEffectIds :: "string list"

definition pendingBlockerIds :: "RealSessionRecoveryBlocker list \<Rightarrow> string list" where
  "pendingBlockerIds bs = map (\<lambda>b. the (bl_effectId b))
     (filter (\<lambda>b. bl_reason b = EffectPending \<and> bl_effectId b \<noteq> None \<and> bl_effectId b \<noteq> Some []) bs)"

definition decideAiRuntimePendingEffectsRecovery ::
  "RealSessionRecoveryResult \<Rightarrow> AiRuntimeRecoveredInflightDescriptor list
    \<Rightarrow> AiRuntimePendingEffectRecoveryDecision" where
  "decideAiRuntimePendingEffectsRecovery recovery inflights =
     (let pendingEffectIds = pendingBlockerIds (rr_blockers recovery);
          ops = filter (\<lambda>i. i \<noteq> []) (map if_opId inflights);
          dangling = filter (\<lambda>e. e \<notin> set ops) pendingEffectIds
      in \<lparr>rd_recoverable = (length dangling = 0), rd_pendingEffectIds = pendingEffectIds,
          rd_danglingEffectIds = dangling\<rparr>)"

definition classifyRecoveredToolEffectKind :: "string \<Rightarrow> AiRuntimeEffectKind" where
  "classifyRecoveredToolEffectKind toolName =
     (if toolName = ''bash'' \<or> toolName = ''RunDetachedBash'' \<or> toolName = ''DetachedBash'' then KBash
      else if starts_with ''mcp__'' toolName then KMcpTool
      else if toolName = ''Questionnaire'' then KQuestionnaire
      else KToolCall)"

definition buildAiRuntimeInterruptedInflightFailedEvidence ::
  "AiRuntimeRecoveredInflightDescriptor \<Rightarrow> string \<Rightarrow> AiRuntimeEffectLifecycleEvent option" where
  "buildAiRuntimeInterruptedInflightFailedEvidence inflight err =
     (if if_opId inflight = [] then None
      else if if_kind inflight = ''llm'' then
        Some (EvFailed KProviderCompletion (if_opId inflight) (nullish (if_handlerKey inflight) ''llm:recovery'') err False)
      else if if_kind inflight = ''tool'' then
        (let toolName = nullish (orElse (if_toolName inflight) (if_handlerKey inflight)) [] in
         Some (EvFailed (classifyRecoveredToolEffectKind toolName) (if_opId inflight) toolName err False))
      else None)"

record CoordinatorCheckpointDecisionInput =
  cd_storageFilesEnabled :: bool
  cd_safepointSafe :: bool
  cd_pendingEffectIds :: "string list"

datatype CoordinatorCheckpointDecision =
  DecSave | DecSkippedStorageDisabled | DecSkippedNonSafepoint | DecSkippedPendingEffects

definition decideCheckpointAction :: "CoordinatorCheckpointDecisionInput \<Rightarrow> CoordinatorCheckpointDecision" where
  "decideCheckpointAction i =
     (if \<not> cd_storageFilesEnabled i then DecSkippedStorageDisabled
      else if \<not> cd_safepointSafe i then DecSkippedNonSafepoint
      else if length (cd_pendingEffectIds i) > 0 then DecSkippedPendingEffects
      else DecSave)"

text \<open>The capsule resolves its writer by id from a registry; the writer acts on a world.\<close>

definition runCoordinatorCapsule ::
  "(string \<times> ('req \<Rightarrow> 'w \<Rightarrow> 'res result \<times> 'w)) list \<Rightarrow> CoordinatorCheckpointDecisionInput \<Rightarrow> 'req \<Rightarrow> string
    \<Rightarrow> 'w \<Rightarrow> (CoordinatorCheckpointDecision \<times> 'res option) result \<times> 'w" where
  "runCoordinatorCapsule registry decisionInput request writerAdapter w =
     (let decision = decideCheckpointAction decisionInput in
      if decision \<noteq> DecSave then (Inr (decision, None), w)
      else case map_of registry writerAdapter of
          None \<Rightarrow> (Inl (''unknown coordinator writer adapter: '' @ writerAdapter @ '' (registered: ''
                       @ (if registry = [] then ''none'' else js_join '', '' (map fst registry)) @ '')''), w)
        | Some writer \<Rightarrow> (case writer request w of
              (Inl e, w') \<Rightarrow> (Inl e, w')
            | (Inr r, w') \<Rightarrow> (Inr (decision, Some r), w')))"

section \<open>Checkpoints\<close>

definition checkpointDescriptors :: "AiRuntimeSessionHeadDescriptor list" where
  "checkpointDescriptors = filter ds_requiredForCheckpoint AI_RUNTIME_REAL_SESSION_HEADS"

definition createCheckpointHeads :: "AiRuntimeDurableHeadState obj" where
  "createCheckpointHeads = obj_of (map (\<lambda>d. (ds_headId d,
     \<lparr>hd_headId = ds_headId d, hd_kind = ds_kind d, hd_committedSequence = 0,
      hd_bufferedSequence = None, hd_value = JUndef\<rparr>)) checkpointDescriptors)"

definition createCheckpointCohorts :: "AiRuntimeDurableCohortState obj" where
  "createCheckpointCohorts = [(''checkpoint'',
     \<lparr>co_cohortId = ''checkpoint'', co_headIds = map ds_headId checkpointDescriptors,
      co_status = CohortOpen, co_commitMarker = None\<rparr>)]"

definition checkpointHeadSequences :: "AiRuntimeDurableHeadState obj \<Rightarrow> int obj" where
  "checkpointHeadSequences hs = obj_of (map (\<lambda>d. (ds_headId d,
     nullish (map_option hd_committedSequence (map_of hs (ds_headId d))) 0)) checkpointDescriptors)"

definition effectKinds ::
  "AiRuntimeEffectLifecycleEvent list \<Rightarrow> (string \<times> AiRuntimeEffectKind) list" where
  "effectKinds events = foldl (\<lambda>m ev. jmap_set (ev_effectId ev) (ev_effectKind ev) m) [] events"

definition pendingNonCheckpointEffectIds :: "AiRuntimeEffectLifecycleEvent list \<Rightarrow> string list" where
  "pendingNonCheckpointEffectIds events =
     filter (\<lambda>e. map_of (effectKinds events) e \<noteq> Some KRuntimeCheckpoint)
       (pendingBlockerIds (rr_blockers (classifyRealSessionRecovery
          \<lparr>in_heads = [], in_commitMarkers = [], in_effects = rebuildEffectsFromLifecycleEvidence events,
           in_authoritativeHeadIds = Some []\<rparr>)))"

definition pendingRuntimeCheckpointEffects ::
  "AiRuntimeEffectLifecycleEvent list \<Rightarrow> (string \<times> string) list" where
  "pendingRuntimeCheckpointEffects events =
     map (\<lambda>e. (ef_effectId e, case ef_handlerKey e of
            Some h \<Rightarrow> if h = [] then ''runtime_concrete_checkpoint_write'' else h
          | None \<Rightarrow> ''runtime_concrete_checkpoint_write''))
       (filter (\<lambda>e. pendingStatus (ef_status e))
         (filter (\<lambda>e. map_of (effectKinds events) (ef_effectId e) = Some KRuntimeCheckpoint)
           (obj_values (rebuildEffectsFromLifecycleEvidence events))))"

text \<open>Closing interrupted checkpoint attempts appends failures to the evidence of the session, one per
  pending attempt, in order; the evidence log is the list it reads back.\<close>

definition terminalizeInterruptedRuntimeCheckpointEffects ::
  "AiRuntimeEffectLifecycleEvent list \<Rightarrow> AiRuntimeEffectLifecycleEvent list" where
  "terminalizeInterruptedRuntimeCheckpointEffects events =
     foldl (\<lambda>log e. log @ [EvFailed KRuntimeCheckpoint (fst e) (snd e)
                 ''runtime_checkpoint_interrupted_before_commit'' True])
       events (pendingRuntimeCheckpointEffects events)"

text \<open>The command an evidence event queues at an engine.\<close>

fun lifecycleCommand :: "AiRuntimeEffectLifecycleEvent \<Rightarrow> AiRuntimeControlCommand" where
  "lifecycleCommand (EvRequest k e h i src p) =
     EffectRequest (nullish src (''effect-request:'' @ e)) e h (Some i) p"
| "lifecycleCommand (EvWaiting k e h i reason p) =
     EffectRequest (''effect-waiting:'' @ e) e h (Some i) p"
| "lifecycleCommand (EvResult k e h r p) =
     EffectResult (''effect-result:'' @ e @ '':'' @ r) e r p"
| "lifecycleCommand (EvFailed k e h err retry) =
     EffectResult (''effect-failed:'' @ e) e (''failed:'' @ e)
       (JObj [(''error'', JStr err), (''retryable'', JBool retry)])"

definition enqueueAiRuntimeEffectLifecycleEvent ::
  "push_fun \<Rightarrow> AiRuntimeConcreteControlState \<Rightarrow> AiRuntimeEffectLifecycleEvent \<Rightarrow> AiRuntimeConcreteControlState" where
  "enqueueAiRuntimeEffectLifecycleEvent push st ev = enqueueAiRuntimeControlCommand push st (lifecycleCommand ev)"

end
