(* ===== verification/RecoveryProps.thy ===== *)
theory RecoveryProps
  imports Recovery
begin

text \<open>
  Properties of session recovery: what the rebuilt effect records say about the evidence, when a
  session is clean, and that failing the interrupted inflight operations of a recoverable session
  leaves no pending effect behind.
\<close>

section \<open>Rebuilt records\<close>

definition is_request :: "AiRuntimeEffectLifecycleEvent \<Rightarrow> bool" where
  "is_request ev \<longleftrightarrow> (case ev of EvRequest _ _ _ _ _ _ \<Rightarrow> True | EvWaiting _ _ _ _ _ _ \<Rightarrow> True | _ \<Rightarrow> False)"

definition is_result :: "AiRuntimeEffectLifecycleEvent \<Rightarrow> bool" where
  "is_result ev \<longleftrightarrow> (case ev of EvResult _ _ _ _ _ \<Rightarrow> True | _ \<Rightarrow> False)"

definition of_effect :: "string \<Rightarrow> AiRuntimeEffectLifecycleEvent list \<Rightarrow> AiRuntimeEffectLifecycleEvent list" where
  "of_effect k evs = filter (\<lambda>ev. ev_effectId ev = k) evs"

lemma rebuild_snoc:
  "map_of (rebuildEffectsFromLifecycleEvidence (evs @ [ev])) k =
     (if k = ev_effectId ev then Some (applyEvidence ev (map_of (rebuildEffectsFromLifecycleEvidence evs) k))
      else map_of (rebuildEffectsFromLifecycleEvidence evs) k)"
  by (simp add: rebuildEffectsFromLifecycleEvidence_def jso.lookup_store)

lemma of_effect_snoc:
  "of_effect k (evs @ [ev]) = of_effect k evs @ (if ev_effectId ev = k then [ev] else [])"
  by (simp add: of_effect_def)

text \<open>What a record says after the events of its effect.\<close>

definition record_says :: "string \<Rightarrow> AiRuntimeEffectLifecycleEvent list \<Rightarrow> AiRuntimeEffectRecord \<Rightarrow> bool" where
  "record_says k evs r \<longleftrightarrow> evs \<noteq> [] \<and> ef_effectId r = k
     \<and> ef_requestSeen r = list_ex is_request evs
     \<and> ef_resultSeen r = list_ex is_result evs
     \<and> pendingStatus (ef_status r) = (is_request (last evs) \<and> \<not> list_ex is_result evs)
     \<and> (ef_status r = Completed \<longrightarrow> ef_requestSeen r \<and> ef_resultSeen r)
     \<and> ef_status r \<in> {Requested, Waiting, Completed, Failed, Orphaned}"

lemma record_says_step:
  assumes "case c of None \<Rightarrow> evs = [] | Some r \<Rightarrow> record_says (ev_effectId ev) evs r"
  shows "record_says (ev_effectId ev) (evs @ [ev]) (applyEvidence ev c)"
  using assms
  by (cases ev; cases c)
    (auto simp: record_says_def is_request_def is_result_def cur_def pendingStatus_def)

lemma rebuild_says:
  "case map_of (rebuildEffectsFromLifecycleEvidence evs) k of
     None \<Rightarrow> of_effect k evs = [] | Some r \<Rightarrow> record_says k (of_effect k evs) r"
proof (induction evs rule: rev_induct)
  case (snoc ev evs)
  show ?case
  proof (cases "k = ev_effectId ev")
    case True
    from snoc have "record_says (ev_effectId ev) (of_effect k evs @ [ev])
        (applyEvidence ev (map_of (rebuildEffectsFromLifecycleEvidence evs) k))"
      unfolding True by (rule record_says_step)
    with True show ?thesis by (simp add: rebuild_snoc of_effect_snoc)
  next
    case False
    then have "of_effect k (evs @ [ev]) = of_effect k evs"
      "map_of (rebuildEffectsFromLifecycleEvidence (evs @ [ev])) k = map_of (rebuildEffectsFromLifecycleEvidence evs) k"
      by (auto simp: rebuild_snoc of_effect_snoc)
    with snoc show ?thesis by (simp only:)
  qed
qed (simp add: rebuildEffectsFromLifecycleEvidence_def of_effect_def)

lemma rebuild_keys_distinct: "distinct (map fst (rebuildEffectsFromLifecycleEvidence evs))"
  by (induction evs rule: rev_induct)
    (simp_all add: rebuildEffectsFromLifecycleEvidence_def jso.distinct_store)

text \<open>The rebuilt records say exactly what the evidence says. An effect has a record iff it has
  an event; the record has seen a request (a result) iff one is in the evidence; and the effect is
  pending iff its last event asks for it and no result was ever recorded.\<close>

theorem rebuild_characterised:
  "(case map_of (rebuildEffectsFromLifecycleEvidence evs) k of
      None \<Rightarrow> of_effect k evs = []
    | Some r \<Rightarrow> of_effect k evs \<noteq> [] \<and> ef_effectId r = k
        \<and> ef_requestSeen r = list_ex is_request (of_effect k evs)
        \<and> ef_resultSeen r = list_ex is_result (of_effect k evs)
        \<and> pendingStatus (ef_status r)
            = (is_request (last (of_effect k evs)) \<and> \<not> list_ex is_result (of_effect k evs)))"
  using rebuild_says [where evs = evs and k = k] by (auto simp: record_says_def split: option.splits)

section \<open>Clean sessions\<close>

definition head_agrees :: "RealSessionRecoveryInput \<Rightarrow> string \<Rightarrow> int \<Rightarrow> bool" where
  "head_agrees i h n \<longleftrightarrow> h \<notin> set (authoritativeHeadIdSet i)
     \<or> (\<exists>x. map_of (in_heads i) h = Some x
          \<and> (hd_committedSequence x = n \<or> h = ''conversation'' \<and> n \<le> hd_committedSequence x))"

lemma headBlocker_Nil: "headBlocker i (h, n) = [] \<longleftrightarrow> head_agrees i h n"
  by (auto simp: headBlocker_def head_agrees_def Let_def isForwardOnlyConversationHead_def split: option.splits)

lemma headBlocker_reason: "b \<in> set (headBlocker i e) \<Longrightarrow> bl_reason b = HeadCommitSequenceMismatch"
  by (auto simp: headBlocker_def Let_def split: if_splits)

lemma classifyFromBlockers_clean: "classifyFromBlockers bs = RcClean \<longleftrightarrow> bs = []"
proof -
  have "bs \<noteq> [] \<Longrightarrow> classifyFromBlockers bs \<noteq> RcClean"
    by (cases bs; cases "bl_reason (hd bs)") (auto simp: classifyFromBlockers_def has_reason_def)
  then show ?thesis by (cases "bs = []") (auto simp: classifyFromBlockers_def has_reason_def)
qed

text \<open>A session is classified clean iff some cohort was committed, every authoritative head has
  the sequence its commit markers recorded (the conversation may be ahead), and no effect is dirty,
  orphaned or pending.\<close>

theorem clean_session_iff:
  "rr_classification (classifyRealSessionRecovery i) = RcClean \<longleftrightarrow>
     in_commitMarkers i \<noteq> []
     \<and> (\<forall>(c, m) \<in> set (in_commitMarkers i). \<forall>(h, n) \<in> set (mk_headSequences m). head_agrees i h n)
     \<and> (\<forall>(k, e) \<in> set (in_effects i). ef_status e \<in> {Completed, Failed, Cancelled})"
proof -
  have eff: "effectBlocker e = [] \<longleftrightarrow> ef_status e \<in> {Completed, Failed, Cancelled}" for e
    by (cases "ef_status e") (simp_all add: effectBlocker_def pendingStatus_def)
  show ?thesis
    by (auto simp: classifyRealSessionRecovery_def Let_def classifyFromBlockers_clean hasAnyMarker_def
        eff headBlocker_Nil split: prod.splits) (use headBlocker_Nil eff in force)+
qed

section \<open>Failing interrupted operations\<close>

text \<open>The pending effects as the coordinator sees them.\<close>

lemma pending_blockers:
  "pendingBlockerIds (rr_blockers (classifyRealSessionRecovery i))
     = map ef_effectId (filter (\<lambda>e. pendingStatus (ef_status e) \<and> ef_effectId e \<noteq> []) (obj_values (in_effects i)))"
proof -
  have heads: "pendingBlockerIds (concat (map (\<lambda>m. concat (map (headBlocker i) (mk_headSequences m))) ms)) = []" for ms
    by (auto simp: pendingBlockerIds_def filter_empty_conv dest!: headBlocker_reason)
  have app: "pendingBlockerIds (a @ b) = pendingBlockerIds a @ pendingBlockerIds b" for a b
    by (simp add: pendingBlockerIds_def)
  have one: "pendingBlockerIds (effectBlocker e)
      = (if pendingStatus (ef_status e) \<and> ef_effectId e \<noteq> [] then [ef_effectId e] else [])" for e
    by (auto simp: pendingBlockerIds_def effectBlocker_def effect_blocker_def pendingStatus_def)
  have "pendingBlockerIds (concat (map effectBlocker es))
      = map ef_effectId (filter (\<lambda>e. pendingStatus (ef_status e) \<and> ef_effectId e \<noteq> []) es)" for es
    by (induction es) (simp_all add: app one pendingBlockerIds_def [of "[]"])
  moreover have "pendingBlockerIds (if b then [] else [\<lparr>bl_reason = MissingCommitMarker, bl_headId = None,
      bl_effectId = None, bl_expected = None, bl_actual = None\<rparr>]) = []" for b
    by (simp add: pendingBlockerIds_def)
  ultimately show ?thesis
    unfolding classifyRealSessionRecovery_def Let_def RealSessionRecoveryResult.select_convs app heads
    by (simp del: map_map)
qed

definition pending_effect :: "AiRuntimeEffectLifecycleEvent list \<Rightarrow> string \<Rightarrow> bool" where
  "pending_effect evs k \<longleftrightarrow>
     (\<exists>r. map_of (rebuildEffectsFromLifecycleEvidence evs) k = Some r \<and> pendingStatus (ef_status r))"

lemma pending_effect_iff:
  "pending_effect evs k \<longleftrightarrow> of_effect k evs \<noteq> [] \<and> is_request (last (of_effect k evs))
     \<and> \<not> list_ex is_result (of_effect k evs)"
  using rebuild_says [where evs = evs and k = k] unfolding pending_effect_def
  by (auto simp: record_says_def split: option.splits)

definition failedEvidence ::
  "AiRuntimeRecoveredInflightDescriptor list \<Rightarrow> string \<Rightarrow> AiRuntimeEffectLifecycleEvent list" where
  "failedEvidence inflights err =
     List.map_filter (\<lambda>i. buildAiRuntimeInterruptedInflightFailedEvidence i err) inflights"

lemma failedEvidence_not_request: "ev \<in> set (failedEvidence is err) \<Longrightarrow> \<not> is_request ev"
  by (auto simp: failedEvidence_def List.map_filter_def buildAiRuntimeInterruptedInflightFailedEvidence_def
      is_request_def Let_def split: if_splits)

lemma failedEvidence_covers:
  "i \<in> set is \<Longrightarrow> if_opId i \<noteq> [] \<Longrightarrow> if_kind i \<in> {''llm'', ''tool''} \<Longrightarrow>
   \<exists>ev \<in> set (failedEvidence is err). ev_effectId ev = if_opId i"
  by (auto simp: failedEvidence_def List.map_filter_def buildAiRuntimeInterruptedInflightFailedEvidence_def Let_def
      intro!: rev_image_eqI)

lemma failed_not_pending:
  assumes "ev \<in> set (failedEvidence is err)" and "ev_effectId ev = k"
  shows "\<not> pending_effect (evs @ failedEvidence is err) k"
proof -
  have ne: "of_effect k (failedEvidence is err) \<noteq> []"
    using assms by (auto simp: of_effect_def filter_empty_conv)
  then have "last (of_effect k (evs @ failedEvidence is err)) \<in> set (failedEvidence is err)"
    using last_in_set [OF ne] by (simp add: of_effect_def)
  then show ?thesis using failedEvidence_not_request by (auto simp: pending_effect_iff)
qed

lemma not_pending_kept:
  assumes "\<not> pending_effect evs k"
  shows "\<not> pending_effect (evs @ failedEvidence is err) k"
proof (cases "\<exists>ev \<in> set (failedEvidence is err). ev_effectId ev = k")
  case False
  then have "of_effect k (failedEvidence is err) = []" by (auto simp: of_effect_def filter_empty_conv)
  then have "of_effect k (evs @ failedEvidence is err) = of_effect k evs" by (simp add: of_effect_def)
  with assms show ?thesis by (simp add: pending_effect_iff)
qed (use failed_not_pending in blast)

lemma recoverable_covers:
  "rd_recoverable (decideAiRuntimePendingEffectsRecovery rec inflights) \<Longrightarrow>
   k \<in> set (pendingBlockerIds (rr_blockers rec)) \<Longrightarrow> \<exists>i \<in> set inflights. if_opId i = k"
  by (auto simp: decideAiRuntimePendingEffectsRecovery_def Let_def filter_empty_conv)

lemma pending_ids_iff:
  "k \<in> set (rd_pendingEffectIds (decideAiRuntimePendingEffectsRecovery
      (classifyRealSessionRecovery \<lparr>in_heads = hs, in_commitMarkers = ms,
         in_effects = rebuildEffectsFromLifecycleEvidence evs, in_authoritativeHeadIds = auth\<rparr>) inflights))
   \<longleftrightarrow> k \<noteq> [] \<and> pending_effect evs k"
proof -
  have id: "ef_effectId r = k'" if "map_of (rebuildEffectsFromLifecycleEvidence evs) k' = Some r" for k' r
    using that rebuild_says [where evs = evs and k = k'] by (simp add: record_says_def)
  have "(k', r) \<in> set (rebuildEffectsFromLifecycleEvidence evs) \<longleftrightarrow>
      map_of (rebuildEffectsFromLifecycleEvidence evs) k' = Some r" for k' r
    using rebuild_keys_distinct [of evs] by (metis map_of_SomeD map_of_is_SomeI)
  then have "k \<in> ef_effectId ` (snd ` set (rebuildEffectsFromLifecycleEvidence evs) \<inter>
        {e. pendingStatus (ef_status e) \<and> ef_effectId e \<noteq> []}) \<longleftrightarrow> k \<noteq> [] \<and> pending_effect evs k"
    using id unfolding pending_effect_def by (force simp: image_iff)
  then show ?thesis
    by (simp add: decideAiRuntimePendingEffectsRecovery_def Let_def pending_blockers Int_def conj_ac)
qed

lemma failedEvidence_only:
  "ev \<in> set (failedEvidence is err) \<Longrightarrow>
   \<exists>i \<in> set is. if_opId i = ev_effectId ev \<and> if_kind i \<in> {''llm'', ''tool''}"
  by (auto simp: failedEvidence_def List.map_filter_def buildAiRuntimeInterruptedInflightFailedEvidence_def
      Let_def split: if_splits)

lemma pending_after_failures:
  assumes "k \<noteq> []"
  shows "pending_effect (evs @ failedEvidence is err) k \<longleftrightarrow>
    pending_effect evs k \<and> (\<forall>i \<in> set is. if_opId i = k \<longrightarrow> if_kind i \<notin> {''llm'', ''tool''})"
proof (cases "\<exists>ev \<in> set (failedEvidence is err). ev_effectId ev = k")
  case True
  then show ?thesis using failed_not_pending failedEvidence_only by metis
next
  case False
  then have "of_effect k (evs @ failedEvidence is err) = of_effect k evs"
    by (auto simp: of_effect_def filter_empty_conv)
  moreover have "if_kind i \<notin> {''llm'', ''tool''}" if "i \<in> set is" "if_opId i = k" for i
    using failedEvidence_covers [OF that(1)] that(2) assms False by metis
  ultimately show ?thesis by (auto simp: pending_effect_iff)
qed

lemma uncovered_left:
  assumes "set left = {k \<in> all. \<forall>i \<in> set is. f i = k \<longrightarrow> \<not> P i}"
    and "\<And>k. k \<in> all \<Longrightarrow> \<exists>i \<in> set is. f i = k"
  shows "(\<forall>k \<in> set left. \<exists>i \<in> set is. f i = k \<and> \<not> P i) \<and> (list_all P is \<longrightarrow> left = [])"
proof
  show covered: "\<forall>k \<in> set left. \<exists>i \<in> set is. f i = k \<and> \<not> P i" using assms by blast
  show "list_all P is \<longrightarrow> left = []" using covered by (cases left) (auto simp: list_all_iff)
qed

text \<open>C2: recording the failure of the interrupted model and tool operations takes exactly the effects
  of these operations out of the pending ones, whatever the heads and markers are; what stays pending
  has no model or tool operation of its id.  When the coordinator called the session recoverable,
  every effect that stays pending is an operation of another kind (for which no failure evidence is
  built), so none stays when all interrupted operations are model or tool operations.\<close>

theorem recoverable_then_resolved:
  assumes "rd_recoverable decision"
    and "decision = decideAiRuntimePendingEffectsRecovery
      (classifyRealSessionRecovery \<lparr>in_heads = hs, in_commitMarkers = ms,
         in_effects = rebuildEffectsFromLifecycleEvidence evs, in_authoritativeHeadIds = auth\<rparr>) inflights"
    and "left = rd_pendingEffectIds (decideAiRuntimePendingEffectsRecovery
      (classifyRealSessionRecovery \<lparr>in_heads = hs', in_commitMarkers = ms',
         in_effects = rebuildEffectsFromLifecycleEvidence (evs @ failedEvidence inflights err),
         in_authoritativeHeadIds = auth'\<rparr>) inflights')"
  shows "set left = {k \<in> set (rd_pendingEffectIds decision).
        \<forall>i \<in> set inflights. if_opId i = k \<longrightarrow> if_kind i \<notin> {''llm'', ''tool''}}
    \<and> (\<forall>k \<in> set left. \<exists>i \<in> set inflights. if_opId i = k \<and> if_kind i \<notin> {''llm'', ''tool''})
    \<and> (list_all (\<lambda>i. if_kind i \<in> {''llm'', ''tool''}) inflights \<longrightarrow> left = [])"
proof -
  have left: "set left = {k \<in> set (rd_pendingEffectIds decision).
      \<forall>i \<in> set inflights. if_opId i = k \<longrightarrow> if_kind i \<notin> {''llm'', ''tool''}}"
    unfolding assms(2,3) by (auto simp: pending_ids_iff pending_after_failures)
  have "rd_pendingEffectIds decision = pendingBlockerIds (rr_blockers (classifyRealSessionRecovery
      \<lparr>in_heads = hs, in_commitMarkers = ms, in_effects = rebuildEffectsFromLifecycleEvidence evs,
        in_authoritativeHeadIds = auth\<rparr>))"
    unfolding assms(2) by (simp add: decideAiRuntimePendingEffectsRecovery_def Let_def)
  then have "\<exists>i \<in> set inflights. if_opId i = k" if "k \<in> set (rd_pendingEffectIds decision)" for k
    using that recoverable_covers [OF assms(1) [unfolded assms(2)], of k] by simp
  from uncovered_left [OF left this] left show ?thesis by (intro conjI) simp_all
qed

section \<open>Closing interrupted checkpoints\<close>

lemma effectKinds_lookup:
  "map_of (effectKinds evs) k = (if of_effect k evs = [] then None else Some (ev_effectKind (last (of_effect k evs))))"
proof (induction evs rule: rev_induct)
  case (snoc ev evs)
  have "effectKinds (evs @ [ev]) = jmap_set (ev_effectId ev) (ev_effectKind ev) (effectKinds evs)"
    by (simp add: effectKinds_def)
  with snoc show ?case by (auto simp: jsm.lookup_store of_effect_snoc)
qed (simp add: effectKinds_def of_effect_def)

lemma no_keys: "(\<And>k. k \<notin> fst ` set xs) \<Longrightarrow> xs = []"
  by (cases xs) auto

lemma terminalize_append:
  "terminalizeInterruptedRuntimeCheckpointEffects evs = evs
     @ map (\<lambda>e. EvFailed KRuntimeCheckpoint (fst e) (snd e) ''runtime_checkpoint_interrupted_before_commit'' True)
         (pendingRuntimeCheckpointEffects evs)"
proof -
  have "foldl (\<lambda>log e. log @ [f e]) xs ys = xs @ map f ys" for f xs and ys :: "(string \<times> string) list"
    by (induction ys arbitrary: xs) simp_all
  then show ?thesis by (simp add: terminalizeInterruptedRuntimeCheckpointEffects_def)
qed

lemma pendingCheckpoint_iff:
  "k \<in> fst ` set (pendingRuntimeCheckpointEffects evs) \<longleftrightarrow>
     pending_effect evs k \<and> map_of (effectKinds evs) k = Some KRuntimeCheckpoint"
proof -
  have "map_of (rebuildEffectsFromLifecycleEvidence evs) k' = Some r \<Longrightarrow> ef_effectId r = k'" for k' r
    using rebuild_says [where evs = evs and k = k'] by (simp add: record_says_def)
  then have "(k', r) \<in> set (rebuildEffectsFromLifecycleEvidence evs) \<Longrightarrow> ef_effectId r = k'" for k' r
    using rebuild_keys_distinct [of evs] by (metis map_of_is_SomeI)
  then show ?thesis
    using rebuild_keys_distinct [of evs]
    by (force simp: pendingRuntimeCheckpointEffects_def pending_effect_def image_iff dest: map_of_SomeD)
qed

text \<open>Closing the interrupted checkpoint attempts leaves no checkpoint attempt pending, and it does
  not touch any other effect: what was pending besides stays pending.\<close>

theorem terminalize_closes_checkpoints:
  "pendingRuntimeCheckpointEffects (terminalizeInterruptedRuntimeCheckpointEffects evs) = []
   \<and> (pending_effect (terminalizeInterruptedRuntimeCheckpointEffects evs) k
       = (pending_effect evs k \<and> map_of (effectKinds evs) k \<noteq> Some KRuntimeCheckpoint))"
proof -
  let ?fs = "map (\<lambda>e. EvFailed KRuntimeCheckpoint (fst e) (snd e) ''runtime_checkpoint_interrupted_before_commit'' True)
         (pendingRuntimeCheckpointEffects evs)"
  have ids: "of_effect k ?fs = [] \<longleftrightarrow> k \<notin> fst ` set (pendingRuntimeCheckpointEffects evs)" for k
    by (force simp: of_effect_def filter_empty_conv)
  have notreq: "ev \<in> set ?fs \<Longrightarrow> \<not> is_request ev" for ev by (auto simp: is_request_def)
  have app: "of_effect k (evs @ ?fs) = of_effect k evs @ of_effect k ?fs" for k by (simp add: of_effect_def)
  have closed: "\<not> pending_effect (evs @ ?fs) k" if "k \<in> fst ` set (pendingRuntimeCheckpointEffects evs)" for k
  proof -
    have ne: "of_effect k ?fs \<noteq> []" using that ids by blast
    have sub: "set (of_effect k ?fs) \<subseteq> set ?fs" by (auto simp: of_effect_def)
    have eq: "last (of_effect k (evs @ ?fs)) = last (of_effect k ?fs)" using ne by (simp add: app)
    have "last (of_effect k (evs @ ?fs)) \<in> set ?fs"
      unfolding eq by (rule subsetD [OF sub last_in_set [OF ne]])
    then show ?thesis using notreq by (auto simp: pending_effect_iff)
  qed
  have kept: "of_effect k (evs @ ?fs) = of_effect k evs" if "k \<notin> fst ` set (pendingRuntimeCheckpointEffects evs)" for k
    using that ids [of k] by (simp add: app)
  have pend: "pending_effect (evs @ ?fs) k
      = (pending_effect evs k \<and> map_of (effectKinds evs) k \<noteq> Some KRuntimeCheckpoint)" for k
    using closed [of k] kept [of k] pendingCheckpoint_iff [of k evs]
    by (cases "k \<in> fst ` set (pendingRuntimeCheckpointEffects evs)") (auto simp: pending_effect_iff)
  have "k \<notin> fst ` set (pendingRuntimeCheckpointEffects (evs @ ?fs))" for k
  proof (cases "k \<in> fst ` set (pendingRuntimeCheckpointEffects evs)")
    case True
    from closed [OF this] show ?thesis unfolding pendingCheckpoint_iff by simp
  next
    case False
    from kept [OF this] have "map_of (effectKinds (evs @ ?fs)) k = map_of (effectKinds evs) k"
      unfolding effectKinds_lookup by (simp only:)
    then show ?thesis unfolding pendingCheckpoint_iff [of k "evs @ ?fs"] pend by simp
  qed
  then have "pendingRuntimeCheckpointEffects (evs @ ?fs) = []" by (rule no_keys)
  with pend show ?thesis unfolding terminalize_append by blast
qed

section \<open>Decisions\<close>

text \<open>The coordinator's capsule touches the session only when storage is enabled, the session is at a
  safepoint and no effect is pending; otherwise it reports the first of these reasons that applies and
  the writer is not called.\<close>

theorem capsule_skip_is_pure:
  assumes "\<not> (cd_storageFilesEnabled d \<and> cd_safepointSafe d \<and> cd_pendingEffectIds d = [])"
  shows "runCoordinatorCapsule registry d request adapter w =
    (Inr (if \<not> cd_storageFilesEnabled d then DecSkippedStorageDisabled
          else if \<not> cd_safepointSafe d then DecSkippedNonSafepoint else DecSkippedPendingEffects, None), w)"
  using assms by (auto simp: runCoordinatorCapsule_def decideCheckpointAction_def Let_def)

theorem capsule_skip_is_pure_witness:
  "runCoordinatorCapsule [(''file_store'', \<lambda>r w. (Inr r, w + 1))]
     \<lparr>cd_storageFilesEnabled = True, cd_safepointSafe = True, cd_pendingEffectIds = [''e'']\<rparr> () ''file_store'' (0 :: int)
   = (Inr (DecSkippedPendingEffects, None), 0)"
  using capsule_skip_is_pure [of "\<lparr>cd_storageFilesEnabled = True, cd_safepointSafe = True, cd_pendingEffectIds = [''e'']\<rparr>"
      "[(''file_store'', \<lambda>r w. (Inr r, w + 1))]" "()" "''file_store''" "0 :: int"] by simp

text \<open>A failure reported through the lifecycle queue ends as a completed effect in the engine's
  records, while the same failure in the evidence is rebuilt as a failed effect.\<close>

theorem failed_event_diverges:
  assumes "map_of (effects (persistence st)) e = Some r" and "ef_status r = Requested" and "ef_requestSeen r"
  shows "(\<exists>st' r'. runCommand push ports st (lifecycleCommand (EvFailed k e h err b)) w = (Inr st', w)
            \<and> map_of (effects (persistence st')) e = Some r' \<and> ef_status r' = Completed)
    \<and> ef_status (applyEvidence (EvFailed k e h err b) (Some r)) = Failed"
  using assms by (simp add: runCommand_def stepEffectResult_def jso.lookup_store cur_def)

section \<open>Concrete sessions\<close>

definition demo_evidence :: "AiRuntimeEffectLifecycleEvent list" where
  "demo_evidence = [EvRequest KBash ''op1'' ''bash'' ''i1'' None JNull, EvRequest KToolCall ''op2'' ''read'' ''i2'' None JNull,
     EvResult KToolCall ''op2'' ''read'' ''r'' JNull]"

definition demo_inflights :: "AiRuntimeRecoveredInflightDescriptor list" where
  "demo_inflights = [\<lparr>if_opId = ''op1'', if_kind = ''tool'', if_handlerKey = None, if_toolName = Some ''bash''\<rparr>]"

definition demo_session :: RealSessionRecoveryInput where
  "demo_session = \<lparr>in_heads = [(''mailbox'', \<lparr>hd_headId = ''mailbox'', hd_kind = ''mailbox_head'',
       hd_committedSequence = 4, hd_bufferedSequence = None, hd_value = JNull\<rparr>)],
     in_commitMarkers = [(''checkpoint'', \<lparr>mk_cohortId = ''checkpoint'', mk_marker = ''m'', mk_headSequences = [(''mailbox'', 4)]\<rparr>)],
     in_effects = [], in_authoritativeHeadIds = None\<rparr>"

theorem clean_session_iff_witness: "rr_classification (classifyRealSessionRecovery demo_session) = RcClean"
proof -
  have "head_agrees demo_session ''mailbox'' 4" by (simp add: head_agrees_def demo_session_def)
  then show ?thesis unfolding clean_session_iff by (simp add: demo_session_def)
qed

theorem recoverable_then_resolved_witness:
  "rd_pendingEffectIds (decideAiRuntimePendingEffectsRecovery
      (classifyRealSessionRecovery \<lparr>in_heads = [], in_commitMarkers = [],
         in_effects = rebuildEffectsFromLifecycleEvidence (demo_evidence @ failedEvidence demo_inflights ''interrupted''),
         in_authoritativeHeadIds = None\<rparr>) []) = []"
proof -
  have ok: "rd_recoverable (decideAiRuntimePendingEffectsRecovery (classifyRealSessionRecovery
      \<lparr>in_heads = [], in_commitMarkers = [], in_effects = rebuildEffectsFromLifecycleEvidence demo_evidence,
       in_authoritativeHeadIds = None\<rparr>) demo_inflights)" by code_simp
  have "list_all (\<lambda>i. if_kind i \<in> {''llm'', ''tool''}) demo_inflights" by (simp add: demo_inflights_def)
  with recoverable_then_resolved [OF ok refl refl] show ?thesis by blast
qed

definition requested_state :: AiRuntimeConcreteControlState where
  "requested_state = createAiRuntimeControlState [] []
     [(''op1'', \<lparr>ef_effectId = ''op1'', ef_handlerKey = Some ''bash'', ef_idempotencyKey = None, ef_status = Requested,
        ef_requestCommandId = None, ef_resultId = None, ef_requestSeen = True, ef_resultSeen = False,
        ef_payload = JNull, ef_resultPayload = JNull\<rparr>)]"

theorem failed_event_diverges_witness:
  "\<exists>r. map_of (effects (persistence requested_state)) ''op1'' = Some r
     \<and> ef_status (applyEvidence (EvFailed KBash ''op1'' ''bash'' ''boom'' True) (Some r)) = Failed"
proof -
  obtain r where r: "map_of (effects (persistence requested_state)) ''op1'' = Some r"
    "ef_status r = Requested" "ef_requestSeen r"
    by (simp add: requested_state_def createAiRuntimeControlState_def clone_obj_def clone_effect_def)
  have "ef_status (applyEvidence (EvFailed KBash ''op1'' ''bash'' ''boom'' True) (Some r)) = Failed"
    by (rule failed_event_diverges [OF r, THEN conjunct2])
  with r(1) show ?thesis by (intro exI [of _ r] conjI)
qed

end
