(* ===== verification/SignalModel.thy ===== *)
theory SignalModel
  imports JsPrelude "HOL-Library.Word"
begin

text \<open>
  Durable control signals: the data of \<open>ai-core-contract/src/runtime/DurableControlSignal.ts\<close> and
  the store of \<open>ai-core-logic/src/runtime/DurableControlSignals.ts\<close>. The code updates the store
  object in place and returns it; the model returns the updated store.

  Parameters: \<open>lc\<close> is the host's \<open>localeCompare\<close>, \<open>shw\<close> its rendering of finite numbers, and \<open>now\<close>
  or \<open>clock\<close> the readings of \<open>Date.now()\<close>. Strings are sequences of code units below 256, on which
  the UTF-8 length and the 32-bit hash of a payload are computed as the code does.
\<close>

unbundle bit_operations_syntax

section \<open>Data\<close>

datatype DurableControlSignalKind =
  MailboxEnqueue | AsyncCompleted | InterruptRequested | ResumeRequested | SuspendRecorded | LateCompletionIgnored

datatype DurableControlSignalClass = ClsInterrupt | ClsWake | ClsOrdinary

record DurableControlSignalPayloadSummary =
  ps_byteLength :: int
  ps_digest :: string
  ps_valueKind :: string

record DurableControlSignalPayloadRef =
  pr_kind :: string
  pr_ref :: string

record DurableControlSignalData =
  sg_eventId :: string
  sg_executionOrigin :: jsv
  sg_originSchemaVersion :: "int option"
  sg_sequence :: "int option"
  sg_actorKey :: string
  sg_actorId :: "string option"
  sg_fiberId :: "string option"
  sg_mailboxKind :: "string option"
  sg_signalKind :: DurableControlSignalKind
  sg_signalClass :: DurableControlSignalClass
  sg_priority :: int
  sg_opId :: "string option"
  sg_toolCallId :: "string option"
  sg_causationId :: "string option"
  sg_correlationId :: "string option"
  sg_idempotencyKey :: string
  sg_createdAt :: int
  sg_payload :: jsv
  sg_payloadSummary :: "DurableControlSignalPayloadSummary option"
  sg_payloadRef :: "DurableControlSignalPayloadRef option"

record DurableControlSignalConsumedTombstone = DurableControlSignalData +
  tb_consumedAt :: int

record DurableControlSignalConsumedCheckpoint =
  cp_sequence :: int
  cp_eventId :: "string option"
  cp_updatedAt :: "int option"

record DurableControlSignalInput =
  si_eventId :: "string option"
  si_executionOrigin :: jsv
  si_originSchemaVersion :: "int option"
  si_actorKey :: string
  si_actorId :: "string option"
  si_fiberId :: "string option"
  si_mailboxKind :: "string option"
  si_signalKind :: DurableControlSignalKind
  si_signalClass :: "DurableControlSignalClass option"
  si_priority :: "int option"
  si_opId :: "string option"
  si_toolCallId :: "string option"
  si_causationId :: "string option"
  si_correlationId :: "string option"
  si_idempotencyKey :: "string option"
  si_createdAt :: "int option"
  si_payload :: jsv
  si_payloadSummary :: "DurableControlSignalPayloadSummary option"
  si_payloadRef :: "DurableControlSignalPayloadRef option"

record DurableControlSignalStore =
  ss_events :: "DurableControlSignalData list"
  ss_idempotencyIndex :: "string obj"
  ss_consumedEventIds :: "bool obj"
  ss_consumedCheckpoint :: "DurableControlSignalConsumedCheckpoint option"
  ss_consumedTombstones :: "DurableControlSignalConsumedTombstone obj option"
  ss_nextSequence :: "int option"

definition RECENT_CONSUMED_TOMBSTONE_LIMIT :: int where
  "RECENT_CONSUMED_TOMBSTONE_LIMIT = 128"

definition WAKE_MAILBOXES :: "string list" where
  "WAKE_MAILBOXES = [''control'', ''toolResult'', ''asyncCompletion'', ''childDone'', ''memberCoordination'',
     ''humanInput'', ''memberChatInbox'', ''heartbeat'']"

section \<open>Classification and normalization\<close>

definition createEmptyDurableControlSignalStore :: DurableControlSignalStore where
  "createEmptyDurableControlSignalStore =
     \<lparr>ss_events = [], ss_idempotencyIndex = [], ss_consumedEventIds = [],
      ss_consumedCheckpoint = Some \<lparr>cp_sequence = 0, cp_eventId = None, cp_updatedAt = None\<rparr>,
      ss_consumedTombstones = Some [], ss_nextSequence = Some 1\<rparr>"

definition payloadKind :: "(rat \<Rightarrow> string) \<Rightarrow> jsv \<Rightarrow> string" where
  "payloadKind shw payload = (case payload of
      JObj ps \<Rightarrow> (case map_of ps ''kind'' of
          Some v \<Rightarrow> if v = JUndef \<or> v = JNull then [] else js_String shw v
        | None \<Rightarrow> [])
    | _ \<Rightarrow> [])"

definition classifyDurableControlSignal ::
  "(rat \<Rightarrow> string) \<Rightarrow> DurableControlSignalKind \<Rightarrow> string option \<Rightarrow> jsv \<Rightarrow> DurableControlSignalClass" where
  "classifyDurableControlSignal shw signalKind mailboxKind payload =
     (if signalKind = InterruptRequested then ClsInterrupt
      else if mailboxKind = Some ''control''
           \<and> (payloadKind shw payload = ''cancel_requested'' \<or> payloadKind shw payload = ''shutdown_requested'')
      then ClsInterrupt
      else if signalKind = AsyncCompleted \<or> signalKind = ResumeRequested then ClsWake
      else if signalKind = MailboxEnqueue
           \<and> (case mailboxKind of Some k \<Rightarrow> k \<noteq> [] \<and> k \<in> set WAKE_MAILBOXES | None \<Rightarrow> False)
      then ClsWake
      else ClsOrdinary)"

fun priorityForDurableControlSignal :: "DurableControlSignalClass \<Rightarrow> int" where
  "priorityForDurableControlSignal ClsInterrupt = 0"
| "priorityForDurableControlSignal ClsWake = 10"
| "priorityForDurableControlSignal ClsOrdinary = 100"

fun signalKindText :: "DurableControlSignalKind \<Rightarrow> string" where
  "signalKindText MailboxEnqueue = ''mailbox_enqueue''"
| "signalKindText AsyncCompleted = ''async_completed''"
| "signalKindText InterruptRequested = ''interrupt_requested''"
| "signalKindText ResumeRequested = ''resume_requested''"
| "signalKindText SuspendRecorded = ''suspend_recorded''"
| "signalKindText LateCompletionIgnored = ''late_completion_ignored''"

definition buildIdempotencyKey :: "DurableControlSignalInput \<Rightarrow> string" where
  "buildIdempotencyKey i =
     (let derived = js_join '':'' [si_actorKey i, nullish (si_fiberId i) [], signalKindText (si_signalKind i),
            nullish (si_mailboxKind i) [], nullish (si_opId i) [], nullish (si_toolCallId i) [],
            nullish (si_correlationId i) []]
      in case si_idempotencyKey i of Some k \<Rightarrow> if k \<noteq> [] then k else derived | None \<Rightarrow> derived)"

definition normalizeDurableControlSignal ::
  "(rat \<Rightarrow> string) \<Rightarrow> DurableControlSignalInput \<Rightarrow> int option \<Rightarrow> int \<Rightarrow> DurableControlSignalData" where
  "normalizeDurableControlSignal shw i seqn now =
     (let signalClass = nullish (si_signalClass i)
            (classifyDurableControlSignal shw (si_signalKind i) (si_mailboxKind i) (si_payload i))
      in \<lparr>sg_eventId = nullish (si_eventId i) (''ctrl_'' @ show_int (nullish seqn 1)),
          sg_executionOrigin = (if truthy (si_executionOrigin i) then si_executionOrigin i else JUndef),
          sg_originSchemaVersion = si_originSchemaVersion i, sg_sequence = seqn,
          sg_actorKey = si_actorKey i, sg_actorId = si_actorId i, sg_fiberId = si_fiberId i,
          sg_mailboxKind = si_mailboxKind i, sg_signalKind = si_signalKind i, sg_signalClass = signalClass,
          sg_priority = nullish (si_priority i) (priorityForDurableControlSignal signalClass),
          sg_opId = si_opId i, sg_toolCallId = si_toolCallId i, sg_causationId = si_causationId i,
          sg_correlationId = si_correlationId i, sg_idempotencyKey = buildIdempotencyKey i,
          sg_createdAt = nullish (si_createdAt i) now, sg_payload = si_payload i,
          sg_payloadSummary = si_payloadSummary i, sg_payloadRef = si_payloadRef i\<rparr>)"

section \<open>Sequences\<close>

definition inferIdSequence :: "string \<Rightarrow> int" where
  "inferIdSequence eventId =
     (let digits = drop 5 eventId in
      if starts_with ''ctrl_'' eventId \<and> digits \<noteq> [] \<and> list_all is_digit digits
      then int (parse_nat digits) else 0)"

definition inferEventSequence :: "('a) DurableControlSignalData_scheme \<Rightarrow> int" where
  "inferEventSequence event = (case sg_sequence event of Some n \<Rightarrow> n | None \<Rightarrow> inferIdSequence (sg_eventId event))"

definition inferConsumedCheckpointSequence :: "DurableControlSignalStore option \<Rightarrow> int" where
  "inferConsumedCheckpointSequence store = (case store of
      None \<Rightarrow> 0
    | Some s \<Rightarrow> (case ss_consumedCheckpoint s of
          Some cp \<Rightarrow> cp_sequence cp
        | None \<Rightarrow> foldl (\<lambda>mx eventId. max mx (case find (\<lambda>e. sg_eventId e = eventId) (ss_events s) of
              Some e \<Rightarrow> inferEventSequence e | None \<Rightarrow> inferIdSequence eventId)) 0
            (obj_keys (ss_consumedEventIds s))))"

definition tombstonesOf ::
  "DurableControlSignalStore option \<Rightarrow> DurableControlSignalConsumedTombstone obj" where
  "tombstonesOf store = nullish (Option.bind store ss_consumedTombstones) []"

definition inferNextSequence :: "DurableControlSignalStore option \<Rightarrow> DurableControlSignalData list \<Rightarrow> int" where
  "inferNextSequence store events =
     (let eventMax = foldl (\<lambda>mx e. max mx (inferEventSequence e)) 0 events;
          tombstoneMax = foldl (\<lambda>mx e. max mx (inferEventSequence e)) 0 (obj_values (tombstonesOf store));
          inferred = max (max eventMax tombstoneMax) (inferConsumedCheckpointSequence store) + 1
      in case Option.bind store ss_nextSequence of
           Some n \<Rightarrow> if n > 0 then n else inferred
         | None \<Rightarrow> inferred)"

definition cloneDurableControlSignalStore ::
  "DurableControlSignalStore option \<Rightarrow> DurableControlSignalStore" where
  "cloneDurableControlSignalStore store =
     (let events = (case store of Some s \<Rightarrow> ss_events s | None \<Rightarrow> []) in
      \<lparr>ss_events = events,
       ss_idempotencyIndex = (case store of Some s \<Rightarrow> ss_idempotencyIndex s | None \<Rightarrow> []),
       ss_consumedEventIds = (case store of Some s \<Rightarrow> ss_consumedEventIds s | None \<Rightarrow> []),
       ss_consumedCheckpoint = Some (nullish (Option.bind store ss_consumedCheckpoint)
         \<lparr>cp_sequence = inferConsumedCheckpointSequence store, cp_eventId = None, cp_updatedAt = None\<rparr>),
       ss_consumedTombstones = Some (tombstonesOf store),
       ss_nextSequence = Some (inferNextSequence store events)\<rparr>)"

section \<open>Payload summaries\<close>

text \<open>\<open>JSON.stringify\<close> of a value whose objects have their keys sorted. Strings are quoted and escaped as
  the language does for code units below 256.\<close>

definition hex_digit :: "nat \<Rightarrow> char" where
  "hex_digit n = (''0123456789abcdef'' ! (n mod 16))"

definition json_escape :: "char \<Rightarrow> string" where
  "json_escape c = (let n = of_char c :: nat in
     if n = 34 then [CHR 92, CHR 34] else if n = 92 then [CHR 92, CHR 92]
     else if n = 8 then [CHR 92, CHR ''b''] else if n = 12 then [CHR 92, CHR ''f'']
     else if n = 10 then [CHR 92, CHR ''n''] else if n = 13 then [CHR 92, CHR ''r'']
     else if n = 9 then [CHR 92, CHR ''t'']
     else if n < 32 then [CHR 92] @ ''u00'' @ [hex_digit (n div 16), hex_digit n]
     else [c])"

definition json_quote :: "string \<Rightarrow> string" where
  "json_quote s = [CHR 34] @ concat (map json_escape s) @ [CHR 34]"

fun json_text :: "(rat \<Rightarrow> string) \<Rightarrow> jsv \<Rightarrow> string" where
  "json_text shw JUndef = ''null''"
| "json_text shw JNull = ''null''"
| "json_text shw (JBool b) = (if b then ''true'' else ''false'')"
| "json_text shw (JNum n) = (case n of Fin q \<Rightarrow> shw q | _ \<Rightarrow> ''null'')"
| "json_text shw (JStr s) = json_quote s"
| "json_text shw (JArr xs) = ''['' @ js_join '','' (map (json_text shw) xs) @ '']''"
| "json_text shw (JObj ps) = ''{'' @ js_join '',''
     (map (\<lambda>(k, v). json_quote k @ '':'' @ json_text shw v) (filter (\<lambda>(k, v). v \<noteq> JUndef) ps)) @ ''}''"

fun stable_normalize :: "(string \<Rightarrow> string \<Rightarrow> int) \<Rightarrow> jsv \<Rightarrow> jsv" where
  "stable_normalize lc (JArr xs) = JArr (map (stable_normalize lc) xs)"
| "stable_normalize lc (JObj ps) =
     JObj (obj_of (js_sort (\<lambda>a b. lc (fst a) (fst b)) (map (\<lambda>(k, v). (k, stable_normalize lc v)) ps)))"
| "stable_normalize lc v = v"

definition stableStringify :: "(string \<Rightarrow> string \<Rightarrow> int) \<Rightarrow> (rat \<Rightarrow> string) \<Rightarrow> jsv \<Rightarrow> string" where
  "stableStringify lc shw v = json_text shw (stable_normalize lc v)"

definition fnv_step :: "32 word \<Rightarrow> char \<Rightarrow> 32 word" where
  "fnv_step h c = (h XOR of_nat (of_char c)) * 16777619"

definition hex8 :: "32 word \<Rightarrow> string" where
  "hex8 h = map (\<lambda>i. hex_digit (unat h div 16 ^ i)) [7, 6, 5, 4, 3, 2, 1, 0]"

definition hashString :: "string \<Rightarrow> string" where
  "hashString s = ''fnv1a32:'' @ hex8 (foldl fnv_step 2166136261 s)"

definition utf8_length :: "string \<Rightarrow> int" where
  "utf8_length s = sum_list (map (\<lambda>c. if (of_char c :: nat) < 128 then 1 else 2) s)"

fun valueKind :: "jsv \<Rightarrow> string" where
  "valueKind JUndef = ''undefined''"
| "valueKind JNull = ''null''"
| "valueKind (JBool _) = ''boolean''"
| "valueKind (JNum _) = ''number''"
| "valueKind (JStr _) = ''string''"
| "valueKind (JArr _) = ''array''"
| "valueKind (JObj _) = ''object''"

definition summarizePayload ::
  "(string \<Rightarrow> string \<Rightarrow> int) \<Rightarrow> (rat \<Rightarrow> string) \<Rightarrow> jsv \<Rightarrow> DurableControlSignalPayloadSummary option" where
  "summarizePayload lc shw payload =
     (if payload = JUndef then None
      else let serialized = stableStringify lc shw payload in
        Some \<lparr>ps_byteLength = utf8_length serialized, ps_digest = hashString serialized,
              ps_valueKind = valueKind payload\<rparr>)"

section \<open>The store\<close>

text \<open>The bounded form of a signal: its payload is replaced by a summary.\<close>

definition toBoundedSignalSnapshot ::
  "(string \<Rightarrow> string \<Rightarrow> int) \<Rightarrow> (rat \<Rightarrow> string) \<Rightarrow> DurableControlSignalData \<Rightarrow> DurableControlSignalData" where
  "toBoundedSignalSnapshot lc shw event = event
     \<lparr>sg_executionOrigin := (if truthy (sg_executionOrigin event) then sg_executionOrigin event else JUndef),
      sg_sequence := Some (inferEventSequence event), sg_payload := JUndef,
      sg_payloadSummary := orElse (sg_payloadSummary event) (summarizePayload lc shw (sg_payload event))\<rparr>"

definition toConsumedTombstone ::
  "(string \<Rightarrow> string \<Rightarrow> int) \<Rightarrow> (rat \<Rightarrow> string) \<Rightarrow> DurableControlSignalData \<Rightarrow> int
    \<Rightarrow> DurableControlSignalConsumedTombstone" where
  "toConsumedTombstone lc shw event consumedAt =
     DurableControlSignalData.extend (toBoundedSignalSnapshot lc shw event)
       (DurableControlSignalConsumedTombstone.fields consumedAt)"

definition keptTombstones ::
  "DurableControlSignalConsumedTombstone obj \<Rightarrow> DurableControlSignalConsumedTombstone list" where
  "keptTombstones ts = slice_to RECENT_CONSUMED_TOMBSTONE_LIMIT
     (js_sort (\<lambda>a b. numOr (inferEventSequence b - inferEventSequence a) (tb_consumedAt b - tb_consumedAt a))
       (obj_values ts))"

definition pruneRecentConsumedTombstones :: "DurableControlSignalStore \<Rightarrow> DurableControlSignalStore" where
  "pruneRecentConsumedTombstones store =
     (let ts = nullish (ss_consumedTombstones store) [];
          keep = map sg_eventId (keptTombstones ts);
          dropped = filter (\<lambda>k. k \<notin> set keep) (obj_keys ts);
          ts' = filter (\<lambda>(k, t). k \<in> set keep) ts;
          keepIds = map sg_eventId (obj_values ts')
      in store\<lparr>ss_consumedTombstones := map_option (\<lambda>_. ts') (ss_consumedTombstones store),
               ss_consumedEventIds := filter (\<lambda>(k, _). k \<notin> set dropped) (ss_consumedEventIds store),
               ss_idempotencyIndex := filter (\<lambda>(k, eventId).
                   eventId \<in> sg_eventId ` set (ss_events store) \<or> eventId \<in> set keepIds)
                 (ss_idempotencyIndex store)\<rparr>)"

text \<open>The loop that moves the checkpoint over consecutive consumed sequences. It takes at most as many
  rounds as there are consumed sequences, which is the fuel it is given.\<close>

fun advanceLoop :: "nat \<Rightarrow> (int \<times> string) list \<Rightarrow> int \<Rightarrow> string option \<Rightarrow> int \<times> string option" where
  "advanceLoop 0 consumed seqn eventId = (seqn, eventId)"
| "advanceLoop (Suc n) consumed seqn eventId =
     (case map_of consumed (seqn + 1) of
        Some e \<Rightarrow> advanceLoop n consumed (seqn + 1) (Some e)
      | None \<Rightarrow> (seqn, eventId))"

definition advanceConsumedCheckpoint :: "DurableControlSignalStore \<Rightarrow> int \<Rightarrow> DurableControlSignalStore" where
  "advanceConsumedCheckpoint store updatedAt =
     (let consumed = jmap_of (map (\<lambda>t. (inferEventSequence t, sg_eventId t))
            (obj_values (nullish (ss_consumedTombstones store) [])));
          (seqn, eventId) = advanceLoop (length consumed) consumed
            (case ss_consumedCheckpoint store of Some cp \<Rightarrow> cp_sequence cp | None \<Rightarrow> 0)
            (case ss_consumedCheckpoint store of Some cp \<Rightarrow> cp_eventId cp | None \<Rightarrow> None)
      in store\<lparr>ss_consumedCheckpoint := Some \<lparr>cp_sequence = seqn, cp_eventId = eventId, cp_updatedAt = Some updatedAt\<rparr>\<rparr>)"

record EmitResult =
  em_store :: DurableControlSignalStore
  em_signal :: DurableControlSignalData
  em_created :: bool

definition existingSignal ::
  "DurableControlSignalStore \<Rightarrow> string \<Rightarrow> DurableControlSignalData option" where
  "existingSignal store key = (case map_of (ss_idempotencyIndex store) key of
      None \<Rightarrow> None
    | Some eventId \<Rightarrow> if eventId = [] then None
        else orElse (find (\<lambda>e. sg_eventId e = eventId) (ss_events store))
          (map_option DurableControlSignalData.truncate
             (map_of (nullish (ss_consumedTombstones store) []) eventId)))"

definition emitDurableControlSignal ::
  "(rat \<Rightarrow> string) \<Rightarrow> DurableControlSignalStore \<Rightarrow> DurableControlSignalInput \<Rightarrow> int \<Rightarrow> EmitResult" where
  "emitDurableControlSignal shw store i now =
     (let key = buildIdempotencyKey i in
      case existingSignal store key of
        Some existing \<Rightarrow> \<lparr>em_store = store, em_signal = existing, em_created = False\<rparr>
      | None \<Rightarrow>
          let seqn = nullish (ss_nextSequence store) (inferNextSequence (Some store) (ss_events store));
              signal = normalizeDurableControlSignal shw (i\<lparr>si_idempotencyKey := Some key\<rparr>) (Some seqn) now
          in \<lparr>em_store = store\<lparr>ss_events := ss_events store @ [signal],
                ss_idempotencyIndex := obj_put (sg_idempotencyKey signal) (sg_eventId signal) (ss_idempotencyIndex store),
                ss_nextSequence := Some (seqn + 1)\<rparr>,
              em_signal = signal, em_created = True\<rparr>)"

definition markDurableControlSignalConsumed ::
  "(string \<Rightarrow> string \<Rightarrow> int) \<Rightarrow> (rat \<Rightarrow> string) \<Rightarrow> DurableControlSignalStore \<Rightarrow> string \<Rightarrow> int
    \<Rightarrow> DurableControlSignalStore" where
  "markDurableControlSignalConsumed lc shw store eventId consumedAt =
     (case find (\<lambda>e. sg_eventId e = eventId) (ss_events store) of
        None \<Rightarrow> store
      | Some event \<Rightarrow>
          pruneRecentConsumedTombstones (advanceConsumedCheckpoint
            (store\<lparr>ss_consumedEventIds := obj_put eventId True (ss_consumedEventIds store),
                   ss_consumedTombstones := Some (obj_put eventId (toConsumedTombstone lc shw event consumedAt)
                     (nullish (ss_consumedTombstones store) [])),
                   ss_events := filter (\<lambda>e. sg_eventId e \<noteq> eventId) (ss_events store)\<rparr>) consumedAt))"

definition consumedFlag :: "DurableControlSignalStore \<Rightarrow> string \<Rightarrow> bool" where
  "consumedFlag store eventId = nullish (map_of (ss_consumedEventIds store) eventId) False"

definition getPendingDurableControlSignals ::
  "(string \<Rightarrow> string \<Rightarrow> int) \<Rightarrow> DurableControlSignalStore \<Rightarrow> string option \<Rightarrow> string option
    \<Rightarrow> DurableControlSignalData list" where
  "getPendingDurableControlSignals lc store actorKey fiberId =
     js_sort (\<lambda>a b. numOr (sg_priority a - sg_priority b)
                 (numOr (sg_createdAt a - sg_createdAt b) (lc (sg_eventId a) (sg_eventId b))))
       (filter (\<lambda>e. fiberId = None \<or> fiberId = Some [] \<or> sg_fiberId e = fiberId)
         (filter (\<lambda>e. actorKey = None \<or> actorKey = Some [] \<or> Some (sg_actorKey e) = actorKey)
           (filter (\<lambda>e. \<not> consumedFlag store (sg_eventId e)) (ss_events store))))"

section \<open>Snapshots\<close>

definition serializeDurableControlSignalStoreForSnapshot ::
  "(string \<Rightarrow> string \<Rightarrow> int) \<Rightarrow> (rat \<Rightarrow> string) \<Rightarrow> (string \<Rightarrow> int) \<Rightarrow> DurableControlSignalStore option
    \<Rightarrow> DurableControlSignalStore" where
  "serializeDurableControlSignalStoreForSnapshot lc shw clock store =
     (let events = (case store of Some s \<Rightarrow> ss_events s | None \<Rightarrow> []);
          consumed = (\<lambda>eventId. case store of Some s \<Rightarrow> consumedFlag s eventId | None \<Rightarrow> False);
          cloned = foldl (\<lambda>cl e. if consumed (sg_eventId e)
                     then markDurableControlSignalConsumed lc shw cl (sg_eventId e) (clock (sg_eventId e)) else cl)
                   (cloneDurableControlSignalStore store) events;
          pendingEvents = map (toBoundedSignalSnapshot lc shw) (filter (\<lambda>e. \<not> consumed (sg_eventId e)) events);
          tombstones = nullish (ss_consumedTombstones cloned) [];
          recentEventIds = map sg_eventId pendingEvents @ obj_keys tombstones
      in \<lparr>ss_events = pendingEvents,
          ss_idempotencyIndex = filter (\<lambda>(k, eventId). eventId \<in> set recentEventIds) (ss_idempotencyIndex cloned),
          ss_consumedEventIds = obj_of (map (\<lambda>k. (k, True)) (obj_keys tombstones)),
          ss_consumedCheckpoint = Some (nullish (ss_consumedCheckpoint cloned)
            \<lparr>cp_sequence = inferConsumedCheckpointSequence store, cp_eventId = None, cp_updatedAt = None\<rparr>),
          ss_consumedTombstones = Some tombstones,
          ss_nextSequence = Some (nullish (ss_nextSequence cloned) (inferNextSequence store events))\<rparr>)"

definition hydrateDurableControlSignalStoreFromSnapshot ::
  "(string \<Rightarrow> string \<Rightarrow> int) \<Rightarrow> (rat \<Rightarrow> string) \<Rightarrow> DurableControlSignalStore option \<Rightarrow> DurableControlSignalStore" where
  "hydrateDurableControlSignalStoreFromSnapshot lc shw store =
     (let cloned = cloneDurableControlSignalStore store;
          cloned = cloned\<lparr>ss_events := map (\<lambda>e. e\<lparr>sg_sequence := Some (inferEventSequence e),
             sg_payloadSummary := orElse (sg_payloadSummary e) (summarizePayload lc shw (sg_payload e))\<rparr>) (ss_events cloned)\<rparr>;
          cloned = cloned\<lparr>ss_nextSequence := Some (inferNextSequence (Some cloned) (ss_events cloned))\<rparr>
      in cloned\<lparr>ss_consumedCheckpoint := Some (nullish (ss_consumedCheckpoint cloned)
                  \<lparr>cp_sequence = inferConsumedCheckpointSequence (Some cloned), cp_eventId = None, cp_updatedAt = None\<rparr>),
                ss_consumedTombstones := Some (nullish (ss_consumedTombstones cloned) [])\<rparr>)"

end
