(* ===== verification/SignalProps.thy ===== *)
theory SignalProps
  imports SignalModel
begin

text \<open>
  Properties of the durable control signal store: the invariant that every operation keeps, that
  signals are emitted once per idempotency key, that the consumed checkpoint never passes a pending
  signal, and the order in which pending signals are delivered.
\<close>

section \<open>The checkpoint loop\<close>

lemma advanceLoop_range:
  assumes "advanceLoop n c s e = (q, e')"
  shows "s \<le> q \<and> (\<forall>j. s < j \<and> j \<le> q \<longrightarrow> j \<in> fst ` set c) \<and> (map_of c (q + 1) = None \<or> q = s + int n)"
  using assms
proof (induction n arbitrary: s e)
  case (Suc n)
  show ?case
  proof (cases "map_of c (s + 1)")
    case (Some x)
    then have "s + 1 \<in> fst ` set c" by (metis domI dom_map_of_conv_image_fst)
    moreover from Suc.IH [of "s + 1" "Some x"] Suc.prems Some
    have "s + 1 \<le> q" "\<forall>j. s + 1 < j \<and> j \<le> q \<longrightarrow> j \<in> fst ` set c" "map_of c (q + 1) = None \<or> q = s + 1 + int n"
      by auto
    moreover have "j = s + 1 \<or> s + 1 < j" if "s < j" for j using that by linarith
    ultimately show ?thesis by fastforce
  next
    case None
    with Suc.prems show ?thesis by auto
  qed
qed auto

lemma advanceLoop_maximal:
  assumes "advanceLoop (length c) c s e = (q, e')" and "distinct (map fst c)"
  shows "map_of c (q + 1) = None"
proof (rule ccontr)
  assume bad: "map_of c (q + 1) \<noteq> None"
  have r: "s \<le> q" "\<forall>j. s < j \<and> j \<le> q \<longrightarrow> j \<in> fst ` set c" "q = s + int (length c)"
    using advanceLoop_range [OF assms(1)] bad by auto
  have "q + 1 \<in> fst ` set c" using bad by (metis domIff dom_map_of_conv_image_fst)
  then have "j \<in> fst ` set c" if "s + 1 \<le> j" "j \<le> q + 1" for j
    using r(2) that by (cases "j = q + 1") simp_all
  then have "{s + 1 .. q + 1} \<subseteq> fst ` set c" by (intro subsetI) simp
  then have "card {s + 1 .. q + 1} \<le> card (fst ` set c)" by (intro card_mono) auto
  also have "\<dots> \<le> length c" by (metis card_length length_map list.set_map)
  finally show False using r(3) by simp
qed

section \<open>The invariant\<close>

definition ctrl_id :: "int \<Rightarrow> string" where
  "ctrl_id n = ''ctrl_'' @ show_int n"

lemma ctrl_id_inject [simp]: "ctrl_id m = ctrl_id n \<longleftrightarrow> m = n"
  by (simp add: ctrl_id_def)

lemma ctrl_id_nonempty [simp]: "ctrl_id n \<noteq> []"
  by (simp add: ctrl_id_def)

text \<open>A signal whose id was drawn from the store's sequence.\<close>

definition numbered :: "int \<Rightarrow> 'a DurableControlSignalData_scheme \<Rightarrow> bool" where
  "numbered n e \<longleftrightarrow> (\<exists>k. sg_sequence e = Some k \<and> 1 \<le> k \<and> k < n \<and> sg_eventId e = ctrl_id k)"

definition tombs :: "DurableControlSignalStore \<Rightarrow> DurableControlSignalConsumedTombstone obj" where
  "tombs s = nullish (ss_consumedTombstones s) []"

definition checkpoint :: "DurableControlSignalStore \<Rightarrow> int" where
  "checkpoint s = (case ss_consumedCheckpoint s of Some cp \<Rightarrow> cp_sequence cp | None \<Rightarrow> 0)"

definition next_seq :: "DurableControlSignalStore \<Rightarrow> int" where
  "next_seq s = nullish (ss_nextSequence s) 0"

definition signals_wf :: "DurableControlSignalStore \<Rightarrow> bool" where
  "signals_wf s \<longleftrightarrow> ss_nextSequence s \<noteq> None \<and> 1 \<le> next_seq s
     \<and> (\<forall>e \<in> set (ss_events s). numbered (next_seq s) e \<and> checkpoint s < inferEventSequence e)
     \<and> distinct (map sg_eventId (ss_events s))
     \<and> distinct (map fst (tombs s))
     \<and> (\<forall>(k, t) \<in> set (tombs s). sg_eventId t = k \<and> numbered (next_seq s) t)
     \<and> fst ` set (tombs s) \<inter> sg_eventId ` set (ss_events s) = {}
     \<and> int (length (tombs s)) \<le> RECENT_CONSUMED_TOMBSTONE_LIMIT
     \<and> checkpoint s < next_seq s"

lemma numbered_seq: "numbered n e \<Longrightarrow> sg_eventId e = ctrl_id (inferEventSequence e)"
  by (auto simp: numbered_def inferEventSequence_def)

lemma numbered_range: "numbered n e \<Longrightarrow> 1 \<le> inferEventSequence e \<and> inferEventSequence e < n"
  by (auto simp: numbered_def inferEventSequence_def)

lemma numbered_mono: "numbered n e \<Longrightarrow> n \<le> m \<Longrightarrow> numbered m e"
  by (auto simp: numbered_def)

lemma numbered_suc: "numbered n e \<Longrightarrow> numbered (n + 1) e"
  by (erule numbered_mono) simp

lemma numbered_fresh: "numbered n e \<Longrightarrow> sg_eventId e \<noteq> ctrl_id n"
  using numbered_seq [of n e] numbered_range [of n e] by auto

lemma empty_wf: "signals_wf createEmptyDurableControlSignalStore"
  by (simp add: signals_wf_def createEmptyDurableControlSignalStore_def next_seq_def tombs_def checkpoint_def
      RECENT_CONSUMED_TOMBSTONE_LIMIT_def)

section \<open>Emitting\<close>

lemma normalize_simps [simp]:
  "sg_sequence (normalizeDurableControlSignal shw i sq now) = sq"
  "sg_idempotencyKey (normalizeDurableControlSignal shw i sq now) = buildIdempotencyKey i"
  "sg_eventId (normalizeDurableControlSignal shw i sq now) = nullish (si_eventId i) (''ctrl_'' @ show_int (nullish sq 1))"
  by (simp_all add: normalizeDurableControlSignal_def Let_def)

lemma derived_nonempty: "buildIdempotencyKey i \<noteq> []"
  by (auto simp: buildIdempotencyKey_def Let_def split: option.splits)

lemma build_key_fixed [simp]: "buildIdempotencyKey (i\<lparr>si_idempotencyKey := Some (buildIdempotencyKey i)\<rparr>) = buildIdempotencyKey i"
  using derived_nonempty [of i] by (simp add: buildIdempotencyKey_def [of "i\<lparr>si_idempotencyKey := _\<rparr>"] Let_def)

lemma emit_wf:
  assumes "signals_wf s" and "si_eventId i = None"
  shows "signals_wf (em_store (emitDurableControlSignal shw s i now))"
proof (cases "existingSignal s (buildIdempotencyKey i)")
  case None
  obtain n where n: "ss_nextSequence s = Some n" "next_seq s = n" "1 \<le> n"
    using assms(1) by (auto simp: signals_wf_def next_seq_def)
  let ?g = "normalizeDurableControlSignal shw (i\<lparr>si_idempotencyKey := Some (buildIdempotencyKey i)\<rparr>) (Some n) now"
  have st: "em_store (emitDurableControlSignal shw s i now) = s\<lparr>ss_events := ss_events s @ [?g],
      ss_idempotencyIndex := obj_put (buildIdempotencyKey i) (ctrl_id n) (ss_idempotencyIndex s), ss_nextSequence := Some (n + 1)\<rparr>"
    using None n assms(2) by (simp add: emitDurableControlSignal_def Let_def ctrl_id_def)
  have g: "numbered (n + 1) ?g" "inferEventSequence ?g = n" "sg_eventId ?g = ctrl_id n"
    using assms(2) n(3) by (simp_all add: numbered_def inferEventSequence_def ctrl_id_def)
  have "ctrl_id n \<notin> sg_eventId ` set (ss_events s)" "ctrl_id n \<notin> fst ` set (tombs s)"
    using assms(1) n(2) unfolding signals_wf_def by (fastforce dest: numbered_fresh)+
  then show ?thesis
    using assms(1) n g unfolding signals_wf_def st
    by (auto simp: next_seq_def tombs_def checkpoint_def intro: numbered_suc)
qed (use assms in \<open>simp add: emitDurableControlSignal_def Let_def\<close>)

section \<open>Consuming\<close>

lemma bounded_simps [simp]:
  "sg_eventId (toBoundedSignalSnapshot lc shw e) = sg_eventId e"
  "sg_sequence (toBoundedSignalSnapshot lc shw e) = Some (inferEventSequence e)"
  "inferEventSequence (toBoundedSignalSnapshot lc shw e) = inferEventSequence e"
  by (simp_all add: toBoundedSignalSnapshot_def inferEventSequence_def)

lemma tombstone_simps [simp]:
  "sg_eventId (toConsumedTombstone lc shw e tm) = sg_eventId e"
  "sg_sequence (toConsumedTombstone lc shw e tm) = Some (inferEventSequence e)"
  "inferEventSequence (toConsumedTombstone lc shw e tm) = inferEventSequence e"
  by (simp_all add: toConsumedTombstone_def DurableControlSignalData.defs
      DurableControlSignalConsumedTombstone.defs inferEventSequence_def)

lemma tombstone_numbered: "numbered n e \<Longrightarrow> numbered n (toConsumedTombstone lc shw e tm)"
  by (auto simp: numbered_def inferEventSequence_def)

text \<open>The store of a consumption before the checkpoint and the tombstones are updated.\<close>

definition consumed_store ::
  "(string \<Rightarrow> string \<Rightarrow> int) \<Rightarrow> (rat \<Rightarrow> string) \<Rightarrow> DurableControlSignalStore \<Rightarrow> DurableControlSignalData \<Rightarrow> int
    \<Rightarrow> DurableControlSignalStore" where
  "consumed_store lc shw s e tm = s\<lparr>ss_consumedEventIds := obj_put (sg_eventId e) True (ss_consumedEventIds s),
     ss_consumedTombstones := Some (obj_put (sg_eventId e) (toConsumedTombstone lc shw e tm) (tombs s)),
     ss_events := filter (\<lambda>x. sg_eventId x \<noteq> sg_eventId e) (ss_events s)\<rparr>"

lemma consumed_store_events [simp]:
  "ss_events (consumed_store lc shw s e tm) = filter (\<lambda>x. sg_eventId x \<noteq> sg_eventId e) (ss_events s)"
  by (simp add: consumed_store_def)

lemma mark_cases:
  "markDurableControlSignalConsumed lc shw s eventId tm = (case find (\<lambda>e. sg_eventId e = eventId) (ss_events s) of
      None \<Rightarrow> s
    | Some e \<Rightarrow> pruneRecentConsumedTombstones (advanceConsumedCheckpoint (consumed_store lc shw s e tm) tm))"
proof (cases "find (\<lambda>e. sg_eventId e = eventId) (ss_events s)")
  case (Some e)
  then have "sg_eventId e = eventId" by (auto simp: find_Some_iff)
  with Some show ?thesis by (simp add: markDurableControlSignalConsumed_def consumed_store_def tombs_def)
qed (simp add: markDurableControlSignalConsumed_def)

lemma advance_simps [simp]:
  "ss_events (advanceConsumedCheckpoint s tm) = ss_events s"
  "ss_consumedTombstones (advanceConsumedCheckpoint s tm) = ss_consumedTombstones s"
  "ss_nextSequence (advanceConsumedCheckpoint s tm) = ss_nextSequence s"
  "ss_idempotencyIndex (advanceConsumedCheckpoint s tm) = ss_idempotencyIndex s"
  "ss_consumedEventIds (advanceConsumedCheckpoint s tm) = ss_consumedEventIds s"
  by (simp_all add: advanceConsumedCheckpoint_def Let_def split_beta)

lemma advance_checkpoint:
  "checkpoint s \<le> checkpoint (advanceConsumedCheckpoint s tm)
   \<and> (\<forall>j. checkpoint s < j \<and> j \<le> checkpoint (advanceConsumedCheckpoint s tm) \<longrightarrow> (\<exists>(k, t) \<in> set (tombs s). inferEventSequence t = j))
   \<and> (\<forall>(k, t) \<in> set (tombs s). inferEventSequence t \<noteq> checkpoint (advanceConsumedCheckpoint s tm) + 1)"
proof -
  let ?c = "jmap_of (map (\<lambda>t. (inferEventSequence t, sg_eventId t)) (obj_values (tombs s)))"
  obtain q e where q: "advanceLoop (length ?c) ?c (checkpoint s)
      (case ss_consumedCheckpoint s of Some cp \<Rightarrow> cp_eventId cp | None \<Rightarrow> None) = (q, e)" by fastforce
  then have "advanceConsumedCheckpoint s tm
      = s\<lparr>ss_consumedCheckpoint := Some \<lparr>cp_sequence = q, cp_eventId = e, cp_updatedAt = Some tm\<rparr>\<rparr>"
    unfolding advanceConsumedCheckpoint_def Let_def tombs_def checkpoint_def by simp
  then have cp: "checkpoint (advanceConsumedCheckpoint s tm) = q" by (simp add: checkpoint_def)
  have keys: "fst ` set ?c = (\<lambda>x. inferEventSequence (snd x)) ` set (tombs s)" by force
  have "map_of ?c (q + 1) = None" by (rule advanceLoop_maximal [OF q]) simp
  then have "q + 1 \<notin> fst ` set ?c" by (simp add: map_of_eq_None_iff)
  then have "\<forall>(k, t) \<in> set (tombs s). inferEventSequence t \<noteq> q + 1" unfolding keys by force
  moreover have "\<exists>(k, t) \<in> set (tombs s). inferEventSequence t = j" if "j \<in> fst ` set ?c" for j
    using that unfolding keys by force
  ultimately show ?thesis using advanceLoop_range [OF q] unfolding cp by blast
qed

lemma prune_simps [simp]:
  "ss_events (pruneRecentConsumedTombstones s) = ss_events s"
  "ss_consumedCheckpoint (pruneRecentConsumedTombstones s) = ss_consumedCheckpoint s"
  "ss_nextSequence (pruneRecentConsumedTombstones s) = ss_nextSequence s"
  by (simp_all add: pruneRecentConsumedTombstones_def Let_def)

lemma prune_tombs:
  "tombs (pruneRecentConsumedTombstones s)
     = filter (\<lambda>(k, t). k \<in> sg_eventId ` set (keptTombstones (tombs s))) (tombs s)"
  by (cases "ss_consumedTombstones s") (simp_all add: pruneRecentConsumedTombstones_def Let_def tombs_def)

lemma prune_length:
  assumes "distinct (map fst (tombs s))"
  shows "int (length (tombs (pruneRecentConsumedTombstones s))) \<le> RECENT_CONSUMED_TOMBSTONE_LIMIT"
proof -
  let ?k = "sg_eventId ` set (keptTombstones (tombs s))" and ?t = "tombs (pruneRecentConsumedTombstones s)"
  have "distinct (map fst ?t)" using assms by (simp add: prune_tombs distinct_map_filter)
  then have "length ?t = card (fst ` set ?t)" by (metis distinct_card length_map list.set_map)
  also have "\<dots> \<le> card ?k" by (intro card_mono) (auto simp: prune_tombs)
  also have "\<dots> \<le> length (keptTombstones (tombs s))" by (metis card_image_le card_length finite_set le_trans)
  finally have "int (length ?t) \<le> int (length (keptTombstones (tombs s)))" by simp
  also have "\<dots> \<le> RECENT_CONSUMED_TOMBSTONE_LIMIT"
    unfolding keptTombstones_def by (rule length_slice_to) (simp add: RECENT_CONSUMED_TOMBSTONE_LIMIT_def)
  finally show ?thesis .
qed

lemma mark_wf:
  assumes "signals_wf s"
  shows "signals_wf (markDurableControlSignalConsumed lc shw s eventId tm)"
proof (cases "find (\<lambda>e. sg_eventId e = eventId) (ss_events s)")
  case (Some e)
  then have e: "e \<in> set (ss_events s)" by (auto simp: find_Some_iff)
  let ?c = "consumed_store lc shw s e tm"
  let ?m = "pruneRecentConsumedTombstones (advanceConsumedCheckpoint ?c tm)"
  let ?n = "next_seq s"
  have en: "numbered ?n e" "checkpoint s < inferEventSequence e" using assms e by (auto simp: signals_wf_def)
  have nx: "next_seq ?m = ?n" "ss_nextSequence ?m = ss_nextSequence s" "checkpoint ?m = checkpoint (advanceConsumedCheckpoint ?c tm)"
    "tombs (advanceConsumedCheckpoint ?c tm) = tombs ?c" "checkpoint ?c = checkpoint s"
    by (simp_all add: next_seq_def checkpoint_def tombs_def consumed_store_def)
  have tc: "tombs ?c = obj_put (sg_eventId e) (toConsumedTombstone lc shw e tm) (tombs s)"
    by (simp add: consumed_store_def tombs_def)
  have dist: "distinct (map fst (tombs ?c))"
    using assms unfolding tc signals_wf_def by (intro jso.distinct_store) simp
  have tn: "sg_eventId t = k \<and> numbered ?n t" if kt: "(k, t) \<in> set (tombs ?c)" for k t
  proof -
    from kt dist have "map_of (tombs ?c) k = Some t" by simp
    then have "k = sg_eventId e \<and> t = toConsumedTombstone lc shw e tm \<or> (k, t) \<in> set (tombs s)"
      unfolding tc jso.lookup_store by (auto split: if_splits dest: map_of_SomeD)
    then show ?thesis using assms tombstone_numbered [OF en(1)] by (auto simp: signals_wf_def)
  qed
  have sub: "set (tombs ?m) \<subseteq> set (tombs ?c)" by (auto simp: prune_tombs nx)
  have ev: "ss_events ?m = filter (\<lambda>x. sg_eventId x \<noteq> sg_eventId e) (ss_events s)" by (simp add: consumed_store_def)
  have disj: "fst ` set (tombs ?c) \<inter> sg_eventId ` set (ss_events ?m) = {}"
    using assms unfolding tc jso.keys_store ev by (auto simp: signals_wf_def)
  have above: "checkpoint ?m < inferEventSequence x" if x: "x \<in> set (ss_events ?m)" for x
  proof (rule ccontr)
    assume "\<not> checkpoint ?m < inferEventSequence x"
    moreover have xn: "numbered ?n x" "checkpoint s < inferEventSequence x"
      using x assms by (auto simp: ev signals_wf_def)
    ultimately obtain k t where t: "(k, t) \<in> set (tombs ?c)" "inferEventSequence t = inferEventSequence x"
      using advance_checkpoint [of ?c tm] nx by (auto simp del: advance_simps)
    with tn [OF t(1)] numbered_seq xn(1) have "k = sg_eventId x" by metis
    with disj x t(1) show False by force
  qed
  have below: "checkpoint ?m < ?n"
  proof (cases "checkpoint ?m = checkpoint s")
    case True
    then show ?thesis using assms by (simp add: signals_wf_def)
  next
    case False
    then have "checkpoint s < checkpoint ?m" using advance_checkpoint [of ?c tm] nx by auto
    then obtain k t where "(k, t) \<in> set (tombs ?c)" "inferEventSequence t = checkpoint ?m"
      using advance_checkpoint [of ?c tm] nx by (auto simp del: advance_simps)
    with tn show ?thesis using numbered_range by metis
  qed
  have len: "int (length (tombs ?m)) \<le> RECENT_CONSUMED_TOMBSTONE_LIMIT" and dm: "distinct (map fst (tombs ?m))"
    using prune_length [of "advanceConsumedCheckpoint ?c tm"] dist
    by (simp_all add: nx prune_tombs distinct_map_filter)
  have tm: "\<forall>(k, t) \<in> set (tombs ?m). sg_eventId t = k \<and> numbered ?n t" using sub tn by blast
  have dj: "fst ` set (tombs ?m) \<inter> sg_eventId ` set (ss_events ?m) = {}" using sub disj by blast
  have evs: "\<forall>x \<in> set (ss_events ?m). numbered ?n x \<and> checkpoint ?m < inferEventSequence x"
    and de: "distinct (map sg_eventId (ss_events ?m))"
    using assms above by (simp_all add: ev signals_wf_def distinct_map_filter del: prune_simps)
  have "ss_nextSequence s \<noteq> None" "1 \<le> ?n" using assms by (simp_all add: signals_wf_def)
  then have "signals_wf ?m"
    unfolding signals_wf_def nx(1,2) using evs de dm tm dj len below by (intro conjI)
  with Some show ?thesis by (simp add: mark_cases)
qed (use assms in \<open>simp add: mark_cases\<close>)

section \<open>Runs\<close>

datatype signal_op = OpEmit DurableControlSignalInput int | OpConsume string int

fun signal_step ::
  "(string \<Rightarrow> string \<Rightarrow> int) \<Rightarrow> (rat \<Rightarrow> string) \<Rightarrow> DurableControlSignalStore \<Rightarrow> signal_op \<Rightarrow> DurableControlSignalStore" where
  "signal_step lc shw s (OpEmit i now) = em_store (emitDurableControlSignal shw s i now)"
| "signal_step lc shw s (OpConsume k tm) = markDurableControlSignalConsumed lc shw s k tm"

fun drawn_id :: "signal_op \<Rightarrow> bool" where
  "drawn_id (OpEmit i _) = (si_eventId i = None)"
| "drawn_id (OpConsume _ _) = True"

abbreviation signal_run where
  "signal_run lc shw s ops \<equiv> foldl (signal_step lc shw) s ops"

lemma signal_run_wf:
  "signals_wf s \<Longrightarrow> list_all drawn_id ops \<Longrightarrow> signals_wf (signal_run lc shw s ops)"
proof (induction ops arbitrary: s)
  case (Cons op ops)
  then have "signals_wf (signal_step lc shw s op)" by (cases op) (simp_all add: emit_wf mark_wf)
  with Cons show ?case by simp
qed simp

lemma emit_checkpoint [simp]: "checkpoint (em_store (emitDurableControlSignal shw s i now)) = checkpoint s"
  by (simp add: emitDurableControlSignal_def Let_def checkpoint_def split: option.split)

lemma mark_checkpoint_mono: "checkpoint s \<le> checkpoint (markDurableControlSignalConsumed lc shw s k tm)"
proof (cases "find (\<lambda>e. sg_eventId e = k) (ss_events s)")
  case (Some e)
  have "checkpoint (consumed_store lc shw s e tm) = checkpoint s" by (simp add: checkpoint_def consumed_store_def)
  moreover have "checkpoint (pruneRecentConsumedTombstones x) = checkpoint x" for x by (simp add: checkpoint_def)
  ultimately show ?thesis using Some advance_checkpoint [of "consumed_store lc shw s e tm" tm] by (simp add: mark_cases)
qed (simp add: mark_cases)

lemma run_checkpoint_mono: "checkpoint s \<le> checkpoint (signal_run lc shw s ops)"
proof (induction ops arbitrary: s)
  case (Cons op ops)
  have "checkpoint s \<le> checkpoint (signal_step lc shw s op)" by (cases op) (simp_all add: mark_checkpoint_mono)
  with Cons.IH [of "signal_step lc shw s op"] show ?case by simp
qed simp

text \<open>C11: in every run of a store from its creation, with ids drawn from its sequence, the consumed
  checkpoint never decreases and stays below every pending signal, pending signals have distinct ids
  and sequences that were handed out, and at most 128 consumed signals are remembered.\<close>

theorem checkpoint_below_pending:
  assumes "list_all drawn_id ops" and "list_all drawn_id ops'"
    and "s = signal_run lc shw createEmptyDurableControlSignalStore ops"
    and "s' = signal_run lc shw s ops'"
  shows "checkpoint s \<le> checkpoint s'
    \<and> (\<forall>e \<in> set (ss_events s'). checkpoint s' < inferEventSequence e \<and> inferEventSequence e < next_seq s')
    \<and> distinct (map sg_eventId (ss_events s')) \<and> length (tombs s') \<le> 128"
proof -
  have "signals_wf s" unfolding assms(3) by (rule signal_run_wf [OF empty_wf assms(1)])
  from signal_run_wf [OF this assms(2)] have "signals_wf s'" by (simp add: assms(4))
  then show ?thesis using run_checkpoint_mono [of s] assms(4) numbered_range
    by (fastforce simp: signals_wf_def RECENT_CONSUMED_TOMBSTONE_LIMIT_def)
qed

section \<open>Idempotency\<close>

lemma find_distinct:
  "distinct (map f xs) \<Longrightarrow> x \<in> set xs \<Longrightarrow> find (\<lambda>y. f y = f x) xs = Some x"
  by (induction xs) auto

text \<open>Emitting is idempotent. A second signal with the same idempotency key is not created: the
  store is unchanged and the first signal is returned, whatever else the second input says.\<close>

theorem emit_once:
  assumes "signals_wf s" and "si_eventId i = None" and "buildIdempotencyKey j = buildIdempotencyKey i"
  shows "emitDurableControlSignal shw (em_store (emitDurableControlSignal shw s i now)) j now' =
    \<lparr>em_store = em_store (emitDurableControlSignal shw s i now),
     em_signal = em_signal (emitDurableControlSignal shw s i now), em_created = False\<rparr>"
proof (cases "existingSignal s (buildIdempotencyKey i)")
  case (Some x)
  then show ?thesis using assms(3) by (simp add: emitDurableControlSignal_def Let_def)
next
  case None
  let ?r = "emitDurableControlSignal shw s i now"
  obtain n where n: "ss_nextSequence s = Some n" using assms(1) by (auto simp: signals_wf_def)
  let ?g = "normalizeDurableControlSignal shw (i\<lparr>si_idempotencyKey := Some (buildIdempotencyKey i)\<rparr>) (Some n) now"
  have r: "em_signal ?r = ?g" "ss_events (em_store ?r) = ss_events s @ [?g]"
    "ss_idempotencyIndex (em_store ?r) = obj_put (buildIdempotencyKey i) (sg_eventId ?g) (ss_idempotencyIndex s)"
    using None n by (simp_all add: emitDurableControlSignal_def Let_def)
  have "distinct (map sg_eventId (ss_events (em_store ?r)))"
    using emit_wf [OF assms(1,2)] by (simp add: signals_wf_def)
  then have "find (\<lambda>e. sg_eventId e = sg_eventId ?g) (ss_events (em_store ?r)) = Some ?g"
    unfolding r(2) by (rule find_distinct) simp
  moreover have "sg_eventId ?g \<noteq> []" using assms(2) by simp
  ultimately have "existingSignal (em_store ?r) (buildIdempotencyKey i) = Some ?g"
    unfolding existingSignal_def r(3) jso.lookup_same by simp
  with assms(3) r(1) show ?thesis by (simp add: emitDurableControlSignal_def [of shw "em_store ?r"] Let_def)
qed

lemma prune_keeps_all:
  assumes "int (length (tombs s)) \<le> RECENT_CONSUMED_TOMBSTONE_LIMIT"
    and "\<forall>(k, t) \<in> set (tombs s). sg_eventId t = k"
  shows "tombs (pruneRecentConsumedTombstones s) = tombs s"
proof -
  have "keptTombstones (tombs s) = js_sort (\<lambda>a b. numOr (inferEventSequence b - inferEventSequence a)
      (tb_consumedAt b - tb_consumedAt a)) (obj_values (tombs s))"
    using assms(1) by (simp add: keptTombstones_def slice_to_def)
  then have "sg_eventId ` set (keptTombstones (tombs s)) = fst ` set (tombs s)"
    using assms(2) by (force simp: image_iff)
  then show ?thesis unfolding prune_tombs by (force simp: filter_id_conv)
qed

lemma prune_index:
  assumes "(k, eid) \<in> set (ss_idempotencyIndex s)"
    and "eid \<in> sg_eventId ` snd ` set (tombs (pruneRecentConsumedTombstones s))"
  shows "(k, eid) \<in> set (ss_idempotencyIndex (pruneRecentConsumedTombstones s))"
  using assms unfolding prune_tombs
  by (force simp: pruneRecentConsumedTombstones_def Let_def tombs_def)

lemma prune_index_distinct:
  "distinct (map fst (ss_idempotencyIndex s)) \<Longrightarrow>
   distinct (map fst (ss_idempotencyIndex (pruneRecentConsumedTombstones s)))"
  by (simp add: pruneRecentConsumedTombstones_def Let_def distinct_map_filter)

text \<open>A signal that is remembered: its key leads to a tombstone. Remembering lasts while no tombstone is dropped, so the room
  that is left is counted.\<close>

definition remembered :: "string \<Rightarrow> string \<Rightarrow> DurableControlSignalStore \<Rightarrow> bool" where
  "remembered key k s \<longleftrightarrow> k \<noteq> [] \<and> signals_wf s \<and> distinct (map fst (ss_idempotencyIndex s))
     \<and> map_of (ss_idempotencyIndex s) key = Some k \<and> k \<in> fst ` set (tombs s)"

lemma remembered_existing:
  assumes "remembered key k s"
  shows "existingSignal s key \<noteq> None"
proof -
  have "map_of (ss_idempotencyIndex s) key = Some k" "k \<noteq> []" using assms by (simp_all add: remembered_def)
  moreover obtain t where "map_of (nullish (ss_consumedTombstones s) []) k = Some t"
    using assms by (cases "map_of (tombs s) k") (simp_all add: remembered_def map_of_eq_None_iff tombs_def)
  ultimately show ?thesis by (cases "find (\<lambda>x. sg_eventId x = k) (ss_events s)") (simp_all add: existingSignal_def orElse_def)
qed

fun consumptions :: "signal_op list \<Rightarrow> nat" where
  "consumptions [] = 0"
| "consumptions (OpEmit _ _ # ops) = consumptions ops"
| "consumptions (OpConsume _ _ # ops) = Suc (consumptions ops)"

lemma length_obj_put: "length (obj_put k v ps) \<le> Suc (length ps)"
proof -
  have "length (obj_insert k v ps) = Suc (length ps)" by (induction ps rule: obj_insert.induct) auto
  moreover have "length (kv_replace k v ps) = length ps" by (metis keys_kv_replace length_map)
  ultimately show ?thesis by (simp add: obj_put_def)
qed

text \<open>A consumption with room for another tombstone forgets nothing.\<close>

lemma mark_keeps:
  assumes "signals_wf s" and "find (\<lambda>x. sg_eventId x = k) (ss_events s) = Some e" and "length (tombs s) < 128"
  shows "tombs (markDurableControlSignalConsumed lc shw s k tm) = obj_put k (toConsumedTombstone lc shw e tm) (tombs s)"
proof -
  let ?c = "advanceConsumedCheckpoint (consumed_store lc shw s e tm) tm"
  have e: "e \<in> set (ss_events s)" "sg_eventId e = k" using assms(2) by (auto simp: find_Some_iff)
  have tc: "tombs ?c = obj_put k (toConsumedTombstone lc shw e tm) (tombs s)" by (simp add: consumed_store_def tombs_def e)
  have new: "k \<notin> fst ` set (tombs s)" using assms(1) e by (auto simp: signals_wf_def)
  have "int (length (tombs ?c)) \<le> RECENT_CONSUMED_TOMBSTONE_LIMIT"
    using length_obj_put [of k "toConsumedTombstone lc shw e tm" "tombs s"] assms(3)
    unfolding tc RECENT_CONSUMED_TOMBSTONE_LIMIT_def by linarith
  moreover have "\<forall>(k', t) \<in> set (tombs ?c). sg_eventId t = k'"
    using new assms(1) e(2) by (auto simp: tc obj_put_def signals_wf_def)
  ultimately have "tombs (pruneRecentConsumedTombstones ?c) = tombs ?c" by (rule prune_keeps_all)
  then show ?thesis using assms(2) by (simp add: mark_cases tc)
qed

lemma mark_index_keeps:
  assumes "signals_wf s" and "find (\<lambda>x. sg_eventId x = k') (ss_events s) = Some e"
    and "distinct (map fst (ss_idempotencyIndex s))" and "map_of (ss_idempotencyIndex s) key = Some k"
    and "k \<in> fst ` set (tombs (markDurableControlSignalConsumed lc shw s k' tm))"
  shows "map_of (ss_idempotencyIndex (markDurableControlSignalConsumed lc shw s k' tm)) key = Some k
    \<and> distinct (map fst (ss_idempotencyIndex (markDurableControlSignalConsumed lc shw s k' tm)))"
proof -
  let ?c = "advanceConsumedCheckpoint (consumed_store lc shw s e tm) tm"
  have m: "markDurableControlSignalConsumed lc shw s k' tm = pruneRecentConsumedTombstones ?c" using assms(2) by (simp add: mark_cases)
  have idx: "ss_idempotencyIndex ?c = ss_idempotencyIndex s" by (simp add: consumed_store_def)
  have "signals_wf (markDurableControlSignalConsumed lc shw s k' tm)" using assms(1) by (rule mark_wf)
  then have ids: "\<forall>(k, t) \<in> set (tombs (pruneRecentConsumedTombstones ?c)). sg_eventId t = k"
    unfolding m signals_wf_def by (auto simp del: prune_simps)
  obtain t where t: "(k, t) \<in> set (tombs (pruneRecentConsumedTombstones ?c))" using assms(5) unfolding m by auto
  then have "k = sg_eventId t" using ids by fastforce
  then have "k \<in> sg_eventId ` snd ` set (tombs (pruneRecentConsumedTombstones ?c))" using t by (metis image_eqI snd_conv)
  moreover have "(key, k) \<in> set (ss_idempotencyIndex ?c)" unfolding idx using assms(4) by (rule map_of_SomeD)
  ultimately have "(key, k) \<in> set (ss_idempotencyIndex (pruneRecentConsumedTombstones ?c))" by (rule prune_index [rotated])
  moreover have "distinct (map fst (ss_idempotencyIndex (pruneRecentConsumedTombstones ?c)))"
    using assms(3) unfolding idx [symmetric] by (rule prune_index_distinct)
  ultimately show ?thesis by (simp add: m)
qed

lemma remembered_emit:
  assumes "remembered key k s" and "si_eventId i = None"
  shows "remembered key k (em_store (emitDurableControlSignal shw s i now))
    \<and> tombs (em_store (emitDurableControlSignal shw s i now)) = tombs s"
proof (cases "existingSignal s (buildIdempotencyKey i)")
  case None
  have "buildIdempotencyKey i \<noteq> key" using None remembered_existing [OF assms(1)] by auto
  then have "remembered key k (em_store (emitDurableControlSignal shw s i now))" if "signals_wf (em_store (emitDurableControlSignal shw s i now))"
    using that None assms by (auto simp: remembered_def emitDurableControlSignal_def Let_def jso.lookup_store jso.distinct_store tombs_def)
  moreover have "signals_wf (em_store (emitDurableControlSignal shw s i now))"
    using assms by (intro emit_wf) (simp_all add: remembered_def)
  moreover have "tombs (em_store (emitDurableControlSignal shw s i now)) = tombs s"
    using None by (simp add: emitDurableControlSignal_def Let_def tombs_def)
  ultimately show ?thesis by blast
qed (use assms in \<open>simp add: emitDurableControlSignal_def Let_def\<close>)

lemma remembered_mark:
  assumes "remembered key k s" and "length (tombs s) < 128"
  shows "remembered key k (markDurableControlSignalConsumed lc shw s k' tm)
    \<and> length (tombs (markDurableControlSignalConsumed lc shw s k' tm)) \<le> Suc (length (tombs s))"
proof (cases "find (\<lambda>x. sg_eventId x = k') (ss_events s)")
  case (Some e)
  have wf: "signals_wf s" using assms(1) by (simp add: remembered_def)
  note t = mark_keeps [OF wf Some assms(2), of lc shw tm]
  have kept: "k \<in> fst ` set (tombs (markDurableControlSignalConsumed lc shw s k' tm))"
    using assms(1) by (simp add: t remembered_def jso.keys_store)
  have idx: "distinct (map fst (ss_idempotencyIndex s))" "map_of (ss_idempotencyIndex s) key = Some k" "k \<noteq> []"
    using assms(1) by (simp_all add: remembered_def)
  show ?thesis using idx(3) kept mark_index_keeps [OF wf Some idx(1,2) kept] mark_wf [OF wf]
    length_obj_put [of k' "toConsumedTombstone lc shw e tm" "tombs s"] unfolding remembered_def t by blast
qed (use assms in \<open>simp add: mark_cases\<close>)

lemma remembered_run:
  "remembered key k s \<Longrightarrow> list_all drawn_id ops \<Longrightarrow> length (tombs s) + consumptions ops \<le> 128
    \<Longrightarrow> remembered key k (signal_run lc shw s ops)"
proof (induction ops arbitrary: s rule: consumptions.induct)
  case (2 i now ops)
  then show ?case using remembered_emit [OF "2.prems"(1), of i shw now] by simp
next
  case (3 k' tm ops)
  have "length (tombs s) < 128" using "3.prems"(3) by simp
  note m = remembered_mark [OF "3.prems"(1) this, of lc shw k' tm]
  then have "length (tombs (markDurableControlSignalConsumed lc shw s k' tm)) + consumptions ops \<le> 128" using "3.prems"(3) by simp
  with "3.IH" m "3.prems"(2) show ?case by simp
qed simp

lemma remembered_not_created:
  assumes "remembered (buildIdempotencyKey i) k s"
  shows "\<not> em_created (emitDurableControlSignal shw s i now)"
  using remembered_existing [OF assms] by (auto simp: emitDurableControlSignal_def Let_def)

lemma consumed_remembered:
  assumes "signals_wf s" and "e \<in> set (ss_events s)" and "map_of (ss_idempotencyIndex s) key = Some (sg_eventId e)"
    and "distinct (map fst (ss_idempotencyIndex s))" and "length (tombs s) < 128"
  shows "remembered key (sg_eventId e) (markDurableControlSignalConsumed lc shw s (sg_eventId e) tm)
    \<and> length (tombs (markDurableControlSignalConsumed lc shw s (sg_eventId e) tm)) \<le> Suc (length (tombs s))"
proof -
  have f: "find (\<lambda>x. sg_eventId x = sg_eventId e) (ss_events s) = Some e"
    using assms(1,2) by (intro find_distinct) (simp_all add: signals_wf_def)
  note t = mark_keeps [OF assms(1) f assms(5), of lc shw tm]
  have kept: "sg_eventId e \<in> fst ` set (tombs (markDurableControlSignalConsumed lc shw s (sg_eventId e) tm))"
    by (simp add: t jso.keys_store)
  have "sg_eventId e \<noteq> []" using assms(1,2) by (auto simp: signals_wf_def numbered_def)
  then show ?thesis using mark_index_keeps [OF assms(1) f assms(4,3) kept] mark_wf [OF assms(1)] kept
    length_obj_put [of "sg_eventId e" "toConsumedTombstone lc shw e tm" "tombs s"] by (simp add: remembered_def t)
qed

lemma consumed_not_recreated:
  assumes "signals_wf s" and "e \<in> set (ss_events s)"
    and "map_of (ss_idempotencyIndex s) (buildIdempotencyKey i) = Some (sg_eventId e)"
    and "distinct (map fst (ss_idempotencyIndex s))"
    and "length (tombs s) < 128"
  shows "\<not> em_created (emitDurableControlSignal shw
      (markDurableControlSignalConsumed lc shw s (sg_eventId e) tm) i now)"
  by (rule remembered_not_created, rule conjunct1, rule consumed_remembered) (rule assms)+

text \<open>C12: a consumed signal is not created again. After its consumption let any signals be emitted and consumed: while the
  consumed signals that were remembered before and the consumptions since, its own included, are at most 128, emitting a
  signal with its idempotency key does not create it anew, whatever else the input says.\<close>

theorem no_redelivery_after_consumption:
  assumes "signals_wf s" and "e \<in> set (ss_events s)"
    and "map_of (ss_idempotencyIndex s) (buildIdempotencyKey i) = Some (sg_eventId e)"
    and "distinct (map fst (ss_idempotencyIndex s))"
    and "list_all drawn_id ops" and "length (tombs s) + consumptions (OpConsume (sg_eventId e) tm # ops) \<le> 128"
  shows "\<not> em_created (emitDurableControlSignal shw (signal_run lc shw s (OpConsume (sg_eventId e) tm # ops)) i now)"
proof -
  let ?m = "markDurableControlSignalConsumed lc shw s (sg_eventId e) tm"
  have "length (tombs s) < 128" using assms(6) by simp
  note m = consumed_remembered [OF assms(1-4) this, of lc shw tm]
  then have "remembered (buildIdempotencyKey i) (sg_eventId e) (signal_run lc shw ?m ops)"
    using assms(5,6) by (intro remembered_run) simp_all
  then show ?thesis by (simp add: remembered_not_created)
qed

section \<open>Delivery order\<close>

text \<open>Pending signals are delivered interrupts first: the list holds exactly the unconsumed signals of
  the actor and fiber asked for, ordered by priority and, at equal priority, by age.\<close>

theorem pending_ordered:
  assumes "comparator lc"
  shows "mset (getPendingDurableControlSignals lc s actorKey fiberId)
      = mset (filter (\<lambda>e. (fiberId = None \<or> fiberId = Some [] \<or> sg_fiberId e = fiberId)
          \<and> (actorKey = None \<or> actorKey = Some [] \<or> Some (sg_actorKey e) = actorKey)
          \<and> \<not> consumedFlag s (sg_eventId e)) (ss_events s))
    \<and> sorted_wrt (\<lambda>a b. sg_priority a < sg_priority b
          \<or> sg_priority a = sg_priority b \<and> sg_createdAt a \<le> sg_createdAt b)
        (getPendingDurableControlSignals lc s actorKey fiberId)"
proof -
  let ?cmp = "\<lambda>a b :: DurableControlSignalData. numOr (sg_priority a - sg_priority b)
      (numOr (sg_createdAt a - sg_createdAt b) (lc (sg_eventId a) (sg_eventId b)))"
  have "comparator ?cmp"
    by (intro comparator_lex comparator_diff comparator_map [OF assms])
  from comparator.sorted_js_sort [OF this]
  have "sorted_wrt (\<lambda>a b. ?cmp a b \<le> 0) (getPendingDurableControlSignals lc s actorKey fiberId)"
    unfolding getPendingDurableControlSignals_def .
  moreover have "sg_priority a < sg_priority b \<or> sg_priority a = sg_priority b \<and> sg_createdAt a \<le> sg_createdAt b"
    if "?cmp a b \<le> 0" for a b
    using that by (auto simp: numOr_def split: if_splits)
  ultimately have "sorted_wrt (\<lambda>a b. sg_priority a < sg_priority b
          \<or> sg_priority a = sg_priority b \<and> sg_createdAt a \<le> sg_createdAt b)
        (getPendingDurableControlSignals lc s actorKey fiberId)"
    by (rule sorted_wrt_mono_rel [rotated])
  then show ?thesis by (simp add: getPendingDurableControlSignals_def conj_commute conj_left_commute)
qed

section \<open>Snapshots\<close>

lemma clone_fields:
  "ss_events (cloneDurableControlSignalStore (Some s)) = ss_events s"
  "tombs (cloneDurableControlSignalStore (Some s)) = tombs s"
  "ss_idempotencyIndex (cloneDurableControlSignalStore (Some s)) = ss_idempotencyIndex s"
  "ss_consumedCheckpoint s \<noteq> None \<Longrightarrow> checkpoint (cloneDurableControlSignalStore (Some s)) = checkpoint s"
  "signals_wf s \<Longrightarrow> next_seq (cloneDurableControlSignalStore (Some s)) = next_seq s"
  by (auto simp: cloneDurableControlSignalStore_def Let_def tombs_def tombstonesOf_def checkpoint_def next_seq_def
      inferNextSequence_def signals_wf_def)

lemma serialize_unconsumed:
  assumes "\<forall>e \<in> set (ss_events s). \<not> consumedFlag s (sg_eventId e)"
  shows "ss_events (serializeDurableControlSignalStoreForSnapshot lc shw clock (Some s))
      = map (toBoundedSignalSnapshot lc shw) (ss_events s)"
    and "ss_consumedTombstones (serializeDurableControlSignalStoreForSnapshot lc shw clock (Some s)) = Some (tombs s)"
    and "ss_consumedCheckpoint (serializeDurableControlSignalStoreForSnapshot lc shw clock (Some s))
      = ss_consumedCheckpoint (cloneDurableControlSignalStore (Some s))"
    and "ss_nextSequence (serializeDurableControlSignalStoreForSnapshot lc shw clock (Some s))
      = ss_nextSequence (cloneDurableControlSignalStore (Some s))"
proof -
  let ?f = "\<lambda>cl e. if consumedFlag s (sg_eventId e)
      then markDurableControlSignalConsumed lc shw cl (sg_eventId e) (clock (sg_eventId e)) else cl"
  have "foldl ?f cl es = cl" if "set es \<subseteq> set (ss_events s)" for cl es
    using that assms by (induction es arbitrary: cl) auto
  then have fold: "foldl ?f cl (ss_events s) = cl" for cl by blast
  have filt: "filter (\<lambda>e. \<not> consumedFlag s (sg_eventId e)) (ss_events s) = ss_events s"
    using assms by (auto simp: filter_id_conv)
  note defs = serializeDurableControlSignalStoreForSnapshot_def Let_def option.case
  show "ss_events (serializeDurableControlSignalStoreForSnapshot lc shw clock (Some s))
      = map (toBoundedSignalSnapshot lc shw) (ss_events s)" unfolding defs fold filt by simp
  show "ss_consumedTombstones (serializeDurableControlSignalStoreForSnapshot lc shw clock (Some s)) = Some (tombs s)"
    unfolding defs fold using clone_fields(2) [of s] by (simp add: tombs_def)
  show "ss_consumedCheckpoint (serializeDurableControlSignalStoreForSnapshot lc shw clock (Some s))
      = ss_consumedCheckpoint (cloneDurableControlSignalStore (Some s))"
    unfolding defs fold by (simp add: cloneDurableControlSignalStore_def Let_def)
  show "ss_nextSequence (serializeDurableControlSignalStoreForSnapshot lc shw clock (Some s))
      = ss_nextSequence (cloneDurableControlSignalStore (Some s))"
    unfolding defs fold by (simp add: cloneDurableControlSignalStore_def Let_def)
qed

lemma hydrate_fields:
  "tombs (hydrateDurableControlSignalStoreFromSnapshot lc shw (Some s)) = tombs s"
  "ss_consumedCheckpoint s = Some cp \<Longrightarrow> ss_consumedCheckpoint (hydrateDurableControlSignalStoreFromSnapshot lc shw (Some s)) = Some cp"
  "ss_nextSequence s = Some n \<Longrightarrow> 0 < n \<Longrightarrow> ss_nextSequence (hydrateDurableControlSignalStoreFromSnapshot lc shw (Some s)) = Some n"
  "ss_events (hydrateDurableControlSignalStoreFromSnapshot lc shw (Some s))
     = map (\<lambda>e. e\<lparr>sg_sequence := Some (inferEventSequence e),
             sg_payloadSummary := orElse (sg_payloadSummary e) (summarizePayload lc shw (sg_payload e))\<rparr>) (ss_events s)"
  by (simp_all add: hydrateDurableControlSignalStoreFromSnapshot_def cloneDurableControlSignalStore_def Let_def
      tombs_def tombstonesOf_def inferNextSequence_def)

lemma bounded_stable:
  "(toBoundedSignalSnapshot lc shw e)\<lparr>sg_sequence := Some (inferEventSequence (toBoundedSignalSnapshot lc shw e)),
     sg_payloadSummary := orElse (sg_payloadSummary (toBoundedSignalSnapshot lc shw e))
       (summarizePayload lc shw (sg_payload (toBoundedSignalSnapshot lc shw e)))\<rparr> = toBoundedSignalSnapshot lc shw e"
  by (simp add: toBoundedSignalSnapshot_def inferEventSequence_def summarizePayload_def)

text \<open>C13: saving and restoring a store that has a checkpoint and no consumed events left keeps every pending signal, with its payload replaced by its
  summary, every remembered tombstone, the checkpoint and the next sequence.\<close>

theorem snapshot_roundtrip:
  assumes "signals_wf s" and "ss_consumedCheckpoint s \<noteq> None"
    and "\<forall>e \<in> set (ss_events s). \<not> consumedFlag s (sg_eventId e)"
    and "s' = hydrateDurableControlSignalStoreFromSnapshot lc shw
       (Some (serializeDurableControlSignalStoreForSnapshot lc shw clock (Some s)))"
  shows "ss_events s' = map (toBoundedSignalSnapshot lc shw) (ss_events s) \<and> tombs s' = tombs s
    \<and> checkpoint s' = checkpoint s \<and> next_seq s' = next_seq s"
proof -
  let ?z = "serializeDurableControlSignalStoreForSnapshot lc shw clock (Some s)"
  note z = serialize_unconsumed [OF assms(3), of lc shw clock]
  obtain cp where cp: "ss_consumedCheckpoint ?z = Some cp" "cp_sequence cp = checkpoint s"
    using z(3) clone_fields(4) [OF assms(2)] by (simp add: cloneDurableControlSignalStore_def Let_def checkpoint_def)
  obtain n where n: "ss_nextSequence ?z = Some n" "n = next_seq s" "0 < n"
    using z(4) clone_fields(5) [OF assms(1)] assms(1)
    by (simp add: cloneDurableControlSignalStore_def Let_def next_seq_def signals_wf_def)
  have "tombs s' = tombs s" using z(2) by (simp add: assms(4) hydrate_fields(1)) (simp add: tombs_def)
  moreover have "checkpoint s' = checkpoint s" using hydrate_fields(2) [OF cp(1)] cp(2) by (simp add: assms(4) checkpoint_def)
  moreover have "next_seq s' = next_seq s"
    using hydrate_fields(3) [OF n(1,3), of lc shw] n(2) unfolding assms(4) next_seq_def by simp
  moreover have "ss_events s' = map (toBoundedSignalSnapshot lc shw) (ss_events s)"
    unfolding assms(4) hydrate_fields(4) z(1) map_map comp_def bounded_stable ..
  ultimately show ?thesis by blast
qed

section \<open>Forgotten tombstones\<close>

text \<open>The sequence after the checkpoint was handed out, but its signal is neither pending nor remembered:
  it was consumed while an earlier signal was pending, and its tombstone was dropped by the limit.\<close>

definition forgotten :: "DurableControlSignalStore \<Rightarrow> bool" where
  "forgotten s \<longleftrightarrow> checkpoint s + 1 < next_seq s
     \<and> (\<forall>e \<in> set (ss_events s). inferEventSequence e \<noteq> checkpoint s + 1)
     \<and> (\<forall>(k, t) \<in> set (tombs s). inferEventSequence t \<noteq> checkpoint s + 1)"

lemma emit_forgotten:
  assumes "signals_wf s" and "forgotten s"
  shows "forgotten (em_store (emitDurableControlSignal shw s i now))"
  using assms
  by (auto simp: forgotten_def emitDurableControlSignal_def Let_def checkpoint_def next_seq_def tombs_def signals_wf_def
      inferEventSequence_def split: option.splits)

lemma mark_forgotten:
  assumes "signals_wf s" and "forgotten s"
  shows "forgotten (markDurableControlSignalConsumed lc shw s k tm)
    \<and> checkpoint (markDurableControlSignalConsumed lc shw s k tm) = checkpoint s"
proof (cases "find (\<lambda>e. sg_eventId e = k) (ss_events s)")
  case (Some e)
  then have e: "e \<in> set (ss_events s)" by (auto simp: find_Some_iff)
  let ?c = "consumed_store lc shw s e tm"
  let ?m = "pruneRecentConsumedTombstones (advanceConsumedCheckpoint ?c tm)"
  have cs: "checkpoint ?c = checkpoint s" "checkpoint ?m = checkpoint (advanceConsumedCheckpoint ?c tm)"
    "next_seq ?m = next_seq s" "tombs (advanceConsumedCheckpoint ?c tm) = tombs ?c"
    by (simp_all add: checkpoint_def next_seq_def consumed_store_def tombs_def)
  have tc: "tombs ?c = obj_put (sg_eventId e) (toConsumedTombstone lc shw e tm) (tombs s)"
    by (simp add: consumed_store_def tombs_def)
  have "distinct (map fst (tombs ?c))"
    using assms(1) unfolding tc signals_wf_def by (intro jso.distinct_store) simp
  then have gone: "inferEventSequence t \<noteq> checkpoint s + 1" if "(k, t) \<in> set (tombs ?c)" for k t
  proof -
    from that \<open>distinct (map fst (tombs ?c))\<close> have "map_of (tombs ?c) k = Some t" by simp
    then have "t = toConsumedTombstone lc shw e tm \<or> (k, t) \<in> set (tombs s)"
      unfolding tc jso.lookup_store by (auto split: if_splits dest: map_of_SomeD)
    then show ?thesis using assms(2) e by (auto simp: forgotten_def)
  qed
  have cp: "checkpoint ?m = checkpoint s"
  proof (rule ccontr)
    assume "checkpoint ?m \<noteq> checkpoint s"
    then have "checkpoint s < checkpoint ?m" using advance_checkpoint [of ?c tm] cs by auto
    then have "checkpoint s + 1 \<le> checkpoint (advanceConsumedCheckpoint ?c tm)" unfolding cs(2) by linarith
    then have "\<exists>(k, t) \<in> set (tombs ?c). inferEventSequence t = checkpoint s + 1"
      using advance_checkpoint [of ?c tm] cs(1) by simp
    then show False using gone by blast
  qed
  have sub: "set (tombs ?m) \<subseteq> set (tombs ?c)" by (auto simp: prune_tombs cs)
  have "forgotten ?m" unfolding forgotten_def cp cs(3)
    using assms(2) gone sub by (auto simp: forgotten_def)
  with Some cp show ?thesis by (simp add: mark_cases)
qed (use assms in \<open>simp add: mark_cases\<close>)

text \<open>Once the signal after the checkpoint has been forgotten, the checkpoint never moves again,
  whatever is emitted and consumed from then on.\<close>

theorem checkpoint_stalls:
  assumes "signals_wf s" and "forgotten s" and "list_all drawn_id ops"
  shows "checkpoint (signal_run lc shw s ops) = checkpoint s"
  using assms
proof (induction ops arbitrary: s)
  case (Cons op ops)
  have "signals_wf (signal_step lc shw s op) \<and> forgotten (signal_step lc shw s op)
      \<and> checkpoint (signal_step lc shw s op) = checkpoint s"
    using Cons.prems by (cases op) (simp_all add: emit_wf emit_forgotten mark_wf mark_forgotten)
  with Cons.IH [of "signal_step lc shw s op"] Cons.prems show ?case by simp
qed simp

section \<open>A concrete store\<close>

definition demo_signal :: "string \<Rightarrow> DurableControlSignalKind \<Rightarrow> DurableControlSignalInput" where
  "demo_signal actor kind = \<lparr>si_eventId = None, si_executionOrigin = JUndef, si_originSchemaVersion = None,
     si_actorKey = actor, si_actorId = None, si_fiberId = None, si_mailboxKind = None, si_signalKind = kind,
     si_signalClass = None, si_priority = None, si_opId = None, si_toolCallId = None, si_causationId = None,
     si_correlationId = None, si_idempotencyKey = None, si_createdAt = None, si_payload = JUndef,
     si_payloadSummary = None, si_payloadRef = None\<rparr>"

definition demo_ops :: "signal_op list" where
  "demo_ops = [OpEmit (demo_signal ''a'' AsyncCompleted) 5, OpEmit (demo_signal ''b'' InterruptRequested) 6,
     OpEmit (demo_signal ''a'' AsyncCompleted) 7, OpConsume ''ctrl_1'' 8]"

definition demo_store :: DurableControlSignalStore where
  "demo_store = signal_run unit_compare (\<lambda>q. ''n'') createEmptyDurableControlSignalStore demo_ops"

lemma demo_store_values:
  "map sg_eventId (ss_events demo_store) = [''ctrl_2'']" "checkpoint demo_store = 1" "next_seq demo_store = 3"
  "length (tombs demo_store) = 1" "distinct (map fst (ss_idempotencyIndex demo_store))"
  "map_of (ss_idempotencyIndex demo_store) (buildIdempotencyKey (demo_signal ''b'' InterruptRequested)) = Some ''ctrl_2''"
  "ss_consumedCheckpoint demo_store \<noteq> None" "\<not> consumedFlag demo_store ''ctrl_2''"
  by code_simp+

lemma demo_store_wf: "signals_wf demo_store"
  unfolding demo_store_def by (rule signal_run_wf [OF empty_wf]) (simp add: demo_ops_def demo_signal_def)

theorem checkpoint_below_pending_witness:
  "list_all (\<lambda>e. checkpoint demo_store < inferEventSequence e) (ss_events demo_store)"
proof -
  have "list_all drawn_id demo_ops" "list_all drawn_id []" by (simp_all add: demo_ops_def demo_signal_def)
  from checkpoint_below_pending [OF this demo_store_def, of demo_store] show ?thesis by (simp add: list_all_iff)
qed

theorem emit_once_witness:
  "emitDurableControlSignal (\<lambda>q. ''n'') (em_store (emitDurableControlSignal (\<lambda>q. ''n'') demo_store (demo_signal ''c'' ResumeRequested) 9))
     (demo_signal ''c'' ResumeRequested) 10 =
    \<lparr>em_store = em_store (emitDurableControlSignal (\<lambda>q. ''n'') demo_store (demo_signal ''c'' ResumeRequested) 9),
     em_signal = em_signal (emitDurableControlSignal (\<lambda>q. ''n'') demo_store (demo_signal ''c'' ResumeRequested) 9), em_created = False\<rparr>"
  by (rule emit_once [OF demo_store_wf]) (simp_all add: demo_signal_def)

theorem no_redelivery_after_consumption_witness:
  "\<not> em_created (emitDurableControlSignal (\<lambda>q. ''n'') (signal_run unit_compare (\<lambda>q. ''n'') demo_store
      [OpConsume ''ctrl_2'' 9, OpEmit (demo_signal ''c'' ResumeRequested) 10, OpConsume ''ctrl_3'' 11]) (demo_signal ''b'' InterruptRequested) 12)"
proof -
  obtain e where e: "e \<in> set (ss_events demo_store)" "sg_eventId e = ''ctrl_2''"
    using demo_store_values(1) by (auto simp: map_eq_Cons_conv)
  have "list_all drawn_id [OpEmit (demo_signal ''c'' ResumeRequested) 10, OpConsume ''ctrl_3'' 11]" by (simp add: demo_signal_def)
  from no_redelivery_after_consumption [OF demo_store_wf e(1), unfolded e(2), OF demo_store_values(6,5) this]
  show ?thesis using demo_store_values(4) by simp
qed

theorem pending_ordered_witness:
  "sorted_wrt (\<lambda>a b. sg_priority a < sg_priority b \<or> sg_priority a = sg_priority b \<and> sg_createdAt a \<le> sg_createdAt b)
     (getPendingDurableControlSignals unit_compare demo_store None None)"
  using pending_ordered [OF unit_cmp.comparator_axioms] by blast

theorem snapshot_roundtrip_witness:
  "next_seq (hydrateDurableControlSignalStoreFromSnapshot unit_compare (\<lambda>q. ''n'')
       (Some (serializeDurableControlSignalStoreForSnapshot unit_compare (\<lambda>q. ''n'') (\<lambda>_. 9) (Some demo_store)))) = 3"
proof -
  have "\<forall>e \<in> set (ss_events demo_store). \<not> consumedFlag demo_store (sg_eventId e)"
    using demo_store_values(1,8) by (auto simp: map_eq_Cons_conv)
  from snapshot_roundtrip [OF demo_store_wf demo_store_values(7) this refl] demo_store_values(3) show ?thesis by metis
qed

definition stalled_store :: DurableControlSignalStore where
  "stalled_store = createEmptyDurableControlSignalStore\<lparr>ss_nextSequence := Some 2\<rparr>"

theorem checkpoint_stalls_witness:
  "checkpoint (signal_run unit_compare (\<lambda>q. ''n'') stalled_store demo_ops) = 0"
proof -
  have "signals_wf stalled_store" "forgotten stalled_store" "list_all drawn_id demo_ops" "checkpoint stalled_store = 0"
    by (simp_all add: stalled_store_def createEmptyDurableControlSignalStore_def signals_wf_def forgotten_def next_seq_def
        tombs_def checkpoint_def RECENT_CONSUMED_TOMBSTONE_LIMIT_def demo_ops_def demo_signal_def)
  from checkpoint_stalls [OF this(1-3)] this(4) show ?thesis by simp
qed

end
