(* ===== verification/HeartbeatModel.thy ===== *)
theory HeartbeatModel
  imports JsPrelude
begin

text \<open>
  The heartbeat scheduler: the data and input normalization of
  \<open>ai-core-contract/src/runtime/Heartbeat.ts\<close> and the scheduler of
  \<open>ai-core-logic/src/runtime/heartbeatScheduler.ts\<close>, on the part of the VM it touches: the actors with
  their heartbeat mailboxes, the scheduler state, the observability records and the log.

  ISO timestamps are represented by the instant they denote, in milliseconds; \<open>isot\<close> renders one where
  the code compares them as strings, \<open>lc\<close> is \<open>localeCompare\<close>, \<open>shw\<close> renders finite numbers, and \<open>stamp\<close>
  is the base-36 text of the current time in a new schedule id. Inputs of tools are untyped values.
  A function that throws returns \<open>Inl\<close> beside the VM as it is at that moment. The \<open>deliver\<close>
  callback is awaited, so other code may run meanwhile: it is a function on the VM.
\<close>

section \<open>Data\<close>

datatype HeartbeatScheduleKind = KTimeout | KInterval

datatype HeartbeatScheduleStatus =
  HbPending | HbActive | HbFiring | HbCancelled | HbCompleted | HbExpired | HbFailed

record HeartbeatSchedule =
  hs_scheduleId :: string
  hs_kind :: HeartbeatScheduleKind
  hs_name :: string
  hs_description :: string
  hs_ownerActorKey :: string
  hs_ownerActorId :: string
  hs_targetActorKey :: string
  hs_targetActorId :: string
  hs_status :: HeartbeatScheduleStatus
  hs_createdAt :: int
  hs_updatedAt :: int
  hs_nextFireAt :: "int option"
  hs_delaySeconds :: "int option"
  hs_intervalSeconds :: "int option"
  hs_fireCount :: int
  hs_maxFires :: "int option"
  hs_lastFireAt :: "int option"
  hs_cancelledAt :: "int option"
  hs_cancelReason :: "string option"
  hs_message :: string
  hs_payload :: "jsv obj"
  hs_version :: int
  hs_lastFireToken :: "string option"

record HeartbeatSchedulerRuntimeState =
  schedules :: "HeartbeatSchedule obj"
  hb_sequence :: int

record HeartbeatWakePayload =
  wk_scheduleId :: string
  wk_kind :: HeartbeatScheduleKind
  wk_name :: string
  wk_description :: string
  wk_message :: string
  wk_payload :: "jsv obj"
  wk_fireCount :: int
  wk_firedAt :: int

record HeartbeatLimits =
  minDelaySeconds :: int
  maxDelaySeconds :: int
  minIntervalSeconds :: int
  maxIntervalSeconds :: int
  defaultMaxIntervalFires :: int
  maxActiveSchedules :: "int option"

record HbActor =
  ac_id :: string
  ac_heartbeat :: "HeartbeatWakePayload list"

record HbRecord =
  rec_eventName :: string
  rec_error :: bool
  rec_scheduleId :: string
  rec_status :: HeartbeatScheduleStatus
  rec_nextFireAt :: "int option"

record HbVm =
  vm_actors :: "HbActor obj"
  vm_scheduler :: "HeartbeatSchedulerRuntimeState option"
  vm_records :: "HbRecord list"
  vm_log :: "(string \<times> string \<times> string) list"

datatype HbTime = TMs int | TText string "int option" \<comment> \<open>a date text with the instant it parses to\<close>

type_synonym 'a vm_result = "'a result \<times> HbVm"
type_synonym deliver = "HeartbeatSchedule \<times> HeartbeatWakePayload \<Rightarrow> HbVm \<Rightarrow> unit vm_result"

definition HEARTBEAT_DEFAULT_LIMITS :: HeartbeatLimits where
  "HEARTBEAT_DEFAULT_LIMITS = \<lparr>minDelaySeconds = 10, maxDelaySeconds = 3600, minIntervalSeconds = 10,
     maxIntervalSeconds = 3600, defaultMaxIntervalFires = 20, maxActiveSchedules = None\<rparr>"

section \<open>Normalization of inputs\<close>

definition createHeartbeatScheduleId :: "string \<Rightarrow> string result" where
  "createHeartbeatScheduleId v =
     (let trimmed = js_trim v in
      if trimmed = [] then Inl ''schedule_id is required''
      else Inr (if starts_with ''sch_'' trimmed then trimmed else ''sch_'' @ trimmed))"

definition requireNonEmpty :: "(rat \<Rightarrow> string) \<Rightarrow> string \<Rightarrow> jsv \<Rightarrow> string result" where
  "requireNonEmpty shw field v =
     (let txt = js_trim (if v = JUndef \<or> v = JNull then [] else js_String shw v) in
      if txt = [] then Inl (field @ '' is required'') else Inr txt)"

definition requireDetailedDescription :: "(rat \<Rightarrow> string) \<Rightarrow> jsv \<Rightarrow> string result" where
  "requireDetailedDescription shw v = bind_result (requireNonEmpty shw ''description'' v) (\<lambda>txt.
     if length txt < 16
     then Inl ''description must describe wake purpose, check action, completion condition, or stop condition''
     else Inr txt)"

fun js_integer :: "jsv \<Rightarrow> int option" where
  "js_integer (JNum (Fin q)) = (if q = of_int \<lfloor>q\<rfloor> then Some \<lfloor>q\<rfloor> else None)"
| "js_integer _ = None"

definition normalizeInteger :: "string \<Rightarrow> jsv \<Rightarrow> int \<Rightarrow> int \<Rightarrow> int result" where
  "normalizeInteger field v mn mx = (case js_integer v of
      None \<Rightarrow> Inl (field @ '' must be an integer between '' @ show_int mn @ '' and '' @ show_int mx)
    | Some n \<Rightarrow> if n < mn \<or> n > mx
        then Inl (field @ '' must be between '' @ show_int mn @ '' and '' @ show_int mx)
        else Inr n)"

definition normalizePayload :: "jsv \<Rightarrow> jsv obj result" where
  "normalizePayload v = (case v of
      JUndef \<Rightarrow> Inr [] | JNull \<Rightarrow> Inr [] | JObj ps \<Rightarrow> Inr ps | _ \<Rightarrow> Inl ''payload must be an object'')"

definition normalizeOptionalString :: "(rat \<Rightarrow> string) \<Rightarrow> jsv \<Rightarrow> string option" where
  "normalizeOptionalString shw v =
     (if v = JUndef \<or> v = JNull then None
      else let txt = js_trim (js_String shw v) in if txt = [] then None else Some txt)"

definition js_nullish :: "jsv \<Rightarrow> jsv \<Rightarrow> jsv" where
  "js_nullish a b = (if a = JUndef \<or> a = JNull then b else a)"

record NormalizedCreate =
  nc_name :: string
  nc_description :: string
  nc_seconds :: int
  nc_targetActorKey :: "string option"
  nc_targetActorId :: "string option"
  nc_message :: string
  nc_payload :: "jsv obj"
  nc_maxFires :: "int option"

text \<open>The fields both normalizations share, in the order the code evaluates them.\<close>

definition normalizeCreate ::
  "(rat \<Rightarrow> string) \<Rightarrow> jsv \<Rightarrow> int \<Rightarrow> int option \<Rightarrow> NormalizedCreate result" where
  "normalizeCreate shw input seconds maxFires =
     bind_result (requireNonEmpty shw ''name'' (js_prop input ''name'')) (\<lambda>name.
     bind_result (requireDetailedDescription shw (js_prop input ''description'')) (\<lambda>description.
     bind_result (requireNonEmpty shw ''message'' (js_prop input ''message'')) (\<lambda>message.
     bind_result (normalizePayload (js_prop input ''payload'')) (\<lambda>payload.
     Inr \<lparr>nc_name = name, nc_description = description, nc_seconds = seconds,
          nc_targetActorKey = normalizeOptionalString shw (js_prop input ''targetActorKey''),
          nc_targetActorId = normalizeOptionalString shw (js_prop input ''targetActorId''),
          nc_message = message, nc_payload = payload, nc_maxFires = maxFires\<rparr>))))"

definition normalizeCreateTimeoutInput ::
  "(rat \<Rightarrow> string) \<Rightarrow> jsv \<Rightarrow> HeartbeatLimits \<Rightarrow> NormalizedCreate result" where
  "normalizeCreateTimeoutInput shw input limits =
     bind_result (normalizeInteger ''delay_seconds''
         (js_nullish (js_prop input ''delaySeconds'') (js_prop input ''delay_seconds''))
         (minDelaySeconds limits) (maxDelaySeconds limits)) (\<lambda>delaySeconds.
     normalizeCreate shw input delaySeconds (Some 1))"

definition normalizeCreateIntervalInput ::
  "(rat \<Rightarrow> string) \<Rightarrow> jsv \<Rightarrow> HeartbeatLimits \<Rightarrow> NormalizedCreate result" where
  "normalizeCreateIntervalInput shw input limits =
     bind_result (normalizeInteger ''interval_seconds''
         (js_nullish (js_prop input ''intervalSeconds'') (js_prop input ''interval_seconds''))
         (minIntervalSeconds limits) (maxIntervalSeconds limits)) (\<lambda>intervalSeconds.
     bind_result (normalizeInteger ''max_fires''
         (js_nullish (js_nullish (js_prop input ''maxFires'') (js_prop input ''max_fires''))
            (JNum (Fin (of_int (defaultMaxIntervalFires limits))))) 1 max_safe_integer) (\<lambda>maxFires.
     normalizeCreate shw input intervalSeconds (Some maxFires)))"

definition createHeartbeatWakePayload :: "HeartbeatWakePayload \<Rightarrow> HeartbeatWakePayload result" where
  "createHeartbeatWakePayload w =
     (let str = JStr in
      bind_result (createHeartbeatScheduleId (wk_scheduleId w)) (\<lambda>scheduleId.
      bind_result (requireNonEmpty (\<lambda>_. []) ''name'' (str (wk_name w))) (\<lambda>name.
      bind_result (requireDetailedDescription (\<lambda>_. []) (str (wk_description w))) (\<lambda>description.
      bind_result (requireNonEmpty (\<lambda>_. []) ''message'' (str (wk_message w))) (\<lambda>message.
      if wk_fireCount w < 1 then Inl ''fire_count must be a positive integer''
      else Inr (w\<lparr>wk_scheduleId := scheduleId, wk_name := name, wk_description := description,
                  wk_message := message\<rparr>))))))"

fun toEpochMs :: "HbTime \<Rightarrow> int result" where
  "toEpochMs (TMs n) = Inr n"
| "toEpochMs (TText txt (Some n)) = Inr n"
| "toEpochMs (TText txt None) = Inl (''invalid date: '' @ txt)"

section \<open>State\<close>

definition terminalStatus :: "HeartbeatScheduleStatus \<Rightarrow> bool" where
  "terminalStatus s \<longleftrightarrow> s \<in> {HbCancelled, HbCompleted, HbExpired, HbFailed}"

definition ensureHeartbeatSchedulerState :: "HbVm \<Rightarrow> HeartbeatSchedulerRuntimeState" where
  "ensureHeartbeatSchedulerState vm = nullish (vm_scheduler vm) \<lparr>schedules = [], hb_sequence = 0\<rparr>"

definition set_schedule :: "HeartbeatSchedule \<Rightarrow> HbVm \<Rightarrow> HbVm" where
  "set_schedule s vm = (let st = ensureHeartbeatSchedulerState vm in
     vm\<lparr>vm_scheduler := Some (st\<lparr>schedules := obj_put (hs_scheduleId s) s (schedules st)\<rparr>)\<rparr>)"

definition get_schedule :: "string \<Rightarrow> HbVm \<Rightarrow> HeartbeatSchedule option" where
  "get_schedule i vm = map_of (schedules (ensureHeartbeatSchedulerState vm)) i"

definition emitHeartbeatRecord :: "string \<Rightarrow> bool \<Rightarrow> HeartbeatSchedule \<Rightarrow> HbVm \<Rightarrow> HbVm" where
  "emitHeartbeatRecord name err s vm = vm\<lparr>vm_records := vm_records vm
     @ [\<lparr>rec_eventName = name, rec_error = err, rec_scheduleId = hs_scheduleId s, rec_status = hs_status s,
         rec_nextFireAt = hs_nextFireAt s\<rparr>]\<rparr>"

definition vmLog :: "string \<Rightarrow> string \<Rightarrow> HeartbeatSchedule \<Rightarrow> HbVm \<Rightarrow> HbVm" where
  "vmLog level msg s vm = vm\<lparr>vm_log := vm_log vm @ [(level, msg, hs_scheduleId s)]\<rparr>"

section \<open>Creating, listing and cancelling\<close>

definition listHeartbeatSchedules ::
  "(string \<Rightarrow> string \<Rightarrow> int) \<Rightarrow> (int \<Rightarrow> string) \<Rightarrow> HbVm \<Rightarrow> string option \<Rightarrow> HeartbeatScheduleKind option
    \<Rightarrow> string option \<Rightarrow> string option \<Rightarrow> HeartbeatSchedule list" where
  "listHeartbeatSchedules lc isot vm statusFilter kindFilter owner target =
     (let status = nullish statusFilter ''active'' in
      js_sort (\<lambda>a b. numOr (lc (isot (hs_createdAt a)) (isot (hs_createdAt b))) (lc (hs_scheduleId a) (hs_scheduleId b)))
        (filter (\<lambda>s.
            (let terminal = terminalStatus (hs_status s) in
             if status = ''active'' \<and> terminal then False
             else if status = ''terminal'' \<and> \<not> terminal then False
             else if kindFilter \<noteq> None \<and> Some (hs_kind s) \<noteq> kindFilter then False
             else if owner \<noteq> None \<and> owner \<noteq> Some [] \<and> Some (hs_ownerActorKey s) \<noteq> owner then False
             else if target \<noteq> None \<and> target \<noteq> Some [] \<and> Some (hs_targetActorKey s) \<noteq> target then False
             else True)) (obj_values (schedules (ensureHeartbeatSchedulerState vm)))))"

definition assertActiveQuota ::
  "(string \<Rightarrow> string \<Rightarrow> int) \<Rightarrow> (int \<Rightarrow> string) \<Rightarrow> HbVm \<Rightarrow> int option \<Rightarrow> unit result" where
  "assertActiveQuota lc isot vm maxActive = (case maxActive of
      None \<Rightarrow> Inr ()
    | Some m \<Rightarrow> if int (length (listHeartbeatSchedules lc isot vm None None None None)) \<ge> m
        then Inl (''active schedule limit reached: '' @ show_int m) else Inr ())"

definition createBaseSchedule ::
  "string \<Rightarrow> HbVm \<Rightarrow> string \<Rightarrow> string \<Rightarrow> NormalizedCreate \<Rightarrow> HeartbeatScheduleKind \<Rightarrow> HeartbeatScheduleStatus
    \<Rightarrow> int \<Rightarrow> HeartbeatSchedule vm_result" where
  "createBaseSchedule stamp vm owner ownerId input kind status nowMs =
     (let st = ensureHeartbeatSchedulerState vm;
          sequence = hb_sequence st + 1;
          vm' = vm\<lparr>vm_scheduler := Some (st\<lparr>hb_sequence := sequence\<rparr>)\<rparr>;
          targetActorKey = nullish (nc_targetActorKey input) owner
      in case map_of (vm_actors vm) targetActorKey of
           None \<Rightarrow> (Inl (''target actor not found: '' @ targetActorKey), vm')
         | Some actor \<Rightarrow>
             (bind_result (createHeartbeatScheduleId (stamp @ ''_'' @ show_int sequence)) (\<lambda>scheduleId.
                Inr \<lparr>hs_scheduleId = scheduleId, hs_kind = kind, hs_name = nc_name input,
                  hs_description = nc_description input, hs_ownerActorKey = owner, hs_ownerActorId = ownerId,
                  hs_targetActorKey = targetActorKey, hs_targetActorId = nullish (nc_targetActorId input) (ac_id actor),
                  hs_status = status, hs_createdAt = nowMs, hs_updatedAt = nowMs,
                  hs_nextFireAt = Some (nowMs + nc_seconds input * 1000),
                  hs_delaySeconds = (if kind = KTimeout then Some (nc_seconds input) else None),
                  hs_intervalSeconds = (if kind = KInterval then Some (nc_seconds input) else None),
                  hs_fireCount = 0, hs_maxFires = nc_maxFires input, hs_lastFireAt = None,
                  hs_cancelledAt = None, hs_cancelReason = None, hs_message = nc_message input,
                  hs_payload = nc_payload input, hs_version = 1, hs_lastFireToken = None\<rparr>), vm'))"

text \<open>Both creations share their steps: quota, normalization, time, base schedule, storing, reporting.\<close>

definition createSchedule ::
  "(string \<Rightarrow> string \<Rightarrow> int) \<Rightarrow> (int \<Rightarrow> string) \<Rightarrow> string \<Rightarrow> HbVm \<Rightarrow> string \<Rightarrow> string \<Rightarrow> HbTime
    \<Rightarrow> NormalizedCreate result \<Rightarrow> HeartbeatLimits \<Rightarrow> HeartbeatScheduleKind \<Rightarrow> HeartbeatScheduleStatus
    \<Rightarrow> HeartbeatSchedule vm_result" where
  "createSchedule lc isot stamp vm owner ownerId now normalized limits kind status =
     (case assertActiveQuota lc isot vm (maxActiveSchedules limits) of
        Inl e \<Rightarrow> (Inl e, vm)
      | Inr _ \<Rightarrow> (case normalized of
          Inl e \<Rightarrow> (Inl e, vm)
        | Inr input \<Rightarrow> (case toEpochMs now of
            Inl e \<Rightarrow> (Inl e, vm)
          | Inr nowMs \<Rightarrow> (case createBaseSchedule stamp vm owner ownerId input kind status nowMs of
              (Inl e, vm') \<Rightarrow> (Inl e, vm')
            | (Inr s, vm') \<Rightarrow> (Inr s, emitHeartbeatRecord ''heartbeat.create'' False s (set_schedule s vm'))))))"

definition createHeartbeatTimeoutSchedule ::
  "(string \<Rightarrow> string \<Rightarrow> int) \<Rightarrow> (int \<Rightarrow> string) \<Rightarrow> (rat \<Rightarrow> string) \<Rightarrow> string \<Rightarrow> HbVm \<Rightarrow> string \<Rightarrow> string \<Rightarrow> HbTime
    \<Rightarrow> jsv \<Rightarrow> HeartbeatLimits \<Rightarrow> HeartbeatSchedule vm_result" where
  "createHeartbeatTimeoutSchedule lc isot shw stamp vm owner ownerId now input limits =
     createSchedule lc isot stamp vm owner ownerId now (normalizeCreateTimeoutInput shw input limits) limits
       KTimeout HbPending"

definition createHeartbeatIntervalSchedule ::
  "(string \<Rightarrow> string \<Rightarrow> int) \<Rightarrow> (int \<Rightarrow> string) \<Rightarrow> (rat \<Rightarrow> string) \<Rightarrow> string \<Rightarrow> HbVm \<Rightarrow> string \<Rightarrow> string \<Rightarrow> HbTime
    \<Rightarrow> jsv \<Rightarrow> HeartbeatLimits \<Rightarrow> HeartbeatSchedule vm_result" where
  "createHeartbeatIntervalSchedule lc isot shw stamp vm owner ownerId now input limits =
     createSchedule lc isot stamp vm owner ownerId now (normalizeCreateIntervalInput shw input limits) limits
       KInterval HbActive"

definition cancelHeartbeatSchedule ::
  "HbVm \<Rightarrow> string option \<Rightarrow> string option \<Rightarrow> HbTime \<Rightarrow> HeartbeatSchedule vm_result" where
  "cancelHeartbeatSchedule vm scheduleId reason now =
     (case createHeartbeatScheduleId (nullish scheduleId []) of
        Inl e \<Rightarrow> (Inl e, vm)
      | Inr i \<Rightarrow> (case get_schedule i vm of
          None \<Rightarrow> (Inl (''schedule not found: '' @ i), vm)
        | Some s \<Rightarrow>
            if terminalStatus (hs_status s) then (Inr s, vm)
            else case toEpochMs now of
                Inl e \<Rightarrow> (Inl e, set_schedule (s\<lparr>hs_status := HbCancelled\<rparr>) vm)
              | Inr ms \<Rightarrow>
                  let trimmed = js_trim (nullish reason []);
                      s' = s\<lparr>hs_status := HbCancelled, hs_cancelledAt := Some ms,
                             hs_cancelReason := (if trimmed = [] then None else Some trimmed),
                             hs_nextFireAt := None, hs_updatedAt := ms, hs_version := hs_version s + 1\<rparr>
                  in (Inr s', emitHeartbeatRecord ''heartbeat.cancel'' False s' (set_schedule s' vm))))"

section \<open>Firing\<close>

definition applySuccessfulFire :: "HeartbeatSchedule \<Rightarrow> int \<Rightarrow> HeartbeatSchedule" where
  "applySuccessfulFire s nowMs =
     (let s1 = s\<lparr>hs_fireCount := hs_fireCount s + 1, hs_lastFireAt := Some nowMs, hs_updatedAt := nowMs,
                 hs_version := hs_version s + 1\<rparr>
      in if hs_kind s1 = KTimeout then s1\<lparr>hs_status := HbCompleted, hs_nextFireAt := None\<rparr>
         else if (case hs_maxFires s1 of Some m \<Rightarrow> hs_fireCount s1 \<ge> m | None \<Rightarrow> False)
         then s1\<lparr>hs_status := HbCompleted, hs_nextFireAt := None\<rparr>
         else s1\<lparr>hs_status := HbActive, hs_nextFireAt := Some (nowMs + nullish (hs_intervalSeconds s1) 0 * 1000)\<rparr>)"

definition coalescePendingWake :: "HeartbeatSchedule \<Rightarrow> int \<Rightarrow> HbVm \<Rightarrow> HeartbeatSchedule \<times> HbVm" where
  "coalescePendingWake s nowMs vm =
     (let s1 = s\<lparr>hs_updatedAt := nowMs, hs_version := hs_version s + 1\<rparr>;
          vm1 = emitHeartbeatRecord ''heartbeat.coalesce'' False s1 vm;
          s2 = (if hs_kind s1 = KTimeout then s1\<lparr>hs_status := HbPending\<rparr>
                else s1\<lparr>hs_status := HbActive,
                        hs_nextFireAt := Some (nowMs + nullish (hs_intervalSeconds s1) 0 * 1000)\<rparr>)
      in (s2, vmLog ''warn'' ''heartbeat schedule wake coalesced'' s2 (set_schedule s2 vm1)))"

definition fireToken :: "HeartbeatSchedule \<Rightarrow> string" where
  "fireToken s = hs_scheduleId s @ '':'' @ show_int (hs_version s + 1) @ '':'' @ show_int (hs_fireCount s + 1)"

definition beginFiring :: "HeartbeatSchedule \<Rightarrow> int \<Rightarrow> HeartbeatSchedule" where
  "beginFiring s nowMs = s\<lparr>hs_status := HbFiring, hs_version := hs_version s + 1,
     hs_lastFireToken := Some (fireToken s), hs_updatedAt := nowMs\<rparr>"

definition wakeOf :: "HeartbeatSchedule \<Rightarrow> int \<Rightarrow> HeartbeatWakePayload result" where
  "wakeOf s nowMs = createHeartbeatWakePayload
     \<lparr>wk_scheduleId = hs_scheduleId s, wk_kind = hs_kind s, wk_name = hs_name s, wk_description = hs_description s,
      wk_message = hs_message s, wk_payload = hs_payload s, wk_fireCount = hs_fireCount s + 1, wk_firedAt = nowMs\<rparr>"

definition pendingWake :: "HbActor \<Rightarrow> string \<Rightarrow> bool" where
  "pendingWake actor scheduleId \<longleftrightarrow> list_ex (\<lambda>w. wk_scheduleId w = scheduleId) (ac_heartbeat actor)"

definition sendHeartbeat :: "string \<Rightarrow> HeartbeatWakePayload \<Rightarrow> HbVm \<Rightarrow> HbVm" where
  "sendHeartbeat key wake vm = (case map_of (vm_actors vm) key of
      None \<Rightarrow> vm
    | Some a \<Rightarrow> vm\<lparr>vm_actors := obj_put key (a\<lparr>ac_heartbeat := ac_heartbeat a @ [wake]\<rparr>) (vm_actors vm)\<rparr>)"

text \<open>The end of a delivery: the schedule is read again, because it is the shared object.\<close>

definition fireSucceeded :: "string \<Rightarrow> int \<Rightarrow> HbVm \<Rightarrow> HeartbeatSchedule option \<times> HbVm" where
  "fireSucceeded i nowMs vm = (case get_schedule i vm of
      None \<Rightarrow> (None, vm)
    | Some s \<Rightarrow> let s' = applySuccessfulFire s nowMs in
        (Some s', emitHeartbeatRecord ''heartbeat.fire'' False s' (set_schedule s' vm)))"

definition fireFailed :: "string \<Rightarrow> int \<Rightarrow> HbVm \<Rightarrow> HbVm" where
  "fireFailed i nowMs vm = (case get_schedule i vm of
      None \<Rightarrow> vm
    | Some s \<Rightarrow> let s' = s\<lparr>hs_status := HbFailed, hs_nextFireAt := None, hs_updatedAt := nowMs,
                            hs_version := hs_version s + 1\<rparr>
        in vmLog ''error'' ''heartbeat schedule delivery failed'' s'
             (emitHeartbeatRecord ''heartbeat.fail'' True s' (set_schedule s' vm)))"

text \<open>One round of the loop over the due schedules, and the loop, which stops at the first exception.\<close>

definition tickOne ::
  "deliver option \<Rightarrow> int \<Rightarrow> string \<Rightarrow> HbVm \<Rightarrow> HeartbeatSchedule option vm_result" where
  "tickOne deliver nowMs i vm = (case get_schedule i vm of
      None \<Rightarrow> (Inr None, vm)
    | Some s \<Rightarrow>
        if hs_lastFireToken s = Some (fireToken s) then (Inr None, vm)
        else
          let s1 = beginFiring s nowMs; vm1 = set_schedule s1 vm in
          case wakeOf s1 nowMs of
            Inl e \<Rightarrow> (Inl e, vm1)
          | Inr wake \<Rightarrow> (case deliver of
              Some d \<Rightarrow> (case d (s1, wake) vm1 of
                  (Inl e, vm2) \<Rightarrow> (Inr None, fireFailed i nowMs vm2)
                | (Inr _, vm2) \<Rightarrow> (case fireSucceeded i nowMs vm2 of (r, vm3) \<Rightarrow> (Inr r, vm3)))
            | None \<Rightarrow> (case map_of (vm_actors vm1) (hs_targetActorKey s1) of
                  None \<Rightarrow> (Inr None, fireFailed i nowMs vm1)
                | Some actor \<Rightarrow>
                    if pendingWake actor i then (Inr None, snd (coalescePendingWake s1 nowMs vm1))
                    else case fireSucceeded i nowMs (sendHeartbeat (hs_targetActorKey s1) wake vm1) of
                      (r, vm3) \<Rightarrow> (Inr r, vm3))))"

fun roundLoop ::
  "(string \<Rightarrow> HbVm \<Rightarrow> HeartbeatSchedule option vm_result) \<Rightarrow> string list \<Rightarrow> HbVm \<Rightarrow> HeartbeatSchedule list vm_result" where
  "roundLoop one [] vm = (Inr [], vm)"
| "roundLoop one (i # is) vm = (case one i vm of
      (Inl e, vm') \<Rightarrow> (Inl e, vm')
    | (Inr r, vm') \<Rightarrow> (case roundLoop one is vm' of
          (Inl e, vm'') \<Rightarrow> (Inl e, vm'')
        | (Inr rs, vm'') \<Rightarrow> (Inr ((case r of Some s \<Rightarrow> [s] | None \<Rightarrow> []) @ rs), vm'')))"

definition dueSchedules ::
  "(string \<Rightarrow> string \<Rightarrow> int) \<Rightarrow> (int \<Rightarrow> string) \<Rightarrow> HbVm \<Rightarrow> int \<Rightarrow> HeartbeatSchedule list" where
  "dueSchedules lc isot vm nowMs =
     js_sort (\<lambda>a b. numOr (lc (isot (nullish (hs_nextFireAt a) 0)) (isot (nullish (hs_nextFireAt b) 0)))
                       (lc (hs_scheduleId a) (hs_scheduleId b)))
       (filter (\<lambda>s. case hs_nextFireAt s of Some t \<Rightarrow> t \<le> nowMs | None \<Rightarrow> False)
         (filter (\<lambda>s. \<not> terminalStatus (hs_status s)) (obj_values (schedules (ensureHeartbeatSchedulerState vm)))))"

definition tickDueHeartbeatSchedules ::
  "(string \<Rightarrow> string \<Rightarrow> int) \<Rightarrow> (int \<Rightarrow> string) \<Rightarrow> HbVm \<Rightarrow> HbTime \<Rightarrow> deliver option \<Rightarrow> HeartbeatSchedule list vm_result" where
  "tickDueHeartbeatSchedules lc isot vm now deliver = (case toEpochMs now of
      Inl e \<Rightarrow> (Inl e, vm)
    | Inr nowMs \<Rightarrow> roundLoop (tickOne deliver nowMs) (map hs_scheduleId (dueSchedules lc isot vm nowMs)) vm)"

section \<open>Recovery\<close>

definition recoverFire ::
  "deliver option \<Rightarrow> int \<Rightarrow> HeartbeatSchedule \<Rightarrow> HbVm \<Rightarrow> HeartbeatSchedule option vm_result" where
  "recoverFire deliver nowMs s vm =
     (let i = hs_scheduleId s; s1 = beginFiring s nowMs; vm1 = set_schedule s1 vm in
      case wakeOf s1 nowMs of
        Inl e \<Rightarrow> (Inl e, vm1)
      | Inr wake \<Rightarrow> (case map_of (vm_actors vm1) (hs_targetActorKey s1) of
          None \<Rightarrow>
            let s2 = s1\<lparr>hs_status := HbFailed, hs_nextFireAt := None, hs_updatedAt := nowMs, hs_version := hs_version s1 + 1\<rparr>
            in (Inr (Some s2), vmLog ''error'' ''heartbeat recovered interval delivery failed'' s2
                  (emitHeartbeatRecord ''heartbeat.fail'' True s2 (set_schedule s2 vm1)))
        | Some actor \<Rightarrow>
            if pendingWake actor i then
              (let (s2, vm2) = coalescePendingWake s1 nowMs vm1
               in (Inr (Some s2), vmLog ''warn'' ''heartbeat missed interval coalesced during recovery'' s2 vm2))
            else (case (case deliver of Some d \<Rightarrow> d (s1, wake) vm1
                         | None \<Rightarrow> (Inr (), sendHeartbeat (hs_targetActorKey s1) wake vm1)) of
                (Inl e, vm2) \<Rightarrow> (Inl e, vm2)
              | (Inr _, vm2) \<Rightarrow> (case get_schedule i vm2 of
                  None \<Rightarrow> (Inr None, vm2)
                | Some s2 \<Rightarrow>
                    let s3 = applySuccessfulFire s2 nowMs in
                    (Inr (Some s3), vmLog ''warn'' ''heartbeat missed interval fired once during recovery'' s3
                       (emitHeartbeatRecord ''heartbeat.recover'' False s3 (set_schedule s3 vm2)))))))"

definition recoverOne ::
  "deliver option \<Rightarrow> int \<Rightarrow> string \<Rightarrow> HbVm \<Rightarrow> HeartbeatSchedule option vm_result" where
  "recoverOne deliver nowMs i vm = (case get_schedule i vm of
      None \<Rightarrow> (Inr None, vm)
    | Some s \<Rightarrow>
        if terminalStatus (hs_status s) then (Inr None, vm)
        else case hs_nextFireAt s of
            None \<Rightarrow> (Inr None, vm)
          | Some t \<Rightarrow>
              if t > nowMs then (Inr (Some s), vm)
              else if hs_kind s = KTimeout then
                let s1 = s\<lparr>hs_status := HbExpired, hs_nextFireAt := None, hs_updatedAt := nowMs, hs_version := hs_version s + 1\<rparr>
                in (Inr (Some s1), vmLog ''warn'' ''heartbeat missed timeout expired during recovery'' s1
                      (emitHeartbeatRecord ''heartbeat.recover'' False s1 (set_schedule s1 vm)))
              else recoverFire deliver nowMs s vm)"

definition recoverHeartbeatSchedules ::
  "HbVm \<Rightarrow> HbTime \<Rightarrow> deliver option \<Rightarrow> HeartbeatSchedule list vm_result" where
  "recoverHeartbeatSchedules vm now deliver = (case toEpochMs now of
      Inl e \<Rightarrow> (Inl e, vm)
    | Inr nowMs \<Rightarrow> roundLoop (recoverOne deliver nowMs) (obj_keys (schedules (ensureHeartbeatSchedulerState vm))) vm)"

section \<open>The worker\<close>

text \<open>The worker's flags: the timer starts a tick unless one is running or the worker is disposed, and a
  settled tick clears the flag.\<close>

record HeartbeatWorker =
  wr_disposed :: bool
  wr_ticking :: bool

datatype WorkerEvent = TimerElapsed | TickSettled | WorkerDispose

fun workerStep :: "HeartbeatWorker \<Rightarrow> WorkerEvent \<Rightarrow> HeartbeatWorker \<times> bool" where
  "workerStep w TimerElapsed =
     (if wr_disposed w \<or> wr_ticking w then (w, False) else (w\<lparr>wr_ticking := True\<rparr>, True))"
| "workerStep w TickSettled = (w\<lparr>wr_ticking := False\<rparr>, False)"
| "workerStep w WorkerDispose = (w\<lparr>wr_disposed := True\<rparr>, False)"

end
