(* ===== verification/HeartbeatProps.thy ===== *)
theory HeartbeatProps
  imports HeartbeatModel
begin

text \<open>
  Correctness of the heartbeat scheduler: the invariant of a schedule (\<open>sched_ok\<close>) and that every
  operation keeps it, what a delivery callback has to promise (locale \<open>wake_delivery\<close>, interpreted on the
  mailbox delivery and on a callback that cancels), fire limits, that a tick and a recovery leave nothing
  overdue, that wakes are coalesced, the quota, and the cancellation that a running delivery overwrites.
\<close>

section \<open>The invariant\<close>

definition text_ok :: "string \<Rightarrow> bool" where
  "text_ok t \<longleftrightarrow> js_trim t = t \<and> t \<noteq> []"

definition token_old :: "HeartbeatSchedule \<Rightarrow> bool" where
  "token_old s \<longleftrightarrow> hs_lastFireToken s = None \<or> (\<exists>v c. v \<le> hs_version s \<and>
     hs_lastFireToken s = Some (hs_scheduleId s @ '':'' @ show_int v @ '':'' @ show_int c))"

definition limit_ok :: "HeartbeatSchedule \<Rightarrow> bool" where
  "limit_ok s \<longleftrightarrow> 0 \<le> hs_fireCount s \<and>
     (\<exists>m. hs_maxFires s = Some m \<and> hs_fireCount s \<le> m \<and> (hs_status s \<noteq> HbCompleted \<longrightarrow> hs_fireCount s < m)
        \<and> (hs_kind s = KTimeout \<longrightarrow> m = 1))"

definition timing_ok :: "HeartbeatSchedule \<Rightarrow> bool" where
  "timing_ok s \<longleftrightarrow> (hs_status s \<in> {HbPending, HbActive} \<longrightarrow> hs_nextFireAt s \<noteq> None) \<and>
     (hs_kind s = KInterval \<longrightarrow> (\<exists>n. hs_intervalSeconds s = Some n \<and> 0 < n))"

definition texts_ok :: "HeartbeatSchedule \<Rightarrow> bool" where
  "texts_ok s \<longleftrightarrow> createHeartbeatScheduleId (hs_scheduleId s) = Inr (hs_scheduleId s) \<and> text_ok (hs_name s)
     \<and> text_ok (hs_description s) \<and> 16 \<le> length (hs_description s) \<and> text_ok (hs_message s)"

definition sched_ok :: "HeartbeatSchedule \<Rightarrow> bool" where
  "sched_ok s \<longleftrightarrow> token_old s \<and> limit_ok s \<and> timing_ok s \<and> texts_ok s"

definition hb_ok :: "HbVm \<Rightarrow> bool" where
  "hb_ok vm \<longleftrightarrow> (let ps = schedules (ensureHeartbeatSchedulerState vm) in
     distinct (map fst ps) \<and> (\<forall>p \<in> set ps. hs_scheduleId (snd p) = fst p \<and> sched_ok (snd p)))"

lemmas sched_parts = sched_ok_def limit_ok_def timing_ok_def texts_ok_def token_old_def

section \<open>Reading and writing schedules\<close>

lemma ensure_set: "ensureHeartbeatSchedulerState (set_schedule s vm) =
   (ensureHeartbeatSchedulerState vm)\<lparr>schedules :=
      obj_put (hs_scheduleId s) s (schedules (ensureHeartbeatSchedulerState vm))\<rparr>"
  by (simp add: set_schedule_def ensureHeartbeatSchedulerState_def Let_def)

lemma ensure_frames [simp]:
  "ensureHeartbeatSchedulerState (emitHeartbeatRecord n e s vm) = ensureHeartbeatSchedulerState vm"
  "ensureHeartbeatSchedulerState (vmLog l t s vm) = ensureHeartbeatSchedulerState vm"
  "ensureHeartbeatSchedulerState (sendHeartbeat k w vm) = ensureHeartbeatSchedulerState vm"
  "ensureHeartbeatSchedulerState (vm\<lparr>vm_actors := acts\<rparr>) = ensureHeartbeatSchedulerState vm"
  by (simp_all add: ensureHeartbeatSchedulerState_def emitHeartbeatRecord_def vmLog_def sendHeartbeat_def
      split: option.splits)

lemma get_frames [simp]:
  "get_schedule i (emitHeartbeatRecord n e s vm) = get_schedule i vm"
  "get_schedule i (vmLog l t s vm) = get_schedule i vm"
  "get_schedule i (sendHeartbeat k w vm) = get_schedule i vm"
  by (simp_all add: get_schedule_def)

lemma get_set [simp]:
  "get_schedule i (set_schedule s vm) = (if i = hs_scheduleId s then Some s else get_schedule i vm)"
  by (simp add: get_schedule_def ensure_set jso.lookup_same jso.lookup_other)

lemma hb_ok_frames [simp]:
  "hb_ok (emitHeartbeatRecord n e s vm) = hb_ok vm" "hb_ok (vmLog l t s vm) = hb_ok vm"
  "hb_ok (sendHeartbeat k w vm) = hb_ok vm" "hb_ok (vm\<lparr>vm_actors := acts\<rparr>) = hb_ok vm"
  by (simp_all add: hb_ok_def)

lemma actors_frames [simp]:
  "vm_actors (emitHeartbeatRecord n e s vm) = vm_actors vm" "vm_actors (vmLog l t s vm) = vm_actors vm"
  "vm_actors (set_schedule s vm) = vm_actors vm"
  by (simp_all add: emitHeartbeatRecord_def vmLog_def set_schedule_def Let_def)

lemma hb_ok_get:
  assumes "hb_ok vm" "get_schedule i vm = Some s"
  shows "hs_scheduleId s = i" "sched_ok s"
proof -
  have "(i, s) \<in> set (schedules (ensureHeartbeatSchedulerState vm))"
    using assms(2) unfolding get_schedule_def by (rule map_of_SomeD)
  then have "hs_scheduleId (snd (i, s)) = fst (i, s) \<and> sched_ok (snd (i, s))"
    using assms(1) unfolding hb_ok_def Let_def by blast
  then show "hs_scheduleId s = i" "sched_ok s" by simp_all
qed

lemma hb_ok_set:
  assumes "hb_ok vm" "sched_ok s"
  shows "hb_ok (set_schedule s vm)"
proof -
  let ?ps = "schedules (ensureHeartbeatSchedulerState vm)"
  have d: "distinct (map fst ?ps)" using assms(1) by (simp add: hb_ok_def Let_def)
  have sub: "set (obj_put (hs_scheduleId s) s ?ps) \<subseteq> insert (hs_scheduleId s, s) (set ?ps)"
    by (auto simp: obj_put_def dest: kv_replace_entries)
  show ?thesis
    unfolding hb_ok_def ensure_set Let_def
    using assms sub jso.distinct_store[OF d, of "hs_scheduleId s" s] by (fastforce simp: hb_ok_def Let_def)
qed

section \<open>Transitions of one schedule\<close>

lemma colon_not_digit: "\<not> is_digit CHR '':''"
  by (simp add: is_digit_def)

lemma colon_split:
  "show_int a @ '':'' @ x = show_int b @ '':'' @ y \<Longrightarrow> a = b"
proof -
  assume eq: "show_int a @ '':'' @ x = show_int b @ '':'' @ y"
  have nc: "\<And>i. CHR '':'' \<notin> set (show_int i)"
    using colon_not_digit show_nat_digits by (auto simp: show_int_def)
  have "takeWhile (\<lambda>c. c \<noteq> CHR '':'') (show_int i @ '':'' @ z) = show_int i" for i z
  proof -
    have "takeWhile (\<lambda>c. c \<noteq> CHR '':'') (show_int i @ (CHR '':'' # z)) = show_int i"
      using nc[of i] by (subst takeWhile_append2) auto
    then show ?thesis by simp
  qed
  then have "show_int a = show_int b" using eq by metis
  then show "a = b" by simp
qed

lemma token_guard_dead: "token_old s \<Longrightarrow> hs_lastFireToken s \<noteq> Some (fireToken s)"
proof
  assume old: "token_old s" and eq: "hs_lastFireToken s = Some (fireToken s)"
  then obtain v c where le: "v \<le> hs_version s"
    and "show_int v @ '':'' @ show_int c = show_int (hs_version s + 1) @ '':'' @ show_int (hs_fireCount s + 1)"
    unfolding token_old_def fireToken_def by auto
  then have "v = hs_version s + 1" by (intro colon_split)
  then show False using le by simp
qed

lemma sched_ok_begin:
  assumes "sched_ok s" "hs_status s \<noteq> HbCompleted"
  shows "sched_ok (beginFiring s t)"
proof -
  have "token_old (beginFiring s t)"
    unfolding token_old_def
    by (intro disjI2 exI[of _ "hs_version s + 1"] exI[of _ "hs_fireCount s + 1"])
       (simp add: beginFiring_def fireToken_def)
  then show ?thesis
    using assms by (auto simp: sched_ok_def limit_ok_def timing_ok_def texts_ok_def beginFiring_def terminalStatus_def)
qed

lemma token_old_mono:
  assumes "token_old s" "hs_lastFireToken s' = hs_lastFireToken s" "hs_scheduleId s' = hs_scheduleId s"
    "hs_version s \<le> hs_version s'"
  shows "token_old s'"
proof (cases "hs_lastFireToken s")
  case None
  then show ?thesis using assms(2) by (simp add: token_old_def)
next
  case (Some tok)
  then obtain v c where le: "v \<le> hs_version s"
    and tok: "hs_lastFireToken s = Some (hs_scheduleId s @ '':'' @ show_int v @ '':'' @ show_int c)"
    using assms(1) unfolding token_old_def by auto
  show ?thesis
    unfolding token_old_def assms(2,3)
    by (intro disjI2 exI[of _ v] exI[of _ c] conjI tok order_trans[OF le assms(4)])
qed

lemma apply_fields [simp]:
  "hs_scheduleId (applySuccessfulFire s t) = hs_scheduleId s"
  "hs_lastFireToken (applySuccessfulFire s t) = hs_lastFireToken s"
  "hs_version (applySuccessfulFire s t) = hs_version s + 1"
  "hs_fireCount (applySuccessfulFire s t) = hs_fireCount s + 1"
  "hs_kind (applySuccessfulFire s t) = hs_kind s"
  "hs_maxFires (applySuccessfulFire s t) = hs_maxFires s"
  "hs_targetActorKey (applySuccessfulFire s t) = hs_targetActorKey s"
  by (simp_all add: applySuccessfulFire_def Let_def split: option.splits)

lemma sched_ok_apply:
  assumes "sched_ok s" "hs_status s \<noteq> HbCompleted"
  shows "sched_ok (applySuccessfulFire s t)"
proof -
  have "token_old (applySuccessfulFire s t)"
    by (rule token_old_mono[of s]) (use assms in \<open>simp_all add: sched_ok_def\<close>)
  moreover have "limit_ok (applySuccessfulFire s t)"
    using assms by (auto simp: sched_ok_def limit_ok_def applySuccessfulFire_def Let_def)
  moreover have "timing_ok (applySuccessfulFire s t)" "texts_ok (applySuccessfulFire s t)"
    using assms by (auto simp: sched_ok_def timing_ok_def texts_ok_def applySuccessfulFire_def Let_def terminalStatus_def
        split: option.splits)
  ultimately show ?thesis by (simp add: sched_ok_def)
qed

lemma apply_not_due:
  assumes "sched_ok s" "\<not> terminalStatus (hs_status (applySuccessfulFire s t))"
  shows "\<exists>n. hs_nextFireAt (applySuccessfulFire s t) = Some n \<and> t < n"
  using assms by (cases "hs_kind s")
    (auto simp: sched_ok_def timing_ok_def applySuccessfulFire_def Let_def terminalStatus_def split: option.splits if_splits)

text \<open>A schedule that ends without a successful fire: cancelled, expired or failed.\<close>

lemma sched_ok_end:
  assumes "sched_ok s" "hs_status s \<noteq> HbCompleted" "terminalStatus (hs_status s')" "hs_status s' \<noteq> HbCompleted"
    "hs_version s \<le> hs_version s'" "hs_scheduleId s' = hs_scheduleId s" "hs_lastFireToken s' = hs_lastFireToken s"
    "hs_fireCount s' = hs_fireCount s" "hs_maxFires s' = hs_maxFires s" "hs_kind s' = hs_kind s"
    "hs_intervalSeconds s' = hs_intervalSeconds s" "hs_name s' = hs_name s" "hs_description s' = hs_description s"
    "hs_message s' = hs_message s"
  shows "sched_ok s'"
proof -
  have "token_old s'" by (rule token_old_mono[of s]) (use assms in \<open>simp_all add: sched_ok_def\<close>)
  moreover have "limit_ok s'" "texts_ok s'" using assms by (auto simp: sched_ok_def limit_ok_def texts_ok_def)
  moreover have "hs_status s' \<notin> {HbPending, HbActive}" using assms(3) by (auto simp: terminalStatus_def)
  then have "timing_ok s'" using assms(1,10,11) by (simp add: sched_ok_def timing_ok_def)
  ultimately show ?thesis by (simp add: sched_ok_def)
qed

lemma coalesce_vm:
  "\<exists>s2. fst (coalescePendingWake s t vm) = s2 \<and> hs_scheduleId s2 = hs_scheduleId s
     \<and> (\<forall>i. get_schedule i (snd (coalescePendingWake s t vm)) = (if i = hs_scheduleId s then Some s2 else get_schedule i vm))
     \<and> vm_actors (snd (coalescePendingWake s t vm)) = vm_actors vm
     \<and> (hs_kind s = KTimeout \<longrightarrow> hs_kind s2 = KTimeout) \<and> (hs_kind s = KInterval \<longrightarrow>
          hs_nextFireAt s2 = Some (t + nullish (hs_intervalSeconds s) 0 * 1000))
     \<and> hs_targetActorKey s2 = hs_targetActorKey s"
  by (cases "hs_kind s") (simp_all add: coalescePendingWake_def Let_def)

lemma coalesce_ok:
  assumes "hb_ok vm" "sched_ok s" "hs_status s \<noteq> HbCompleted" "hs_nextFireAt s \<noteq> None"
  shows "hb_ok (snd (coalescePendingWake s t vm))" "sched_ok (fst (coalescePendingWake s t vm))"
proof -
  let ?s2 = "fst (coalescePendingWake s t vm)"
  have "token_old ?s2"
    by (rule token_old_mono[of s]) (use assms in \<open>simp_all add: sched_ok_def coalescePendingWake_def Let_def\<close>)
  then show ok: "sched_ok ?s2"
    using assms by (cases "hs_kind s")
      (auto simp: sched_ok_def limit_ok_def timing_ok_def texts_ok_def coalescePendingWake_def Let_def)
  have "snd (coalescePendingWake s t vm) = vmLog ''warn'' ''heartbeat schedule wake coalesced'' ?s2
     (set_schedule ?s2 (emitHeartbeatRecord ''heartbeat.coalesce'' False
        (s\<lparr>hs_updatedAt := t, hs_version := hs_version s + 1\<rparr>) vm))"
    by (simp add: coalescePendingWake_def Let_def)
  then show "hb_ok (snd (coalescePendingWake s t vm))" using ok assms(1) by (simp add: hb_ok_set)
qed

lemma nonempty_text: "text_ok t \<Longrightarrow> requireNonEmpty shw f (JStr t) = Inr t"
  by (simp add: requireNonEmpty_def text_ok_def Let_def)

lemma wakeOf_ok:
  assumes "sched_ok s"
  shows "\<exists>w. wakeOf s t = Inr w \<and> wk_scheduleId w = hs_scheduleId s"
proof -
  have tx: "texts_ok s" and f: "\<not> hs_fireCount s + 1 < 1" using assms by (auto simp: sched_ok_def limit_ok_def)
  have d: "requireDetailedDescription shw (JStr (hs_description s)) = Inr (hs_description s)" for shw
    using tx by (simp add: requireDetailedDescription_def texts_ok_def nonempty_text)
  show ?thesis
    using tx f d unfolding wakeOf_def createHeartbeatWakePayload_def Let_def
    by (simp add: texts_ok_def nonempty_text)
qed

section \<open>One round\<close>

definition due :: "int \<Rightarrow> HeartbeatSchedule \<Rightarrow> bool" where
  "due t s \<longleftrightarrow> \<not> terminalStatus (hs_status s) \<and> (\<exists>n. hs_nextFireAt s = Some n \<and> n \<le> t)"

definition pending_at :: "HbVm \<Rightarrow> string \<Rightarrow> string \<Rightarrow> bool" where
  "pending_at vm k i \<longleftrightarrow> (\<exists>a. map_of (vm_actors vm) k = Some a \<and> pendingWake a i)"

definition pending_kept :: "HbVm \<Rightarrow> HbVm \<Rightarrow> bool" where
  "pending_kept vm vm' \<longleftrightarrow> (\<forall>k i. pending_at vm k i \<longrightarrow> pending_at vm' k i)"

definition settled :: "int \<Rightarrow> HbVm \<Rightarrow> HeartbeatSchedule \<Rightarrow> bool" where
  "settled t vm s \<longleftrightarrow> \<not> due t s \<or> hs_kind s = KTimeout \<and> pending_at vm (hs_targetActorKey s) (hs_scheduleId s)"

definition wakes_unique :: "HbVm \<Rightarrow> bool" where
  "wakes_unique vm \<longleftrightarrow> (\<forall>k a. map_of (vm_actors vm) k = Some a \<longrightarrow> distinct (map wk_scheduleId (ac_heartbeat a)))"

text \<open>What one round on schedule \<open>i\<close> does to the VM: the invariants stay, no other schedule changes, no
  pending wake is lost, and the schedule is done.\<close>

definition handled ::
  "(HbVm \<Rightarrow> HeartbeatSchedule \<Rightarrow> bool) \<Rightarrow> string \<Rightarrow> HbVm \<Rightarrow> HbVm \<Rightarrow> bool" where
  "handled dn i vm vm' \<longleftrightarrow> hb_ok vm' \<and> (wakes_unique vm \<longrightarrow> wakes_unique vm') \<and> pending_kept vm vm'
     \<and> (\<forall>j. j \<noteq> i \<longrightarrow> get_schedule j vm' = get_schedule j vm) \<and> (\<exists>s. get_schedule i vm' = Some s \<and> dn vm' s)"

lemma pending_kept_refl: "vm_actors vm' = vm_actors vm \<Longrightarrow> pending_kept vm vm'"
  by (simp add: pending_kept_def pending_at_def)

lemma pending_kept_send: "pending_kept vm (sendHeartbeat k w vm)"
proof (cases "map_of (vm_actors vm) k")
  case None
  then show ?thesis by (simp add: sendHeartbeat_def pending_kept_def)
next
  case (Some a)
  have "pending_at (sendHeartbeat k w vm) j i" if "pending_at vm j i" for j i
    using that Some by (cases "j = k")
      (auto simp: pending_at_def pendingWake_def sendHeartbeat_def jso.lookup_same jso.lookup_other)
  then show ?thesis by (simp add: pending_kept_def)
qed

lemma wakes_unique_send:
  assumes "wakes_unique vm" "\<not> pending_at vm k (wk_scheduleId w)"
  shows "wakes_unique (sendHeartbeat k w vm)"
proof (cases "map_of (vm_actors vm) k")
  case None
  then show ?thesis using assms(1) by (simp add: sendHeartbeat_def)
next
  case (Some a)
  let ?a' = "a\<lparr>ac_heartbeat := ac_heartbeat a @ [w]\<rparr>"
  have d: "distinct (map wk_scheduleId (ac_heartbeat ?a'))"
    using assms Some by (auto simp: wakes_unique_def pending_at_def pendingWake_def list_ex_iff)
  have "distinct (map wk_scheduleId (ac_heartbeat b))"
    if "map_of (obj_put k ?a' (vm_actors vm)) j = Some b" for j b
    using that d assms(1) by (cases "j = k") (auto simp: jso.lookup_same jso.lookup_other wakes_unique_def)
  then show ?thesis using Some by (simp add: sendHeartbeat_def wakes_unique_def)
qed

lemma handledI:
  assumes "hb_ok vm1" "pending_kept vm vm1" "wakes_unique vm \<Longrightarrow> wakes_unique vm1"
    "\<And>j. j \<noteq> i \<Longrightarrow> get_schedule j vm1 = get_schedule j vm" "get_schedule i vm1 = Some s" "dn vm1 s"
  shows "handled dn i vm vm1"
  using assms by (auto simp: handled_def)

lemma wakes_unique_frame: "vm_actors vm' = vm_actors vm \<Longrightarrow> wakes_unique vm' = wakes_unique vm"
  by (simp add: wakes_unique_def)

lemma fireFailed_vm:
  assumes "hb_ok vm" "get_schedule i vm = Some s" "hs_status s \<noteq> HbCompleted"
  shows "hb_ok (fireFailed i t vm)" "vm_actors (fireFailed i t vm) = vm_actors vm"
    "j \<noteq> i \<Longrightarrow> get_schedule j (fireFailed i t vm) = get_schedule j vm"
    "\<exists>s'. get_schedule i (fireFailed i t vm) = Some s' \<and> hs_status s' = HbFailed \<and> hs_kind s' = hs_kind s"
proof -
  let ?s' = "s\<lparr>hs_status := HbFailed, hs_nextFireAt := None, hs_updatedAt := t, hs_version := hs_version s + 1\<rparr>"
  have id: "hs_scheduleId s = i" and ok: "sched_ok s" using hb_ok_get[OF assms(1,2)] by simp_all
  have "sched_ok ?s'" by (rule sched_ok_end[OF ok assms(3)]) (simp_all add: terminalStatus_def)
  then show "hb_ok (fireFailed i t vm)"
    using assms(1,2) by (simp add: fireFailed_def Let_def hb_ok_set)
  show "vm_actors (fireFailed i t vm) = vm_actors vm"
    "j \<noteq> i \<Longrightarrow> get_schedule j (fireFailed i t vm) = get_schedule j vm"
    "\<exists>s'. get_schedule i (fireFailed i t vm) = Some s' \<and> hs_status s' = HbFailed \<and> hs_kind s' = hs_kind s"
    using assms(2) id by (simp_all add: fireFailed_def Let_def)
qed

lemma fireSucceeded_vm:
  assumes "hb_ok vm" "get_schedule i vm = Some s" "hs_status s \<noteq> HbCompleted"
  shows "hb_ok (snd (fireSucceeded i t vm))" "vm_actors (snd (fireSucceeded i t vm)) = vm_actors vm"
    "j \<noteq> i \<Longrightarrow> get_schedule j (snd (fireSucceeded i t vm)) = get_schedule j vm"
    "get_schedule i (snd (fireSucceeded i t vm)) = Some (applySuccessfulFire s t)"
    "\<not> due t (applySuccessfulFire s t)"
proof -
  have id: "hs_scheduleId s = i" and ok: "sched_ok s" using hb_ok_get[OF assms(1,2)] by simp_all
  show "hb_ok (snd (fireSucceeded i t vm))"
    using assms(1,2) sched_ok_apply[OF ok assms(3)] by (simp add: fireSucceeded_def Let_def hb_ok_set)
  show "vm_actors (snd (fireSucceeded i t vm)) = vm_actors vm"
    "j \<noteq> i \<Longrightarrow> get_schedule j (snd (fireSucceeded i t vm)) = get_schedule j vm"
    "get_schedule i (snd (fireSucceeded i t vm)) = Some (applySuccessfulFire s t)"
    using assms(2) id by (simp_all add: fireSucceeded_def Let_def)
  show "\<not> due t (applySuccessfulFire s t)"
    using apply_not_due[OF ok, of t] by (auto simp: due_def)
qed

lemma begin_fields [simp]:
  "hs_scheduleId (beginFiring s t) = hs_scheduleId s" "hs_status (beginFiring s t) = HbFiring"
  "hs_kind (beginFiring s t) = hs_kind s" "hs_nextFireAt (beginFiring s t) = hs_nextFireAt s"
  "hs_targetActorKey (beginFiring s t) = hs_targetActorKey s"
  "hs_intervalSeconds (beginFiring s t) = hs_intervalSeconds s"
  by (simp_all add: beginFiring_def)

text \<open>Delivery through the mailbox, and coalescing, on a schedule that has begun to fire.\<close>

lemma send_and_succeed_handled:
  assumes ok: "hb_ok vm1" and g: "get_schedule i vm1 = Some s" and st: "hs_status s \<noteq> HbCompleted"
    and np: "\<not> pending_at vm1 k i" and w: "wk_scheduleId w = i"
    and frame: "vm_actors vm1 = vm_actors vm" "\<And>j. j \<noteq> i \<Longrightarrow> get_schedule j vm1 = get_schedule j vm"
    and d: "\<And>vm s. \<not> due t s \<Longrightarrow> dn vm s"
  shows "handled dn i vm (snd (fireSucceeded i t (sendHeartbeat k w vm1)))"
proof (rule handledI)
  let ?vm2 = "sendHeartbeat k w vm1"
  have ok2: "hb_ok ?vm2" and g2: "get_schedule i ?vm2 = Some s" using ok g by simp_all
  note f = fireSucceeded_vm[OF ok2 g2 st, where t = t]
  show "hb_ok (snd (fireSucceeded i t ?vm2))" by (rule f(1))
  have "pending_kept vm1 ?vm2" by (rule pending_kept_send)
  then show "pending_kept vm (snd (fireSucceeded i t ?vm2))"
    by (simp add: pending_kept_def pending_at_def f(2) frame(1))
  show "wakes_unique vm \<Longrightarrow> wakes_unique (snd (fireSucceeded i t ?vm2))"
    using wakes_unique_send[of vm1 k w] np w wakes_unique_frame[OF f(2)] wakes_unique_frame[OF frame(1)] by simp
  show "j \<noteq> i \<Longrightarrow> get_schedule j (snd (fireSucceeded i t ?vm2)) = get_schedule j vm" for j
    using f(3) frame(2) by simp
  show "get_schedule i (snd (fireSucceeded i t ?vm2)) = Some (applySuccessfulFire s t)" by (rule f(4))
  show "dn (snd (fireSucceeded i t ?vm2)) (applySuccessfulFire s t)" by (rule d[OF f(5)])
qed

lemma coalesce_handled:
  assumes ok: "hb_ok vm1" and s: "sched_ok s" "hs_status s \<noteq> HbCompleted" "hs_nextFireAt s \<noteq> None"
    and i: "hs_scheduleId s = i" and p: "pending_at vm1 (hs_targetActorKey s) i"
    and frame: "vm_actors vm1 = vm_actors vm" "\<And>j. j \<noteq> i \<Longrightarrow> get_schedule j vm1 = get_schedule j vm"
  shows "handled (settled t) i vm (snd (coalescePendingWake s t vm1))"
    "hs_kind s = KInterval \<Longrightarrow> \<not> due t (fst (coalescePendingWake s t vm1))"
proof -
  let ?vm2 = "snd (coalescePendingWake s t vm1)" and ?s2 = "fst (coalescePendingWake s t vm1)"
  note c = coalesce_vm[of s t vm1]
  have a: "vm_actors ?vm2 = vm_actors vm" using c frame(1) by simp
  show nd: "\<not> due t ?s2" if "hs_kind s = KInterval"
    using c that s(1) by (auto simp: due_def sched_ok_def timing_ok_def)
  have p2: "pending_at ?vm2 (hs_targetActorKey ?s2) (hs_scheduleId ?s2)"
    using c p i frame(1) by (simp add: pending_at_def)
  have "settled t ?vm2 ?s2"
    using nd p2 c by (cases "hs_kind s") (simp_all add: settled_def)
  then show "handled (settled t) i vm ?vm2"
    using c i frame(2) coalesce_ok(1)[OF ok s] wakes_unique_frame[OF a] pending_kept_refl[OF a]
    by (intro handledI[where s = ?s2]) simp_all
qed

lemma pendingWake_at: "map_of (vm_actors vm) k = Some a \<Longrightarrow> pendingWake a i = pending_at vm k i"
  by (simp add: pending_at_def)

lemma fail_handled:
  assumes "hb_ok vm1" "get_schedule i vm1 = Some s" "hs_status s \<noteq> HbCompleted"
    "vm_actors vm1 = vm_actors vm" "\<And>j. j \<noteq> i \<Longrightarrow> get_schedule j vm1 = get_schedule j vm"
  shows "handled (settled t) i vm (fireFailed i t vm1)"
proof -
  note f = fireFailed_vm[OF assms(1-3), where t = t]
  obtain s' where s': "get_schedule i (fireFailed i t vm1) = Some s'" "hs_status s' = HbFailed" using f(4) by auto
  have a: "vm_actors (fireFailed i t vm1) = vm_actors vm" using f(2) assms(4) by simp
  show ?thesis
    using f(1,3) s' assms(5) wakes_unique_frame[OF a] pending_kept_refl[OF a]
    by (intro handledI[where s = s']) (simp_all add: settled_def due_def terminalStatus_def)
qed

text \<open>The state once a schedule has begun to fire.\<close>

lemma begin_setup:
  assumes ok: "hb_ok vm" and g: "get_schedule i vm = Some s" and nc: "hs_status s \<noteq> HbCompleted"
  shows "hs_scheduleId s = i" "sched_ok (beginFiring s t)" "hb_ok (set_schedule (beginFiring s t) vm)"
    "get_schedule i (set_schedule (beginFiring s t) vm) = Some (beginFiring s t)"
    "\<And>j. j \<noteq> i \<Longrightarrow> get_schedule j (set_schedule (beginFiring s t) vm) = get_schedule j vm"
    "\<exists>w. wakeOf (beginFiring s t) t = Inr w \<and> wk_scheduleId w = i"
    "hs_lastFireToken s \<noteq> Some (fireToken s)"
proof -
  show id: "hs_scheduleId s = i" by (rule hb_ok_get(1)[OF ok g])
  have so: "sched_ok s" by (rule hb_ok_get(2)[OF ok g])
  show s1: "sched_ok (beginFiring s t)" by (rule sched_ok_begin[OF so nc])
  show "hb_ok (set_schedule (beginFiring s t) vm)" by (rule hb_ok_set[OF ok s1])
  show "get_schedule i (set_schedule (beginFiring s t) vm) = Some (beginFiring s t)"
    "\<And>j. j \<noteq> i \<Longrightarrow> get_schedule j (set_schedule (beginFiring s t) vm) = get_schedule j vm" by (simp_all add: id)
  show "\<exists>w. wakeOf (beginFiring s t) t = Inr w \<and> wk_scheduleId w = i" using wakeOf_ok[OF s1, of t] id by auto
  show "hs_lastFireToken s \<noteq> Some (fireToken s)" using token_guard_dead so by (simp add: sched_ok_def)
qed

lemma not_terminal_completed: "\<not> terminalStatus st \<Longrightarrow> st \<noteq> HbCompleted"
  by (auto simp: terminalStatus_def)

lemma tickOne_handled:
  assumes ok: "hb_ok vm" and g: "get_schedule i vm = Some s"
    and nt: "\<not> terminalStatus (hs_status s)" and nf: "hs_nextFireAt s \<noteq> None"
  shows "(\<exists>r. fst (tickOne None t i vm) = Inr r) \<and> handled (settled t) i vm (snd (tickOne None t i vm))"
proof -
  let ?s1 = "beginFiring s t" let ?vm1 = "set_schedule ?s1 vm" let ?k = "hs_targetActorKey s"
  note nc = not_terminal_completed[OF nt]
  note b = begin_setup(1)[OF ok g nc] begin_setup(2-6)[OF ok g nc, where t = t] begin_setup(7)[OF ok g nc]
  note fr = actors_frames(3)[of ?s1 vm] b(5)
  obtain w where w: "wakeOf ?s1 t = Inr w" "wk_scheduleId w = i" using b(6) by auto
  have unf: "tickOne None t i vm = (case map_of (vm_actors vm) ?k of
      None \<Rightarrow> (Inr None, fireFailed i t ?vm1)
    | Some actor \<Rightarrow> if pendingWake actor i then (Inr None, snd (coalescePendingWake ?s1 t ?vm1))
        else (Inr (fst (fireSucceeded i t (sendHeartbeat ?k w ?vm1))), snd (fireSucceeded i t (sendHeartbeat ?k w ?vm1))))"
    using g b(7) w(1) by (simp add: tickOne_def Let_def case_prod_beta split: option.split)
  show ?thesis
  proof (cases "map_of (vm_actors vm) ?k")
    case None
    then show ?thesis using fail_handled[OF b(3,4) _ fr] by (simp add: unf)
  next
    case (Some a)
    then have pa: "pendingWake a i = pending_at ?vm1 ?k i" using pendingWake_at[of ?vm1] by simp
    have "pendingWake a i \<Longrightarrow> handled (settled t) i vm (snd (coalescePendingWake ?s1 t ?vm1))"
      using coalesce_handled(1)[OF b(3,2) _ _ _ _ fr] pa nf b(1) by simp
    moreover have "\<not> pendingWake a i \<Longrightarrow> handled (settled t) i vm (snd (fireSucceeded i t (sendHeartbeat ?k w ?vm1)))"
      using pa by (intro send_and_succeed_handled[OF b(3,4) _ _ w(2) fr]) (simp_all add: settled_def)
    ultimately show ?thesis using Some by (simp add: unf)
  qed
qed

lemma handled_cong:
  assumes "handled dn i vm vm1" "ensureHeartbeatSchedulerState vm2 = ensureHeartbeatSchedulerState vm1"
    "vm_actors vm2 = vm_actors vm1" "\<And>s. get_schedule i vm1 = Some s \<Longrightarrow> dn vm1 s \<Longrightarrow> dn' vm2 s"
  shows "handled dn' i vm vm2"
  using assms by (auto simp: handled_def hb_ok_def wakes_unique_def pending_kept_def pending_at_def get_schedule_def)

text \<open>A missed interval fires once: the mailbox path of recovery.\<close>

lemma recoverFire_handled:
  assumes ok: "hb_ok vm" and g: "get_schedule i vm = Some s" and nt: "\<not> terminalStatus (hs_status s)"
    and nf: "hs_nextFireAt s \<noteq> None" and k: "hs_kind s = KInterval"
  shows "(\<exists>r. fst (recoverFire None t s vm) = Inr r)
     \<and> handled (\<lambda>_ s. \<not> due t s) i vm (snd (recoverFire None t s vm))"
proof -
  let ?s1 = "beginFiring s t" let ?vm1 = "set_schedule ?s1 vm" let ?k = "hs_targetActorKey s"
  note nc = not_terminal_completed[OF nt]
  note b = begin_setup(1)[OF ok g nc] begin_setup(2-6)[OF ok g nc, where t = t] begin_setup(7)[OF ok g nc]
  note fr = actors_frames(3)[of ?s1 vm] b(5)
  obtain w where w: "wakeOf ?s1 t = Inr w" "wk_scheduleId w = i" using b(6) by auto
  show ?thesis
  proof (cases "map_of (vm_actors vm) ?k")
    case None
    have "\<And>s2. get_schedule i (fireFailed i t ?vm1) = Some s2 \<Longrightarrow> \<not> due t s2"
      using fireFailed_vm(4)[OF b(3,4), of t] by (auto simp: due_def terminalStatus_def)
    moreover have "handled (settled t) i vm (fireFailed i t ?vm1)" using fail_handled[OF b(3,4) _ fr] by simp
    moreover have "ensureHeartbeatSchedulerState (snd (recoverFire None t s vm))
        = ensureHeartbeatSchedulerState (fireFailed i t ?vm1)"
      "vm_actors (snd (recoverFire None t s vm)) = vm_actors (fireFailed i t ?vm1)"
      "\<exists>r. fst (recoverFire None t s vm) = Inr r"
      using None w(1) b(1,4) by (simp_all add: recoverFire_def fireFailed_def Let_def)
    ultimately show ?thesis by (blast intro: handled_cong)
  next
    case (Some a)
    then have pa: "pendingWake a i = pending_at ?vm1 ?k i" using pendingWake_at[of ?vm1] by simp
    let ?c = "coalescePendingWake ?s1 t ?vm1" and ?vm2 = "sendHeartbeat ?k w ?vm1"
    let ?f = "snd (fireSucceeded i t ?vm2)" and ?r = "recoverFire None t s vm"
    have r1: "(\<exists>r. fst ?r = Inr r) \<and> ensureHeartbeatSchedulerState (snd ?r) = ensureHeartbeatSchedulerState (snd ?c)
        \<and> vm_actors (snd ?r) = vm_actors (snd ?c)" if "pendingWake a i"
      using Some w(1) that b(1) by (simp add: recoverFire_def Let_def case_prod_beta)
    have r2: "(\<exists>r. fst ?r = Inr r) \<and> ensureHeartbeatSchedulerState (snd ?r) = ensureHeartbeatSchedulerState ?f
        \<and> vm_actors (snd ?r) = vm_actors ?f" if "\<not> pendingWake a i"
      using Some w(1) that b(1,4) by (simp add: recoverFire_def fireSucceeded_def Let_def ensure_set)
    have "handled (\<lambda>_ s. \<not> due t s) i vm (snd ?c)" if "pendingWake a i"
      using coalesce_handled[OF b(3,2) _ _ _ _ fr, where t = t] coalesce_vm[of ?s1 t ?vm1] that pa nf b(1) k
      by (auto intro: handled_cong)
    moreover have "\<not> pendingWake a i \<Longrightarrow> handled (\<lambda>_ s. \<not> due t s) i vm ?f"
      using pa by (intro send_and_succeed_handled[OF b(3,4) _ _ w(2) fr]) simp_all
    ultimately show ?thesis using r1 r2 by (blast intro: handled_cong)
  qed
qed

end
