(* ===== verification/HeartbeatTheorems.thy ===== *)
theory HeartbeatTheorems
  imports HeartbeatProps
begin

text \<open>
  The properties of the heartbeat scheduler as a whole. Locale \<open>schedule_round\<close> states what one round of a
  loop over schedules promises and gives what the loop does; it is interpreted on the rounds of a tick and of a
  recovery. Locale \<open>wake_delivery\<close> states what a delivery callback may do to the VM. \<open>hb_reach\<close> are the
  VMs reachable by any sequence of operations.
\<close>

section \<open>Loops over schedules\<close>

lemma snd_roundLoop_Cons:
  "snd (roundLoop one (i # is) vm) = (case fst (one i vm) of Inl _ \<Rightarrow> snd (one i vm)
     | Inr _ \<Rightarrow> snd (roundLoop one is (snd (one i vm))))"
  by (simp split: prod.split sum.split)

locale schedule_round =
  fixes one :: "string \<Rightarrow> HbVm \<Rightarrow> HeartbeatSchedule option vm_result"
    and ready :: "HeartbeatSchedule \<Rightarrow> bool"
    and dn :: "HbVm \<Rightarrow> HeartbeatSchedule \<Rightarrow> bool"
  assumes round: "hb_ok vm \<Longrightarrow> get_schedule i vm = Some s \<Longrightarrow> ready s \<Longrightarrow>
      (\<exists>r. fst (one i vm) = Inr r) \<and> handled dn i vm (snd (one i vm))"
    and kept: "dn vm s \<Longrightarrow> pending_kept vm vm' \<Longrightarrow> dn vm' s"
begin

lemma loop:
  "distinct is \<Longrightarrow> hb_ok vm \<Longrightarrow> \<forall>i \<in> set is. \<exists>s. get_schedule i vm = Some s \<and> ready s \<Longrightarrow>
    (\<exists>rs. fst (roundLoop one is vm) = Inr rs) \<and> hb_ok (snd (roundLoop one is vm))
    \<and> (wakes_unique vm \<longrightarrow> wakes_unique (snd (roundLoop one is vm))) \<and> pending_kept vm (snd (roundLoop one is vm))
    \<and> (\<forall>j. j \<notin> set is \<longrightarrow> get_schedule j (snd (roundLoop one is vm)) = get_schedule j vm)
    \<and> (\<forall>i \<in> set is. \<exists>s. get_schedule i (snd (roundLoop one is vm)) = Some s \<and> dn (snd (roundLoop one is vm)) s)"
proof (induction "is" arbitrary: vm)
  case Nil
  then show ?case by (simp add: pending_kept_def)
next
  case (Cons i "is")
  obtain s where "get_schedule i vm = Some s" "ready s" using Cons.prems(3) by auto
  then obtain r where r: "fst (one i vm) = Inr r" and h: "handled dn i vm (snd (one i vm))"
    using round[OF Cons.prems(2)] by auto
  define vm1 where "vm1 = snd (one i vm)"
  note h1 = h[folded vm1_def, unfolded handled_def]
  have one: "one i vm = (Inr r, vm1)" using r by (simp add: vm1_def prod_eq_iff)
  have rdy: "\<forall>j \<in> set is. \<exists>s. get_schedule j vm1 = Some s \<and> ready s"
    using Cons.prems(1,3) h1 by (metis distinct.simps(2) list.set_intros(2))
  note IH = Cons.IH[OF _ _ rdy]
  obtain rs vm2 where loop: "roundLoop one is vm1 = (Inr rs, vm2)"
    using IH Cons.prems(1) h1 by (metis distinct.simps(2) surjective_pairing)
  have v: "snd (roundLoop one (i # is) vm) = vm2" "\<exists>rs. fst (roundLoop one (i # is) vm) = Inr rs"
    by (simp_all add: one loop)
  have ih: "hb_ok vm2" "wakes_unique vm1 \<longrightarrow> wakes_unique vm2" "pending_kept vm1 vm2"
    "\<And>j. j \<notin> set is \<Longrightarrow> get_schedule j vm2 = get_schedule j vm1"
    "\<forall>i \<in> set is. \<exists>s. get_schedule i vm2 = Some s \<and> dn vm2 s"
    using IH Cons.prems(1) h1 loop by auto
  have "\<exists>s. get_schedule i vm2 = Some s \<and> dn vm2 s"
    using h1 ih(4)[of i] Cons.prems(1) kept[OF _ ih(3)] by auto
  then show ?case
    unfolding v(1) using v(2) ih h1 by (auto simp: pending_kept_def)
qed

end

interpretation tickr: schedule_round "tickOne None t"
    "\<lambda>s. \<not> terminalStatus (hs_status s) \<and> hs_nextFireAt s \<noteq> None" "settled t" for t
proof (unfold_locales, goal_cases)
  case (1 vm i s)
  then show ?case using tickOne_handled by blast
next
  case (2 vm s vm')
  then show ?case by (auto simp: settled_def pending_kept_def)
qed

lemma recoverOne_handled:
  assumes ok: "hb_ok vm" and g: "get_schedule i vm = Some s"
  shows "(\<exists>r. fst (recoverOne None t i vm) = Inr r)
    \<and> handled (\<lambda>_ s. \<not> due t s) i vm (snd (recoverOne None t i vm))"
proof (cases "due t s")
  case False
  have "handled (\<lambda>_ s. \<not> due t s) i vm vm"
    using ok g False by (auto simp: handled_def pending_kept_def)
  then show ?thesis
    using g False by (auto simp: recoverOne_def due_def split: option.split)
next
  case True
  then have nt: "\<not> terminalStatus (hs_status s)" and nf: "hs_nextFireAt s \<noteq> None" by (auto simp: due_def)
  have id: "hs_scheduleId s = i" and so: "sched_ok s" using hb_ok_get[OF ok g] by simp_all
  let ?s1 = "s\<lparr>hs_status := HbExpired, hs_nextFireAt := None, hs_updatedAt := t, hs_version := hs_version s + 1\<rparr>"
  have s1: "sched_ok ?s1"
    by (rule sched_ok_end[OF so not_terminal_completed[OF nt]]) (simp_all add: terminalStatus_def)
  have "handled (\<lambda>_ s. \<not> due t s) i vm (set_schedule ?s1 vm)"
    using hb_ok_set[OF ok s1] id
    by (intro handledI[where s = ?s1]) (simp_all add: pending_kept_refl wakes_unique_def due_def terminalStatus_def)
  moreover obtain n where n: "hs_nextFireAt s = Some n" "\<not> t < n" using True by (auto simp: due_def)
  then have "hs_kind s = KTimeout \<Longrightarrow> recoverOne None t i vm = (Inr (Some ?s1),
      vmLog ''warn'' ''heartbeat missed timeout expired during recovery'' ?s1
        (emitHeartbeatRecord ''heartbeat.recover'' False ?s1 (set_schedule ?s1 vm)))"
    "hs_kind s = KInterval \<Longrightarrow> recoverOne None t i vm = recoverFire None t s vm"
    using g nt by (simp_all add: recoverOne_def Let_def)
  moreover note recoverFire_handled[OF ok g nt nf, of t]
  ultimately show ?thesis by (cases "hs_kind s") (auto elim: handled_cong)
qed

interpretation recr: schedule_round "recoverOne None t" "\<lambda>_. True" "\<lambda>_ s. \<not> due t s" for t
  by unfold_locales (use recoverOne_handled in blast)+

section \<open>What a delivery callback may do\<close>

definition open_in :: "HbVm \<Rightarrow> string \<Rightarrow> bool" where
  "open_in vm i \<longleftrightarrow> (\<exists>s. get_schedule i vm = Some s \<and> hs_status s \<noteq> HbCompleted)"

locale wake_delivery =
  fixes d :: deliver
  assumes keeps: "hb_ok vm \<Longrightarrow> get_schedule (hs_scheduleId s) vm = Some s \<Longrightarrow> hs_status s = HbFiring \<Longrightarrow>
      hb_ok (snd (d (s, w) vm))"
    and stays: "hb_ok vm \<Longrightarrow> get_schedule (hs_scheduleId s) vm = Some s \<Longrightarrow> hs_status s = HbFiring \<Longrightarrow>
      open_in vm j \<Longrightarrow> open_in (snd (d (s, w) vm)) j"
begin

lemma tickOne_ok:
  assumes ok: "hb_ok vm" and o: "open_in vm i"
  shows "hb_ok (snd (tickOne (Some d) t i vm))"
    "j \<noteq> i \<Longrightarrow> open_in vm j \<Longrightarrow> open_in (snd (tickOne (Some d) t i vm)) j"
proof -
  obtain s where g: "get_schedule i vm = Some s" and nc: "hs_status s \<noteq> HbCompleted" using o by (auto simp: open_in_def)
  let ?s1 = "beginFiring s t" let ?vm1 = "set_schedule ?s1 vm"
  note b = begin_setup(1)[OF ok g nc] begin_setup(2-6)[OF ok g nc, where t = t] begin_setup(7)[OF ok g nc]
  obtain w where w: "wakeOf ?s1 t = Inr w" using b(6) by auto
  define vm2 where "vm2 = snd (d (?s1, w) ?vm1)"
  have g1: "get_schedule (hs_scheduleId ?s1) ?vm1 = Some ?s1" "hs_status ?s1 = HbFiring" by simp_all
  have ok2: "hb_ok vm2" unfolding vm2_def by (rule keeps[OF b(3) g1])
  have st: "open_in ?vm1 j \<Longrightarrow> open_in vm2 j" for j unfolding vm2_def by (rule stays[OF b(3) g1])
  have "open_in ?vm1 i" using b(4) by (simp add: open_in_def)
  then obtain s2 where g2: "get_schedule i vm2 = Some s2" "hs_status s2 \<noteq> HbCompleted"
    using st[of i] by (auto simp: open_in_def)
  have res: "snd (tickOne (Some d) t i vm) = fireFailed i t vm2 \<or> snd (tickOne (Some d) t i vm) = snd (fireSucceeded i t vm2)"
    using g b(7) w by (cases "d (?s1, w) ?vm1")
      (auto simp: tickOne_def Let_def vm2_def split: sum.split prod.split)
  then show "hb_ok (snd (tickOne (Some d) t i vm))"
    using fireFailed_vm(1)[OF ok2 g2, of t] fireSucceeded_vm(1)[OF ok2 g2, of t] by auto
  assume ji: "j \<noteq> i" and oj: "open_in vm j"
  have "open_in vm2 j" using st[of j] oj b(5)[OF ji] by (simp add: open_in_def)
  then show "open_in (snd (tickOne (Some d) t i vm)) j"
    using res fireFailed_vm(3)[OF ok2 g2 ji, of t] fireSucceeded_vm(3)[OF ok2 g2 ji, of t] by (auto simp: open_in_def)
qed

lemma tickLoop_ok:
  "distinct is \<Longrightarrow> hb_ok vm \<Longrightarrow> \<forall>i \<in> set is. open_in vm i \<Longrightarrow> hb_ok (snd (roundLoop (tickOne (Some d) t) is vm))"
proof (induction "is" arbitrary: vm)
  case (Cons i "is")
  have "hb_ok (snd (tickOne (Some d) t i vm))" using tickOne_ok(1)[OF Cons.prems(2)] Cons.prems(3) by simp
  moreover have "\<forall>j \<in> set is. open_in (snd (tickOne (Some d) t i vm)) j"
    using tickOne_ok(2)[OF Cons.prems(2)] Cons.prems(1,3) by (metis distinct.simps(2) list.set_intros)
  ultimately show ?case
    using Cons.IH[of "snd (tickOne (Some d) t i vm)"] Cons.prems(1)
    unfolding snd_roundLoop_Cons by (simp split: sum.split)
qed simp

lemma recoverFire_ok:
  assumes ok: "hb_ok vm" and g: "get_schedule i vm = Some s" and nc: "hs_status s \<noteq> HbCompleted"
    and nf: "hs_nextFireAt s \<noteq> None"
  shows "hb_ok (snd (recoverFire (Some d) t s vm))"
proof -
  let ?s1 = "beginFiring s t" let ?vm1 = "set_schedule ?s1 vm"
  note b = begin_setup(1)[OF ok g nc] begin_setup(2-6)[OF ok g nc, where t = t] begin_setup(7)[OF ok g nc]
  obtain w where w: "wakeOf ?s1 t = Inr w" using b(6) by auto
  define vm2 where "vm2 = snd (d (?s1, w) ?vm1)"
  have g1: "get_schedule (hs_scheduleId ?s1) ?vm1 = Some ?s1" "hs_status ?s1 = HbFiring" by simp_all
  have ok2: "hb_ok vm2" unfolding vm2_def by (rule keeps[OF b(3) g1])
  have "open_in ?vm1 i" using b(4) by (simp add: open_in_def)
  then have "open_in vm2 i" unfolding vm2_def by (rule stays[OF b(3) g1])
  then obtain s2 where g2: "get_schedule i vm2 = Some s2" "hs_status s2 \<noteq> HbCompleted"
    by (auto simp: open_in_def)
  have ap: "hb_ok (set_schedule (applySuccessfulFire s2 t) vm2)"
    by (rule hb_ok_set[OF ok2 sched_ok_apply[OF hb_ok_get(2)[OF ok2 g2(1)] g2(2)]])
  have fl: "hb_ok (set_schedule (?s1\<lparr>hs_status := HbFailed, hs_nextFireAt := None, hs_updatedAt := t,
      hs_version := hs_version ?s1 + 1\<rparr>) ?vm1)"
    by (rule hb_ok_set[OF b(3)], rule sched_ok_end[OF b(2)]) (simp_all add: terminalStatus_def)
  have co: "hb_ok (snd (coalescePendingWake ?s1 t ?vm1))" by (rule coalesce_ok(1)[OF b(3,2)]) (use nf in simp_all)
  obtain x where dx: "d (?s1, w) ?vm1 = (x, vm2)" by (cases "d (?s1, w) ?vm1") (simp add: vm2_def)
  show ?thesis
  proof (cases "map_of (vm_actors vm) (hs_targetActorKey s)")
    case None
    then show ?thesis using w fl by (simp add: recoverFire_def Let_def)
  next
    case (Some a)
    then show ?thesis
      using w co ap ok2 g2(1) b(1) dx by (cases x) (simp_all add: recoverFire_def Let_def case_prod_beta)
  qed
qed

lemma recoverOne_ok:
  assumes ok: "hb_ok vm"
  shows "hb_ok (snd (recoverOne (Some d) t i vm))"
proof (cases "get_schedule i vm")
  case None
  then show ?thesis using ok by (simp add: recoverOne_def)
next
  case g: (Some s)
  show ?thesis
  proof (cases "due t s")
    case False
    then have "snd (recoverOne (Some d) t i vm) = vm"
      using g by (auto simp: recoverOne_def due_def split: option.split)
    then show ?thesis using ok by simp
  next
    case True
    then have nt: "\<not> terminalStatus (hs_status s)" and nf: "hs_nextFireAt s \<noteq> None" by (auto simp: due_def)
    note nc = not_terminal_completed[OF nt]
    have "sched_ok (s\<lparr>hs_status := HbExpired, hs_nextFireAt := None, hs_updatedAt := t, hs_version := hs_version s + 1\<rparr>)"
      by (rule sched_ok_end[OF hb_ok_get(2)[OF ok g] nc]) (simp_all add: terminalStatus_def)
    note ex = hb_ok_set[OF ok this]
    obtain n where n: "hs_nextFireAt s = Some n" "\<not> t < n" using True by (auto simp: due_def)
    show ?thesis
      using g nt n ex recoverFire_ok[OF ok g nc nf, of t] by (cases "hs_kind s") (simp_all add: recoverOne_def Let_def)
  qed
qed

lemma recoverLoop_ok: "hb_ok vm \<Longrightarrow> hb_ok (snd (roundLoop (recoverOne (Some d) t) is vm))"
proof (induction "is" arbitrary: vm)
  case (Cons i "is")
  then show ?case
    using recoverOne_ok[OF Cons.prems, of t i] Cons.IH[of "snd (recoverOne (Some d) t i vm)"]
    unfolding snd_roundLoop_Cons by (simp split: sum.split)
qed simp

end

text \<open>The two deliveries of the model: sending to the mailbox, and a callback that cancels the schedule that is
  being delivered before it returns.\<close>

definition mailboxDelivery :: deliver where
  "mailboxDelivery = (\<lambda>(s, w) vm. (Inr (), sendHeartbeat (hs_targetActorKey s) w vm))"

definition cancellingDelivery :: "HbTime \<Rightarrow> deliver" where
  "cancellingDelivery now = (\<lambda>(s, w) vm. (Inr (), snd (cancelHeartbeatSchedule vm (Some (hs_scheduleId s)) None now)))"

lemma cancel_ok:
  assumes ok: "hb_ok vm"
  shows "hb_ok (snd (cancelHeartbeatSchedule vm sid reason now))"
    "open_in vm j \<Longrightarrow> open_in (snd (cancelHeartbeatSchedule vm sid reason now)) j"
proof -
  let ?vm' = "snd (cancelHeartbeatSchedule vm sid reason now)"
  have "?vm' = vm \<or> (\<exists>s s'. get_schedule (hs_scheduleId s) vm = Some s \<and> hs_scheduleId s' = hs_scheduleId s
      \<and> hs_status s' = HbCancelled \<and> sched_ok s' \<and> (?vm' = set_schedule s' vm
      \<or> ?vm' = emitHeartbeatRecord ''heartbeat.cancel'' False s' (set_schedule s' vm)))"
  proof (cases "createHeartbeatScheduleId (nullish sid [])")
    case (Inr i)
    show ?thesis
    proof (cases "get_schedule i vm")
      case g: (Some s)
      have id: "hs_scheduleId s = i" and so: "sched_ok s" using hb_ok_get[OF ok g] by simp_all
      show ?thesis
      proof (cases "terminalStatus (hs_status s)")
        case nt: False
        note e = sched_ok_end[OF so not_terminal_completed[OF nt]]
        have "sched_ok (s\<lparr>hs_status := HbCancelled\<rparr>)" by (rule e) (simp_all add: terminalStatus_def)
        moreover have "sched_ok (s\<lparr>hs_status := HbCancelled, hs_cancelledAt := c, hs_cancelReason := r,
            hs_nextFireAt := None, hs_updatedAt := u, hs_version := hs_version s + 1\<rparr>)" for c r u
          by (rule e) (simp_all add: terminalStatus_def)
        ultimately show ?thesis
          using Inr g id nt by (cases "toEpochMs now") (force simp: cancelHeartbeatSchedule_def Let_def)+
      qed (use Inr g in \<open>simp add: cancelHeartbeatSchedule_def\<close>)
    qed (use Inr in \<open>simp add: cancelHeartbeatSchedule_def\<close>)
  qed (simp add: cancelHeartbeatSchedule_def)
  then show "hb_ok ?vm'" "open_in vm j \<Longrightarrow> open_in ?vm' j"
    using ok by (auto simp: hb_ok_set open_in_def)
qed

interpretation mailbox: wake_delivery mailboxDelivery
  by unfold_locales (simp_all add: mailboxDelivery_def open_in_def)

interpretation cancelling: wake_delivery "cancellingDelivery now" for now
  by unfold_locales (simp_all add: cancellingDelivery_def cancel_ok)

section \<open>Creation\<close>

lemma js_trim_fix:
  assumes "s \<noteq> []" "\<not> js_space (hd s)" "\<not> js_space (last s)"
  shows "js_trim s = s"
proof -
  have "dropWhile js_space s = s" using assms(1,2) by (intro dropWhile_rev_fix)
  moreover have "dropWhile js_space (rev s) = rev s"
    by (rule dropWhile_rev_fix) (use assms in \<open>simp_all add: hd_rev\<close>)
  ultimately show ?thesis by (simp add: js_trim_def)
qed

lemma last_js_trim: "js_trim s \<noteq> [] \<Longrightarrow> \<not> js_space (last (js_trim s))"
  unfolding js_trim_def by (subst last_rev, rule hd_dropWhile) simp

lemma schedule_id_fix:
  assumes "createHeartbeatScheduleId v = Inr x"
  shows "createHeartbeatScheduleId x = Inr x"
proof -
  let ?t = "js_trim v"
  have t: "?t \<noteq> []" and x: "x = (if starts_with ''sch_'' ?t then ?t else ''sch_'' @ ?t)"
    using assms by (auto simp: createHeartbeatScheduleId_def Let_def split: if_splits)
  have "\<not> js_space CHR ''s''" by (simp add: js_space_def)
  then have "js_trim (''sch_'' @ ?t) = ''sch_'' @ ?t" using last_js_trim[OF t] t by (intro js_trim_fix) simp_all
  moreover have "starts_with ''sch_'' (''sch_'' @ ?t)" by (rule starts_with_append)
  ultimately have "js_trim x = x \<and> x \<noteq> [] \<and> starts_with ''sch_'' x"
    unfolding x using t by (cases "starts_with ''sch_'' ?t") simp_all
  then show ?thesis by (simp add: createHeartbeatScheduleId_def Let_def)
qed

lemma requireNonEmpty_ok: "requireNonEmpty shw f v = Inr x \<Longrightarrow> text_ok x"
  by (auto simp: requireNonEmpty_def text_ok_def Let_def split: if_splits)

lemma requireDetailed_ok: "requireDetailedDescription shw v = Inr x \<Longrightarrow> text_ok x \<and> 16 \<le> length x"
  by (auto simp: requireDetailedDescription_def bind_result_eq_Inr requireNonEmpty_ok split: if_splits)

lemma normalizeInteger_ok: "normalizeInteger f v mn mx = Inr n \<Longrightarrow> mn \<le> n \<and> n \<le> mx"
  by (auto simp: normalizeInteger_def split: option.splits if_splits)

definition normal_ok :: "HeartbeatScheduleKind \<Rightarrow> NormalizedCreate \<Rightarrow> bool" where
  "normal_ok k c \<longleftrightarrow> text_ok (nc_name c) \<and> text_ok (nc_description c) \<and> 16 \<le> length (nc_description c)
     \<and> text_ok (nc_message c) \<and> (\<exists>m. nc_maxFires c = Some m \<and> 1 \<le> m \<and> (k = KTimeout \<longrightarrow> m = 1))
     \<and> (k = KInterval \<longrightarrow> 0 < nc_seconds c)"

lemma normalizeCreate_ok:
  "normalizeCreate shw input n mf = Inr c \<Longrightarrow>
    text_ok (nc_name c) \<and> text_ok (nc_description c) \<and> 16 \<le> length (nc_description c) \<and> text_ok (nc_message c)
    \<and> nc_maxFires c = mf \<and> nc_seconds c = n"
  by (auto simp: normalizeCreate_def bind_result_eq_Inr dest: requireNonEmpty_ok requireDetailed_ok)

lemma normalizeTimeout_ok: "normalizeCreateTimeoutInput shw input limits = Inr c \<Longrightarrow> normal_ok KTimeout c"
  by (auto simp: normalizeCreateTimeoutInput_def bind_result_eq_Inr normal_ok_def dest: normalizeCreate_ok)

lemma normalizeInterval_ok:
  "normalizeCreateIntervalInput shw input limits = Inr c \<Longrightarrow> 0 < minIntervalSeconds limits \<Longrightarrow> normal_ok KInterval c"
  by (auto simp: normalizeCreateIntervalInput_def bind_result_eq_Inr normal_ok_def
      dest!: normalizeCreate_ok normalizeInteger_ok)

lemma createBase_ok:
  assumes "createBaseSchedule stamp vm owner oid c kind status nowMs = (r, vm')" "hb_ok vm"
  shows "hb_ok vm'" "r = Inr s \<Longrightarrow> normal_ok kind c \<Longrightarrow> status \<noteq> HbCompleted \<Longrightarrow> sched_ok s"
    "schedules (ensureHeartbeatSchedulerState vm') = schedules (ensureHeartbeatSchedulerState vm)"
proof -
  have e: "ensureHeartbeatSchedulerState (vm\<lparr>vm_scheduler := Some x\<rparr>) = x" for x
    by (simp add: ensureHeartbeatSchedulerState_def)
  show sc: "schedules (ensureHeartbeatSchedulerState vm') = schedules (ensureHeartbeatSchedulerState vm)"
    using assms(1) by (auto simp: createBaseSchedule_def Let_def e split: option.splits)
  then show "hb_ok vm'" using assms(2) by (simp add: hb_ok_def)
  show "sched_ok s" if "r = Inr s" "normal_ok kind c" "status \<noteq> HbCompleted"
    using that assms(1) schedule_id_fix
    by (auto simp: createBaseSchedule_def Let_def bind_result_eq_Inr normal_ok_def sched_ok_def token_old_def
        limit_ok_def timing_ok_def texts_ok_def split: option.splits)
qed

lemma createSchedule_ok:
  assumes "hb_ok vm" "\<And>c. normalized = Inr c \<Longrightarrow> normal_ok kind c" "status \<noteq> HbCompleted"
  shows "hb_ok (snd (createSchedule lc isot stamp vm owner oid now normalized limits kind status))"
  using assms createBase_ok[OF _ assms(1)]
  by (auto simp: createSchedule_def hb_ok_set split: sum.split prod.split)

section \<open>Reachable VMs\<close>

fun deliver_safe :: "deliver option \<Rightarrow> bool" where
  "deliver_safe None = True"
| "deliver_safe (Some d) = wake_delivery d"

inductive hb_reach :: "HbVm \<Rightarrow> bool" where
  start: "vm_scheduler vm = None \<Longrightarrow> hb_reach vm"
| timeout: "hb_reach vm \<Longrightarrow>
    hb_reach (snd (createHeartbeatTimeoutSchedule lc isot shw stamp vm owner oid now input limits))"
| interval: "hb_reach vm \<Longrightarrow> 0 < minIntervalSeconds limits \<Longrightarrow>
    hb_reach (snd (createHeartbeatIntervalSchedule lc isot shw stamp vm owner oid now input limits))"
| cancel: "hb_reach vm \<Longrightarrow> hb_reach (snd (cancelHeartbeatSchedule vm sid reason now))"
| tick: "hb_reach vm \<Longrightarrow> deliver_safe dl \<Longrightarrow> hb_reach (snd (tickDueHeartbeatSchedules lc isot vm now dl))"
| recover: "hb_reach vm \<Longrightarrow> deliver_safe dl \<Longrightarrow> hb_reach (snd (recoverHeartbeatSchedules vm now dl))"
| actors: "hb_reach vm \<Longrightarrow> hb_reach (vm\<lparr>vm_actors := acts\<rparr>)"

lemma schedule_listed:
  assumes "hb_ok vm" "s \<in> set (obj_values (schedules (ensureHeartbeatSchedulerState vm)))"
  shows "get_schedule (hs_scheduleId s) vm = Some s"
proof -
  obtain k where k: "(k, s) \<in> set (schedules (ensureHeartbeatSchedulerState vm))" using assms(2) by auto
  have d: "distinct (map fst (schedules (ensureHeartbeatSchedulerState vm)))" using assms(1) by (simp add: hb_ok_def Let_def)
  have "hs_scheduleId (snd (k, s)) = fst (k, s)" using assms(1) k unfolding hb_ok_def Let_def by blast
  then show ?thesis using map_of_is_SomeI[OF d k] by (simp add: get_schedule_def)
qed

lemma due_ids:
  assumes ok: "hb_ok vm"
  shows "distinct (map hs_scheduleId (dueSchedules lc isot vm t))"
    "i \<in> set (map hs_scheduleId (dueSchedules lc isot vm t)) \<longleftrightarrow> (\<exists>s. get_schedule i vm = Some s \<and> due t s)"
proof -
  let ?ps = "schedules (ensureHeartbeatSchedulerState vm)"
  have d: "distinct (map fst ?ps)" and k: "\<forall>p \<in> set ?ps. hs_scheduleId (snd p) = fst p"
    using ok by (simp_all add: hb_ok_def Let_def)
  have "map hs_scheduleId (obj_values ?ps) = map fst ?ps" using k by simp
  then have "distinct (map hs_scheduleId (obj_values ?ps))" using d by (simp only:)
  then show "distinct (map hs_scheduleId (dueSchedules lc isot vm t))"
    unfolding dueSchedules_def by (simp only: distinct_map_js_sort distinct_map_filter)
  have mem: "s \<in> set (dueSchedules lc isot vm t) \<longleftrightarrow> s \<in> set (obj_values ?ps) \<and> due t s" for s
    by (auto simp: dueSchedules_def due_def split: option.splits)
  show "i \<in> set (map hs_scheduleId (dueSchedules lc isot vm t)) \<longleftrightarrow> (\<exists>s. get_schedule i vm = Some s \<and> due t s)"
  proof
    assume "i \<in> set (map hs_scheduleId (dueSchedules lc isot vm t))"
    then obtain s where "i = hs_scheduleId s" "s \<in> set (obj_values ?ps)" "due t s" using mem by auto
    then show "\<exists>s. get_schedule i vm = Some s \<and> due t s" using schedule_listed[OF ok] by auto
  next
    assume "\<exists>s. get_schedule i vm = Some s \<and> due t s"
    then obtain s where s: "get_schedule i vm = Some s" "due t s" by auto
    then have "s \<in> set (obj_values ?ps)" using map_of_in_values[of ?ps i s] by (simp add: get_schedule_def)
    then have "s \<in> set (dueSchedules lc isot vm t)" using mem s(2) by blast
    then show "i \<in> set (map hs_scheduleId (dueSchedules lc isot vm t))" using hb_ok_get(1)[OF ok s(1)] by force
  qed
qed

lemma recover_ids:
  assumes "hb_ok vm"
  shows "distinct (obj_keys (schedules (ensureHeartbeatSchedulerState vm)))"
    "i \<in> set (obj_keys (schedules (ensureHeartbeatSchedulerState vm))) \<longleftrightarrow> (\<exists>s. get_schedule i vm = Some s)"
proof -
  show "distinct (obj_keys (schedules (ensureHeartbeatSchedulerState vm)))"
    using assms unfolding hb_ok_def Let_def by (rule conjunct1)
  show "i \<in> set (obj_keys (schedules (ensureHeartbeatSchedulerState vm))) \<longleftrightarrow> (\<exists>s. get_schedule i vm = Some s)"
    unfolding get_schedule_def
    using map_of_eq_None_iff[of "schedules (ensureHeartbeatSchedulerState vm)" i]
    by (cases "map_of (schedules (ensureHeartbeatSchedulerState vm)) i") simp_all
qed

lemma tick_mailbox:
  assumes ok: "hb_ok vm"
  shows "\<exists>fired vm'. roundLoop (tickOne None t) (map hs_scheduleId (dueSchedules lc isot vm t)) vm = (Inr fired, vm')
     \<and> hb_ok vm' \<and> (wakes_unique vm \<longrightarrow> wakes_unique vm')
     \<and> (\<forall>i s. get_schedule i vm' = Some s \<and> due t s \<longrightarrow>
           hs_kind s = KTimeout \<and> pending_at vm' (hs_targetActorKey s) (hs_scheduleId s))"
proof -
  let ?is = "map hs_scheduleId (dueSchedules lc isot vm t)"
  let ?r = "roundLoop (tickOne None t) ?is vm"
  have rdy: "\<forall>i \<in> set ?is. \<exists>s. get_schedule i vm = Some s \<and> \<not> terminalStatus (hs_status s) \<and> hs_nextFireAt s \<noteq> None"
  proof
    fix i assume "i \<in> set ?is"
    then obtain s where "get_schedule i vm = Some s" "due t s" using due_ids(2)[OF ok, of i lc isot t] by blast
    then show "\<exists>s. get_schedule i vm = Some s \<and> \<not> terminalStatus (hs_status s) \<and> hs_nextFireAt s \<noteq> None"
      by (auto simp: due_def)
  qed
  note l = tickr.loop[OF due_ids(1)[OF ok] ok rdy]
  have "hs_kind s = KTimeout \<and> pending_at (snd ?r) (hs_targetActorKey s) (hs_scheduleId s)"
    if g: "get_schedule i (snd ?r) = Some s" and d: "due t s" for i s
  proof (cases "i \<in> set ?is")
    case True
    then have "settled t (snd ?r) s" using l g by (metis option.inject)
    then show ?thesis using d by (simp add: settled_def)
  next
    case False
    then have "get_schedule i vm = Some s" using l g by metis
    then show ?thesis using False d due_ids(2)[OF ok] by blast
  qed
  then show ?thesis using l by (metis surjective_pairing)
qed

lemma recover_mailbox:
  assumes ok: "hb_ok vm"
  shows "\<exists>rs vm'. roundLoop (recoverOne None t) (obj_keys (schedules (ensureHeartbeatSchedulerState vm))) vm = (Inr rs, vm')
     \<and> hb_ok vm' \<and> (wakes_unique vm \<longrightarrow> wakes_unique vm') \<and> (\<forall>i s. get_schedule i vm' = Some s \<longrightarrow> \<not> due t s)"
proof -
  let ?is = "obj_keys (schedules (ensureHeartbeatSchedulerState vm))"
  let ?r = "roundLoop (recoverOne None t) ?is vm"
  have rdy: "\<forall>i \<in> set ?is. \<exists>s. get_schedule i vm = Some s \<and> True" using recover_ids(2)[OF ok] by auto
  note l = recr.loop[OF recover_ids(1)[OF ok] ok rdy]
  have "\<not> due t s" if "get_schedule i (snd ?r) = Some s" for i s
  proof (cases "i \<in> set ?is")
    case True
    then show ?thesis using l that by (metis option.inject)
  next
    case False
    then show ?thesis using l that recover_ids(2)[OF ok] by (metis option.distinct(1))
  qed
  then show ?thesis using l by (metis surjective_pairing)
qed

lemma tick_ok:
  assumes "hb_ok vm" "deliver_safe dl"
  shows "hb_ok (snd (tickDueHeartbeatSchedules lc isot vm now dl))"
proof (cases "toEpochMs now")
  case (Inr t)
  have "\<forall>i \<in> set (map hs_scheduleId (dueSchedules lc isot vm t)). open_in vm i"
  proof
    fix i assume "i \<in> set (map hs_scheduleId (dueSchedules lc isot vm t))"
    then obtain s where "get_schedule i vm = Some s" "due t s" using due_ids(2)[OF assms(1), of i lc isot t] by blast
    then show "open_in vm i" using not_terminal_completed by (auto simp: open_in_def due_def)
  qed
  then show ?thesis
    using Inr assms tick_mailbox[OF assms(1), of t lc isot] wake_delivery.tickLoop_ok[OF _ due_ids(1)[OF assms(1)] assms(1)]
    by (cases dl) (auto simp: tickDueHeartbeatSchedules_def)
qed (use assms in \<open>simp add: tickDueHeartbeatSchedules_def\<close>)

lemma recover_ok:
  assumes "hb_ok vm" "deliver_safe dl"
  shows "hb_ok (snd (recoverHeartbeatSchedules vm now dl))"
proof (cases "toEpochMs now")
  case (Inr t)
  then show ?thesis
    using assms recover_mailbox[OF assms(1), of t] wake_delivery.recoverLoop_ok[OF _ assms(1)]
    by (cases dl) (auto simp: recoverHeartbeatSchedules_def)
qed (use assms in \<open>simp add: recoverHeartbeatSchedules_def\<close>)

lemma hb_reach_ok: "hb_reach vm \<Longrightarrow> hb_ok vm"
proof (induction rule: hb_reach.induct)
  case (start vm)
  then show ?case by (simp add: hb_ok_def ensureHeartbeatSchedulerState_def)
next
  case (timeout vm lc isot shw stamp owner oid now input limits)
  then show ?case
    unfolding createHeartbeatTimeoutSchedule_def by (intro createSchedule_ok) (simp_all add: normalizeTimeout_ok)
next
  case (interval vm limits lc isot shw stamp owner oid now input)
  then show ?case
    unfolding createHeartbeatIntervalSchedule_def by (intro createSchedule_ok) (simp_all add: normalizeInterval_ok)
qed (simp_all add: cancel_ok tick_ok recover_ok)

end
