(* ===== verification/HeartbeatClaims.thy ===== *)
theory HeartbeatClaims
  imports HeartbeatTheorems
begin

text \<open>
  The claims about the heartbeat scheduler, each with its witness on a small VM with one actor: fire limits,
  ticks and recoveries that leave nothing overdue, the quota, and the cancellation that is lost when it arrives
  during a delivery.
\<close>

section \<open>A small VM\<close>

definition hbInput :: "string \<Rightarrow> int \<Rightarrow> jsv" where
  "hbInput field n = JObj [(''name'', JStr ''poll''), (''description'', JStr ''check the build until it is green''),
     (''message'', JStr ''check now''), (field, JNum (Fin (of_int n))), (''maxFires'', JNum (Fin 3))]"

definition hbVm0 :: HbVm where
  "hbVm0 = \<lparr>vm_actors = [(''main'', \<lparr>ac_id = ''a1'', ac_heartbeat = []\<rparr>)], vm_scheduler = None,
     vm_records = [], vm_log = []\<rparr>"

definition hbVm1 :: HbVm where
  "hbVm1 = snd (createHeartbeatIntervalSchedule unit_compare show_int (\<lambda>_. []) ''k'' hbVm0 ''main'' ''a1'' (TMs 0)
     (hbInput ''intervalSeconds'' 10) HEARTBEAT_DEFAULT_LIMITS)"

definition hbVm2 :: HbVm where
  "hbVm2 = snd (tickDueHeartbeatSchedules unit_compare show_int hbVm1 (TMs 10000) None)"

definition hbFired :: HeartbeatSchedule where
  "hbFired = \<lparr>hs_scheduleId = ''sch_k_1'', hs_kind = KInterval, hs_name = ''poll'',
     hs_description = ''check the build until it is green'', hs_ownerActorKey = ''main'', hs_ownerActorId = ''a1'',
     hs_targetActorKey = ''main'', hs_targetActorId = ''a1'', hs_status = HbActive, hs_createdAt = 0,
     hs_updatedAt = 10000, hs_nextFireAt = Some 20000, hs_delaySeconds = None, hs_intervalSeconds = Some 10,
     hs_fireCount = 1, hs_maxFires = Some 3, hs_lastFireAt = Some 10000, hs_cancelledAt = None, hs_cancelReason = None,
     hs_message = ''check now'', hs_payload = [], hs_version = 3, hs_lastFireToken = Some ''sch_k_1:2:1''\<rparr>"

lemma hbVm1_reach: "hb_reach hbVm1"
  unfolding hbVm1_def
  by (rule hb_reach.interval, rule hb_reach.start) (simp_all add: hbVm0_def HEARTBEAT_DEFAULT_LIMITS_def)

lemma hbVm2_reach: "hb_reach hbVm2"
  unfolding hbVm2_def by (rule hb_reach.tick[OF hbVm1_reach]) simp

lemma hbVm2_schedule: "get_schedule ''sch_k_1'' hbVm2 = Some hbFired"
  by code_simp

section \<open>Claims\<close>

text \<open>C14: In every reachable VM each schedule has fired at least zero and at most \<open>maxFires\<close> times, a timeout at
  most once, a schedule that is not completed still has a fire left, and a pending or active schedule has a next
  fire time. Reachable covers creation with any input, cancellation, ticks and recoveries with the mailbox or with
  any delivery callback that keeps the scheduler well formed and completes no schedule itself, and any change of
  the actors.\<close>

theorem heartbeat_fire_limits:
  assumes "hb_reach vm" "get_schedule i vm = Some s"
  shows "0 \<le> hs_fireCount s \<and> (\<exists>m. hs_maxFires s = Some m \<and> hs_fireCount s \<le> m
      \<and> (hs_status s \<noteq> HbCompleted \<longrightarrow> hs_fireCount s < m) \<and> (hs_kind s = KTimeout \<longrightarrow> m = 1))
    \<and> (hs_status s \<in> {HbPending, HbActive} \<longrightarrow> hs_nextFireAt s \<noteq> None)"
  using hb_ok_get(2)[OF hb_reach_ok[OF assms(1)] assms(2)] by (simp add: sched_ok_def limit_ok_def timing_ok_def)

theorem heartbeat_fire_limits_witness:
  "hb_reach hbVm2 \<and> get_schedule ''sch_k_1'' hbVm2 = Some hbFired \<and> hs_fireCount hbFired < 3 \<and> hs_nextFireAt hbFired \<noteq> None"
  using heartbeat_fire_limits[OF hbVm2_reach hbVm2_schedule] hbVm2_reach hbVm2_schedule by (simp add: hbFired_def)

text \<open>C15: A tick that delivers to the mailboxes does not throw, adds no second pending wake of a schedule to a
  mailbox that had at most one of each, and leaves no schedule overdue except a timeout whose wake is still
  waiting in the mailbox of its target.\<close>

theorem tick_clears_due:
  assumes "hb_reach vm" "toEpochMs now = Inr t"
  shows "\<exists>fired vm'. tickDueHeartbeatSchedules lc isot vm now None = (Inr fired, vm')
     \<and> (wakes_unique vm \<longrightarrow> wakes_unique vm')
     \<and> (\<forall>i s. get_schedule i vm' = Some s \<and> due t s \<longrightarrow>
           hs_kind s = KTimeout \<and> pending_at vm' (hs_targetActorKey s) (hs_scheduleId s))"
  using tick_mailbox[OF hb_reach_ok[OF assms(1)], of t lc isot] assms(2)
  unfolding tickDueHeartbeatSchedules_def by auto

theorem tick_clears_due_witness:
  "hb_reach hbVm1 \<and> toEpochMs (TMs 10000) = Inr 10000
   \<and> (\<exists>fired vm'. tickDueHeartbeatSchedules unit_compare show_int hbVm1 (TMs 10000) None = (Inr fired, vm')
        \<and> (\<forall>i s. get_schedule i vm' = Some s \<and> due 10000 s \<longrightarrow> hs_kind s = KTimeout))"
  using tick_clears_due[OF hbVm1_reach toEpochMs.simps(1)[of 10000], of unit_compare show_int] hbVm1_reach by auto

text \<open>Recovery that delivers to the mailboxes does not throw, keeps at most one pending wake per schedule in
  each mailbox, and leaves no schedule overdue: missed timeouts are over and missed intervals moved on.\<close>

theorem recovery_clears_due:
  assumes "hb_reach vm" "toEpochMs now = Inr t"
  shows "\<exists>recovered vm'. recoverHeartbeatSchedules vm now None = (Inr recovered, vm')
     \<and> (wakes_unique vm \<longrightarrow> wakes_unique vm') \<and> (\<forall>i s. get_schedule i vm' = Some s \<longrightarrow> \<not> due t s)"
  using recover_mailbox[OF hb_reach_ok[OF assms(1)], of t] assms(2)
  unfolding recoverHeartbeatSchedules_def by auto

theorem recovery_clears_due_witness:
  "hb_reach hbVm2 \<and> due 90000 hbFired
   \<and> (\<exists>recovered vm'. recoverHeartbeatSchedules hbVm2 (TMs 90000) None = (Inr recovered, vm')
        \<and> (\<forall>i s. get_schedule i vm' = Some s \<longrightarrow> \<not> due 90000 s))"
  using recovery_clears_due[OF hbVm2_reach toEpochMs.simps(1)[of 90000]] hbVm2_reach
  by (auto simp: due_def hbFired_def terminalStatus_def)

lemma cancel_effect:
  "createHeartbeatScheduleId i = Inr i \<Longrightarrow> get_schedule i vm = Some s \<Longrightarrow> \<not> terminalStatus (hs_status s) \<Longrightarrow>
    toEpochMs now = Inr c \<Longrightarrow> hs_scheduleId s = i \<Longrightarrow>
    get_schedule i (snd (cancelHeartbeatSchedule vm (Some i) None now))
      = Some (s\<lparr>hs_status := HbCancelled, hs_cancelledAt := Some c, hs_cancelReason := None, hs_nextFireAt := None,
                hs_updatedAt := c, hs_version := hs_version s + 1\<rparr>)"
  by (simp add: cancelHeartbeatSchedule_def Let_def js_trim_def)

text \<open>A cancellation that arrives while an interval is being delivered is lost: the tick then applies the
  successful fire to the cancelled schedule, which is active again with a next fire time although its record says
  when it was cancelled.\<close>

theorem cancel_during_delivery_lost:
  assumes r: "hb_reach vm" and g: "get_schedule i vm = Some s" and d: "due t s" and k: "hs_kind s = KInterval"
    and more: "hs_maxFires s = Some m" "hs_fireCount s + 1 < m" and c: "toEpochMs now = Inr c"
  shows "\<exists>s'. get_schedule i (snd (tickOne (Some (cancellingDelivery now)) t i vm)) = Some s'
     \<and> hs_cancelledAt s' = Some c \<and> hs_status s' = HbActive \<and> (\<exists>n > t. hs_nextFireAt s' = Some n)"
proof -
  note ok = hb_reach_ok[OF r]
  have nc: "hs_status s \<noteq> HbCompleted" using d not_terminal_completed by (simp add: due_def)
  note b = begin_setup(1)[OF ok g nc] begin_setup(2-6)[OF ok g nc, where t = t] begin_setup(7)[OF ok g nc]
  let ?s1 = "beginFiring s t" let ?vm1 = "set_schedule ?s1 vm"
  obtain w where w: "wakeOf ?s1 t = Inr w" using b(6) by auto
  let ?vm2 = "snd (cancelHeartbeatSchedule ?vm1 (Some i) None now)"
  define s2 where "s2 = ?s1\<lparr>hs_status := HbCancelled, hs_cancelledAt := Some c, hs_cancelReason := None,
     hs_nextFireAt := None, hs_updatedAt := c, hs_version := hs_version ?s1 + 1\<rparr>"
  have g2: "get_schedule i ?vm2 = Some s2" unfolding s2_def
    by (rule cancel_effect[OF _ b(4) _ c]) (use b(1,2) in \<open>simp_all add: sched_ok_def texts_ok_def terminalStatus_def\<close>)
  have ok2: "hb_ok ?vm2" using cancel_ok(1)[OF b(3)] .
  have "snd (tickOne (Some (cancellingDelivery now)) t i vm) = snd (fireSucceeded i t ?vm2)"
    using g b(1,7) w by (simp add: tickOne_def Let_def cancellingDelivery_def case_prod_beta)
  then have res: "get_schedule i (snd (tickOne (Some (cancellingDelivery now)) t i vm)) = Some (applySuccessfulFire s2 t)"
    using fireSucceeded_vm(4)[OF ok2 g2] by (simp add: s2_def)
  obtain n where n: "hs_intervalSeconds s = Some n" "0 < n"
    using hb_ok_get(2)[OF ok g] k by (auto simp: sched_ok_def timing_ok_def)
  have "applySuccessfulFire s2 t = s2\<lparr>hs_fireCount := hs_fireCount s + 1, hs_lastFireAt := Some t, hs_updatedAt := t,
      hs_version := hs_version s2 + 1, hs_status := HbActive, hs_nextFireAt := Some (t + n * 1000)\<rparr>"
    using k more n by (simp add: applySuccessfulFire_def Let_def s2_def beginFiring_def)
  then show ?thesis using res n(2) by (simp add: s2_def)
qed

theorem cancel_during_delivery_lost_witness:
  "due 20000 hbFired \<and> (\<exists>s'. get_schedule ''sch_k_1'' (snd (tickOne (Some (cancellingDelivery (TMs 20001))) 20000 ''sch_k_1'' hbVm2))
      = Some s' \<and> hs_cancelledAt s' = Some 20001 \<and> hs_status s' = HbActive)"
proof -
  have d: "due 20000 hbFired" by (simp add: due_def hbFired_def terminalStatus_def)
  have f: "hs_kind hbFired = KInterval" "hs_maxFires hbFired = Some 3" "hs_fireCount hbFired + 1 < 3"
    by (simp_all add: hbFired_def)
  show ?thesis
    using cancel_during_delivery_lost[OF hbVm2_reach hbVm2_schedule d f, of "TMs 20001" 20001] d by auto
qed

section \<open>The quota\<close>

lemma filter_obj_put:
  "length (filter P (obj_values (obj_put k v ps))) \<le> Suc (length (filter P (obj_values ps)))"
proof -
  have "length (filter P (obj_values (obj_insert k v ps))) \<le> Suc (length (filter P (obj_values ps)))"
    by (induction ps) auto
  moreover have "length (filter P (obj_values (kv_replace k v ps))) \<le> Suc (length (filter P (obj_values ps)))"
    by (induction ps) auto
  ultimately show ?thesis by (simp add: obj_put_def)
qed

definition activeCount :: "HbVm \<Rightarrow> nat" where
  "activeCount vm = length (filter (\<lambda>s. \<not> terminalStatus (hs_status s)) (obj_values (schedules (ensureHeartbeatSchedulerState vm))))"

lemma length_listHeartbeat: "length (listHeartbeatSchedules lc isot vm None None None None) = activeCount vm"
  unfolding listHeartbeatSchedules_def activeCount_def Let_def length_js_sort
  by (rule arg_cong[of _ _ length], rule filter_cong) simp_all

lemma createSchedule_quota:
  assumes "createSchedule lc isot stamp vm owner oid now normalized limits kind status = (Inr s, vm')"
    "maxActiveSchedules limits = Some m"
  shows "int (activeCount vm') \<le> m"
proof -
  have q: "int (activeCount vm) < m"
    using assms by (auto simp: createSchedule_def assertActiveQuota_def length_listHeartbeat split: if_splits)
  obtain c nowMs vm1 where b: "createBaseSchedule stamp vm owner oid c kind status nowMs = (Inr s, vm1)"
    and vm': "vm' = emitHeartbeatRecord ''heartbeat.create'' False s (set_schedule s vm1)"
    using assms(1) by (auto simp: createSchedule_def split: sum.splits prod.splits)
  have "schedules (ensureHeartbeatSchedulerState vm1) = schedules (ensureHeartbeatSchedulerState vm)"
    using b by (auto simp: createBaseSchedule_def Let_def ensureHeartbeatSchedulerState_def split: option.splits)
  then have "activeCount vm' \<le> Suc (activeCount vm)"
    unfolding vm' activeCount_def using filter_obj_put by (simp add: ensure_set)
  then show ?thesis using q by simp
qed

text \<open>With a quota, a creation that succeeds leaves at most that many schedules active: the count the quota
  check reads is the one the list of active schedules shows, and one creation adds at most one.\<close>

theorem active_quota_kept:
  assumes "createHeartbeatTimeoutSchedule lc isot shw stamp vm owner oid now input limits = (Inr s, vm')
     \<or> createHeartbeatIntervalSchedule lc isot shw stamp vm owner oid now input limits = (Inr s, vm')"
    and "maxActiveSchedules limits = Some m"
  shows "int (length (listHeartbeatSchedules lc isot vm' None None None None)) \<le> m"
  using assms createSchedule_quota unfolding length_listHeartbeat
    createHeartbeatTimeoutSchedule_def createHeartbeatIntervalSchedule_def by blast

definition hbQuota :: HeartbeatLimits where
  "hbQuota = HEARTBEAT_DEFAULT_LIMITS\<lparr>maxActiveSchedules := Some 2\<rparr>"

theorem active_quota_kept_witness:
  "\<exists>s vm'. createHeartbeatTimeoutSchedule unit_compare show_int (\<lambda>_. []) ''k'' hbVm1 ''main'' ''a1'' (TMs 5)
       (hbInput ''delaySeconds'' 60) hbQuota = (Inr s, vm')
     \<and> int (length (listHeartbeatSchedules unit_compare show_int vm' None None None None)) \<le> 2"
proof -
  let ?r = "createHeartbeatTimeoutSchedule unit_compare show_int (\<lambda>_. []) ''k'' hbVm1 ''main'' ''a1'' (TMs 5)
     (hbInput ''delaySeconds'' 60) hbQuota"
  have "\<not> isl (fst ?r)" by code_simp
  then obtain s where s: "?r = (Inr s, snd ?r)" by (cases ?r; cases "fst ?r") auto
  have "maxActiveSchedules hbQuota = Some 2" by (simp add: hbQuota_def)
  then show ?thesis using active_quota_kept[OF disjI1[OF s]] s by blast
qed

end
