(* ===== verification/TimelineModel.thy ===== *)
theory TimelineModel
  imports JsPrelude
begin

text \<open>
  The bounded timeline: \<open>symbiont-contract/src/stream/BoundedTimeline.ts\<close> and
  \<open>symbiont-logic/src/stream/BoundedTimeline.ts\<close>. A timeline hands out consecutive sequence numbers, keeps the
  last entries in a ring buffer, notifies its listeners and forwards an entry to the channel it names.

  Channels are objects that outlive their place in the timeline's map, so they live in a store and the map holds
  their index. A listener is the subscription of a stream, named by a number; what it receives is recorded in
  \<open>bt_out\<close>. Listeners do not call back into the timeline while they are notified. When a stream is
  started and stopped is decided by \<open>xstream\<close>; \<open>streamStart\<close> and \<open>streamStop\<close> are the handlers it calls.
\<close>

definition LIVE_EVENT_REPLAY_LIMIT :: jnum where "LIVE_EVENT_REPLAY_LIMIT = Fin 0"
definition OBSERVABILITY_TRACE_REPLAY_LIMIT :: jnum where "OBSERVABILITY_TRACE_REPLAY_LIMIT = Fin 1000"

section \<open>The ring buffer\<close>

text \<open>Arrays of the language: a write past the end extends the array, a read outside gives undefined.\<close>

definition array_set :: "nat \<Rightarrow> 'a \<Rightarrow> 'a option list \<Rightarrow> 'a option list" where
  "array_set i v xs = (if i < length xs then xs[i := Some v] else xs @ replicate (i - length xs) None @ [Some v])"

definition array_get :: "'a option list \<Rightarrow> nat \<Rightarrow> 'a option" where
  "array_get xs i = (if i < length xs then xs ! i else None)"

record 'a RetainedWindow =
  rw_values :: "'a option list"
  rw_start :: nat
  rw_count :: nat
  rw_limit :: nat

definition new_window :: "nat \<Rightarrow> 'a RetainedWindow" where
  "new_window n = \<lparr>rw_values = [], rw_start = 0, rw_count = 0, rw_limit = n\<rparr>"

definition window_push :: "'a \<Rightarrow> 'a RetainedWindow \<Rightarrow> 'a RetainedWindow" where
  "window_push v w =
     (if rw_limit w = 0 then w
      else if rw_count w < rw_limit w
      then w\<lparr>rw_values := array_set ((rw_start w + rw_count w) mod rw_limit w) v (rw_values w), rw_count := rw_count w + 1\<rparr>
      else w\<lparr>rw_values := array_set (rw_start w) v (rw_values w), rw_start := (rw_start w + 1) mod rw_limit w\<rparr>)"

definition window_entries :: "'a RetainedWindow \<Rightarrow> 'a option list" where
  "window_entries w = map (\<lambda>i. array_get (rw_values w) ((rw_start w + i) mod rw_limit w)) [0..<rw_count w]"

definition window_size :: "'a RetainedWindow \<Rightarrow> nat" where
  "window_size w = rw_count w"

definition window_clear :: "'a RetainedWindow \<Rightarrow> 'a RetainedWindow" where
  "window_clear w = w\<lparr>rw_values := [], rw_start := 0, rw_count := 0\<rparr>"

section \<open>Timeline and channels\<close>

record 'a TimelineEntry =
  te_seq :: int
  te_at :: int
  te_value :: 'a
  te_channel :: "string option"

datatype 'a emission = Next nat "'a TimelineEntry option" | Complete nat

record 'a BoundedTimelineChannel =
  ch_id :: string
  ch_retained :: "'a TimelineEntry RetainedWindow"
  ch_listeners :: "nat list"
  ch_disposed :: bool

record 'a BoundedTimeline =
  bt_retained :: "'a TimelineEntry RetainedWindow"
  bt_listeners :: "nat list"
  bt_store :: "'a BoundedTimelineChannel list"
  bt_channels :: "(string \<times> nat) list"
  bt_retentionLimit :: nat
  bt_disposed :: bool
  bt_nextSeq :: int
  bt_out :: "'a emission list"

definition normalizeRetentionLimit :: "jnum \<Rightarrow> nat result" where
  "normalizeRetentionLimit limit = (case limit of
      Fin q \<Rightarrow> if q = of_int \<lfloor>q\<rfloor> \<and> is_safe_integer \<lfloor>q\<rfloor> \<and> 0 \<le> q then Inr (nat \<lfloor>q\<rfloor>)
               else Inl ''retentionLimit must be a non-negative safe integer''
    | _ \<Rightarrow> Inl ''retentionLimit must be a non-negative safe integer'')"

definition newBoundedTimeline :: "jnum \<Rightarrow> 'a BoundedTimeline result" where
  "newBoundedTimeline limit = bind_result (normalizeRetentionLimit limit) (\<lambda>n.
     Inr \<lparr>bt_retained = new_window n, bt_listeners = [], bt_store = [], bt_channels = [], bt_retentionLimit = n,
          bt_disposed = False, bt_nextSeq = 1, bt_out = []\<rparr>)"

text \<open>Adding to and deleting from the set of listeners.\<close>

definition set_add :: "'k \<Rightarrow> 'k list \<Rightarrow> 'k list" where
  "set_add k ks = (if k \<in> set ks then ks else ks @ [k])"

definition set_del :: "'k \<Rightarrow> 'k list \<Rightarrow> 'k list" where
  "set_del k ks = filter (\<lambda>x. x \<noteq> k) ks"

definition emit :: "'a emission list \<Rightarrow> 'a BoundedTimeline \<Rightarrow> 'a BoundedTimeline" where
  "emit es tml = tml\<lparr>bt_out := bt_out tml @ es\<rparr>"

definition get_channel :: "'a BoundedTimeline \<Rightarrow> nat \<Rightarrow> 'a BoundedTimelineChannel option" where
  "get_channel tml h = (if h < length (bt_store tml) then Some (bt_store tml ! h) else None)"

definition set_channel :: "nat \<Rightarrow> 'a BoundedTimelineChannel \<Rightarrow> 'a BoundedTimeline \<Rightarrow> 'a BoundedTimeline" where
  "set_channel h c tml = tml\<lparr>bt_store := (bt_store tml)[h := c]\<rparr>"

definition channel_push :: "nat \<Rightarrow> 'a TimelineEntry \<Rightarrow> 'a BoundedTimeline \<Rightarrow> 'a BoundedTimeline" where
  "channel_push h entry tml = (case get_channel tml h of
      None \<Rightarrow> tml
    | Some c \<Rightarrow> if ch_disposed c then tml
        else emit (map (\<lambda>l. Next l (Some entry)) (ch_listeners c))
               (set_channel h (c\<lparr>ch_retained := window_push entry (ch_retained c)\<rparr>) tml))"

definition timeline_append ::
  "int \<Rightarrow> 'a \<Rightarrow> string option \<Rightarrow> 'a BoundedTimeline \<Rightarrow> 'a TimelineEntry result \<times> 'a BoundedTimeline" where
  "timeline_append now v channel tml =
     (if bt_disposed tml then (Inl ''BoundedTimeline is disposed'', tml)
      else
        let entry = \<lparr>te_seq = bt_nextSeq tml, te_at = now, te_value = v, te_channel = channel\<rparr>;
            tml1 = tml\<lparr>bt_nextSeq := bt_nextSeq tml + 1, bt_retained := window_push entry (bt_retained tml)\<rparr>;
            tml2 = emit (map (\<lambda>l. Next l (Some entry)) (bt_listeners tml)) tml1;
            tml3 = (case channel of
                None \<Rightarrow> tml2
              | Some c \<Rightarrow> if c = [] then tml2
                  else (case map_of (bt_channels tml2) c of None \<Rightarrow> tml2 | Some h \<Rightarrow> channel_push h entry tml2))
        in (Inr entry, tml3))"

definition timeline_entries :: "'a BoundedTimeline \<Rightarrow> 'a TimelineEntry option list" where
  "timeline_entries tml = window_entries (bt_retained tml)"

definition timeline_size :: "'a BoundedTimeline \<Rightarrow> nat" where
  "timeline_size tml = window_size (bt_retained tml)"

definition createChannel :: "string \<Rightarrow> 'a BoundedTimeline \<Rightarrow> nat result \<times> 'a BoundedTimeline" where
  "createChannel i tml =
     (if bt_disposed tml then (Inl ''BoundedTimeline is disposed'', tml)
      else if map_of (bt_channels tml) i \<noteq> None then (Inl (''Duplicate timeline channel id: '' @ i), tml)
      else let c = \<lparr>ch_id = i, ch_retained = new_window (bt_retentionLimit tml), ch_listeners = [], ch_disposed = False\<rparr>;
               h = length (bt_store tml)
           in (Inr h, tml\<lparr>bt_store := bt_store tml @ [c], bt_channels := jmap_set i h (bt_channels tml)\<rparr>))"

definition channel_append ::
  "nat \<Rightarrow> int \<Rightarrow> 'a \<Rightarrow> 'a BoundedTimeline \<Rightarrow> 'a TimelineEntry result \<times> 'a BoundedTimeline" where
  "channel_append h now v tml = (case get_channel tml h of
      None \<Rightarrow> (Inl ''no such channel'', tml)
    | Some c \<Rightarrow> if ch_disposed c then (Inl (''Timeline channel '' @ [CHR 0x27] @ ch_id c @ [CHR 0x27] @ '' is disposed''), tml)
        else timeline_append now v (Some (ch_id c)) tml)"

definition channel_entries :: "nat \<Rightarrow> 'a BoundedTimeline \<Rightarrow> 'a TimelineEntry option list" where
  "channel_entries h tml = (case get_channel tml h of None \<Rightarrow> [] | Some c \<Rightarrow> window_entries (ch_retained c))"

definition channel_close :: "'a BoundedTimelineChannel \<Rightarrow> 'a BoundedTimelineChannel" where
  "channel_close c = c\<lparr>ch_disposed := True, ch_retained := window_clear (ch_retained c), ch_listeners := []\<rparr>"

definition channel_dispose :: "nat \<Rightarrow> 'a BoundedTimeline \<Rightarrow> 'a BoundedTimeline" where
  "channel_dispose h tml = (case get_channel tml h of
      None \<Rightarrow> tml
    | Some c \<Rightarrow> if ch_disposed c then tml
        else (set_channel h (channel_close c) tml)\<lparr>bt_channels := kv_delete (ch_id c) (bt_channels tml)\<rparr>)"

definition timeline_dispose :: "'a BoundedTimeline \<Rightarrow> 'a BoundedTimeline" where
  "timeline_dispose tml =
     (if bt_disposed tml then tml
      else foldl (\<lambda>t h. case get_channel t h of None \<Rightarrow> t | Some c \<Rightarrow> set_channel h (channel_close c) t)
             (tml\<lparr>bt_disposed := True, bt_retained := window_clear (bt_retained tml), bt_listeners := []\<rparr>)
             (obj_values (bt_channels tml))
           \<lparr>bt_channels := []\<rparr>)"

section \<open>Streams\<close>

text \<open>The handlers of a replayable stream on the timeline or on one of its channels.\<close>

datatype streamSource = OnTimeline | OnChannel nat

fun src_entries :: "streamSource \<Rightarrow> 'a BoundedTimeline \<Rightarrow> 'a TimelineEntry option list" where
  "src_entries OnTimeline tml = timeline_entries tml"
| "src_entries (OnChannel h) tml = channel_entries h tml"

fun src_disposed :: "streamSource \<Rightarrow> 'a BoundedTimeline \<Rightarrow> bool" where
  "src_disposed OnTimeline tml = bt_disposed tml"
| "src_disposed (OnChannel h) tml = (case get_channel tml h of None \<Rightarrow> True | Some c \<Rightarrow> ch_disposed c)"

fun update_listeners :: "streamSource \<Rightarrow> (nat list \<Rightarrow> nat list) \<Rightarrow> 'a BoundedTimeline \<Rightarrow> 'a BoundedTimeline" where
  "update_listeners OnTimeline f tml = tml\<lparr>bt_listeners := f (bt_listeners tml)\<rparr>"
| "update_listeners (OnChannel h) f tml = (case get_channel tml h of
      None \<Rightarrow> tml | Some c \<Rightarrow> set_channel h (c\<lparr>ch_listeners := f (ch_listeners c)\<rparr>) tml)"

definition streamStop :: "streamSource \<Rightarrow> nat \<Rightarrow> 'a BoundedTimeline \<Rightarrow> 'a BoundedTimeline" where
  "streamStop src l tml = update_listeners src (set_del l) tml"

definition streamStart :: "streamSource \<Rightarrow> bool option \<Rightarrow> nat \<Rightarrow> 'a BoundedTimeline \<Rightarrow> 'a BoundedTimeline" where
  "streamStart src replay l tml =
     (let tml1 = streamStop src l tml;
          tml2 = (if nullish replay True then emit (map (Next l) (src_entries src tml1)) tml1 else tml1)
      in if src_disposed src tml2 then emit [Complete l] tml2
         else update_listeners src (set_add l) tml2)"

end
