(* ===== verification/TimelineProps.thy ===== *)
theory TimelineProps
  imports TimelineModel
begin

text \<open>
  The bounded timeline refines a timeline that remembers everything. Locale \<open>retention\<close> is the contract of the
  window that holds the recent entries; the ring buffer is its interpretation. \<open>TimelineSpec\<close> is the abstract
  timeline: complete histories, channels found by their open id, and the window only as a view on the history.
\<close>

section \<open>The window\<close>

definition lastn :: "nat \<Rightarrow> 'a list \<Rightarrow> 'a list" where
  "lastn n xs = drop (length xs - n) xs"

text \<open>A window with limit \<open>n\<close> that has been given \<open>xs\<close> since it was created or cleared.\<close>

locale retention =
  fixes fresh :: "nat \<Rightarrow> 'w"
    and push :: "'a \<Rightarrow> 'w \<Rightarrow> 'w"
    and clear :: "'w \<Rightarrow> 'w"
    and entries :: "'w \<Rightarrow> 'a option list"
    and count :: "'w \<Rightarrow> nat"
    and holds :: "nat \<Rightarrow> 'w \<Rightarrow> 'a list \<Rightarrow> bool"
  assumes holds_fresh: "holds n (fresh n) []"
    and holds_push: "holds n w xs \<Longrightarrow> holds n (push v w) (xs @ [v])"
    and holds_clear: "holds n w xs \<Longrightarrow> holds n (clear w) []"
    and entries_holds: "holds n w xs \<Longrightarrow> entries w = map Some (lastn n xs)"
    and count_holds: "holds n w xs \<Longrightarrow> count w = min n (length xs)"
begin

lemma holds_all: "holds n w xs \<Longrightarrow> holds n (foldl (\<lambda>w v. push v w) w ys) (xs @ ys)"
  by (induction ys arbitrary: w xs) (use holds_push in force)+

lemma entries_all: "entries (foldl (\<lambda>w v. push v w) (fresh n) xs) = map Some (lastn n xs)"
  using holds_all[OF holds_fresh, of n xs] by (intro entries_holds) simp

lemma count_all: "count (foldl (\<lambda>w v. push v w) (fresh n) xs) = min n (length xs)"
  using holds_all[OF holds_fresh, of n xs] by (intro count_holds) simp

lemma count_entries: "holds n w xs \<Longrightarrow> count w = length (entries w)"
  by (simp add: entries_holds count_holds lastn_def)

end

definition ring :: "nat \<Rightarrow> 'a RetainedWindow \<Rightarrow> 'a list \<Rightarrow> bool" where
  "ring n w xs \<longleftrightarrow> (let k = min n (length xs) in
     rw_limit w = n \<and> rw_count w = k \<and> length (rw_values w) = k \<and> rw_start w = (if n = 0 then 0 else (length xs - k) mod n)
     \<and> (\<forall>j. length xs - k \<le> j \<and> j < length xs \<longrightarrow> rw_values w ! (j mod n) = Some (xs ! j)))"

lemma mod_distinct:
  assumes "a < b" "b < a + n"
  shows "a mod n \<noteq> b mod (n::nat)"
proof
  assume "a mod n = b mod n"
  then have "n dvd b - a" using assms(1) by (metis mod_eq_dvd_iff_nat less_imp_le)
  then show False using assms by (auto dest: dvd_imp_le)
qed

lemma ring_push:
  assumes r: "ring n w xs"
  shows "ring n (window_push v w) (xs @ [v])"
proof -
  let ?l = "length xs"
  have w: "rw_limit w = n" "rw_count w = min n ?l" "length (rw_values w) = min n ?l"
    "0 < n \<Longrightarrow> rw_start w = (?l - min n ?l) mod n" "n = 0 \<Longrightarrow> rw_start w = 0"
    "\<And>j. ?l - min n ?l \<le> j \<Longrightarrow> j < ?l \<Longrightarrow> rw_values w ! (j mod n) = Some (xs ! j)"
    using r by (auto simp: ring_def Let_def)
  consider "n = 0" | "n > 0" "?l < n" | "n > 0" "n \<le> ?l" by linarith
  then show ?thesis
  proof cases
    case 1
    then show ?thesis using w(1-3,5) by (auto simp: ring_def window_push_def)
  next
    case 2
    have "(rw_values w @ [Some v]) ! (j mod n) = Some ((xs @ [v]) ! j)" if "j < Suc ?l" for j
      using that w(3) w(6)[of j] 2 by (cases "j = ?l") (simp_all add: nth_append min_def)
    then show ?thesis
      using 2 w(1-4) by (simp add: ring_def window_push_def array_set_def Let_def min_def)
  next
    case 3
    have s: "rw_start w = ?l mod n" using 3 w(4) by (simp add: min_def le_mod_geq)
    have "(rw_values w)[rw_start w := Some v] ! (j mod n) = Some ((xs @ [v]) ! j)"
      if j: "Suc ?l - n \<le> j" "j < Suc ?l" for j
    proof (cases "j = ?l")
      case True
      then show ?thesis using 3 w(3) s by simp
    next
      case False
      then have "j mod n \<noteq> ?l mod n" using j by (intro mod_distinct) simp_all
      then show ?thesis using False j 3 s w(6)[of j] by (simp add: nth_append min_def)
    qed
    moreover have "(rw_start w + 1) mod n = (Suc ?l - n) mod n" using 3 s by (simp add: mod_Suc_eq le_mod_geq Suc_diff_le)
    ultimately show ?thesis
      using 3 w(1-3) s by (simp add: ring_def window_push_def array_set_def Let_def min_def)
  qed
qed

lemma ring_entries:
  assumes r: "ring n w xs"
  shows "window_entries w = map Some (lastn n xs)"
proof (rule nth_equalityI)
  let ?l = "length xs" and ?k = "min n (length xs)"
  have w: "rw_limit w = n" "rw_count w = ?k" "length (rw_values w) = ?k" "0 < n \<Longrightarrow> rw_start w = (?l - ?k) mod n"
    "\<And>j. ?l - ?k \<le> j \<Longrightarrow> j < ?l \<Longrightarrow> rw_values w ! (j mod n) = Some (xs ! j)"
    using r by (auto simp: ring_def Let_def)
  show "length (window_entries w) = length (map Some (lastn n xs))"
    using w(2) by (simp add: window_entries_def lastn_def min_def)
  fix i assume "i < length (window_entries w)"
  then have i: "i < ?k" using w(2) by (simp add: window_entries_def)
  have "((?l - ?k) mod n + i) mod n = (?l - ?k + i) mod n" by (simp add: mod_add_left_eq)
  moreover have "(?l - ?k + i) mod n < ?k"
  proof (cases "n \<le> ?l")
    case True
    then show ?thesis using i by (simp add: min_def)
  next
    case False
    then show ?thesis using i by (simp add: min_def)
  qed
  moreover have "rw_values w ! ((?l - ?k + i) mod n) = Some (xs ! (?l - ?k + i))"
    by (rule w(5)) (use i in \<open>simp_all add: min_def split: if_splits\<close>)
  moreover have "lastn n xs ! i = xs ! (?l - ?k + i)" using i by (simp add: lastn_def min_def)
  moreover have "i < length (lastn n xs)" "0 < n" using i by (auto simp: lastn_def)
  ultimately show "window_entries w ! i = map Some (lastn n xs) ! i"
    using i w(1-4) by (simp add: window_entries_def array_get_def)
qed

interpretation rw: retention new_window window_push window_clear window_entries window_size ring
proof (unfold_locales, goal_cases)
  case (1 n)
  then show ?case by (simp add: ring_def new_window_def)
next
  case (2 n w xs v)
  then show ?case by (rule ring_push)
next
  case (3 n w xs)
  then show ?case by (simp add: ring_def window_clear_def Let_def)
next
  case (4 n w xs)
  then show ?case by (rule ring_entries)
next
  case (5 n w xs)
  then show ?case unfolding ring_def Let_def window_size_def by blast
qed

text \<open>The ring buffer refines a list: after any sequence of pushes its entries are the last \<open>n\<close> values pushed,
  in order, its size is their number, and its array never holds more than \<open>n\<close> slots.\<close>

theorem ring_refines_list:
  "window_entries (foldl (\<lambda>w v. window_push v w) (new_window n) xs) = map Some (lastn n xs)
   \<and> window_size (foldl (\<lambda>w v. window_push v w) (new_window n) xs) = min n (length xs)
   \<and> length (rw_values (foldl (\<lambda>w v. window_push v w) (new_window n) xs)) \<le> n"
  using rw.entries_all[of n xs] rw.count_all[of n xs] rw.holds_all[OF rw.holds_fresh, of n xs]
  by (simp add: ring_def Let_def)

end
