(* ===== verification/TimelineSpec.thy ===== *)
theory TimelineSpec
  imports TimelineProps
begin

text \<open>
  The abstract timeline and the simulation. \<open>tlStep\<close> runs one operation on the timeline and \<open>specStep\<close> on the
  abstract one; both answer with a reply. The relation \<open>sim\<close> is kept by every operation, so a client cannot tell
  the two apart by replies, by what its listeners receive, or by the entries it reads.
\<close>

section \<open>Operations of a client\<close>

datatype 'a tlOp =
    OpAppend int 'a "string option"
  | OpCreateChannel string
  | OpChannelAppend nat int 'a
  | OpChannelDispose nat
  | OpDispose
  | OpStart streamSource "bool option" nat
  | OpStop streamSource nat

datatype 'a reply = Entry "'a TimelineEntry" | Handle nat | Raised string | Finished

fun entry_reply :: "'a TimelineEntry result \<Rightarrow> 'a reply" where
  "entry_reply (Inl e) = Raised e"
| "entry_reply (Inr x) = Entry x"

fun handle_reply :: "nat result \<Rightarrow> 'a reply" where
  "handle_reply (Inl e) = Raised e"
| "handle_reply (Inr h) = Handle h"

fun tlStep :: "'a tlOp \<Rightarrow> 'a BoundedTimeline \<Rightarrow> 'a reply \<times> 'a BoundedTimeline" where
  "tlStep (OpAppend now v c) tml = map_prod entry_reply id (timeline_append now v c tml)"
| "tlStep (OpCreateChannel i) tml = map_prod handle_reply id (createChannel i tml)"
| "tlStep (OpChannelAppend h now v) tml = map_prod entry_reply id (channel_append h now v tml)"
| "tlStep (OpChannelDispose h) tml = (Finished, channel_dispose h tml)"
| "tlStep OpDispose tml = (Finished, timeline_dispose tml)"
| "tlStep (OpStart src replay l) tml = (Finished, streamStart src replay l tml)"
| "tlStep (OpStop src l) tml = (Finished, streamStop src l tml)"

section \<open>The abstract timeline\<close>

record 'a ChanSpec =
  cs_id :: string
  cs_history :: "'a TimelineEntry list"
  cs_listeners :: "nat list"
  cs_open :: bool

record 'a TimelineSpec =
  sp_limit :: nat
  sp_history :: "'a TimelineEntry list"
  sp_open :: bool
  sp_listeners :: "nat list"
  sp_chans :: "'a ChanSpec list"
  sp_out :: "'a emission list"

definition spec_new :: "nat \<Rightarrow> 'a TimelineSpec" where
  "spec_new n = \<lparr>sp_limit = n, sp_history = [], sp_open = True, sp_listeners = [], sp_chans = [], sp_out = []\<rparr>"

definition receives :: "string option \<Rightarrow> 'a ChanSpec \<Rightarrow> bool" where
  "receives channel c \<longleftrightarrow> cs_open c \<and> channel = Some (cs_id c) \<and> cs_id c \<noteq> []"

definition notify :: "'a TimelineEntry \<Rightarrow> nat list \<Rightarrow> 'a emission list" where
  "notify e ls = map (\<lambda>l. Next l (Some e)) ls"

definition spec_append ::
  "int \<Rightarrow> 'a \<Rightarrow> string option \<Rightarrow> 'a TimelineSpec \<Rightarrow> 'a TimelineEntry result \<times> 'a TimelineSpec" where
  "spec_append now v channel sp =
     (if \<not> sp_open sp then (Inl ''BoundedTimeline is disposed'', sp)
      else let e = \<lparr>te_seq = int (length (sp_history sp)) + 1, te_at = now, te_value = v, te_channel = channel\<rparr> in
        (Inr e, sp\<lparr>sp_history := sp_history sp @ [e],
           sp_chans := map (\<lambda>c. if receives channel c then c\<lparr>cs_history := cs_history c @ [e]\<rparr> else c) (sp_chans sp),
           sp_out := sp_out sp @ notify e (sp_listeners sp)
              @ concat (map (\<lambda>c. if receives channel c then notify e (cs_listeners c) else []) (sp_chans sp))\<rparr>))"

definition spec_create :: "string \<Rightarrow> 'a TimelineSpec \<Rightarrow> nat result \<times> 'a TimelineSpec" where
  "spec_create i sp =
     (if \<not> sp_open sp then (Inl ''BoundedTimeline is disposed'', sp)
      else if list_ex (\<lambda>c. cs_open c \<and> cs_id c = i) (sp_chans sp) then (Inl (''Duplicate timeline channel id: '' @ i), sp)
      else (Inr (length (sp_chans sp)), sp\<lparr>sp_chans := sp_chans sp
              @ [\<lparr>cs_id = i, cs_history = [], cs_listeners = [], cs_open = True\<rparr>]\<rparr>))"

definition spec_channel :: "'a TimelineSpec \<Rightarrow> nat \<Rightarrow> 'a ChanSpec option" where
  "spec_channel sp h = (if h < length (sp_chans sp) then Some (sp_chans sp ! h) else None)"

definition spec_channel_append ::
  "nat \<Rightarrow> int \<Rightarrow> 'a \<Rightarrow> 'a TimelineSpec \<Rightarrow> 'a TimelineEntry result \<times> 'a TimelineSpec" where
  "spec_channel_append h now v sp = (case spec_channel sp h of
      None \<Rightarrow> (Inl ''no such channel'', sp)
    | Some c \<Rightarrow> if \<not> cs_open c then (Inl (''Timeline channel '' @ [CHR 0x27] @ cs_id c @ [CHR 0x27] @ '' is disposed''), sp)
        else spec_append now v (Some (cs_id c)) sp)"

definition spec_close :: "'a ChanSpec \<Rightarrow> 'a ChanSpec" where
  "spec_close c = (if cs_open c then c\<lparr>cs_open := False, cs_listeners := []\<rparr> else c)"

definition spec_channel_dispose :: "nat \<Rightarrow> 'a TimelineSpec \<Rightarrow> 'a TimelineSpec" where
  "spec_channel_dispose h sp = (case spec_channel sp h of
      None \<Rightarrow> sp | Some c \<Rightarrow> sp\<lparr>sp_chans := (sp_chans sp)[h := spec_close c]\<rparr>)"

definition spec_dispose :: "'a TimelineSpec \<Rightarrow> 'a TimelineSpec" where
  "spec_dispose sp = (if sp_open sp then sp\<lparr>sp_open := False, sp_listeners := [], sp_chans := map spec_close (sp_chans sp)\<rparr>
     else sp)"

text \<open>What a reader sees: the last \<open>n\<close> entries of the history, nothing once it is disposed.\<close>

fun view :: "streamSource \<Rightarrow> 'a TimelineSpec \<Rightarrow> 'a TimelineEntry list" where
  "view OnTimeline sp = (if sp_open sp then lastn (sp_limit sp) (sp_history sp) else [])"
| "view (OnChannel h) sp = (case spec_channel sp h of None \<Rightarrow> []
     | Some c \<Rightarrow> if cs_open c then lastn (sp_limit sp) (cs_history c) else [])"

fun spec_is_open :: "streamSource \<Rightarrow> 'a TimelineSpec \<Rightarrow> bool" where
  "spec_is_open OnTimeline sp = sp_open sp"
| "spec_is_open (OnChannel h) sp = (case spec_channel sp h of None \<Rightarrow> False | Some c \<Rightarrow> cs_open c)"

fun spec_listeners :: "streamSource \<Rightarrow> (nat list \<Rightarrow> nat list) \<Rightarrow> 'a TimelineSpec \<Rightarrow> 'a TimelineSpec" where
  "spec_listeners OnTimeline f sp = sp\<lparr>sp_listeners := f (sp_listeners sp)\<rparr>"
| "spec_listeners (OnChannel h) f sp = (case spec_channel sp h of None \<Rightarrow> sp
     | Some c \<Rightarrow> sp\<lparr>sp_chans := (sp_chans sp)[h := c\<lparr>cs_listeners := f (cs_listeners c)\<rparr>]\<rparr>)"

definition spec_start :: "streamSource \<Rightarrow> bool option \<Rightarrow> nat \<Rightarrow> 'a TimelineSpec \<Rightarrow> 'a TimelineSpec" where
  "spec_start src replay l sp =
     (let sp1 = spec_listeners src (set_del l) sp;
          sp2 = sp1\<lparr>sp_out := sp_out sp1 @ (if nullish replay True then map (\<lambda>e. Next l (Some e)) (view src sp1) else [])\<rparr>
      in if spec_is_open src sp2 then spec_listeners src (set_add l) sp2
         else sp2\<lparr>sp_out := sp_out sp2 @ [Complete l]\<rparr>)"

fun specStep :: "'a tlOp \<Rightarrow> 'a TimelineSpec \<Rightarrow> 'a reply \<times> 'a TimelineSpec" where
  "specStep (OpAppend now v c) sp = map_prod entry_reply id (spec_append now v c sp)"
| "specStep (OpCreateChannel i) sp = map_prod handle_reply id (spec_create i sp)"
| "specStep (OpChannelAppend h now v) sp = map_prod entry_reply id (spec_channel_append h now v sp)"
| "specStep (OpChannelDispose h) sp = (Finished, spec_channel_dispose h sp)"
| "specStep OpDispose sp = (Finished, spec_dispose sp)"
| "specStep (OpStart src replay l) sp = (Finished, spec_start src replay l sp)"
| "specStep (OpStop src l) sp = (Finished, spec_listeners src (set_del l) sp)"

text \<open>Runs of a client: the replies in order and the final state.\<close>

fun run_ops :: "('o \<Rightarrow> 's \<Rightarrow> 'r \<times> 's) \<Rightarrow> 'o list \<Rightarrow> 's \<Rightarrow> 'r list \<times> 's" where
  "run_ops step [] s = ([], s)"
| "run_ops step (op # ops) s = (case step op s of (r, s') \<Rightarrow> map_prod (\<lambda>rs. r # rs) id (run_ops step ops s'))"

section \<open>The simulation\<close>

text \<open>What the window of a part has been given: nothing once the part is closed.\<close>

definition kept :: "bool \<Rightarrow> 'a list \<Rightarrow> 'a list" where
  "kept b xs = (if b then xs else [])"

lemma kept_simps [simp]: "kept True xs = xs" "kept False xs = []"
  by (simp_all add: kept_def)

definition chan_sim :: "nat \<Rightarrow> 'a BoundedTimelineChannel \<Rightarrow> 'a ChanSpec \<Rightarrow> bool" where
  "chan_sim n c s \<longleftrightarrow> ch_id c = cs_id s \<and> ch_disposed c = (\<not> cs_open s) \<and> ch_listeners c = cs_listeners s
     \<and> ring n (ch_retained c) (kept (cs_open s) (cs_history s))"

definition index_sim :: "(string \<times> nat) list \<Rightarrow> 'a ChanSpec list \<Rightarrow> bool" where
  "index_sim m cs \<longleftrightarrow> distinct (map fst m)
     \<and> (\<forall>i h. map_of m i = Some h \<longleftrightarrow> h < length cs \<and> cs_open (cs ! h) \<and> cs_id (cs ! h) = i)"

definition sim :: "'a BoundedTimeline \<Rightarrow> 'a TimelineSpec \<Rightarrow> bool" where
  "sim tml sp \<longleftrightarrow> bt_retentionLimit tml = sp_limit sp \<and> bt_disposed tml = (\<not> sp_open sp)
     \<and> bt_listeners tml = sp_listeners sp \<and> bt_out tml = sp_out sp \<and> bt_nextSeq tml = int (length (sp_history sp)) + 1
     \<and> ring (sp_limit sp) (bt_retained tml) (kept (sp_open sp) (sp_history sp))
     \<and> list_all2 (chan_sim (sp_limit sp)) (bt_store tml) (sp_chans sp)
     \<and> index_sim (bt_channels tml) (sp_chans sp)"

end
