(* ===== verification/TimelineRefinement.thy ===== *)
theory TimelineRefinement
  imports TimelineSpec
begin

text \<open>The proof that the bounded timeline simulates the abstract one, operation by operation.\<close>

section \<open>Lists with one matching element\<close>

lemma map_single:
  assumes "h < length xs" "\<And>j. j < length xs \<Longrightarrow> P (xs ! j) \<longleftrightarrow> j = h"
  shows "map (\<lambda>x. if P x then f x else x) xs = xs[h := f (xs ! h)]"
  using assms by (intro nth_equalityI) (auto simp: nth_list_update)

lemma concat_single:
  assumes "h < length xs" "\<And>j. j < length xs \<Longrightarrow> P (xs ! j) \<longleftrightarrow> j = h"
  shows "concat (map (\<lambda>x. if P x then g x else []) xs) = g (xs ! h)"
proof -
  let ?f = "\<lambda>x. if P x then g x else []"
  have none: "concat (map ?f ys) = []" if "\<And>y. y \<in> set ys \<Longrightarrow> \<not> P y" for ys using that by (induction ys) auto
  have "\<not> P y" if "y \<in> set (take h xs)" for y
    using that assms by (fastforce simp: in_set_conv_nth)
  moreover have "\<not> P y" if "y \<in> set (drop (Suc h) xs)" for y
    using that assms(2) by (force simp: in_set_conv_nth)
  ultimately have "concat (map ?f (take h xs)) = []" "concat (map ?f (drop (Suc h) xs)) = []" by (blast intro: none)+
  then have "concat (map ?f (take h xs @ xs ! h # drop (Suc h) xs)) = g (xs ! h)"
    using assms by (simp del: concat_eq_Nil_conv)
  then show ?thesis by (simp only: id_take_nth_drop[OF assms(1), symmetric])
qed

lemma none_match:
  assumes "\<And>x. x \<in> set xs \<Longrightarrow> \<not> P x"
  shows "map (\<lambda>x. if P x then f x else x) xs = xs" "concat (map (\<lambda>x. if P x then g x else []) xs) = []"
  using assms by (induction xs) auto

section \<open>Reading related states\<close>

lemma sim_channel:
  assumes "sim tml sp"
  shows "get_channel tml h = None \<longleftrightarrow> spec_channel sp h = None"
    "get_channel tml h = Some c \<Longrightarrow> \<exists>s. spec_channel sp h = Some s \<and> h < length (sp_chans sp) \<and> s = sp_chans sp ! h
       \<and> chan_sim (sp_limit sp) c s"
proof -
  have l: "length (bt_store tml) = length (sp_chans sp)" and r: "list_all2 (chan_sim (sp_limit sp)) (bt_store tml) (sp_chans sp)"
    using assms by (auto simp: sim_def dest: list_all2_lengthD)
  show "get_channel tml h = None \<longleftrightarrow> spec_channel sp h = None" using l by (simp add: get_channel_def spec_channel_def)
  show "\<exists>s. spec_channel sp h = Some s \<and> h < length (sp_chans sp) \<and> s = sp_chans sp ! h \<and> chan_sim (sp_limit sp) c s"
    if "get_channel tml h = Some c"
    using that l list_all2_nthD[OF r] by (auto simp: get_channel_def spec_channel_def split: if_splits)
qed

lemma sim_entries:
  assumes "sim tml sp"
  shows "timeline_entries tml = map Some (view OnTimeline sp)"
    "timeline_size tml = length (view OnTimeline sp)"
    "channel_entries h tml = map Some (view (OnChannel h) sp)"
proof -
  have r: "ring (sp_limit sp) (bt_retained tml) (kept (sp_open sp) (sp_history sp))" using assms by (simp add: sim_def)
  have lastn_nil: "lastn n [] = []" for n by (simp add: lastn_def)
  show e: "timeline_entries tml = map Some (view OnTimeline sp)"
    unfolding timeline_entries_def rw.entries_holds[OF r] by (simp add: lastn_nil kept_def)
  then have "length (window_entries (bt_retained tml)) = length (view OnTimeline sp)" by (simp add: timeline_entries_def)
  then show "timeline_size tml = length (view OnTimeline sp)"
    unfolding timeline_size_def rw.count_entries[OF r] .
  show "channel_entries h tml = map Some (view (OnChannel h) sp)"
  proof (cases "get_channel tml h")
    case None
    then have "spec_channel sp h = None" using sim_channel(1)[OF assms] by blast
    then show ?thesis using None by (simp add: channel_entries_def)
  next
    case (Some c)
    then obtain s where s: "spec_channel sp h = Some s" "chan_sim (sp_limit sp) c s" using sim_channel(2)[OF assms] by blast
    then have "ring (sp_limit sp) (ch_retained c) (kept (cs_open s) (cs_history s))" by (simp add: chan_sim_def)
    from rw.entries_holds[OF this] show ?thesis using Some s(1) by (simp add: channel_entries_def lastn_nil kept_def)
  qed
qed

lemma sim_set_channel:
  assumes "sim tml sp" "h < length (sp_chans sp)" "chan_sim (sp_limit sp) c s"
    "cs_open s = cs_open (sp_chans sp ! h)" "cs_id s = cs_id (sp_chans sp ! h)"
  shows "sim (set_channel h c tml) (sp\<lparr>sp_chans := (sp_chans sp)[h := s]\<rparr>)"
proof -
  have "index_sim (bt_channels tml) ((sp_chans sp)[h := s])"
    using assms(1,2,4,5) by (auto simp: sim_def index_sim_def nth_list_update)
  moreover have "list_all2 (chan_sim (sp_limit sp)) ((bt_store tml)[h := c]) ((sp_chans sp)[h := s])"
    using assms(1,3) by (intro list_all2_update_cong) (simp_all add: sim_def)
  ultimately show ?thesis using assms(1) by (simp add: sim_def set_channel_def)
qed

lemma sim_emit: "sim tml sp \<Longrightarrow> sim (emit es tml) (sp\<lparr>sp_out := sp_out sp @ es\<rparr>)"
  by (simp add: sim_def emit_def)

lemma sim_limits: "sim tml sp \<Longrightarrow> bt_disposed tml = (\<not> sp_open sp)"
  by (simp add: sim_def)

section \<open>Appending\<close>

lemma index_receives:
  assumes "index_sim m cs" "c \<noteq> []"
  shows "map_of m c = None \<Longrightarrow> x \<in> set cs \<Longrightarrow> \<not> receives (Some c) x"
    "map_of m c = Some h \<Longrightarrow> h < length cs \<and> (\<forall>j < length cs. receives (Some c) (cs ! j) \<longleftrightarrow> j = h)"
proof -
  have ix: "map_of m c = Some h \<longleftrightarrow> h < length cs \<and> cs_open (cs ! h) \<and> cs_id (cs ! h) = c" for h
    using assms(1) by (simp add: index_sim_def)
  have r: "receives (Some c) (cs ! j) \<longleftrightarrow> map_of m c = Some j" if "j < length cs" for j
    using that assms(2) unfolding ix receives_def by auto
  show "map_of m c = None \<Longrightarrow> x \<in> set cs \<Longrightarrow> \<not> receives (Some c) x"
    using r unfolding in_set_conv_nth by auto
  show "map_of m c = Some h \<Longrightarrow> h < length cs \<and> (\<forall>j < length cs. receives (Some c) (cs ! j) \<longleftrightarrow> j = h)"
    using r ix[of h] by auto
qed

lemma sim_append_main:
  assumes "sim tml sp" "sp_open sp" "te_seq e = bt_nextSeq tml"
  shows "sim (emit (notify e (bt_listeners tml))
       (tml\<lparr>bt_nextSeq := bt_nextSeq tml + 1, bt_retained := window_push e (bt_retained tml)\<rparr>))
     (sp\<lparr>sp_history := sp_history sp @ [e], sp_out := sp_out sp @ notify e (sp_listeners sp)\<rparr>)"
  using assms rw.holds_push[of "sp_limit sp" "bt_retained tml" "sp_history sp" e] by (simp add: sim_def emit_def)

lemma sim_channel_push:
  assumes s: "sim tml sp" and c: "c \<noteq> []" and h: "map_of (bt_channels tml) c = Some h"
  shows "sim (channel_push h e tml)
     (sp\<lparr>sp_chans := map (\<lambda>x. if receives (Some c) x then x\<lparr>cs_history := cs_history x @ [e]\<rparr> else x) (sp_chans sp),
        sp_out := sp_out sp @ concat (map (\<lambda>x. if receives (Some c) x then notify e (cs_listeners x) else []) (sp_chans sp))\<rparr>)"
proof -
  have ix: "index_sim (bt_channels tml) (sp_chans sp)" using s by (simp add: sim_def)
  have hl: "h < length (sp_chans sp)" and un: "\<And>j. j < length (sp_chans sp) \<Longrightarrow> receives (Some c) (sp_chans sp ! j) \<longleftrightarrow> j = h"
    using index_receives(2)[OF ix c h] by simp_all
  let ?x = "sp_chans sp ! h" let ?x' = "?x\<lparr>cs_history := cs_history ?x @ [e]\<rparr>"
  have o: "cs_open ?x" using ix h by (simp add: index_sim_def)
  have "get_channel tml h \<noteq> None" using sim_channel(1)[OF s, of h] hl by (simp add: spec_channel_def)
  then obtain ch where ch: "get_channel tml h = Some ch" by auto
  have cs: "chan_sim (sp_limit sp) ch ?x" using sim_channel(2)[OF s ch] by auto
  then have cs': "chan_sim (sp_limit sp) (ch\<lparr>ch_retained := window_push e (ch_retained ch)\<rparr>) ?x'"
    using o rw.holds_push[of "sp_limit sp" "ch_retained ch" "cs_history ?x" e] by (simp add: chan_sim_def)
  have m: "map (\<lambda>x. if receives (Some c) x then x\<lparr>cs_history := cs_history x @ [e]\<rparr> else x) (sp_chans sp)
      = (sp_chans sp)[h := ?x']" by (rule map_single[OF hl un])
  have k: "concat (map (\<lambda>x. if receives (Some c) x then notify e (cs_listeners x) else []) (sp_chans sp))
      = notify e (cs_listeners ?x)" by (rule concat_single[OF hl un])
  have "sim (emit (notify e (cs_listeners ?x)) (set_channel h (ch\<lparr>ch_retained := window_push e (ch_retained ch)\<rparr>) tml))
     (sp\<lparr>sp_chans := (sp_chans sp)[h := ?x'], sp_out := sp_out sp @ notify e (cs_listeners ?x)\<rparr>)"
    using sim_emit[OF sim_set_channel[OF s hl cs'], of "notify e (cs_listeners ?x)"] by simp
  then show ?thesis
    unfolding m k using ch cs o by (simp add: channel_push_def chan_sim_def notify_def)
qed

lemma sim_append:
  assumes s: "sim tml sp"
  shows "fst (timeline_append now v channel tml) = fst (spec_append now v channel sp)
     \<and> sim (snd (timeline_append now v channel tml)) (snd (spec_append now v channel sp))"
proof (cases "sp_open sp")
  case False
  then show ?thesis using s by (simp add: timeline_append_def spec_append_def sim_limits)
next
  case True
  define e where "e = \<lparr>te_seq = bt_nextSeq tml, te_at = now, te_value = v, te_channel = channel\<rparr>"
  have e': "e = \<lparr>te_seq = int (length (sp_history sp)) + 1, te_at = now, te_value = v, te_channel = channel\<rparr>"
    using s by (simp add: e_def sim_def)
  let ?t2 = "emit (notify e (bt_listeners tml))
       (tml\<lparr>bt_nextSeq := bt_nextSeq tml + 1, bt_retained := window_push e (bt_retained tml)\<rparr>)"
  let ?s2 = "sp\<lparr>sp_history := sp_history sp @ [e], sp_out := sp_out sp @ notify e (sp_listeners sp)\<rparr>"
  have s2: "sim ?t2 ?s2" by (rule sim_append_main[OF s True]) (simp add: e_def)
  have lhs: "timeline_append now v channel tml = (Inr e, case channel of None \<Rightarrow> ?t2
      | Some c \<Rightarrow> if c = [] then ?t2 else (case map_of (bt_channels ?t2) c of None \<Rightarrow> ?t2 | Some h \<Rightarrow> channel_push h e ?t2))"
    using s True by (simp add: timeline_append_def sim_limits Let_def e_def notify_def split: option.split)
  have rhs: "spec_append now v channel sp = (Inr e,
      ?s2\<lparr>sp_chans := map (\<lambda>x. if receives channel x then x\<lparr>cs_history := cs_history x @ [e]\<rparr> else x) (sp_chans ?s2),
         sp_out := sp_out ?s2 @ concat (map (\<lambda>x. if receives channel x then notify e (cs_listeners x) else []) (sp_chans ?s2))\<rparr>)"
    using True unfolding spec_append_def e'[symmetric] Let_def by simp
  have quiet: "sim ?t2 (snd (spec_append now v channel sp))" if "\<And>x. x \<in> set (sp_chans sp) \<Longrightarrow> \<not> receives channel x"
  proof -
    have "map (\<lambda>x. if receives channel x then x\<lparr>cs_history := cs_history x @ [e]\<rparr> else x) (sp_chans ?s2) = sp_chans ?s2"
      by (rule none_match(1)) (use that in simp)
    moreover have "concat (map (\<lambda>x. if receives channel x then notify e (cs_listeners x) else []) (sp_chans ?s2)) = []"
      by (rule none_match(2)) (use that in simp)
    ultimately show ?thesis unfolding rhs snd_conv using s2 by (simp only: append_Nil2) simp
  qed
  show ?thesis
  proof (cases "channel = None \<or> channel = Some []")
    case True
    then have "sim ?t2 (snd (spec_append now v channel sp))" by (intro quiet) (auto simp: receives_def)
    then show ?thesis using True lhs rhs by auto
  next
    case False
    then obtain c where c: "channel = Some c" "c \<noteq> []" by auto
    have ix: "index_sim (bt_channels ?t2) (sp_chans sp)" using s2 by (simp add: sim_def)
    show ?thesis
    proof (cases "map_of (bt_channels ?t2) c")
      case None
      then have "sim ?t2 (snd (spec_append now v channel sp))" using index_receives(1)[OF ix c(2)] c(1) by (intro quiet) simp
      then show ?thesis using None c lhs rhs by simp
    next
      case (Some h)
      have "sim (channel_push h e ?t2) (snd (spec_append now v channel sp))"
        using sim_channel_push[OF s2 c(2) Some, of e] unfolding rhs snd_conv c(1)[symmetric] .
      then show ?thesis using Some c lhs rhs by simp
    qed
  qed
qed

section \<open>Channels\<close>

lemma index_snoc:
  assumes "index_sim m cs" "cs_open c" "map_of m (cs_id c) = None"
  shows "index_sim (jmap_set (cs_id c) (length cs) m) (cs @ [c])"
proof -
  have "map_of (jmap_set (cs_id c) (length cs) m) i = Some h
      \<longleftrightarrow> h < length (cs @ [c]) \<and> cs_open ((cs @ [c]) ! h) \<and> cs_id ((cs @ [c]) ! h) = i" for i h
    using assms by (cases "i = cs_id c")
      (auto simp: jsm.lookup_same jsm.lookup_other index_sim_def nth_append less_Suc_eq)
  then show ?thesis using assms(1) jsm.distinct_store by (auto simp: index_sim_def)
qed

lemma sim_create:
  assumes s: "sim tml sp"
  shows "fst (createChannel i tml) = fst (spec_create i sp) \<and> sim (snd (createChannel i tml)) (snd (spec_create i sp))"
proof -
  have ix: "index_sim (bt_channels tml) (sp_chans sp)" and l: "length (bt_store tml) = length (sp_chans sp)"
    using s by (auto simp: sim_def dest: list_all2_lengthD)
  have dup: "map_of (bt_channels tml) i \<noteq> None \<longleftrightarrow> list_ex (\<lambda>c. cs_open c \<and> cs_id c = i) (sp_chans sp)"
    using ix unfolding index_sim_def list_ex_iff by (metis in_set_conv_nth option.distinct(1) option.exhaust)
  let ?c = "\<lparr>cs_id = i, cs_history = [], cs_listeners = [], cs_open = True\<rparr>"
  have "sim (tml\<lparr>bt_store := bt_store tml @ [\<lparr>ch_id = i, ch_retained = new_window (bt_retentionLimit tml),
       ch_listeners = [], ch_disposed = False\<rparr>], bt_channels := jmap_set i (length (sp_chans sp)) (bt_channels tml)\<rparr>)
     (sp\<lparr>sp_chans := sp_chans sp @ [?c]\<rparr>)" if "map_of (bt_channels tml) i = None"
    using s index_snoc[OF ix, of ?c] that rw.holds_fresh[of "sp_limit sp"]
    by (auto simp: sim_def chan_sim_def intro!: list_all2_appendI)
  then show ?thesis
    using s l dup unfolding createChannel_def spec_create_def Let_def
    by (cases "sp_open sp"; cases "map_of (bt_channels tml) i") (simp_all add: sim_limits)
qed

lemma chan_close_sim: "chan_sim n c s \<Longrightarrow> chan_sim n (channel_close c) (spec_close s) \<or> \<not> cs_open s"
  using rw.holds_clear[of n "ch_retained c"] by (auto simp: chan_sim_def channel_close_def spec_close_def)

lemma index_close:
  assumes "index_sim m cs" "h < length cs" and that: "cs_open (cs ! h)"
  shows "index_sim (kv_delete (cs_id (cs ! h)) m) (cs[h := spec_close (cs ! h)])"
proof -
  have ix: "map_of m i = Some j \<longleftrightarrow> j < length cs \<and> cs_open (cs ! j) \<and> cs_id (cs ! j) = i" for i j
    using assms(1) by (simp add: index_sim_def)
  have me: "map_of m (cs_id (cs ! h)) = Some h" using ix assms(2) that by simp
  have "map_of (kv_delete (cs_id (cs ! h)) m) i = Some j \<longleftrightarrow> j < length (cs[h := spec_close (cs ! h)])
      \<and> cs_open (cs[h := spec_close (cs ! h)] ! j) \<and> cs_id (cs[h := spec_close (cs ! h)] ! j) = i" for i j
    using ix[of i j] me ix[of "cs_id (cs ! h)" j] that assms(2)
    by (cases "j = h") (auto simp: spec_close_def nth_list_update)
  then show ?thesis using assms(1) by (auto simp: index_sim_def)
qed

lemma sim_channel_dispose:
  assumes s: "sim tml sp"
  shows "sim (channel_dispose h tml) (spec_channel_dispose h sp)"
proof (cases "get_channel tml h")
  case None
  then show ?thesis
    using s sim_channel(1)[OF s, of h] by (simp add: channel_dispose_def spec_channel_dispose_def)
next
  case (Some c)
  then obtain x where x: "spec_channel sp h = Some x" "h < length (sp_chans sp)" "x = sp_chans sp ! h"
    and cs: "chan_sim (sp_limit sp) c x" using sim_channel(2)[OF s Some] by blast
  show ?thesis
  proof (cases "cs_open x")
    case False
    then show ?thesis
      using s Some x cs by (simp add: channel_dispose_def spec_channel_dispose_def chan_sim_def spec_close_def)
  next
    case True
    have "list_all2 (chan_sim (sp_limit sp)) ((bt_store tml)[h := channel_close c]) ((sp_chans sp)[h := spec_close x])"
      using s chan_close_sim[OF cs] True by (intro list_all2_update_cong) (auto simp: sim_def)
    moreover have "index_sim (kv_delete (ch_id c) (bt_channels tml)) ((sp_chans sp)[h := spec_close x])"
      using index_close[of "bt_channels tml" "sp_chans sp" h] s x True cs by (simp add: sim_def chan_sim_def)
    ultimately show ?thesis
      using s Some x(1) cs True
      by (simp add: channel_dispose_def spec_channel_dispose_def chan_sim_def sim_def set_channel_def)
  qed
qed

section \<open>Disposal\<close>

lemma store_trans: "t1 = t\<lparr>bt_store := x\<rparr> \<Longrightarrow> t2 = t1\<lparr>bt_store := y\<rparr> \<Longrightarrow> t2 = t\<lparr>bt_store := y\<rparr>"
  by simp

lemma close_all:
  fixes t :: "'a BoundedTimeline"
  defines "step \<equiv> \<lambda>t h. case get_channel t h of None \<Rightarrow> t | Some c \<Rightarrow> set_channel h (channel_close c) (t :: 'a BoundedTimeline)"
  shows "length (bt_store (foldl step t hs)) = length (bt_store t) \<and> (\<forall>j < length (bt_store t).
      bt_store (foldl step t hs) ! j = (if j \<in> set hs then channel_close (bt_store t ! j) else bt_store t ! j))
    \<and> foldl step t hs = t\<lparr>bt_store := bt_store (foldl step t hs)\<rparr>"
proof (induction hs arbitrary: t)
  case Nil
  show ?case by simp
next
  case (Cons h hs)
  have st: "bt_store (step t h) = (if h < length (bt_store t) then (bt_store t)[h := channel_close (bt_store t ! h)] else bt_store t)"
    "step t h = t\<lparr>bt_store := bt_store (step t h)\<rparr>" for t :: "'a BoundedTimeline"
    by (simp_all add: step_def get_channel_def set_channel_def)
  have idem: "channel_close (channel_close c) = channel_close c" for c :: "'a BoundedTimelineChannel"
    by (simp add: channel_close_def window_clear_def)
  note IH = Cons.IH[of "step t h"]
  have "foldl step t (h # hs) = t\<lparr>bt_store := bt_store (foldl step t (h # hs))\<rparr>"
    unfolding foldl_Cons by (rule store_trans[OF st(2)]) (use IH in blast)
  then show ?case
    using IH st(1)[of t] by (auto simp: nth_list_update idem)
qed

lemma sim_dispose:
  assumes s: "sim tml sp"
  shows "sim (timeline_dispose tml) (spec_dispose sp)"
proof (cases "sp_open sp")
  case False
  then show ?thesis using s by (simp add: timeline_dispose_def spec_dispose_def sim_limits)
next
  case True
  let ?t0 = "tml\<lparr>bt_disposed := True, bt_retained := window_clear (bt_retained tml), bt_listeners := []\<rparr>"
  define t1 where "t1 = foldl (\<lambda>t h. case get_channel t h of None \<Rightarrow> t | Some c \<Rightarrow> set_channel h (channel_close c) t) ?t0
     (obj_values (bt_channels tml))"
  have c: "length (bt_store t1) = length (bt_store tml)" "t1 = ?t0\<lparr>bt_store := bt_store t1\<rparr>"
    "\<And>j. j < length (bt_store tml) \<Longrightarrow> bt_store t1 ! j
       = (if j \<in> set (obj_values (bt_channels tml)) then channel_close (bt_store tml ! j) else bt_store tml ! j)"
    using close_all[of ?t0 "obj_values (bt_channels tml)"] unfolding t1_def by simp_all
  have r: "list_all2 (chan_sim (sp_limit sp)) (bt_store tml) (sp_chans sp)"
    and ix: "index_sim (bt_channels tml) (sp_chans sp)" using s by (simp_all add: sim_def)
  have "chan_sim (sp_limit sp) (bt_store t1 ! j) (spec_close (sp_chans sp ! j))" if j: "j < length (bt_store tml)" for j
  proof -
    have cs: "chan_sim (sp_limit sp) (bt_store tml ! j) (sp_chans sp ! j)" by (rule list_all2_nthD[OF r j])
    have jl: "j < length (sp_chans sp)" using j list_all2_lengthD[OF r] by simp
    have op: "j \<in> set (obj_values (bt_channels tml)) \<longleftrightarrow> cs_open (sp_chans sp ! j)"
    proof
      assume "j \<in> set (obj_values (bt_channels tml))"
      then obtain i where "(i, j) \<in> set (bt_channels tml)" by auto
      then have "map_of (bt_channels tml) i = Some j" using ix by (simp add: index_sim_def)
      then show "cs_open (sp_chans sp ! j)" using ix by (simp add: index_sim_def)
    next
      assume "cs_open (sp_chans sp ! j)"
      then have "map_of (bt_channels tml) (cs_id (sp_chans sp ! j)) = Some j" using ix jl by (simp add: index_sim_def)
      then show "j \<in> set (obj_values (bt_channels tml))" using map_of_in_values by fastforce
    qed
    show ?thesis
      using c(3)[OF j] op chan_close_sim[OF cs] cs by (cases "cs_open (sp_chans sp ! j)") (auto simp: spec_close_def)
  qed
  then have "list_all2 (chan_sim (sp_limit sp)) (bt_store t1) (map spec_close (sp_chans sp))"
    using c(1) list_all2_lengthD[OF r] by (simp add: list_all2_conv_all_nth)
  moreover have "index_sim [] (map spec_close (sp_chans sp))" by (auto simp: index_sim_def spec_close_def split: if_splits)
  moreover have "ring (sp_limit sp) (window_clear (bt_retained tml)) []" using s rw.holds_clear by (auto simp: sim_def)
  ultimately have "sim (t1\<lparr>bt_channels := []\<rparr>) (spec_dispose sp)"
    using s True by (subst c(2)) (simp add: sim_def spec_dispose_def)
  then show ?thesis using s True by (simp add: timeline_dispose_def t1_def sim_limits)
qed

section \<open>Streams\<close>

lemma sim_listeners:
  assumes s: "sim tml sp"
  shows "sim (update_listeners src f tml) (spec_listeners src f sp)"
proof (cases src)
  case OnTimeline
  then show ?thesis using s by (simp add: sim_def)
next
  case (OnChannel h)
  show ?thesis
  proof (cases "get_channel tml h")
    case None
    then show ?thesis using s OnChannel sim_channel(1)[OF s, of h] by simp
  next
    case (Some c)
    then obtain x where x: "spec_channel sp h = Some x" "h < length (sp_chans sp)" "x = sp_chans sp ! h"
      and cs: "chan_sim (sp_limit sp) c x" using sim_channel(2)[OF s Some] by blast
    have "chan_sim (sp_limit sp) (c\<lparr>ch_listeners := f (ch_listeners c)\<rparr>) (x\<lparr>cs_listeners := f (cs_listeners x)\<rparr>)"
      using cs by (simp add: chan_sim_def)
    from sim_set_channel[OF s x(2) this] show ?thesis using OnChannel Some x by simp
  qed
qed

lemma sim_source:
  assumes s: "sim tml sp"
  shows "src_entries src tml = map Some (view src sp)" "src_disposed src tml = (\<not> spec_is_open src sp)"
proof -
  show "src_entries src tml = map Some (view src sp)"
    using sim_entries[OF s] by (cases src) (simp_all del: view.simps)
  show "src_disposed src tml = (\<not> spec_is_open src sp)"
  proof (cases src)
    case (OnChannel h)
    then show ?thesis
      using sim_channel[OF s, of h] by (cases "get_channel tml h") (auto simp: chan_sim_def)
  qed (use s in \<open>simp add: sim_limits\<close>)
qed

lemma sim_start:
  assumes s: "sim tml sp"
  shows "sim (streamStart src replay l tml) (spec_start src replay l sp)"
proof -
  let ?t1 = "update_listeners src (set_del l) tml" and ?s1 = "spec_listeners src (set_del l) sp"
  let ?es = "if nullish replay True then map (\<lambda>e. Next l (Some e)) (view src ?s1) else []"
  let ?t2 = "emit ?es ?t1" and ?s2 = "?s1\<lparr>sp_out := sp_out ?s1 @ ?es\<rparr>"
  have s1: "sim ?t1 ?s1" by (rule sim_listeners[OF s])
  have s2: "sim ?t2 ?s2" by (rule sim_emit[OF s1])
  have "(if nullish replay True then emit (map (Next l) (src_entries src ?t1)) ?t1 else ?t1) = ?t2"
    using sim_source(1)[OF s1, of src] by (simp add: emit_def comp_def)
  then have "streamStart src replay l tml = (if src_disposed src ?t2 then emit [Complete l] ?t2 else update_listeners src (set_add l) ?t2)"
    by (simp only: streamStart_def streamStop_def Let_def)
  moreover have "spec_start src replay l sp = (if spec_is_open src ?s2 then spec_listeners src (set_add l) ?s2
      else ?s2\<lparr>sp_out := sp_out ?s2 @ [Complete l]\<rparr>)"
    by (simp only: spec_start_def Let_def)
  ultimately show ?thesis
    using sim_source(2)[OF s2, of src] sim_emit[OF s2, of "[Complete l]"] sim_listeners[OF s2, of src "set_add l"]
    by (simp only: split: if_split) blast
qed

section \<open>Runs\<close>

lemma sim_channel_append:
  assumes s: "sim tml sp"
  shows "fst (channel_append h now v tml) = fst (spec_channel_append h now v sp)
     \<and> sim (snd (channel_append h now v tml)) (snd (spec_channel_append h now v sp))"
proof (cases "get_channel tml h")
  case None
  then show ?thesis using s sim_channel(1)[OF s, of h] by (simp add: channel_append_def spec_channel_append_def)
next
  case (Some c)
  then obtain x where "spec_channel sp h = Some x" "chan_sim (sp_limit sp) c x" using sim_channel(2)[OF s] by blast
  then show ?thesis
    using Some s sim_append[OF s, of now v "Some (cs_id x)"]
    by (simp add: channel_append_def spec_channel_append_def chan_sim_def)
qed

lemma sim_step:
  assumes "sim tml sp"
  shows "fst (tlStep op tml) = fst (specStep op sp) \<and> sim (snd (tlStep op tml)) (snd (specStep op sp))"
  using sim_append[OF assms] sim_create[OF assms] sim_channel_append[OF assms] sim_channel_dispose[OF assms]
    sim_dispose[OF assms] sim_start[OF assms] sim_listeners[OF assms]
  by (cases op) (simp_all add: streamStop_def)

lemma sim_run:
  "sim tml sp \<Longrightarrow> fst (run_ops tlStep ops tml) = fst (run_ops specStep ops sp)
     \<and> sim (snd (run_ops tlStep ops tml)) (snd (run_ops specStep ops sp))"
proof (induction ops arbitrary: tml sp)
  case (Cons op ops)
  obtain r t' where t': "tlStep op tml = (r, t')" by (cases "tlStep op tml")
  moreover obtain s' where "specStep op sp = (r, s')" "sim t' s'"
    using sim_step[OF Cons.prems, of op] t' by (cases "specStep op sp") simp
  ultimately show ?case using Cons.IH[of t' s'] by simp
qed simp

lemma sim_new: "newBoundedTimeline limit = Inr tml \<Longrightarrow> normalizeRetentionLimit limit = Inr n \<Longrightarrow> sim tml (spec_new n)"
  using rw.holds_fresh[of n] by (auto simp: newBoundedTimeline_def sim_def spec_new_def index_sim_def)

text \<open>C16: The bounded timeline implements the abstract one that keeps complete histories. For every sequence of
  operations on a new timeline (appending, creating, using and disposing channels, disposing the timeline,
  starting and stopping streams) the replies, errors included, are the same, every listener is sent the same
  entries and completions in the same order, and reading the timeline or a channel gives the last \<open>n\<close> entries of
  its history, or nothing after it was disposed.\<close>

theorem timeline_refines_history:
  assumes "newBoundedTimeline limit = Inr tml" "normalizeRetentionLimit limit = Inr n"
    and "run_ops tlStep ops tml = (replies, tml')" "run_ops specStep ops (spec_new n) = (replies', sp')"
  shows "replies = replies' \<and> bt_out tml' = sp_out sp'
     \<and> timeline_entries tml' = map Some (view OnTimeline sp') \<and> timeline_size tml' = length (view OnTimeline sp')
     \<and> (\<forall>h. channel_entries h tml' = map Some (view (OnChannel h) sp'))"
proof -
  have "replies = replies'" and s: "sim tml' sp'"
    using sim_run[OF sim_new[OF assms(1,2)], of ops] assms(3,4) by simp_all
  then show ?thesis using sim_entries[OF s] by (simp add: sim_def)
qed

definition demo_tl_ops :: "nat tlOp list" where
  "demo_tl_ops = [OpCreateChannel ''a'', OpStart (OnChannel 0) None 7, OpAppend 5 10 None, OpChannelAppend 0 6 11,
     OpAppend 7 12 (Some ''a''), OpChannelDispose 0, OpChannelAppend 0 8 13]"

theorem timeline_refines_history_witness:
  "\<exists>tml tml' sp'. newBoundedTimeline (Fin 2) = Inr tml \<and> normalizeRetentionLimit (Fin 2) = Inr 2
     \<and> snd (run_ops tlStep demo_tl_ops tml) = tml' \<and> snd (run_ops specStep demo_tl_ops (spec_new 2)) = sp'
     \<and> timeline_entries tml' = map Some (view OnTimeline sp') \<and> map te_value (view OnTimeline sp') = [11, 12]"
proof -
  have n: "normalizeRetentionLimit (Fin 2) = Inr 2" by code_simp
  then obtain tml :: "nat BoundedTimeline" where t: "newBoundedTimeline (Fin 2) = Inr tml" by (simp add: newBoundedTimeline_def)
  obtain r t' where r: "run_ops tlStep demo_tl_ops tml = (r, t')" by (cases "run_ops tlStep demo_tl_ops tml")
  obtain q s' where q: "run_ops specStep demo_tl_ops (spec_new 2) = (q, s')"
    by (cases "run_ops specStep demo_tl_ops (spec_new 2)")
  have "map te_value (view OnTimeline (snd (run_ops specStep demo_tl_ops (spec_new 2)))) = [11, 12]" by code_simp
  then show ?thesis using timeline_refines_history[OF t n r q] n t r q by auto
qed

end
