(* ===== verification/TaskTreeModel.thy ===== *)
theory TaskTreeModel
  imports JsPrelude
begin

text \<open>
  The task tree of the plan tool: the data of \<open>ai-core-contract/src/plan/TaskTree.ts\<close> and
  \<open>ai-organ-logic/src/plan/TaskTreeManager.ts\<close>. A write operation arrives as an untyped value. An operation that
  throws returns \<open>Inl\<close> beside the tree as it is at that moment, because the code changes the tree in place
  and checks some constraints afterwards.

  The code keeps references to nodes; here a reference is the path of child positions from the root, carried along
  with the node in \<open>FoundNode\<close>. A stack of the code is a list whose head is the end that \<open>pop\<close> takes.
  \<open>shw\<close> renders finite numbers. \<open>renderFull\<close> and \<open>renderFlat\<close>, which print a value as JSON, are
  not modelled; \<open>flatten\<close>, which computes the value \<open>renderFlat\<close> prints, is.
\<close>

section \<open>Data\<close>

datatype TaskStatus = TaskPending | TaskInProgress | TaskCompleted

definition TASK_STATUSES :: "TaskStatus list" where
  "TASK_STATUSES = [TaskPending, TaskInProgress, TaskCompleted]"

datatype TaskNode = TaskNode
  (nd_id: string) (nd_content: string) (nd_status: TaskStatus) (nd_activeForm: string) (nd_children: "TaskNode list")

record TaskTree =
  root :: TaskNode
  nextId :: int

record FlatTaskNodeView =
  fv_id :: string
  fv_content :: string
  fv_status :: TaskStatus
  fv_activeForm :: string
  fv_depth :: nat
  fv_parentId :: "string option"

definition isTaskStatus :: "jsv \<Rightarrow> TaskStatus option" where
  "isTaskStatus v = (if v = JStr ''pending'' then Some TaskPending else if v = JStr ''in_progress'' then Some TaskInProgress
     else if v = JStr ''completed'' then Some TaskCompleted else None)"

definition createEmptyTaskTree :: TaskTree where
  "createEmptyTaskTree = \<lparr>root = TaskNode ''root'' ''root'' TaskPending ''root'' [], nextId = 1\<rparr>"

definition MAX_ROOT_TASKS :: nat where "MAX_ROOT_TASKS = 20"
definition MAX_CHILDREN_PER_EXPANSION :: nat where "MAX_CHILDREN_PER_EXPANSION = 8"
definition MAX_TOTAL_TASKS :: nat where "MAX_TOTAL_TASKS = 120"
definition MAX_DEPTH :: nat where "MAX_DEPTH = 4"

definition statusMark :: "TaskStatus \<Rightarrow> string" where
  "statusMark s = (case s of TaskCompleted \<Rightarrow> ''[x]'' | TaskInProgress \<Rightarrow> ''[>]'' | TaskPending \<Rightarrow> ''[ ]'')"

section \<open>Traversals with an explicit stack\<close>

text \<open>The size that the stacks of the loops lose in every round.\<close>

fun node_size :: "TaskNode \<Rightarrow> nat" where
  "node_size (TaskNode i c s a cs) = Suc (sum_list (map node_size cs))"

lemma children_smaller [simp]: "sum_list (map node_size (nd_children n)) < node_size n"
  by (cases n) simp

lemma node_size_pos [simp]: "0 < node_size n"
  by (cases n) simp

lemma children_smaller_twice: "Suc (2 * sum_list (map node_size (nd_children n))) < 2 * node_size n + k"
  using children_smaller[of n] by linarith

lemma sum_list_rev_map: "sum_list (map f (rev xs)) = (sum_list (map f xs) :: nat)"
  by (simp add: rev_map[symmetric] sum_list_rev)

function collectLoop :: "TaskNode list \<Rightarrow> TaskNode list \<Rightarrow> TaskNode list" where
  "collectLoop [] out = out"
| "collectLoop (node # stack) out = collectLoop (rev (nd_children node) @ stack) (out @ [node])"
  by pat_completeness auto
termination
  by (relation "measure (\<lambda>(st, out). sum_list (map node_size st))")
     (auto simp: sum_list_rev_map)

definition collectAllNodes :: "TaskNode \<Rightarrow> TaskNode list" where
  "collectAllNodes r = collectLoop (rev (nd_children r)) []"

record FoundNode =
  fn_node :: TaskNode
  fn_depth :: nat
  fn_path :: "nat list"

definition child_refs :: "FoundNode \<Rightarrow> FoundNode list" where
  "child_refs f = map (\<lambda>(j, c). \<lparr>fn_node = c, fn_depth = fn_depth f + 1, fn_path = fn_path f @ [j]\<rparr>)
     (enumerate 0 (nd_children (fn_node f)))"

lemma sum_child_refs: "sum_list (map (\<lambda>f. node_size (fn_node f)) (rev (child_refs f))) = sum_list (map node_size (nd_children (fn_node f)))"
proof -
  have "map (\<lambda>f. node_size (fn_node f)) (child_refs f) = map node_size (map snd (enumerate 0 (nd_children (fn_node f))))"
    by (simp add: child_refs_def comp_def split_beta del: map_snd_enumerate)
  then show ?thesis by (simp only: sum_list_rev_map map_snd_enumerate)
qed

function findLoop :: "FoundNode list \<Rightarrow> string \<Rightarrow> FoundNode option" where
  "findLoop [] i = None"
| "findLoop (current # stack) i =
     (if nd_id (fn_node current) = i then Some current else findLoop (rev (child_refs current) @ stack) i)"
  by pat_completeness auto
termination
  by (relation "measure (\<lambda>(st, i). sum_list (map (\<lambda>f. node_size (fn_node f)) st))")
     (auto simp: sum_child_refs)

definition findNodeWithDepth :: "TaskNode \<Rightarrow> string \<Rightarrow> FoundNode option" where
  "findNodeWithDepth r i = findLoop (rev (child_refs \<lparr>fn_node = r, fn_depth = 0, fn_path = []\<rparr>)) i"

text \<open>Writing through a reference.\<close>

fun update_at :: "nat list \<Rightarrow> (TaskNode \<Rightarrow> TaskNode) \<Rightarrow> TaskNode \<Rightarrow> TaskNode" where
  "update_at [] f n = f n"
| "update_at (j # p) f (TaskNode i c s a cs) =
     (if j < length cs then TaskNode i c s a (cs[j := update_at p f (cs ! j)]) else TaskNode i c s a cs)"

fun set_children :: "TaskNode list \<Rightarrow> TaskNode \<Rightarrow> TaskNode" where
  "set_children cs' (TaskNode i c s a cs) = TaskNode i c s a cs'"

fun set_status :: "TaskStatus \<Rightarrow> TaskNode \<Rightarrow> TaskNode" where
  "set_status s' (TaskNode i c s a cs) = TaskNode i c s' a cs"

section \<open>Fresh ids\<close>

definition task_id :: "int \<Rightarrow> string" where
  "task_id n = ''task-'' @ show_int n"

lemma task_id_inject [simp]: "task_id m = task_id n \<longleftrightarrow> m = n"
  by (simp add: task_id_def)

text \<open>The loop ends because only finitely many numbers from here on are taken.\<close>

definition taken_from :: "string list \<Rightarrow> int \<Rightarrow> int set" where
  "taken_from existing n = {k. n \<le> k \<and> task_id k \<in> set existing}"

lemma finite_taken: "finite (taken_from existing n)"
proof -
  have "inj_on task_id (taken_from existing n)" by (simp add: inj_on_def)
  moreover have "task_id ` taken_from existing n \<subseteq> set existing" by (auto simp: taken_from_def)
  ultimately show ?thesis by (metis finite_imageD finite_set finite_subset)
qed

lemma taken_decreases: "task_id n \<in> set existing \<Longrightarrow> card (taken_from existing (n + 1)) < card (taken_from existing n)"
  by (rule psubset_card_mono[OF finite_taken], rule psubsetI) (auto simp: taken_from_def set_eq_iff intro!: exI[of _ n])

function makeNextId :: "string list \<Rightarrow> int \<Rightarrow> string \<times> int" where
  "makeNextId existing n =
     (let candidate = task_id n in
      if candidate \<in> set existing then makeNextId existing (n + 1) else (candidate, n + 1))"
  by pat_completeness auto
termination
  by (relation "measure (\<lambda>(existing, n). card (taken_from existing n))") (auto simp: taken_decreases)

declare makeNextId.simps [simp del]

section \<open>Drafts\<close>

definition textOf :: "(rat \<Rightarrow> string) \<Rightarrow> jsv \<Rightarrow> string \<Rightarrow> string" where
  "textOf shw v dflt = js_trim (if v = JUndef \<or> v = JNull then dflt else js_String shw v)"

fun draftLoop ::
  "(rat \<Rightarrow> string) \<Rightarrow> string \<Rightarrow> nat \<Rightarrow> jsv list \<Rightarrow> string list \<Rightarrow> int \<Rightarrow> TaskNode list \<Rightarrow> TaskNode list result \<times> int" where
  "draftLoop shw scope i [] existing n out = (Inr out, n)"
| "draftLoop shw scope i (raw # rest) existing n out =
     (let content = textOf shw (js_prop raw ''content'') [];
          form = textOf shw (js_prop raw ''activeForm'') ''general'';
          activeForm = (if form = [] then ''general'' else form)
      in if content = [] then (Inl (scope @ '': task '' @ show_nat i @ '' content required''), n)
         else case isTaskStatus (js_prop raw ''status'') of
           None \<Rightarrow> (Inl (scope @ '': task '' @ show_nat i @ '' invalid status''), n)
         | Some status \<Rightarrow>
             let given = textOf shw (js_prop raw ''id'') [];
                 (tid, n') = (if given = [] then makeNextId existing n else (given, n))
             in if tid \<in> set existing then (Inl (scope @ '': duplicate task id '' @ [CHR 0x27] @ tid @ [CHR 0x27]), n')
                else draftLoop shw scope (i + 1) rest (tid # existing) n' (out @ [TaskNode tid content status activeForm []]))"

definition normalizeDrafts ::
  "(rat \<Rightarrow> string) \<Rightarrow> TaskTree \<Rightarrow> jsv \<Rightarrow> string \<Rightarrow> string list option \<Rightarrow> TaskNode list result \<times> int" where
  "normalizeDrafts shw tree drafts scope seedIds = (case drafts of
      JArr ds \<Rightarrow> if ds = [] then (Inl (scope @ '': tasks required''), nextId tree)
        else draftLoop shw scope 0 ds (nullish seedIds (map nd_id (collectAllNodes (root tree)))) (nextId tree) []
    | _ \<Rightarrow> (Inl (scope @ '': tasks required''), nextId tree))"

section \<open>Constraints\<close>

function assertSiblings :: "TaskNode list \<Rightarrow> string \<Rightarrow> unit result"
  and assertEach :: "TaskNode list \<Rightarrow> unit result" where
  "assertSiblings siblings scope =
     (if length (filter (\<lambda>n. nd_status n = TaskInProgress) siblings) > 1
      then Inl (''Only one task can be in_progress under '' @ scope)
      else assertEach siblings)"
| "assertEach [] = Inr ()"
| "assertEach (node # rest) =
     bind_result (assertSiblings (nd_children node) (''parent '' @ [CHR 0x27] @ nd_id node @ [CHR 0x27])) (\<lambda>_. assertEach rest)"
  by pat_completeness auto
termination
  by (relation "measure (\<lambda>x. case x of Inl (ns, sc) \<Rightarrow> 2 * sum_list (map node_size ns) + 1
       | Inr ns \<Rightarrow> 2 * sum_list (map node_size ns))")
     (auto simp: children_smaller_twice)

definition assertInProgressConstraint :: "TaskTree \<Rightarrow> unit result" where
  "assertInProgressConstraint tree = assertSiblings (nd_children (root tree)) ''root''"

definition assertTotalTaskLimit :: "TaskTree \<Rightarrow> unit result" where
  "assertTotalTaskLimit tree =
     (if length (collectAllNodes (root tree)) > MAX_TOTAL_TASKS
      then Inl (''Task tree exceeds max size ('' @ show_nat MAX_TOTAL_TASKS @ '')'') else Inr ())"

section \<open>Rendering\<close>

fun renderNode :: "nat \<Rightarrow> TaskNode \<Rightarrow> string list" where
  "renderNode depth (TaskNode i c s a cs) =
     (concat (replicate depth ''  '') @ statusMark s @ '' '' @ c @ '' ['' @ i @ '']'')
     # (if s \<noteq> TaskInProgress then [] else concat (map (renderNode (depth + 1)) cs))"

definition countStatus :: "TaskStatus \<Rightarrow> TaskNode list \<Rightarrow> nat" where
  "countStatus s ns = length (filter (\<lambda>n. nd_status n = s) ns)"

definition render :: "TaskTree \<Rightarrow> string" where
  "render tree =
     (let rootTasks = nd_children (root tree); allNodes = collectAllNodes (root tree) in
      if rootTasks = [] then ''No tasks.''
      else js_join [CHR 0x0A] (concat (map (renderNode 0) rootTasks)) @ [CHR 0x0A] @ ''('' @
           show_nat (countStatus TaskCompleted allNodes) @ ''/'' @ show_nat (length allNodes) @ '' done, '' @
           show_nat (countStatus TaskInProgress allNodes) @ '' in_progress)'')"

text \<open>The flat view: children are pushed from last to first, so that they are popped in order.\<close>

function flattenLoop :: "(TaskNode \<times> nat \<times> string option) list \<Rightarrow> FlatTaskNodeView list \<Rightarrow> FlatTaskNodeView list" where
  "flattenLoop [] out = out"
| "flattenLoop ((node, depth, parentId) # stack) out =
     flattenLoop (map (\<lambda>c. (c, depth + 1, Some (nd_id node))) (nd_children node) @ stack)
       (out @ [\<lparr>fv_id = nd_id node, fv_content = nd_content node, fv_status = nd_status node,
               fv_activeForm = nd_activeForm node, fv_depth = depth, fv_parentId = parentId\<rparr>])"
  by pat_completeness auto
termination
  by (relation "measure (\<lambda>(st, out). sum_list (map (\<lambda>x. node_size (fst x)) st))")
     (auto simp: comp_def)

definition flatten :: "TaskTree \<Rightarrow> FlatTaskNodeView list" where
  "flatten tree = flattenLoop (map (\<lambda>n. (n, 1, None)) (nd_children (root tree))) []"

section \<open>Applying a write operation\<close>

definition applyReplaceRoot :: "(rat \<Rightarrow> string) \<Rightarrow> TaskTree \<Rightarrow> jsv \<Rightarrow> unit result \<times> TaskTree" where
  "applyReplaceRoot shw tree input =
     (case normalizeDrafts shw tree (js_prop input ''tasks'') ''replace_root'' (Some []) of
        (Inl e, n) \<Rightarrow> (Inl e, tree\<lparr>nextId := n\<rparr>)
      | (Inr tasks, n) \<Rightarrow>
          if length tasks > MAX_ROOT_TASKS
          then (Inl (''replace_root: at most '' @ show_nat MAX_ROOT_TASKS @ '' root tasks allowed''), tree\<lparr>nextId := n\<rparr>)
          else (Inr (), tree\<lparr>root := set_children tasks (root tree), nextId := n\<rparr>))"

definition applyExpand :: "(rat \<Rightarrow> string) \<Rightarrow> TaskTree \<Rightarrow> jsv \<Rightarrow> unit result \<times> TaskTree" where
  "applyExpand shw tree input =
     (let parentId = textOf shw (js_prop input ''parent_id'') [] in
      if parentId = [] then (Inl ''expand: parent_id required'', tree)
      else if parentId = ''root'' then (Inl ''expand: use replace_root to update root tasks'', tree)
      else case findNodeWithDepth (root tree) parentId of
          None \<Rightarrow> (Inl (''expand: parent '' @ [CHR 0x27] @ parentId @ [CHR 0x27] @ '' not found''), tree)
        | Some found \<Rightarrow>
            if nd_status (fn_node found) \<noteq> TaskInProgress then (Inl ''expand: parent task must be in_progress'', tree)
            else if fn_depth found \<ge> MAX_DEPTH then (Inl (''expand: max task depth is '' @ show_nat MAX_DEPTH), tree)
            else if nd_children (fn_node found) \<noteq> []
            then (Inl ''expand: parent already expanded; update existing nodes instead'', tree)
            else case normalizeDrafts shw tree (js_prop input ''tasks'') ''expand'' None of
                (Inl e, n) \<Rightarrow> (Inl e, tree\<lparr>nextId := n\<rparr>)
              | (Inr tasks, n) \<Rightarrow>
                  if length tasks > MAX_CHILDREN_PER_EXPANSION
                  then (Inl (''expand: at most '' @ show_nat MAX_CHILDREN_PER_EXPANSION @ '' children per expansion''), tree\<lparr>nextId := n\<rparr>)
                  else (Inr (), tree\<lparr>root := update_at (fn_path found) (set_children tasks) (root tree), nextId := n\<rparr>))"

definition applyUpdateStatus :: "(rat \<Rightarrow> string) \<Rightarrow> TaskTree \<Rightarrow> jsv \<Rightarrow> unit result \<times> TaskTree" where
  "applyUpdateStatus shw tree input =
     (let taskId = textOf shw (js_prop input ''task_id'') [] in
      if taskId = [] then (Inl ''update_status: task_id required'', tree)
      else case isTaskStatus (js_prop input ''status'') of
          None \<Rightarrow> (Inl ''update_status: invalid status'', tree)
        | Some status \<Rightarrow> (case findNodeWithDepth (root tree) taskId of
            None \<Rightarrow> (Inl (''update_status: task '' @ [CHR 0x27] @ taskId @ [CHR 0x27] @ '' not found''), tree)
          | Some found \<Rightarrow> (Inr (), tree\<lparr>root := update_at (fn_path found) (set_status status) (root tree)\<rparr>)))"

definition taskTreeApply :: "(rat \<Rightarrow> string) \<Rightarrow> TaskTree \<Rightarrow> jsv \<Rightarrow> string result \<times> TaskTree" where
  "taskTreeApply shw tree input =
     (let op = js_prop input ''op'' in
      case (if op = JStr ''replace_root'' then applyReplaceRoot shw tree input
            else if op = JStr ''expand'' then applyExpand shw tree input
            else if op = JStr ''update_status'' then applyUpdateStatus shw tree input
            else (Inl ''Invalid op: expected replace_root | expand | update_status'', tree)) of
        (Inl e, tree') \<Rightarrow> (Inl e, tree')
      | (Inr _, tree') \<Rightarrow>
          (bind_result (assertInProgressConstraint tree') (\<lambda>_.
           bind_result (assertTotalTaskLimit tree') (\<lambda>_. Inr (render tree'))), tree'))"

end
