(* ===== verification/TaskTreeProps.thy ===== *)
theory TaskTreeProps
  imports TaskTreeModel
begin

text \<open>
  The task tree: the stack loops are the structural traversals they stand for (\<open>preorder\<close>, \<open>nodes\<close>), the search
  returns a reference to the node with the id, writing through a reference changes that node only, and the
  invariant \<open>task_wf\<close> survives every write operation, accepted or not.
\<close>

section \<open>Structural traversals\<close>

fun nodes :: "TaskNode \<Rightarrow> TaskNode list" where
  "nodes (TaskNode i c s a cs) = TaskNode i c s a cs # concat (map nodes cs)"

fun preorder :: "nat \<Rightarrow> string option \<Rightarrow> TaskNode \<Rightarrow> FlatTaskNodeView list" where
  "preorder d par (TaskNode i c s a cs) =
     \<lparr>fv_id = i, fv_content = c, fv_status = s, fv_activeForm = a, fv_depth = d, fv_parentId = par\<rparr>
     # concat (map (preorder (d + 1) (Some i)) cs)"

abbreviation ids :: "TaskNode \<Rightarrow> string list" where
  "ids n \<equiv> map nd_id (nodes n)"

definition below :: "TaskNode list \<Rightarrow> string list" where
  "below cs = concat (map ids cs)"

lemma nodes_children: "nodes n = n # concat (map nodes (nd_children n))"
  by (cases n) simp

lemma ids_children: "ids n = nd_id n # below (nd_children n)"
  by (cases n) (simp add: below_def map_concat comp_def)

lemma below_Cons [simp]: "below [] = []" "below (n # ns) = ids n @ below ns" "below (ms @ ns) = below ms @ below ns"
  by (simp_all add: below_def)

lemma preorder_ids: "map fv_id (preorder d par n) = ids n"
proof (induction d par n rule: preorder.induct)
  case (1 d par i c s a cs)
  then have "map fv_id (concat (map (preorder (d + 1) (Some i)) cs)) = below cs"
    by (simp add: below_def map_concat comp_def cong: map_cong)
  then show ?case by (simp add: below_def map_concat comp_def)
qed

lemma flattenLoop_preorder: "flattenLoop st out = out @ concat (map (\<lambda>(n, d, p). preorder d p n) st)"
proof (induction st out rule: flattenLoop.induct)
  case (2 node depth par st out)
  then show ?case by (cases node) (simp add: comp_def)
qed simp

lemma flatten_preorder: "flatten tree = concat (map (preorder 1 None) (nd_children (root tree)))"
  by (simp add: flatten_def flattenLoop_preorder comp_def)

lemma flatten_ids: "map fv_id (flatten tree) = below (nd_children (root tree))"
  by (simp add: flatten_preorder map_concat comp_def preorder_ids below_def)

lemma mset_below: "mset (below cs) = (\<Sum>n\<leftarrow>cs. mset (ids n))"
  by (induction cs) simp_all

lemma mset_below_rev [simp]: "mset (below (rev cs)) = mset (below cs)"
  by (induction cs) (simp_all add: ac_simps)

lemma collectLoop_ids: "mset (map nd_id (collectLoop st out)) = mset (map nd_id out) + mset (below st)"
  by (induction st out rule: collectLoop.induct) (simp_all add: ids_children ac_simps)

lemma collect_ids: "mset (map nd_id (collectAllNodes r)) = mset (below (nd_children r))"
  by (simp add: collectAllNodes_def collectLoop_ids del: mset_map)

text \<open>The flat view lists the nodes below the root in document order, each with its depth and the id of its
  parent, and \<open>collectAllNodes\<close>, whose stack visits them in another order, yields the same ids equally often:
  both loops terminate and miss no node.\<close>

theorem flatten_is_preorder:
  "flatten tree = concat (map (preorder 1 None) (nd_children (root tree)))
   \<and> mset (map nd_id (collectAllNodes (root tree))) = mset (map fv_id (flatten tree))"
  by (intro conjI flatten_preorder) (simp only: flatten_ids collect_ids)

section \<open>References\<close>

fun node_at :: "nat list \<Rightarrow> TaskNode \<Rightarrow> TaskNode option" where
  "node_at [] n = Some n"
| "node_at (j # p) n = (if j < length (nd_children n) then node_at p (nd_children n ! j) else None)"

lemma node_at_snoc:
  "node_at (p @ [j]) r = (case node_at p r of None \<Rightarrow> None
     | Some n \<Rightarrow> if j < length (nd_children n) then Some (nd_children n ! j) else None)"
  by (induction p arbitrary: r) simp_all

definition ref_ok :: "TaskNode \<Rightarrow> FoundNode \<Rightarrow> bool" where
  "ref_ok r f \<longleftrightarrow> node_at (fn_path f) r = Some (fn_node f) \<and> length (fn_path f) = fn_depth f \<and> fn_path f \<noteq> []"

lemma child_refs_ok:
  assumes "f' \<in> set (child_refs f)" "node_at (fn_path f) r = Some (fn_node f)" "length (fn_path f) = fn_depth f"
  shows "ref_ok r f'"
  using assms by (auto simp: child_refs_def ref_ok_def node_at_snoc in_set_enumerate_eq)

lemma findLoop_sound:
  "findLoop st i = Some f \<Longrightarrow> \<forall>x \<in> set st. ref_ok r x \<Longrightarrow> ref_ok r f \<and> nd_id (fn_node f) = i"
proof (induction st i rule: findLoop.induct)
  case (2 cur st i)
  show ?case
  proof (cases "nd_id (fn_node cur) = i")
    case True
    then show ?thesis using 2(2,3) by simp
  next
    case False
    have "\<forall>x \<in> set (rev (child_refs cur) @ st). ref_ok r x"
      using 2(3) child_refs_ok[of _ cur r] by (auto simp: ref_ok_def)
    then show ?thesis using 2(1)[OF False] 2(2) False by simp
  qed
qed simp

lemma below_child_refs: "below (map fn_node (child_refs f)) = below (nd_children (fn_node f))"
proof -
  have "map fn_node (child_refs f) = nd_children (fn_node f)"
    by (simp add: child_refs_def comp_def split_beta)
  then show ?thesis by simp
qed

lemma findLoop_complete: "findLoop st i = None \<longleftrightarrow> i \<notin> set (below (map fn_node st))"
proof (induction st i rule: findLoop.induct)
  case (2 cur st i)
  have "set (below (map fn_node (rev (child_refs cur)))) = set (below (nd_children (fn_node cur)))"
    using mset_below_rev[of "map fn_node (child_refs cur)"]
    by (metis below_child_refs rev_map set_mset_mset)
  then show ?case using 2 by (simp add: ids_children)
qed simp

lemma find_sound: "findNodeWithDepth r i = Some f \<Longrightarrow> ref_ok r f \<and> nd_id (fn_node f) = i"
  unfolding findNodeWithDepth_def by (erule findLoop_sound) (auto intro: child_refs_ok)

lemma find_complete: "findNodeWithDepth r i = None \<longleftrightarrow> i \<notin> set (below (nd_children r))"
proof -
  have "set (below (map fn_node (rev (child_refs f)))) = set (below (nd_children (fn_node f)))" for f
    using mset_below_rev[of "map fn_node (child_refs f)"] by (metis below_child_refs rev_map set_mset_mset)
  then show ?thesis by (simp add: findNodeWithDepth_def findLoop_complete)
qed

section \<open>Writing through a reference\<close>

lemma sum_update:
  fixes g :: "'a \<Rightarrow> 'b multiset"
  shows "j < length cs \<Longrightarrow> (\<Sum>x\<leftarrow>cs[j := y]. g x) + g (cs ! j) = (\<Sum>x\<leftarrow>cs. g x) + g y"
  by (induction cs arbitrary: j) (auto simp: ac_simps split: nat.splits)

lemma ids_update:
  "node_at p r = Some n \<Longrightarrow> mset (ids (update_at p f r)) + mset (ids n) = mset (ids r) + mset (ids (f n))"
proof (induction p arbitrary: r)
  case (Cons j p)
  obtain i c s a cs where r: "r = TaskNode i c s a cs" by (cases r)
  have j: "j < length cs" and n: "node_at p (cs ! j) = Some n" using Cons.prems r by (auto split: if_splits)
  let ?y = "update_at p f (cs ! j)"
  have e: "mset (ids (TaskNode i c s a xs)) = add_mset i (\<Sum>x\<leftarrow>xs. mset (ids x))" for xs
    unfolding mset_below[symmetric] by (subst ids_children) simp
  have "mset (ids (update_at (j # p) f r)) + mset (ids n) + mset (ids (cs ! j))
      = add_mset i ((\<Sum>x\<leftarrow>cs[j := ?y]. mset (ids x)) + mset (ids (cs ! j))) + mset (ids n)"
    using j r by (simp add: e ac_simps del: nodes.simps mset_map)
  also have "\<dots> = add_mset i (\<Sum>x\<leftarrow>cs. mset (ids x)) + (mset (ids ?y) + mset (ids n))"
    using sum_update[OF j, of "\<lambda>x. mset (ids x)" ?y] by (simp add: ac_simps del: mset_map)
  also have "\<dots> = mset (ids r) + mset (ids (f n)) + mset (ids (cs ! j))"
    using Cons.IH[OF n] r by (simp add: e ac_simps del: nodes.simps mset_map)
  finally show ?case by simp
qed simp

lemma update_at_root:
  assumes "p \<noteq> []"
  shows "nd_id (update_at p f r) = nd_id r" "nd_content (update_at p f r) = nd_content r"
  using assms by (cases p; cases r; simp)+

section \<open>The invariant\<close>

fun wf_node :: "nat \<Rightarrow> TaskNode \<Rightarrow> bool" where
  "wf_node k (TaskNode i c s a cs) \<longleftrightarrow> c \<noteq> [] \<and> length cs \<le> MAX_CHILDREN_PER_EXPANSION \<and> (cs = [] \<or> 0 < k)
     \<and> (\<forall>x \<in> set cs. wf_node (k - 1) x)"

definition task_wf :: "TaskTree \<Rightarrow> bool" where
  "task_wf tree \<longleftrightarrow> distinct (below (nd_children (root tree))) \<and> length (nd_children (root tree)) \<le> MAX_ROOT_TASKS
     \<and> (\<forall>x \<in> set (nd_children (root tree)). wf_node (MAX_DEPTH - 1) x)"

fun siblings_ok :: "TaskNode \<Rightarrow> bool" where
  "siblings_ok (TaskNode i c s a cs) \<longleftrightarrow> countStatus TaskInProgress cs \<le> 1 \<and> (\<forall>x \<in> set cs. siblings_ok x)"

lemma wf_update:
  "node_at p r = Some n \<Longrightarrow> wf_node k r \<Longrightarrow> (wf_node (k - length p) n \<Longrightarrow> wf_node (k - length p) (f n)) \<Longrightarrow>
    wf_node k (update_at p f r)"
proof (induction p arbitrary: r k)
  case (Cons j p)
  obtain i c s a cs where r: "r = TaskNode i c s a cs" by (cases r)
  have j: "j < length cs" and n: "node_at p (cs ! j) = Some n" using Cons.prems(1) r by (auto split: if_splits)
  have "wf_node (k - 1) (update_at p f (cs ! j))"
    using Cons.IH[OF n, of "k - 1"] Cons.prems(2,3) j r by simp
  moreover have "set (cs[j := y]) \<subseteq> insert y (set cs)" for y by (rule set_update_subset_insert)
  ultimately show ?case using Cons.prems(2) j r by (auto dest: subsetD)
qed simp

lemma assert_siblings_ok:
  "assertSiblings ns scope = Inr () \<longleftrightarrow> countStatus TaskInProgress ns \<le> 1 \<and> (\<forall>x \<in> set ns. siblings_ok x)"
  "assertEach ns = Inr () \<longleftrightarrow> (\<forall>x \<in> set ns. siblings_ok x)"
proof (induction ns scope and ns rule: assertSiblings_assertEach.induct)
  case (1 siblings scope)
  then show ?case by (simp add: countStatus_def)
next
  case (3 node rest)
  then show ?case by (cases node) (auto simp: bind_result_eq_Inr)
qed simp

lemma makeNextId_fresh: "fst (makeNextId existing n) \<notin> set existing"
proof (induction existing n rule: makeNextId.induct)
  case (1 existing n)
  then show ?case by (subst makeNextId.simps) (simp add: Let_def)
qed

definition fresh_tasks :: "string list \<Rightarrow> TaskNode list \<Rightarrow> bool" where
  "fresh_tasks existing ts \<longleftrightarrow> distinct (map nd_id ts) \<and> set (map nd_id ts) \<inter> set existing = {}
     \<and> (\<forall>x \<in> set ts. nd_children x = [] \<and> nd_content x \<noteq> [])"

lemma draftLoop_fresh:
  "draftLoop shw scope i ds existing n out = (Inr ts, n') \<Longrightarrow>
    \<exists>new. ts = out @ new \<and> length new = length ds \<and> fresh_tasks existing new"
proof (induction ds arbitrary: i existing n out)
  case Nil
  then show ?case by (simp add: fresh_tasks_def)
next
  case (Cons raw rest)
  let ?content = "textOf shw (js_prop raw ''content'') []" and ?given = "textOf shw (js_prop raw ''id'') []"
  let ?form = "textOf shw (js_prop raw ''activeForm'') ''general''"
  obtain tid m where tid: "(if ?given = [] then makeNextId existing n else (?given, n)) = (tid, m)"
    by (cases "if ?given = [] then makeNextId existing n else (?given, n)")
  obtain status where ok: "?content \<noteq> []" "isTaskStatus (js_prop raw ''status'') = Some status" "tid \<notin> set existing"
    and rec: "draftLoop shw scope (i + 1) rest (tid # existing) m
      (out @ [TaskNode tid ?content status (if ?form = [] then ''general'' else ?form) []]) = (Inr ts, n')"
    using Cons.prems tid by (auto simp: Let_def split: if_splits option.splits)
  from Cons.IH[OF rec] obtain new where new: "ts = (out @ [TaskNode tid ?content status (if ?form = [] then ''general'' else ?form) []]) @ new"
    "length new = length rest" "fresh_tasks (tid # existing) new" by auto
  then show ?case
    using ok by (intro exI[of _ "TaskNode tid ?content status (if ?form = [] then ''general'' else ?form) [] # new"])
      (auto simp: fresh_tasks_def)
qed

lemma normalizeDrafts_fresh:
  assumes "normalizeDrafts shw tree drafts scope seed = (Inr ts, n)"
  shows "fresh_tasks (nullish seed (map nd_id (collectAllNodes (root tree)))) ts"
  using assms draftLoop_fresh[of shw scope 0 _ _ _ "[]"]
  by (cases drafts) (auto simp: normalizeDrafts_def split: if_splits)

lemma below_leaves: "\<forall>x \<in> set ts. nd_children x = [] \<Longrightarrow> below ts = map nd_id ts"
  by (induction ts) (simp_all add: ids_children)

lemma wf_leaf: "nd_children x = [] \<Longrightarrow> nd_content x \<noteq> [] \<Longrightarrow> wf_node k x"
  by (cases x) simp

lemma replaceRoot_wf:
  assumes "task_wf tree"
  shows "task_wf (snd (applyReplaceRoot shw tree input))"
proof -
  obtain r n where r: "normalizeDrafts shw tree (js_prop input ''tasks'') ''replace_root'' (Some []) = (r, n)" by fastforce
  have "task_wf (tree\<lparr>root := set_children ts (root tree), nextId := n\<rparr>)" if "r = Inr ts" "length ts \<le> MAX_ROOT_TASKS" for ts
  proof -
    have f: "fresh_tasks [] ts" using normalizeDrafts_fresh[of shw tree] r that(1) by fastforce
    have "nd_children (set_children ts (root tree)) = ts" by (cases "root tree") simp
    then show ?thesis using f that(2) below_leaves[of ts] wf_leaf by (auto simp: task_wf_def fresh_tasks_def)
  qed
  moreover have "task_wf (tree\<lparr>nextId := n\<rparr>)" using assms by (simp add: task_wf_def)
  ultimately show ?thesis using r by (cases r) (simp_all add: applyReplaceRoot_def)
qed

text \<open>Changing the node a reference points to, in the tree below the root.\<close>

lemma update_below:
  assumes "ref_ok r f"
  shows "mset (below (nd_children (update_at (fn_path f) g r))) + mset (ids (fn_node f))
     = mset (below (nd_children r)) + mset (ids (g (fn_node f)))"
    "length (nd_children (update_at (fn_path f) g r)) = length (nd_children r)"
proof -
  have n: "node_at (fn_path f) r = Some (fn_node f)" and ne: "fn_path f \<noteq> []" using assms by (simp_all add: ref_ok_def)
  have "add_mset (nd_id r) (mset (below (nd_children (update_at (fn_path f) g r))) + mset (ids (fn_node f)))
      = add_mset (nd_id r) (mset (below (nd_children r)) + mset (ids (g (fn_node f))))"
    using ids_update[OF n, of g] update_at_root(1)[OF ne, of g r]
    by (simp only: ids_children[of r] ids_children[of "update_at (fn_path f) g r"] mset.simps union_mset_add_mset_left)
  then show "mset (below (nd_children (update_at (fn_path f) g r))) + mset (ids (fn_node f))
     = mset (below (nd_children r)) + mset (ids (g (fn_node f)))" by simp
  show "length (nd_children (update_at (fn_path f) g r)) = length (nd_children r)"
    using ne by (cases "fn_path f"; cases r) simp_all
qed

lemma update_wf_children:
  assumes f: "ref_ok r f" and wf: "\<forall>x \<in> set (nd_children r). wf_node (MAX_DEPTH - 1) x"
    and g: "wf_node (MAX_DEPTH - fn_depth f) (fn_node f) \<Longrightarrow> wf_node (MAX_DEPTH - fn_depth f) (g (fn_node f))"
  shows "\<forall>x \<in> set (nd_children (update_at (fn_path f) g r)). wf_node (MAX_DEPTH - 1) x"
proof -
  obtain j p where p: "fn_path f = j # p" using f by (cases "fn_path f") (auto simp: ref_ok_def)
  obtain i c s a cs where r: "r = TaskNode i c s a cs" by (cases r)
  have n: "node_at p (cs ! j) = Some (fn_node f)" and j: "j < length cs" and d: "fn_depth f = Suc (length p)"
    using f p r by (auto simp: ref_ok_def split: if_splits)
  have "wf_node (MAX_DEPTH - 1) (update_at p g (cs ! j))"
    by (rule wf_update[OF n]) (use wf g r j d in simp_all)
  then show ?thesis using wf r j p set_update_subset_insert[of cs j] by (auto dest!: subsetD)
qed

lemma expand_wf:
  assumes wf: "task_wf tree"
  shows "task_wf (snd (applyExpand shw tree input))"
proof -
  let ?pid = "textOf shw (js_prop input ''parent_id'') []"
  have same: "task_wf (tree\<lparr>nextId := n\<rparr>)" for n using wf by (simp add: task_wf_def)
  have "task_wf (tree\<lparr>root := update_at (fn_path f) (set_children ts) (root tree), nextId := n\<rparr>)"
    if f: "findNodeWithDepth (root tree) ?pid = Some f" and d: "\<not> fn_depth f \<ge> MAX_DEPTH" and leaf: "nd_children (fn_node f) = []"
      and ts: "normalizeDrafts shw tree (js_prop input ''tasks'') ''expand'' None = (Inr ts, n)"
      and l: "\<not> length ts > MAX_CHILDREN_PER_EXPANSION" for f ts n
  proof -
    have r: "ref_ok (root tree) f" using find_sound[OF f] by simp
    have fr: "fresh_tasks (map nd_id (collectAllNodes (root tree))) ts" using normalizeDrafts_fresh[OF ts] by simp
    have old: "set (map nd_id (collectAllNodes (root tree))) = set (below (nd_children (root tree)))"
      using collect_ids[of "root tree"] by (metis set_mset_mset)
    have new: "ids (set_children ts (fn_node f)) = nd_id (fn_node f) # map nd_id ts"
      using fr below_leaves[of ts] by (cases "fn_node f") (simp add: ids_children fresh_tasks_def del: nodes.simps)
    have "mset (below (nd_children (update_at (fn_path f) (set_children ts) (root tree)))) = mset (below (nd_children (root tree)) @ map nd_id ts)"
      using update_below(1)[OF r, of "set_children ts"] leaf unfolding new ids_children[of "fn_node f"] by simp
    then have "distinct (below (nd_children (update_at (fn_path f) (set_children ts) (root tree))))"
      using wf fr old unfolding task_wf_def fresh_tasks_def by (metis distinct_append inf_commute mset_eq_imp_distinct_iff)
    moreover have "wf_node (MAX_DEPTH - fn_depth f) (set_children ts (fn_node f))" if "wf_node (MAX_DEPTH - fn_depth f) (fn_node f)"
      using that fr l d wf_leaf by (cases "fn_node f") (auto simp: fresh_tasks_def)
    ultimately show ?thesis
      using wf update_below(2)[OF r] update_wf_children[OF r, of "set_children ts"] by (simp add: task_wf_def)
  qed
  then show ?thesis
    using wf same by (auto simp: applyExpand_def Let_def split: option.split sum.split prod.split)
qed

lemma set_status_ids: "ids (set_status s n) = ids n"
  by (cases n) simp

lemma updateStatus_wf:
  assumes wf: "task_wf tree"
  shows "task_wf (snd (applyUpdateStatus shw tree input))"
proof -
  have "task_wf (tree\<lparr>root := update_at (fn_path f) (set_status s) (root tree)\<rparr>)"
    if f: "findNodeWithDepth (root tree) i = Some f" for f i s
  proof -
    have r: "ref_ok (root tree) f" using find_sound[OF f] by simp
    have "mset (below (nd_children (update_at (fn_path f) (set_status s) (root tree)))) = mset (below (nd_children (root tree)))"
      using update_below(1)[OF r, of "set_status s"] unfolding set_status_ids by simp
    from mset_eq_imp_distinct_iff[OF this]
    have "distinct (below (nd_children (update_at (fn_path f) (set_status s) (root tree))))"
      using wf by (simp add: task_wf_def)
    moreover have "wf_node k (fn_node f) \<Longrightarrow> wf_node k (set_status s (fn_node f))" for k by (cases "fn_node f") simp
    ultimately show ?thesis
      using wf update_below(2)[OF r] update_wf_children[OF r, of "set_status s"] by (simp add: task_wf_def)
  qed
  then show ?thesis using wf by (auto simp: applyUpdateStatus_def Let_def split: option.split)
qed

lemma apply_wf: "task_wf tree \<Longrightarrow> task_wf (snd (taskTreeApply shw tree input))"
  using replaceRoot_wf[of tree shw input] expand_wf[of tree shw input] updateStatus_wf[of tree shw input]
  by (auto simp: taskTreeApply_def Let_def split: prod.split sum.split)

lemma apply_accepts:
  assumes "taskTreeApply shw tree input = (Inr out, tree')"
  shows "siblings_ok (root tree') \<and> length (flatten tree') \<le> MAX_TOTAL_TASKS \<and> out = render tree'"
proof -
  have a: "assertInProgressConstraint tree' = Inr ()" "assertTotalTaskLimit tree' = Inr ()" "out = render tree'"
    using assms by (auto simp: taskTreeApply_def Let_def bind_result_eq_Inr split: prod.splits sum.splits)
  have "length (flatten tree') = length (collectAllNodes (root tree'))"
    using arg_cong[OF collect_ids[of "root tree'"], of size] arg_cong[OF flatten_ids[of tree'], of length] by simp
  then show ?thesis
    using a assert_siblings_ok(1)[of "nd_children (root tree')" "''root''"]
    by (cases "root tree'") (simp add: assertInProgressConstraint_def assertTotalTaskLimit_def split: if_splits)
qed

end
