(* ===== verification/TaskTreeClaims.thy ===== *)
theory TaskTreeClaims
  imports TaskTreeProps
begin

text \<open>
  The claims about the task tree: what a status update changes, the invariant of every tree that write operations
  can produce, and the rejected update whose change stays in the tree.
\<close>

section \<open>A status update in the flat view\<close>

definition upd :: "string \<Rightarrow> TaskStatus \<Rightarrow> FlatTaskNodeView \<Rightarrow> FlatTaskNodeView" where
  "upd i s v = (if fv_id v = i then v\<lparr>fv_status := s\<rparr> else v)"

lemma upd_fields [simp]: "fv_id (upd i s v) = fv_id v" "fv_depth (upd i s v) = fv_depth v"
  by (simp_all add: upd_def)

lemma upd_record:
  "upd i s \<lparr>fv_id = j, fv_content = c, fv_status = st, fv_activeForm = a, fv_depth = d, fv_parentId = p\<rparr>
     = \<lparr>fv_id = j, fv_content = c, fv_status = (if j = i then s else st), fv_activeForm = a, fv_depth = d, fv_parentId = p\<rparr>"
  by (simp add: upd_def)

lemma upd_absent: "i \<notin> set (map fv_id vs) \<Longrightarrow> map (upd i s) vs = vs"
  by (induction vs) (auto simp: upd_def)

lemma below_mem: "k < length cs \<Longrightarrow> set (ids (cs ! k)) \<subseteq> set (below cs)"
  unfolding below_def set_concat set_map by (metis UN_upper image_eqI nth_mem set_map)

lemma id_below: "b \<in> set cs \<Longrightarrow> nd_id b \<in> set (below cs)"
proof -
  assume "b \<in> set cs"
  then obtain k where "k < length cs" "cs ! k = b" by (auto simp: in_set_conv_nth)
  then have "set (ids b) \<subseteq> set (below cs)" using below_mem by blast
  then show ?thesis unfolding ids_children[of b] by simp
qed

lemma below_disjoint:
  "distinct (below cs) \<Longrightarrow> j < length cs \<Longrightarrow> k < length cs \<Longrightarrow> j \<noteq> k \<Longrightarrow> set (ids (cs ! j)) \<inter> set (ids (cs ! k)) = {}"
proof (induction cs arbitrary: j k)
  case (Cons c cs)
  have d: "distinct (below cs)" "set (ids c) \<inter> set (below cs) = {}" using Cons.prems(1) by auto
  show ?case
  proof (cases j)
    case 0
    then obtain k' where "k = Suc k'" "k' < length cs" using Cons.prems(3,4) by (cases k) auto
    then show ?thesis using 0 d(2) below_mem[of k' cs] by auto
  next
    case (Suc j')
    show ?thesis
    proof (cases k)
      case 0
      then show ?thesis using Suc d(2) below_mem[of j' cs] Cons.prems(2) by auto
    next
      case (Suc k')
      then show ?thesis using \<open>j = Suc j'\<close> Cons.IH[OF d(1), of j' k'] Cons.prems by simp
    qed
  qed
qed simp

lemma distinct_below_nth: "distinct (below cs) \<Longrightarrow> j < length cs \<Longrightarrow> distinct (ids (cs ! j))"
  by (induction cs arbitrary: j) (auto simp: nth_Cons split: nat.splits)

lemma node_at_ids: "node_at p r = Some n \<Longrightarrow> nd_id n \<in> set (ids r)"
proof (induction p arbitrary: r)
  case Nil
  then show ?case by (simp add: ids_children del: nodes.simps)
next
  case (Cons j p)
  then have "j < length (nd_children r)" "nd_id n \<in> set (ids (nd_children r ! j))" by (auto split: if_splits)
  then show ?case using below_mem[of j "nd_children r"] by (auto simp only: ids_children[of r] set_simps)
qed

text \<open>Updating one tree of a forest.\<close>

lemma forest_update:
  assumes d: "distinct (below cs)" and j: "j < length cs" and n: "nd_id n \<in> set (ids (cs ! j))"
    and H: "preorder k par y = map (upd (nd_id n) s) (preorder k par (cs ! j))"
  shows "concat (map (preorder k par) (cs[j := y])) = map (upd (nd_id n) s) (concat (map (preorder k par) cs))"
proof -
  have "map (preorder k par) (cs[j := y]) = map (\<lambda>c. map (upd (nd_id n) s) (preorder k par c)) cs"
  proof (rule nth_equalityI)
    fix m assume m: "m < length (map (preorder k par) (cs[j := y]))"
    show "map (preorder k par) (cs[j := y]) ! m = map (\<lambda>c. map (upd (nd_id n) s) (preorder k par c)) cs ! m"
    proof (cases "m = j")
      case True
      then show ?thesis using H j by simp
    next
      case False
      then have "nd_id n \<notin> set (map fv_id (preorder k par (cs ! m)))"
        using below_disjoint[OF d j] m n unfolding preorder_ids by auto
      then show ?thesis using upd_absent False m by (simp del: set_map)
    qed
  qed simp
  then show ?thesis by (simp add: map_concat comp_def)
qed

lemma preorder_update:
  "node_at p r = Some n \<Longrightarrow> distinct (ids r) \<Longrightarrow>
    preorder k par (update_at p (set_status s) r) = map (upd (nd_id n) s) (preorder k par r)"
proof (induction p arbitrary: r k par)
  case Nil
  obtain i c st a cs where r: "r = TaskNode i c st a cs" by (cases r)
  have "i \<notin> set (below cs)" using Nil.prems(2) r by (simp add: ids_children del: nodes.simps)
  then have "i \<notin> set (map fv_id (concat (map (preorder (k + 1) (Some i)) cs)))"
    by (simp add: map_concat comp_def preorder_ids below_def)
  from upd_absent[OF this, of s] show ?case using Nil.prems(1) r by (auto simp: upd_record)
next
  case (Cons j p)
  obtain i c st a cs where r: "r = TaskNode i c st a cs" by (cases r)
  have j: "j < length cs" and n: "node_at p (cs ! j) = Some n" using Cons.prems(1) r by (auto split: if_splits)
  have d: "i \<notin> set (below cs)" "distinct (below cs)" using Cons.prems(2) r by (simp_all add: ids_children del: nodes.simps)
  have nj: "nd_id n \<in> set (ids (cs ! j))" by (rule node_at_ids[OF n])
  then have "nd_id n \<noteq> i" using d(1) below_mem[OF j] by auto
  moreover have "concat (map (preorder (k + 1) (Some i)) (cs[j := update_at p (set_status s) (cs ! j)]))
      = map (upd (nd_id n) s) (concat (map (preorder (k + 1) (Some i)) cs))"
    by (rule forest_update[OF d(2) j nj Cons.IH[OF n distinct_below_nth[OF d(2) j]]])
  ultimately show ?case using r j by (simp add: upd_def)
qed

lemma flatten_update:
  assumes f: "ref_ok (root tree) f" and d: "distinct (below (nd_children (root tree)))"
  shows "flatten (tree\<lparr>root := update_at (fn_path f) (set_status s) (root tree)\<rparr>)
     = map (upd (nd_id (fn_node f)) s) (flatten tree)"
proof -
  obtain j p where p: "fn_path f = j # p" using f by (cases "fn_path f") (auto simp: ref_ok_def)
  obtain i c st a cs where r: "root tree = TaskNode i c st a cs" by (cases "root tree")
  have n: "node_at p (cs ! j) = Some (fn_node f)" and j: "j < length cs"
    using f p r by (auto simp: ref_ok_def split: if_splits)
  have d': "distinct (below cs)" using d r by simp
  show ?thesis
    using forest_update[OF d' j node_at_ids[OF n] preorder_update[OF n distinct_below_nth[OF d' j]], of 1 None s] r p j
    by (simp add: flatten_preorder)
qed

section \<open>Claims\<close>

text \<open>The input of a status update.\<close>

definition statusInput :: "string \<Rightarrow> string \<Rightarrow> jsv" where
  "statusInput i st = JObj [(''op'', JStr ''update_status''), (''task_id'', JStr i), (''status'', JStr st)]"

lemma updateStatus_found:
  assumes "js_trim i = i" "i \<noteq> []" "isTaskStatus (JStr st) = Some s"
  shows "applyUpdateStatus shw tree (statusInput i st) = (case findNodeWithDepth (root tree) i of
      None \<Rightarrow> (Inl (''update_status: task '' @ [CHR 0x27] @ i @ [CHR 0x27] @ '' not found''), tree)
    | Some f \<Rightarrow> (Inr (), tree\<lparr>root := update_at (fn_path f) (set_status s) (root tree)\<rparr>))"
  using assms by (simp add: applyUpdateStatus_def statusInput_def textOf_def Let_def)

lemma apply_statusInput:
  "taskTreeApply shw tree (statusInput i st) = (case applyUpdateStatus shw tree (statusInput i st) of
      (Inl e, tree') \<Rightarrow> (Inl e, tree')
    | (Inr _, tree') \<Rightarrow> (bind_result (assertInProgressConstraint tree') (\<lambda>_.
        bind_result (assertTotalTaskLimit tree') (\<lambda>_. Inr (render tree'))), tree'))"
  by (simp add: taskTreeApply_def statusInput_def)

text \<open>Updating the status of a task. When no task below the root has the id, the update fails and nothing
  changes. Otherwise, whether or not the update is then rejected by a constraint, exactly the task with that id
  has the new status in the flat view and every other line is as before.\<close>

theorem update_status_effect:
  assumes "task_wf tree" "js_trim i = i" "i \<noteq> []" "isTaskStatus (JStr st) = Some s"
  shows "if i \<in> set (map fv_id (flatten tree))
     then flatten (snd (taskTreeApply shw tree (statusInput i st))) = map (upd i s) (flatten tree)
     else taskTreeApply shw tree (statusInput i st)
        = (Inl (''update_status: task '' @ [CHR 0x27] @ i @ [CHR 0x27] @ '' not found''), tree)"
proof (cases "findNodeWithDepth (root tree) i")
  case None
  then have "i \<notin> set (map fv_id (flatten tree))" unfolding flatten_ids find_complete .
  then show ?thesis using None unfolding apply_statusInput updateStatus_found[OF assms(2-4)] by (simp del: set_map)
next
  case (Some f)
  then have "i \<in> set (map fv_id (flatten tree))"
    using find_complete[of "root tree" i] unfolding flatten_ids by auto
  moreover have "flatten (snd (taskTreeApply shw tree (statusInput i st))) = map (upd i s) (flatten tree)"
    using flatten_update[of tree f s] find_sound[OF Some] assms(1) Some
    unfolding apply_statusInput updateStatus_found[OF assms(2-4)] by (simp add: task_wf_def)
  ultimately show ?thesis by simp
qed

text \<open>Runs of write operations, accepted or not.\<close>

definition applyAll :: "(rat \<Rightarrow> string) \<Rightarrow> jsv list \<Rightarrow> TaskTree \<Rightarrow> TaskTree" where
  "applyAll shw ops tree = foldl (\<lambda>t op. snd (taskTreeApply shw t op)) tree ops"

lemma applyAll_wf: "task_wf tree \<Longrightarrow> task_wf (applyAll shw ops tree)"
  by (induction ops arbitrary: tree) (simp_all add: applyAll_def apply_wf)

lemma empty_task_wf: "task_wf createEmptyTaskTree"
  by (simp add: task_wf_def createEmptyTaskTree_def)

text \<open>C17: After any sequence of write operations on an empty tree, rejected ones included, task ids are distinct,
  there are at most 20 root tasks and 8 children per task, no task is deeper than four levels and every task has
  a content. When the next operation is accepted, its answer is the rendering of the new tree, in which besides
  at most one task of every group of siblings is in progress and there are at most 120 tasks.\<close>

theorem task_tree_invariant:
  assumes "tree = applyAll shw ops createEmptyTaskTree" "taskTreeApply shw tree input = (r, tree')"
  shows "task_wf tree' \<and> (\<forall>out. r = Inr out \<longrightarrow>
      out = render tree' \<and> siblings_ok (root tree') \<and> length (flatten tree') \<le> MAX_TOTAL_TASKS)"
proof -
  have "task_wf tree" unfolding assms(1) by (rule applyAll_wf[OF empty_task_wf])
  then have "task_wf tree'" using apply_wf[of tree shw input] assms(2) by simp
  then show ?thesis using apply_accepts assms(2) by blast
qed

section \<open>A rejected update\<close>

lemma preorder_depth: "v \<in> set (preorder d par n) \<Longrightarrow> d \<le> fv_depth v"
proof (induction d par n rule: preorder.induct)
  case (1 d par i c s a cs)
  then show ?case by fastforce
qed

definition view1 :: "TaskNode \<Rightarrow> FlatTaskNodeView" where
  "view1 n = \<lparr>fv_id = nd_id n, fv_content = nd_content n, fv_status = nd_status n, fv_activeForm = nd_activeForm n,
     fv_depth = 1, fv_parentId = None\<rparr>"

lemma filter_root: "filter (\<lambda>v. fv_depth v = 1) (preorder 1 None n) = [view1 n]"
proof -
  obtain i c s a cs where n: "n = TaskNode i c s a cs" by (cases n)
  have "\<not> fv_depth v = 1" if "v \<in> set (concat (map (preorder 2 (Some i)) cs))" for v
    using that preorder_depth[of v 2 "Some i"] by fastforce
  then have "filter (\<lambda>v. fv_depth v = 1) (concat (map (preorder 2 (Some i)) cs)) = []"
    unfolding filter_empty_conv by blast
  then show ?thesis by (simp add: n view1_def numeral_2_eq_2)
qed

lemma root_views: "filter (\<lambda>v. fv_depth v = 1) (flatten tree) = map view1 (nd_children (root tree))"
proof -
  have "filter (\<lambda>v. fv_depth v = 1) (concat (map (preorder 1 None) cs)) = map view1 cs" for cs
    using filter_root by (induction cs) (simp_all del: One_nat_def)
  then show ?thesis unfolding flatten_preorder .
qed

lemma two_elements: "x \<in> set xs \<Longrightarrow> y \<in> set xs \<Longrightarrow> x \<noteq> y \<Longrightarrow> 1 < length xs"
  by (cases xs; cases "tl xs") auto

text \<open>A status update that would put a second root task in progress is rejected, but the rejection comes after the
  change: the tree keeps both tasks in progress and so violates the constraint the rejection states.\<close>

theorem rejected_update_stays:
  assumes wf: "task_wf tree" and a: "a \<in> set (nd_children (root tree))" and b: "b \<in> set (nd_children (root tree))"
    and ne: "nd_id a \<noteq> nd_id b" and st: "nd_status a = TaskInProgress"
    and i: "js_trim (nd_id b) = nd_id b" "nd_id b \<noteq> []"
  shows "\<exists>e tree'. taskTreeApply shw tree (statusInput (nd_id b) ''in_progress'') = (Inl e, tree')
     \<and> flatten tree' = map (upd (nd_id b) TaskInProgress) (flatten tree) \<and> \<not> siblings_ok (root tree')"
proof -
  have s: "isTaskStatus (JStr ''in_progress'') = Some TaskInProgress" by (simp add: isTaskStatus_def)
  have "nd_id b \<in> set (below (nd_children (root tree)))" by (rule id_below[OF b])
  then obtain f where f: "findNodeWithDepth (root tree) (nd_id b) = Some f" using find_complete by fastforce
  define tree' where "tree' = tree\<lparr>root := update_at (fn_path f) (set_status TaskInProgress) (root tree)\<rparr>"
  have fl: "flatten tree' = map (upd (nd_id b) TaskInProgress) (flatten tree)"
    unfolding tree'_def using flatten_update find_sound[OF f] wf by (auto simp: task_wf_def)
  have views: "map view1 (nd_children (root tree')) = map (upd (nd_id b) TaskInProgress) (map view1 (nd_children (root tree)))"
    unfolding root_views[symmetric] fl by (simp add: filter_map comp_def)
  let ?ip = "filter (\<lambda>v. fv_status v = TaskInProgress) (map view1 (nd_children (root tree')))"
  have "upd (nd_id b) TaskInProgress (view1 a) \<in> set ?ip" "upd (nd_id b) TaskInProgress (view1 b) \<in> set ?ip"
    unfolding views using a b ne st by (auto simp: upd_def view1_def)
  moreover have "upd (nd_id b) TaskInProgress (view1 a) \<noteq> upd (nd_id b) TaskInProgress (view1 b)"
    using ne by (auto simp: upd_def view1_def)
  ultimately have "1 < length ?ip" by (rule two_elements)
  then have two: "countStatus TaskInProgress (nd_children (root tree')) > 1"
    by (simp add: countStatus_def filter_map comp_def view1_def)
  have "\<not> siblings_ok (root tree')" using two by (cases "root tree'") simp
  moreover obtain e where "assertInProgressConstraint tree' = Inl e"
    using two by (simp add: assertInProgressConstraint_def countStatus_def)
  moreover have "applyUpdateStatus shw tree (statusInput (nd_id b) ''in_progress'') = (Inr (), tree')"
    unfolding updateStatus_found[OF i s] f tree'_def by simp
  ultimately show ?thesis using fl unfolding apply_statusInput by simp
qed

section \<open>Witnesses\<close>

definition demo_drafts :: jsv where
  "demo_drafts = JObj [(''op'', JStr ''replace_root''), (''tasks'', JArr
     [JObj [(''content'', JStr ''plan''), (''status'', JStr ''in_progress'')],
      JObj [(''id'', JStr ''b''), (''content'', JStr ''build''), (''status'', JStr ''pending'')]])]"

definition demo_tree :: TaskTree where
  "demo_tree = applyAll (\<lambda>_. []) [demo_drafts] createEmptyTaskTree"

lemma demo_tree_wf: "task_wf demo_tree"
  unfolding demo_tree_def by (rule applyAll_wf[OF empty_task_wf])

lemma demo_tree_children: "nd_children (root demo_tree)
   = [TaskNode ''task-1'' ''plan'' TaskInProgress ''general'' [], TaskNode ''b'' ''build'' TaskPending ''general'' []]"
  by code_simp

lemma demo_trim: "js_trim ''b'' = ''b''"
  by code_simp

theorem update_status_effect_witness:
  "task_wf demo_tree \<and> map fv_status (flatten (snd (taskTreeApply (\<lambda>_. []) demo_tree (statusInput ''b'' ''completed''))))
     = [TaskInProgress, TaskCompleted]"
proof -
  have s: "isTaskStatus (JStr ''completed'') = Some TaskCompleted" by (simp add: isTaskStatus_def)
  have "flatten demo_tree = map view1 (nd_children (root demo_tree))"
    by (simp add: flatten_preorder demo_tree_children view1_def)
  then have fl: "flatten demo_tree = [view1 (TaskNode ''task-1'' ''plan'' TaskInProgress ''general'' []),
      view1 (TaskNode ''b'' ''build'' TaskPending ''general'' [])]" by (simp add: demo_tree_children)
  show ?thesis
    using update_status_effect[OF demo_tree_wf demo_trim _ s, of "\<lambda>_. []"] demo_tree_wf
    by (simp add: fl view1_def upd_def)
qed

theorem task_tree_invariant_witness:
  "\<exists>out. taskTreeApply (\<lambda>_. []) createEmptyTaskTree demo_drafts = (Inr out, demo_tree) \<and> siblings_ok (root demo_tree)"
proof -
  have e: "createEmptyTaskTree = applyAll (\<lambda>_. []) [] createEmptyTaskTree" by (simp add: applyAll_def)
  have t: "snd (taskTreeApply (\<lambda>_. []) createEmptyTaskTree demo_drafts) = demo_tree"
    by (simp add: demo_tree_def applyAll_def)
  have "\<not> isl (fst (taskTreeApply (\<lambda>_. []) createEmptyTaskTree demo_drafts))" by code_simp
  then obtain out where o: "taskTreeApply (\<lambda>_. []) createEmptyTaskTree demo_drafts = (Inr out, demo_tree)"
    using t by (metis isl_def prod.collapse sum.exhaust_sel)
  then show ?thesis using task_tree_invariant[OF e o] by blast
qed

theorem rejected_update_stays_witness:
  "\<exists>e tree'. taskTreeApply (\<lambda>_. []) demo_tree (statusInput ''b'' ''in_progress'') = (Inl e, tree') \<and> \<not> siblings_ok (root tree')"
proof -
  let ?a = "TaskNode ''task-1'' ''plan'' TaskInProgress ''general'' []" and ?b = "TaskNode ''b'' ''build'' TaskPending ''general'' []"
  have "?a \<in> set (nd_children (root demo_tree))" "?b \<in> set (nd_children (root demo_tree))" by (simp_all add: demo_tree_children)
  from rejected_update_stays[OF demo_tree_wf this, of "\<lambda>_. []"] show ?thesis using demo_trim by auto
qed

end
