(* ===== verification/SafepointModel.thy ===== *)
theory SafepointModel
  imports SignalModel
begin

text \<open>
  The snapshot safepoint: \<open>ai-runtime-control-logic/src/index.ts\<close> and the wake mailboxes of
  \<open>ai-core-logic/src/runtime/actor.ts\<close>. A snapshot may be saved only when no fiber has a mandatory continuation or
  pending mailbox work. Execution states come from persisted data and are untyped values.

  An actor is the part of it the safepoint reads: key, id, messages and what is waiting in each mailbox. \<open>shw\<close>
  renders finite numbers and \<open>lc\<close> is \<open>localeCompare\<close>. The barrier is built with the primitives of
  \<open>vendor/depa-actor-control/src/index.ts\<close>.
\<close>

section \<open>Data\<close>

type_synonym AiAgentWakeMailbox = string

definition AI_AGENT_WAKE_MAILBOXES :: "AiAgentWakeMailbox list" where
  "AI_AGENT_WAKE_MAILBOXES = [''control'', ''toolResult'', ''asyncCompletion'', ''childDone'', ''memberCoordination'',
     ''humanInput'', ''memberChatInbox'', ''heartbeat'']"

datatype MailboxWorkClass =
  RecoverableInput | MandatoryCompletion | Interrupt | ControlMarker | LowPriorityContinuation | TimerWake | OtherWorkClass string

datatype RuntimeSnapshotSafepointBlockerReason = MandatoryContinuation | PendingMailboxWork

record AiMailboxWorkClassification =
  mc_mailboxKind :: AiAgentWakeMailbox
  mc_workClass :: MailboxWorkClass
  mc_reason :: RuntimeSnapshotSafepointBlockerReason

record RuntimeSnapshotSafepointBlocker =
  bk_fiberId :: string
  bk_actorKey :: "string option"
  bk_actorId :: "string option"
  bk_status :: "string option"
  bk_phase :: "string option"
  bk_workClass :: MailboxWorkClass
  bk_mailboxKinds :: "AiAgentWakeMailbox list option"
  bk_reason :: RuntimeSnapshotSafepointBlockerReason

record RuntimeSnapshotSafepointResult =
  sf_safe :: bool
  sf_blockers :: "RuntimeSnapshotSafepointBlocker list"

record SpActor =
  sa_key :: string
  sa_id :: string
  sa_messages :: "jsv list"
  sa_mailbox :: "AiAgentWakeMailbox \<Rightarrow> jsv list"

record FiberCtx =
  fc_execState :: jsv
  fc_actor :: "SpActor option"
  fc_actorKey :: "string option"
  fc_actorId :: "string option"

record AiRuntimeInspection =
  in_pendingForegroundTasks :: "string list option"
  in_fibers :: "FiberCtx obj option"
  in_stateFibers :: "jsv obj option"

definition listPendingAiAgentWakeMailboxes :: "SpActor \<Rightarrow> AiAgentWakeMailbox list" where
  "listPendingAiAgentWakeMailboxes actor = filter (\<lambda>mb. sa_mailbox actor mb \<noteq> []) AI_AGENT_WAKE_MAILBOXES"

definition hasPendingAiAgentWakeMailbox :: "SpActor \<Rightarrow> bool" where
  "hasPendingAiAgentWakeMailbox actor \<longleftrightarrow> length (listPendingAiAgentWakeMailboxes actor) > 0"

section \<open>Normalization of an execution state\<close>

text \<open>\<open>JSON.parse(JSON.stringify(v))\<close>: undefined has no JSON, in arrays it becomes null and in objects the property is
  left out; numbers that are not finite become null.\<close>

fun json_clone :: "jsv \<Rightarrow> jsv option" where
  "json_clone JUndef = None"
| "json_clone JNull = Some JNull"
| "json_clone (JBool b) = Some (JBool b)"
| "json_clone (JNum n) = Some (if num_finite n then JNum n else JNull)"
| "json_clone (JStr s) = Some (JStr s)"
| "json_clone (JArr xs) = Some (JArr (map (\<lambda>x. nullish (json_clone x) JNull) xs))"
| "json_clone (JObj ps) = Some (JObj (concat (map (\<lambda>p. case json_clone (snd p) of None \<Rightarrow> [] | Some v \<Rightarrow> [(fst p, v)]) ps)))"

definition cloneJsonValue :: "jsv \<Rightarrow> jsv option" where
  "cloneJsonValue v = json_clone v"

fun asArray :: "jsv \<Rightarrow> jsv list" where
  "asArray (JArr xs) = xs"
| "asArray _ = []"

fun asNonNegativeInteger :: "jsv \<Rightarrow> int \<Rightarrow> int" where
  "asNonNegativeInteger (JNum (Fin q)) fallback = (if 0 \<le> q then \<lfloor>q\<rfloor> else fallback)"
| "asNonNegativeInteger _ fallback = fallback"

fun is_object :: "jsv \<Rightarrow> bool" where
  "is_object (JArr _) = True"
| "is_object (JObj _) = True"
| "is_object _ = False"

definition num :: "int \<Rightarrow> jsv" where
  "num n = JNum (Fin (of_int n))"

definition cloned_array :: "jsv \<Rightarrow> jsv" where
  "cloned_array v = nullish (cloneJsonValue (JArr (asArray v))) (JArr [])"

definition normalizeCooperativeInflight :: "jsv \<Rightarrow> jsv" where
  "normalizeCooperativeInflight v =
     (if \<not> is_object v then JUndef
      else let kind = as_str (js_prop v ''kind''); opId = as_str (js_prop v ''opId'') in
        if kind = [] \<or> opId = [] then JUndef
        else if kind = ''compress'' then JObj [(''kind'', JStr kind), (''opId'', JStr opId)]
        else if kind = ''llm'' then
          JObj [(''kind'', JStr kind), (''opId'', JStr opId), (''turn'', num (asNonNegativeInteger (js_prop v ''turn'') 0)),
                (''tools'', cloned_array (js_prop v ''tools''))]
        else if kind = ''tool'' then
          JObj [(''kind'', JStr kind), (''opId'', JStr opId), (''funcName'', JStr (as_str (js_prop v ''funcName''))),
                (''toolCallId'', JStr (as_str (js_prop v ''toolCallId''))),
                (''args'', (case cloneJsonValue (js_prop v ''args'') of Some a \<Rightarrow> (if a = JNull then JObj [] else a) | None \<Rightarrow> JObj []))]
        else if kind = ''questionnaire_parse'' then
          JObj [(''kind'', JStr kind), (''opId'', JStr opId), (''questionnaireId'', JStr (as_str (js_prop v ''questionnaireId''))),
                (''toolCallId'', JStr (as_str (js_prop v ''toolCallId''))), (''rawText'', JStr (as_str (js_prop v ''rawText'')))]
        else JUndef)"

definition cooperativePhases :: "string list" where
  "cooperativePhases = [''drain'', ''compress'', ''start_llm'', ''wait_llm'', ''start_tool'', ''wait_tool'', ''wait_questionnaire_parse'']"

definition normalizeCooperativeExecState :: "jsv \<Rightarrow> jsv" where
  "normalizeCooperativeExecState v =
     (if \<not> is_object v then JNull
      else let phase = as_str (js_prop v ''phase'') in
        if phase \<notin> set cooperativePhases then JNull
        else JObj [(''phase'', JStr phase), (''turn'', num (asNonNegativeInteger (js_prop v ''turn'') 0)),
          (''tools'', cloned_array (js_prop v ''tools'')), (''toolCalls'', cloned_array (js_prop v ''toolCalls'')),
          (''toolIndex'', num (asNonNegativeInteger (js_prop v ''toolIndex'') 0)),
          (''nextOpSeq'', num (max 1 (asNonNegativeInteger (js_prop v ''nextOpSeq'') 1))),
          (''pendingToolResults'', cloned_array (js_prop v ''pendingToolResults'')),
          (''pendingAiGenerated'', cloned_array (js_prop v ''pendingAiGenerated'')),
          (''inflight'', normalizeCooperativeInflight (js_prop v ''inflight'')),
          (''messageHistoryAttached'', JBool False), (''messageHistoryDetach'', JUndef)])"

section \<open>Proofs that a tool call is over\<close>

text \<open>\<open>String(a ?? b ?? "")\<close>.\<close>

definition str_or :: "(rat \<Rightarrow> string) \<Rightarrow> jsv \<Rightarrow> jsv \<Rightarrow> string" where
  "str_or shw a b = (let v = (if a = JUndef \<or> a = JNull then b else a) in
     if v = JUndef \<or> v = JNull then [] else js_String shw v)"

definition hasMatchingToolResult :: "(rat \<Rightarrow> string) \<Rightarrow> SpActor \<Rightarrow> string \<Rightarrow> bool" where
  "hasMatchingToolResult shw actor toolCallId =
     (if toolCallId = [] then False
      else list_ex (\<lambda>msg. js_prop msg ''role'' = JStr ''tool''
        \<and> str_or shw (js_prop msg ''tool_call_id'') (js_prop msg ''toolCallId'') = toolCallId) (sa_messages actor))"

definition signalProves :: "string \<Rightarrow> string \<Rightarrow> DurableControlSignalData \<Rightarrow> bool" where
  "signalProves fiberId toolCallId s =
     (if nullish (sg_fiberId s) [] \<noteq> fiberId then False
      else if toolCallId \<noteq> [] \<and> nullish (sg_toolCallId s) [] \<noteq> toolCallId then False
      else nullish (sg_mailboxKind s) [] = ''toolResult'' \<or> sg_signalKind s = AsyncCompleted)"

definition hasDurableToolOperationProof ::
  "(string \<Rightarrow> string \<Rightarrow> int) \<Rightarrow> DurableControlSignalStore \<Rightarrow> string \<Rightarrow> string \<Rightarrow> bool" where
  "hasDurableToolOperationProof lc store fiberId toolCallId =
     list_ex (signalProves fiberId toolCallId)
       (getPendingDurableControlSignals lc store None (Some fiberId)
        @ map DurableControlSignalData.truncate (obj_values (nullish (ss_consumedTombstones store) [])))"

section \<open>Mailboxes\<close>

definition put_if :: "bool \<Rightarrow> AiAgentWakeMailbox \<Rightarrow> 'c \<Rightarrow> (AiAgentWakeMailbox \<times> 'c) list \<Rightarrow> (AiAgentWakeMailbox \<times> 'c) list" where
  "put_if cond k c b = (if cond then jmap_set k c b else b)"

definition classifyAiSnapshotBlockingMailboxes ::
  "(rat \<Rightarrow> string) \<Rightarrow> SpActor \<Rightarrow> jsv \<Rightarrow> AiMailboxWorkClassification list" where
  "classifyAiSnapshotBlockingMailboxes shw actor execState =
     (let st = normalizeCooperativeExecState execState;
          opId = as_str (js_prop (js_prop st ''inflight'') ''opId'');
          mbox = sa_mailbox actor;
          b0 = put_if (opId \<noteq> [] \<and> list_ex (\<lambda>e. is_object e \<and> str_or shw (js_prop e ''opId'') JUndef = opId) (mbox ''asyncCompletion''))
                 ''asyncCompletion'' MandatoryCompletion [];
          b1 = put_if (list_ex (\<lambda>e. is_object e \<and> js_prop e ''mode'' = JStr ''sync_wait'') (mbox ''childDone''))
                 ''childDone'' MandatoryCompletion b0;
          b2 = put_if (list_ex (\<lambda>e. \<not> is_object e \<or> str_or shw (js_prop e ''kind'') JUndef \<noteq> ''questionnaire_pending'') (mbox ''control''))
                 ''control'' Interrupt b1;
          b3 = put_if (mbox ''toolResult'' \<noteq> []) ''toolResult'' MandatoryCompletion b2;
          b4 = put_if (mbox ''asyncCompletion'' \<noteq> [] \<and> map_of b3 ''asyncCompletion'' = None) ''asyncCompletion'' MandatoryCompletion b3;
          b5 = put_if (mbox ''childDone'' \<noteq> [] \<and> map_of b4 ''childDone'' = None) ''childDone'' LowPriorityContinuation b4;
          b6 = put_if (mbox ''memberCoordination'' \<noteq> []) ''memberCoordination'' RecoverableInput b5;
          b7 = put_if (mbox ''humanInput'' \<noteq> []) ''humanInput'' RecoverableInput b6;
          b8 = put_if (mbox ''memberChatInbox'' \<noteq> []) ''memberChatInbox'' LowPriorityContinuation b7;
          b9 = put_if (mbox ''heartbeat'' \<noteq> []) ''heartbeat'' TimerWake b8
      in map (\<lambda>k. \<lparr>mc_mailboxKind = k, mc_workClass = nullish (map_of b9 k) RecoverableInput, mc_reason = PendingMailboxWork\<rparr>)
           (filter (\<lambda>k. map_of b9 k \<noteq> None) AI_AGENT_WAKE_MAILBOXES))"

section \<open>The safepoint\<close>

definition currentStartToolCallId :: "(rat \<Rightarrow> string) \<Rightarrow> jsv \<Rightarrow> string" where
  "currentStartToolCallId shw st =
     (let toolIndex = asNonNegativeInteger (js_prop st ''toolIndex'') 0; calls = asArray (js_prop st ''toolCalls'');
          toolCall = (if nat toolIndex < length calls then calls ! nat toolIndex else JUndef)
      in str_or shw (js_prop toolCall ''id'') (js_prop toolCall ''toolCallId''))"

definition isLiveAsyncWaitPhase :: "jsv \<Rightarrow> bool" where
  "isLiveAsyncWaitPhase st =
     (if \<not> truthy (js_prop (js_prop st ''inflight'') ''opId'') then False
      else js_prop st ''phase'' \<in> set [JStr ''wait_llm'', JStr ''wait_tool'', JStr ''wait_questionnaire_parse'', JStr ''compress''])"

definition isMandatoryRunnablePhase :: "jsv \<Rightarrow> bool" where
  "isMandatoryRunnablePhase st \<longleftrightarrow> js_prop st ''phase'' = JStr ''start_llm''"

fun string_of :: "jsv \<Rightarrow> string option" where
  "string_of (JStr s) = Some s"
| "string_of _ = None"

definition fiberBlockers ::
  "(string \<Rightarrow> string \<Rightarrow> int) \<Rightarrow> (rat \<Rightarrow> string) \<Rightarrow> DurableControlSignalStore \<Rightarrow> string list \<Rightarrow> jsv obj
    \<Rightarrow> string \<times> FiberCtx \<Rightarrow> RuntimeSnapshotSafepointBlocker list" where
  "fiberBlockers lc shw store pendingForegroundTasks stateFibers f =
     (let fiberId = fst f; ctx = snd f;
          st = normalizeCooperativeExecState (fc_execState ctx);
          actor = fc_actor ctx;
          record' = (case map_of stateFibers fiberId of Some r \<Rightarrow> (if r = JUndef \<or> r = JNull then JObj [] else r) | None \<Rightarrow> JObj []);
          status = js_prop record' ''status'';
          runnable = (status = JStr ''ready'' \<or> status = JStr ''running'');
          boxes = (case actor of Some a \<Rightarrow> classifyAiSnapshotBlockingMailboxes shw a st | None \<Rightarrow> []);
          blocker = \<lparr>bk_fiberId = fiberId,
             bk_actorKey = (case actor of Some a \<Rightarrow> Some (sa_key a) | None \<Rightarrow> fc_actorKey ctx),
             bk_actorId = (case actor of Some a \<Rightarrow> Some (sa_id a) | None \<Rightarrow> fc_actorId ctx),
             bk_status = string_of status, bk_phase = string_of (js_prop st ''phase''),
             bk_workClass = MandatoryCompletion, bk_mailboxKinds = None, bk_reason = MandatoryContinuation\<rparr>;
          continuing = (if fiberId \<in> set pendingForegroundTasks \<or> isLiveAsyncWaitPhase st
             \<or> (isMandatoryRunnablePhase st \<and> runnable) then [blocker] else []);
          mail = (if boxes \<noteq> [] \<and> runnable
             then [blocker\<lparr>bk_phase := Some (nullish (string_of (js_prop st ''phase'')) ''mailbox''),
                           bk_workClass := mc_workClass (hd boxes),
                           bk_mailboxKinds := Some (map mc_mailboxKind boxes), bk_reason := PendingMailboxWork\<rparr>] else []);
          starting =
            (if js_prop st ''phase'' \<noteq> JStr ''start_tool'' then []
             else let calls = asArray (js_prop st ''toolCalls''); toolIndex = asNonNegativeInteger (js_prop st ''toolIndex'') 0 in
               if calls \<noteq> [] \<and> toolIndex \<ge> int (length calls) then [blocker\<lparr>bk_phase := Some ''start_tool''\<rparr>]
               else let toolCallId = currentStartToolCallId shw st in
                 if (case actor of Some a \<Rightarrow> hasMatchingToolResult shw a toolCallId | None \<Rightarrow> False)
                    \<or> hasDurableToolOperationProof lc store fiberId toolCallId
                 then [] else [blocker\<lparr>bk_phase := Some ''start_tool''\<rparr>])
      in continuing @ mail @ starting)"

definition evaluateAiAgentRuntimeSnapshotSafepoint ::
  "(string \<Rightarrow> string \<Rightarrow> int) \<Rightarrow> (rat \<Rightarrow> string) \<Rightarrow> DurableControlSignalStore \<Rightarrow> AiRuntimeInspection
    \<Rightarrow> RuntimeSnapshotSafepointResult" where
  "evaluateAiAgentRuntimeSnapshotSafepoint lc shw store inspected =
     (let blockers = concat (map (fiberBlockers lc shw store (nullish (in_pendingForegroundTasks inspected) [])
             (nullish (in_stateFibers inspected) [])) (nullish (in_fibers inspected) []))
      in \<lparr>sf_safe = (blockers = []), sf_blockers = blockers\<rparr>)"

section \<open>Control barriers\<close>

text \<open>The primitives of \<open>vendor/depa-actor-control\<close> the barrier is built with. A blocker of a turn barrier extends the
  blocker of a control barrier; the constructor copies the fields of the latter only.\<close>

record ControlBarrierBlocker =
  cb_participantId :: string
  cb_workClass :: "MailboxWorkClass option"
  cb_phase :: "string option"
  cb_reason :: string

record AiTurnBarrierBlocker = ControlBarrierBlocker +
  tb_fiberId :: "string option"
  tb_actorKey :: "string option"
  tb_actorId :: "string option"
  tb_status :: "string option"
  tb_mailboxKinds :: "AiAgentWakeMailbox list option"

record ControlBarrierResult =
  br_safe :: bool
  br_barrierId :: string
  br_purpose :: string
  br_blockers :: "ControlBarrierBlocker list"

definition createSafeControlBarrier :: "string \<Rightarrow> string \<Rightarrow> ControlBarrierResult" where
  "createSafeControlBarrier barrierId purpose = \<lparr>br_safe = True, br_barrierId = barrierId, br_purpose = purpose, br_blockers = []\<rparr>"

definition createBlockedControlBarrier ::
  "string \<Rightarrow> string \<Rightarrow> 'z ControlBarrierBlocker_scheme list \<Rightarrow> ControlBarrierResult" where
  "createBlockedControlBarrier barrierId purpose blockers =
     \<lparr>br_safe = False, br_barrierId = barrierId, br_purpose = purpose,
      br_blockers = map (\<lambda>b. \<lparr>cb_participantId = cb_participantId b, cb_workClass = cb_workClass b, cb_phase = cb_phase b,
        cb_reason = cb_reason b\<rparr>) blockers\<rparr>"

definition isControlBarrierSafe :: "ControlBarrierResult \<Rightarrow> bool" where
  "isControlBarrierSafe r = br_safe r"

record DurableHeadCohort =
  dc_cohortId :: string
  dc_barrierId :: string
  dc_heads :: "(string \<times> string) list"
  dc_canAdvance :: "ControlBarrierResult \<Rightarrow> bool"

definition createDurableHeadCohort :: "string \<Rightarrow> string \<Rightarrow> (string \<times> string) list \<Rightarrow> DurableHeadCohort" where
  "createDurableHeadCohort cohortId barrierId heads =
     \<lparr>dc_cohortId = cohortId, dc_barrierId = barrierId, dc_heads = heads,
      dc_canAdvance = (\<lambda>barrier. br_barrierId barrier = barrierId \<and> br_safe barrier)\<rparr>"

definition blockerReasonName :: "RuntimeSnapshotSafepointBlockerReason \<Rightarrow> string" where
  "blockerReasonName r = (case r of MandatoryContinuation \<Rightarrow> ''mandatory_continuation'' | PendingMailboxWork \<Rightarrow> ''pending_mailbox_work'')"

definition evaluateAiTurnSnapshotBarrier ::
  "(string \<Rightarrow> string \<Rightarrow> int) \<Rightarrow> (rat \<Rightarrow> string) \<Rightarrow> DurableControlSignalStore \<Rightarrow> AiRuntimeInspection \<Rightarrow> ControlBarrierResult" where
  "evaluateAiTurnSnapshotBarrier lc shw store inspected =
     (let safepoint = evaluateAiAgentRuntimeSnapshotSafepoint lc shw store inspected in
      if sf_safe safepoint then createSafeControlBarrier ''snapshot-save'' ''snapshot_save''
      else createBlockedControlBarrier ''snapshot-save'' ''snapshot_save''
        (map (\<lambda>b. \<lparr>cb_participantId = bk_fiberId b, cb_workClass = Some (bk_workClass b), cb_phase = bk_phase b,
            cb_reason = blockerReasonName (bk_reason b), tb_fiberId = Some (bk_fiberId b), tb_actorKey = bk_actorKey b,
            tb_actorId = bk_actorId b, tb_status = bk_status b, tb_mailboxKinds = bk_mailboxKinds b\<rparr>) (sf_blockers safepoint)))"

end
