(* ===== verification/SafepointProps.thy ===== *)
theory SafepointProps
  imports SafepointModel
begin

text \<open>
  The snapshot safepoint: normalizing an execution state twice is normalizing it once, the classification of the
  mailboxes is empty exactly when nothing but questionnaire notices is waiting, and a safe result means that no
  fiber is in the middle of anything.
\<close>

section \<open>Normalization\<close>

lemma json_clone_idem: "json_clone v = Some w \<Longrightarrow> json_clone w = Some w"
proof (induction v arbitrary: w rule: json_clone.induct)
  case (6 xs)
  let ?f = "\<lambda>x. nullish (json_clone x) JNull"
  have w: "w = JArr (map ?f xs)" using 6(2) by simp
  have "nullish (json_clone (?f x)) JNull = ?f x" if "x \<in> set xs" for x
    using 6(1)[OF that] by (cases "json_clone x") simp_all
  then show ?case by (simp add: w)
next
  case (7 ps)
  let ?g = "\<lambda>p. case json_clone (snd p) of None \<Rightarrow> [] | Some v \<Rightarrow> [(fst p, v)]"
  have w: "w = JObj (concat (map ?g ps))" using 7(2) by simp
  have "concat (map ?g (concat (map ?g qs))) = concat (map ?g qs)" if "set qs \<subseteq> set ps" for qs
    using that
  proof (induction qs)
    case (Cons q qs)
    have q: "q \<in> set ps" using Cons.prems by simp
    show ?case using Cons 7(1)[OF q] by (cases "json_clone (snd q)") simp_all
  qed simp
  then show ?case by (simp add: w)
qed (auto split: if_splits)

lemma cloned_array_idem: "cloned_array (cloned_array v) = cloned_array v"
proof -
  have "json_clone (JArr xs) = Some (JArr ys) \<Longrightarrow> json_clone (JArr ys) = Some (JArr ys)" for xs ys
    by (rule json_clone_idem)
  moreover obtain ys where ys: "json_clone (JArr (asArray v)) = Some (JArr ys)" by simp
  ultimately have "json_clone (JArr ys) = Some (JArr ys)" by blast
  then show ?thesis using ys by (simp add: cloned_array_def cloneJsonValue_def)
qed

lemma num_idem [simp]: "0 \<le> n \<Longrightarrow> asNonNegativeInteger (num n) k = n"
  by (simp add: num_def)

lemma asNonNegative_range: "0 \<le> k \<Longrightarrow> 0 \<le> asNonNegativeInteger v k"
  by (cases "(v, k)" rule: asNonNegativeInteger.cases) auto

lemma inflight_idem: "normalizeCooperativeInflight (normalizeCooperativeInflight v) = normalizeCooperativeInflight v"
proof -
  have c: "(case cloneJsonValue a of Some a \<Rightarrow> (if a = JNull then JObj [] else a) | None \<Rightarrow> JObj []) = a"
    if a: "a = (case cloneJsonValue b of Some a \<Rightarrow> (if a = JNull then JObj [] else a) | None \<Rightarrow> JObj [])" for a b
  proof (cases "cloneJsonValue b")
    case (Some d)
    then have "json_clone d = Some d" using json_clone_idem by (simp add: cloneJsonValue_def)
    then show ?thesis using a Some by (simp add: cloneJsonValue_def)
  qed (use a in \<open>simp add: cloneJsonValue_def\<close>)
  show ?thesis
    unfolding normalizeCooperativeInflight_def[of v] Let_def
    by (simp split del: if_split split: if_split add: normalizeCooperativeInflight_def Let_def cloned_array_idem asNonNegative_range c)
qed

lemma execState_idem: "normalizeCooperativeExecState (normalizeCooperativeExecState v) = normalizeCooperativeExecState v"
proof (cases "is_object v \<and> as_str (js_prop v ''phase'') \<in> set cooperativePhases")
  case False
  then have "normalizeCooperativeExecState v = JNull" by (auto simp: normalizeCooperativeExecState_def Let_def)
  then show ?thesis by (simp add: normalizeCooperativeExecState_def)
next
  case True
  have "0 \<le> max 1 (asNonNegativeInteger x 1)" for x by simp
  then show ?thesis
    using True unfolding normalizeCooperativeExecState_def[of v] Let_def
    by (simp add: normalizeCooperativeExecState_def Let_def cloned_array_idem inflight_idem asNonNegative_range)
qed

section \<open>Mailboxes\<close>

lemma map_of_put_if [simp]: "map_of (put_if cond k c b) k' = (if cond \<and> k' = k then Some c else map_of b k')"
  by (simp add: put_if_def jsm.lookup_same jsm.lookup_other)

definition only_notices :: "(rat \<Rightarrow> string) \<Rightarrow> SpActor \<Rightarrow> bool" where
  "only_notices shw a \<longleftrightarrow> (\<forall>k \<in> set AI_AGENT_WAKE_MAILBOXES. k \<noteq> ''control'' \<longrightarrow> sa_mailbox a k = [])
     \<and> (\<forall>e \<in> set (sa_mailbox a ''control''). is_object e \<and> str_or shw (js_prop e ''kind'') JUndef = ''questionnaire_pending'')"

lemma classify_empty: "classifyAiSnapshotBlockingMailboxes shw a st = [] \<longleftrightarrow> only_notices shw a"
proof -
  have boxes: "(\<forall>k \<in> set AI_AGENT_WAKE_MAILBOXES. P k) \<longleftrightarrow> P ''control'' \<and> P ''toolResult'' \<and> P ''asyncCompletion''
      \<and> P ''childDone'' \<and> P ''memberCoordination'' \<and> P ''humanInput'' \<and> P ''memberChatInbox'' \<and> P ''heartbeat''" for P
    by (simp add: AI_AGENT_WAKE_MAILBOXES_def)
  show ?thesis
    unfolding classifyAiSnapshotBlockingMailboxes_def only_notices_def Let_def boxes map_is_Nil_conv filter_empty_conv
    by (auto simp: list_ex_iff)
qed

section \<open>The safepoint\<close>

definition fiber_status :: "jsv obj \<Rightarrow> string \<Rightarrow> jsv" where
  "fiber_status stateFibers fiberId = (case map_of stateFibers fiberId of None \<Rightarrow> JUndef | Some r \<Rightarrow> js_prop r ''status'')"

definition runnable :: "jsv obj \<Rightarrow> string \<Rightarrow> bool" where
  "runnable stateFibers fiberId \<longleftrightarrow> fiber_status stateFibers fiberId \<in> {JStr ''ready'', JStr ''running''}"

text \<open>A fiber that a snapshot can leave as it is: no foreground task waits for it, it waits for no operation, it is not
  about to call the model, its mailboxes hold nothing to react to, and a tool call it is about to start is in range
  and already answered, by a message or by a durable signal.\<close>

definition fiber_settled ::
  "(rat \<Rightarrow> string) \<Rightarrow> DurableControlSignalStore \<Rightarrow> string list \<Rightarrow> jsv obj \<Rightarrow> string \<times> FiberCtx \<Rightarrow> bool" where
  "fiber_settled shw store foreground stateFibers f \<longleftrightarrow>
     (let st = normalizeCooperativeExecState (fc_execState (snd f)); phase = js_prop st ''phase'';
          calls = asArray (js_prop st ''toolCalls''); idx = asNonNegativeInteger (js_prop st ''toolIndex'') 0 in
      fst f \<notin> set foreground
      \<and> (phase \<in> {JStr ''wait_llm'', JStr ''wait_tool'', JStr ''wait_questionnaire_parse'', JStr ''compress''} \<longrightarrow>
           \<not> truthy (js_prop (js_prop st ''inflight'') ''opId''))
      \<and> (runnable stateFibers (fst f) \<longrightarrow> phase \<noteq> JStr ''start_llm''
           \<and> (\<forall>a. fc_actor (snd f) = Some a \<longrightarrow> only_notices shw a))
      \<and> (phase = JStr ''start_tool'' \<longrightarrow> (calls = [] \<or> idx < int (length calls)) \<and>
           ((\<exists>a. fc_actor (snd f) = Some a \<and> hasMatchingToolResult shw a (currentStartToolCallId shw st))
            \<or> (\<exists>s \<in> set (filter (\<lambda>e. \<not> consumedFlag store (sg_eventId e)) (ss_events store))
                  \<union> DurableControlSignalData.truncate ` set (obj_values (nullish (ss_consumedTombstones store) [])).
                signalProves (fst f) (currentStartToolCallId shw st) s))))"

lemma durable_proof_iff:
  "hasDurableToolOperationProof lc store fiberId tc \<longleftrightarrow>
    (\<exists>s \<in> set (filter (\<lambda>e. \<not> consumedFlag store (sg_eventId e)) (ss_events store))
        \<union> DurableControlSignalData.truncate ` set (obj_values (nullish (ss_consumedTombstones store) [])).
      signalProves fiberId tc s)"
proof -
  have f: "fiberId = [] \<or> sg_fiberId s = Some fiberId" if "signalProves fiberId tc s" for s
    using that by (cases "sg_fiberId s") (auto simp: signalProves_def split: if_splits)
  show ?thesis
    unfolding hasDurableToolOperationProof_def getPendingDurableControlSignals_def list_ex_iff
    using f by auto
qed

lemma fiberBlockers_empty:
  "fiberBlockers lc shw store foreground stateFibers f = [] \<longleftrightarrow> fiber_settled shw store foreground stateFibers f"
proof -
  have st: "js_prop (case map_of stateFibers (fst f) of
        Some r \<Rightarrow> (if r = JUndef \<or> r = JNull then JObj [] else r) | None \<Rightarrow> JObj []) ''status'' = fiber_status stateFibers (fst f)"
    by (simp add: fiber_status_def split: option.split)
  show ?thesis
    unfolding fiberBlockers_def fiber_settled_def Let_def st durable_proof_iff
    by (cases "fc_actor (snd f)")
       (auto simp: runnable_def classify_empty isLiveAsyncWaitPhase_def isMandatoryRunnablePhase_def not_less
          simp del: Un_iff split: if_splits)
qed

lemma safepoint_safe:
  "sf_safe (evaluateAiAgentRuntimeSnapshotSafepoint lc shw store inspected) \<longleftrightarrow>
     list_all (fiber_settled shw store (nullish (in_pendingForegroundTasks inspected) []) (nullish (in_stateFibers inspected) []))
       (nullish (in_fibers inspected) [])"
  unfolding evaluateAiAgentRuntimeSnapshotSafepoint_def Let_def
  by (simp add: list_all_iff fiberBlockers_empty)

lemma fiberBlockers_fiber: "b \<in> set (fiberBlockers lc shw store foreground stateFibers f) \<Longrightarrow> bk_fiberId b = fst f"
  by (auto simp: fiberBlockers_def Let_def split: if_splits)

lemma barrier_blockers:
  "map cb_participantId (br_blockers (evaluateAiTurnSnapshotBarrier lc shw store inspected))
     = map bk_fiberId (sf_blockers (evaluateAiAgentRuntimeSnapshotSafepoint lc shw store inspected))"
  by (simp add: evaluateAiTurnSnapshotBarrier_def createSafeControlBarrier_def createBlockedControlBarrier_def Let_def
    evaluateAiAgentRuntimeSnapshotSafepoint_def comp_def del: concat_eq_Nil_conv)

lemma blocked_fibers:
  "bk_fiberId ` set (fiberBlockers lc shw store foreground stateFibers f)
     = (if fiber_settled shw store foreground stateFibers f then {} else {fst f})"
proof (cases "fiber_settled shw store foreground stateFibers f")
  case True
  then show ?thesis using fiberBlockers_empty[of lc shw store foreground stateFibers f] by simp
next
  case False
  then obtain b where "b \<in> set (fiberBlockers lc shw store foreground stateFibers f)"
    using fiberBlockers_empty[of lc shw store foreground stateFibers f] by (meson last_in_set)
  then have "bk_fiberId ` set (fiberBlockers lc shw store foreground stateFibers f) = {fst f}"
    using fiberBlockers_fiber[of _ lc shw store foreground stateFibers f] by force
  then show ?thesis using False by simp
qed

text \<open>The snapshot barrier is safe exactly when every inspected fiber is settled: it is not a foreground task,
  waits for no operation, is not about to call the model, has nothing in its mailboxes but questionnaire notices
  while it can run, and a tool call it is about to start is in range and has its result, as a message or as a
  durable signal, pending or consumed. The participants it names as blockers are exactly the fibers that are not, and
  a cohort of durable heads waiting for this barrier advances exactly when it is safe.\<close>

theorem snapshot_barrier_iff_settled:
  "let fibers = nullish (in_fibers inspected) [];
       settled = fiber_settled shw store (nullish (in_pendingForegroundTasks inspected) []) (nullish (in_stateFibers inspected) []);
       barrier = evaluateAiTurnSnapshotBarrier lc shw store inspected
   in isControlBarrierSafe barrier = list_all settled fibers
    \<and> cb_participantId ` set (br_blockers barrier) = fst ` {f \<in> set fibers. \<not> settled f}
    \<and> dc_canAdvance (createDurableHeadCohort cohortId ''snapshot-save'' heads) barrier = list_all settled fibers"
proof -
  define fibers where "fibers = nullish (in_fibers inspected) []"
  define settled where "settled = fiber_settled shw store (nullish (in_pendingForegroundTasks inspected) []) (nullish (in_stateFibers inspected) [])"
  define barrier where "barrier = evaluateAiTurnSnapshotBarrier lc shw store inspected"
  have safe: "br_safe barrier = list_all settled fibers" "br_barrierId barrier = ''snapshot-save''"
    using safepoint_safe[of lc shw store inspected]
    by (simp_all add: barrier_def evaluateAiTurnSnapshotBarrier_def createSafeControlBarrier_def createBlockedControlBarrier_def
      Let_def settled_def fibers_def)
  have "cb_participantId ` set (br_blockers barrier)
      = (\<Union>f\<in>set fibers. bk_fiberId ` set (fiberBlockers lc shw store (nullish (in_pendingForegroundTasks inspected) [])
          (nullish (in_stateFibers inspected) []) f))"
    using arg_cong[OF barrier_blockers[of lc shw store inspected], of set]
    by (simp add: barrier_def fibers_def evaluateAiAgentRuntimeSnapshotSafepoint_def Let_def image_UN)
  also have "\<dots> = fst ` {f \<in> set fibers. \<not> settled f}" by (auto simp: blocked_fibers settled_def)
  finally show ?thesis
    using safe unfolding Let_def fibers_def[symmetric] settled_def[symmetric] barrier_def[symmetric]
    by (simp add: isControlBarrierSafe_def createDurableHeadCohort_def)
qed

end
