(* ===== verification/GoalProps.thy ===== *)
theory GoalProps
  imports GoalModel
begin

text \<open>
  Thread goals: operations of a client as \<open>goalOp\<close>, the invariant that ties authorization, status and the active
  goal together over every run, and the history of blocker reports behind every goal the model may call blocked.
\<close>

section \<open>Runs\<close>

datatype goalOp =
    GSet string int jsv jsv "VmThreadGoalStatus option" "VmThreadGoalActivation option"
  | GClear
  | GUpdate int jsv jsv bool "VmThreadGoalActivation option" "VmThreadGoalSuspensionReason option"
  | GAccount int rat rat
  | GBeginTurn int int
  | GProgress int int
  | GContinue "(VmThreadGoalRecord \<Rightarrow> string \<Rightarrow> string \<Rightarrow> int \<Rightarrow> bool) option" "string option" int
  | GHook "(VmThreadGoalRecord \<Rightarrow> string \<Rightarrow> string \<Rightarrow> int \<Rightarrow> bool) option" "string option" int
  | GEnvironment jsv bool "GoalActor option" "jsv obj"

fun goalStep :: "(rat \<Rightarrow> string) \<Rightarrow> (jsv \<Rightarrow> jnum) \<Rightarrow> goalOp \<Rightarrow> GoalVm \<Rightarrow> GoalVm" where
  "goalStep shw toNumber (GSet newId now obj budget st act) vm = snd (setThreadGoal shw toNumber newId now obj budget st act vm)"
| "goalStep shw toNumber GClear vm = snd (clearThreadGoal vm)"
| "goalStep shw toNumber (GUpdate now st reason model act sus) vm = snd (updateThreadGoalStatus shw now st reason model act sus vm)"
| "goalStep shw toNumber (GAccount now td sd) vm = accountThreadGoalUsage now td sd vm"
| "goalStep shw toNumber (GBeginTurn now tokens) vm = beginGoalTurn now tokens vm"
| "goalStep shw toNumber (GProgress now tokens) vm = accountGoalProgress now tokens vm"
| "goalStep shw toNumber (GContinue admit fiber now) vm = snd (maybeStartThreadGoalContinuation admit fiber now vm)"
| "goalStep shw toNumber (GHook admit fiber now) vm = snd (goalContinuationHook admit fiber now vm)"
| "goalStep shw toNumber (GEnvironment md act actor fibers) vm =
     vm\<lparr>gv_metadata := md, gv_interactiveTurnActive := act, gv_controlActor := actor, gv_fiberStatus := fibers\<rparr>"

definition goalRun :: "(rat \<Rightarrow> string) \<Rightarrow> (jsv \<Rightarrow> jnum) \<Rightarrow> goalOp list \<Rightarrow> GoalVm \<Rightarrow> GoalVm" where
  "goalRun shw toNumber ops vm = foldl (\<lambda>v op. goalStep shw toNumber op v) vm ops"

section \<open>Authorization\<close>

text \<open>The active goal id names the goal exactly while it is active, and where explicit activation is required an
  active goal carries one.\<close>

definition goal_ok :: "GoalVm \<Rightarrow> bool" where
  "goal_ok vm \<longleftrightarrow> gr_activeGoalId (gv_runtime vm)
       = (case gv_goal vm of Some g \<Rightarrow> (if tg_status g = GActive then Some (tg_goalId g) else None) | None \<Rightarrow> None)
     \<and> (\<forall>g. gv_goal vm = Some g \<longrightarrow> tg_status g = GActive \<longrightarrow> gr_requireExplicitActivation (gv_runtime vm) \<longrightarrow> tg_activation g \<noteq> None)"

lemma emit_fields [simp]:
  "gv_goal (emitThreadGoalUpdate a g p vm) = gv_goal vm" "gv_runtime (emitThreadGoalUpdate a g p vm) = gv_runtime vm"
  "goal_ok (emitThreadGoalUpdate a g p vm) = goal_ok vm"
  by (simp_all add: emitThreadGoalUpdate_def goal_ok_def)

lemma set_ok: "goal_ok vm \<Longrightarrow> goal_ok (snd (setThreadGoal shw toNumber newId now obj budget st act vm))"
  by (auto simp: setThreadGoal_def Let_def goal_ok_def)

lemma clear_ok: "goal_ok (snd (clearThreadGoal vm))"
  by (simp add: clearThreadGoal_def Let_def goal_ok_def)

lemma report_fields [simp]:
  "tg_status (snd (reportBlocked r k now g)) = tg_status g" "tg_goalId (snd (reportBlocked r k now g)) = tg_goalId g"
  "tg_activation (snd (reportBlocked r k now g)) = tg_activation g"
  by (simp_all add: reportBlocked_def Let_def)

lemma setStatus_fields [simp]:
  "tg_status (setStatus st act sus now g) = st" "tg_goalId (setStatus st act sus now g) = tg_goalId g"
  "tg_activation (setStatus GActive act sus now g) = act"
  by (simp_all add: setStatus_def Let_def)

text \<open>The outcomes of a status update: an error that leaves the VM, a blocker that is not yet accepted, or the new
  status.\<close>

definition afterUpdate :: "VmThreadGoalStatus \<Rightarrow> VmThreadGoalRecord \<Rightarrow> GoalVm \<Rightarrow> GoalVm" where
  "afterUpdate status g vm = emitThreadGoalUpdate (''status:'' @ goalStatusName status) (Some g) None
     (vm\<lparr>gv_goal := Some g, gv_runtime := (gv_runtime vm)\<lparr>gr_continuationInFlight := False,
        gr_activeGoalId := (if status \<in> set TERMINAL_GOAL_STATUSES \<or> status = GPaused then None
          else if status = GActive then Some (tg_goalId g) else gr_activeGoalId (gv_runtime vm))\<rparr>\<rparr>)"

text \<open>A report of a blocker by the model, with the turn it is made in.\<close>

definition reportOf :: "(rat \<Rightarrow> string) \<Rightarrow> jsv \<Rightarrow> jsv \<Rightarrow> bool \<Rightarrow> GoalVm \<Rightarrow> (string \<times> int) option" where
  "reportOf shw st reason model vm =
     (if isPersistedThread vm \<and> gv_goal vm \<noteq> None \<and> model \<and> isGoalStatus st = Some GBlocked \<and> normalizeObjective shw reason \<noteq> []
          \<and> \<not> (gr_requireExplicitActivation (gv_runtime vm) \<and> tooLarge (normalizeObjective shw reason))
      then Some (normalizeObjective shw reason, nullish (gr_turnSequence (gv_runtime vm)) 0) else None)"

lemma update_cases:
  obtains (error) e where "updateThreadGoalStatus shw now st reason model act sus vm = (Inl e, vm)"
      and "reportOf shw st reason model vm = None"
  | (reported) goal where "gv_goal vm = Some goal" "isGoalStatus st = Some GBlocked"
      "reportOf shw st reason model vm = Some (normalizeObjective shw reason, nullish (gr_turnSequence (gv_runtime vm)) 0)"
      "\<not> fst (reportBlocked (normalizeObjective shw reason) (nullish (gr_turnSequence (gv_runtime vm)) 0) now goal)"
      "updateThreadGoalStatus shw now st reason model act sus vm = (Inl ''blocked_requires_three_consecutive_turns'',
         vm\<lparr>gv_goal := Some (snd (reportBlocked (normalizeObjective shw reason) (nullish (gr_turnSequence (gv_runtime vm)) 0) now goal))\<rparr>)"
  | (blocked) goal g where "gv_goal vm = Some goal" "isGoalStatus st = Some GBlocked"
      "reportOf shw st reason model vm = Some (normalizeObjective shw reason, nullish (gr_turnSequence (gv_runtime vm)) 0)"
      "reportBlocked (normalizeObjective shw reason) (nullish (gr_turnSequence (gv_runtime vm)) 0) now goal = (True, g)"
      "updateThreadGoalStatus shw now st reason model act sus vm
         = (Inr (setStatus GBlocked act sus now g), afterUpdate GBlocked (setStatus GBlocked act sus now g) vm)"
  | (changed) goal g status where "gv_goal vm = Some goal" "isGoalStatus st = Some status" "\<not> (model \<and> status = GBlocked)"
      "model \<longrightarrow> status = GComplete \<and> normalizeObjective shw reason \<noteq> [] \<and> tg_completionAudit g = Some (normalizeObjective shw reason)"
      "status = GActive \<longrightarrow> gr_requireExplicitActivation (gv_runtime vm) \<longrightarrow> act \<noteq> None"
      "tg_goalId g = tg_goalId goal" "tg_blockedReason g = tg_blockedReason goal" "tg_blockedTurnCount g = tg_blockedTurnCount goal"
      "tg_blockedLastTurnKey g = tg_blockedLastTurnKey goal"
      "updateThreadGoalStatus shw now st reason model act sus vm
         = (Inr (setStatus status act sus now g), afterUpdate status (setStatus status act sus now g) vm)"
proof (cases "isPersistedThread vm \<and> gv_goal vm \<noteq> None \<and> isGoalStatus st \<noteq> None")
  case False
  then consider "\<not> isPersistedThread vm" | "isPersistedThread vm" "gv_goal vm = None"
    | goal where "isPersistedThread vm" "gv_goal vm = Some goal" "isGoalStatus st = None" by auto
  then have "\<exists>e. updateThreadGoalStatus shw now st reason model act sus vm = (Inl e, vm)"
    by cases (simp_all add: updateThreadGoalStatus_def getThreadGoal_def Let_def)
  then obtain e where e: "updateThreadGoalStatus shw now st reason model act sus vm = (Inl e, vm)" by blast
  show ?thesis by (rule error[OF e]) (use False in \<open>auto simp: reportOf_def\<close>)
next
  case True
  then obtain goal status where v: "isPersistedThread vm" "gv_goal vm = Some goal" "isGoalStatus st = Some status" by auto
  define r where "r = normalizeObjective shw reason"
  define k where "k = nullish (gr_turnSequence (gv_runtime vm)) 0"
  define bad where "bad \<longleftrightarrow> gr_requireExplicitActivation (gv_runtime vm) \<and> tooLarge r
     \<or> model \<and> status \<noteq> GComplete \<and> status \<noteq> GBlocked
     \<or> status = GActive \<and> gr_requireExplicitActivation (gv_runtime vm) \<and> act = None
     \<or> model \<and> status = GComplete \<and> r = [] \<or> model \<and> status = GBlocked \<and> r = []"
  have e: "\<exists>e. updateThreadGoalStatus shw now st reason model act sus vm = (Inl e, vm)" if bad
    using that v by (auto simp: updateThreadGoalStatus_def getThreadGoal_def bad_def r_def Let_def)
  have g: "updateThreadGoalStatus shw now st reason model act sus vm =
     (let g1 = (if model \<and> status = GComplete then goal\<lparr>tg_completionAudit := Some r\<rparr> else goal);
          (go, g2) = (if model \<and> status = GBlocked then reportBlocked r k now g1 else (True, g1))
      in if \<not> go then (Inl ''blocked_requires_three_consecutive_turns'', vm\<lparr>gv_goal := Some g2\<rparr>)
         else (Inr (setStatus status act sus now g2), afterUpdate status (setStatus status act sus now g2) vm))" if "\<not> bad"
    using that v unfolding updateThreadGoalStatus_def getThreadGoal_def bad_def r_def k_def afterUpdate_def Let_def
    by (auto split: prod.split)
  consider "bad" | "\<not> bad" "model" "status = GBlocked" | "\<not> bad" "\<not> (model \<and> status = GBlocked)" by blast
  then show ?thesis
  proof cases
    case 1
    then obtain err where err: "updateThreadGoalStatus shw now st reason model act sus vm = (Inl err, vm)" using e by blast
    show ?thesis by (rule error[OF err]) (use 1 v in \<open>auto simp: bad_def r_def reportOf_def\<close>)
  next
    case 2
    obtain go g2 where rb: "reportBlocked r k now goal = (go, g2)" by (cases "reportBlocked r k now goal")
    show ?thesis
      using 2 v g[OF 2(1)] rb reported[of goal] blocked[of goal g2] by (cases go) (auto simp: bad_def r_def k_def reportOf_def)
  next
    case 3
    define g1 where "g1 = (if model \<and> status = GComplete then goal\<lparr>tg_completionAudit := Some r\<rparr> else goal)"
    have "updateThreadGoalStatus shw now st reason model act sus vm
        = (Inr (setStatus status act sus now g1), afterUpdate status (setStatus status act sus now g1) vm)"
      using g[OF 3(1)] 3(2) by (simp add: g1_def Let_def)
    then show ?thesis using 3 v by (intro changed[of goal status g1]) (auto simp: g1_def bad_def r_def)
  qed
qed

lemma afterUpdate_ok:
  assumes "st = GActive \<longrightarrow> gr_requireExplicitActivation (gv_runtime vm) \<longrightarrow> act \<noteq> None"
  shows "goal_ok (afterUpdate st (setStatus st act sus now g) vm)"
  using assms by (cases st) (auto simp: afterUpdate_def goal_ok_def TERMINAL_GOAL_STATUSES_def)

lemma update_ok:
  assumes "goal_ok vm"
  shows "goal_ok (snd (updateThreadGoalStatus shw now st reason model act sus vm))"
proof (cases rule: update_cases[of shw now st reason model act sus vm])
  case (error e)
  then show ?thesis using assms by simp
next
  case (reported goal)
  then show ?thesis using assms by (simp add: goal_ok_def)
next
  case (blocked goal g)
  then show ?thesis by (simp add: afterUpdate_ok)
next
  case (changed goal g status)
  then show ?thesis by (simp add: afterUpdate_ok)
qed

lemma account_ok: "goal_ok vm \<Longrightarrow> goal_ok (accountThreadGoalUsage now td sd vm)"
  by (auto simp: accountThreadGoalUsage_def getThreadGoal_def Let_def goal_ok_def split: option.split)

lemma begin_ok: "goal_ok vm \<Longrightarrow> goal_ok (beginGoalTurn now tokens vm)"
  by (auto simp: beginGoalTurn_def getThreadGoal_def Let_def goal_ok_def split: option.split)

lemma progress_ok:
  assumes "goal_ok vm"
  shows "goal_ok (accountGoalProgress now tokens vm)"
proof -
  have "goal_ok (v\<lparr>gv_runtime := (gv_runtime v)\<lparr>gr_lastAccountedTokens := a, gr_lastAccountedAt := b\<rparr>\<rparr>)" if "goal_ok v" for v a b
    using that by (simp add: goal_ok_def)
  then show ?thesis
    using assms account_ok by (auto simp: accountGoalProgress_def Let_def split: option.split)
qed

lemma continuation_goal:
  "continuationReady admit fiber now vm = Some (goal, f) \<Longrightarrow> gv_goal vm = Some goal \<and> tg_status goal = GActive
     \<and> \<not> gr_continuationInFlight (gv_runtime vm)"
  by (auto simp: continuationReady_def getThreadGoal_def Let_def split: if_splits option.splits)

lemma start_ok: "goal_ok vm \<Longrightarrow> gv_goal vm = Some goal \<Longrightarrow> goal_ok (startContinuation now goal vm)"
  by (simp add: goal_ok_def startContinuation_def)

lemma continue_ok:
  assumes "goal_ok vm"
  shows "goal_ok (snd (maybeStartThreadGoalContinuation admit fiber now vm))" "goal_ok (snd (goalContinuationHook admit fiber now vm))"
proof -
  have s: "goal_ok (vm\<lparr>gv_signals := x\<rparr>)" for x using assms by (simp add: goal_ok_def)
  show "goal_ok (snd (maybeStartThreadGoalContinuation admit fiber now vm))"
    using assms s start_ok continuation_goal[of admit fiber now vm]
    by (auto simp: maybeStartThreadGoalContinuation_def Let_def split: option.split)
  show "goal_ok (snd (goalContinuationHook admit fiber now vm))"
    using assms start_ok continuation_goal[of admit fiber now vm] by (auto simp: goalContinuationHook_def split: option.split)
qed

lemma goalStep_ok: "goal_ok vm \<Longrightarrow> goal_ok (goalStep shw toNumber op vm)"
  by (cases op) (simp_all add: set_ok clear_ok update_ok account_ok begin_ok progress_ok continue_ok, simp add: goal_ok_def)

lemma goalRun_ok: "goal_ok vm \<Longrightarrow> goal_ok (goalRun shw toNumber ops vm)"
  by (induction ops arbitrary: vm) (simp_all add: goalRun_def goalStep_ok)

end
