(* ===== verification/GoalClaims.thy ===== *)
theory GoalClaims
  imports GoalProps
begin

text \<open>
  What the goal operations promise over every run: a goal that drives continuations is authorized and is the one the
  runtime tracks, and the model may call a goal blocked only after reporting the same blocker in three turns. Turns
  need not be consecutive.
\<close>

section \<open>The reports of a blocker\<close>

text \<open>The reports (blocker, turn) the model made since the goal was last set or resumed.\<close>

fun logStep :: "(rat \<Rightarrow> string) \<Rightarrow> (jsv \<Rightarrow> jnum) \<Rightarrow> goalOp \<Rightarrow> GoalVm \<Rightarrow> (string \<times> int) list \<Rightarrow> (string \<times> int) list" where
  "logStep shw toNumber (GSet newId now obj budget st act) vm hist =
     (if isl (fst (setThreadGoal shw toNumber newId now obj budget st act vm)) then hist else [])"
| "logStep shw toNumber GClear vm hist = []"
| "logStep shw toNumber (GUpdate now st reason model act sus) vm hist =
     (if isGoalStatus st = Some GActive \<and> \<not> isl (fst (updateThreadGoalStatus shw now st reason model act sus vm)) then []
      else case reportOf shw st reason model vm of Some r \<Rightarrow> hist @ [r] | None \<Rightarrow> hist)"
| "logStep shw toNumber _ vm hist = hist"

fun blockerLog :: "(rat \<Rightarrow> string) \<Rightarrow> (jsv \<Rightarrow> jnum) \<Rightarrow> goalOp list \<Rightarrow> GoalVm \<Rightarrow> (string \<times> int) list \<Rightarrow> (string \<times> int) list" where
  "blockerLog shw toNumber [] vm hist = hist"
| "blockerLog shw toNumber (op # ops) vm hist =
     blockerLog shw toNumber ops (goalStep shw toNumber op vm) (logStep shw toNumber op vm hist)"

abbreviation turnKey :: "GoalVm \<Rightarrow> int" where
  "turnKey vm \<equiv> nullish (gr_turnSequence (gv_runtime vm)) 0"

text \<open>The counter of the goal never exceeds the number of turns in which its blocker was reported last in a row.\<close>

definition counted :: "VmThreadGoalRecord \<Rightarrow> int \<Rightarrow> (string \<times> int) list \<Rightarrow> bool" where
  "counted g now hist \<longleftrightarrow> (\<forall>r. tg_blockedReason g = Some r \<longrightarrow>
     (\<exists>pre suf c k. hist = pre @ suf \<and> (\<forall>x\<in>set suf. fst x = r \<and> snd x \<le> k) \<and> tg_blockedTurnCount g = Some c
        \<and> tg_blockedLastTurnKey g = Some k \<and> k \<le> now \<and> c \<le> int (card (snd ` set suf))))"

definition blocker_ok :: "GoalVm \<Rightarrow> (string \<times> int) list \<Rightarrow> bool" where
  "blocker_ok vm hist \<longleftrightarrow> (\<forall>g. gv_goal vm = Some g \<longrightarrow> counted g (turnKey vm) hist)"

lemma counted_cong:
  "tg_blockedReason h = tg_blockedReason g \<Longrightarrow> tg_blockedTurnCount h = tg_blockedTurnCount g
     \<Longrightarrow> tg_blockedLastTurnKey h = tg_blockedLastTurnKey g \<Longrightarrow> counted h now hist = counted g now hist"
  by (simp add: counted_def)

lemma counted_later: "counted g k hist \<Longrightarrow> k \<le> k' \<Longrightarrow> counted g k' hist"
  unfolding counted_def by (meson order_trans)

lemma counted_none [simp]: "tg_blockedReason g = None \<Longrightarrow> counted g k hist"
  by (simp add: counted_def)

lemma counted_report:
  assumes "counted g k hist"
  shows "counted (snd (reportBlocked r k now g)) k (hist @ [(r, k)])"
proof (cases "tg_blockedReason g = Some r")
  case False
  then have "snd (reportBlocked r k now g) = g\<lparr>tg_blockedReason := Some r, tg_blockedTurnCount := Some 1,
      tg_blockedLastTurnKey := Some k, tg_updatedAt := now\<rparr>" by (simp add: reportBlocked_def Let_def)
  moreover have "\<exists>pre suf. hist @ [(r, k)] = pre @ suf \<and> (\<forall>x\<in>set suf. fst x = r \<and> snd x \<le> k) \<and> 1 \<le> int (card (snd ` set suf))"
    by (rule exI[of _ hist], rule exI[of _ "[(r, k)]"]) simp
  ultimately show ?thesis by (simp add: counted_def)
next
  case True
  then obtain pre suf c l where l: "hist = pre @ suf" "\<forall>x\<in>set suf. fst x = r \<and> snd x \<le> l" "tg_blockedTurnCount g = Some c"
      "tg_blockedLastTurnKey g = Some l" "l \<le> k" "c \<le> int (card (snd ` set suf))"
    using assms by (auto simp: counted_def)
  have card: "card (insert k (snd ` set suf)) = (if k = l \<and> k \<in> snd ` set suf then card (snd ` set suf) else Suc (card (snd ` set suf)))"
  proof (cases "k \<in> snd ` set suf")
    case True
    then have "k = l" using l(2,5) by fastforce
    then show ?thesis using True by (simp add: insert_absorb)
  qed simp
  define h where "h = snd (reportBlocked r k now g)"
  have h: "tg_blockedReason h = Some r" "tg_blockedLastTurnKey h = Some k"
      "tg_blockedTurnCount h = Some (if k = l then c else c + 1)"
    using True l by (auto simp: h_def reportBlocked_def Let_def)
  have "(\<forall>x\<in>set (suf @ [(r, k)]). fst x = r \<and> snd x \<le> k)" using l(2,5) by force
  moreover have "(if k = l then c else c + 1) \<le> int (card (snd ` set (suf @ [(r, k)])))" using l(6) card by simp
  moreover have "hist @ [(r, k)] = pre @ suf @ [(r, k)]" using l(1) by simp
  ultimately have "counted h k (hist @ [(r, k)])" unfolding counted_def h option.inject by blast
  then show ?thesis by (simp add: h_def)
qed

lemma accepted_report:
  assumes "counted g k hist" "reportBlocked r k now g = (True, h)"
  shows "\<exists>pre suf. hist = pre @ suf \<and> (\<forall>x\<in>set suf. fst x = r) \<and> 3 \<le> card (insert k (snd ` set suf))"
proof -
  have r: "tg_blockedReason g = Some r" "tg_blockedLastTurnKey g \<noteq> Some k" "2 \<le> nullish (tg_blockedTurnCount g) 0"
    using assms(2) by (auto simp: reportBlocked_def Let_def split: if_splits)
  then obtain pre suf c l where l: "hist = pre @ suf" "\<forall>x\<in>set suf. fst x = r \<and> snd x \<le> l" "tg_blockedTurnCount g = Some c"
      "tg_blockedLastTurnKey g = Some l" "l \<le> k" "c \<le> int (card (snd ` set suf))"
    using assms(1) by (auto simp: counted_def)
  have "k \<notin> snd ` set suf" using l(2,4,5) r(2) by force
  then have "3 \<le> card (insert k (snd ` set suf))" using l(3,6) r(3) by simp
  then show ?thesis using l(1,2) by blast
qed

section \<open>The counter over runs\<close>

lemma same_goal_ok:
  assumes "blocker_ok vm hist" "turnKey vm \<le> turnKey vm'"
    and "\<And>h. gv_goal vm' = Some h \<Longrightarrow> \<exists>g. gv_goal vm = Some g \<and> tg_blockedReason h = tg_blockedReason g
        \<and> tg_blockedTurnCount h = tg_blockedTurnCount g \<and> tg_blockedLastTurnKey h = tg_blockedLastTurnKey g"
  shows "blocker_ok vm' hist"
  unfolding blocker_ok_def
proof (intro allI impI)
  fix h assume "gv_goal vm' = Some h"
  then obtain g where g: "gv_goal vm = Some g" "tg_blockedReason h = tg_blockedReason g"
      "tg_blockedTurnCount h = tg_blockedTurnCount g" "tg_blockedLastTurnKey h = tg_blockedLastTurnKey g" using assms(3) by blast
  then have "counted g (turnKey vm) hist" using assms(1) by (simp add: blocker_ok_def)
  then show "counted h (turnKey vm') hist" using g assms(2) counted_later counted_cong by metis
qed

lemma account_fields:
  "turnKey (accountThreadGoalUsage now td sd vm) = turnKey vm"
  "gv_goal (accountThreadGoalUsage now td sd vm) = Some h \<Longrightarrow> \<exists>g. gv_goal vm = Some g \<and> tg_blockedReason h = tg_blockedReason g
     \<and> tg_blockedTurnCount h = tg_blockedTurnCount g \<and> tg_blockedLastTurnKey h = tg_blockedLastTurnKey g"
  by (auto simp: accountThreadGoalUsage_def getThreadGoal_def Let_def split: option.splits if_splits)

lemma progress_fields:
  "gv_goal (accountGoalProgress now tokens vm) = gv_goal vm \<and> turnKey (accountGoalProgress now tokens vm) = turnKey vm
   \<or> (\<exists>td sd. gv_goal (accountGoalProgress now tokens vm) = gv_goal (accountThreadGoalUsage now td sd vm)
        \<and> turnKey (accountGoalProgress now tokens vm) = turnKey (accountThreadGoalUsage now td sd vm))"
  by (auto simp: accountGoalProgress_def Let_def split: option.split)

lemma progress_blocker:
  assumes "blocker_ok vm hist"
  shows "blocker_ok (accountGoalProgress now tokens vm) hist"
  using progress_fields[of now tokens vm]
proof (elim disjE exE conjE)
  assume "gv_goal (accountGoalProgress now tokens vm) = gv_goal vm" "turnKey (accountGoalProgress now tokens vm) = turnKey vm"
  then show ?thesis by (intro same_goal_ok[OF assms]) (simp, metis)
next
  fix td sd
  assume "gv_goal (accountGoalProgress now tokens vm) = gv_goal (accountThreadGoalUsage now td sd vm)"
    "turnKey (accountGoalProgress now tokens vm) = turnKey (accountThreadGoalUsage now td sd vm)"
  then show ?thesis
    by (intro same_goal_ok[OF assms]) (simp add: account_fields(1), metis account_fields(2))
qed

lemma begin_blocker: "blocker_ok vm hist \<Longrightarrow> blocker_ok (beginGoalTurn now tokens vm) hist"
  by (rule same_goal_ok[of vm hist]) (auto simp: beginGoalTurn_def getThreadGoal_def Let_def split: option.splits if_splits)

lemma continue_blocker:
  assumes "blocker_ok vm hist"
  shows "blocker_ok (snd (maybeStartThreadGoalContinuation admit fiber now vm)) hist"
    and "blocker_ok (snd (goalContinuationHook admit fiber now vm)) hist"
  using continuation_goal[of admit fiber now vm]
  by (auto intro!: same_goal_ok[OF assms]
    simp: maybeStartThreadGoalContinuation_def goalContinuationHook_def startContinuation_def Let_def split: option.splits)

lemma set_blocker:
  "blocker_ok vm hist \<Longrightarrow> blocker_ok (goalStep shw toNumber (GSet newId now obj budget st act) vm)
     (logStep shw toNumber (GSet newId now obj budget st act) vm hist)"
  by (auto simp: setThreadGoal_def Let_def blocker_ok_def)

lemma setStatus_blocked:
  "st \<noteq> GActive \<Longrightarrow> tg_blockedReason (setStatus st act sus now g) = tg_blockedReason g"
  "st \<noteq> GActive \<Longrightarrow> tg_blockedTurnCount (setStatus st act sus now g) = tg_blockedTurnCount g"
  "st \<noteq> GActive \<Longrightarrow> tg_blockedLastTurnKey (setStatus st act sus now g) = tg_blockedLastTurnKey g"
  "tg_blockedReason (setStatus GActive act sus now g) = None"
  by (simp_all add: setStatus_def Let_def)

lemma counted_setStatus: "st \<noteq> GActive \<Longrightarrow> counted (setStatus st act sus now g) k hist = counted g k hist"
  by (rule counted_cong) (simp_all add: setStatus_blocked)

lemma afterUpdate_blocker: "blocker_ok (afterUpdate st g vm) hist = counted g (turnKey vm) hist"
  by (simp add: blocker_ok_def afterUpdate_def)

lemma update_blocker:
  assumes "blocker_ok vm hist"
  shows "blocker_ok (goalStep shw toNumber (GUpdate now st reason model act sus) vm)
     (logStep shw toNumber (GUpdate now st reason model act sus) vm hist)"
proof (cases rule: update_cases[of shw now st reason model act sus vm])
  case (error e)
  then show ?thesis using assms error by simp
next
  case (reported goal)
  let ?k = "turnKey vm" let ?r = "normalizeObjective shw reason"
  show ?thesis
    using assms reported counted_report[of goal ?k hist ?r now] by (simp add: blocker_ok_def)
next
  case (blocked goal g)
  let ?k = "turnKey vm" let ?r = "normalizeObjective shw reason"
  have "counted g ?k (hist @ [(?r, ?k)])"
    using assms blocked(1,4) counted_report[of goal ?k hist ?r now] by (simp add: blocker_ok_def)
  then show ?thesis using blocked
    by (simp add: afterUpdate_blocker counted_setStatus setStatus_blocked(4))
next
  case (changed goal g status)
  then have g: "counted g (turnKey vm) hist" using assms counted_cong[of g goal] by (simp add: blocker_ok_def)
  have "reportOf shw st reason model vm = None" using changed(2,3) by (auto simp: reportOf_def)
  then show ?thesis using changed g
    by (cases "status = GActive") (simp_all add: afterUpdate_blocker counted_setStatus setStatus_blocked(4))
qed

lemma goalStep_blocker: "blocker_ok vm hist \<Longrightarrow> blocker_ok (goalStep shw toNumber op vm) (logStep shw toNumber op vm hist)"
proof (cases op)
  case GClear
  then show ?thesis by (simp add: clearThreadGoal_def Let_def blocker_ok_def)
next
  case (GSet newId now obj budget st act)
  assume "blocker_ok vm hist"
  then show ?thesis unfolding GSet by (rule set_blocker)
next
  case (GUpdate now st reason model act sus)
  assume "blocker_ok vm hist"
  then show ?thesis unfolding GUpdate by (rule update_blocker)
next
  case (GAccount now td sd)
  assume "blocker_ok vm hist"
  then show ?thesis unfolding GAccount using account_fields by (auto intro!: same_goal_ok[of vm hist])
next
  case (GEnvironment md a c f)
  assume "blocker_ok vm hist"
  then show ?thesis unfolding GEnvironment by (simp add: blocker_ok_def)
qed (simp_all add: begin_blocker progress_blocker continue_blocker)

lemma goalRun_blocker: "blocker_ok vm hist \<Longrightarrow> blocker_ok (goalRun shw toNumber ops vm) (blockerLog shw toNumber ops vm hist)"
  by (induction ops arbitrary: vm hist) (simp_all add: goalRun_def goalStep_blocker)

section \<open>Claims\<close>


text \<open>C19: The model can only complete or block a goal. It completes one only with a non-empty audit, which the goal keeps,
  and blocks one only if, counting the present one, its reports of the same blocker since the goal was set or resumed,
  uninterrupted by a report of another one, were made in at least three different turns.
\<close>

theorem model_update_needs_evidence:
  assumes "gv_goal vm = None"
    and "updateThreadGoalStatus shw now st reason True act sus (goalRun shw toNumber ops vm) = (Inr g, vm')"
  shows "tg_status g = GComplete \<and> (\<exists>audit. audit \<noteq> [] \<and> tg_completionAudit g = Some audit)
    \<or> tg_status g = GBlocked \<and> (\<exists>pre suf. blockerLog shw toNumber ops vm [] = pre @ suf
        \<and> (\<forall>x\<in>set suf. fst x = normalizeObjective shw reason)
        \<and> 3 \<le> card (insert (turnKey (goalRun shw toNumber ops vm)) (snd ` set suf)))"
proof -
  define v where "v = goalRun shw toNumber ops vm"
  define hist where "hist = blockerLog shw toNumber ops vm []"
  have ok: "blocker_ok v hist" using assms(1) goalRun_blocker[of vm "[]"] by (simp add: blocker_ok_def v_def hist_def)
  have u: "updateThreadGoalStatus shw now st reason True act sus v = (Inr g, vm')" using assms(2) by (simp add: v_def)
  show ?thesis
  proof (cases rule: update_cases[of shw now st reason True act sus v])
    case (blocked goal h)
    let ?r = "normalizeObjective shw reason"
    have "counted goal (turnKey v) hist" using ok blocked(1) by (simp add: blocker_ok_def)
    then have "\<exists>pre suf. hist = pre @ suf \<and> (\<forall>x\<in>set suf. fst x = ?r) \<and> 3 \<le> card (insert (turnKey v) (snd ` set suf))"
      using blocked(4) by (rule accepted_report)
    moreover have "tg_status g = GBlocked" using blocked(5) u by auto
    ultimately show ?thesis by (simp add: v_def hist_def)
  next
    case (changed goal h status)
    then have "g = setStatus GComplete act sus now h" using u by simp
    then show ?thesis using changed by (simp add: setStatus_def)
  qed (use u in simp_all)
qed

text \<open>Turns of an active goal only advance the turn key.\<close>

lemma begin_turns:
  assumes "gv_goal vm = Some g" "tg_status g = GActive"
  shows "gv_goal (((beginGoalTurn now tokens) ^^ n) vm) = Some g \<and> turnKey (((beginGoalTurn now tokens) ^^ n) vm) = turnKey vm + int n
    \<and> gv_metadata (((beginGoalTurn now tokens) ^^ n) vm) = gv_metadata vm
    \<and> gr_requireExplicitActivation (gv_runtime (((beginGoalTurn now tokens) ^^ n) vm)) = gr_requireExplicitActivation (gv_runtime vm)"
  using assms by (induction n) (simp_all add: beginGoalTurn_def getThreadGoal_def Let_def)

text \<open>A report the model is not refused for other reasons.\<close>

lemma model_report:
  assumes "isPersistedThread vm" "gv_goal vm = Some g" "normalizeObjective shw reason = r" "r \<noteq> []"
    and "\<not> (gr_requireExplicitActivation (gv_runtime vm) \<and> tooLarge r)"
  shows "updateThreadGoalStatus shw now (JStr ''blocked'') reason True act sus vm =
    (let (go, h) = reportBlocked r (turnKey vm) now g in
     if go then (Inr (setStatus GBlocked act sus now h), afterUpdate GBlocked (setStatus GBlocked act sus now h) vm)
     else (Inl ''blocked_requires_three_consecutive_turns'', vm\<lparr>gv_goal := Some h\<rparr>))"
proof -
  have st: "isGoalStatus (JStr ''blocked'') = Some GBlocked" by (simp add: isGoalStatus_def goalStatusName_def)
  show ?thesis
    using assms unfolding updateThreadGoalStatus_def getThreadGoal_def st afterUpdate_def Let_def
    by (simp split: prod.split)
qed

lemma isPersisted_goal [simp]:
  "isPersistedThread (vm\<lparr>gv_goal := g\<rparr>) = isPersistedThread vm"
  by (simp add: isPersistedThread_def)

lemma goalRun_append: "goalRun shw toNumber (xs @ ys) vm = goalRun shw toNumber ys (goalRun shw toNumber xs vm)"
  by (simp add: goalRun_def)

lemma goalRun_turns: "goalRun shw toNumber (replicate n (GBeginTurn now tokens)) vm = (beginGoalTurn now tokens ^^ n) vm"
  by (induction n arbitrary: vm) (simp_all add: goalRun_def funpow_swap1)

text \<open>Three reports of the same blocker are accepted whatever number of turns passes between them: the model may block
  the goal after reporting in turns \<open>k\<close>, \<open>k + d1\<close> and \<open>k + d1 + d2\<close> for any positive \<open>d1\<close>, \<open>d2\<close>, although the
  error it got on the first two reports and the continuation prompt ask for consecutive turns.
\<close>

theorem blocked_turns_may_have_gaps:
  assumes "isPersistedThread vm" "gv_goal vm = Some g" "tg_status g = GActive" "tg_blockedReason g = None"
    and "normalizeObjective shw reason \<noteq> []"
    and "\<not> (gr_requireExplicitActivation (gv_runtime vm) \<and> tooLarge (normalizeObjective shw reason))"
    and "0 < d1" "0 < d2"
  shows "\<exists>h. fst (updateThreadGoalStatus shw now (JStr ''blocked'') reason True None None
      (goalRun shw toNumber ([GUpdate now (JStr ''blocked'') reason True None None] @ replicate d1 (GBeginTurn now tokens)
         @ [GUpdate now (JStr ''blocked'') reason True None None] @ replicate d2 (GBeginTurn now tokens)) vm)) = Inr h
    \<and> tg_status h = GBlocked"
proof -
  define r where "r = normalizeObjective shw reason"
  define k where "k = turnKey vm"
  let ?up = "\<lambda>v. snd (updateThreadGoalStatus shw now (JStr ''blocked'') reason True None None v)"
  define g1 where "g1 = g\<lparr>tg_blockedReason := Some r, tg_blockedTurnCount := Some 1, tg_blockedLastTurnKey := Some k, tg_updatedAt := now\<rparr>"
  define g2 where "g2 = g1\<lparr>tg_blockedTurnCount := Some 2, tg_blockedLastTurnKey := Some (k + int d1), tg_updatedAt := now\<rparr>"
  define v1 where "v1 = vm\<lparr>gv_goal := Some g1\<rparr>"
  define v2 where "v2 = (beginGoalTurn now tokens ^^ d1) v1"
  define v3 where "v3 = v2\<lparr>gv_goal := Some g2\<rparr>"
  define v4 where "v4 = (beginGoalTurn now tokens ^^ d2) v3"
  have pers: "isPersistedThread v = isPersistedThread w" if "gv_metadata v = gv_metadata w" for v w
    using that by (simp add: isPersistedThread_def)
  have r: "normalizeObjective shw reason = r" "r \<noteq> []" using assms(5) by (simp_all add: r_def)
  have big: "\<not> (gr_requireExplicitActivation (gv_runtime vm) \<and> tooLarge r)" using assms(6) by (simp add: r_def)
  have s1: "?up vm = v1"
    using model_report[OF assms(1,2) r big, of now None None] assms(4) by (simp add: reportBlocked_def k_def g1_def v1_def Let_def)
  have g1: "gv_goal v1 = Some g1" "tg_status g1 = GActive" using assms(3) by (simp_all add: v1_def g1_def)
  note t1 = begin_turns[OF g1, where now = now and tokens = tokens and n = d1, folded v2_def]
  have p2: "isPersistedThread v2" and b2: "\<not> (gr_requireExplicitActivation (gv_runtime v2) \<and> tooLarge r)"
    using t1 assms(1) big pers[of v2 vm] by (simp_all add: v1_def)
  have k2: "turnKey v2 = k + int d1" using t1 by (simp add: v1_def k_def)
  have s2: "?up v2 = v3"
    using model_report[OF p2 _ r b2, of g1 now None None] t1 k2 assms(7)
    by (simp add: reportBlocked_def v3_def g2_def g1_def Let_def)
  have g2: "gv_goal v3 = Some g2" "tg_status g2 = GActive" using g1 by (simp_all add: v3_def g2_def)
  note t2 = begin_turns[OF g2, where now = now and tokens = tokens and n = d2, folded v4_def]
  have p4: "isPersistedThread v4" and b4: "\<not> (gr_requireExplicitActivation (gv_runtime v4) \<and> tooLarge r)"
    using t2 p2 b2 pers[of v4 v2] by (simp_all add: v3_def)
  have k4: "turnKey v4 = k + int d1 + int d2" using t2 k2 by (simp add: v3_def)
  have run: "goalRun shw toNumber ([GUpdate now (JStr ''blocked'') reason True None None] @ replicate d1 (GBeginTurn now tokens)
         @ [GUpdate now (JStr ''blocked'') reason True None None] @ replicate d2 (GBeginTurn now tokens)) vm = v4"
    unfolding goalRun_append goalRun_turns by (simp add: goalRun_def s1 s2 v2_def[symmetric] v4_def)
  show ?thesis
    unfolding run using model_report[OF p4 _ r b4, of g2 now None None] t2 k4 assms(8)
    by (simp add: reportBlocked_def g2_def g1_def Let_def)
qed

section \<open>Witnesses\<close>

definition wGoalVm :: GoalVm where
  "wGoalVm = \<lparr>gv_metadata = JObj [(''sessionId'', JStr ''s'')], gv_goal = None,
     gv_runtime = \<lparr>gr_requireExplicitActivation = False, gr_activeGoalId = None, gr_turnSequence = None, gr_turnStartedAt = None,
       gr_lastAccountedAt = None, gr_lastAccountedTokens = None, gr_continuationTurns = 0, gr_continuationInFlight = False,
       gr_lastContinuationAt = None\<rparr>,
     gv_events = [], gv_signals = [], gv_interactiveTurnActive = False, gv_controlActor = None, gv_fiberStatus = []\<rparr>"

definition wGoalOps :: "goalOp list" where
  "wGoalOps = [GSet ''g'' 5 (JStr ''ship'') JUndef None None, GBeginTurn 6 0]"

definition wGoalShow :: "rat \<Rightarrow> string" where
  "wGoalShow q = ''n''"

definition wGoalNumber :: "jsv \<Rightarrow> jnum" where
  "wGoalNumber v = NaN"

definition wGoalReport :: goalOp where
  "wGoalReport = GUpdate 7 (JStr ''blocked'') (JStr ''net'') True None None"

definition wGoalTurns :: "goalOp list" where
  "wGoalTurns = wGoalOps @ [wGoalReport, GBeginTurn 8 0, wGoalReport, GBeginTurn 9 0]"

lemma wGoal_active:
  "map_option (\<lambda>g. (tg_status g, tg_goalId g, tg_blockedReason g)) (gv_goal (goalRun wGoalShow wGoalNumber wGoalOps wGoalVm))
     = Some (GActive, ''g'', None)"
  "isPersistedThread (goalRun wGoalShow wGoalNumber wGoalOps wGoalVm)"
  "gr_requireExplicitActivation (gv_runtime (goalRun wGoalShow wGoalNumber wGoalOps wGoalVm)) = False"
  "gv_goal wGoalVm = None" "gr_activeGoalId (gv_runtime wGoalVm) = None" "normalizeObjective wGoalShow (JStr ''net'') = ''net''"
  by code_simp+

lemma wGoal_blocked:
  "case fst (updateThreadGoalStatus wGoalShow 10 (JStr ''blocked'') (JStr ''net'') True None None
      (goalRun wGoalShow wGoalNumber wGoalTurns wGoalVm)) of Inr g \<Rightarrow> tg_status g = GBlocked | Inl e \<Rightarrow> False"
  by code_simp


theorem model_update_needs_evidence_witness:
  "\<exists>g pre suf. fst (updateThreadGoalStatus wGoalShow 10 (JStr ''blocked'') (JStr ''net'') True None None
      (goalRun wGoalShow wGoalNumber wGoalTurns wGoalVm)) = Inr g
    \<and> blockerLog wGoalShow wGoalNumber wGoalTurns wGoalVm [] = pre @ suf
    \<and> 3 \<le> card (insert (turnKey (goalRun wGoalShow wGoalNumber wGoalTurns wGoalVm)) (snd ` set suf))"
proof -
  obtain g where g: "fst (updateThreadGoalStatus wGoalShow 10 (JStr ''blocked'') (JStr ''net'') True None None
      (goalRun wGoalShow wGoalNumber wGoalTurns wGoalVm)) = Inr g" "tg_status g = GBlocked"
    using wGoal_blocked by (auto split: sum.splits)
  then obtain v where "updateThreadGoalStatus wGoalShow 10 (JStr ''blocked'') (JStr ''net'') True None None
      (goalRun wGoalShow wGoalNumber wGoalTurns wGoalVm) = (Inr g, v)"
    by (metis prod.collapse)
  from model_update_needs_evidence[OF wGoal_active(4) this] g show ?thesis by auto
qed

theorem blocked_turns_may_have_gaps_witness:
  "\<exists>h. fst (updateThreadGoalStatus wGoalShow 9 (JStr ''blocked'') (JStr ''net'') True None None
      (goalRun wGoalShow wGoalNumber ([GUpdate 9 (JStr ''blocked'') (JStr ''net'') True None None] @ replicate 4 (GBeginTurn 9 0)
         @ [GUpdate 9 (JStr ''blocked'') (JStr ''net'') True None None] @ replicate 2 (GBeginTurn 9 0))
         (goalRun wGoalShow wGoalNumber wGoalOps wGoalVm))) = Inr h \<and> tg_status h = GBlocked"
proof -
  obtain g where g: "gv_goal (goalRun wGoalShow wGoalNumber wGoalOps wGoalVm) = Some g" "tg_status g = GActive" "tg_blockedReason g = None"
    using wGoal_active(1) by auto
  show ?thesis
    by (rule blocked_turns_may_have_gaps[OF wGoal_active(2) g]) (simp_all add: wGoal_active(3,6))
qed

end
