(* ===== verification/JsRegex.thy ===== *)
theory JsRegex
  imports JsPrelude
begin

text \<open>
  JavaScript regular expressions as the backtracking matcher defines them: the ends of the possible matches at a
  position, in the order in which the matcher tries them (greedy repetition first, alternatives from the left). A
  position is the text before it, reversed, and the text after it. Search finds the leftmost start.

  Glob patterns of permission rules are translated to such expressions
  (\<open>globPatternToRegex\<close> of \<open>ai-organ-logic/src/permissions/LocalPermissionEvaluator.ts\<close>).
\<close>

section \<open>Matching\<close>

datatype rx = RCls "char \<Rightarrow> bool" | REps | RSeq rx rx | RAlt rx rx | RStar rx | RStart | REnd | RWordB | RAhead rx | RNotAhead rx

type_synonym rpos = "string \<times> string"

definition word_char :: "char \<Rightarrow> bool" where
  "word_char c \<longleftrightarrow> (let n = of_char c :: nat in n \<in> {48..57} \<or> n \<in> {65..90} \<or> n \<in> {97..122} \<or> n = 95)"

definition at_word :: "string \<Rightarrow> bool" where
  "at_word s = (case s of [] \<Rightarrow> False | c # _ \<Rightarrow> word_char c)"

fun rmatch :: "rx \<Rightarrow> rpos \<Rightarrow> rpos list" where
  "rmatch (RCls P) p = (case snd p of [] \<Rightarrow> [] | c # s \<Rightarrow> if P c then [(c # fst p, s)] else [])"
| "rmatch REps p = [p]"
| "rmatch (RSeq r1 r2) p = concat (map (rmatch r2) (rmatch r1 p))"
| "rmatch (RAlt r1 r2) p = rmatch r1 p @ rmatch r2 p"
| "rmatch (RStar r) p =
     concat (map (\<lambda>q. if length (snd q) < length (snd p) then rmatch (RStar r) q else []) (rmatch r p)) @ [p]"
| "rmatch RStart p = (if fst p = [] then [p] else [])"
| "rmatch REnd p = (if snd p = [] then [p] else [])"
| "rmatch RWordB p = (if at_word (fst p) \<noteq> at_word (snd p) then [p] else [])"
| "rmatch (RAhead r) p = (if rmatch r p = [] then [] else [p])"
| "rmatch (RNotAhead r) p = (if rmatch r p = [] then [p] else [])"

declare rmatch.simps(5) [simp del]

text \<open>The leftmost match from a position on: where it starts and where it ends.\<close>

fun rsearch_from :: "rx \<Rightarrow> string \<Rightarrow> string \<Rightarrow> (rpos \<times> rpos) option" where
  "rsearch_from r b [] = (case rmatch r (b, []) of q # _ \<Rightarrow> Some ((b, []), q) | [] \<Rightarrow> None)"
| "rsearch_from r b (c # s) = (case rmatch r (b, c # s) of q # _ \<Rightarrow> Some ((b, c # s), q) | [] \<Rightarrow> rsearch_from r (c # b) s)"

definition rx_test :: "rx \<Rightarrow> string \<Rightarrow> bool" where
  "rx_test r s \<longleftrightarrow> rsearch_from r [] s \<noteq> None"

lemma rsearch_from_shrinks:
  "rsearch_from r b s = Some ((b1, s1), q) \<Longrightarrow> length s1 \<le> length s"
  by (induction r b s rule: rsearch_from.induct) (force split: list.splits)+

text \<open>\<open>replace\<close> with the flag g: every match from left to right; an empty match copies one character.\<close>

function rreplace_from :: "rx \<Rightarrow> (string \<Rightarrow> string) \<Rightarrow> string \<Rightarrow> string \<Rightarrow> string" where
  "rreplace_from r f b s = (case rsearch_from r b s of
      None \<Rightarrow> s
    | Some ((b1, s1), (b2, s2)) \<Rightarrow>
        let skipped = take (length s - length s1) s; matched = take (length s1 - length s2) s1 in
        if length s2 < length s1 then skipped @ f matched @ rreplace_from r f b2 s2
        else case s1 of [] \<Rightarrow> skipped @ f matched
          | c # s' \<Rightarrow> skipped @ f matched @ [c] @ rreplace_from r f (c # b1) s')"
  by pat_completeness auto
termination
  by (relation "measure (\<lambda>(r, f, b, s). length s)") (auto dest!: rsearch_from_shrinks)

declare rreplace_from.simps [simp del]

definition rx_replace :: "rx \<Rightarrow> (string \<Rightarrow> string) \<Rightarrow> string \<Rightarrow> string" where
  "rx_replace r f s = rreplace_from r f [] s"

text \<open>\<open>split\<close> at the maximal runs of a character class.\<close>

function split_runs :: "(char \<Rightarrow> bool) \<Rightarrow> string \<Rightarrow> string list" where
  "split_runs P s = (case dropWhile (\<lambda>c. \<not> P c) s of
      [] \<Rightarrow> [s]
    | c # t \<Rightarrow> takeWhile (\<lambda>c. \<not> P c) s # split_runs P (dropWhile P t))"
  by pat_completeness auto
termination
proof (relation "measure (\<lambda>(P, s). length s)", simp)
  fix P :: "char \<Rightarrow> bool" and s :: string and c :: char and t :: string
  assume "dropWhile (\<lambda>c. \<not> P c) s = c # t"
  then have "length (c # t) \<le> length s" by (metis length_dropWhile_le)
  then show "((P, dropWhile P t), P, s) \<in> measure (\<lambda>(P, s). length s)"
    using length_dropWhile_le[of P t] by simp
qed

declare split_runs.simps [simp del]

section \<open>Building expressions\<close>

definition rchr :: "char \<Rightarrow> rx" where
  "rchr c = RCls (\<lambda>x. x = c)"

definition rany :: rx where
  "rany = RCls (\<lambda>_. True)"

fun rseq :: "rx list \<Rightarrow> rx" where
  "rseq [] = REps"
| "rseq [r] = r"
| "rseq (r # rs) = RSeq r (rseq rs)"

fun ralt :: "rx list \<Rightarrow> rx" where
  "ralt [] = RCls (\<lambda>_. False)"
| "ralt [r] = r"
| "ralt (r # rs) = RAlt r (ralt rs)"

definition rplus :: "rx \<Rightarrow> rx" where
  "rplus r = RSeq r (RStar r)"

definition ropt :: "rx \<Rightarrow> rx" where
  "ropt r = RAlt r REps"

definition rlit :: "string \<Rightarrow> rx" where
  "rlit s = rseq (map rchr s)"

text \<open>\<open>toLowerCase\<close> on single-byte characters, and a literal under the flag i.\<close>

definition to_lower :: "char \<Rightarrow> char" where
  "to_lower c = (let n = of_char c :: nat in
     if n \<in> {65..90} \<or> (n \<in> {192..222} \<and> n \<noteq> 215) then char_of (n + 32) else c)"

definition js_lower :: "string \<Rightarrow> string" where
  "js_lower s = map to_lower s"

definition rlit_i :: "string \<Rightarrow> rx" where
  "rlit_i s = rseq (map (\<lambda>c. RCls (\<lambda>x. to_lower x = to_lower c)) s)"

section \<open>Globs\<close>

text \<open>The source of the expression escapes every character with a meaning of its own, so what it denotes is the
  sequence below; the flag s lets the dot match line ends.\<close>

definition globChar :: "char \<Rightarrow> rx" where
  "globChar c = (if c = CHR ''*'' then RStar rany else if c = CHR ''?'' then rany else rchr c)"

fun globPatternToRegex :: "string \<Rightarrow> rx" where
  "globPatternToRegex [] = REps"
| "globPatternToRegex (c # cs) = RSeq (globChar c) (globPatternToRegex cs)"

definition globMatch :: "string \<Rightarrow> string \<Rightarrow> bool" where
  "globMatch pattern v = rx_test (RSeq RStart (RSeq (globPatternToRegex pattern) REnd)) v"

text \<open>What a glob means: a star stands for any text, a question mark for one character.\<close>

fun wildcard :: "string \<Rightarrow> string \<Rightarrow> bool" where
  "wildcard [] v \<longleftrightarrow> v = []"
| "wildcard (c # cs) v \<longleftrightarrow>
     (if c = CHR ''*'' then \<exists>i \<le> length v. wildcard cs (drop i v)
      else v \<noteq> [] \<and> (c = CHR ''?'' \<or> hd v = c) \<and> wildcard cs (tl v))"

lemma rstar_any: "set (rmatch (RStar rany) (b, s)) = {(rev (take i s) @ b, drop i s) | i. i \<le> length s}"
proof (induction s arbitrary: b)
  case Nil
  show ?case by (simp add: rany_def rmatch.simps(5))
next
  case (Cons c s)
  have "set (rmatch (RStar rany) (b, c # s)) = insert (b, c # s) (set (rmatch (RStar rany) (c # b, s)))"
    using rmatch.simps(5)[of rany "(b, c # s)"] by (simp add: rany_def)
  also have "\<dots> = {(rev (take i (c # s)) @ b, drop i (c # s)) | i. i \<le> length (c # s)}" (is "?l = ?r")
  proof
    show "?l \<subseteq> ?r"
    proof
      fix x assume "x \<in> ?l"
      then consider "x = (b, c # s)" | i where "i \<le> length s" "x = (rev (take i s) @ c # b, drop i s)" using Cons.IH by auto
      then show "x \<in> ?r"
      proof cases
        case 1
        then show ?thesis by (auto intro!: exI[of _ 0])
      next
        case 2
        then show ?thesis by (auto intro!: exI[of _ "Suc i"])
      qed
    qed
    show "?r \<subseteq> ?l"
    proof
      fix x assume "x \<in> ?r"
      then obtain i where "i \<le> length (c # s)" "x = (rev (take i (c # s)) @ b, drop i (c # s))" by auto
      then show "x \<in> ?l" using Cons.IH by (cases i) auto
    qed
  qed
  finally show ?case .
qed

lemma glob_rmatch: "(\<exists>q \<in> set (rmatch (globPatternToRegex p) (b, s)). snd q = []) \<longleftrightarrow> wildcard p s"
proof (induction p arbitrary: b s)
  case (Cons c p)
  show ?case
  proof (cases "c = CHR ''*''")
    case True
    then have "(\<exists>q \<in> set (rmatch (globPatternToRegex (c # p)) (b, s)). snd q = [])
        \<longleftrightarrow> (\<exists>i \<le> length s. \<exists>q \<in> set (rmatch (globPatternToRegex p) (rev (take i s) @ b, drop i s)). snd q = [])"
      by (auto simp: globChar_def rstar_any)
    also have "\<dots> \<longleftrightarrow> (\<exists>i \<le> length s. wildcard p (drop i s))" using Cons.IH by simp
    finally show ?thesis using True by simp
  next
    case False
    then show ?thesis using Cons.IH by (cases s) (auto simp: globChar_def rany_def rchr_def)
  qed
qed auto

lemma anchored_test: "rx_test (RSeq RStart r) s \<longleftrightarrow> rmatch r ([], s) \<noteq> []"
proof -
  have "rsearch_from (RSeq RStart r) b t = None" if "b \<noteq> []" for b t
    using that by (induction t arbitrary: b) simp_all
  then show ?thesis by (cases s) (auto simp: rx_test_def split: list.split)
qed

lemma globMatch_iff: "globMatch p v \<longleftrightarrow> wildcard p v"
proof -
  have "globMatch p v \<longleftrightarrow> (\<exists>q \<in> set (rmatch (globPatternToRegex p) ([], v)). snd q = [])"
    unfolding globMatch_def anchored_test by (auto simp: concat_eq_Nil_conv split: if_splits)
  then show ?thesis by (simp add: glob_rmatch)
qed

end
