(* ===== verification/PosixPaths.thy ===== *)
theory PosixPaths
  imports JsPrelude
begin

text \<open>
  The functions of \<open>node:path\<close> the permission code uses, on a POSIX host, and path containment as decided by
  \<open>isPathWithin\<close> (\<open>ai-organ-logic/src/permissions/LocalPermissionEvaluator.ts\<close>). \<open>cwd\<close> is the absolute working
  directory of the process. The reference reading of a path is the list of its components.
\<close>

section \<open>Strings and components\<close>

fun split_on :: "char \<Rightarrow> string \<Rightarrow> string list" where
  "split_on c [] = [[]]"
| "split_on c (x # xs) = (if x = c then [] # split_on c xs
     else case split_on c xs of s # ss \<Rightarrow> (x # s) # ss | [] \<Rightarrow> [[x]])"

definition sep :: char where
  "sep = CHR 0x2F"

definition path_isAbsolute :: "string \<Rightarrow> bool" where
  "path_isAbsolute p = starts_with [sep] p"

text \<open>\<open>normalizeString\<close> for an absolute path: empty and single-dot components go, a double dot removes the component
  before it and does nothing at the root. The accumulator is reversed.\<close>

fun norm_parts :: "string list \<Rightarrow> string list \<Rightarrow> string list" where
  "norm_parts acc [] = rev acc"
| "norm_parts acc (p # ps) =
     (if p = [] \<or> p = ''.'' then norm_parts acc ps
      else if p = ''..'' then norm_parts (case acc of [] \<Rightarrow> [] | _ # acc' \<Rightarrow> acc') ps
      else norm_parts (p # acc) ps)"

definition abs_path :: "string list \<Rightarrow> string" where
  "abs_path segs = sep # js_join [sep] segs"

definition segs_of :: "string \<Rightarrow> string \<Rightarrow> string list" where
  "segs_of cwd p = norm_parts [] (split_on sep (if path_isAbsolute p then p else cwd @ [sep] @ p))"

definition path_resolve :: "string \<Rightarrow> string \<Rightarrow> string" where
  "path_resolve cwd p = abs_path (segs_of cwd p)"

definition path_resolve2 :: "string \<Rightarrow> string \<Rightarrow> string \<Rightarrow> string" where
  "path_resolve2 cwd a b = path_resolve cwd (if path_isAbsolute b then b else if a = [] then b else a @ [sep] @ b)"

fun strip_common :: "string list \<Rightarrow> string list \<Rightarrow> string list \<times> string list" where
  "strip_common (x # xs) (y # ys) = (if x = y then strip_common xs ys else (x # xs, y # ys))"
| "strip_common xs ys = (xs, ys)"

definition path_relative :: "string \<Rightarrow> string \<Rightarrow> string \<Rightarrow> string" where
  "path_relative cwd from to =
     (let (up, down) = strip_common (segs_of cwd from) (segs_of cwd to)
      in js_join [sep] (replicate (length up) ''..'' @ down))"

definition path_basename :: "string \<Rightarrow> string" where
  "path_basename p = (case rev (filter (\<lambda>s. s \<noteq> []) (split_on sep p)) of [] \<Rightarrow> [] | b # _ \<Rightarrow> b)"

definition path_dirname :: "string \<Rightarrow> string" where
  "path_dirname p =
     (let t = rev (dropWhile (\<lambda>c. c = sep) (rev p));
          d = butlast (rev (dropWhile (\<lambda>c. c \<noteq> sep) (rev t)))
      in if sep \<notin> set t then (if path_isAbsolute p then [sep] else ''.'')
         else if d = [] then [sep] else if d = [sep] then [sep, sep] else d)"

definition path_join :: "string \<Rightarrow> string list \<Rightarrow> string" where
  "path_join base parts = abs_path (norm_parts [] (split_on sep (js_join [sep] (base # parts))))"

section \<open>Components\<close>

text \<open>A component that normalization keeps.\<close>

definition component :: "string \<Rightarrow> bool" where
  "component s \<longleftrightarrow> s \<noteq> [] \<and> s \<noteq> ''.'' \<and> s \<noteq> ''..'' \<and> sep \<notin> set s"

lemma split_on_not_Nil [simp]: "split_on c s \<noteq> []"
  by (induction s) (auto split: list.split)

lemma split_on_free: "s \<in> set (split_on c p) \<Longrightarrow> c \<notin> set s"
proof (induction p arbitrary: s)
  case (Cons x p)
  then show ?case by (cases "split_on c p") (auto split: if_splits)
qed simp

lemma split_on_id: "c \<notin> set s \<Longrightarrow> split_on c s = [s]"
  by (induction s) auto

lemma split_on_append: "split_on c (s @ c # t) = split_on c s @ split_on c t"
proof (induction s)
  case (Cons x s)
  then show ?case by (cases "split_on c s") auto
qed simp

lemma split_on_join: "(\<forall>s \<in> set ss. c \<notin> set s) \<Longrightarrow> ss \<noteq> [] \<Longrightarrow> split_on c (js_join [c] ss) = ss"
proof (induction ss)
  case (Cons s ss)
  then show ?case by (cases ss) (simp_all add: split_on_append split_on_id)
qed simp

lemma norm_parts_components:
  "list_all component acc \<Longrightarrow> (\<forall>s \<in> set ps. sep \<notin> set s) \<Longrightarrow> list_all component (norm_parts acc ps)"
proof (induction acc ps rule: norm_parts.induct)
  case (2 acc p ps)
  then show ?case by (cases acc) (auto simp: component_def)
qed (simp add: list_all_iff)

lemma segs_components: "list_all component (segs_of cwd p)"
  unfolding segs_of_def by (rule norm_parts_components) (auto dest: split_on_free)

lemma norm_parts_id: "list_all component ps \<Longrightarrow> norm_parts acc ps = rev acc @ ps"
  by (induction ps arbitrary: acc) (auto simp: component_def)

lemma abs_path_absolute [simp]: "path_isAbsolute (abs_path segs)"
  by (simp add: path_isAbsolute_def abs_path_def starts_with_def)

text \<open>Normalized paths are fixed points: their components are those they are built from.\<close>

lemma segs_abs_path [simp]:
  assumes "list_all component segs"
  shows "segs_of cwd (abs_path segs) = segs"
proof (cases "segs = []")
  case True
  then show ?thesis by (simp add: segs_of_def abs_path_def path_isAbsolute_def starts_with_def)
next
  case False
  have "split_on sep (js_join [sep] segs) = segs"
    using assms False by (intro split_on_join) (auto simp: list_all_iff component_def)
  then have "split_on sep (abs_path segs) = [] # segs" by (simp add: abs_path_def)
  then show ?thesis using assms by (simp add: segs_of_def norm_parts_id)
qed

lemma segs_resolve [simp]: "segs_of cwd (path_resolve cwd' p) = segs_of cwd' p"
  by (simp add: path_resolve_def segs_components)

lemma resolve_resolve [simp]: "path_resolve cwd (path_resolve cwd' p) = path_resolve cwd' p"
  by (simp add: path_resolve_def segs_components)

lemma abs_path_inject:
  assumes "list_all component xs" "list_all component ys"
  shows "abs_path xs = abs_path ys \<longleftrightarrow> xs = ys"
  using assms segs_abs_path by metis

lemma resolve_eq_iff: "path_resolve cwd p = path_resolve cwd q \<longleftrightarrow> segs_of cwd p = segs_of cwd q"
  unfolding path_resolve_def by (rule abs_path_inject) (rule segs_components)+

section \<open>Containment\<close>

definition isPathWithin :: "string \<Rightarrow> string \<Rightarrow> string \<Rightarrow> bool" where
  "isPathWithin cwd candidatePath rootPath =
     (let relative = path_relative cwd (path_resolve cwd rootPath) (path_resolve cwd candidatePath)
      in relative = [] \<or> (\<not> starts_with ''..'' relative \<and> \<not> path_isAbsolute relative))"

lemma strip_common_append [simp]: "strip_common (xs @ ys) (xs @ zs) = strip_common ys zs"
  by (induction xs) auto

lemma strip_common_result:
  "strip_common xs ys = (up, down) \<Longrightarrow> \<exists>zs. xs = zs @ up \<and> ys = zs @ down \<and> (up = [] \<or> down = [] \<or> hd up \<noteq> hd down)"
proof (induction xs ys rule: strip_common.induct)
  case (1 x xs y ys)
  show ?case
  proof (cases "x = y")
    case True
    then obtain zs where "xs = zs @ up \<and> ys = zs @ down \<and> (up = [] \<or> down = [] \<or> hd up \<noteq> hd down)" using 1 by auto
    then show ?thesis using True by (intro exI[of _ "x # zs"]) simp
  next
    case False
    then show ?thesis using 1(2) by auto
  qed
qed auto

lemma join_head:
  assumes "s \<noteq> []"
  shows "js_join [c] (s # ss) \<noteq> []" "starts_with [d] (js_join [c] (s # ss)) \<longleftrightarrow> hd s = d"
  using assms by (cases ss; cases s; simp add: starts_with_def)+

lemma join_dots:
  assumes "component s"
  shows "starts_with ''..'' (js_join [sep] (s # ss)) \<longleftrightarrow> starts_with ''..'' s"
proof -
  have "s \<noteq> [] \<and> s \<noteq> ''.''" using assms by (simp add: component_def)
  then obtain a r where "s = a # r" "r = [] \<longrightarrow> a \<noteq> CHR ''.''" by (cases s) auto
  then show ?thesis by (cases r; cases ss) (auto simp: starts_with_def sep_def)
qed

text \<open>The code's containment is the prefix order on components, except that a candidate whose first component below
  the root begins with two dots counts as outside.\<close>

lemma isPathWithin_iff:
  "isPathWithin cwd c r \<longleftrightarrow>
     (\<exists>rest. segs_of cwd c = segs_of cwd r @ rest \<and> (rest = [] \<or> \<not> starts_with ''..'' (hd rest)))"
proof -
  obtain up down where s: "strip_common (segs_of cwd r) (segs_of cwd c) = (up, down)"
    by (cases "strip_common (segs_of cwd r) (segs_of cwd c)")
  obtain zs where z: "segs_of cwd r = zs @ up" "segs_of cwd c = zs @ down" "up = [] \<or> down = [] \<or> hd up \<noteq> hd down"
    using strip_common_result[OF s] by auto
  have comp: "list_all component down" using segs_components[of cwd c] z(2) by simp
  have rel: "path_relative cwd (path_resolve cwd r) (path_resolve cwd c) = js_join [sep] (replicate (length up) ''..'' @ down)"
    by (simp add: path_relative_def s)
  show ?thesis
  proof (cases up)
    case Nil
    show ?thesis
    proof (cases down)
      case Nil2: Nil
      then show ?thesis using Nil z rel by (simp add: isPathWithin_def)
    next
      case (Cons d ds)
      then have d: "component d" using comp by simp
      then have "d \<noteq> []" "hd d \<noteq> sep" by (cases d, auto simp: component_def)+
      then show ?thesis using Nil Cons z rel join_dots[OF d, of ds] join_head(1)[of d sep ds] join_head(2)[of d sep sep ds]
        by (simp add: isPathWithin_def path_isAbsolute_def)
    qed
  next
    case (Cons u us)
    have "\<not> (\<exists>rest. segs_of cwd c = segs_of cwd r @ rest)" using Cons z by (cases down) auto
    moreover have "starts_with ''..'' (js_join [sep] (''..'' # replicate (length us) ''..'' @ down))"
      by (cases "replicate (length us) ''..'' @ down") (simp_all add: starts_with_def)
    moreover have "js_join [sep] (''..'' # replicate (length us) ''..'' @ down) \<noteq> []"
      by (rule join_head) simp
    ultimately show ?thesis using Cons rel by (auto simp: isPathWithin_def)
  qed
qed

lemma isPathWithin_resolve [simp]:
  "isPathWithin cwd (path_resolve cwd c) r = isPathWithin cwd c r" "isPathWithin cwd c (path_resolve cwd r) = isPathWithin cwd c r"
  by (simp_all add: isPathWithin_iff)

lemma isPathWithin_refl [simp]: "isPathWithin cwd p p"
  by (simp add: isPathWithin_iff)

end
