(* ===== verification/ShellModel.thy ===== *)
theory ShellModel
  imports JsRegex PosixPaths
begin

text \<open>
  How the permission evaluator reads shell commands
  (\<open>ai-organ-logic/src/permissions/LocalPermissionEvaluator.ts\<close>): tokens, segments between control operators, the
  words of a segment without its redirections, and multi-line commands. A \<open>LocalPermissionConfigError\<close> is the value
  \<open>Inl\<close> of its message.
\<close>

section \<open>Data\<close>

datatype TokenKind = Word | Operator

record BashToken =
  bt_text :: string
  bt_kind :: TokenKind
  bt_quoted :: bool

definition unsupported :: string where
  "unsupported = ''Unsupported shell syntax for permission parsing''"

definition SEGMENT_OPERATORS :: "string list" where
  "SEGMENT_OPERATORS = [''&&'', ''||'', '';'', ''|'', ''&'']"

definition REDIRECTION_OPERATORS :: "string list" where
  "REDIRECTION_OPERATORS = [''>'', ''>>'', ''<'', ''<>'', ''&>'', ''&>>'']"

definition FD_DUPLICATION_OPERATORS :: "string list" where
  "FD_DUPLICATION_OPERATORS = [''>&'', ''<&'']"

definition squote :: char where "squote = CHR 0x27"
definition dquote :: char where "dquote = CHR 0x22"
definition backslash :: char where "backslash = CHR 0x5C"
definition backquote :: char where "backquote = CHR 0x60"
definition newline :: char where "newline = CHR 0x0A"
definition carriage :: char where "carriage = CHR 0x0D"

definition ident_start :: "char \<Rightarrow> bool" where
  "ident_start c \<longleftrightarrow> word_char c \<and> \<not> is_digit c"

text \<open>\<open>ENV_ASSIGNMENT_RE\<close>: a name, an equals sign and text without line ends.\<close>

definition isEnvAssignment :: "string \<Rightarrow> bool" where
  "isEnvAssignment s = (case s of [] \<Rightarrow> False | c # _ \<Rightarrow> ident_start c
     \<and> (case dropWhile word_char s of e # v \<Rightarrow> e = CHR ''='' \<and> newline \<notin> set v \<and> carriage \<notin> set v | [] \<Rightarrow> False))"

definition allDigits :: "string \<Rightarrow> bool" where
  "allDigits s \<longleftrightarrow> s \<noteq> [] \<and> list_all is_digit s"

definition isFdTarget :: "string \<Rightarrow> bool" where
  "isFdTarget s \<longleftrightarrow> allDigits s \<or> s = ''-''"

section \<open>Tokens\<close>

definition shellOperators :: "string list" where
  "shellOperators = [''&>>'', ''&&'', ''||'', ''>>'', ''<>'', ''&>'', ''>&'', ''<&'', '';'', ''|'', ''&'', ''<'', ''>'']"

definition readShellOperator :: "string \<Rightarrow> string option" where
  "readShellOperator s = find (\<lambda>op. starts_with op s) shellOperators"

datatype QuoteMode = Unquoted | Single | Double

record Scan =
  sc_tokens :: "BashToken list"
  sc_current :: string
  sc_quoted :: bool

definition flushCurrent :: "Scan \<Rightarrow> Scan" where
  "flushCurrent sc = (if sc_current sc = [] then sc
     else \<lparr>sc_tokens = sc_tokens sc @ [\<lparr>bt_text = sc_current sc, bt_kind = Word, bt_quoted = sc_quoted sc\<rparr>],
           sc_current = [], sc_quoted = False\<rparr>)"

definition addChar :: "char \<Rightarrow> Scan \<Rightarrow> Scan" where
  "addChar c sc = sc\<lparr>sc_current := sc_current sc @ [c]\<rparr>"

definition markQuoted :: "Scan \<Rightarrow> Scan" where
  "markQuoted sc = sc\<lparr>sc_quoted := True\<rparr>"

definition addOperator :: "string \<Rightarrow> Scan \<Rightarrow> Scan" where
  "addOperator op sc = (let f = flushCurrent sc in
     f\<lparr>sc_tokens := sc_tokens f @ [\<lparr>bt_text = op, bt_kind = Operator, bt_quoted = False\<rparr>]\<rparr>)"

definition unsupportedStart :: "string \<Rightarrow> bool" where
  "unsupportedStart s \<longleftrightarrow> starts_with ''$('' s \<or> starts_with [backquote] s \<or> starts_with ''<('' s \<or> starts_with ''>('' s
     \<or> starts_with ''<<'' s \<or> starts_with ''|&'' s \<or> starts_with ''('' s \<or> starts_with '')'' s"

lemma readShellOperator_nonempty: "readShellOperator s = Some op \<Longrightarrow> op \<noteq> []"
  by (auto simp: readShellOperator_def shellOperators_def find_Some_iff nth_Cons' split: if_splits)

function tokenLoop :: "QuoteMode \<Rightarrow> Scan \<Rightarrow> string \<Rightarrow> BashToken list result" where
  "tokenLoop mode sc [] = (if mode \<noteq> Unquoted then Inl unsupported else Inr (sc_tokens (flushCurrent sc)))"
| "tokenLoop Single sc (c # s) = (if c = squote then tokenLoop Unquoted sc s else tokenLoop Single (addChar c sc) s)"
| "tokenLoop Double sc (c # s) =
     (if c = dquote then tokenLoop Unquoted sc s
      else if c = backslash then (case s of [] \<Rightarrow> Inl unsupported | d # s' \<Rightarrow> tokenLoop Double (markQuoted (addChar d sc)) s')
      else if starts_with ''$('' (c # s) \<or> c = backquote then Inl unsupported
      else tokenLoop Double (addChar c sc) s)"
| "tokenLoop Unquoted sc (c # s) =
     (if js_space c then tokenLoop Unquoted (flushCurrent sc) s
      else if c = squote then tokenLoop Single (markQuoted sc) s
      else if c = dquote then tokenLoop Double (markQuoted sc) s
      else if c = backslash then (case s of [] \<Rightarrow> Inl unsupported | d # s' \<Rightarrow> tokenLoop Unquoted (markQuoted (addChar d sc)) s')
      else if unsupportedStart (c # s) then Inl unsupported
      else case readShellOperator (c # s) of
          Some op \<Rightarrow> tokenLoop Unquoted (addOperator op sc) (drop (length op) (c # s))
        | None \<Rightarrow> tokenLoop Unquoted (addChar c sc) s)"
  by pat_completeness auto
termination
  by (relation "measure (\<lambda>(mode, sc, s). length s)") (auto dest: readShellOperator_nonempty)

definition emptyScan :: Scan where
  "emptyScan = \<lparr>sc_tokens = [], sc_current = [], sc_quoted = False\<rparr>"

definition tokenizeBashInput :: "string \<Rightarrow> BashToken list result" where
  "tokenizeBashInput command = tokenLoop Unquoted emptyScan command"

section \<open>The words of a segment\<close>

definition isOp :: "string list \<Rightarrow> BashToken \<Rightarrow> bool" where
  "isOp ops t \<longleftrightarrow> bt_kind t = Operator \<and> bt_text t \<in> set ops"

definition plainDigits :: "BashToken \<Rightarrow> bool" where
  "plainDigits t \<longleftrightarrow> bt_kind t = Word \<and> \<not> bt_quoted t \<and> allDigits (bt_text t)"

definition fdTargetWord :: "BashToken \<Rightarrow> bool" where
  "fdTargetWord t \<longleftrightarrow> bt_kind t = Word \<and> \<not> bt_quoted t \<and> isFdTarget (bt_text t)"

fun isFdDuplicationRedirection :: "BashToken list \<Rightarrow> bool" where
  "isFdDuplicationRedirection (a # b # c # _) =
     (if plainDigits a \<and> isOp FD_DUPLICATION_OPERATORS b \<and> fdTargetWord c then True
      else isOp FD_DUPLICATION_OPERATORS a \<and> fdTargetWord b)"
| "isFdDuplicationRedirection [a, b] = (isOp FD_DUPLICATION_OPERATORS a \<and> fdTargetWord b)"
| "isFdDuplicationRedirection _ = False"

definition isWordAt :: "nat \<Rightarrow> BashToken list \<Rightarrow> bool" where
  "isWordAt n ts \<longleftrightarrow> n < length ts \<and> bt_kind (ts ! n) = Word"

function commandWords :: "BashToken list \<Rightarrow> string list result" where
  "commandWords [] = Inr []"
| "commandWords (t # ts) =
     (if isOp [''<<'', ''|&''] t then Inl unsupported
      else if isFdDuplicationRedirection (t # ts) then commandWords (drop (if bt_kind t = Word then 2 else 1) ts)
      else if plainDigits t \<and> ts \<noteq> [] \<and> isOp REDIRECTION_OPERATORS (hd ts) then
        (if isWordAt 1 ts then commandWords (drop 2 ts) else Inl unsupported)
      else if isOp REDIRECTION_OPERATORS t then
        (if isWordAt 0 ts then commandWords (drop 1 ts) else Inl unsupported)
      else if bt_kind t \<noteq> Word then Inl unsupported
      else if \<not> bt_quoted t \<and> (bt_text t = ''{'' \<or> bt_text t = ''}'') then Inl unsupported
      else bind_result (commandWords ts) (\<lambda>ws. Inr (bt_text t # ws)))"
  by pat_completeness auto
termination
  by (relation "measure length") auto

definition isAssignmentToken :: "BashToken \<Rightarrow> bool" where
  "isAssignmentToken t \<longleftrightarrow> bt_kind t = Word \<and> isEnvAssignment (bt_text t)"

definition collectBashCommandWords :: "BashToken list \<Rightarrow> string list result" where
  "collectBashCommandWords tokens =
     (if tokens = [] then Inl ''Empty bash segment''
      else let rest = dropWhile isAssignmentToken tokens in
        if rest = [] then Inr (map bt_text tokens)
        else bind_result (commandWords rest)
          (\<lambda>ws. if ws = [] then Inl ''Bash segment does not contain an executable command'' else Inr ws))"

definition normalizeBashSegment :: "BashToken list \<Rightarrow> string result" where
  "normalizeBashSegment tokens = bind_result (collectBashCommandWords tokens) (\<lambda>ws. Inr (js_join '' '' ws))"

definition bashSegmentIsPureAssignment :: "BashToken list \<Rightarrow> bool" where
  "bashSegmentIsPureAssignment tokens \<longleftrightarrow> tokens \<noteq> [] \<and> list_all isAssignmentToken tokens"

section \<open>Multi-line commands\<close>

text \<open>\<open>split(/\r\n|\n|\r/)\<close>.\<close>

fun split_lines :: "string \<Rightarrow> string list" where
  "split_lines [] = [[]]"
| "split_lines [c] = (if c = newline \<or> c = carriage then [[], []] else [[c]])"
| "split_lines (c # d # s) =
     (if c = carriage \<and> d = newline then [] # split_lines s
      else if c = newline \<or> c = carriage then [] # split_lines (d # s)
      else case split_lines (d # s) of l # ls \<Rightarrow> (c # l) # ls | [] \<Rightarrow> [[c]])"

fun unclosedQuote :: "bool \<Rightarrow> bool \<Rightarrow> string \<Rightarrow> bool" where
  "unclosedQuote single double [] = (single \<or> double)"
| "unclosedQuote single double [c] =
     (if c = backslash then single \<or> double
      else let single' = (if c = squote \<and> \<not> double then \<not> single else single);
               double' = (if c = dquote \<and> \<not> single' then \<not> double else double)
           in single' \<or> double')"
| "unclosedQuote single double (c # d # s) =
     (if c = backslash then unclosedQuote single double s
      else let single' = (if c = squote \<and> \<not> double then \<not> single else single);
               double' = (if c = dquote \<and> \<not> single' then \<not> double else double)
           in unclosedQuote single' double' (d # s))"

definition lineHasUnclosedQuote :: "string \<Rightarrow> bool" where
  "lineHasUnclosedQuote line = unclosedQuote False False line"

definition trimEnd :: "string \<Rightarrow> string" where
  "trimEnd s = rev (dropWhile js_space (rev s))"

definition trimStart :: "string \<Rightarrow> string" where
  "trimStart s = dropWhile js_space s"

definition collapseStep :: "string list \<Rightarrow> string \<Rightarrow> string list" where
  "collapseStep result line =
     (if result \<noteq> [] \<and> trimEnd (last result) \<noteq> [] \<and> last (trimEnd (last result)) = backslash
      then butlast result @ [butlast (trimEnd (last result)) @ '' '' @ trimStart line]
      else if result \<noteq> [] \<and> lineHasUnclosedQuote (last result) then butlast result @ [last result @ '' '' @ line]
      else result @ [line])"

definition collapseBashMultilineCommand :: "string \<Rightarrow> string" where
  "collapseBashMultilineCommand command = js_join [newline] (foldl collapseStep [] (split_lines command))"

text \<open>\<open>HEREDOC_START_RE\<close>: the delimiter and the rest of the line of a match that starts here.\<close>

definition heredocAt :: "string \<Rightarrow> (string \<times> string) option" where
  "heredocAt s =
     (if \<not> starts_with ''<<'' s then None
      else
        let s1 = drop 2 s; s2 = (if starts_with ''-'' s1 then tl s1 else s1); s3 = dropWhile js_space s2;
            quote = (if starts_with [squote] s3 then [squote] else if starts_with [dquote] s3 then [dquote] else []);
            s4 = drop (length quote) s3; delimiter = takeWhile word_char s4; rest = dropWhile word_char s4
        in if delimiter \<noteq> [] \<and> ident_start (hd delimiter) \<and> starts_with quote rest
           then Some (delimiter, drop (length quote) rest) else None)"

fun heredocSearch :: "string \<Rightarrow> (string \<times> string \<times> string) option" where
  "heredocSearch [] = None"
| "heredocSearch (c # s) = (case heredocAt (c # s) of
      Some (d, r) \<Rightarrow> Some ([], d, r)
    | None \<Rightarrow> map_option (\<lambda>(p, d, r). (c # p, d, r)) (heredocSearch s))"

definition normalizeSupportedHeredocPrefix :: "BashToken list \<Rightarrow> string option" where
  "normalizeSupportedHeredocPrefix tokens = (case collectBashCommandWords tokens of
      Inl _ \<Rightarrow> None
    | Inr ws \<Rightarrow>
        if ws = [] then None
        else if \<not> starts_with ''python'' (js_lower (path_basename (hd ws))) then None
        else if length ws = 1 then Some (hd ws @ '' -'')
        else if last ws = ''-'' then Some (js_join '' '' ws)
        else None)"

function heredocLoop :: "string list \<Rightarrow> string list \<Rightarrow> string list result" where
  "heredocLoop acc [] = Inr acc"
| "heredocLoop acc (l # ls) =
     (case heredocSearch (js_trim l) of
        None \<Rightarrow> Inl unsupported
      | Some (before, delimiter, after) \<Rightarrow>
          let prefix = js_trim (before @ '' '' @ after) in
          if prefix = [] then Inl unsupported
          else bind_result (tokenizeBashInput prefix) (\<lambda>tokens.
            case normalizeSupportedHeredocPrefix tokens of
              None \<Rightarrow> Inl unsupported
            | Some p \<Rightarrow>
                let rest = dropWhile (\<lambda>x. js_trim x \<noteq> delimiter) ls in
                if rest = [] then Inl unsupported else heredocLoop (acc @ [p]) (tl rest)))"
  by pat_completeness auto
termination
  by (relation "measure (\<lambda>(acc, ls). length ls)")
     (auto simp: less_Suc_eq_le intro: order_trans[OF diff_le_self length_dropWhile_le])

definition hasLineEnd :: "string \<Rightarrow> bool" where
  "hasLineEnd s \<longleftrightarrow> newline \<in> set s \<or> carriage \<in> set s"

definition sanitizeSupportedBashMultilineCommand :: "string \<Rightarrow> string result" where
  "sanitizeSupportedBashMultilineCommand command =
     (let stripped = js_trim command in
      if \<not> hasLineEnd stripped then Inr stripped
      else let collapsed = collapseBashMultilineCommand stripped in
        if \<not> hasLineEnd collapsed then Inr collapsed
        else let lines = split_lines collapsed in
          if \<not> list_ex (\<lambda>l. heredocSearch l \<noteq> None) lines then
            let sanitized = js_join '' ; '' (filter (\<lambda>l. l \<noteq> []) (map js_trim lines)) in
            if sanitized = [] then Inl ''No executable bash segments found''
            else bind_result (tokenizeBashInput sanitized) (\<lambda>_. Inr sanitized)
          else bind_result (heredocLoop [] lines) (\<lambda>ls.
            let sanitized = js_trim (js_join '' '' ls) in
            if sanitized = [] then Inl ''No executable bash segments found'' else Inr sanitized))"

section \<open>Segments\<close>

fun segmentLoop :: "BashToken list list \<Rightarrow> BashToken list \<Rightarrow> BashToken list \<Rightarrow> BashToken list list result" where
  "segmentLoop segments current [] =
     (let all = (if current \<noteq> [] then segments @ [current] else segments)
      in if all = [] then Inl ''No executable bash segments found'' else Inr all)"
| "segmentLoop segments current (t # ts) =
     (if isOp SEGMENT_OPERATORS t then
        (if current = [] then Inl (''Invalid shell syntax near operator '' @ [squote] @ bt_text t @ [squote])
         else segmentLoop (segments @ [current]) [] ts)
      else segmentLoop segments (current @ [t]) ts)"

definition parseBashSegments :: "string \<Rightarrow> BashToken list list result" where
  "parseBashSegments command =
     bind_result (sanitizeSupportedBashMultilineCommand command) (\<lambda>stripped.
       if stripped = [] then Inl ''Bash command is empty''
       else if hasLineEnd stripped then Inl unsupported
       else bind_result (tokenizeBashInput stripped) (\<lambda>tokens. segmentLoop [] [] tokens))"

definition parseBashCommandSegments :: "string \<Rightarrow> string list result" where
  "parseBashCommandSegments command = bind_result (parseBashSegments command) (map_result normalizeBashSegment)"

end
