(* ===== verification/PermissionRules.thy ===== *)
theory PermissionRules
  imports ShellModel SafepointModel
begin

text \<open>
  Parsing and serializing of the permission files: \<open>ai-core-logic/src/permissions/LocalPermissionRules.ts\<close> over the
  types of \<open>ai-organ-contract/src/permissions/LocalPermissionConfig.ts\<close>. Objects are the association lists in which
  their entries enumerate; sets of access kinds are lists in insertion order. \<open>shw\<close> renders finite numbers and \<open>lc\<close>
  is \<open>localeCompare\<close>.
\<close>

section \<open>Data\<close>

datatype LocalPermissionAction = Allow | Deny | Ask

datatype FileAccessKind = ReadAccess | WriteAccess

record LocalPermissionRule =
  pr_permission :: string
  pr_pattern :: string
  pr_action :: LocalPermissionAction

record LocalDirectoryOverride =
  ov_directory :: string
  ov_rules :: "LocalPermissionRule list"

record LocalPermissionsConfig =
  lp_rules :: "LocalPermissionRule list"
  lp_overrides :: "LocalDirectoryOverride list"

record WorkspaceAccessEntry =
  wa_path :: string
  wa_permissions :: "FileAccessKind list"

type_synonym WorkspaceAccessConfig = "WorkspaceAccessEntry list obj"

definition accessKindName :: "FileAccessKind \<Rightarrow> string" where
  "accessKindName k = (case k of ReadAccess \<Rightarrow> ''read'' | WriteAccess \<Rightarrow> ''write'')"

definition quoted :: "string \<Rightarrow> string" where
  "quoted s = [squote] @ s @ [squote]"

section \<open>Helpers\<close>

definition isObject :: "jsv \<Rightarrow> bool" where
  "isObject v = (case v of JObj _ \<Rightarrow> True | _ \<Rightarrow> False)"

definition isEmptyObject :: "jsv \<Rightarrow> bool" where
  "isEmptyObject v \<longleftrightarrow> v = JObj []"

definition asObject :: "jsv \<Rightarrow> string \<Rightarrow> jsv obj result" where
  "asObject v message = (case v of JObj ps \<Rightarrow> Inr ps | _ \<Rightarrow> Inl message)"

definition assertAbsoluteCwd :: "string \<Rightarrow> unit result" where
  "assertAbsoluteCwd cwd = (if path_isAbsolute cwd then Inr () else Inl ''Permission parsing requires an absolute cwd'')"

definition unknownKeys :: "string list \<Rightarrow> 'v obj \<Rightarrow> string list" where
  "unknownKeys known ps = filter (\<lambda>k. k \<notin> set known) (map fst ps)"

definition listed :: "string list \<Rightarrow> string" where
  "listed keys = js_join '', '' (js_sort unit_compare keys)"

definition stringOr :: "(rat \<Rightarrow> string) \<Rightarrow> jsv \<Rightarrow> string" where
  "stringOr shw v = js_trim (if v = JUndef \<or> v = JNull then [] else js_String shw v)"

definition orArray :: "jsv \<Rightarrow> jsv" where
  "orArray v = (if v = JUndef \<or> v = JNull then JArr [] else v)"

fun parseAction :: "string \<Rightarrow> LocalPermissionAction option" where
  "parseAction s = (if s = ''allow'' then Some Allow else if s = ''deny'' then Some Deny else if s = ''ask'' then Some Ask else None)"

definition coerceAction :: "(rat \<Rightarrow> string) \<Rightarrow> jsv \<Rightarrow> string \<Rightarrow> LocalPermissionAction result" where
  "coerceAction shw v label = (case parseAction (js_lower (js_trim (js_String shw v))) of
      Some a \<Rightarrow> Inr a
    | None \<Rightarrow> Inl (''Invalid permission action '' @ quoted (js_String shw v) @ '' in '' @ label))"

section \<open>Rules\<close>

definition patternRule :: "(rat \<Rightarrow> string) \<Rightarrow> string \<Rightarrow> string \<Rightarrow> string \<times> jsv \<Rightarrow> LocalPermissionRule result" where
  "patternRule shw label permission e =
     (let pattern = js_trim (fst e) in
      if pattern = [] then Inl (''Empty pattern for permission '' @ quoted permission @ '' in '' @ label)
      else bind_result (coerceAction shw (snd e) (label @ ''.'' @ permission @ ''['' @ pattern @ '']''))
        (\<lambda>a. Inr \<lparr>pr_permission = permission, pr_pattern = pattern, pr_action = a\<rparr>))"

definition permissionRules :: "(rat \<Rightarrow> string) \<Rightarrow> string \<Rightarrow> string \<times> jsv \<Rightarrow> LocalPermissionRule list result" where
  "permissionRules shw label e =
     (let permission = js_trim (fst e) in
      if permission = [] then Inl (''Empty permission key in '' @ label)
      else case snd e of
          JStr s \<Rightarrow> bind_result (coerceAction shw (JStr s) label)
            (\<lambda>a. Inr [\<lparr>pr_permission = permission, pr_pattern = ''*'', pr_action = a\<rparr>])
        | v \<Rightarrow> bind_result (asObject v (''Permission '' @ quoted permission @ '' in '' @ label @ '' must be a string or object''))
            (map_result (patternRule shw label permission)))"

definition normalizePermissionRules :: "(rat \<Rightarrow> string) \<Rightarrow> jsv obj \<Rightarrow> string \<Rightarrow> LocalPermissionRule list result" where
  "normalizePermissionRules shw block label =
     bind_result (map_result (permissionRules shw label)
       (filter (\<lambda>e. js_trim (fst e) = ''*'') block @ filter (\<lambda>e. js_trim (fst e) \<noteq> ''*'') block))
       (\<lambda>rs. Inr (concat rs))"

definition parseOverride ::
  "(rat \<Rightarrow> string) \<Rightarrow> string \<Rightarrow> string \<Rightarrow> nat \<times> jsv \<Rightarrow> LocalDirectoryOverride result" where
  "parseOverride shw filePath cwd iv =
     (let index = show_nat (fst iv); entry = ''Override entry at index '' @ index @ '' in '' @ filePath in
      bind_result (asObject (snd iv) (entry @ '' must be an object'')) (\<lambda>ps.
        let unknown = unknownKeys [''directory'', ''permission''] ps;
            directoryRaw = stringOr shw (js_prop (JObj ps) ''directory'');
            permission = js_prop (JObj ps) ''permission'' in
        if unknown \<noteq> [] then Inl (''Unknown fields in override['' @ index @ ''] of '' @ filePath @ '': '' @ listed unknown)
        else if directoryRaw = [] then Inl (entry @ '' is missing '' @ quoted ''directory'')
        else bind_result (asObject (if permission = JUndef \<or> permission = JNull then JObj [] else permission)
            (entry @ '' has non-object '' @ quoted ''permission'')) (\<lambda>block.
          bind_result (normalizePermissionRules shw block (filePath @ '':overrides['' @ index @ ''].permission''))
            (\<lambda>rules. Inr \<lparr>ov_directory = path_resolve2 cwd cwd directoryRaw, ov_rules = rules\<rparr>))))"

definition parseLocalPermissionsConfig ::
  "(rat \<Rightarrow> string) \<Rightarrow> jsv obj \<Rightarrow> string \<Rightarrow> string \<Rightarrow> LocalPermissionsConfig result" where
  "parseLocalPermissionsConfig shw raw filePath cwd =
     bind_result (assertAbsoluteCwd cwd) (\<lambda>_.
       let unknown = unknownKeys [''permission'', ''overrides''] raw; permissionRaw = js_prop (JObj raw) ''permission'' in
       if unknown \<noteq> [] then Inl (''Unknown fields in '' @ filePath @ '': '' @ listed unknown)
       else bind_result
         (if permissionRaw = JUndef \<or> permissionRaw = JNull \<or> isEmptyObject permissionRaw then Inr []
          else bind_result (asObject permissionRaw (''Field '' @ quoted ''permission'' @ '' in '' @ filePath @ '' must be an object''))
            (\<lambda>block. normalizePermissionRules shw block (filePath @ '':permission'')))
         (\<lambda>rules. case orArray (js_prop (JObj raw) ''overrides'') of
             JArr vs \<Rightarrow> bind_result (map_result (parseOverride shw filePath cwd) (enumerate 0 vs))
               (\<lambda>overrides. Inr \<lparr>lp_rules = rules, lp_overrides = overrides\<rparr>)
           | _ \<Rightarrow> Inl (''Field '' @ quoted ''overrides'' @ '' in '' @ filePath @ '' must be an array'')))"

section \<open>Workspace access\<close>

definition parseAccessKind :: "string \<Rightarrow> FileAccessKind option" where
  "parseAccessKind s = (if s = ''read'' then Some ReadAccess else if s = ''write'' then Some WriteAccess else None)"

fun addPermissions :: "(rat \<Rightarrow> string) \<Rightarrow> string \<Rightarrow> FileAccessKind list \<Rightarrow> jsv list \<Rightarrow> FileAccessKind list result" where
  "addPermissions shw label acc [] = Inr acc"
| "addPermissions shw label acc (v # vs) = (case parseAccessKind (js_trim (js_String shw v)) of
      None \<Rightarrow> Inl (label @ '' has invalid permission: '' @ js_String shw v)
    | Some k \<Rightarrow> addPermissions shw label (if k \<in> set acc then acc else acc @ [k]) vs)"

definition parseEntry ::
  "(rat \<Rightarrow> string) \<Rightarrow> string \<Rightarrow> string \<Rightarrow> string \<Rightarrow> nat \<times> jsv \<Rightarrow> WorkspaceAccessEntry result" where
  "parseEntry shw filePath cwd key iv =
     (let index = show_nat (fst iv); label = ''Workspace '' @ quoted key @ '' entry '' @ index @ '' in '' @ filePath in
      bind_result (asObject (snd iv) (''Entry '' @ index @ '' for workspace '' @ quoted key @ '' in '' @ filePath @ '' must be an object'')) (\<lambda>ps.
        let unknown = unknownKeys [''path'', ''permissions''] ps; entryPathRaw = stringOr shw (js_prop (JObj ps) ''path'') in
        if unknown \<noteq> []
        then Inl (''Unknown fields in workspace '' @ quoted key @ '' entry '' @ index @ '' of '' @ filePath @ '': '' @ listed unknown)
        else if entryPathRaw = [] then Inl (label @ '' is missing '' @ quoted ''path'')
        else case js_prop (JObj ps) ''permissions'' of
            JArr (v # vs) \<Rightarrow> bind_result (addPermissions shw label [] (v # vs))
              (\<lambda>kinds. Inr \<lparr>wa_path = path_resolve2 cwd cwd entryPathRaw, wa_permissions = kinds\<rparr>)
          | _ \<Rightarrow> Inl (label @ '' must declare a non-empty '' @ quoted ''permissions'' @ '' array'')))"

definition parseWorkspace ::
  "(rat \<Rightarrow> string) \<Rightarrow> string \<Rightarrow> string \<Rightarrow> string \<times> jsv \<Rightarrow> (string \<times> WorkspaceAccessEntry list) result" where
  "parseWorkspace shw filePath cwd e =
     (let key = fst e in
      bind_result (asObject (snd e) (''Workspace entry '' @ quoted key @ '' in '' @ filePath @ '' must be an object'')) (\<lambda>ps.
        let unknown = unknownKeys [''entries''] ps in
        if unknown \<noteq> []
        then Inl (''Unknown fields in workspace entry '' @ quoted key @ '' of '' @ filePath @ '': '' @ listed unknown)
        else case orArray (js_prop (JObj ps) ''entries'') of
            JArr vs \<Rightarrow> bind_result (map_result (parseEntry shw filePath cwd key) (enumerate 0 vs))
              (\<lambda>entries. Inr (path_resolve2 cwd cwd key, entries))
          | _ \<Rightarrow> Inl (''Field '' @ quoted ''entries'' @ '' for workspace '' @ quoted key @ '' in '' @ filePath @ '' must be an array'')))"

definition parseWorkspaceAccessConfig ::
  "(rat \<Rightarrow> string) \<Rightarrow> jsv obj \<Rightarrow> string \<Rightarrow> string \<Rightarrow> WorkspaceAccessConfig result" where
  "parseWorkspaceAccessConfig shw raw filePath cwd =
     bind_result (assertAbsoluteCwd cwd) (\<lambda>_.
       let unknown = unknownKeys [''workspaces''] raw; workspacesRaw = js_prop (JObj raw) ''workspaces'' in
       if unknown \<noteq> [] then Inl (''Unknown fields in '' @ filePath @ '': '' @ listed unknown)
       else if workspacesRaw = JUndef \<or> workspacesRaw = JNull \<or> isEmptyObject workspacesRaw then Inr []
       else bind_result (asObject workspacesRaw (''Field '' @ quoted ''workspaces'' @ '' in '' @ filePath @ '' must be an object'')) (\<lambda>ps.
         bind_result (map_result (parseWorkspace shw filePath cwd) ps) (\<lambda>ws. Inr (obj_of ws))))"

definition serializeEntry :: "WorkspaceAccessEntry \<Rightarrow> jsv" where
  "serializeEntry e = JObj [(''path'', JStr (wa_path e)),
     (''permissions'', JArr (map JStr (js_sort unit_compare (map accessKindName (wa_permissions e)))))]"

definition serializeWorkspaceAccessConfig :: "(string \<Rightarrow> string \<Rightarrow> int) \<Rightarrow> WorkspaceAccessConfig \<Rightarrow> jsv obj" where
  "serializeWorkspaceAccessConfig lc config =
     [(''workspaces'', JObj (obj_of (map (\<lambda>w. (fst w, JObj [(''entries'', JArr (map serializeEntry (snd w)))]))
        (js_sort (\<lambda>a b. lc (fst a) (fst b)) config))))]"

end
