(* ===== verification/PermissionModel.thy ===== *)
theory PermissionModel
  imports PermissionRules
begin

text \<open>
  Local permission decisions for the file tools: the evaluator's protected and private paths, rule sets, the
  workspace access gate and \<open>evaluateFilePermission\<close> of
  \<open>ai-organ-logic/src/permissions/LocalPermissionEvaluator.ts\<close>, the facade \<open>LocalPermissionConfig.ts\<close>,
  \<open>FileToolScope.ts\<close>, and \<open>ai-support/src/permissions/LocalPermissionPaths.ts\<close>.

  \<open>Host\<close> collects what the process offers: working directory, home directory, which paths are directories, the
  configured store (an interface whose functions may throw), the rendering of numbers and \<open>localeCompare\<close>. The home
  directory contains no dollar sign.
\<close>

section \<open>Data\<close>

datatype PrivateInspection = Clear | Private | Unproven

record LocalPermissionConfigStore =
  ps_loadLocalPermissionsConfig :: "string option \<Rightarrow> LocalPermissionsConfig result"
  ps_loadWorkspaceAccessConfig :: "string option \<Rightarrow> WorkspaceAccessConfig result"
  ps_protectedPermissionConfigPaths :: "string option \<Rightarrow> string list"
  ps_canonicalProtectionPath :: "(string \<Rightarrow> string result) option"
  ps_privateRuntimePaths :: "(string option \<Rightarrow> string list) option"
  ps_inspectRecursivePrivateRuntime :: "(string \<Rightarrow> string option \<Rightarrow> PrivateInspection) option"

record Host =
  h_cwd :: string
  h_home :: string
  h_isDirectory :: "string \<Rightarrow> bool"
  h_shw :: "rat \<Rightarrow> string"
  h_lc :: "string \<Rightarrow> string \<Rightarrow> int"
  h_store :: LocalPermissionConfigStore

text \<open>A grant comes from persisted data and its permission name and access kind are arbitrary strings.\<close>

datatype ApprovalGrant =
    LocalPermissionApprovalGrant (gt_tool: string) (gt_permissionName: string) (gt_workDir: string) (gt_target: string)
  | WorkspaceAccessApprovalGrant (gt_tool: string) (gt_workDir: string) (gt_grantPath: string) (gt_requestedAccessKind: string)

datatype ReasonCode = ProtectedPermissionConfig | PrivateRuntimeData | WorkspaceScopeViolation

record LocalPermissionDecision =
  de_action :: LocalPermissionAction
  de_reasonCode :: "ReasonCode option"
  de_message :: "string option"
  de_fallbackMessage :: "string option"
  de_matchedRule :: "LocalPermissionRule option"
  de_permissionName :: "string option"
  de_target :: "string option"
  de_resolvedPath :: "string option"
  de_approvalGrant :: "ApprovalGrant option"

definition decide :: "LocalPermissionAction \<Rightarrow> LocalPermissionDecision" where
  "decide a = \<lparr>de_action = a, de_reasonCode = None, de_message = None, de_fallbackMessage = None, de_matchedRule = None,
     de_permissionName = None, de_target = None, de_resolvedPath = None, de_approvalGrant = None\<rparr>"

datatype FileToolScopeIntent = WorkspaceScope | ExternalScope

definition resolveFileToolScopeIntent :: "(rat \<Rightarrow> string) \<Rightarrow> jsv \<Rightarrow> FileToolScopeIntent result" where
  "resolveFileToolScopeIntent shw v =
     (if v = JUndef \<or> v = JNull \<or> v = JStr [] then Inr WorkspaceScope
      else if v = JStr ''workspace'' then Inr WorkspaceScope
      else if v = JStr ''external'' then Inr ExternalScope
      else Inl (''Invalid file tool scopeIntent: '' @ js_String shw v))"

section \<open>Paths\<close>

definition pathEnd :: "string \<Rightarrow> bool" where
  "pathEnd s = (case s of [] \<Rightarrow> True | c # _ \<Rightarrow> c = backslash \<or> c = sep)"

definition replaceAlias :: "bool \<Rightarrow> string list \<Rightarrow> string \<Rightarrow> string \<Rightarrow> string" where
  "replaceAlias insensitive aliases home p =
     (let fold = (if insensitive then js_lower else id) in
      case find (\<lambda>a. starts_with (fold a) (fold p) \<and> pathEnd (drop (length a) p)) aliases of
        Some a \<Rightarrow> home @ drop (length a) p
      | None \<Rightarrow> p)"

definition expandHomePath :: "string \<Rightarrow> string \<Rightarrow> string" where
  "expandHomePath home rawPath =
     replaceAlias False [''~'', ''$HOME'', ''$USERPROFILE'', ''${HOME}'', ''${USERPROFILE}''] home
       (replaceAlias True [''$env:HOME'', ''$env:USERPROFILE'', ''${env:HOME}'', ''${env:USERPROFILE}'', ''%HOME%'', ''%USERPROFILE%'']
          home rawPath)"

definition resolveRequestedPath :: "Host \<Rightarrow> string \<Rightarrow> string \<Rightarrow> string" where
  "resolveRequestedPath h workDir rawPath =
     (let expanded = expandHomePath (h_home h) rawPath in
      path_resolve (h_cwd h) (if path_isAbsolute expanded then expanded else path_resolve2 (h_cwd h) workDir expanded))"

definition workspaceAccessGrantRoot :: "Host \<Rightarrow> string \<Rightarrow> string" where
  "workspaceAccessGrantRoot h resolvedPath = (if h_isDirectory h resolvedPath then resolvedPath else path_dirname resolvedPath)"

definition pathPatternInput :: "Host \<Rightarrow> string \<Rightarrow> string \<Rightarrow> string" where
  "pathPatternInput h workDir resolvedPath =
     (if isPathWithin (h_cwd h) resolvedPath workDir
      then (let r = path_relative (h_cwd h) workDir resolvedPath in if r = [] then ''.'' else r)
      else resolvedPath)"

section \<open>The store\<close>

definition protectedPermissionConfigPaths :: "Host \<Rightarrow> string option \<Rightarrow> string list" where
  "protectedPermissionConfigPaths h authorityRoot = ps_protectedPermissionConfigPaths (h_store h) authorityRoot"

definition canonicalProtectionPath :: "Host \<Rightarrow> string \<Rightarrow> string result" where
  "canonicalProtectionPath h p = (case ps_canonicalProtectionPath (h_store h) of None \<Rightarrow> Inr p | Some f \<Rightarrow> f p)"

definition privateRuntimePaths :: "Host \<Rightarrow> string option \<Rightarrow> string list" where
  "privateRuntimePaths h authorityRoot = (case ps_privateRuntimePaths (h_store h) of None \<Rightarrow> [] | Some f \<Rightarrow> f authorityRoot)"

definition scopeUnproven :: string where
  "scopeUnproven = ''private_runtime_scope_unproven: recursive access could not be proved within the observation budget; use an execution boundary that enforces private reads''"

definition recursivePathReferencesPrivateRuntime :: "Host \<Rightarrow> string \<Rightarrow> string option \<Rightarrow> bool result" where
  "recursivePathReferencesPrivateRuntime h p authorityRoot =
     (case (case ps_inspectRecursivePrivateRuntime (h_store h) of None \<Rightarrow> Clear | Some f \<Rightarrow> f p authorityRoot) of
        Unproven \<Rightarrow> Inl scopeUnproven
      | Private \<Rightarrow> Inr True
      | Clear \<Rightarrow> Inr False)"

fun some_result :: "('a \<Rightarrow> bool result) \<Rightarrow> 'a list \<Rightarrow> bool result" where
  "some_result f [] = Inr False"
| "some_result f (x # xs) = bind_result (f x) (\<lambda>b. if b then Inr True else some_result f xs)"

definition isProtectedPermissionConfigPath :: "Host \<Rightarrow> string \<Rightarrow> string option \<Rightarrow> bool result" where
  "isProtectedPermissionConfigPath h resolvedPath authorityRoot =
     bind_result (canonicalProtectionPath h resolvedPath) (\<lambda>target.
       some_result (\<lambda>p. bind_result (canonicalProtectionPath h p) (\<lambda>q. Inr (isPathWithin (h_cwd h) target q)))
         (protectedPermissionConfigPaths h authorityRoot))"

definition isPrivateRuntimePath :: "Host \<Rightarrow> string \<Rightarrow> string option \<Rightarrow> bool \<Rightarrow> bool result" where
  "isPrivateRuntimePath h resolvedPath authorityRoot recursive =
     bind_result (canonicalProtectionPath h resolvedPath) (\<lambda>target.
       bind_result (some_result (\<lambda>r. bind_result (canonicalProtectionPath h r)
           (\<lambda>control. Inr (isPathWithin (h_cwd h) target control \<or> recursive \<and> isPathWithin (h_cwd h) control target)))
         (privateRuntimePaths h authorityRoot))
       (\<lambda>b. if b then Inr True
            else if recursive then recursivePathReferencesPrivateRuntime h resolvedPath authorityRoot else Inr False))"

section \<open>Rule sets\<close>

definition selectEffectivePermissionRules :: "Host \<Rightarrow> string \<Rightarrow> string option \<Rightarrow> LocalPermissionRule list result" where
  "selectEffectivePermissionRules h workDir authorityRoot =
     bind_result (ps_loadLocalPermissionsConfig (h_store h) authorityRoot) (\<lambda>config.
       let depth = (\<lambda>ov. int (length (split_on sep (ov_directory ov))));
           matching = js_sort (\<lambda>a b. if depth a - depth b \<noteq> 0 then depth a - depth b else h_lc h (ov_directory a) (ov_directory b))
             (filter (\<lambda>ov. isPathWithin (h_cwd h) (path_resolve (h_cwd h) workDir) (ov_directory ov)) (lp_overrides config))
       in Inr (lp_rules config @ concat (map ov_rules matching)))"

fun lastMatch :: "string \<Rightarrow> string \<Rightarrow> LocalPermissionRule option \<Rightarrow> LocalPermissionRule list \<Rightarrow> LocalPermissionRule option" where
  "lastMatch permissionName pattern matched [] = matched"
| "lastMatch permissionName pattern matched (r # rs) =
     lastMatch permissionName pattern
       (if globMatch (pr_permission r) permissionName \<and> globMatch (pr_pattern r) pattern then Some r else matched) rs"

definition evaluatePermissionRuleSet ::
  "Host \<Rightarrow> string \<Rightarrow> string \<Rightarrow> string \<Rightarrow> string option \<Rightarrow> (LocalPermissionAction \<times> LocalPermissionRule option) result" where
  "evaluatePermissionRuleSet h workDir permissionName pattern authorityRoot =
     bind_result (selectEffectivePermissionRules h workDir authorityRoot) (\<lambda>rules.
       case lastMatch permissionName pattern None rules of
         None \<Rightarrow> Inr (Deny, None)
       | Some r \<Rightarrow> Inr (pr_action r, Some r))"

definition matchesApprovalGrant :: "Host \<Rightarrow> ApprovalGrant option \<Rightarrow> string \<Rightarrow> string \<Rightarrow> string \<Rightarrow> bool" where
  "matchesApprovalGrant h grant permissionName workDir target = (case grant of
      Some (LocalPermissionApprovalGrant tool name dir tgt) \<Rightarrow>
        name = permissionName \<and> path_resolve (h_cwd h) dir = path_resolve (h_cwd h) workDir \<and> tgt = target
    | _ \<Rightarrow> False)"

section \<open>The workspace access gate\<close>

definition grantCovers :: "Host \<Rightarrow> ApprovalGrant option \<Rightarrow> string \<Rightarrow> string \<Rightarrow> FileAccessKind \<Rightarrow> bool" where
  "grantCovers h grant workDir grantPath kind = (case grant of
      Some (WorkspaceAccessApprovalGrant tool dir gp requested) \<Rightarrow>
        path_resolve (h_cwd h) dir = path_resolve (h_cwd h) workDir
        \<and> path_resolve (h_cwd h) gp = path_resolve (h_cwd h) grantPath
        \<and> (requested = ''write'' \<or> requested = accessKindName kind)
    | _ \<Rightarrow> False)"

definition evaluateWorkspaceAccessGate ::
  "Host \<Rightarrow> string \<Rightarrow> string \<Rightarrow> FileAccessKind \<Rightarrow> string option \<Rightarrow> string \<Rightarrow> ApprovalGrant option \<Rightarrow> LocalPermissionDecision result" where
  "evaluateWorkspaceAccessGate h workDir resolvedPath accessKind authorityRoot toolName grant =
     bind_result (ps_loadWorkspaceAccessConfig (h_store h) authorityRoot) (\<lambda>config.
       let entries = nullish (map_of config (path_resolve (h_cwd h) workDir)) [];
           matching = filter (\<lambda>e. isPathWithin (h_cwd h) resolvedPath (wa_path e)) entries;
           grantPath = workspaceAccessGrantRoot h resolvedPath in
       if matching = [] then
         (if grantCovers h grant workDir grantPath accessKind then Inr (decide Allow)
          else Inr ((decide Ask)\<lparr>
            de_message := Some ((if accessKind = WriteAccess then ''Allow this workspace to grant read-write access to ''
              else ''Allow this workspace to grant access to '') @ quoted grantPath @ ''?''),
            de_fallbackMessage := Some (''Path is outside workspace access map: '' @ resolvedPath),
            de_approvalGrant := Some (WorkspaceAccessApprovalGrant toolName (path_resolve (h_cwd h) workDir) grantPath
              (accessKindName accessKind))\<rparr>))
       else
         let chosen = hd (js_sort (\<lambda>a b. if length (wa_path b) \<noteq> length (wa_path a)
                then int (length (wa_path b)) - int (length (wa_path a)) else h_lc h (wa_path a) (wa_path b)) matching) in
         if accessKind \<notin> set (wa_permissions chosen)
         then Inr ((decide Deny)\<lparr>de_message := Some ((if accessKind = WriteAccess then ''Path is not writable for workspace: ''
                else ''Path is not readable for workspace: '') @ resolvedPath)\<rparr>)
         else Inr (decide Allow))"

section \<open>File tools\<close>

definition filePermissionName :: "FileAccessKind \<Rightarrow> string" where
  "filePermissionName k = (if k = ReadAccess then ''read'' else ''edit'')"

definition scopeViolation :: "string \<Rightarrow> string \<Rightarrow> string" where
  "scopeViolation resolvedPath workDir = ''workspace_scope_violation: requested path '' @ quoted resolvedPath
     @ '' is outside workspace '' @ quoted workDir @ ''. Use '' @ quoted ''.'' @ '' or a workspace-relative path, or set scopeIntent=''
     @ quoted ''external'' @ '' only for intentional external access.''"

definition ruleDecision ::
  "Host \<Rightarrow> string \<Rightarrow> string \<Rightarrow> string \<Rightarrow> string \<Rightarrow> string \<Rightarrow> ApprovalGrant option \<Rightarrow> LocalPermissionAction \<times> LocalPermissionRule option
    \<Rightarrow> LocalPermissionDecision" where
  "ruleDecision h workDir toolName permissionName pattern resolvedPath grant dec =
     (let allowed = (decide Allow)\<lparr>de_permissionName := Some permissionName, de_target := Some pattern,
            de_resolvedPath := Some resolvedPath\<rparr> in
      case dec of
        (Deny, None) \<Rightarrow> allowed
      | (Deny, Some r) \<Rightarrow> allowed\<lparr>de_action := Deny, de_matchedRule := Some r,
            de_message := Some (''local permission denied for '' @ permissionName @ '' path: '' @ pattern)\<rparr>
      | (Ask, matched) \<Rightarrow>
          (if matchesApprovalGrant h grant permissionName workDir pattern then allowed
           else allowed\<lparr>de_action := Ask, de_matchedRule := matched,
             de_message := Some (''Approve '' @ permissionName @ '' path '' @ quoted pattern @ ''?''),
             de_fallbackMessage := Some (''local permission requires approval for '' @ permissionName @ '' path: '' @ pattern),
             de_approvalGrant := Some (LocalPermissionApprovalGrant toolName permissionName workDir pattern)\<rparr>)
      | (Allow, _) \<Rightarrow> allowed)"

definition evaluateFilePermission ::
  "Host \<Rightarrow> string \<Rightarrow> string \<Rightarrow> FileAccessKind \<Rightarrow> string \<Rightarrow> string option \<Rightarrow> ApprovalGrant option \<Rightarrow> string list \<Rightarrow> FileToolScopeIntent
    \<Rightarrow> LocalPermissionDecision result" where
  "evaluateFilePermission h workDir rawPath accessKind toolName authorityRoot grant additionalWritableRoots scopeIntent =
     (let resolvedWorkDir = path_resolve (h_cwd h) workDir;
          resolvedPath = resolveRequestedPath h resolvedWorkDir rawPath;
          additionalRoots = map (path_resolve (h_cwd h)) additionalWritableRoots;
          outsideWorkspace = (\<not> isPathWithin (h_cwd h) resolvedPath resolvedWorkDir);
          permissionName = filePermissionName accessKind;
          pattern = pathPatternInput h resolvedWorkDir resolvedPath;
          located = (\<lambda>d. d\<lparr>de_permissionName := Some permissionName, de_target := Some pattern, de_resolvedPath := Some resolvedPath\<rparr>)
      in bind_result (isPrivateRuntimePath h resolvedPath authorityRoot (toolName = ''grep'' \<or> toolName = ''glob'')) (\<lambda>private.
        if private then Inr (located ((decide Deny)\<lparr>de_reasonCode := Some PrivateRuntimeData,
          de_message := Some ''Private runtime control data cannot be accessed via generic file tools''\<rparr>))
        else bind_result (if accessKind = WriteAccess then isProtectedPermissionConfigPath h resolvedPath authorityRoot else Inr False) (\<lambda>protected.
          if protected then Inr (located ((decide Deny)\<lparr>de_reasonCode := Some ProtectedPermissionConfig,
            de_message := Some ''Protected local permission config path cannot be modified via generic file tools''\<rparr>))
          else if outsideWorkspace \<and> scopeIntent = WorkspaceScope then
            Inr (located ((decide Deny)\<lparr>de_reasonCode := Some WorkspaceScopeViolation,
              de_message := Some (scopeViolation resolvedPath resolvedWorkDir)\<rparr>))
          else if list_ex (\<lambda>r. isPathWithin (h_cwd h) resolvedPath r) additionalRoots then Inr (located (decide Allow))
          else if outsideWorkspace then
            bind_result (evaluateWorkspaceAccessGate h resolvedWorkDir resolvedPath accessKind authorityRoot toolName grant)
              (\<lambda>d. Inr (located d))
          else bind_result (evaluatePermissionRuleSet h resolvedWorkDir permissionName pattern authorityRoot)
            (\<lambda>dec. Inr (ruleDecision h resolvedWorkDir toolName permissionName pattern resolvedPath grant dec)))))"

end
