(* ===== verification/BashPermission.thy ===== *)
theory BashPermission
  imports PermissionModel
begin

text \<open>
  Local permission decisions for shell commands, and the decision for every tool
  (\<open>evaluateLocalToolPermission\<close> of \<open>ai-organ-logic/src/permissions/LocalPermissionEvaluator.ts\<close>).

  The memo of path observations inside one decision is left out: the candidates it is asked for are resolved paths and
  the observation is a function of them here.
\<close>

section \<open>Command lists\<close>

definition READ_ONLY_PROTECTED_PERMISSION_COMMANDS :: "string list" where
  "READ_ONLY_PROTECTED_PERMISSION_COMMANDS = [''cat'', ''cmp'', ''diff'', ''grep'', ''head'', ''jq'', ''less'', ''ls'', ''more'',
     ''readlink'', ''realpath'', ''rg'', ''stat'', ''tail'', ''wc'']"

definition READ_ONLY_WORKSPACE_SAFE_BASH_COMMANDS :: "string list" where
  "READ_ONLY_WORKSPACE_SAFE_BASH_COMMANDS = [''basename'', ''cat'', ''cmp'', ''cut'', ''diff'', ''dir'', ''dirname'', ''echo'', ''fc'',
     ''findstr'', ''grep'', ''head'', ''jq'', ''ls'', ''more'', ''pwd'', ''readlink'', ''realpath'', ''rg'', ''sort'', ''stat'', ''tail'',
     ''tree'', ''type'', ''uniq'', ''ver'', ''wc'', ''where'', ''which'']"

definition READ_ONLY_UNSUPPORTED_BASH_COMMANDS :: "string list" where
  "READ_ONLY_UNSUPPORTED_BASH_COMMANDS = READ_ONLY_WORKSPACE_SAFE_BASH_COMMANDS
     @ [''['', ''awk'', ''date'', ''find'', ''printf'', ''sed'', ''test'']"

definition HIGH_RISK_UNSUPPORTED_BASH_COMMANDS :: "string list" where
  "HIGH_RISK_UNSUPPORTED_BASH_COMMANDS = [''bash'', ''chmod'', ''chown'', ''chgrp'', ''cp'', ''curl'', ''dd'', ''fish'', ''kill'',
     ''mkfs'', ''mount'', ''mv'', ''nc'', ''ncat'', ''pkill'', ''rm'', ''rsync'', ''scp'', ''sh'', ''ssh'', ''sudo'', ''tee'', ''umount'',
     ''wget'', ''zsh'']"

definition SHELL_KEYWORD_SIGNALS :: "string list" where
  "SHELL_KEYWORD_SIGNALS = [''case'', ''do'', ''done'', ''elif'', ''else'', ''esac'', ''fi'', ''for'', ''function'', ''if'', ''in'',
     ''select'', ''then'', ''until'', ''while'']"

definition RECURSIVE_BASH_COMMANDS :: "string list" where
  "RECURSIVE_BASH_COMMANDS = [''grep'', ''egrep'', ''fgrep'', ''rgrep'', ''rg'', ''ag'', ''ack'', ''find'', ''fd'', ''tar'', ''zip'', ''cp'',
     ''rsync'', ''du'', ''tree'', ''env'', ''command'', ''sh'', ''bash'', ''zsh'', ''python'', ''python3'', ''perl'', ''ruby'', ''node'', ''bun'']"

section \<open>Strings\<close>

definition in_chars :: "string \<Rightarrow> char \<Rightarrow> bool" where
  "in_chars cs c \<longleftrightarrow> c \<in> set cs"

definition spaceOr :: "string \<Rightarrow> char \<Rightarrow> bool" where
  "spaceOr cs c \<longleftrightarrow> js_space c \<or> c \<in> set cs"

definition hex_digit :: "nat \<Rightarrow> char" where
  "hex_digit n = (if n < 10 then char_of (48 + n) else char_of (87 + n))"

text \<open>\<open>JSON.stringify\<close> of an array of strings.\<close>

definition json_char :: "char \<Rightarrow> string" where
  "json_char c = (let n = of_char c :: nat in
     if c = dquote \<or> c = backslash then [backslash, c]
     else if n = 8 then [backslash, CHR ''b''] else if n = 9 then [backslash, CHR ''t'']
     else if n = 10 then [backslash, CHR ''n''] else if n = 12 then [backslash, CHR ''f'']
     else if n = 13 then [backslash, CHR ''r'']
     else if n < 32 then [backslash, CHR ''u'', CHR ''0'', CHR ''0'', hex_digit (n div 16), hex_digit (n mod 16)]
     else [c])"

definition serializeBashSegments :: "string list \<Rightarrow> string" where
  "serializeBashSegments segments = ''['' @ js_join '','' (map (\<lambda>s. [dquote] @ concat (map json_char s) @ [dquote]) segments) @ '']''"

text \<open>The contents of the pairs of a quote character, as \<open>matchAll\<close> finds them.\<close>

function quotedParts :: "char \<Rightarrow> string \<Rightarrow> string list" where
  "quotedParts q s = (case dropWhile (\<lambda>c. c \<noteq> q) s of
      [] \<Rightarrow> []
    | _ # t \<Rightarrow> (case dropWhile (\<lambda>c. c \<noteq> q) t of [] \<Rightarrow> [] | _ # u \<Rightarrow> takeWhile (\<lambda>c. c \<noteq> q) t # quotedParts q u))"
  by pat_completeness auto
termination
proof (relation "measure (\<lambda>(q, s). length s)", simp)
  fix q :: char and s t u :: string and x y :: char
  assume "dropWhile (\<lambda>c. c \<noteq> q) s = x # t" "dropWhile (\<lambda>c. c \<noteq> q) t = y # u"
  then have "length (x # t) \<le> length s" "length (y # u) \<le> length t" by (metis length_dropWhile_le)+
  then show "((q, u), q, s) \<in> measure (\<lambda>(q, s). length s)" by simp
qed

declare quotedParts.simps [simp del]

definition js_unique :: "'a list \<Rightarrow> 'a list" where
  "js_unique xs = rev (remdups (rev xs))"

section \<open>Private runtime data\<close>

type_synonym PrivatePathCheck = "string \<Rightarrow> bool \<Rightarrow> bool result"

definition privateBash :: string where
  "privateBash = ''Private runtime control data cannot be accessed via generic bash commands''"

definition protectedBash :: string where
  "protectedBash = ''Protected local permission config path cannot be modified via generic bash commands''"

definition bashTokenTargetsPrivateRuntime :: "Host \<Rightarrow> PrivatePathCheck \<Rightarrow> string \<Rightarrow> string \<Rightarrow> bool \<Rightarrow> bool result" where
  "bashTokenTargetsPrivateRuntime h check token workDir recursive =
     (let expanded = resolveRequestedPath h workDir token;
          wild = list_ex (in_chars ''*?[{'') expanded;
          prefix = takeWhile (\<lambda>c. \<not> in_chars ''*?[{'' c) expanded;
          candidate = (if \<not> wild then expanded
            else if prefix \<noteq> [] \<and> last prefix = sep then prefix
            else path_dirname (if prefix = [] then ''.'' else prefix))
      in check (resolveRequestedPath h workDir candidate) (recursive \<or> wild))"

definition normalizedCommand :: "string \<Rightarrow> string" where
  "normalizedCommand command =
     filter (\<lambda>c. c \<noteq> squote \<and> c \<noteq> dquote)
       (rx_replace (RSeq (rchr backslash) (RCls (\<lambda>c. c \<noteq> newline \<and> c \<noteq> carriage))) tl
          (rx_replace (rseq [rchr backslash, ropt (rchr carriage), rchr newline]) (\<lambda>_. []) command))"

definition namedHomeCredentials :: rx where
  "namedHomeCredentials = rseq [RAlt RStart (RCls (spaceOr ''=;&|<>'')), rchr (CHR ''~''), rplus (RCls (\<lambda>c. c \<noteq> sep \<and> \<not> js_space c)),
     rlit ''/.'', RAlt (rlit ''npmrc'') (rlit ''bunfig.toml''), RAhead (RAlt REnd (RCls (spaceOr ''/;&|<>'')))]"

definition npmConfigCommand :: rx where
  "npmConfigCommand = rseq [RAlt RStart (RCls (spaceOr ''/;&|'')), rlit ''npm'', rplus (RCls js_space),
     RStar (rseq [rlit ''--'', rplus (RCls (\<lambda>c. \<not> js_space c)), rplus (RCls js_space)]), rlit ''config'', RAlt (RCls js_space) REnd]"

definition commandLiterals :: "string \<Rightarrow> string list" where
  "commandLiterals command =
     filter (\<lambda>s. s \<noteq> [])
       (split_runs (spaceOr ([squote, dquote, backquote] @ ''();,=&|<>'')) command
        @ split_runs (spaceOr ([backquote] @ ''();,=&|<>'')) (normalizedCommand command)
        @ quotedParts squote command @ quotedParts dquote command)"

definition or_result :: "bool result \<Rightarrow> (unit \<Rightarrow> bool result) \<Rightarrow> bool result" where
  "or_result a b = bind_result a (\<lambda>x. if x then Inr True else b ())"

definition mentionsPath :: "Host \<Rightarrow> string \<Rightarrow> string \<Rightarrow> string \<Rightarrow> bool" where
  "mentionsPath h text workDir p =
     list_ex (\<lambda>c. c \<noteq> [] \<and> c \<noteq> ''.'' \<and> js_includes text c) [p, path_relative (h_cwd h) workDir p]"

definition bashRawCommandReferencesPrivateRuntime ::
  "Host \<Rightarrow> PrivatePathCheck \<Rightarrow> string \<Rightarrow> string \<Rightarrow> string option \<Rightarrow> bool result" where
  "bashRawCommandReferencesPrivateRuntime h check command workDir authorityRoot =
     (let text = normalizedCommand command; literals = commandLiterals command in
      if rx_test namedHomeCredentials text then Inr True
      else if rx_test npmConfigCommand text then Inr True
      else if list_ex (mentionsPath h text workDir) (privateRuntimePaths h authorityRoot) then Inr True
      else or_result (if list_ex (\<lambda>c. path_basename c \<in> set RECURSIVE_BASH_COMMANDS) literals then check workDir True else Inr False)
        (\<lambda>_. some_result (\<lambda>c. bashTokenTargetsPrivateRuntime h check c workDir True) (js_unique literals)))"

section \<open>Protected configuration\<close>

definition bashTokenTargetsProtectedPermissionConfig :: "Host \<Rightarrow> string \<Rightarrow> string \<Rightarrow> string option \<Rightarrow> bool result" where
  "bashTokenTargetsProtectedPermissionConfig h text workDir authorityRoot =
     (let candidate = js_trim text in
      if candidate = [] then Inr False
      else isProtectedPermissionConfigPath h (resolveRequestedPath h workDir candidate) authorityRoot)"

definition bashRawCommandReferencesProtectedPermissionConfig :: "Host \<Rightarrow> string \<Rightarrow> string \<Rightarrow> string option \<Rightarrow> bool" where
  "bashRawCommandReferencesProtectedPermissionConfig h command workDir authorityRoot =
     (let text = filter (\<lambda>c. c \<noteq> squote \<and> c \<noteq> dquote) command in
      list_ex (\<lambda>p. mentionsPath h text (path_resolve (h_cwd h) workDir) (path_resolve (h_cwd h) p))
        (protectedPermissionConfigPaths h authorityRoot))"

function bashRedirectionTargetsProtectedPermissionConfig ::
  "Host \<Rightarrow> string \<Rightarrow> string option \<Rightarrow> BashToken list \<Rightarrow> bool result" where
  "bashRedirectionTargetsProtectedPermissionConfig h workDir authorityRoot [] = Inr False"
| "bashRedirectionTargetsProtectedPermissionConfig h workDir authorityRoot (t # ts) =
     (if plainDigits t \<and> ts \<noteq> [] \<and> isOp REDIRECTION_OPERATORS (hd ts) then
        (if \<not> isWordAt 1 ts then Inl unsupported
         else or_result (bashTokenTargetsProtectedPermissionConfig h (bt_text (ts ! 1)) workDir authorityRoot)
           (\<lambda>_. bashRedirectionTargetsProtectedPermissionConfig h workDir authorityRoot (drop 2 ts)))
      else if isOp REDIRECTION_OPERATORS t then
        (if \<not> isWordAt 0 ts then Inl unsupported
         else or_result (bashTokenTargetsProtectedPermissionConfig h (bt_text (ts ! 0)) workDir authorityRoot)
           (\<lambda>_. bashRedirectionTargetsProtectedPermissionConfig h workDir authorityRoot (drop 1 ts)))
      else bashRedirectionTargetsProtectedPermissionConfig h workDir authorityRoot ts)"
  by pat_completeness auto
termination
  by (relation "measure (\<lambda>(h, w, a, ts). length ts)") auto

definition bashCommandIsReadOnly :: "string \<Rightarrow> string list \<Rightarrow> bool" where
  "bashCommandIsReadOnly command args =
     (let executable = path_basename command in
      if executable \<in> set READ_ONLY_PROTECTED_PERMISSION_COMMANDS then True
      else if executable = ''sed'' then list_all (\<lambda>a. \<not> starts_with ''-i'' a) args
      else False)"

fun filter_result :: "('a \<Rightarrow> bool result) \<Rightarrow> 'a list \<Rightarrow> 'a list result" where
  "filter_result f [] = Inr []"
| "filter_result f (x # xs) = bind_result (f x) (\<lambda>b. bind_result (filter_result f xs) (\<lambda>ys. Inr (if b then x # ys else ys)))"

definition bashSegmentModifiesProtectedPermissionConfig ::
  "Host \<Rightarrow> BashToken list \<Rightarrow> string \<Rightarrow> string option \<Rightarrow> bool result" where
  "bashSegmentModifiesProtectedPermissionConfig h tokens workDir authorityRoot =
     or_result (bashRedirectionTargetsProtectedPermissionConfig h workDir authorityRoot tokens) (\<lambda>_.
       bind_result (collectBashCommandWords tokens) (\<lambda>ws.
         if length ws < 2 then Inr False
         else bind_result (filter_result (\<lambda>w. bashTokenTargetsProtectedPermissionConfig h w workDir authorityRoot) (tl ws))
           (\<lambda>targeted. Inr (targeted \<noteq> [] \<and> \<not> bashCommandIsReadOnly (hd ws) (tl ws)))))"

definition bashSegmentIsWorkspaceSafe :: "string \<Rightarrow> bool" where
  "bashSegmentIsWorkspaceSafe segment = (case bind_result (tokenizeBashInput segment) collectBashCommandWords of
      Inl _ \<Rightarrow> False
    | Inr ws \<Rightarrow> ws \<noteq> [] \<and> path_basename (hd ws) \<in> set READ_ONLY_WORKSPACE_SAFE_BASH_COMMANDS)"

section \<open>Unsupported syntax\<close>

definition signalChar :: "char \<Rightarrow> bool" where
  "signalChar c \<longleftrightarrow> (word_char c \<or> c \<in> set ''./[]-'')"

definition executablePattern :: rx where
  "executablePattern = RSeq (RAlt RStart (RSeq (RCls (in_chars '';&|()'')) (RStar (RCls js_space)))) (rplus (RCls signalChar))"

text \<open>The loop over \<open>exec\<close>; the fuel is the length of the command, and every match takes at least one character of it.\<close>

fun signalLoop :: "nat \<Rightarrow> string list \<Rightarrow> string \<Rightarrow> string \<Rightarrow> string list" where
  "signalLoop 0 signals b s = signals"
| "signalLoop (Suc n) signals b s = (case rsearch_from executablePattern b s of
      None \<Rightarrow> signals
    | Some ((b1, s1), (b2, s2)) \<Rightarrow>
        let raw = rev (takeWhile signalChar b2); executable = js_lower (path_basename raw);
            skip = (raw = [] \<or> starts_with ''='' s2 \<or> executable = [] \<or> executable \<in> set SHELL_KEYWORD_SIGNALS
              \<or> executable \<in> set signals)
        in signalLoop n (if skip then signals else signals @ [executable]) b2 s2)"

definition extractUnsupportedBashExecutableSignals :: "string \<Rightarrow> string list" where
  "extractUnsupportedBashExecutableSignals command = signalLoop (Suc (length command)) [] [] command"

definition unsupportedBashHasWriteRedirection :: "string \<Rightarrow> bool" where
  "unsupportedBashHasWriteRedirection command =
     (let without = rx_replace (rseq [RWordB, ropt (RCls is_digit), rlit ''>'', RStar (RCls js_space), rlit ''/dev/null'', RWordB])
            (\<lambda>_. []) command
      in rx_test (rseq [RAlt RStart (RCls (\<lambda>c. c \<noteq> CHR ''<'')), rlit ''>'', ropt (rlit ''>''), RNotAhead (RCls (in_chars ''&|''))]) without)"

definition mentionsPython :: "string \<Rightarrow> bool" where
  "mentionsPython command =
     rx_test (rseq [RWordB, rlit_i ''python'', RStar (RCls (\<lambda>c. is_digit c \<or> c = CHR ''.'')), RWordB]) command"

definition pythonRisk :: rx where
  "pythonRisk = ralt
     [rseq [RWordB, ralt (map rlit_i [''subprocess'', ''shutil'', ''socket'', ''requests'', ''urllib'']), RWordB],
      rseq [rlit_i ''os.'', ralt (map rlit_i [''system'', ''remove'', ''unlink'', ''rmdir'', ''mkdir'', ''rename'', ''replace'']), RWordB],
      rseq [RWordB, rlit_i ''open'', RStar (RCls js_space), rlit ''('', RStar (RCls (\<lambda>c. c \<noteq> CHR '')'')),
        RCls (in_chars [dquote, squote]), RCls (\<lambda>c. in_chars ''wa+x'' (to_lower c))],
      rseq [rlit_i ''.write'', ropt (RAlt (rlit_i ''_text'') (rlit_i ''_bytes'')), RStar (RCls js_space), rlit ''('']]"

definition unsupportedPythonInspectionIsHighRisk :: "string \<Rightarrow> bool" where
  "unsupportedPythonInspectionIsHighRisk command \<longleftrightarrow> mentionsPython command \<and> rx_test pythonRisk command"

definition unsupportedPythonInspectionIsReadonly :: "string \<Rightarrow> bool" where
  "unsupportedPythonInspectionIsReadonly command =
     (if \<not> mentionsPython command then True
      else if unsupportedPythonInspectionIsHighRisk command then False
      else rx_test (rseq [RWordB, ralt (map rlit_i [''print'', ''json'', ''sys'', ''Path'', ''pathlib'', ''os.path'', ''read'']
        @ [RSeq (rlit_i ''load'') (ropt (rlit_i ''s'')), RSeq (rlit_i ''dump'') (ropt (rlit_i ''s'')), rlit_i ''glob'']), RWordB]) command)"

datatype BashRisk = LowRisk | HighRisk | UnknownRisk

definition classifyUnsupportedBashRisk :: "string \<Rightarrow> BashRisk" where
  "classifyUnsupportedBashRisk command =
     (let signals = extractUnsupportedBashExecutableSignals command in
      if list_ex (\<lambda>e. e \<in> set HIGH_RISK_UNSUPPORTED_BASH_COMMANDS) signals then HighRisk
      else if unsupportedPythonInspectionIsHighRisk command then HighRisk
      else if unsupportedBashHasWriteRedirection command then UnknownRisk
      else if signals = [] then UnknownRisk
      else if \<not> list_all (\<lambda>e. e \<in> set READ_ONLY_UNSUPPORTED_BASH_COMMANDS \<or> starts_with ''python'' e) signals then UnknownRisk
      else if list_ex (starts_with ''python'') signals \<and> \<not> unsupportedPythonInspectionIsReadonly command then UnknownRisk
      else LowRisk)"

definition bashDecision :: "LocalPermissionAction \<Rightarrow> string \<Rightarrow> LocalPermissionDecision" where
  "bashDecision a target = (decide a)\<lparr>de_permissionName := Some ''bash'', de_target := Some target\<rparr>"

definition evaluateUnsupportedBashSyntax ::
  "Host \<Rightarrow> PrivatePathCheck \<Rightarrow> string \<Rightarrow> string \<Rightarrow> string \<Rightarrow> string option \<Rightarrow> ApprovalGrant option \<Rightarrow> LocalPermissionDecision option result" where
  "evaluateUnsupportedBashSyntax h check error command workDir authorityRoot grant =
     (if error \<noteq> unsupported then Inr None
      else bind_result (bashRawCommandReferencesPrivateRuntime h check command workDir authorityRoot) (\<lambda>private.
        if private then Inl privateBash
        else if bashRawCommandReferencesProtectedPermissionConfig h command workDir authorityRoot then Inl protectedBash
        else
          let rawCommand = js_trim command; target = serializeBashSegments [rawCommand] in
          bind_result (evaluatePermissionRuleSet h workDir ''bash'' rawCommand authorityRoot) (\<lambda>(action, matched).
            let risk = classifyUnsupportedBashRisk rawCommand in
            Inr (Some
              (if action = Allow \<and> matched \<noteq> None then bashDecision Allow target
               else if action = Deny \<and> matched \<noteq> None then (bashDecision Deny target)\<lparr>de_matchedRule := matched,
                 de_message := Some ''local permission denied for bash command with unsupported syntax''\<rparr>
               else if action = Deny \<and> matched = None \<and> risk = LowRisk then bashDecision Allow target
               else if action = Deny \<and> matched = None \<and> risk = HighRisk then (bashDecision Deny target)\<lparr>
                 de_message := Some ''local permission denied for high-risk bash command with unsupported syntax''\<rparr>
               else if matchesApprovalGrant h grant ''bash'' workDir target then bashDecision Allow target
               else (bashDecision Ask target)\<lparr>de_matchedRule := matched,
                 de_message := Some ''Approve bash command with unsupported syntax?'',
                 de_fallbackMessage := Some ''local permission requires approval for unsupported bash syntax'',
                 de_approvalGrant := Some (LocalPermissionApprovalGrant ''bash'' ''bash'' workDir target)\<rparr>)))))"

section \<open>Shell commands\<close>

definition tokenCandidates :: "string \<Rightarrow> string list" where
  "tokenCandidates text = filter (\<lambda>s. s \<noteq> []) (text # split_runs (spaceOr ([squote, dquote] @ ''();,=&|'')) text)"

definition segmentTouchesPrivate ::
  "Host \<Rightarrow> PrivatePathCheck \<Rightarrow> string \<Rightarrow> BashToken list \<Rightarrow> string list \<Rightarrow> bool result" where
  "segmentTouchesPrivate h check bashWorkDir tokens ws =
     (let recursive = (list_ex (\<lambda>w. list_ex (\<lambda>p. path_basename p \<in> set RECURSIVE_BASH_COMMANDS)
              (split_runs (spaceOr ([squote, dquote] @ '';&|'')) w)) ws
            \<or> list_ex (\<lambda>w. w \<in> set [''-r'', ''-R'', ''--recursive'', ''--hidden'']) ws);
          changesDirectory = (path_basename (case ws of [] \<Rightarrow> [] | w # _ \<Rightarrow> w) = ''cd'')
      in or_result (if recursive then check bashWorkDir True else Inr False) (\<lambda>_.
           some_result (\<lambda>t. if bt_kind t \<noteq> Word then Inr False
             else some_result (\<lambda>c. bashTokenTargetsPrivateRuntime h check c bashWorkDir
                 (recursive \<or> changesDirectory \<or> in_chars (bt_text t) (CHR ''='')))
               (tokenCandidates (bt_text t))) tokens))"

definition checkSegment ::
  "Host \<Rightarrow> PrivatePathCheck \<Rightarrow> string \<Rightarrow> string \<Rightarrow> string option \<Rightarrow> BashToken list \<Rightarrow> string result" where
  "checkSegment h check bashWorkDir workDir authorityRoot tokens =
     bind_result (collectBashCommandWords tokens) (\<lambda>ws.
       bind_result (segmentTouchesPrivate h check bashWorkDir tokens ws) (\<lambda>private.
         if private then Inl privateBash
         else bind_result (bashSegmentModifiesProtectedPermissionConfig h tokens workDir authorityRoot) (\<lambda>modifies.
           if modifies then Inl protectedBash else normalizeBashSegment tokens)))"

text \<open>The loop over the segments that rules apply to: a denial ends it, and the first segment to ask for is remembered.\<close>

fun segmentDecisions ::
  "Host \<Rightarrow> string \<Rightarrow> string option \<Rightarrow> string \<Rightarrow> (LocalPermissionRule option \<times> string) option \<Rightarrow> string list
    \<Rightarrow> (LocalPermissionDecision + (LocalPermissionRule option \<times> string) option) result" where
  "segmentDecisions h workDir authorityRoot target asked [] = Inr (Inr asked)"
| "segmentDecisions h workDir authorityRoot target asked (s # ss) =
     bind_result (evaluatePermissionRuleSet h workDir ''bash'' s authorityRoot) (\<lambda>(action, matched).
       if action = Deny \<and> matched = None \<and> bashSegmentIsWorkspaceSafe s
       then segmentDecisions h workDir authorityRoot target asked ss
       else if action = Deny then Inr (Inl ((bashDecision Deny target)\<lparr>de_matchedRule := matched,
         de_message := Some (''local permission denied for bash segment: '' @ s)\<rparr>))
       else segmentDecisions h workDir authorityRoot target
         (if action = Ask \<and> (case asked of None \<Rightarrow> True | Some (_, seg) \<Rightarrow> seg = []) then Some (matched, s) else asked) ss)"

definition askDecision ::
  "Host \<Rightarrow> string \<Rightarrow> ApprovalGrant option \<Rightarrow> string \<Rightarrow> (LocalPermissionRule option \<times> string) option \<Rightarrow> LocalPermissionDecision" where
  "askDecision h workDir grant target asked = (case asked of
      Some (matched, segment) \<Rightarrow>
        if segment = [] then bashDecision Allow target
        else if matchesApprovalGrant h grant ''bash'' workDir target then bashDecision Allow target
        else (bashDecision Ask target)\<lparr>de_matchedRule := matched,
          de_message := Some (''Approve bash segment '' @ quoted segment @ ''?''),
          de_fallbackMessage := Some (''local permission requires approval for bash segment: '' @ segment),
          de_approvalGrant := Some (LocalPermissionApprovalGrant ''bash'' ''bash'' workDir target)\<rparr>
    | None \<Rightarrow> bashDecision Allow target)"

definition evaluateSegments ::
  "Host \<Rightarrow> PrivatePathCheck \<Rightarrow> string \<Rightarrow> string \<Rightarrow> string option \<Rightarrow> ApprovalGrant option \<Rightarrow> BashToken list list \<Rightarrow> LocalPermissionDecision result" where
  "evaluateSegments h check bashWorkDir workDir authorityRoot grant segments =
     bind_result (map_result (checkSegment h check bashWorkDir workDir authorityRoot) segments) (\<lambda>normalized.
       let ruleEvaluated = map fst (filter (\<lambda>p. \<not> bashSegmentIsPureAssignment (snd p)) (zip normalized segments));
           target = serializeBashSegments normalized
       in bind_result (segmentDecisions h workDir authorityRoot target None ruleEvaluated) (\<lambda>r. case r of
            Inl denied \<Rightarrow> Inr denied
          | Inr asked \<Rightarrow> Inr (askDecision h workDir grant target asked)))"

definition hasReadBoundary :: "Host \<Rightarrow> string list option \<Rightarrow> string option \<Rightarrow> bool result" where
  "hasReadBoundary h enforcedPaths authorityRoot = (case enforcedPaths of
      None \<Rightarrow> Inr False
    | Some paths \<Rightarrow> bind_result (map_result (canonicalProtectionPath h) paths) (\<lambda>enforced.
        bind_result (some_result (\<lambda>r. bind_result (canonicalProtectionPath h r)
            (\<lambda>q. Inr (\<not> list_ex (\<lambda>denied. isPathWithin (h_cwd h) q denied) enforced))) (privateRuntimePaths h authorityRoot))
          (\<lambda>exposed. Inr (\<not> exposed))))"

definition evaluateBashPermission ::
  "Host \<Rightarrow> string \<Rightarrow> jsv \<Rightarrow> string option \<Rightarrow> ApprovalGrant option \<Rightarrow> string list option \<Rightarrow> LocalPermissionDecision result" where
  "evaluateBashPermission h workDir payload authorityRoot grant enforcedPaths =
     (let raw = js_prop payload ''command''; command = (if raw = JUndef \<or> raw = JNull then [] else js_String (h_shw h) raw);
          bashWorkDir = (case js_prop payload ''workdir'' of
              JStr d \<Rightarrow> (if js_trim d \<noteq> [] then resolveRequestedPath h workDir d else workDir) | _ \<Rightarrow> workDir)
      in bind_result (hasReadBoundary h enforcedPaths authorityRoot) (\<lambda>boundary.
        let check = (\<lambda>candidate recursive. isPrivateRuntimePath h candidate authorityRoot (recursive \<and> \<not> boundary))
        in bind_result (or_result (check bashWorkDir False)
             (\<lambda>_. bashRawCommandReferencesPrivateRuntime h check command bashWorkDir authorityRoot)) (\<lambda>private.
          if private then Inl privateBash
          else case parseBashSegments command of
              Inr segments \<Rightarrow> evaluateSegments h check bashWorkDir workDir authorityRoot grant segments
            | Inl error \<Rightarrow> bind_result (evaluateUnsupportedBashSyntax h check error command bashWorkDir authorityRoot grant)
                (\<lambda>fallback. case fallback of Some d \<Rightarrow> Inr d | None \<Rightarrow> Inl error))))"

section \<open>Every tool\<close>

definition evaluateLocalToolPermission ::
  "Host \<Rightarrow> string \<Rightarrow> string \<Rightarrow> jsv \<Rightarrow> string option \<Rightarrow> ApprovalGrant option \<Rightarrow> string list \<Rightarrow> string list option
    \<Rightarrow> LocalPermissionDecision result" where
  "evaluateLocalToolPermission h workDirRaw toolName payload authorityRoot grant additionalWritableRoots enforcedPaths =
     (let workDir = path_resolve (h_cwd h) workDirRaw;
          filePath = (let v = js_prop payload ''filePath'' in if v = JUndef \<or> v = JNull then [] else js_String (h_shw h) v);
          scoped = (\<lambda>rawPath kind. bind_result (resolveFileToolScopeIntent (h_shw h) (js_prop payload ''scopeIntent''))
             (evaluateFilePermission h workDir rawPath kind toolName authorityRoot grant additionalWritableRoots))
      in if toolName = ''bash'' then evaluateBashPermission h workDir payload authorityRoot grant enforcedPaths
         else if toolName = ''read'' then scoped filePath ReadAccess
         else if toolName \<in> set [''ls'', ''glob'', ''grep''] then
           scoped (case js_prop payload ''path'' of JStr p \<Rightarrow> (if js_trim p \<noteq> [] then p else ''.'') | _ \<Rightarrow> ''.'') ReadAccess
         else if toolName \<in> set [''write'', ''edit'', ''multiedit'', ''apply_patch''] then scoped filePath WriteAccess
         else Inr (decide Allow))"

end
