(* ===== verification/PermissionRuntime.thy ===== *)
theory PermissionRuntime
  imports BashPermission
begin

text \<open>
  Authorization of tool calls and replay after approval: \<open>ai-organ-logic/src/permissions/LocalPermissionRuntime.ts\<close>,
  and the permission files behind it: \<open>ai-support/src/permissions/LocalFilePermissionConfigStore.ts\<close>.

  Of the runtime the model keeps what this code reads: metadata, work directory, a grant from a replay, whether an actor
  is attached, its pending questionnaires and the tool call id; publishing a questionnaire appends it. The tool that is
  replayed is an argument. Choice labels of the grant questionnaire are left out, their values are kept.
\<close>

section \<open>Modes and grants\<close>

record QuestionnaireRequest =
  qr_questionnaireId :: string
  qr_toolCallId :: string
  qr_intro :: string
  qr_questionId :: string
  qr_choices :: "string list option" \<comment> \<open>None: a yes or no question\<close>
  qr_toolName :: string
  qr_originalArgs :: jsv
  qr_approvalGrant :: ApprovalGrant

record ToolRuntime =
  tr_metadata :: jsv
  tr_workDir :: jsv
  tr_localPermissionGrant :: jsv
  tr_hasActor :: bool
  tr_toolCallId :: jsv
  tr_pending :: "QuestionnaireRequest list"

definition isWorkspaceGrant :: "ApprovalGrant \<Rightarrow> bool" where
  "isWorkspaceGrant g = (case g of WorkspaceAccessApprovalGrant _ _ _ _ \<Rightarrow> True | _ \<Rightarrow> False)"

datatype ExecProtocolPermissionMode = Interactive | DefaultMode | FullAuto | Dangerous

definition coalesce :: "jsv \<Rightarrow> jsv \<Rightarrow> jsv" where
  "coalesce a b = (if a = JUndef \<or> a = JNull then b else a)"

definition resolveLocalPermissionAuthorityRootFromRuntime :: "jsv \<Rightarrow> string option" where
  "resolveLocalPermissionAuthorityRootFromRuntime metadata =
     (let snake = js_prop metadata ''local_permissions''; camel = js_prop metadata ''localPermissions'';
          raw = coalesce (js_prop snake ''authority_root'') (coalesce (js_prop snake ''authorityRoot'')
            (coalesce (js_prop camel ''authority_root'') (js_prop camel ''authorityRoot'')))
      in case raw of JStr s \<Rightarrow> (if js_trim s \<noteq> [] then Some s else None) | _ \<Rightarrow> None)"

definition resolveLocalPermissionGrantFromRuntime :: "jsv \<Rightarrow> ApprovalGrant option" where
  "resolveLocalPermissionGrantFromRuntime raw =
     (if \<not> is_object raw then None
      else if js_prop raw ''kind'' = JStr ''local_permission'' then
        (case (js_prop raw ''toolName'', js_prop raw ''permissionName'', js_prop raw ''workDir'', js_prop raw ''target'') of
           (JStr t, JStr p, JStr w, JStr g) \<Rightarrow> Some (LocalPermissionApprovalGrant t p w g) | _ \<Rightarrow> None)
      else if js_prop raw ''kind'' = JStr ''workspace_access_grant'' then
        (case (js_prop raw ''toolName'', js_prop raw ''workDir'', js_prop raw ''grantPath'', js_prop raw ''requestedAccessKind'') of
           (JStr t, JStr w, JStr g, JStr k) \<Rightarrow> Some (WorkspaceAccessApprovalGrant t w g k) | _ \<Rightarrow> None)
      else None)"

definition resolveExecProtocolPermissionMode :: "jsv \<Rightarrow> ExecProtocolPermissionMode" where
  "resolveExecProtocolPermissionMode metadata =
     (let raw = js_trim (as_str (js_prop (js_prop metadata ''exec_protocol'') ''mode'')) in
      if raw = ''default'' then DefaultMode else if raw = ''full-auto'' then FullAuto
      else if raw = ''dangerous'' then Dangerous else Interactive)"

definition isDangerousExecProtocolMode :: "jsv \<Rightarrow> bool" where
  "isDangerousExecProtocolMode metadata \<longleftrightarrow> resolveExecProtocolPermissionMode metadata \<in> {Dangerous, FullAuto}"

definition TOOL_GUARDED_BASH_FRAGMENTS :: "string list" where
  "TOOL_GUARDED_BASH_FRAGMENTS = [''rm -rf /'', ''sudo'', ''shutdown'', ''reboot'', ''> /dev/'']"

definition isToolGuardedBashCommand :: "jsv \<Rightarrow> string \<Rightarrow> bool" where
  "isToolGuardedBashCommand metadata command =
     list_ex (js_includes command) (filter (\<lambda>f. f \<noteq> ''sudo'' \<or> \<not> isDangerousExecProtocolMode metadata) TOOL_GUARDED_BASH_FRAGMENTS)"

definition resolveExecProtocolAdditionalWritableRoots :: "jsv \<Rightarrow> string list" where
  "resolveExecProtocolAdditionalWritableRoots metadata =
     filter (\<lambda>s. s \<noteq> []) (concat (map (\<lambda>v. case v of JStr s \<Rightarrow> [js_trim s] | _ \<Rightarrow> [])
       (asArray (js_prop (js_prop metadata ''exec_protocol'') ''additional_writable_roots''))))"

section \<open>Questionnaires\<close>

definition PENDING_OUTPUT :: string where
  "PENDING_OUTPUT = ''LOCAL_PERMISSION_QUESTIONNAIRE_PENDING''"

definition isLocalPermissionQuestionnairePendingOutput :: "string \<Rightarrow> bool" where
  "isLocalPermissionQuestionnairePendingOutput output \<longleftrightarrow> output = PENDING_OUTPUT"

definition grantChoices :: "ApprovalGrant \<Rightarrow> string list" where
  "grantChoices g = (if gt_requestedAccessKind g = ''read''
     then [''grant_once_read'', ''grant_persist_read'', ''grant_persist_read_write'', ''deny_permission_grant'']
     else [''grant_once_read_write'', ''grant_persist_read_write'', ''deny_permission_grant''])"

text \<open>\<open>a || b\<close> on optional messages.\<close>

definition orMessage :: "string option \<Rightarrow> string \<Rightarrow> string" where
  "orMessage m d = (case m of None \<Rightarrow> d | Some s \<Rightarrow> if s = [] then d else s)"

definition queueLocalPermissionQuestionnaire ::
  "Host \<Rightarrow> int \<Rightarrow> ToolRuntime \<Rightarrow> string \<Rightarrow> jsv \<Rightarrow> LocalPermissionDecision \<Rightarrow> string \<times> ToolRuntime" where
  "queueLocalPermissionQuestionnaire h now rt toolName payload decision = (case de_approvalGrant decision of
      None \<Rightarrow> (''Error: '' @ orMessage (de_message decision) ''local permission requires approval'', rt)
    | Some grant \<Rightarrow>
        if \<not> tr_hasActor rt
        then (''Error: '' @ orMessage (de_fallbackMessage decision) (orMessage (de_message decision) ''local permission requires approval''), rt)
        else
          let given = stringOr (h_shw h) (tr_toolCallId rt);
              toolCallId = (if given = [] then ''tc-local-permission-'' @ show_int now else given);
              questionnaireId = ''local-permission-'' @ toolCallId;
              prompt = orMessage (de_message decision) ''Approve this local permission request?'';
              workspace = isWorkspaceGrant grant;
              request = \<lparr>qr_questionnaireId = questionnaireId, qr_toolCallId = toolCallId, qr_intro = prompt,
                 qr_questionId = (if workspace then ''access_grant'' else ''approved''),
                 qr_choices = (if workspace then Some (grantChoices grant) else None),
                 qr_toolName = toolName, qr_originalArgs = payload, qr_approvalGrant = grant\<rparr>
          in (PENDING_OUTPUT,
              if list_ex (\<lambda>q. qr_questionnaireId q = questionnaireId) (tr_pending rt) then rt
              else rt\<lparr>tr_pending := tr_pending rt @ [request]\<rparr>))"

section \<open>Authorization\<close>

datatype Authorization = Authorized | Refused string

definition refusal ::
  "Host \<Rightarrow> int \<Rightarrow> ToolRuntime \<Rightarrow> string \<Rightarrow> jsv \<Rightarrow> LocalPermissionDecision \<Rightarrow> Authorization \<times> ToolRuntime" where
  "refusal h now rt toolName payload d =
     (if de_action d = Deny then (Refused (''Error: '' @ orMessage (de_message d) ''local permission denied''), rt)
      else if resolveExecProtocolPermissionMode (tr_metadata rt) = DefaultMode then
        (Refused (''Error: '' @ orMessage (de_fallbackMessage d) (orMessage (de_message d) ''local permission requires approval'')), rt)
      else let (output, rt') = queueLocalPermissionQuestionnaire h now rt toolName payload d in (Refused output, rt'))"

definition authorizeLocalToolCall ::
  "Host \<Rightarrow> int \<Rightarrow> ToolRuntime \<Rightarrow> string \<Rightarrow> jsv \<Rightarrow> string list option \<Rightarrow> Authorization \<times> ToolRuntime" where
  "authorizeLocalToolCall h now rt toolName payload boundary =
     (let workDir = stringOr (h_shw h) (tr_workDir rt); metadata = tr_metadata rt;
          authorityRoot = resolveLocalPermissionAuthorityRootFromRuntime metadata in
      if workDir = [] then (Refused ''Error: workDir not configured'', rt)
      else case evaluateLocalToolPermission h workDir toolName payload authorityRoot
          (resolveLocalPermissionGrantFromRuntime (tr_localPermissionGrant rt))
          (resolveExecProtocolAdditionalWritableRoots metadata) (if toolName = ''bash'' then boundary else None) of
        Inl message \<Rightarrow> (Refused (''Error: '' @ message), rt)
      | Inr d \<Rightarrow>
          if de_action d = Allow then (Authorized, rt)
          else if de_reasonCode d = Some PrivateRuntimeData
          then (Refused (''Error: '' @ (case de_message d of Some m \<Rightarrow> m | None \<Rightarrow> ''undefined'')), rt)
          else if isDangerousExecProtocolMode metadata then
            (case (if de_permissionName d = Some ''read'' then Inr False
               else case de_resolvedPath d of None \<Rightarrow> Inr False
                 | Some p \<Rightarrow> isProtectedPermissionConfigPath h (path_resolve (h_cwd h) p) authorityRoot) of
               Inl message \<Rightarrow> (Refused (''Error: '' @ message), rt)
             | Inr protected \<Rightarrow> if \<not> protected then (Authorized, rt) else refusal h now rt toolName payload d)
          else refusal h now rt toolName payload d)"

section \<open>Replay after approval\<close>

definition getLocalPermissionApprovalContext :: "QuestionnaireRequest \<Rightarrow> QuestionnaireRequest option" where
  "getLocalPermissionApprovalContext q = (if \<not> isWorkspaceGrant (qr_approvalGrant q) then Some q else None)"

definition getWorkspaceAccessGrantContext :: "QuestionnaireRequest \<Rightarrow> QuestionnaireRequest option" where
  "getWorkspaceAccessGrantContext q = (if isWorkspaceGrant (qr_approvalGrant q) then Some q else None)"

definition isLocalPermissionApprovalAccepted :: "QuestionnaireRequest \<Rightarrow> jsv \<Rightarrow> bool" where
  "isLocalPermissionApprovalAccepted q answers =
     (case getLocalPermissionApprovalContext q of None \<Rightarrow> False
      | Some _ \<Rightarrow> coalesce (js_prop answers ''approved'') (coalesce (js_prop answers ''q1'')
          (coalesce (js_prop answers ''allow'') (js_prop answers ''confirm''))) = JBool True)"

definition resolveWorkspaceAccessGrantSelection :: "string \<Rightarrow> (FileAccessKind \<times> bool) option" where
  "resolveWorkspaceAccessGrantSelection selected =
     (if selected = ''grant_once_read'' then Some (ReadAccess, False)
      else if selected = ''grant_once_read_write'' then Some (WriteAccess, False)
      else if selected = ''grant_persist_read'' \<or> selected = ''grant_read'' then Some (ReadAccess, True)
      else if selected = ''grant_persist_read_write'' \<or> selected = ''grant_read_write'' then Some (WriteAccess, True)
      else None)"

section \<open>The permission files\<close>

text \<open>The store over the parsed contents of the two files; JSON text is read and written through \<open>json_clone\<close>.\<close>

definition resolveLocalPermissionAuthorityRoot :: "Host \<Rightarrow> string option \<Rightarrow> string" where
  "resolveLocalPermissionAuthorityRoot h authorityRoot =
     path_resolve (h_cwd h) (case authorityRoot of Some r \<Rightarrow> if r = [] then path_join (h_home h) [''.eidolon''] else r
       | None \<Rightarrow> path_join (h_home h) [''.eidolon''])"

definition permissionsConfigPath :: "Host \<Rightarrow> string option \<Rightarrow> string" where
  "permissionsConfigPath h authorityRoot = path_join (resolveLocalPermissionAuthorityRoot h authorityRoot) [''permissions.json'']"

definition workspaceAccessConfigPath :: "Host \<Rightarrow> string option \<Rightarrow> string" where
  "workspaceAccessConfigPath h authorityRoot = path_join (resolveLocalPermissionAuthorityRoot h authorityRoot) [''workspace-access.json'']"

definition daemonControlPath :: "Host \<Rightarrow> string option \<Rightarrow> string" where
  "daemonControlPath h authorityRoot =
     path_join (resolveLocalPermissionAuthorityRoot h authorityRoot) [''daemon'', ''.eidolon'', ''projects'', ''daemon-control'']"

definition fileProtectedPermissionConfigPaths :: "Host \<Rightarrow> string option \<Rightarrow> string list" where
  "fileProtectedPermissionConfigPaths h authorityRoot =
     [permissionsConfigPath h authorityRoot, workspaceAccessConfigPath h authorityRoot, daemonControlPath h authorityRoot]"

definition hostPackageCredentialPaths :: "string \<Rightarrow> string list" where
  "hostPackageCredentialPaths homeDir = [path_join homeDir [''.npmrc''], path_join homeDir [''.bunfig.toml'']]"

definition loadWorkspaceAccessFile :: "Host \<Rightarrow> string option \<Rightarrow> jsv option \<Rightarrow> WorkspaceAccessConfig result" where
  "loadWorkspaceAccessFile h authorityRoot file = (case file of
      None \<Rightarrow> Inr []
    | Some v \<Rightarrow> let filePath = workspaceAccessConfigPath h authorityRoot in
        bind_result (asObject v (''Expected JSON object in '' @ filePath)) (\<lambda>raw.
          parseWorkspaceAccessConfig (h_shw h) raw filePath (h_cwd h)))"

definition grantKinds :: "FileAccessKind \<Rightarrow> FileAccessKind list" where
  "grantKinds k = (if k = ReadAccess then [ReadAccess] else [ReadAccess, WriteAccess])"

definition addKinds :: "FileAccessKind list \<Rightarrow> FileAccessKind list \<Rightarrow> FileAccessKind list" where
  "addKinds ks ls = ks @ filter (\<lambda>k. k \<notin> set ks) ls"

definition grantWorkspaceAccess ::
  "Host \<Rightarrow> string \<Rightarrow> string \<Rightarrow> FileAccessKind \<Rightarrow> string option \<Rightarrow> jsv option \<Rightarrow> (string \<times> jsv) result" where
  "grantWorkspaceAccess h workDir targetPath accessKind authorityRoot file =
     (let resolvedWorkDir = path_resolve (h_cwd h) workDir;
          grantRoot = workspaceAccessGrantRoot h (resolveRequestedPath h resolvedWorkDir targetPath) in
      bind_result (loadWorkspaceAccessFile h authorityRoot file) (\<lambda>config.
        let entries = nullish (map_of config resolvedWorkDir) [];
            updated = map (\<lambda>e. if wa_path e \<noteq> grantRoot then e
              else e\<lparr>wa_permissions := addKinds (wa_permissions e) (grantKinds accessKind)\<rparr>) entries;
            nextEntries = (if list_ex (\<lambda>e. wa_path e = grantRoot) entries then updated
              else updated @ [\<lparr>wa_path = grantRoot, wa_permissions = grantKinds accessKind\<rparr>]);
            sorted' = js_sort (\<lambda>a b. h_lc h (wa_path a) (wa_path b)) nextEntries;
            written = JObj (serializeWorkspaceAccessConfig (h_lc h) (obj_put resolvedWorkDir sorted' config))
        in Inr (grantRoot, nullish (json_clone written) JNull)))"

definition replayLocalPermissionApprovedTool ::
  "(string \<Rightarrow> jsv \<Rightarrow> ApprovalGrant \<Rightarrow> 'o) \<Rightarrow> (string \<Rightarrow> 'o) \<Rightarrow> QuestionnaireRequest \<Rightarrow> bool \<Rightarrow> 'o option" where
  "replayLocalPermissionApprovedTool call text q approved = (case getLocalPermissionApprovalContext q of
      None \<Rightarrow> None
    | Some _ \<Rightarrow>
        if \<not> approved
        then Some (text (''Error: local permission approval declined for '' @ gt_permissionName (qr_approvalGrant q) @ '': '' @ gt_target (qr_approvalGrant q)))
        else Some (call (qr_toolName q) (qr_originalArgs q) (qr_approvalGrant q)))"

definition replayWorkspaceAccessGrantApprovedTool ::
  "Host \<Rightarrow> (string \<Rightarrow> jsv \<Rightarrow> ApprovalGrant \<Rightarrow> 'o) \<Rightarrow> (string \<Rightarrow> 'o) \<Rightarrow> string option \<Rightarrow> QuestionnaireRequest \<Rightarrow> jsv \<Rightarrow> jsv option
    \<Rightarrow> ('o option \<times> jsv option) result" where
  "replayWorkspaceAccessGrantApprovedTool h call text authorityRoot q answers file = (case qr_approvalGrant q of
      LocalPermissionApprovalGrant _ _ _ _ \<Rightarrow> Inr (None, file)
    | WorkspaceAccessApprovalGrant tool workDir grantPath requested \<Rightarrow>
        let selected = stringOr (h_shw h) (coalesce (js_prop answers ''access_grant'')
              (coalesce (js_prop answers ''approved'') (js_prop answers ''q1''))) in
        if selected = [] \<or> selected = ''deny_permission_grant'' \<or> selected = ''reject'' \<or> selected = ''denied''
        then Inr (Some (text (''Error: workspace access grant declined for '' @ grantPath)), file)
        else case resolveWorkspaceAccessGrantSelection selected of
            None \<Rightarrow> Inr (Some (text (''Error: unsupported workspace access grant choice '' @ quoted selected)), file)
          | Some (kind, persist) \<Rightarrow>
              bind_result (if persist then bind_result (grantWorkspaceAccess h workDir grantPath kind authorityRoot file)
                  (\<lambda>r. Inr (Some (snd r))) else Inr file) (\<lambda>file'.
                Inr (Some (call (qr_toolName q) (qr_originalArgs q)
                  (WorkspaceAccessApprovalGrant tool workDir grantPath (accessKindName kind))), file')))"

end
