(* ===== verification/PermissionProps.thy ===== *)
theory PermissionProps
  imports PermissionRuntime
begin

text \<open>
  Lemmas on permission decisions: which rule decides, what a decision carries, and how grants enter it.
\<close>

section \<open>Paths\<close>

text \<open>Only the home aliases are expanded, and they start with a dollar sign, a percent sign or a tilde.\<close>

lemma to_lower_special: "to_lower c = d \<Longrightarrow> d \<in> {CHR ''$'', CHR 0x25, CHR 0x7E} \<Longrightarrow> c = d"
  by (auto simp: to_lower_def Let_def split: if_splits dest!: arg_cong[where f = "of_char :: char \<Rightarrow> nat"])

lemma alias_none:
  assumes "p = [] \<or> hd p \<notin> {CHR ''$'', CHR 0x25, CHR 0x7E}"
    and "list_all (\<lambda>a. a \<noteq> [] \<and> hd a \<in> {CHR ''$'', CHR 0x25, CHR 0x7E}) aliases"
  shows "replaceAlias i aliases home p = p"
proof -
  have "\<not> starts_with (f a) (f p)" if "a \<in> set aliases" "f = js_lower \<or> f = id" for a f
  proof -
    obtain d ds where a: "a = d # ds" "d \<in> {CHR ''$'', CHR 0x25, CHR 0x7E}"
      using assms(2) \<open>a \<in> set aliases\<close> by (cases a) (auto simp: list_all_iff)
    have low: "to_lower d = d" using a(2) by (auto simp: to_lower_def)
    show ?thesis
    proof (cases p)
      case Nil
      then show ?thesis using that(2) a by (auto simp: starts_with_def js_lower_def)
    next
      case (Cons c cs)
      then have "c \<noteq> d" "to_lower c \<noteq> d" using assms(1) a(2) to_lower_special[of c d] by auto
      then show ?thesis using that(2) a Cons low by (auto simp: starts_with_def js_lower_def)
    qed
  qed
  then have n: "\<not> starts_with (js_lower a) (js_lower p)" "\<not> starts_with a p" if "a \<in> set aliases" for a
    using that by (metis, metis id_apply)
  have "find (\<lambda>a. starts_with ((if i then js_lower else id) a) ((if i then js_lower else id) p) \<and> pathEnd (drop (length a) p)) aliases = None"
    using n by (cases i) (auto simp: find_None_iff)
  then show ?thesis by (simp add: replaceAlias_def)
qed

lemma expand_plain:
  assumes "p = [] \<or> hd p \<notin> {CHR ''$'', CHR 0x25, CHR 0x7E}"
  shows "expandHomePath home p = p"
  using assms by (simp add: expandHomePath_def alias_none)

lemma expand_absolute: "path_isAbsolute p \<Longrightarrow> expandHomePath home p = p"
  by (rule expand_plain) (cases p; auto simp: path_isAbsolute_def starts_with_def sep_def)

lemma resolve_absolute: "path_isAbsolute p \<Longrightarrow> resolveRequestedPath h w p = path_resolve (h_cwd h) p"
  by (simp add: resolveRequestedPath_def expand_absolute)
section \<open>Rules\<close>

definition ruleApplies :: "string \<Rightarrow> string \<Rightarrow> LocalPermissionRule \<Rightarrow> bool" where
  "ruleApplies permissionName pattern r \<longleftrightarrow> wildcard (pr_permission r) permissionName \<and> wildcard (pr_pattern r) pattern"

lemma lastMatch_snoc:
  "lastMatch p q m (rs @ [r]) = (if ruleApplies p q r then Some r else lastMatch p q m rs)"
  by (induction rs arbitrary: m) (simp_all add: ruleApplies_def globMatch_iff)

lemma lastMatch_Some:
  "lastMatch p q None rs = Some r \<longleftrightarrow> (\<exists>pre post. rs = pre @ r # post \<and> ruleApplies p q r \<and> (\<forall>x \<in> set post. \<not> ruleApplies p q x))"
proof (induction rs rule: rev_induct)
  case (snoc x xs)
  show ?case
  proof (cases "ruleApplies p q x")
    case True
    have "r = x" if "xs @ [x] = pre @ r # post" "\<forall>y \<in> set post. \<not> ruleApplies p q y" for pre post
      using that True by (cases post rule: rev_cases) auto
    moreover have "\<exists>pre post. xs @ [x] = pre @ x # post \<and> (\<forall>y \<in> set post. \<not> ruleApplies p q y)"
      by (rule exI[of _ xs], rule exI[of _ "[]"]) simp
    ultimately show ?thesis using True by (auto simp: lastMatch_snoc)
  next
    case False
    have "(\<exists>pre post. xs @ [x] = pre @ r # post \<and> ruleApplies p q r \<and> (\<forall>y \<in> set post. \<not> ruleApplies p q y))
        \<longleftrightarrow> (\<exists>pre post. xs = pre @ r # post \<and> ruleApplies p q r \<and> (\<forall>y \<in> set post. \<not> ruleApplies p q y))" (is "?l = ?r")
    proof
      assume ?l
      then obtain pre post where e: "xs @ [x] = pre @ r # post" "ruleApplies p q r" "\<forall>y \<in> set post. \<not> ruleApplies p q y" by blast
      then have "post \<noteq> []" using False by auto
      then obtain post' where "post = post' @ [x]" "xs = pre @ r # post'" using e(1)
        by (cases post rule: rev_cases) auto
      then show ?r using e by auto
    next
      assume ?r
      then obtain pre post where "xs = pre @ r # post" "ruleApplies p q r" "\<forall>y \<in> set post. \<not> ruleApplies p q y" by blast
      then show ?l using False by (intro exI[of _ pre] exI[of _ "post @ [x]"]) auto
    qed
    then show ?thesis using False snoc by (simp add: lastMatch_snoc)
  qed
qed simp

lemma lastMatch_None: "lastMatch p q None rs = None \<longleftrightarrow> (\<forall>x \<in> set rs. \<not> ruleApplies p q x)"
  by (induction rs rule: rev_induct) (auto simp: lastMatch_snoc)

section \<open>Grants\<close>

lemma grant_matches_itself [simp]: "matchesApprovalGrant h (Some (LocalPermissionApprovalGrant t n w g)) n w g"
  by (simp add: matchesApprovalGrant_def)

lemma grant_covers_itself:
  "grantCovers h (Some (WorkspaceAccessApprovalGrant t (path_resolve (h_cwd h) w) p (accessKindName k))) w p k"
  by (simp add: grantCovers_def)

lemma decide_fields [simp]:
  "de_action (decide a) = a" "de_approvalGrant (decide a) = None" "de_reasonCode (decide a) = None" "de_message (decide a) = None"
  by (simp_all add: decide_def)

lemma bashDecision_fields [simp]:
  "de_action (bashDecision a t) = a" "de_approvalGrant (bashDecision a t) = None" "de_reasonCode (bashDecision a t) = None"
  by (simp_all add: bashDecision_def)

text \<open>A decision to ask names the grant that turns the same question into permission.\<close>

definition grantSuffices :: "(ApprovalGrant option \<Rightarrow> LocalPermissionDecision result) \<Rightarrow> bool" where
  "grantSuffices f \<longleftrightarrow> (\<forall>g d. f g = Inr d \<longrightarrow> de_action d = Ask \<longrightarrow>
     (\<exists>g' d'. de_approvalGrant d = Some g' \<and> f (Some g') = Inr d' \<and> de_action d' = Allow))"

lemma grantSuffices_const: "(\<And>d. r = Inr d \<Longrightarrow> de_action d \<noteq> Ask) \<Longrightarrow> grantSuffices (\<lambda>_. r)"
  by (auto simp: grantSuffices_def)

lemma grantSuffices_bind:
  assumes "\<And>x. m = Inr x \<Longrightarrow> grantSuffices (f x)"
  shows "grantSuffices (\<lambda>g. bind_result m (\<lambda>x. f x g))"
  using assms by (cases m) (auto simp: grantSuffices_def)

lemma grantSuffices_if:
  "(c \<Longrightarrow> grantSuffices f) \<Longrightarrow> (\<not> c \<Longrightarrow> grantSuffices f') \<Longrightarrow> grantSuffices (\<lambda>g. if c then f g else f' g)"
  by (cases c) simp_all

lemma grantSuffices_map:
  assumes "grantSuffices f" "\<And>d. de_action (k d) = de_action d" "\<And>d. de_approvalGrant (k d) = de_approvalGrant d"
  shows "grantSuffices (\<lambda>g. bind_result (f g) (\<lambda>d. Inr (k d)))"
  unfolding grantSuffices_def
proof (intro allI impI)
  fix g d assume "bind_result (f g) (\<lambda>d. Inr (k d)) = Inr d" "de_action d = Ask"
  then obtain e where e: "f g = Inr e" "d = k e" by (cases "f g") auto
  have "de_action e = Ask" using e(2) assms(2) \<open>de_action d = Ask\<close> by simp
  then obtain g' d' where "de_approvalGrant e = Some g'" "f (Some g') = Inr d'" "de_action d' = Allow"
    using assms(1)[unfolded grantSuffices_def, rule_format, OF e(1)] by blast
  then show "\<exists>g' d'. de_approvalGrant d = Some g' \<and> bind_result (f (Some g')) (\<lambda>d. Inr (k d)) = Inr d' \<and> de_action d' = Allow"
    using e(2) assms(2,3) by simp
qed

lemma gate_grant: "grantSuffices (evaluateWorkspaceAccessGate h w p k a t)"
  unfolding evaluateWorkspaceAccessGate_def
  by (rule grantSuffices_bind) (auto simp: grantSuffices_def Let_def grant_covers_itself split: if_splits)

lemma rule_grant: "grantSuffices (\<lambda>g. Inr (ruleDecision h w t n q p g dec))"
  unfolding grantSuffices_def ruleDecision_def Let_def
  by (cases "fst dec"; cases "snd dec"; cases dec) (auto split: if_splits)

lemma file_grant: "grantSuffices (\<lambda>g. evaluateFilePermission h w raw k t a g roots scope)"
  unfolding evaluateFilePermission_def Let_def
  by (intro grantSuffices_bind grantSuffices_if grantSuffices_map[OF gate_grant] rule_grant)
     (auto intro!: grantSuffices_const)

lemma segmentDecisions_deny: "segmentDecisions h w a t asked ss = Inr (Inl d) \<Longrightarrow> de_action d = Deny"
proof (induction ss arbitrary: asked)
  case (Cons s ss)
  then show ?case by (auto simp: bind_result_eq_Inr split: if_splits)
qed simp

lemma ask_grant: "grantSuffices (\<lambda>g. Inr (askDecision h w g t asked))"
  by (cases asked) (auto simp: grantSuffices_def askDecision_def split: if_splits)

lemma segments_grant: "grantSuffices (\<lambda>g. evaluateSegments h check b w a g segs)"
  unfolding evaluateSegments_def Let_def
proof (intro grantSuffices_bind)
  fix ns r
  assume "segmentDecisions h w a (serializeBashSegments ns) None
      (map fst (filter (\<lambda>p. \<not> bashSegmentIsPureAssignment (snd p)) (zip ns segs))) = Inr r"
  then show "grantSuffices (\<lambda>g. case r of Inl denied \<Rightarrow> Inr denied
      | Inr asked \<Rightarrow> Inr (askDecision h w g (serializeBashSegments ns) asked))"
    using segmentDecisions_deny ask_grant by (cases r) (auto intro!: grantSuffices_const)
qed

lemma unsupported_grant:
  "grantSuffices (\<lambda>g. bind_result (evaluateUnsupportedBashSyntax h check e c w a g)
     (\<lambda>fallback. case fallback of Some d \<Rightarrow> Inr d | None \<Rightarrow> Inl e))"
proof -
  define f where "f = (\<lambda>t am. case am of (action, matched) \<Rightarrow> \<lambda>g. let risk = classifyUnsupportedBashRisk (js_trim c) in
            (if action = Allow \<and> matched \<noteq> None then bashDecision Allow t
             else if action = Deny \<and> matched \<noteq> None then (bashDecision Deny t)\<lparr>de_matchedRule := matched,
               de_message := Some ''local permission denied for bash command with unsupported syntax''\<rparr>
             else if action = Deny \<and> matched = None \<and> risk = LowRisk then bashDecision Allow t
             else if action = Deny \<and> matched = None \<and> risk = HighRisk then (bashDecision Deny t)\<lparr>
               de_message := Some ''local permission denied for high-risk bash command with unsupported syntax''\<rparr>
             else if matchesApprovalGrant h g ''bash'' w t then bashDecision Allow t
             else (bashDecision Ask t)\<lparr>de_matchedRule := matched,
               de_message := Some ''Approve bash command with unsupported syntax?'',
               de_fallbackMessage := Some ''local permission requires approval for unsupported bash syntax'',
               de_approvalGrant := Some (LocalPermissionApprovalGrant ''bash'' ''bash'' w t)\<rparr>))"
  have f: "grantSuffices (\<lambda>g. Inr (f t am g))" for t am
    by (cases am) (auto simp: grantSuffices_def f_def Let_def split: if_splits)
  have "bind_result (evaluateUnsupportedBashSyntax h check e c w a g) (\<lambda>fallback. case fallback of Some d \<Rightarrow> Inr d | None \<Rightarrow> Inl e)
    = (if e \<noteq> unsupported then Inl e
       else bind_result (bashRawCommandReferencesPrivateRuntime h check c w a) (\<lambda>private.
         if private then Inl privateBash
         else if bashRawCommandReferencesProtectedPermissionConfig h c w a then Inl protectedBash
         else bind_result (evaluatePermissionRuleSet h w ''bash'' (js_trim c) a)
           (\<lambda>am. Inr (f (serializeBashSegments [js_trim c]) am g))))" for g
    unfolding evaluateUnsupportedBashSyntax_def f_def Let_def
    by (cases "bashRawCommandReferencesPrivateRuntime h check c w a"; cases "evaluatePermissionRuleSet h w ''bash'' (js_trim c) a")
       (simp_all split: prod.split)
  then show ?thesis
    by (simp only:) (intro grantSuffices_if grantSuffices_bind f; auto intro!: grantSuffices_const)
qed

lemma bash_grant: "grantSuffices (\<lambda>g. evaluateBashPermission h w payload a g enf)"
proof -
  have "grantSuffices (\<lambda>g. case parsed of Inr segs \<Rightarrow> evaluateSegments h check b w a g segs
      | Inl e \<Rightarrow> bind_result (evaluateUnsupportedBashSyntax h check e c b a g)
          (\<lambda>fallback. case fallback of Some d \<Rightarrow> Inr d | None \<Rightarrow> Inl e))" for parsed check b c
    using segments_grant unsupported_grant by (cases parsed) simp_all
  then show ?thesis
    unfolding evaluateBashPermission_def Let_def
    by (intro grantSuffices_bind grantSuffices_if) (auto intro!: grantSuffices_const)
qed

lemma tool_grant: "grantSuffices (\<lambda>g. evaluateLocalToolPermission h w t payload a g roots enf)"
  unfolding evaluateLocalToolPermission_def Let_def
  by (intro grantSuffices_if grantSuffices_bind file_grant bash_grant) (auto intro!: grantSuffices_const)

section \<open>Protected paths\<close>

text \<open>The path a file tool asks for, and whether it asks to write.\<close>

definition fileRequest :: "Host \<Rightarrow> string \<Rightarrow> jsv \<Rightarrow> (string \<times> FileAccessKind) option" where
  "fileRequest h t payload =
     (let filePath = (let v = js_prop payload ''filePath'' in if v = JUndef \<or> v = JNull then [] else js_String (h_shw h) v) in
      if t = ''read'' then Some (filePath, ReadAccess)
      else if t \<in> set [''ls'', ''glob'', ''grep''] then
        Some (case js_prop payload ''path'' of JStr p \<Rightarrow> (if js_trim p \<noteq> [] then p else ''.'') | _ \<Rightarrow> ''.'', ReadAccess)
      else if t \<in> set [''write'', ''edit'', ''multiedit'', ''apply_patch''] then Some (filePath, WriteAccess)
      else None)"

lemma tool_file:
  assumes "fileRequest h t payload = Some (raw, k)"
  shows "evaluateLocalToolPermission h w t payload a g roots enf =
    bind_result (resolveFileToolScopeIntent (h_shw h) (js_prop payload ''scopeIntent''))
      (evaluateFilePermission h (path_resolve (h_cwd h) w) raw k t a g roots)"
  using assms unfolding fileRequest_def evaluateLocalToolPermission_def Let_def by (auto split: if_splits)

lemma file_private:
  assumes "isPrivateRuntimePath h (resolveRequestedPath h (path_resolve (h_cwd h) w) raw) a (t = ''grep'' \<or> t = ''glob'') = Inr True"
  shows "\<exists>d. evaluateFilePermission h w raw k t a g roots scope = Inr d \<and> de_action d = Deny \<and> de_reasonCode d = Some PrivateRuntimeData"
  using assms by (simp add: evaluateFilePermission_def Let_def)

lemma file_protected:
  assumes "isPrivateRuntimePath h (resolveRequestedPath h (path_resolve (h_cwd h) w) raw) a (t = ''grep'' \<or> t = ''glob'') = Inr False"
    and "isProtectedPermissionConfigPath h (resolveRequestedPath h (path_resolve (h_cwd h) w) raw) a = Inr True"
  shows "\<exists>d. evaluateFilePermission h w raw WriteAccess t a g roots scope = Inr d \<and> de_action d = Deny
    \<and> de_reasonCode d = Some ProtectedPermissionConfig \<and> de_permissionName d = Some ''edit''
    \<and> de_resolvedPath d = Some (resolveRequestedPath h (path_resolve (h_cwd h) w) raw)"
  using assms by (simp add: evaluateFilePermission_def Let_def filePermissionName_def)

lemma resolved_request [simp]: "path_resolve (h_cwd h) (resolveRequestedPath h w raw) = resolveRequestedPath h w raw"
  by (simp add: resolveRequestedPath_def Let_def)

end
