(* ===== verification/PermissionFiles.thy ===== *)
theory PermissionFiles
  imports PermissionProps
begin

text \<open>
  The workspace access file: what is written is read back, and what a persisted grant opens.
\<close>

section \<open>Reading back an entry\<close>

text \<open>Entries as the parser produces them: resolved paths, and at least one access kind. A path with surrounding white
  space is trimmed when it is read, so such paths are excluded.\<close>

definition entry_ok :: "string \<Rightarrow> WorkspaceAccessEntry \<Rightarrow> bool" where
  "entry_ok cwd e \<longleftrightarrow> path_resolve cwd (wa_path e) = wa_path e \<and> js_trim (wa_path e) = wa_path e \<and> wa_permissions e \<noteq> []"

definition same_entry :: "WorkspaceAccessEntry \<Rightarrow> WorkspaceAccessEntry \<Rightarrow> bool" where
  "same_entry e e' \<longleftrightarrow> wa_path e' = wa_path e \<and> set (wa_permissions e') = set (wa_permissions e)"

lemma resolved_absolute: "path_resolve cwd p = p \<Longrightarrow> path_isAbsolute p"
  by (metis abs_path_absolute path_resolve_def)

lemma resolve2_resolved: "path_resolve cwd p = p \<Longrightarrow> path_resolve2 cwd b p = p"
  using resolved_absolute by (simp add: path_resolve2_def)

lemma parse_kind_name [simp]: "parseAccessKind (accessKindName k) = Some k"
  by (cases k) (simp_all add: parseAccessKind_def accessKindName_def)

lemma trim_kind_name [simp]: "js_trim (accessKindName k) = accessKindName k"
proof -
  have "js_trim ''read'' = ''read''" "js_trim ''write'' = ''write''" by code_simp+
  then show ?thesis by (cases k) (simp_all add: accessKindName_def)
qed

lemma addPermissions_names:
  "\<exists>out. addPermissions shw l acc (map (\<lambda>k. JStr (accessKindName k)) ks) = Inr out \<and> set out = set acc \<union> set ks"
proof (induction ks arbitrary: acc)
  case (Cons k ks)
  obtain out where "addPermissions shw l (if k \<in> set acc then acc else acc @ [k]) (map (\<lambda>k. JStr (accessKindName k)) ks) = Inr out"
      "set out = set (if k \<in> set acc then acc else acc @ [k]) \<union> set ks" using Cons.IH by blast
  then show ?case by auto
qed simp

lemma sorted_names: "\<exists>ks'. js_sort unit_compare (map accessKindName ks) = map accessKindName ks' \<and> set ks' = set ks"
proof -
  have inj: "accessKindName k = accessKindName l \<longleftrightarrow> k = l" for k l by (cases k; cases l) (simp_all add: accessKindName_def)
  define ss where "ss = js_sort unit_compare (map accessKindName ks)"
  have "set ss = accessKindName ` set ks" by (simp add: ss_def)
  then have e: "\<exists>k. s = accessKindName k \<and> k \<in> set ks" if "s \<in> set ss" for s using that by auto
  define ks' where "ks' = map (\<lambda>s. the (parseAccessKind s)) ss"
  have "accessKindName (the (parseAccessKind s)) = s" if "s \<in> set ss" for s using e[OF that] by auto
  then have "ss = map accessKindName ks'" unfolding ks'_def by (simp add: map_idI comp_def)
  moreover from this \<open>set ss = _\<close> have "accessKindName ` set ks' = accessKindName ` set ks" by simp
  then have "set ks' = set ks" using inj by (metis (no_types, lifting) inj_image_eq_iff inj_onI)
  ultimately show ?thesis by (auto simp: ss_def)
qed

lemma parse_serialized_entry:
  assumes "entry_ok cwd e"
  shows "\<exists>e'. parseEntry shw f cwd key (i, serializeEntry e) = Inr e' \<and> same_entry e e'"
proof -
  obtain ks where ks: "js_sort unit_compare (map accessKindName (wa_permissions e)) = map accessKindName ks" "set ks = set (wa_permissions e)"
    using sorted_names by blast
  then obtain k ks' where k: "ks = k # ks'" using assms by (cases ks) (auto simp: entry_ok_def)
  obtain out where out: "addPermissions shw (''Workspace '' @ quoted key @ '' entry '' @ show_nat i @ '' in '' @ f) []
      (map (\<lambda>k. JStr (accessKindName k)) ks) = Inr out" "set out = set ks"
    using addPermissions_names[of shw _ "[]" ks] by auto
  have p: "wa_path e \<noteq> []" using resolved_absolute[of cwd "wa_path e"] assms
    by (auto simp: entry_ok_def path_isAbsolute_def starts_with_def)
  have r: "path_resolve2 cwd cwd (wa_path e) = wa_path e" using assms by (auto simp: entry_ok_def resolve2_resolved)
  have "parseEntry shw f cwd key (i, serializeEntry e) = Inr \<lparr>wa_path = wa_path e, wa_permissions = out\<rparr>"
    using out(1) p r assms k ks(1)
    by (simp add: parseEntry_def serializeEntry_def asObject_def unknownKeys_def stringOr_def entry_ok_def Let_def comp_def del: addPermissions.simps)
  then show ?thesis using out(2) ks(2) by (simp add: same_entry_def)
qed

section \<open>Reading back the file\<close>

lemma parse_serialized_entries:
  "list_all (entry_ok cwd) es \<Longrightarrow>
     \<exists>es'. map_result (parseEntry shw f cwd key) (enumerate n (map serializeEntry es)) = Inr es' \<and> list_all2 same_entry es es'"
proof (induction es arbitrary: n)
  case (Cons e es)
  obtain e' where e': "parseEntry shw f cwd key (n, serializeEntry e) = Inr e'" "same_entry e e'"
    using parse_serialized_entry[of cwd e shw f key n] Cons.prems by auto
  obtain es' where "map_result (parseEntry shw f cwd key) (enumerate (Suc n) (map serializeEntry es)) = Inr es'"
      "list_all2 same_entry es es'" using Cons.IH[of "Suc n"] Cons.prems by auto
  then show ?case using e' by simp
qed simp

definition serializeWorkspace :: "string \<times> WorkspaceAccessEntry list \<Rightarrow> string \<times> jsv" where
  "serializeWorkspace w = (fst w, JObj [(''entries'', JArr (map serializeEntry (snd w)))])"

definition workspace_ok :: "string \<Rightarrow> string \<times> WorkspaceAccessEntry list \<Rightarrow> bool" where
  "workspace_ok cwd w \<longleftrightarrow> path_resolve cwd (fst w) = fst w \<and> list_all (entry_ok cwd) (snd w)"

definition same_workspace :: "string \<times> WorkspaceAccessEntry list \<Rightarrow> string \<times> WorkspaceAccessEntry list \<Rightarrow> bool" where
  "same_workspace v w \<longleftrightarrow> fst v = fst w \<and> list_all2 same_entry (snd v) (snd w)"

lemma parse_serialized_workspaces:
  "list_all (workspace_ok cwd) ws \<Longrightarrow>
     \<exists>ws'. map_result (parseWorkspace shw f cwd) (map serializeWorkspace ws) = Inr ws' \<and> list_all2 same_workspace ws ws'"
proof (induction ws)
  case (Cons w ws)
  obtain ws' where ws: "map_result (parseWorkspace shw f cwd) (map serializeWorkspace ws) = Inr ws'" "list_all2 same_workspace ws ws'"
    using Cons by auto
  obtain es where es: "map_result (parseEntry shw f cwd (fst w)) (enumerate 0 (map serializeEntry (snd w))) = Inr es"
      "list_all2 same_entry (snd w) es"
    using parse_serialized_entries[of cwd "snd w" shw f "fst w" 0] Cons.prems by (auto simp: workspace_ok_def)
  have "path_resolve2 cwd cwd (fst w) = fst w" using Cons.prems by (simp add: workspace_ok_def resolve2_resolved)
  then have "parseWorkspace shw f cwd (serializeWorkspace w) = Inr (fst w, es)"
    using es(1) by (simp add: parseWorkspace_def serializeWorkspace_def asObject_def unknownKeys_def orArray_def Let_def)
  moreover have "same_workspace w (fst w, es)" using es(2) by (simp add: same_workspace_def)
  ultimately show ?case using ws by simp
qed simp

lemma same_lookup: "list_all2 same_workspace ws ws' \<Longrightarrow> rel_option (list_all2 same_entry) (map_of ws k) (map_of ws' k)"
  by (induction ws ws' rule: list_all2_induct) (auto simp: same_workspace_def)

lemma distinct_lookup_rev: "distinct (map fst xs) \<Longrightarrow> map_of (rev xs) = map_of xs"
  by (rule map_of_inject_set[THEN iffD2]) (simp_all add: rev_map[symmetric])

lemma obj_of_entries:
  assumes "distinct (map fst es)"
  shows "set (obj_of es) = set es"
proof -
  have "map_of (obj_of es) = map_of es" using assms by (simp add: map_of_obj_of distinct_lookup_rev)
  then show ?thesis using assms map_of_inject_set[of "obj_of es" es] by simp
qed

lemma written_clone:
  "json_clone (JObj (serializeWorkspaceAccessConfig lc config)) = Some (JObj (serializeWorkspaceAccessConfig lc config))"
proof -
  have e: "json_clone (serializeEntry e) = Some (serializeEntry e)" for e by (simp add: serializeEntry_def comp_def)
  have "json_clone (JArr (map serializeEntry es)) = Some (JArr (map serializeEntry es))" for es by (simp add: e comp_def)
  then have w: "json_clone (snd (serializeWorkspace w)) = Some (snd (serializeWorkspace w))" for w
    by (simp add: serializeWorkspace_def del: json_clone.simps(6))
  have "json_clone (JObj (obj_of (map serializeWorkspace ws))) = Some (JObj (obj_of (map serializeWorkspace ws)))" for ws
  proof -
    have "(case json_clone (snd p) of None \<Rightarrow> [] | Some v \<Rightarrow> [(fst p, v)]) = [p]" if "p \<in> set (obj_of (map serializeWorkspace ws))" for p
    proof -
      have "map_of (rev (map serializeWorkspace ws)) (fst p) = Some (snd p)"
        using that map_of_obj_of distinct_obj_of by (metis map_of_eq_Some_iff prod.collapse)
      then have "p \<in> set (map serializeWorkspace ws)" by (metis map_of_SomeD prod.collapse set_rev)
      then show ?thesis using w by (auto split: option.splits)
    qed
    then have "concat (map (\<lambda>p. case json_clone (snd p) of None \<Rightarrow> [] | Some v \<Rightarrow> [(fst p, v)]) (obj_of (map serializeWorkspace ws)))
        = concat (map (\<lambda>p. [p]) (obj_of (map serializeWorkspace ws)))"
      by (metis (mono_tags, lifting) map_cong)
    then show ?thesis by (simp add: concat_map_singleton)
  qed
  then have "json_clone (JObj [(''workspaces'', JObj (obj_of (map serializeWorkspace ws)))])
      = Some (JObj [(''workspaces'', JObj (obj_of (map serializeWorkspace ws)))])" for ws
    by (subst json_clone.simps(7)) (simp del: json_clone.simps(7))
  then show ?thesis unfolding serializeWorkspaceAccessConfig_def serializeWorkspace_def[symmetric] .
qed

definition file_ok :: "string \<Rightarrow> WorkspaceAccessConfig \<Rightarrow> bool" where
  "file_ok cwd config \<longleftrightarrow> distinct (map fst config) \<and> list_all (workspace_ok cwd) config"

lemma serialized_object:
  assumes "distinct (map fst config)"
  shows "\<exists>ws. obj_of (map serializeWorkspace (js_sort cmp config)) = map serializeWorkspace ws
    \<and> distinct (map fst ws) \<and> set ws = set config"
proof -
  define o' where "o' = obj_of (map serializeWorkspace (js_sort cmp config))"
  have fs: "fst \<circ> serializeWorkspace = fst" by (auto simp: serializeWorkspace_def)
  have so: "set o' = serializeWorkspace ` set config"
    using obj_of_entries[of "map serializeWorkspace (js_sort cmp config)"] assms by (simp add: o'_def fs)
  define orig where "orig p = (fst p, the (map_of config (fst p)))" for p :: "string \<times> jsv"
  have orig: "orig (serializeWorkspace v) = v" if "v \<in> set config" for v
  proof -
    have "map_of config (fst v) = Some (snd v)" using that assms by simp
    then show ?thesis by (simp add: orig_def serializeWorkspace_def)
  qed
  have o: "map serializeWorkspace (map orig o') = o'" unfolding map_map
  proof (rule map_idI)
    fix p assume "p \<in> set o'"
    then have "p \<in> serializeWorkspace ` set config" using so by simp
    then show "(serializeWorkspace \<circ> orig) p = p" using orig by (elim imageE) simp
  qed
  have d: "distinct (map fst (map orig o'))" by (simp add: orig_def comp_def o'_def)
  have "set (map orig o') = (\<lambda>v. orig (serializeWorkspace v)) ` set config" using so by (simp add: image_image)
  also have "\<dots> = set config" using orig by (simp cong: image_cong)
  finally show ?thesis using o d unfolding o'_def by (intro exI[of _ "map orig o'"]) (simp add: o'_def)
qed

lemma reread:
  assumes "file_ok cwd config" "path_isAbsolute cwd"
  shows "\<exists>config'. parseWorkspaceAccessConfig shw (serializeWorkspaceAccessConfig lc config) f cwd = Inr config'
    \<and> distinct (map fst config') \<and> (\<forall>k. rel_option (list_all2 same_entry) (map_of config k) (map_of config' k))"
proof -
  have dc: "distinct (map fst config)" using assms(1) by (simp add: file_ok_def)
  obtain ws where ws: "obj_of (map serializeWorkspace (js_sort (\<lambda>a b. lc (fst a) (fst b)) config)) = map serializeWorkspace ws"
      "distinct (map fst ws)" "set ws = set config"
    using serialized_object[OF dc] by blast
  have mw: "map_of ws = map_of config" using map_of_inject_set[OF ws(2) dc] ws(3) by simp
  have "list_all (workspace_ok cwd) ws" using assms(1) ws(3) by (simp add: file_ok_def list_all_iff)
  then obtain ws' where ws': "map_result (parseWorkspace shw f cwd) (map serializeWorkspace ws) = Inr ws'" "list_all2 same_workspace ws ws'"
    using parse_serialized_workspaces by blast
  have "map fst ws' = map fst ws"
    using ws'(2) by (induction rule: list_all2_induct) (auto simp: same_workspace_def)
  then have "map_of (obj_of ws') = map_of ws'" using ws(2) by (simp add: map_of_obj_of distinct_lookup_rev)
  then have r: "rel_option (list_all2 same_entry) (map_of config k) (map_of (obj_of ws') k)" for k
    using same_lookup[OF ws'(2)] mw by simp
  have "parseWorkspaceAccessConfig shw (serializeWorkspaceAccessConfig lc config) f cwd = Inr (obj_of ws')"
    unfolding parseWorkspaceAccessConfig_def serializeWorkspaceAccessConfig_def serializeWorkspace_def[symmetric] ws(1)
    using ws'(1) assms(2)
    by (cases "ws = []") (simp_all add: assertAbsoluteCwd_def unknownKeys_def isEmptyObject_def asObject_def obj_of_def)
  then show ?thesis using r by simp
qed

section \<open>Loaded files\<close>

lemma addPermissions_keeps: "addPermissions shw l acc vs = Inr out \<Longrightarrow> set acc \<subseteq> set out"
  by (induction vs arbitrary: acc) (fastforce split: option.splits if_splits)+

lemma addPermissions_distinct: "addPermissions shw l acc vs = Inr out \<Longrightarrow> distinct acc \<Longrightarrow> distinct out"
  by (induction vs arbitrary: acc) (auto split: option.splits if_splits)

lemma parsed_entry_ok:
  assumes "parseEntry shw f cwd key iv = Inr e"
  shows "path_resolve cwd (wa_path e) = wa_path e \<and> wa_permissions e \<noteq> [] \<and> distinct (wa_permissions e)"
proof -
  have ne: "addPermissions shw l [] (v # vs) = Inr out \<Longrightarrow> out \<noteq> []" for l v vs out
    using addPermissions_keeps[of shw l "[_]" vs out] by (auto split: option.splits)
  show ?thesis using assms
    by (auto simp: parseEntry_def Let_def bind_result_eq_Inr path_resolve2_def simp del: addPermissions.simps
        split: if_splits jsv.splits list.splits dest: ne addPermissions_distinct)
qed

lemma map_result_all:
  "map_result f xs = Inr ys \<Longrightarrow> (\<And>x y. f x = Inr y \<Longrightarrow> P y) \<Longrightarrow> list_all P ys"
  by (induction xs arbitrary: ys) (auto simp: bind_result_eq_Inr)

definition loaded_workspace :: "string \<Rightarrow> string \<times> WorkspaceAccessEntry list \<Rightarrow> bool" where
  "loaded_workspace cwd w \<longleftrightarrow> path_resolve cwd (fst w) = fst w
     \<and> list_all (\<lambda>e. path_resolve cwd (wa_path e) = wa_path e \<and> wa_permissions e \<noteq> [] \<and> distinct (wa_permissions e)) (snd w)"

lemma parsed_workspace_ok: "parseWorkspace shw f cwd e = Inr w \<Longrightarrow> loaded_workspace cwd w"
  unfolding loaded_workspace_def
  by (auto simp: parseWorkspace_def Let_def bind_result_eq_Inr path_resolve2_def split: if_splits jsv.splits
      intro: map_result_all[OF _ parsed_entry_ok])

lemma set_obj_of: "set (obj_of es) \<subseteq> set es"
proof
  fix p assume "p \<in> set (obj_of es)"
  then have "map_of (rev es) (fst p) = Some (snd p)"
    by (metis map_of_obj_of distinct_obj_of map_of_is_SomeI prod.collapse)
  then show "p \<in> set es" by (metis map_of_SomeD prod.collapse set_rev)
qed

lemma loaded_file_ok:
  assumes "loadWorkspaceAccessFile h a file = Inr config"
  shows "distinct (map fst config) \<and> list_all (loaded_workspace (h_cwd h)) config"
proof -
  have "list_all (loaded_workspace cwd) (obj_of ws)" if "map_result (parseWorkspace shw f cwd) ps = Inr ws" for shw f cwd ps ws
  proof -
    have "list_all (loaded_workspace cwd) ws" using that by (rule map_result_all) (rule parsed_workspace_ok)
    then show ?thesis using set_obj_of[of ws] by (simp add: list_all_iff subset_eq)
  qed
  then show ?thesis using assms
    by (auto simp: loadWorkspaceAccessFile_def parseWorkspaceAccessConfig_def Let_def bind_result_eq_Inr split: option.splits if_splits)
qed

section \<open>Grants\<close>

definition entryView :: "WorkspaceAccessEntry \<Rightarrow> string \<times> FileAccessKind set" where
  "entryView e = (wa_path e, set (wa_permissions e))"

definition workspaceEntries :: "WorkspaceAccessConfig \<Rightarrow> string \<Rightarrow> WorkspaceAccessEntry list" where
  "workspaceEntries config w = nullish (map_of config w) []"

definition grantedEntries :: "string \<Rightarrow> FileAccessKind \<Rightarrow> WorkspaceAccessEntry list \<Rightarrow> WorkspaceAccessEntry list" where
  "grantedEntries base kind entries =
     (let updated = map (\<lambda>e. if wa_path e \<noteq> base then e
              else e\<lparr>wa_permissions := addKinds (wa_permissions e) (grantKinds kind)\<rparr>) entries
      in if list_ex (\<lambda>e. wa_path e = base) entries then updated
         else updated @ [\<lparr>wa_path = base, wa_permissions = grantKinds kind\<rparr>])"

lemma same_entry_view: "list_all2 same_entry es es' \<longleftrightarrow> map entryView es' = map entryView es"
  by (induction es arbitrary: es') (auto simp: list_all2_Cons1 same_entry_def entryView_def map_eq_Cons_conv)

lemma granted_ok:
  assumes "list_all (entry_ok cwd) entries" "path_resolve cwd base = base" "js_trim base = base"
  shows "list_all (entry_ok cwd) (grantedEntries base kind entries)"
  using assms by (auto simp: grantedEntries_def Let_def list_all_iff entry_ok_def addKinds_def grantKinds_def)

lemma granted_paths [simp]: "wa_path ` set (grantedEntries base kind entries) = insert base (wa_path ` set entries)"
proof -
  have "map wa_path (map (\<lambda>e. if wa_path e \<noteq> base then e
      else e\<lparr>wa_permissions := addKinds (wa_permissions e) (grantKinds kind)\<rparr>) entries) = map wa_path entries"
    by simp
  then have "wa_path ` set (map (\<lambda>e. if wa_path e \<noteq> base then e
      else e\<lparr>wa_permissions := addKinds (wa_permissions e) (grantKinds kind)\<rparr>) entries) = wa_path ` set entries"
    by (metis list.set_map)
  then show ?thesis by (auto simp: grantedEntries_def Let_def list_ex_iff)
qed

lemma js_join_snoc: "xs \<noteq> [] \<Longrightarrow> js_join s (xs @ [x]) = js_join s xs @ s @ x"
proof (induction xs)
  case (Cons y ys)
  then show ?case by (cases ys) simp_all
qed simp

lemma dirname_abs:
  assumes "component x" "list_all component xs"
  shows "path_dirname (abs_path (xs @ [x])) = abs_path xs"
proof -
  have x: "x \<noteq> []" "sep \<notin> set x" using assms by (simp_all add: component_def)
  define pre where "pre = (if xs = [] then [] else sep # js_join [sep] xs)"
  have p: "abs_path (xs @ [x]) = pre @ sep # x" by (simp add: pre_def abs_path_def js_join_snoc)
  have l: "rev x \<noteq> [] \<and> hd (rev x) \<noteq> sep" using x by (metis hd_in_set rev_is_Nil_conv set_rev)
  have t: "dropWhile (\<lambda>c. c = sep) (rev (pre @ sep # x)) = rev (pre @ sep # x)"
    using l by (cases "rev x") auto
  have "takeWhile (\<lambda>c. c \<noteq> sep) (rev x) = rev x" using x(2) by (auto simp: takeWhile_eq_all_conv)
  then have d: "dropWhile (\<lambda>c. c \<noteq> sep) (rev x @ sep # rev pre) = sep # rev pre"
    using x(2) by (simp add: dropWhile_append3 dropWhile_append2)
  have ns: "pre \<noteq> [sep]" using assms(2) join_head(1)[of "hd xs" sep "tl xs"] by (cases xs) (auto simp: pre_def component_def)
  have "path_dirname (pre @ sep # x) = (if pre = [] then [sep] else pre)"
    using d t ns by (simp add: path_dirname_def)
  then show ?thesis using p by (simp add: pre_def abs_path_def)
qed

lemma grant_written:
  assumes "grantWorkspaceAccess h w target kind a file = Inr (base, written)" "loadWorkspaceAccessFile h a file = Inr config"
  shows "base = workspaceAccessGrantRoot h (resolveRequestedPath h (path_resolve (h_cwd h) w) target)
    \<and> written = JObj (serializeWorkspaceAccessConfig (h_lc h) (obj_put (path_resolve (h_cwd h) w)
        (js_sort (\<lambda>a b. h_lc h (wa_path a) (wa_path b))
          (grantedEntries base kind (workspaceEntries config (path_resolve (h_cwd h) w)))) config))"
  using assms written_clone unfolding grantWorkspaceAccess_def Let_def workspaceEntries_def grantedEntries_def
  by auto

lemma obj_put_entries:
  assumes "(k, v) \<in> set (obj_put k' x ps)" "distinct (map fst ps)"
  shows "(k, v) = (k', x) \<or> (k, v) \<in> set ps"
proof -
  have "distinct (map fst (obj_put k' x ps))" using assms(2) by (rule jso.distinct_store)
  then have "map_of (obj_put k' x ps) k = Some v" using assms(1) by simp
  then show ?thesis by (cases "k = k'") (auto simp: jso.lookup_same jso.lookup_other dest: map_of_SomeD)
qed

lemma dirname_resolved: "path_resolve c (path_dirname (path_resolve cwd p)) = path_dirname (path_resolve cwd p)"
proof (cases "segs_of cwd p" rule: rev_cases)
  case Nil
  have "path_dirname ''/'' = ''/''" "path_resolve c ''/'' = ''/''"
    by (code_simp, simp add: path_resolve_def segs_of_def path_isAbsolute_def starts_with_def sep_def abs_path_def)
  then show ?thesis using Nil by (simp add: path_resolve_def[of cwd] abs_path_def sep_def)
next
  case (snoc xs x)
  then have c: "component x" "list_all component xs" using segs_components[of cwd p] by auto
  then show ?thesis using snoc by (simp add: path_resolve_def dirname_abs)
qed

lemma grant_root_resolved: "path_resolve (h_cwd h) (workspaceAccessGrantRoot h (resolveRequestedPath h w p))
    = workspaceAccessGrantRoot h (resolveRequestedPath h w p)"
  by (simp add: workspaceAccessGrantRoot_def) (simp add: resolveRequestedPath_def Let_def dirname_resolved)

lemma entry_views: "rel_option (list_all2 same_entry) (map_of config k) (map_of config' k)
    \<Longrightarrow> map entryView (workspaceEntries config' k) = map entryView (workspaceEntries config k)"
  by (cases "map_of config k"; cases "map_of config' k") (simp_all add: workspaceEntries_def same_entry_view)

lemma granted_file_ok:
  assumes "loadWorkspaceAccessFile h a file = Inr config"
    and "js_trim base = base" "path_resolve (h_cwd h) base = base"
    and "\<forall>e \<in> set (concat (map snd config)). js_trim (wa_path e) = wa_path e"
  shows "file_ok (h_cwd h) (obj_put (path_resolve (h_cwd h) w)
      (js_sort cmp (grantedEntries base kind (workspaceEntries config (path_resolve (h_cwd h) w)))) config)"
proof -
  let ?w = "path_resolve (h_cwd h) w"
  have l: "distinct (map fst config)" "list_all (loaded_workspace (h_cwd h)) config"
    using loaded_file_ok[OF assms(1)] by blast+
  have old: "workspace_ok (h_cwd h) e" if "e \<in> set config" for e
    using that l(2) assms(4) by (fastforce simp: workspace_ok_def loaded_workspace_def list_all_iff entry_ok_def)
  have "list_all (entry_ok (h_cwd h)) (workspaceEntries config ?w)"
    using old by (cases "map_of config ?w") (auto simp: workspaceEntries_def workspace_ok_def dest: map_of_SomeD)
  then have "list_all (entry_ok (h_cwd h)) (grantedEntries base kind (workspaceEntries config ?w))"
    using assms(2,3) by (intro granted_ok)
  then have new: "workspace_ok (h_cwd h) (?w, js_sort cmp (grantedEntries base kind (workspaceEntries config ?w)))"
    by (simp add: workspace_ok_def list_all_iff)
  then show ?thesis using l(1) old
    by (auto simp: file_ok_def list_all_iff dest!: obj_put_entries)
qed

lemma granted_file:
  assumes "grantWorkspaceAccess h w target kind a file = Inr (base, written)" "loadWorkspaceAccessFile h a file = Inr config"
    and "path_isAbsolute (h_cwd h)" "js_trim base = base"
    and "\<forall>e \<in> set (concat (map snd config)). js_trim (wa_path e) = wa_path e"
  shows "\<exists>config'. loadWorkspaceAccessFile h a (Some written) = Inr config'
    \<and> (\<forall>k. k \<noteq> path_resolve (h_cwd h) w \<longrightarrow> map entryView (workspaceEntries config' k) = map entryView (workspaceEntries config k))
    \<and> mset (map entryView (workspaceEntries config' (path_resolve (h_cwd h) w)))
      = mset (map entryView (grantedEntries base kind (workspaceEntries config (path_resolve (h_cwd h) w))))"
proof -
  let ?w = "path_resolve (h_cwd h) w"
  let ?es = "js_sort (\<lambda>a b. h_lc h (wa_path a) (wa_path b)) (grantedEntries base kind (workspaceEntries config ?w))"
  have g: "base = workspaceAccessGrantRoot h (resolveRequestedPath h ?w target)"
      "written = JObj (serializeWorkspaceAccessConfig (h_lc h) (obj_put ?w ?es config))"
    using grant_written[OF assms(1,2)] by blast+
  have "path_resolve (h_cwd h) base = base" by (simp add: g(1) grant_root_resolved)
  then have "file_ok (h_cwd h) (obj_put ?w ?es config)" using assms by (intro granted_file_ok)
  then obtain config' where c: "parseWorkspaceAccessConfig (h_shw h) (serializeWorkspaceAccessConfig (h_lc h) (obj_put ?w ?es config))
        (workspaceAccessConfigPath h a) (h_cwd h) = Inr config'"
      "\<forall>k. rel_option (list_all2 same_entry) (map_of (obj_put ?w ?es config) k) (map_of config' k)"
    using reread[OF _ assms(3)] by blast
  have v: "map entryView (workspaceEntries config' k) = map entryView (workspaceEntries (obj_put ?w ?es config) k)" for k
    using c(2) by (intro entry_views) blast
  have "loadWorkspaceAccessFile h a (Some written) = Inr config'"
    using c(1) by (simp add: loadWorkspaceAccessFile_def g(2) asObject_def)
  moreover have "workspaceEntries (obj_put ?w ?es config) ?w = ?es" by (simp add: workspaceEntries_def jso.lookup_same)
  then have "mset (map entryView (workspaceEntries config' ?w))
      = mset (map entryView (grantedEntries base kind (workspaceEntries config ?w)))"
    using v[of ?w] by (metis mset_js_sort mset_map)
  moreover have "map entryView (workspaceEntries config' k) = map entryView (workspaceEntries config k)" if "k \<noteq> ?w" for k
    using v[of k] that by (simp add: workspaceEntries_def jso.lookup_other)
  ultimately show ?thesis by blast
qed

end
