(* ===== verification/PermissionClaims.thy ===== *)
theory PermissionClaims
  imports PermissionProps
begin

text \<open>
  What the permission code promises: protected and private paths stay closed to the file tools in every mode, an approved
  question is answered, a shell command is allowed only segment by segment. Where it falls short (names that begin
  with two dots, redirections, the work directory of a shell command) is in PermissionLimits.
\<close>

section \<open>Tokens are not empty\<close>

lemma tokenLoop_nonempty:
  "list_all (\<lambda>t. bt_text t \<noteq> []) (sc_tokens sc) \<Longrightarrow> tokenLoop mode sc s = Inr ts \<Longrightarrow> list_all (\<lambda>t. bt_text t \<noteq> []) ts"
proof (induction mode sc s rule: tokenLoop.induct)
  case (1 mode sc)
  then show ?case by (auto simp: flushCurrent_def split: if_splits)
next
  case (2 sc c s)
  then show ?case by (auto simp: addChar_def split: if_splits)
next
  case (3 sc c s)
  then show ?case by (auto simp: addChar_def markQuoted_def split: if_splits list.splits)
next
  case (4 sc c s)
  have f: "list_all (\<lambda>t. bt_text t \<noteq> []) (sc_tokens (flushCurrent sc))" using 4(7) by (simp add: flushCurrent_def)
  then have o: "list_all (\<lambda>t. bt_text t \<noteq> []) (sc_tokens (addOperator op sc))" if "readShellOperator (c # s) = Some op" for op
    using readShellOperator_nonempty[OF that] by (simp add: addOperator_def Let_def)
  show ?case using 4 f o by (auto simp: addChar_def markQuoted_def split: if_splits list.splits option.splits)
qed

lemma tokenize_nonempty: "tokenizeBashInput s = Inr ts \<Longrightarrow> list_all (\<lambda>t. bt_text t \<noteq> []) ts"
  unfolding tokenizeBashInput_def by (rule tokenLoop_nonempty[of emptyScan]) (simp_all add: emptyScan_def)

lemma segmentLoop_tokens:
  "segmentLoop segs cur ts = Inr out \<Longrightarrow> list_all (list_all P) segs \<Longrightarrow> list_all P cur \<Longrightarrow> list_all P ts \<Longrightarrow> list_all (list_all P) out"
  by (induction segs cur ts rule: segmentLoop.induct) (auto simp: Let_def split: if_splits)

lemma parse_nonempty: "parseBashSegments c = Inr segs \<Longrightarrow> list_all (list_all (\<lambda>t. bt_text t \<noteq> [])) segs"
  unfolding parseBashSegments_def
  by (auto simp: bind_result_eq_Inr split: if_splits dest!: tokenize_nonempty segmentLoop_tokens)

lemma commandWords_nonempty:
  "commandWords ts = Inr ws \<Longrightarrow> list_all (\<lambda>t. bt_text t \<noteq> []) ts \<Longrightarrow> list_all (\<lambda>w. w \<noteq> []) ws"
proof (induction ts arbitrary: ws rule: commandWords.induct)
  case (2 t ts)
  have d: "list_all (\<lambda>t. bt_text t \<noteq> []) (drop n ts)" for n using 2(6) by (auto simp: list_all_iff dest: in_set_dropD)
  show ?case using 2(5,6) d by (auto simp: bind_result_eq_Inr split: if_splits dest: 2(1-4))
qed simp

lemma normalize_nonempty:
  assumes "normalizeBashSegment ts = Inr s" "list_all (\<lambda>t. bt_text t \<noteq> []) ts"
  shows "s \<noteq> []"
proof -
  obtain ws where ws: "collectBashCommandWords ts = Inr ws" "s = js_join '' '' ws"
    using assms(1) by (auto simp: normalizeBashSegment_def bind_result_eq_Inr)
  have "ws \<noteq> [] \<and> list_all (\<lambda>w. w \<noteq> []) ws"
  proof (cases "dropWhile isAssignmentToken ts = []")
    case True
    then show ?thesis using ws(1) assms(2)
      by (auto simp: collectBashCommandWords_def list.pred_map comp_def split: if_splits)
  next
    case False
    have "list_all (\<lambda>t. bt_text t \<noteq> []) (dropWhile isAssignmentToken ts)"
      using assms(2) by (auto simp: list_all_iff dest: set_dropWhileD)
    then show ?thesis using ws(1) False commandWords_nonempty
      by (auto simp: collectBashCommandWords_def bind_result_eq_Inr split: if_splits)
  qed
  then show ?thesis using ws(2) by (cases ws; cases "tl ws") auto
qed

section \<open>Segments of an allowed command\<close>

definition segmentPermitted :: "Host \<Rightarrow> string \<Rightarrow> string option \<Rightarrow> bool \<Rightarrow> string \<Rightarrow> bool" where
  "segmentPermitted h w a granted s \<longleftrightarrow>
     (\<exists>r. evaluatePermissionRuleSet h w ''bash'' s a = Inr (Allow, Some r))
     \<or> evaluatePermissionRuleSet h w ''bash'' s a = Inr (Deny, None) \<and> bashSegmentIsWorkspaceSafe s
     \<or> (\<exists>r. evaluatePermissionRuleSet h w ''bash'' s a = Inr (Ask, Some r)) \<and> granted"

lemma ruleSet_matched: "evaluatePermissionRuleSet h w n s a = Inr (x, None) \<Longrightarrow> x = Deny"
  by (auto simp: evaluatePermissionRuleSet_def bind_result_eq_Inr split: option.splits)

lemma segmentDecisions_permitted:
  assumes "segmentDecisions h w a t asked ss = Inr (Inr out)" "list_all (\<lambda>s. s \<noteq> []) ss"
  shows "list_all (segmentPermitted h w a (\<exists>m s. out = Some (m, s) \<and> s \<noteq> [])) ss
    \<and> (asked \<noteq> None \<and> snd (the asked) \<noteq> [] \<longrightarrow> out = asked)"
  using assms
proof (induction ss arbitrary: asked)
  case (Cons s ss)
  obtain x m where e: "evaluatePermissionRuleSet h w ''bash'' s a = Inr (x, m)"
    using Cons.prems(1) by (cases "evaluatePermissionRuleSet h w ''bash'' s a") auto
  have m: "m = None \<Longrightarrow> x = Deny" using ruleSet_matched e by blast
  have s: "s \<noteq> []" "list_all (\<lambda>s. s \<noteq> []) ss" using Cons.prems(2) by simp_all
  show ?case
  proof (cases x)
    case Deny
    then have "m = None" "bashSegmentIsWorkspaceSafe s" "segmentDecisions h w a t asked ss = Inr (Inr out)"
      using Cons.prems(1) e by (auto split: if_splits)
    then show ?thesis using Cons.IH[OF _ s(2)] e Deny by (auto simp: segmentPermitted_def)
  next
    case Allow
    then have "segmentDecisions h w a t asked ss = Inr (Inr out)" using Cons.prems(1) e by simp
    then show ?thesis using Cons.IH[OF _ s(2)] e Allow m by (cases m) (auto simp: segmentPermitted_def)
  next
    case Ask
    define asked' where "asked' = (if (case asked of None \<Rightarrow> True | Some (_, seg) \<Rightarrow> seg = []) then Some (m, s) else asked)"
    have "segmentDecisions h w a t asked' ss = Inr (Inr out)" using Cons.prems(1) e Ask by (simp add: asked'_def)
    then have ih: "list_all (segmentPermitted h w a (\<exists>m s. out = Some (m, s) \<and> s \<noteq> [])) ss"
        "asked' \<noteq> None \<and> snd (the asked') \<noteq> [] \<longrightarrow> out = asked'"
      using Cons.IH[OF _ s(2)] by blast+
    have a': "asked' \<noteq> None \<and> snd (the asked') \<noteq> []" using s(1) by (auto simp: asked'_def split: option.splits prod.splits)
    then have out: "out = asked'" using ih(2) by blast
    have "\<exists>m s. out = Some (m, s) \<and> s \<noteq> []" using a' out by (cases asked') auto
    moreover have "out = asked" if "asked \<noteq> None \<and> snd (the asked) \<noteq> []" using that out by (auto simp: asked'_def split: prod.splits)
    moreover have "segmentPermitted h w a True s" using e Ask m by (cases m) (auto simp: segmentPermitted_def)
    ultimately show ?thesis using ih(1) by simp
  qed
qed simp

lemma checkSegment_Inr:
  "checkSegment h check b w a ts = Inr s \<Longrightarrow> normalizeBashSegment ts = Inr s
     \<and> bashSegmentModifiesProtectedPermissionConfig h ts w a = Inr False"
  by (auto simp: checkSegment_def bind_result_eq_Inr split: if_splits)

section \<open>Refused file calls\<close>

lemma file_call_refused:
  assumes "fileRequest h tool payload = Some (raw, kind)"
    and "path = resolveRequestedPath h (path_resolve (h_cwd h) (stringOr (h_shw h) (tr_workDir rt))) raw"
    and "authority = resolveLocalPermissionAuthorityRootFromRuntime (tr_metadata rt)"
    and "isPrivateRuntimePath h path authority (tool = ''grep'' \<or> tool = ''glob'') = Inr True
      \<or> kind = WriteAccess \<and> isProtectedPermissionConfigPath h path authority = Inr True"
  shows "\<exists>output. authorizeLocalToolCall h now rt tool payload boundary = (Refused output, rt)"
proof (cases "stringOr (h_shw h) (tr_workDir rt) = []")
  case True
  then show ?thesis by (simp add: authorizeLocalToolCall_def)
next
  case False
  define w where "w = path_resolve (h_cwd h) (stringOr (h_shw h) (tr_workDir rt))"
  have w: "path_resolve (h_cwd h) w = w" by (simp add: w_def)
  define g where "g = resolveLocalPermissionGrantFromRuntime (tr_localPermissionGrant rt)"
  define roots where "roots = resolveExecProtocolAdditionalWritableRoots (tr_metadata rt)"
  have tool: "evaluateLocalToolPermission h (stringOr (h_shw h) (tr_workDir rt)) tool payload authority g roots enf =
      bind_result (resolveFileToolScopeIntent (h_shw h) (js_prop payload ''scopeIntent''))
        (evaluateFilePermission h w raw kind tool authority g roots)" for enf
    unfolding w_def using assms(1) by (rule tool_file)
  show ?thesis
  proof (cases "resolveFileToolScopeIntent (h_shw h) (js_prop payload ''scopeIntent'')")
    case (Inl e)
    then show ?thesis using False tool by (simp add: authorizeLocalToolCall_def Let_def assms(3) g_def roots_def)
  next
    case (Inr scope)
    then have tool': "evaluateLocalToolPermission h (stringOr (h_shw h) (tr_workDir rt)) tool payload authority g roots enf
        = evaluateFilePermission h w raw kind tool authority g roots scope" for enf using tool by simp
    consider (err) e where "isPrivateRuntimePath h path authority (tool = ''grep'' \<or> tool = ''glob'') = Inl e"
      | (priv) "isPrivateRuntimePath h path authority (tool = ''grep'' \<or> tool = ''glob'') = Inr True"
      | (prot) "isPrivateRuntimePath h path authority (tool = ''grep'' \<or> tool = ''glob'') = Inr False"
          "kind = WriteAccess" "isProtectedPermissionConfigPath h path authority = Inr True"
      using assms(4) by (cases "isPrivateRuntimePath h path authority (tool = ''grep'' \<or> tool = ''glob'')") auto
    then show ?thesis
    proof cases
      case err
      then have "evaluateFilePermission h w raw kind tool authority g roots scope = Inl e"
        by (simp add: evaluateFilePermission_def Let_def w assms(2) w_def)
      then show ?thesis using False tool' by (simp add: authorizeLocalToolCall_def Let_def assms(3) g_def roots_def)
    next
      case priv
      then obtain d where "evaluateFilePermission h w raw kind tool authority g roots scope = Inr d" "de_action d = Deny"
          "de_reasonCode d = Some PrivateRuntimeData"
        using file_private[of h w raw authority tool kind g roots scope] by (auto simp: w assms(2) w_def)
      then show ?thesis using False tool' by (simp add: authorizeLocalToolCall_def Let_def assms(3) g_def roots_def)
    next
      case prot
      then obtain d where d: "evaluateFilePermission h w raw kind tool authority g roots scope = Inr d" "de_action d = Deny"
          "de_reasonCode d = Some ProtectedPermissionConfig" "de_permissionName d = Some ''edit''" "de_resolvedPath d = Some path"
        using file_protected[of h w raw authority tool g roots scope] by (auto simp: w assms(2) w_def)
      have "path_resolve (h_cwd h) path = path" by (simp add: assms(2))
      then show ?thesis using False tool' d prot(3)
        by (simp add: authorizeLocalToolCall_def Let_def refusal_def assms(3) g_def roots_def)
    qed
  qed
qed

section \<open>Claims\<close>

text \<open>C20: No file tool is authorized for a path in the private runtime data, nor a writing one for the protected
  permission configuration: whatever the mode of the session (the trusted modes included), a replayed grant, additional
  writable roots, the rules and the scope intent say, the call is refused and the runtime is left as it was.\<close>

theorem protected_paths_refused:
  assumes "fileRequest h tool payload = Some (raw, kind)"
    and "path = resolveRequestedPath h (path_resolve (h_cwd h) (stringOr (h_shw h) (tr_workDir rt))) raw"
    and "authority = resolveLocalPermissionAuthorityRootFromRuntime (tr_metadata rt)"
    and "isPrivateRuntimePath h path authority (tool = ''grep'' \<or> tool = ''glob'') = Inr True
      \<or> kind = WriteAccess \<and> isProtectedPermissionConfigPath h path authority = Inr True"
  shows "\<exists>output. authorizeLocalToolCall h now rt tool payload boundary = (Refused output, rt)"
  by (rule file_call_refused[OF assms])

text \<open>C22: Approval is enough: whenever the evaluation of a tool call asks, it names a grant with which the same call,
  evaluated again, is allowed. This holds for file tools inside and outside the workspace and for shell commands with
  supported and unsupported syntax.\<close>

theorem approval_suffices:
  assumes "evaluateLocalToolPermission h workDir tool payload authority grant roots enforced = Inr d" "de_action d = Ask"
  shows "\<exists>g d'. de_approvalGrant d = Some g
    \<and> evaluateLocalToolPermission h workDir tool payload authority (Some g) roots enforced = Inr d' \<and> de_action d' = Allow"
  using tool_grant assms unfolding grantSuffices_def by blast

text \<open>C21: A shell command with supported syntax is allowed only if each of its segments is: none of them touches the
  protected configuration as seen from the workspace, and each that runs a program is allowed by a rule, or is one of the
  read-only programs and no rule applies, or is to be asked for and the grant names exactly the segments of the command.\<close>

theorem bash_allowed_by_segments:
  assumes "evaluateBashPermission h workDir payload authority grant enforced = Inr d" "de_action d = Allow"
    and "js_prop payload ''command'' = JStr command" "parseBashSegments command = Inr segments"
  shows "\<exists>normalized. map_result normalizeBashSegment segments = Inr normalized
    \<and> (\<forall>seg \<in> set segments. bashSegmentModifiesProtectedPermissionConfig h seg workDir authority = Inr False)
    \<and> (\<forall>(s, seg) \<in> set (zip normalized segments). bashSegmentIsPureAssignment seg
        \<or> segmentPermitted h workDir authority
            (matchesApprovalGrant h grant ''bash'' workDir (serializeBashSegments normalized)) s)"
proof -
  obtain check b where ev: "evaluateSegments h check b workDir authority grant segments = Inr d"
    using assms(1,3,4) unfolding evaluateBashPermission_def Let_def
    by (auto simp: bind_result_eq_Inr split: if_splits)
  obtain normalized where n: "list_all2 (\<lambda>ts s. checkSegment h check b workDir authority ts = Inr s) segments normalized"
    using ev by (auto simp: evaluateSegments_def bind_result_eq_Inr map_result_Inr)
  define ss where "ss = map fst (filter (\<lambda>p. \<not> bashSegmentIsPureAssignment (snd p)) (zip normalized segments))"
  have m: "map_result (checkSegment h check b workDir authority) segments = Inr normalized" using n by (simp add: map_result_Inr)
  have n1: "list_all2 (\<lambda>ts s. normalizeBashSegment ts = Inr s) segments normalized"
    using n by (rule list_all2_mono) (blast dest: checkSegment_Inr)
  have n2: "\<forall>seg \<in> set segments. bashSegmentModifiesProtectedPermissionConfig h seg workDir authority = Inr False"
    using n checkSegment_Inr by (fastforce simp: list_all2_conv_all_nth in_set_conv_nth)
  have ne: "list_all (\<lambda>s. s \<noteq> []) normalized"
    using n1 parse_nonempty[OF assms(4)] normalize_nonempty by (auto simp: list_all_length list_all2_conv_all_nth)
  then have nes: "list_all (\<lambda>s. s \<noteq> []) ss" by (auto simp: ss_def list_all_iff dest: set_zip_leftD)
  obtain r where r: "segmentDecisions h workDir authority (serializeBashSegments normalized) None ss = Inr r"
      "(case r of Inl denied \<Rightarrow> Inr denied | Inr asked \<Rightarrow> Inr (askDecision h workDir grant (serializeBashSegments normalized) asked)) = (Inr d :: LocalPermissionDecision result)"
    using ev m by (auto simp: evaluateSegments_def Let_def bind_result_eq_Inr ss_def)
  obtain asked where asked: "r = Inr asked" "d = askDecision h workDir grant (serializeBashSegments normalized) asked"
    using r segmentDecisions_deny assms(2) by (cases r) auto
  have "(\<exists>m s. asked = Some (m, s) \<and> s \<noteq> []) \<longrightarrow> matchesApprovalGrant h grant ''bash'' workDir (serializeBashSegments normalized)"
    using asked(2) assms(2) by (auto simp: askDecision_def split: if_splits)
  moreover have "list_all (segmentPermitted h workDir authority (\<exists>m s. asked = Some (m, s) \<and> s \<noteq> [])) ss"
    using segmentDecisions_permitted[OF r(1)[unfolded asked(1)] nes] by blast
  ultimately have "list_all (segmentPermitted h workDir authority
      (matchesApprovalGrant h grant ''bash'' workDir (serializeBashSegments normalized))) ss"
    by (auto simp: list_all_iff segmentPermitted_def)
  then have "\<forall>(s, seg) \<in> set (zip normalized segments). bashSegmentIsPureAssignment seg \<or> segmentPermitted h workDir authority
      (matchesApprovalGrant h grant ''bash'' workDir (serializeBashSegments normalized)) s"
    by (force simp: ss_def list_all_iff)
  then show ?thesis using n1 n2 by (auto simp: map_result_Inr)
qed

end
