(* ===== verification/PermissionLimits.thy ===== *)
theory PermissionLimits
  imports PermissionClaims
begin

text \<open>
  Where permission decisions are weaker than they look: containment ignores names that begin with two dots, the segments
  of a shell command leave out its redirections, protected configuration is looked for from the workspace although a
  command may run elsewhere, and a persisted grant can cover more than was asked for.
\<close>

section \<open>Containment\<close>

text \<open>C0: \<open>isPathWithin\<close> is containment of the normalized components except in one case: a candidate counts as outside
  when the first component below the root begins with two dots, such as the file \<open>..x\<close>.\<close>

theorem within_is_prefix_but_for_dots:
  "isPathWithin cwd candidate base \<longleftrightarrow>
     (\<exists>rest. segs_of cwd candidate = segs_of cwd base @ rest \<and> \<not> starts_with ''..'' (hd (rest @ [[]])))"
proof -
  have "(rest = [] \<or> \<not> starts_with ''..'' (hd rest)) \<longleftrightarrow> \<not> starts_with ''..'' (hd (rest @ [[]]))" for rest :: "string list"
    by (cases rest) (simp_all add: starts_with_def)
  then show ?thesis by (simp only: isPathWithin_iff)
qed

lemma some_result_False: "(\<And>x. x \<in> set xs \<Longrightarrow> f x = Inr False) \<Longrightarrow> some_result f xs = Inr False"
  by (induction xs) simp_all

text \<open>Files in a protected directory whose name begins with two dots are not protected: with a store that protects
  the directory and does not rewrite paths, writing them is not recognized as a change of protected configuration.\<close>

theorem dotdot_names_not_protected:
  assumes "ps_canonicalProtectionPath (h_store h) = None" "protectedPermissionConfigPaths h authority = [dir]"
    and "component name" "starts_with ''..'' name"
  shows "segs_of (h_cwd h) (abs_path (segs_of (h_cwd h) dir @ [name])) = segs_of (h_cwd h) dir @ [name]
    \<and> isProtectedPermissionConfigPath h (abs_path (segs_of (h_cwd h) dir @ [name])) authority = Inr False"
proof -
  have s: "segs_of (h_cwd h) (abs_path (segs_of (h_cwd h) dir @ [name])) = segs_of (h_cwd h) dir @ [name]"
    using assms(3) segs_components[of "h_cwd h" dir] by simp
  then have "\<not> isPathWithin (h_cwd h) (abs_path (segs_of (h_cwd h) dir @ [name])) dir"
    using assms(4) by (simp add: isPathWithin_iff)
  then show ?thesis using s assms(1,2)
    by (simp add: isProtectedPermissionConfigPath_def canonicalProtectionPath_def)
qed

section \<open>Redirections\<close>

lemma redirection_ops: "isOp REDIRECTION_OPERATORS t \<Longrightarrow> \<not> isOp FD_DUPLICATION_OPERATORS t \<and> bt_kind t = Operator"
  by (auto simp: isOp_def REDIRECTION_OPERATORS_def FD_DUPLICATION_OPERATORS_def)

lemma fd_append:
  assumes "bt_kind t = Operator" "\<not> isOp FD_DUPLICATION_OPERATORS t" "ts \<noteq> []" "commandWords ts = Inr ws"
  shows "isFdDuplicationRedirection (ts @ t # us) = isFdDuplicationRedirection ts"
proof (cases ts)
  case (Cons a as)
  show ?thesis
  proof (cases as)
    case Nil
    have "\<not> isOp FD_DUPLICATION_OPERATORS a" using assms(4) Cons Nil by (auto simp: isOp_def isWordAt_def split: if_splits)
    then show ?thesis using assms(1,2) Cons Nil by (cases us) (auto simp: fdTargetWord_def)
  next
    case (Cons b bs)
    then show ?thesis using assms(1) \<open>ts = a # as\<close> by (cases bs) (auto simp: fdTargetWord_def)
  qed
qed (use assms in simp)

lemma isWordAt_append: "n < length ts \<Longrightarrow> isWordAt n (ts @ us) = isWordAt n ts"
  by (simp add: isWordAt_def nth_append)

lemma commandWords_redirection:
  assumes "isOp REDIRECTION_OPERATORS t" "bt_kind u = Word"
  shows "commandWords ts = Inr ws \<Longrightarrow> (ts \<noteq> [] \<Longrightarrow> \<not> plainDigits (last ts)) \<Longrightarrow> commandWords (ts @ [t, u]) = Inr ws"
proof (induction ts arbitrary: ws rule: commandWords.induct)
  case 1
  have "\<not> isOp [''<<'', ''|&''] t" "\<not> plainDigits t" using assms(1) by (auto simp: isOp_def REDIRECTION_OPERATORS_def plainDigits_def)
  then show ?case using 1 assms redirection_ops[OF assms(1)] by (simp add: isWordAt_def)
next
  case (2 a as)
  note op = redirection_ops[OF assms(1)]
  have fd: "isFdDuplicationRedirection (a # as @ [t, u]) = isFdDuplicationRedirection (a # as)"
    using fd_append[of t "a # as" ws "[u]"] op 2(5) by simp
  show ?case
  proof (cases "isFdDuplicationRedirection (a # as)")
    case True
    have len: "length as \<ge> (if bt_kind a = Word then 2 else 1)"
      using True by (cases as; cases "tl as") (auto simp: isOp_def split: if_splits)
    then have d: "drop (if bt_kind a = Word then 2 else 1) (as @ [t, u]) = drop (if bt_kind a = Word then 2 else 1) as @ [t, u]"
      by (cases "bt_kind a = Word") simp_all
    have "commandWords (drop (if bt_kind a = Word then 2 else 1) as @ [t, u]) = Inr ws"
      using 2(1)[of ws] 2(5,6) True len by (auto simp: last_drop split: if_splits)
    then show ?thesis using 2(5) True fd d by (auto split: if_splits)
  next
    case False
    show ?thesis
    proof (cases as)
      case Nil
      have a: "\<not> plainDigits a" using 2(6) Nil by simp
      then show ?thesis using 2(4)[of "[]"] 2(5) Nil False fd assms op
        by (auto simp: bind_result_eq_Inr isWordAt_def split: if_splits)
    next
      case (Cons b bs)
      have l: "\<not> plainDigits (last as)" using 2(6) Cons by simp
      have bad: "\<not> isOp [''<<'', ''|&''] a" using 2(5) by (auto split: if_splits)
      have step: "commandWords (a # as @ [t, u]) =
          (if plainDigits a \<and> isOp REDIRECTION_OPERATORS b then
             (if isWordAt 1 (as @ [t, u]) then commandWords (drop 2 (as @ [t, u])) else Inl unsupported)
           else if isOp REDIRECTION_OPERATORS a then
             (if isWordAt 0 (as @ [t, u]) then commandWords (drop 1 (as @ [t, u])) else Inl unsupported)
           else if bt_kind a \<noteq> Word then Inl unsupported
           else if \<not> bt_quoted a \<and> (bt_text a = ''{'' \<or> bt_text a = ''}'') then Inl unsupported
           else bind_result (commandWords (as @ [t, u])) (\<lambda>ws. Inr (bt_text a # ws)))"
        using bad False fd Cons by simp
      consider (fdr) "plainDigits a" "isOp REDIRECTION_OPERATORS b"
        | (red) "\<not> (plainDigits a \<and> isOp REDIRECTION_OPERATORS b)" "isOp REDIRECTION_OPERATORS a"
        | (word) "\<not> (plainDigits a \<and> isOp REDIRECTION_OPERATORS b)" "\<not> isOp REDIRECTION_OPERATORS a" by blast
      then show ?thesis
      proof cases
        case fdr
        then have w: "isWordAt 1 as" "commandWords (drop 2 as) = Inr ws"
          using 2(5) bad False Cons by (auto split: if_splits)
        then have len: "length as \<ge> 2" by (simp add: isWordAt_def)
        have "commandWords (drop 2 as @ [t, u]) = Inr ws"
          using 2(2)[of ws] bad False Cons fdr w l by (auto simp: last_drop split: if_splits)
        then show ?thesis using step fdr w len by (simp add: isWordAt_append)
      next
        case red
        then have w: "isWordAt 0 as" "commandWords (drop 1 as) = Inr ws"
          using 2(5) bad False Cons by (auto split: if_splits)
        have "commandWords (drop 1 as @ [t, u]) = Inr ws"
          using 2(3)[of ws] bad False Cons red w l by (auto simp: last_drop split: if_splits)
        then show ?thesis using step red w Cons by (simp add: isWordAt_def)
      next
        case word
        then obtain ws' where w: "bt_kind a = Word" "\<not> (\<not> bt_quoted a \<and> (bt_text a = ''{'' \<or> bt_text a = ''}''))"
            "commandWords as = Inr ws'" "ws = bt_text a # ws'"
          using 2(5) bad False Cons by (auto simp: bind_result_eq_Inr split: if_splits)
        have "commandWords (as @ [t, u]) = Inr ws'"
          using 2(4)[of ws'] bad False Cons word w l by simp
        then show ?thesis using step word w by simp
      qed
    qed
  qed
qed


text \<open>A redirection is not part of what is authorized: adding one to a command leaves the text unchanged that rules
  are matched with, that the read-only list is consulted for and that an approval names. An approval of a command with a
  redirection to one file therefore covers the same command writing to any other.\<close>

theorem redirection_not_in_segment:
  assumes "collectBashCommandWords tokens = Inr words" "\<not> list_all isAssignmentToken tokens" "\<not> plainDigits (last tokens)"
    and "isOp REDIRECTION_OPERATORS operator" "bt_kind file = Word"
  shows "normalizeBashSegment (tokens @ [operator, file]) = normalizeBashSegment tokens"
proof -
  let ?rest = "dropWhile isAssignmentToken tokens"
  have rest: "?rest \<noteq> []" using assms(2) by (auto simp: list_all_iff)
  have ne: "tokens \<noteq> []" using rest by auto
  have app: "dropWhile isAssignmentToken (tokens @ [operator, file]) = ?rest @ [operator, file]"
    using assms(2) by (auto simp: list_all_iff intro: dropWhile_append1)
  have cw: "commandWords ?rest = Inr words" using assms(1) ne rest
    by (auto simp: collectBashCommandWords_def bind_result_eq_Inr split: if_splits)
  have "last ?rest = last tokens" using rest by (metis last_appendR takeWhile_dropWhile_id)
  then have "commandWords (?rest @ [operator, file]) = Inr words"
    using commandWords_redirection[OF assms(4,5) cw] assms(3) by simp
  then show ?thesis using ne rest app cw unfolding normalizeBashSegment_def collectBashCommandWords_def Let_def
    by (simp del: dropWhile_eq_Nil_conv)
qed

section \<open>The work directory of a shell command\<close>

text \<open>A host with protected files, no rules and nothing private.\<close>

definition plainStore :: "string list \<Rightarrow> LocalPermissionConfigStore" where
  "plainStore protected = \<lparr>ps_loadLocalPermissionsConfig = (\<lambda>_. Inr \<lparr>lp_rules = [], lp_overrides = []\<rparr>),
     ps_loadWorkspaceAccessConfig = (\<lambda>_. Inr []), ps_protectedPermissionConfigPaths = (\<lambda>_. protected),
     ps_canonicalProtectionPath = None, ps_privateRuntimePaths = None, ps_inspectRecursivePrivateRuntime = None\<rparr>"

definition plainHost :: "string list \<Rightarrow> Host" where
  "plainHost protected = \<lparr>h_cwd = ''/'', h_home = ''/h'', h_isDirectory = (\<lambda>_. False), h_shw = (\<lambda>_. ''n''), h_lc = unit_compare,
     h_store = plainStore protected\<rparr>"

definition shellCall :: "string \<Rightarrow> jsv \<Rightarrow> jsv" where
  "shellCall command dir = JObj [(''command'', JStr command), (''workdir'', dir)]"

lemma plain_private [simp]: "isPrivateRuntimePath (plainHost ps) c a r = Inr False"
  by (simp add: isPrivateRuntimePath_def canonicalProtectionPath_def privateRuntimePaths_def
    recursivePathReferencesPrivateRuntime_def plainHost_def plainStore_def)

lemma some_false [simp]: "some_result (\<lambda>_. Inr False) xs = Inr False"
  by (induction xs) simp_all

lemma plain_raw:
  "\<not> rx_test namedHomeCredentials (normalizedCommand c) \<Longrightarrow> \<not> rx_test npmConfigCommand (normalizedCommand c)
     \<Longrightarrow> bashRawCommandReferencesPrivateRuntime (plainHost ps) (\<lambda>_ _. Inr False) c w a = Inr False"
  by (simp add: bashRawCommandReferencesPrivateRuntime_def bashTokenTargetsPrivateRuntime_def Let_def or_result_def
    privateRuntimePaths_def plainHost_def plainStore_def)

lemma plain_touch: "segmentTouchesPrivate h (\<lambda>_ _. Inr False) b ts ws = Inr False"
proof -
  have "bashTokenTargetsPrivateRuntime h (\<lambda>_ _. Inr False) c b r = Inr False" for c r
    by (simp add: bashTokenTargetsPrivateRuntime_def Let_def)
  then show ?thesis by (simp add: segmentTouchesPrivate_def Let_def or_result_def some_result_False)
qed

lemma plain_rules: "evaluatePermissionRuleSet (plainHost ps) w n p a = Inr (Deny, None)"
  by (simp add: evaluatePermissionRuleSet_def selectEffectivePermissionRules_def Let_def plainHost_def plainStore_def)

text \<open>A one-segment command over a host without private paths and rules.\<close>

lemma plain_bash:
  assumes "\<not> rx_test namedHomeCredentials (normalizedCommand c)" "\<not> rx_test npmConfigCommand (normalizedCommand c)"
    and "parseBashSegments c = Inr [ts]" "collectBashCommandWords ts = Inr ws" "bashSegmentIsWorkspaceSafe (js_join '' '' ws)"
    and "bashSegmentModifiesProtectedPermissionConfig (plainHost ps) ts ''/w'' None = Inr m"
  shows "evaluateBashPermission (plainHost ps) ''/w'' (shellCall c dir) None None None
    = (if m then Inl protectedBash else Inr (bashDecision Allow (serializeBashSegments [js_join '' '' ws])))"
proof -
  have "evaluateBashPermission (plainHost ps) ''/w'' (shellCall c dir) None None None
      = evaluateSegments (plainHost ps) (\<lambda>_ _. Inr False)
          (case dir of JStr d \<Rightarrow> (if js_trim d \<noteq> [] then resolveRequestedPath (plainHost ps) ''/w'' d else ''/w'') | _ \<Rightarrow> ''/w'')
          ''/w'' None None [ts]"
    using assms(3) plain_raw[OF assms(1,2)]
    by (simp add: evaluateBashPermission_def shellCall_def hasReadBoundary_def or_result_def Let_def)
  moreover have "evaluateSegments (plainHost ps) (\<lambda>_ _. Inr False) b ''/w'' None None [ts]
      = (if m then Inl protectedBash else Inr (bashDecision Allow (serializeBashSegments [js_join '' '' ws])))" for b
    using assms(4-6)
    by (simp add: evaluateSegments_def checkSegment_def plain_touch normalizeBashSegment_def plain_rules askDecision_def Let_def)
  ultimately show ?thesis by simp
qed

lemma plain_tool:
  "evaluateLocalToolPermission (plainHost ps) ''/w'' ''bash'' payload None None [] None
    = evaluateBashPermission (plainHost ps) ''/w'' payload None None None"
proof -
  have "path_resolve (h_cwd (plainHost ps)) ''/w'' = ''/w''" by (simp add: plainHost_def) code_simp
  then show ?thesis by (simp add: evaluateLocalToolPermission_def Let_def)
qed

lemmas plain_command = plain_bash[folded plain_tool]

definition wordToken :: "string \<Rightarrow> BashToken" where
  "wordToken s = \<lparr>bt_text = s, bt_kind = Word, bt_quoted = False\<rparr>"

definition operatorToken :: "string \<Rightarrow> BashToken" where
  "operatorToken s = \<lparr>bt_text = s, bt_kind = Operator, bt_quoted = False\<rparr>"

definition echoTokens :: "string \<Rightarrow> BashToken list" where
  "echoTokens f = [wordToken ''echo'', wordToken ''x'', operatorToken ''>'', wordToken f]"

lemma echo_words: "collectBashCommandWords (echoTokens f) = Inr [''echo'', ''x'']"
  by (simp add: echoTokens_def wordToken_def operatorToken_def collectBashCommandWords_def isAssignmentToken_def
    isEnvAssignment_def plainDigits_def allDigits_def isOp_def isWordAt_def fdTargetWord_def isFdTarget_def
    REDIRECTION_OPERATORS_def FD_DUPLICATION_OPERATORS_def; code_simp?)
lemma echo_protected:
  assumes "js_trim f \<noteq> []" "isPathWithin ''/'' (resolveRequestedPath (plainHost [p]) w (js_trim f)) p = m"
    and "isPathWithin ''/'' (resolveRequestedPath (plainHost [p]) w ''x'') p = False"
  shows "bashSegmentModifiesProtectedPermissionConfig (plainHost [p]) (echoTokens f) w None = Inr m"
proof -
  have t: "bashTokenTargetsProtectedPermissionConfig (plainHost [p]) g w None
      = Inr (js_trim g \<noteq> [] \<and> isPathWithin ''/'' (resolveRequestedPath (plainHost [p]) w (js_trim g)) p)" for g
    by (simp add: bashTokenTargetsProtectedPermissionConfig_def isProtectedPermissionConfigPath_def canonicalProtectionPath_def
      protectedPermissionConfigPaths_def plainHost_def plainStore_def Let_def)
  have x: "js_trim ''x'' = ''x''" by code_simp
  have r: "bashRedirectionTargetsProtectedPermissionConfig (plainHost [p]) w None (echoTokens f) = Inr m"
    using assms(1,2) by (simp add: echoTokens_def wordToken_def operatorToken_def isOp_def plainDigits_def allDigits_def
      REDIRECTION_OPERATORS_def isWordAt_def or_result_def t)
  then show ?thesis using assms(3) by (simp add: bashSegmentModifiesProtectedPermissionConfig_def or_result_def echo_words t x)
qed

lemma echo_texts:
  "normalizedCommand ''echo x>p'' = ''echo x>p''" "normalizedCommand ''echo x>/e/p'' = ''echo x>/e/p''"
  "rx_test namedHomeCredentials ''echo x>p'' = False" "rx_test namedHomeCredentials ''echo x>/e/p'' = False"
  "rx_test npmConfigCommand ''echo x>p'' = False" "rx_test npmConfigCommand ''echo x>/e/p'' = False"
  "parseBashSegments ''echo x>p'' = Inr [echoTokens ''p'']" "parseBashSegments ''echo x>/e/p'' = Inr [echoTokens ''/e/p'']"
  "bashSegmentIsWorkspaceSafe (js_join '' '' [''echo'', ''x''])"
  by code_simp+

lemma plain_resolve:
  assumes "p = [] \<or> hd p \<notin> {CHR ''$'', CHR 0x25, CHR 0x7E}"
  shows "resolveRequestedPath (plainHost ps) w p = path_resolve ''/'' (if path_isAbsolute p then p else path_resolve2 ''/'' w p)"
  using assms by (simp add: resolveRequestedPath_def expand_plain plainHost_def)

lemma echo_paths:
  "js_trim ''p'' = ''p''" "js_trim ''/e/p'' = ''/e/p''"
  "path_resolve ''/'' (path_resolve2 ''/'' ''/w'' ''p'') = ''/w/p''" "path_resolve ''/'' ''/e/p'' = ''/e/p''"
  "path_resolve ''/'' (path_resolve2 ''/'' ''/w'' ''x'') = ''/w/x''" "path_resolve ''/'' (path_resolve2 ''/'' ''/e'' ''p'') = ''/e/p''"
  "\<not> path_isAbsolute ''p''" "\<not> path_isAbsolute ''x''" "path_isAbsolute ''/e/p''"
  "\<not> isPathWithin ''/'' ''/w/p'' ''/e/p''" "\<not> isPathWithin ''/'' ''/w/x'' ''/e/p''"
  by code_simp+

text \<open>The private data check, the one check that takes the work directory of the call into account, has no objection to
  a command run in a directory.\<close>

definition privateDataSpared ::
  "Host \<Rightarrow> string option \<Rightarrow> string list option \<Rightarrow> string \<Rightarrow> BashToken list list \<Rightarrow> string \<Rightarrow> bool" where
  "privateDataSpared h a enf command segs dir \<longleftrightarrow> (\<exists>boundary. hasReadBoundary h enf a = Inr boundary \<and>
     (let check = (\<lambda>c r. isPrivateRuntimePath h c a (r \<and> \<not> boundary)) in
        check dir False = Inr False \<and> bashRawCommandReferencesPrivateRuntime h check command dir a = Inr False
        \<and> (\<forall>ts \<in> set segs. \<forall>ws. collectBashCommandWords ts = Inr ws \<longrightarrow> segmentTouchesPrivate h check dir ts ws = Inr False)))"

lemma map_result_cong: "(\<And>x. x \<in> set xs \<Longrightarrow> f x = g x) \<Longrightarrow> map_result f xs = map_result g xs"
  by (induction xs) simp_all

lemma map_result_fails: "x \<in> set xs \<Longrightarrow> f x = Inl e \<Longrightarrow> \<exists>e'. map_result f xs = Inl e'"
  by (induction xs) (auto split: bind_result_split)

lemma checkSegment_fails:
  assumes "bashSegmentModifiesProtectedPermissionConfig h ts w a = Inr True"
  shows "\<exists>e. checkSegment h check b w a ts = Inl e"
proof (cases "collectBashCommandWords ts")
  case (Inr ws)
  then show ?thesis using assms
    by (cases "segmentTouchesPrivate h check b ts ws") (auto simp: checkSegment_def)
qed (simp add: checkSegment_def)

lemma segments_refused:
  assumes "ts \<in> set segs" "bashSegmentModifiesProtectedPermissionConfig h ts w a = Inr True"
  shows "\<exists>e. evaluateSegments h check b w a g segs = Inl e"
proof -
  obtain e where "checkSegment h check b w a ts = Inl e" using checkSegment_fails[OF assms(2)] by blast
  then obtain e' where "map_result (checkSegment h check b w a) segs = Inl e'"
    using map_result_fails[OF assms(1), of "checkSegment h check b w a"] by blast
  then show ?thesis by (simp add: evaluateSegments_def)
qed

lemma command_in_workspace:
  assumes "parseBashSegments command = Inr segs"
  shows "evaluateBashPermission h w (shellCall command JUndef) a g enf =
    bind_result (hasReadBoundary h enf a) (\<lambda>boundary.
      let check = (\<lambda>c r. isPrivateRuntimePath h c a (r \<and> \<not> boundary)) in
      bind_result (or_result (check w False) (\<lambda>_. bashRawCommandReferencesPrivateRuntime h check command w a)) (\<lambda>private.
        if private then Inl privateBash else evaluateSegments h check w w a g segs))"
  by (simp add: evaluateBashPermission_def shellCall_def assms cong: if_cong)

lemma refused_as_workspace:
  assumes "parseBashSegments command = Inr segs" "ts \<in> set segs"
    and "bashSegmentModifiesProtectedPermissionConfig h ts w a = Inr True"
  shows "\<exists>e. evaluateBashPermission h w (shellCall command JUndef) a g enf = Inl e"
  using segments_refused[OF assms(2,3)] unfolding command_in_workspace[OF assms(1)]
  by (auto simp: Let_def split: bind_result_split)

lemma spared_decision:
  assumes "parseBashSegments command = Inr segs" "hasReadBoundary h enf a = Inr boundary"
    and "bashWorkDir = (case dir of JStr d \<Rightarrow> (if js_trim d \<noteq> [] then resolveRequestedPath h w d else w) | _ \<Rightarrow> w)"
    and "privateDataSpared h a enf command segs bashWorkDir"
  shows "evaluateBashPermission h w (shellCall command dir) a g enf
    = evaluateSegments h (\<lambda>_ _. Inr False) w w a g segs"
proof -
  let ?check = "\<lambda>c r. isPrivateRuntimePath h c a (r \<and> \<not> boundary)"
  have spared: "?check bashWorkDir False = Inr False"
    "bashRawCommandReferencesPrivateRuntime h ?check command bashWorkDir a = Inr False"
    "\<And>ts ws. ts \<in> set segs \<Longrightarrow> collectBashCommandWords ts = Inr ws \<Longrightarrow> segmentTouchesPrivate h ?check bashWorkDir ts ws = Inr False"
    using assms(2,4) by (auto simp: privateDataSpared_def Let_def)
  have "evaluateBashPermission h w (shellCall command dir) a g enf = evaluateSegments h ?check bashWorkDir w a g segs"
    using spared(1,2) by (simp add: evaluateBashPermission_def shellCall_def assms(1,2) assms(3)[symmetric] or_result_def)
  moreover have "checkSegment h ?check bashWorkDir w a ts = checkSegment h (\<lambda>_ _. Inr False) w w a ts" if "ts \<in> set segs" for ts
    using spared(3)[OF that] by (cases "collectBashCommandWords ts") (simp_all add: checkSegment_def plain_touch)
  then have "map_result (checkSegment h ?check bashWorkDir w a) segs = map_result (checkSegment h (\<lambda>_ _. Inr False) w w a) segs"
    by (rule map_result_cong)
  ultimately show ?thesis by (simp add: evaluateSegments_def)
qed

text \<open>C25: The check for protected configuration does not see the work directory of a shell call. Take a command that can be
  parsed, a work directory given by the call, and a segment that modifies a protected file when its words are read in that
  directory, the one the command runs in, and let the private data check have no objection in either directory. With the
  directory as workspace the command is refused; called from the workspace with this work directory it gets the decision
  it gets without one, whatever the rules, the grant and the workspace are.\<close>

theorem workdir_bypasses_protection:
  assumes "parseBashSegments command = Inr segs" "tokens \<in> set segs" "js_trim dir \<noteq> []"
    and "workspace = path_resolve (h_cwd h) w" "runDir = resolveRequestedPath h workspace dir"
    and "bashSegmentModifiesProtectedPermissionConfig h tokens runDir a = Inr True"
    and "privateDataSpared h a enf command segs workspace" "privateDataSpared h a enf command segs runDir"
  shows "(\<exists>e. evaluateLocalToolPermission h runDir ''bash'' (shellCall command JUndef) a g roots enf = Inl e)
    \<and> evaluateLocalToolPermission h w ''bash'' (shellCall command (JStr dir)) a g roots enf
      = evaluateLocalToolPermission h w ''bash'' (shellCall command JUndef) a g roots enf"
proof -
  have tool: "evaluateLocalToolPermission h d ''bash'' payload a g roots enf
      = evaluateBashPermission h (path_resolve (h_cwd h) d) payload a g enf" for d payload
    by (simp add: evaluateLocalToolPermission_def Let_def)
  obtain boundary where b: "hasReadBoundary h enf a = Inr boundary" using assms(7) by (auto simp: privateDataSpared_def)
  have "evaluateBashPermission h workspace (shellCall command (JStr dir)) a g enf
      = evaluateBashPermission h workspace (shellCall command JUndef) a g enf"
    using spared_decision[OF assms(1) b _ assms(8), where dir = "JStr dir" and w = workspace and g = g]
      spared_decision[OF assms(1) b _ assms(7), where dir = JUndef and w = workspace and g = g]
      assms(3,5,7,8) by simp
  then show ?thesis using refused_as_workspace[OF assms(1,2,6), of g enf] by (simp add: tool assms(4,5))
qed

lemma plain_spared:
  "\<not> rx_test namedHomeCredentials (normalizedCommand c) \<Longrightarrow> \<not> rx_test npmConfigCommand (normalizedCommand c)
     \<Longrightarrow> privateDataSpared (plainHost ps) a None c segs d"
  by (simp add: privateDataSpared_def hasReadBoundary_def plain_raw plain_touch Let_def exI[of Not False])

lemma echo_e:
  "path_resolve ''/'' ''/w'' = ''/w''" "path_resolve ''/'' ''/e'' = ''/e''" "path_isAbsolute ''/e''" "js_trim ''/e'' \<noteq> []"
  "\<not> isPathWithin ''/'' (path_resolve2 ''/'' ''/e'' ''x'') ''/e/p''"
  by code_simp+

text \<open>With \<open>/e/p\<close> protected, \<open>echo x>p\<close> run in \<open>/e\<close> writes the protected file and is allowed from the workspace \<open>/w\<close>.\<close>

theorem workdir_bypasses_protection_witness:
  "(\<exists>e. evaluateLocalToolPermission (plainHost [''/e/p'']) ''/e'' ''bash'' (shellCall ''echo x>p'' JUndef) None None [] None = Inl e)
   \<and> map_sum id de_action (evaluateLocalToolPermission (plainHost [''/e/p'']) ''/w'' ''bash'' (shellCall ''echo x>p'' (JStr ''/e'')) None None [] None)
       = Inr Allow"
proof -
  let ?h = "plainHost [''/e/p'']"
  have paths: "path_resolve (h_cwd ?h) ''/w'' = ''/w''" "resolveRequestedPath ?h ''/w'' ''/e'' = ''/e''" "js_trim ''/e'' \<noteq> []"
    by (simp add: plainHost_def echo_e) (simp_all add: plain_resolve echo_e)
  have in_e: "bashSegmentModifiesProtectedPermissionConfig ?h (echoTokens ''p'') ''/e'' None = Inr True"
    by (rule echo_protected) (simp_all add: plain_resolve echo_paths echo_e)
  have spared: "privateDataSpared ?h None None ''echo x>p'' [echoTokens ''p''] d" for d
    by (intro plain_spared) (simp_all add: echo_texts)
  note bypass = workdir_bypasses_protection[OF echo_texts(7) _ paths(3) paths(1)[symmetric] paths(2)[symmetric] in_e spared spared,
    where g = None and roots = "[]"]
  have "bashSegmentModifiesProtectedPermissionConfig ?h (echoTokens ''p'') ''/w'' None = Inr False"
    by (rule echo_protected) (simp_all add: plain_resolve echo_paths)
  then have "evaluateLocalToolPermission ?h ''/w'' ''bash'' (shellCall ''echo x>p'' JUndef) None None [] None
      = (if False then Inl protectedBash else Inr (bashDecision Allow (serializeBashSegments [js_join '' '' [''echo'', ''x'']])))"
    by (intro plain_command[OF _ _ echo_texts(7) echo_words echo_texts(9)]) (simp_all add: echo_texts)
  with bypass show ?thesis by simp
qed

end
