(* ===== verification/PermissionGrants.thy ===== *)
theory PermissionGrants
  imports PermissionFiles PermissionLimits
begin

text \<open>
  What a persisted workspace grant does: it adds exactly the granted kinds of access at the granted root, it answers the
  question it was asked for, and where the directory does not exist it is wider than the question said.
\<close>

section \<open>Persisted grants\<close>

definition accessOf :: "WorkspaceAccessConfig \<Rightarrow> string \<Rightarrow> string \<Rightarrow> FileAccessKind set" where
  "accessOf config w path = \<Union> (snd ` {v \<in> set (map entryView (workspaceEntries config w)). fst v = path})"

lemma accessOf_entries: "accessOf config w path = \<Union> ((\<lambda>e. set (wa_permissions e)) ` {e \<in> set (workspaceEntries config w). wa_path e = path})"
  by (auto simp: accessOf_def entryView_def)

lemma granted_access:
  "\<Union> ((\<lambda>e. set (wa_permissions e)) ` {e \<in> set (grantedEntries base kind entries). wa_path e = path})
    = \<Union> ((\<lambda>e. set (wa_permissions e)) ` {e \<in> set entries. wa_path e = path}) \<union> (if path = base then set (grantKinds kind) else {})"
proof (cases "list_ex (\<lambda>e. wa_path e = base) entries")
  case True
  then show ?thesis by (auto simp: grantedEntries_def Let_def list_ex_iff addKinds_def split: if_splits)
next
  case False
  then have "grantedEntries base kind entries = entries @ [\<lparr>wa_path = base, wa_permissions = grantKinds kind\<rparr>]"
    by (auto simp: grantedEntries_def Let_def list_ex_iff intro: map_idI)
  moreover have "{e \<in> insert n A. wa_path e = path} = (if wa_path n = path then {n} else {}) \<union> {e \<in> A. wa_path e = path}"
    for n and A :: "WorkspaceAccessEntry set" by auto
  ultimately show ?thesis by auto
qed

text \<open>C23: Persisting a grant is exact: the workspace access file that is written reads back, and it grants in every
  workspace and at every path what the file granted before, and in addition the granted kinds of access (reading, or
  reading and writing) at the granted root of this workspace; nothing else. This holds where the file before loads, the
  host's current directory is absolute, and neither the granted root nor a path stored in the file begins or ends with
  white space: the parser trims paths, so a grant for a directory whose name ends with a space is read back as a grant
  for the directory without it.\<close>

theorem persisted_grant_adds_exactly:
  assumes "grantWorkspaceAccess h workDir target kind authority file = Inr (base, written)"
    and "loadWorkspaceAccessFile h authority file = Inr config"
    and "path_isAbsolute (h_cwd h)" "js_trim base = base"
    and "\<forall>e \<in> set (concat (map snd config)). js_trim (wa_path e) = wa_path e"
  shows "\<exists>config'. loadWorkspaceAccessFile h authority (Some written) = Inr config'
    \<and> (\<forall>w path. accessOf config' w path = accessOf config w path
        \<union> (if w = path_resolve (h_cwd h) workDir \<and> path = base then set (grantKinds kind) else {}))"
proof -
  let ?w = "path_resolve (h_cwd h) workDir"
  obtain config' where c: "loadWorkspaceAccessFile h authority (Some written) = Inr config'"
      "\<And>k. k \<noteq> ?w \<Longrightarrow> map entryView (workspaceEntries config' k) = map entryView (workspaceEntries config k)"
      "mset (map entryView (workspaceEntries config' ?w)) = mset (map entryView (grantedEntries base kind (workspaceEntries config ?w)))"
    using granted_file[OF assms] by blast
  have other: "accessOf config' k path = accessOf config k path" if "k \<noteq> ?w" for k path
    using c(2)[OF that] by (simp add: accessOf_def)
  have "set (map entryView (workspaceEntries config' ?w)) = set (map entryView (grantedEntries base kind (workspaceEntries config ?w)))"
    using c(3) by (rule mset_eq_setD)
  then have a: "accessOf config' ?w path = \<Union> ((\<lambda>e. set (wa_permissions e))
      ` {e \<in> set (grantedEntries base kind (workspaceEntries config ?w)). wa_path e = path})" for path
    unfolding accessOf_def by (auto simp: entryView_def)
  have ours: "accessOf config' ?w path = accessOf config ?w path \<union> (if path = base then set (grantKinds kind) else {})" for path
    unfolding a accessOf_entries[of config] by (rule granted_access)
  have "accessOf config' w path = accessOf config w path \<union> (if w = ?w \<and> path = base then set (grantKinds kind) else {})" for w path
    using ours other by (cases "w = ?w") simp_all
  then show ?thesis using c(1) by (intro exI[of _ config']) simp
qed

text \<open>A persisted grant opens what it was asked for and no more: if no entry of the workspace covers a path before, and
  the path lies within the granted root, then afterwards the workspace gate decides it by the granted kinds alone, without
  a question and whatever approval the call carries. Reading is allowed; writing is allowed exactly if it was granted.\<close>

theorem persisted_grant_opens:
  assumes "grantWorkspaceAccess h workDir target kind authority file = Inr (base, written)"
    and "loadWorkspaceAccessFile h authority file = Inr config"
    and "path_isAbsolute (h_cwd h)" "js_trim base = base"
    and "\<forall>e \<in> set (concat (map snd config)). js_trim (wa_path e) = wa_path e"
    and "h_cwd h' = h_cwd h" "ps_loadWorkspaceAccessConfig (h_store h') authority = loadWorkspaceAccessFile h authority (Some written)"
    and "isPathWithin (h_cwd h) path base"
    and "\<forall>e \<in> set (workspaceEntries config (path_resolve (h_cwd h) workDir)). \<not> isPathWithin (h_cwd h) path (wa_path e)"
  shows "map_sum id de_action (evaluateWorkspaceAccessGate h' workDir path wanted authority toolName grant)
    = Inr (if wanted \<in> set (grantKinds kind) then Allow else Deny)"
proof -
  let ?w = "path_resolve (h_cwd h) workDir"
  obtain config' where c: "loadWorkspaceAccessFile h authority (Some written) = Inr config'"
      "mset (map entryView (workspaceEntries config' ?w)) = mset (map entryView (grantedEntries base kind (workspaceEntries config ?w)))"
    using granted_file[OF assms(1-5)] by blast
  define matching where "matching = filter (\<lambda>e. isPathWithin (h_cwd h') path (wa_path e)) (workspaceEntries config' ?w)"
  have new: "grantedEntries base kind (workspaceEntries config ?w)
      = workspaceEntries config ?w @ [\<lparr>wa_path = base, wa_permissions = grantKinds kind\<rparr>]"
    using assms(8,9) by (auto simp: grantedEntries_def Let_def list_ex_iff intro: map_idI)
  have none: "filter (\<lambda>v. isPathWithin (h_cwd h) path (fst v)) (map entryView (workspaceEntries config ?w)) = []"
    using assms(9) by (auto simp: filter_empty_conv entryView_def)
  have "mset (filter (\<lambda>v. isPathWithin (h_cwd h) path (fst v)) (map entryView (workspaceEntries config' ?w)))
      = mset (filter (\<lambda>v. isPathWithin (h_cwd h) path (fst v)) (map entryView (grantedEntries base kind (workspaceEntries config ?w))))"
    using c(2) by (simp only: mset_filter)
  also have "\<dots> = {#(base, set (grantKinds kind))#}"
    unfolding new map_append filter_append none using assms(8) by (simp add: entryView_def)
  finally have "mset (map entryView matching) = {#(base, set (grantKinds kind))#}"
    by (simp add: matching_def assms(6) filter_map comp_def entryView_def)
  then have "map entryView matching = [(base, set (grantKinds kind))]" by (rule mset_single_iff[THEN iffD1])
  then obtain e where e: "matching = [e]" "set (wa_permissions e) = set (grantKinds kind)"
    by (auto simp: map_eq_Cons_conv entryView_def)
  show ?thesis using c(1) assms(6,7) e matching_def
    by (auto simp: evaluateWorkspaceAccessGate_def Let_def workspaceEntries_def js_sort_def)
qed

text \<open>The root that is persisted can be wider than the one the question names. The question about a new file in a new
  directory names that directory; as neither exists, persisting applies the step from a file to its directory once more,
  and the access file opens the parent of the directory that was approved.\<close>

theorem persisted_grant_can_widen:
  assumes "segs_of (h_cwd h) path = dirs @ [inner, name]"
    and "\<not> h_isDirectory h (abs_path (dirs @ [inner, name]))" "\<not> h_isDirectory h (abs_path (dirs @ [inner]))"
    and "ps_loadWorkspaceAccessConfig (h_store h) authority = Inr config" "loadWorkspaceAccessFile h authority file = Inr config"
    and "\<forall>e \<in> set (workspaceEntries config (path_resolve (h_cwd h) workDir)). \<not> isPathWithin (h_cwd h) path (wa_path e)"
  shows "\<exists>d. evaluateWorkspaceAccessGate h workDir (path_resolve (h_cwd h) path) kind authority toolName None = Inr d \<and> de_action d = Ask
    \<and> de_approvalGrant d = Some (WorkspaceAccessApprovalGrant toolName (path_resolve (h_cwd h) workDir) (abs_path (dirs @ [inner]))
        (accessKindName kind))
    \<and> map_sum id fst (grantWorkspaceAccess h workDir (abs_path (dirs @ [inner])) kind authority file) = Inr (abs_path dirs)"
proof -
  have c: "list_all component (dirs @ [inner, name])" using segs_components[of "h_cwd h" path] assms(1) by simp
  then have d: "path_dirname (abs_path (dirs @ [inner, name])) = abs_path (dirs @ [inner])"
      "path_dirname (abs_path (dirs @ [inner])) = abs_path dirs"
    using dirname_abs[of name "dirs @ [inner]"] dirname_abs[of inner dirs] by simp_all
  have p: "path_resolve (h_cwd h) path = abs_path (dirs @ [inner, name])" by (simp add: path_resolve_def assms(1))
  have r: "path_resolve (h_cwd h) (abs_path (dirs @ [inner])) = abs_path (dirs @ [inner])" using c by (simp add: path_resolve_def)
  have m: "filter (\<lambda>e. isPathWithin (h_cwd h) (abs_path (dirs @ [inner, name])) (wa_path e))
      (workspaceEntries config (path_resolve (h_cwd h) workDir)) = []"
    using assms(6) unfolding p[symmetric] by (simp add: filter_empty_conv)
  have "map_sum id fst (grantWorkspaceAccess h workDir (abs_path (dirs @ [inner])) kind authority file) = Inr (abs_path dirs)"
    using assms(3,5) by (simp add: grantWorkspaceAccess_def Let_def resolve_absolute r workspaceAccessGrantRoot_def d)
  moreover have "workspaceAccessGrantRoot h (abs_path (dirs @ [inner, name])) = abs_path (dirs @ [inner])"
    using assms(2) by (simp add: workspaceAccessGrantRoot_def d)
  ultimately show ?thesis using assms(4) m unfolding p
    by (simp add: evaluateWorkspaceAccessGate_def Let_def workspaceEntries_def grantCovers_def)
qed

text \<open>C24: An access file that loads is well formed: its workspaces are absolute normalized paths, each named once, and every
  entry has an absolute normalized path and a non-empty set of access kinds.\<close>

theorem loaded_access_file_well_formed:
  assumes "loadWorkspaceAccessFile h authority file = Inr config"
  shows "distinct (map fst config)
    \<and> list_all (\<lambda>(key, entries). path_resolve (h_cwd h) key = key
        \<and> list_all (\<lambda>e. path_resolve (h_cwd h) (wa_path e) = wa_path e \<and> wa_permissions e \<noteq> [] \<and> distinct (wa_permissions e)) entries)
      config"
  using loaded_file_ok[OF assms] by (auto simp: loaded_workspace_def list_all_iff)

end
