(* ===== verification/PermissionWitnesses.thy ===== *)
theory PermissionWitnesses
  imports PermissionGrants
begin

text \<open>Witnesses: the permission theorems at concrete hosts, calls and files.\<close>

section \<open>A host\<close>

lemma plain_fields [simp]:
  "h_cwd (plainHost ps) = ''/''" "h_home (plainHost ps) = ''/h''" "h_isDirectory (plainHost ps) = (\<lambda>_. False)"
  "h_lc (plainHost ps) = unit_compare" "h_store (plainHost ps) = plainStore ps"
  by (simp_all add: plainHost_def)

lemma plain_store_fields [simp]:
  "ps_loadWorkspaceAccessConfig (plainStore ps) a = Inr []" "ps_canonicalProtectionPath (plainStore ps) = None"
  "ps_protectedPermissionConfigPaths (plainStore ps) a = ps"
  by (simp_all add: plainStore_def)

definition session :: ToolRuntime where
  "session = \<lparr>tr_metadata = JObj [(''exec_protocol'', JObj [(''mode'', JStr ''full-auto'')])], tr_workDir = JStr ''/w'',
     tr_localPermissionGrant = JUndef, tr_hasActor = True, tr_toolCallId = JStr ''t1'', tr_pending = []\<rparr>"

definition writeProtected :: jsv where
  "writeProtected = JObj [(''filePath'', JStr ''/e/p''), (''scopeIntent'', JStr ''external'')]"

lemma session_values:
  "stringOr shw (tr_workDir session) = ''/w''" "resolveLocalPermissionAuthorityRootFromRuntime (tr_metadata session) = None"
  by (simp_all add: session_def stringOr_def resolveLocalPermissionAuthorityRootFromRuntime_def coalesce_def Let_def) code_simp

lemma w_resolved: "path_resolve ''/'' ''/w'' = ''/w''" "path_resolve ''/'' ''/e/p'' = ''/e/p''" by code_simp+

theorem protected_paths_refused_witness:
  "\<exists>output. authorizeLocalToolCall (plainHost [''/e/p'']) 0 session ''write'' writeProtected None = (Refused output, session)"
proof (rule protected_paths_refused[where raw = "''/e/p''" and kind = WriteAccess and authority = None and path = "''/e/p''"])
  show "fileRequest (plainHost [''/e/p'']) ''write'' writeProtected = Some (''/e/p'', WriteAccess)"
    by (simp add: fileRequest_def writeProtected_def)
  show "''/e/p'' = resolveRequestedPath (plainHost [''/e/p''])
      (path_resolve (h_cwd (plainHost [''/e/p''])) (stringOr (h_shw (plainHost [''/e/p''])) (tr_workDir session))) ''/e/p''"
    by (simp add: resolve_absolute w_resolved echo_paths)
  show "None = resolveLocalPermissionAuthorityRootFromRuntime (tr_metadata session)" by (simp add: session_values)
  show "isPrivateRuntimePath (plainHost [''/e/p'']) ''/e/p'' None (''write'' = ''grep'' \<or> ''write'' = ''glob'') = Inr True
      \<or> WriteAccess = WriteAccess \<and> isProtectedPermissionConfigPath (plainHost [''/e/p'']) ''/e/p'' None = Inr True"
    by (simp add: isProtectedPermissionConfigPath_def canonicalProtectionPath_def protectedPermissionConfigPaths_def)
qed

definition readOutside :: jsv where
  "readOutside = JObj [(''filePath'', JStr ''/e/p''), (''scopeIntent'', JStr ''external'')]"

lemma outside_asks:
  "\<exists>d. evaluateLocalToolPermission (plainHost []) ''/w'' ''read'' readOutside None None [] None = Inr d \<and> de_action d = Ask"
proof -
  have "\<not> isPathWithin ''/'' ''/e/p'' ''/w''" by code_simp
  then show ?thesis
    by (subst tool_file[of _ _ _ "''/e/p''" ReadAccess])
      (simp_all add: fileRequest_def readOutside_def resolveFileToolScopeIntent_def evaluateFilePermission_def w_resolved
        resolve_absolute echo_paths evaluateWorkspaceAccessGate_def grantCovers_def Let_def)
qed

theorem approval_suffices_witness:
  "\<exists>d g d'. evaluateLocalToolPermission (plainHost []) ''/w'' ''read'' readOutside None None [] None = Inr d
    \<and> de_approvalGrant d = Some g
    \<and> evaluateLocalToolPermission (plainHost []) ''/w'' ''read'' readOutside None (Some g) [] None = Inr d' \<and> de_action d' = Allow"
  using outside_asks approval_suffices by blast


section \<open>Shell commands\<close>

lemma plain_bash_echo:
  "evaluateBashPermission (plainHost [''/e/p'']) ''/w'' (shellCall ''echo x>p'' JUndef) None None None
    = Inr (bashDecision Allow (serializeBashSegments [js_join '' '' [''echo'', ''x'']]))"
proof -
  have "bashSegmentModifiesProtectedPermissionConfig (plainHost [''/e/p'']) (echoTokens ''p'') ''/w'' None = Inr False"
    by (rule echo_protected) (simp_all add: plain_resolve echo_paths)
  then have "evaluateBashPermission (plainHost [''/e/p'']) ''/w'' (shellCall ''echo x>p'' JUndef) None None None
      = (if False then Inl protectedBash else Inr (bashDecision Allow (serializeBashSegments [js_join '' '' [''echo'', ''x'']])))"
    by (intro plain_bash[OF _ _ echo_texts(7) echo_words echo_texts(9)]) (simp_all add: echo_texts)
  then show ?thesis by simp
qed

lemma echo_segment: "normalizeBashSegment (echoTokens f) = Inr ''echo x''"
  by (simp add: normalizeBashSegment_def echo_words)

theorem bash_allowed_by_segments_witness:
  "bashSegmentModifiesProtectedPermissionConfig (plainHost [''/e/p'']) (echoTokens ''p'') ''/w'' None = Inr False
    \<and> segmentPermitted (plainHost [''/e/p'']) ''/w'' None False ''echo x''"
proof -
  have "js_prop (shellCall ''echo x>p'' JUndef) ''command'' = JStr ''echo x>p''" by (simp add: shellCall_def)
  then have "\<exists>normalized. map_result normalizeBashSegment [echoTokens ''p''] = Inr normalized
    \<and> (\<forall>seg \<in> set [echoTokens ''p'']. bashSegmentModifiesProtectedPermissionConfig (plainHost [''/e/p'']) seg ''/w'' None = Inr False)
    \<and> (\<forall>(s, seg) \<in> set (zip normalized [echoTokens ''p'']). bashSegmentIsPureAssignment seg
        \<or> segmentPermitted (plainHost [''/e/p'']) ''/w'' None
            (matchesApprovalGrant (plainHost [''/e/p'']) None ''bash'' ''/w'' (serializeBashSegments normalized)) s)"
    by (intro bash_allowed_by_segments[OF plain_bash_echo _ _ echo_texts(7)]) simp_all
  moreover have "\<not> bashSegmentIsPureAssignment (echoTokens ''p'')" by code_simp
  ultimately show ?thesis by (simp add: echo_segment matchesApprovalGrant_def)
qed

section \<open>Limits\<close>

theorem dotdot_names_not_protected_witness:
  "isProtectedPermissionConfigPath (plainHost [''/e'']) (abs_path (segs_of ''/'' ''/e'' @ [''..x''])) None = Inr False"
  using dotdot_names_not_protected[of "plainHost [''/e'']" None "''/e''" "''..x''"]
  by (simp add: protectedPermissionConfigPaths_def component_def starts_with_def sep_def)

theorem redirection_not_in_segment_witness:
  "normalizeBashSegment ([wordToken ''echo'', wordToken ''x''] @ [operatorToken ''>'', wordToken ''/e/p''])
    = normalizeBashSegment [wordToken ''echo'', wordToken ''x'']"
proof (rule redirection_not_in_segment)
  show "collectBashCommandWords [wordToken ''echo'', wordToken ''x''] = Inr [''echo'', ''x'']" by code_simp
  show "\<not> list_all isAssignmentToken [wordToken ''echo'', wordToken ''x'']" by code_simp
  show "\<not> plainDigits (last [wordToken ''echo'', wordToken ''x''])" by code_simp
  show "isOp REDIRECTION_OPERATORS (operatorToken ''>'')" by code_simp
  show "bt_kind (wordToken ''/e/p'') = Word" by (simp add: wordToken_def)
qed

section \<open>Grants\<close>

definition grantedFile :: jsv where
  "grantedFile = (case grantWorkspaceAccess (plainHost []) ''/w'' ''/d/f'' ReadAccess None None of Inr r \<Rightarrow> snd r | Inl _ \<Rightarrow> JNull)"

lemma grant_paths:
  "path_resolve ''/'' ''/d/f'' = ''/d/f''" "path_dirname ''/d/f'' = ''/d''" "path_isAbsolute ''/d/f''" "path_isAbsolute ''/''"
  "js_trim ''/d'' = ''/d''" "isPathWithin ''/'' ''/d/g'' ''/d''" "segs_of ''/'' ''/d/e/f'' = [''d'', ''e'', ''f'']"
  by code_simp+

lemma grant_example: "grantWorkspaceAccess (plainHost []) ''/w'' ''/d/f'' ReadAccess None None = Inr (''/d'', grantedFile)"
proof -
  have "resolveRequestedPath (plainHost []) v ''/d/f'' = ''/d/f''" for v by (simp add: resolve_absolute grant_paths)
  then have "\<exists>v. grantWorkspaceAccess (plainHost []) ''/w'' ''/d/f'' ReadAccess None None = Inr (''/d'', v)"
    by (simp add: grantWorkspaceAccess_def loadWorkspaceAccessFile_def workspaceAccessGrantRoot_def grant_paths Let_def)
  then show ?thesis by (auto simp: grantedFile_def)
qed

theorem persisted_grant_adds_exactly_witness:
  "\<exists>config'. loadWorkspaceAccessFile (plainHost []) None (Some grantedFile) = Inr config'
    \<and> accessOf config' ''/w'' ''/d'' = {ReadAccess} \<and> accessOf config' ''/w'' ''/e'' = {} \<and> accessOf config' ''/v'' ''/d'' = {}"
proof -
  have "\<exists>config'. loadWorkspaceAccessFile (plainHost []) None (Some grantedFile) = Inr config'
    \<and> (\<forall>w path. accessOf config' w path = accessOf [] w path
        \<union> (if w = path_resolve (h_cwd (plainHost [])) ''/w'' \<and> path = ''/d'' then set (grantKinds ReadAccess) else {}))"
    by (rule persisted_grant_adds_exactly[OF grant_example]) (simp_all add: loadWorkspaceAccessFile_def grant_paths)
  moreover have "accessOf [] w path = {}" for w path by (simp add: accessOf_def workspaceEntries_def)
  ultimately show ?thesis by (auto simp: w_resolved grantKinds_def)
qed

definition grantedHost :: Host where
  "grantedHost = (plainHost [])\<lparr>h_store := (plainStore [])\<lparr>ps_loadWorkspaceAccessConfig :=
     (\<lambda>a. loadWorkspaceAccessFile (plainHost []) a (Some grantedFile))\<rparr>\<rparr>"

theorem persisted_grant_opens_witness:
  "map_sum id de_action (evaluateWorkspaceAccessGate grantedHost ''/w'' ''/d/g'' ReadAccess None ''read'' None) = Inr Allow
    \<and> map_sum id de_action (evaluateWorkspaceAccessGate grantedHost ''/w'' ''/d/g'' WriteAccess None ''write'' None) = Inr Deny"
proof -
  have "map_sum id de_action (evaluateWorkspaceAccessGate grantedHost ''/w'' ''/d/g'' k None t None)
      = Inr (if k \<in> set (grantKinds ReadAccess) then Allow else Deny)" for k t
    by (rule persisted_grant_opens[OF grant_example, where config = "[]"])
      (simp_all add: loadWorkspaceAccessFile_def grant_paths grantedHost_def workspaceEntries_def)
  then show ?thesis by (simp add: grantKinds_def)
qed

theorem persisted_grant_can_widen_witness:
  "\<exists>d. evaluateWorkspaceAccessGate (plainHost []) ''/w'' (path_resolve ''/'' ''/d/e/f'') WriteAccess None ''write'' None = Inr d
    \<and> de_approvalGrant d = Some (WorkspaceAccessApprovalGrant ''write'' ''/w'' (abs_path [''d'', ''e'']) ''write'')
    \<and> map_sum id fst (grantWorkspaceAccess (plainHost []) ''/w'' (abs_path [''d'', ''e'']) WriteAccess None None) = Inr (abs_path [''d''])"
  using persisted_grant_can_widen[of "plainHost []" "''/d/e/f''" "[''d'']" "''e''" "''f''" None "[]" None "''/w''" WriteAccess "''write''"]
  by (auto simp: grant_paths loadWorkspaceAccessFile_def workspaceEntries_def w_resolved accessKindName_def)

section \<open>Loaded files\<close>

definition accessFile :: jsv where
  "accessFile = JObj [(''workspaces'', JObj [(''w/../v'', JObj [(''entries'',
     JArr [JObj [(''path'', JStr '' d/''), (''permissions'', JArr [JStr ''read'', JStr ''read''])]])])])]"

lemma access_file_parses:
  "parseWorkspaceAccessConfig (\<lambda>_. ''n'') [(''workspaces'', JObj [(''w/../v'', JObj [(''entries'',
     JArr [JObj [(''path'', JStr '' d/''), (''permissions'', JArr [JStr ''read'', JStr ''read''])]])])])] f ''/''
   = Inr [(''/v'', [\<lparr>wa_path = ''/d'', wa_permissions = [ReadAccess]\<rparr>])]"
  by code_simp

theorem loaded_access_file_well_formed_witness:
  "loadWorkspaceAccessFile (plainHost []) None (Some accessFile) = Inr [(''/v'', [\<lparr>wa_path = ''/d'', wa_permissions = [ReadAccess]\<rparr>])]
    \<and> distinct [ReadAccess]"
proof -
  have "loadWorkspaceAccessFile (plainHost []) None (Some accessFile) = Inr [(''/v'', [\<lparr>wa_path = ''/d'', wa_permissions = [ReadAccess]\<rparr>])]"
    using access_file_parses by (simp add: loadWorkspaceAccessFile_def asObject_def accessFile_def) (simp add: plainHost_def)
  then show ?thesis using loaded_access_file_well_formed[of "plainHost []" None "Some accessFile"] by simp
qed

end
