(* ===== verification/ShellScan.thy ===== *)
theory ShellScan
  imports BashPermission
begin

text \<open>
  The scan for executables in a shell command whose syntax is not supported: matches never lengthen the rest, a match of
  the executable pattern takes a character, and so the loop over them ends.
\<close>

section \<open>Scanning for executables\<close>

lemma rmatch_shrinks: "q \<in> set (rmatch r p) \<Longrightarrow> length (snd q) \<le> length (snd p)"
proof (induction r p arbitrary: q rule: rmatch.induct)
  case (5 r p)
  have "(\<exists>x \<in> set (rmatch r p). length (snd x) < length (snd p) \<and> q \<in> set (rmatch (RStar r) x)) \<or> q = p"
    using 5(3) by (subst (asm) rmatch.simps(5)) (auto split: if_splits)
  then show ?case using 5(1,2) by (meson dual_order.strict_trans1 less_imp_le order_refl order_trans)
next
  case (3 r1 r2 p)
  then obtain x where x: "x \<in> set (rmatch r1 p)" "q \<in> set (rmatch r2 x)" by auto
  show ?case using 3(1)[OF x(1)] 3(2)[OF x] by simp
qed (auto split: list.splits if_splits)

lemma rplus_consumes: "q \<in> set (rmatch (rplus (RCls P)) p) \<Longrightarrow> length (snd q) < length (snd p)"
proof -
  assume "q \<in> set (rmatch (rplus (RCls P)) p)"
  then obtain x where x: "x \<in> set (rmatch (RCls P) p)" "q \<in> set (rmatch (RStar (RCls P)) x)"
    by (auto simp: rplus_def simp del: rmatch.simps(1))
  then have "length (snd x) < length (snd p)" by (cases "snd p") (auto split: if_splits)
  then show ?thesis using rmatch_shrinks[OF x(2)] by simp
qed

lemma executable_consumes:
  assumes "q \<in> set (rmatch executablePattern p)"
  shows "length (snd q) < length (snd p)"
proof -
  obtain x where "x \<in> set (rmatch (RAlt RStart (RSeq (RCls (in_chars '';&|()'')) (RStar (RCls js_space)))) p)"
      "q \<in> set (rmatch (rplus (RCls signalChar)) x)"
    using assms unfolding executablePattern_def by (auto simp del: rmatch.simps(4))
  then show ?thesis using rmatch_shrinks rplus_consumes by (meson le_less_trans less_le_trans)
qed

lemma search_matches:
  "rsearch_from r b s = Some (p, q) \<Longrightarrow> q \<in> set (rmatch r p) \<and> length (snd p) \<le> length s"
  by (induction r b s rule: rsearch_from.induct) (force split: list.splits)+

lemma executable_search:
  "rsearch_from executablePattern b s = Some ((b1, s1), (b2, s2)) \<Longrightarrow> length s2 < length s"
  using search_matches executable_consumes by (metis less_le_trans snd_conv)

lemma signalLoop_fuel: "length s < n \<Longrightarrow> signalLoop n signals b s = signalLoop (Suc (length s)) signals b s"
proof (induction "length s" arbitrary: n signals b s rule: less_induct)
  case less
  then obtain m where n: "n = Suc m" by (cases n) auto
  show ?case
  proof (cases "rsearch_from executablePattern b s")
    case (Some r)
    obtain b1 s1 b2 s2 where r: "r = ((b1, s1), (b2, s2))" by (metis prod.collapse)
    then have l: "length s2 < length s" using Some executable_search by blast
    have "signalLoop m sg b2 s2 = signalLoop (length s) sg b2 s2" for sg
      using less(1)[OF l, of m sg b2] less(1)[OF l, of "length s" sg b2] l less(2) n by simp
    then show ?thesis using Some r n by (simp add: Let_def)
  qed (simp add: n)
qed

lemma signalLoop_set:
  "distinct signals \<Longrightarrow> list_all (\<lambda>e. e \<noteq> [] \<and> e \<notin> set SHELL_KEYWORD_SIGNALS) signals \<Longrightarrow>
     distinct (signalLoop n signals b s) \<and> list_all (\<lambda>e. e \<noteq> [] \<and> e \<notin> set SHELL_KEYWORD_SIGNALS) (signalLoop n signals b s)"
proof (induction n arbitrary: signals b s)
  case (Suc n)
  show ?case
  proof (cases "rsearch_from executablePattern b s")
    case (Some r)
    obtain b1 s1 b2 s2 where r: "r = ((b1, s1), (b2, s2))" by (metis prod.collapse)
    define e where "e = js_lower (path_basename (rev (takeWhile signalChar b2)))"
    define skip where "skip = (rev (takeWhile signalChar b2) = [] \<or> starts_with ''='' s2 \<or> e = [] \<or> e \<in> set SHELL_KEYWORD_SIGNALS \<or> e \<in> set signals)"
    have l: "signalLoop (Suc n) signals b s = signalLoop n (if skip then signals else signals @ [e]) b2 s2"
      unfolding skip_def e_def by (simp add: Some r Let_def)
    show ?thesis unfolding l using Suc.prems by (intro Suc.IH) (auto simp: skip_def)
  qed (use Suc.prems in simp)
qed simp

text \<open>The scan of an unsupported shell command for the programs it starts ends: each round takes at least one character
  of the command, so that a loop allowed any number of rounds above its length returns what the scan returns; and the
  result holds every program once, with no empty name and no shell keyword.\<close>

theorem signal_scan_terminates:
  assumes "length command < rounds"
  shows "signalLoop rounds [] [] command = extractUnsupportedBashExecutableSignals command
    \<and> distinct (extractUnsupportedBashExecutableSignals command)
    \<and> list_all (\<lambda>e. e \<noteq> [] \<and> e \<notin> set SHELL_KEYWORD_SIGNALS) (extractUnsupportedBashExecutableSignals command)"
  unfolding extractUnsupportedBashExecutableSignals_def
  using signalLoop_fuel[OF assms] signalLoop_set[of "[]"] by (simp del: signalLoop.simps)

theorem signal_scan_terminates_witness:
  "signalLoop 20 [] [] ''ls | sort; ls'' = [''ls'', ''sort'']"
proof -
  have "extractUnsupportedBashExecutableSignals ''ls | sort; ls'' = [''ls'', ''sort'']" by code_simp
  then show ?thesis using signal_scan_terminates[of "''ls | sort; ls''" 20] by simp
qed

end
