(* ===== verification/CoordinationModel.thy ===== *)
theory CoordinationModel
  imports SignalModel
begin

text \<open>
  Coordination between actors: the constants of \<open>ai-core-contract/src/coordination.ts\<close>, the coordination fields of
  \<open>ai-core-contract/src/runtime/AiAgentActor.ts\<close>, and \<open>ai-organ-logic/src/coordination/CoordinationEngine.ts\<close>.

  The VM is the part that coordination and the member manager read or change. The engine keeps one legacy store per VM, a
  field of it here. \<open>CoHost\<close> collects the host: \<open>JSON.parse\<close> (None where it throws) and \<open>JSON.stringify\<close>, the
  rendering of numbers, and \<open>localeCompare\<close> plain and at base sensitivity. One reading of the clock, \<open>now\<close>, serves one
  operation; a new request id is an argument.
\<close>

section \<open>Constants\<close>

text \<open>A name that is neither of the two can only come from an envelope whose \<open>coordination\<close> field is no string and whose
  \<open>protocol\<close> field is valid.\<close>

datatype CoordinationName = NShutdown | NPlanApproval | NOther jsv

datatype CoordinationKind = KShutdownRequest | KShutdownResponse | KShutdownDone | KPlanRequest | KPlanReview | KPlanDone

datatype CoordinationStatus = CsPending | CsApproved | CsRejected | CsCompleted

datatype CoordinationDecision = DApprove | DReject

definition kindName :: "CoordinationKind \<Rightarrow> string" where
  "kindName k = (case k of KShutdownRequest \<Rightarrow> ''shutdown_request'' | KShutdownResponse \<Rightarrow> ''shutdown_response''
     | KShutdownDone \<Rightarrow> ''shutdown_done'' | KPlanRequest \<Rightarrow> ''plan_request'' | KPlanReview \<Rightarrow> ''plan_review'' | KPlanDone \<Rightarrow> ''plan_done'')"

definition decisionName :: "CoordinationDecision \<Rightarrow> string" where
  "decisionName d = (case d of DApprove \<Rightarrow> ''approve'' | DReject \<Rightarrow> ''reject'')"

definition coordinationName :: "(rat \<Rightarrow> string) \<Rightarrow> CoordinationName \<Rightarrow> string" where
  "coordinationName shw n = (case n of NShutdown \<Rightarrow> ''shutdown'' | NPlanApproval \<Rightarrow> ''plan_approval'' | NOther v \<Rightarrow> js_String shw v)"

definition coordinationValue :: "CoordinationName \<Rightarrow> jsv" where
  "coordinationValue n = (case n of NShutdown \<Rightarrow> JStr ''shutdown'' | NPlanApproval \<Rightarrow> JStr ''plan_approval'' | NOther v \<Rightarrow> v)"

definition isAiAgentCoordinationName :: "jsv \<Rightarrow> bool" where
  "isAiAgentCoordinationName v \<longleftrightarrow> v = JStr ''shutdown'' \<or> v = JStr ''plan_approval''"

definition kindOf :: "jsv \<Rightarrow> CoordinationKind option" where
  "kindOf v = (case v of
      JStr s \<Rightarrow> find (\<lambda>k. kindName k = s) [KShutdownRequest, KShutdownResponse, KShutdownDone, KPlanRequest, KPlanReview, KPlanDone]
    | _ \<Rightarrow> None)"

definition isAiAgentCoordinationKind :: "jsv \<Rightarrow> bool" where
  "isAiAgentCoordinationKind v \<longleftrightarrow> kindOf v \<noteq> None"

definition nameOf :: "jsv \<Rightarrow> CoordinationName" where
  "nameOf v = (if v = JStr ''shutdown'' then NShutdown else if v = JStr ''plan_approval'' then NPlanApproval else NOther v)"

section \<open>Data\<close>

record CoHost =
  ch_parse :: "string \<Rightarrow> jsv option"
  ch_stringify :: "jsv \<Rightarrow> string"
  ch_shw :: "rat \<Rightarrow> string"
  ch_lc :: "string \<Rightarrow> string \<Rightarrow> int"
  ch_lcBase :: "string \<Rightarrow> string \<Rightarrow> int"

record CoordinationEnvelope =
  ce_coordination :: CoordinationName
  ce_kind :: CoordinationKind
  ce_request_id :: string
  ce_payload :: jsv

record CoordinationRecord =
  cr_request_id :: string
  cr_coordination :: CoordinationName
  cr_kind :: CoordinationKind
  cr_status :: CoordinationStatus
  cr_decision :: "CoordinationDecision option"
  cr_created_at :: int
  cr_updated_at :: int
  cr_last_from :: "string option"
  cr_last_ts :: "int option"
  cr_plan :: "string option"
  cr_feedback :: "string option"
  cr_reason :: "string option"

datatype CoordinationRecordSource = ActorOwned | PendingMailbox | LegacyCache

record IngestResult =
  ir_request_id :: string
  ir_coordination :: CoordinationName
  ir_kind :: CoordinationKind
  ir_status :: CoordinationStatus
  ir_decision :: "CoordinationDecision option"
  ir_injectText :: string

text \<open>A member message; \<open>ts\<close> is None where it is no number.\<close>

record MemberMessage =
  mm_from :: string
  mm_text :: string
  mm_ts :: "int option"

record OwnedCoordination =
  oc_requestId :: string
  oc_status :: CoordinationStatus
  oc_kind :: "CoordinationKind option"
  oc_decision :: "CoordinationDecision option"
  oc_updatedAt :: int

record ActorMessage =
  am_role :: string
  am_content :: "string option"
  am_completed :: "int option"
  am_created :: "int option"

record ActorToolPolicy =
  tp_allowedToolsMode :: "string option"
  tp_allowedTools :: "string list"
  tp_computedDisabledTools :: "string list"

record MemberIdentity =
  mi_memberId :: string
  mi_name :: string

record CoActor =
  ca_key :: string
  ca_id :: string
  ca_type :: string
  ca_memberIdentity :: "MemberIdentity option" \<comment> \<open>the identity, where its kind is member\<close>
  ca_planApproval :: "OwnedCoordination option"
  ca_shutdownCoordination :: "OwnedCoordination option"
  ca_memberCoordination :: "MemberMessage list"
  ca_memberChatInbox :: "MemberMessage list"
  ca_control :: "string list" \<comment> \<open>kinds of the control entries\<close>
  ca_interrupted :: bool \<comment> \<open>its execution status is interrupted\<close>
  ca_executionOrigin :: jsv \<comment> \<open>the origin of its execution\<close>
  ca_toolPolicy :: ActorToolPolicy
  ca_messages :: "ActorMessage list"
  ca_lastMemberResultNotifiedAt :: "int option"

datatype MemberLifecycleState = MActive | MShuttingDown | MExited

record VmMemberRosterEntry =
  re_memberId :: string
  re_name :: string
  re_role :: string
  re_agentType :: string
  re_lane :: string
  re_fiberId :: string
  re_actorKey :: string
  re_actorId :: string
  re_createdAt :: int
  re_lastActiveAt :: int
  re_lifecycleState :: MemberLifecycleState
  re_shutdownRequestId :: "string option"

record FiberState =
  fb_status :: jsv
  fb_waitingReason :: jsv

datatype HistoryEvent =
    CoordinationIngested string CoordinationName CoordinationKind string CoordinationStatus "CoordinationDecision option"
  | MemberMessageSent string string string string string \<comment> \<open>member, actor key, actor id, from, text\<close>

record CoVm =
  cv_actors :: "CoActor obj"
  cv_legacyStore :: "CoordinationRecord obj"
  cv_roster :: "VmMemberRosterEntry obj"
  cv_hasDriver :: bool
  cv_fiberIndex :: "(string \<times> string) list" \<comment> \<open>fiber, key of its actor\<close>
  cv_fibers :: "(string \<times> FiberState) list"
  cv_controlSignals :: DurableControlSignalStore
  cv_history :: "HistoryEvent list"
  cv_userInputs :: "(string \<times> string) list" \<comment> \<open>actor key, text appended to its conversation\<close>
  cv_interactiveTurnActive :: bool
  cv_deferredMemberResumes :: "string list"
  cv_scheduled :: "(string \<times> DurableControlSignalClass) list" \<comment> \<open>what the driver was told of delivered signals\<close>
  cv_networkAccess :: "jsv list" \<comment> \<open>the settings it is read from, in their order\<close>

section \<open>Envelopes\<close>

definition envelopeCoordination :: "jsv \<Rightarrow> jsv" where
  "envelopeCoordination v = (case js_prop v ''coordination'' of JStr s \<Rightarrow> JStr s | _ \<Rightarrow> js_prop v ''protocol'')"

definition isCoordinationEnvelope :: "jsv \<Rightarrow> bool" where
  "isCoordinationEnvelope v \<longleftrightarrow>
     truthy v \<and> (case v of JObj _ \<Rightarrow> True | JArr _ \<Rightarrow> True | _ \<Rightarrow> False)
     \<and> js_prop v ''type'' = JStr ''rad_member_coordination'' \<and> js_prop v ''v'' = JNum (Fin 1)
     \<and> (case js_prop v ''request_id'' of JStr _ \<Rightarrow> True | _ \<Rightarrow> False)
     \<and> isAiAgentCoordinationName (envelopeCoordination v) \<and> isAiAgentCoordinationKind (js_prop v ''kind'')"

definition orObject :: "jsv \<Rightarrow> jsv" where
  "orObject v = (if v = JUndef \<or> v = JNull then JObj [] else v)"

definition parseEnvelopeText :: "CoHost \<Rightarrow> string \<Rightarrow> CoordinationEnvelope option" where
  "parseEnvelopeText h text = (case ch_parse h text of
      None \<Rightarrow> None
    | Some v \<Rightarrow>
        if \<not> isCoordinationEnvelope v then None
        else Some \<lparr>ce_coordination = nameOf (let c = js_prop v ''coordination'' in
                 if c = JUndef \<or> c = JNull then js_prop v ''protocol'' else c),
               ce_kind = the (kindOf (js_prop v ''kind'')), ce_request_id = as_str (js_prop v ''request_id''),
               ce_payload = orObject (js_prop v ''payload'')\<rparr>)"

definition makeOutbound :: "CoHost \<Rightarrow> CoordinationName \<Rightarrow> CoordinationKind \<Rightarrow> string \<Rightarrow> jsv \<Rightarrow> string \<times> string" where
  "makeOutbound h coordination kind request_id payload =
     (request_id, ch_stringify h (JObj [(''type'', JStr ''rad_member_coordination''), (''v'', JNum (Fin 1)),
        (''coordination'', coordinationValue coordination), (''kind'', JStr (kindName kind)), (''request_id'', JStr request_id),
        (''payload'', orObject payload)]))"

section \<open>Records\<close>

definition stringProp :: "jsv \<Rightarrow> string \<Rightarrow> string option" where
  "stringProp v k = (case js_prop v k of JStr s \<Rightarrow> Some s | _ \<Rightarrow> None)"

definition decisionOf :: "jsv \<Rightarrow> CoordinationDecision" where
  "decisionOf payload = (if js_prop payload ''decision'' = JStr ''reject'' then DReject else DApprove)"

definition decidedStatus :: "CoordinationDecision \<Rightarrow> CoordinationStatus" where
  "decidedStatus d = (if d = DApprove then CsApproved else CsRejected)"

definition applyEnvelope :: "CoordinationRecord \<Rightarrow> CoordinationName \<Rightarrow> CoordinationKind \<Rightarrow> jsv \<Rightarrow> CoordinationRecord" where
  "applyEnvelope r coordination kind payload =
     (if coordination = NPlanApproval \<and> kind = KPlanRequest then
        r\<lparr>cr_coordination := NPlanApproval, cr_kind := KPlanRequest, cr_status := CsPending,
          cr_plan := orElse (stringProp payload ''plan'') (cr_plan r)\<rparr>
      else if coordination = NPlanApproval \<and> kind = KPlanReview then
        r\<lparr>cr_coordination := NPlanApproval, cr_kind := KPlanReview, cr_status := decidedStatus (decisionOf payload),
          cr_decision := Some (decisionOf payload), cr_feedback := orElse (stringProp payload ''feedback'') (cr_feedback r)\<rparr>
      else if coordination = NPlanApproval \<and> kind = KPlanDone then
        r\<lparr>cr_coordination := NPlanApproval, cr_kind := KPlanDone, cr_status := CsCompleted\<rparr>
      else if coordination = NShutdown \<and> kind = KShutdownRequest then
        r\<lparr>cr_coordination := NShutdown, cr_kind := KShutdownRequest, cr_status := CsPending\<rparr>
      else if coordination = NShutdown \<and> kind = KShutdownResponse then
        r\<lparr>cr_coordination := NShutdown, cr_kind := KShutdownResponse, cr_status := decidedStatus (decisionOf payload),
          cr_decision := Some (decisionOf payload), cr_reason := orElse (stringProp payload ''reason'') (cr_reason r)\<rparr>
      else if coordination = NShutdown \<and> kind = KShutdownDone then
        r\<lparr>cr_coordination := NShutdown, cr_kind := KShutdownDone, cr_status := CsCompleted\<rparr>
      else r)"

definition mergeRecords :: "CoordinationRecord \<Rightarrow> CoordinationRecord option \<Rightarrow> CoordinationRecord" where
  "mergeRecords primary secondary = (case secondary of
      None \<Rightarrow> primary
    | Some s \<Rightarrow> primary\<lparr>cr_created_at := cr_created_at s, cr_updated_at := max (cr_updated_at primary) (cr_updated_at s),
        cr_last_from := orElse (cr_last_from s) (cr_last_from primary), cr_last_ts := orElse (cr_last_ts s) (cr_last_ts primary),
        cr_plan := orElse (cr_plan s) (cr_plan primary), cr_feedback := orElse (cr_feedback s) (cr_feedback primary),
        cr_reason := orElse (cr_reason s) (cr_reason primary)\<rparr>)"

definition ownedRecord :: "CoordinationName \<Rightarrow> CoordinationKind \<Rightarrow> OwnedCoordination \<Rightarrow> CoordinationRecord" where
  "ownedRecord coordination kind oc =
     \<lparr>cr_request_id = oc_requestId oc, cr_coordination = coordination, cr_kind = nullish (oc_kind oc) kind, cr_status = oc_status oc,
      cr_decision = oc_decision oc, cr_created_at = oc_updatedAt oc, cr_updated_at = oc_updatedAt oc, cr_last_from = None,
      cr_last_ts = None, cr_plan = None, cr_feedback = None, cr_reason = None\<rparr>"

definition toActorOwnedRecord :: "CoActor \<Rightarrow> CoordinationName \<Rightarrow> CoordinationRecord option" where
  "toActorOwnedRecord actor coordination =
     (let field = (if coordination = NPlanApproval then ca_planApproval actor
            else if coordination = NShutdown then ca_shutdownCoordination actor else None)
      in case field of
           None \<Rightarrow> None
         | Some oc \<Rightarrow> if oc_requestId oc = [] then None
             else Some (ownedRecord coordination (if coordination = NPlanApproval then KPlanRequest else KShutdownRequest) oc))"

text \<open>The records of one actor, in the order in which they are looked at.\<close>

definition ownedRecords :: "CoActor \<Rightarrow> CoordinationRecord list" where
  "ownedRecords actor = concat (map (\<lambda>n. case toActorOwnedRecord actor n of None \<Rightarrow> [] | Some r \<Rightarrow> [r]) [NPlanApproval, NShutdown])"

definition findActorOwnedRecord :: "CoVm \<Rightarrow> string \<Rightarrow> CoordinationRecord option" where
  "findActorOwnedRecord vm request_id =
     find (\<lambda>r. cr_request_id r = request_id) (concat (map ownedRecords (obj_values (cv_actors vm))))"

section \<open>Pending messages\<close>

definition memberMail :: "CoActor \<Rightarrow> MemberMessage list" where
  "memberMail actor = ca_memberCoordination actor @ ca_memberChatInbox actor"

definition collectMessage ::
  "CoHost \<Rightarrow> int \<Rightarrow> (string \<times> CoordinationRecord) list \<Rightarrow> MemberMessage \<Rightarrow> (string \<times> CoordinationRecord) list" where
  "collectMessage h now merged m =
     (if mm_text m = [] then merged
      else case parseEnvelopeText h (mm_text m) of
        None \<Rightarrow> merged
      | Some env \<Rightarrow>
          let ts = nullish (mm_ts m) now; existing = map_of merged (ce_request_id env);
              base = \<lparr>cr_request_id = ce_request_id env, cr_coordination = ce_coordination env, cr_kind = ce_kind env,
                cr_status = nullish (map_option cr_status existing) CsPending,
                cr_decision = (case existing of None \<Rightarrow> None | Some e \<Rightarrow> cr_decision e),
                cr_created_at = nullish (map_option cr_created_at existing) ts, cr_updated_at = ts,
                cr_last_from = Some (mm_from m), cr_last_ts = Some ts,
                cr_plan = (case existing of None \<Rightarrow> None | Some e \<Rightarrow> cr_plan e),
                cr_feedback = (case existing of None \<Rightarrow> None | Some e \<Rightarrow> cr_feedback e),
                cr_reason = (case existing of None \<Rightarrow> None | Some e \<Rightarrow> cr_reason e)\<rparr>
          in jmap_set (ce_request_id env) (applyEnvelope base (ce_coordination env) (ce_kind env) (ce_payload env)) merged)"

definition collectPendingMailboxRecords :: "CoHost \<Rightarrow> int \<Rightarrow> CoVm \<Rightarrow> (string \<times> CoordinationRecord) list" where
  "collectPendingMailboxRecords h now vm =
     foldl (collectMessage h now) [] (concat (map memberMail (obj_values (cv_actors vm))))"

section \<open>The engine\<close>

definition coordinationResolve :: "CoHost \<Rightarrow> int \<Rightarrow> CoVm \<Rightarrow> string \<Rightarrow> (CoordinationRecord \<times> CoordinationRecordSource) option" where
  "coordinationResolve h now vm request_id =
     (let storeRecord = map_of (cv_legacyStore vm) request_id in
      case findActorOwnedRecord vm request_id of
        Some owned \<Rightarrow> Some (mergeRecords owned storeRecord, ActorOwned)
      | None \<Rightarrow> (case map_of (collectPendingMailboxRecords h now vm) request_id of
          Some pending \<Rightarrow> Some (mergeRecords pending storeRecord, PendingMailbox)
        | None \<Rightarrow> map_option (\<lambda>r. (r, LegacyCache)) storeRecord))"

definition coordinationGet :: "CoHost \<Rightarrow> int \<Rightarrow> CoVm \<Rightarrow> string \<Rightarrow> CoordinationRecord option" where
  "coordinationGet h now vm request_id = map_option fst (coordinationResolve h now vm request_id)"

definition mergeInto :: "(string \<times> CoordinationRecord) list \<Rightarrow> CoordinationRecord \<Rightarrow> (string \<times> CoordinationRecord) list" where
  "mergeInto merged r = jmap_set (cr_request_id r) (mergeRecords r (map_of merged (cr_request_id r))) merged"

definition coordinationList :: "CoHost \<Rightarrow> int \<Rightarrow> CoVm \<Rightarrow> CoordinationRecord list" where
  "coordinationList h now vm =
     (let stored = foldl (\<lambda>m r. jmap_set (cr_request_id r) r m) [] (obj_values (cv_legacyStore vm));
          pending = foldl mergeInto stored (map snd (collectPendingMailboxRecords h now vm));
          owned = foldl mergeInto pending (concat (map ownedRecords (obj_values (cv_actors vm))))
      in js_sort (\<lambda>a b. cr_created_at a - cr_created_at b) (map snd owned))"

definition coordinationReplaceAll :: "CoordinationRecord list \<Rightarrow> CoVm \<Rightarrow> CoVm" where
  "coordinationReplaceAll records vm = vm\<lparr>cv_legacyStore := obj_of (map (\<lambda>r. (cr_request_id r, r)) records)\<rparr>"

definition isApproved :: "CoHost \<Rightarrow> int \<Rightarrow> CoVm \<Rightarrow> string \<Rightarrow> bool" where
  "isApproved h now vm request_id = (map_option cr_status (coordinationGet h now vm request_id) = Some CsApproved)"

definition formatInjectText :: "CoHost \<Rightarrow> string \<Rightarrow> CoordinationRecord \<Rightarrow> jsv \<Rightarrow> string" where
  "formatInjectText h from r payload =
     (let prefix = ''Coordination('' @ coordinationName (ch_shw h) (cr_coordination r) @ '') '' @ kindName (cr_kind r) @ '' ''
            @ cr_request_id r @ (if from \<noteq> [] then '' from '' @ from else []);
          decision = (case cr_decision r of None \<Rightarrow> [] | Some DApprove \<Rightarrow> ''APPROVE'' | Some DReject \<Rightarrow> ''REJECT'');
          given = (\<lambda>k d. nullish (orElse (stringProp payload k) d) []);
          decided = (\<lambda>note. prefix @ '': '' @ decision @ (if note \<noteq> [] then CHR 0x0A # note else []))
      in if cr_coordination r = NPlanApproval \<and> cr_kind r = KPlanRequest then
           (let plan = given ''plan'' (cr_plan r) in prefix @ (if plan \<noteq> [] then '':'' @ CHR 0x0A # plan else []))
         else if cr_coordination r = NPlanApproval \<and> cr_kind r = KPlanReview then decided (given ''feedback'' (cr_feedback r))
         else if cr_coordination r = NShutdown \<and> cr_kind r = KShutdownResponse then decided (given ''reason'' (cr_reason r))
         else prefix)"

definition ingestRecord :: "CoHost \<Rightarrow> int \<Rightarrow> CoVm \<Rightarrow> MemberMessage \<Rightarrow> CoordinationEnvelope \<Rightarrow> CoordinationRecord" where
  "ingestRecord h now vm m env =
     (let existing = coordinationGet h now vm (ce_request_id env);
          base = \<lparr>cr_request_id = ce_request_id env, cr_coordination = ce_coordination env, cr_kind = ce_kind env,
            cr_status = nullish (map_option cr_status existing) CsPending,
            cr_decision = (case existing of None \<Rightarrow> None | Some e \<Rightarrow> cr_decision e),
            cr_created_at = nullish (map_option cr_created_at existing) now, cr_updated_at = now,
            cr_last_from = Some (mm_from m), cr_last_ts = Some (nullish (mm_ts m) now),
            cr_plan = (case existing of None \<Rightarrow> None | Some e \<Rightarrow> cr_plan e),
            cr_feedback = (case existing of None \<Rightarrow> None | Some e \<Rightarrow> cr_feedback e),
            cr_reason = (case existing of None \<Rightarrow> None | Some e \<Rightarrow> cr_reason e)\<rparr>
      in applyEnvelope base (ce_coordination env) (ce_kind env) (ce_payload env))"

definition ingestMemberInbox :: "CoHost \<Rightarrow> int \<Rightarrow> CoVm \<Rightarrow> MemberMessage \<Rightarrow> bool \<Rightarrow> IngestResult option \<times> CoVm" where
  "ingestMemberInbox h now vm m cache = (case parseEnvelopeText h (mm_text m) of
      None \<Rightarrow> (None, vm)
    | Some env \<Rightarrow>
        let r = ingestRecord h now vm m env in
        (Some \<lparr>ir_request_id = ce_request_id env, ir_coordination = cr_coordination r, ir_kind = cr_kind r, ir_status = cr_status r,
           ir_decision = cr_decision r, ir_injectText = formatInjectText h (mm_from m) r (ce_payload env)\<rparr>,
         if cache then vm\<lparr>cv_legacyStore := obj_put (ce_request_id env) r (cv_legacyStore vm)\<rparr> else vm))"

end
