(* ===== verification/MemberModel.thy ===== *)
theory MemberModel
  imports CoordinationModel
begin

text \<open>
  The member roster and its messages: \<open>ai-organ-logic/src/organization/MemberManager.ts\<close>, with
  \<open>ai-organ-contract/src/organization/MemberRole.ts\<close>, and the delivery of a signal to a fiber, \<open>emitFiberSignal\<close> of
  \<open>ai-organ-logic/src/orchestratorCapsule/internals/driverRuntime.ts\<close>, for the signals that carry a member message.

  A record of the code that joins a roster entry with its VM, actor and driver is the entry beside its actor here; it exists
  where the actor and the driver do.
\<close>

section \<open>Actors of the VM\<close>

definition updateActor :: "string \<Rightarrow> (CoActor \<Rightarrow> CoActor) \<Rightarrow> CoVm \<Rightarrow> CoVm" where
  "updateActor key f vm = (case map_of (cv_actors vm) key of
      None \<Rightarrow> vm
    | Some actor \<Rightarrow> vm\<lparr>cv_actors := kv_replace key (f actor) (cv_actors vm)\<rparr>)"

datatype MemberMailbox = MemberCoordination | MemberChatInbox

definition mailboxName :: "MemberMailbox \<Rightarrow> string" where
  "mailboxName b = (case b of MemberCoordination \<Rightarrow> ''memberCoordination'' | MemberChatInbox \<Rightarrow> ''memberChatInbox'')"

definition sendMail :: "MemberMailbox \<Rightarrow> MemberMessage \<Rightarrow> CoActor \<Rightarrow> CoActor" where
  "sendMail b m actor = (case b of
      MemberCoordination \<Rightarrow> actor\<lparr>ca_memberCoordination := ca_memberCoordination actor @ [m]\<rparr>
    | MemberChatInbox \<Rightarrow> actor\<lparr>ca_memberChatInbox := ca_memberChatInbox actor @ [m]\<rparr>)"

section \<open>Delivery\<close>

definition messageValue :: "MemberMessage \<Rightarrow> jsv" where
  "messageValue m = JObj ([(''from'', JStr (mm_from m)), (''text'', JStr (mm_text m))]
     @ (case mm_ts m of None \<Rightarrow> [] | Some t \<Rightarrow> [(''ts'', JNum (Fin (of_int t)))]))"

definition memberSignal :: "CoActor \<Rightarrow> string \<Rightarrow> MemberMailbox \<Rightarrow> MemberMessage \<Rightarrow> string \<Rightarrow> int \<Rightarrow> DurableControlSignalInput" where
  "memberSignal actor fiberId b m key createdAt =
     \<lparr>si_eventId = None, si_executionOrigin = ca_executionOrigin actor,
      si_originSchemaVersion = (if truthy (ca_executionOrigin actor) then Some 1 else None), si_actorKey = ca_key actor,
      si_actorId = Some (ca_id actor), si_fiberId = Some fiberId, si_mailboxKind = Some (mailboxName b), si_signalKind = MailboxEnqueue,
      si_signalClass = None, si_priority = None, si_opId = None, si_toolCallId = None, si_causationId = None, si_correlationId = None,
      si_idempotencyKey = Some key, si_createdAt = Some createdAt, si_payload = messageValue m, si_payloadSummary = None,
      si_payloadRef = None\<rparr>"

definition emitFiberSignal :: "CoHost \<Rightarrow> string \<Rightarrow> MemberMailbox \<Rightarrow> MemberMessage \<Rightarrow> string \<Rightarrow> int \<Rightarrow> CoVm \<Rightarrow> CoVm" where
  "emitFiberSignal h fiberId b m key createdAt vm =
     (case (case map_of (cv_fiberIndex vm) fiberId of None \<Rightarrow> None | Some k \<Rightarrow> map_of (cv_actors vm) k) of
        None \<Rightarrow> vm
      | Some actor \<Rightarrow>
          if ca_interrupted actor then vm
          else let em = emitDurableControlSignal (ch_shw h) (cv_controlSignals vm) (memberSignal actor fiberId b m key createdAt) createdAt in
            if \<not> em_created em then vm
            else (updateActor (the (map_of (cv_fiberIndex vm) fiberId)) (sendMail b m) vm)\<lparr>
              cv_controlSignals := markDurableControlSignalConsumed (ch_lc h) (ch_shw h) (em_store em) (sg_eventId (em_signal em)) createdAt,
              cv_scheduled := cv_scheduled vm @ [(fiberId, sg_signalClass (em_signal em))]\<rparr>)"

section \<open>The roster\<close>

definition normalizeMemberRole :: "string option \<Rightarrow> string" where
  "normalizeMemberRole role = (let t = js_trim (nullish role []) in if t = [] then ''worker'' else t)"

definition stripMemberPrefix :: "string \<Rightarrow> string" where
  "stripMemberPrefix query = (let t = js_trim query in if starts_with ''member:'' t then drop 7 t else t)"

definition buildRecord :: "CoVm \<Rightarrow> VmMemberRosterEntry \<Rightarrow> (VmMemberRosterEntry \<times> CoActor) option" where
  "buildRecord vm entry = (case map_of (cv_actors vm) (re_actorKey entry) of
      Some actor \<Rightarrow> if cv_hasDriver vm then Some (entry\<lparr>re_role := normalizeMemberRole (Some (re_role entry))\<rparr>, actor) else None
    | None \<Rightarrow> None)"

record MemberView =
  mv_memberId :: string
  mv_name :: string
  mv_role :: string
  mv_agentType :: string
  mv_lane :: string
  mv_fiberId :: string
  mv_actorKey :: string
  mv_actorId :: string
  mv_status :: string
  mv_waitingReason :: "string option"
  mv_lifecycleState :: MemberLifecycleState
  mv_shutdownRequestId :: "string option"
  mv_lastActiveAt :: int
  mv_lastAssistantText :: "string option"
  mv_lastCompletedAt :: "int option"

definition fiberStatus :: "CoVm \<Rightarrow> string \<Rightarrow> string" where
  "fiberStatus vm fiberId = (case map_option fb_status (map_of (cv_fibers vm) fiberId) of Some (JStr s) \<Rightarrow> s | _ \<Rightarrow> ''missing'')"

definition toView :: "CoVm \<Rightarrow> VmMemberRosterEntry \<times> CoActor \<Rightarrow> MemberView" where
  "toView vm rec = (let entry = fst rec; actor = snd rec;
      status = fiberStatus vm (re_fiberId entry);
      waiting = (case map_option fb_waitingReason (map_of (cv_fibers vm) (re_fiberId entry)) of Some (JStr s) \<Rightarrow> Some s | _ \<Rightarrow> None);
      ended = (status = ''cancelled'' \<or> status = ''completed'' \<or> status = ''failed'');
      reply = find (\<lambda>m. am_role m = ''assistant'') (rev (ca_messages actor));
      completed = (case reply of None \<Rightarrow> None | Some m \<Rightarrow> Some (nullish (orElse (am_completed m) (am_created m)) (re_lastActiveAt entry)))
    in \<lparr>mv_memberId = re_memberId entry, mv_name = re_name entry, mv_role = re_role entry, mv_agentType = re_agentType entry,
        mv_lane = re_lane entry, mv_fiberId = re_fiberId entry, mv_actorKey = re_actorKey entry, mv_actorId = re_actorId entry,
        mv_status = (if ended then ''exited'' else if re_lifecycleState entry = MShuttingDown then ''shutting_down''
           else if re_lifecycleState entry = MExited then ''exited'' else status),
        mv_waitingReason = waiting,
        mv_lifecycleState = (if ended then MExited else re_lifecycleState entry),
        mv_shutdownRequestId = re_shutdownRequestId entry,
        mv_lastActiveAt = max (re_lastActiveAt entry) (max (nullish (ca_lastMemberResultNotifiedAt actor) 0) (nullish completed 0)),
        mv_lastAssistantText = (case reply of None \<Rightarrow> None | Some m \<Rightarrow> (case am_content m of None \<Rightarrow> None
           | Some c \<Rightarrow> if js_trim c = [] then None else Some c)),
        mv_lastCompletedAt = completed\<rparr>)"

definition listRosterRecords :: "CoVm \<Rightarrow> (VmMemberRosterEntry \<times> CoActor) list" where
  "listRosterRecords vm = concat (map (\<lambda>e. case buildRecord vm e of None \<Rightarrow> [] | Some r \<Rightarrow> [r]) (obj_values (cv_roster vm)))"

definition listMembers :: "CoHost \<Rightarrow> CoVm \<Rightarrow> MemberView list" where
  "listMembers h vm = js_sort (\<lambda>a b. numOr (ch_lcBase h (mv_name a) (mv_name b)) (ch_lc h (mv_memberId a) (mv_memberId b)))
     (map (toView vm) (listRosterRecords vm))"

definition injectRecoveredMember :: "VmMemberRosterEntry \<Rightarrow> CoVm \<Rightarrow> (VmMemberRosterEntry \<times> CoActor) result \<times> CoVm" where
  "injectRecoveredMember entry vm =
     (let entry' = entry\<lparr>re_role := normalizeMemberRole (Some (re_role entry))\<rparr>;
          vm' = vm\<lparr>cv_roster := obj_put (re_memberId entry') entry' (cv_roster vm)\<rparr>
      in (case buildRecord vm' entry' of None \<Rightarrow> Inl ''failed_to_build_recovered_member_record'' | Some r \<Rightarrow> Inr r, vm'))"

fun injectRecoveredMembers :: "VmMemberRosterEntry list \<Rightarrow> CoVm \<Rightarrow> unit result \<times> CoVm" where
  "injectRecoveredMembers [] vm = (Inr (), vm)"
| "injectRecoveredMembers (e # es) vm = (case injectRecoveredMember e vm of
      (Inl message, vm') \<Rightarrow> (Inl message, vm')
    | (Inr _, vm') \<Rightarrow> injectRecoveredMembers es vm')"

definition replaceRecoveredRoster :: "VmMemberRosterEntry list \<Rightarrow> CoVm \<Rightarrow> (VmMemberRosterEntry \<times> CoActor) list result \<times> CoVm" where
  "replaceRecoveredRoster records vm = (case injectRecoveredMembers records (vm\<lparr>cv_roster := []\<rparr>) of
      (Inl message, vm') \<Rightarrow> (Inl message, vm')
    | (Inr _, vm') \<Rightarrow> (Inr (listRosterRecords vm'), vm'))"

definition resolveMember :: "(string \<Rightarrow> string) \<Rightarrow> CoVm \<Rightarrow> string \<Rightarrow> (VmMemberRosterEntry \<times> CoActor) option" where
  "resolveMember lower vm query =
     (let q = stripMemberPrefix query; es = obj_values (cv_roster vm) in
      if q = [] then None
      else case map_of (cv_roster vm) q of
        Some e \<Rightarrow> buildRecord vm e
      | None \<Rightarrow> (case find (\<lambda>e. re_memberId e = q) es of
          Some e \<Rightarrow> buildRecord vm e
        | None \<Rightarrow> (case find (\<lambda>e. re_name e = q \<or> lower (re_name e) = lower q) es of
            Some e \<Rightarrow> buildRecord vm e
          | None \<Rightarrow> None)))"

definition getMember :: "CoVm \<Rightarrow> string \<Rightarrow> (VmMemberRosterEntry \<times> CoActor) option" where
  "getMember vm memberId = (case map_of (cv_roster vm) memberId of None \<Rightarrow> None | Some e \<Rightarrow> buildRecord vm e)"

definition findByActor :: "CoVm \<Rightarrow> string \<Rightarrow> string option \<Rightarrow> (VmMemberRosterEntry \<times> CoActor) option" where
  "findByActor vm actorKey actorId =
     (case find (\<lambda>e. re_actorKey e = actorKey \<and> (nullish actorId [] = [] \<or> Some (re_actorId e) = actorId)) (obj_values (cv_roster vm)) of
        None \<Rightarrow> None
      | Some e \<Rightarrow> buildRecord vm e)"

definition updateMember :: "string \<Rightarrow> (VmMemberRosterEntry \<Rightarrow> VmMemberRosterEntry) \<Rightarrow> CoVm \<Rightarrow> CoVm" where
  "updateMember memberId f vm = (case map_of (cv_roster vm) memberId of
      None \<Rightarrow> vm
    | Some e \<Rightarrow> vm\<lparr>cv_roster := kv_replace memberId (f e) (cv_roster vm)\<rparr>)"

definition markMemberActive :: "int \<Rightarrow> string \<Rightarrow> CoVm \<Rightarrow> CoVm" where
  "markMemberActive now memberId = updateMember memberId (\<lambda>e. e\<lparr>re_lastActiveAt := now,
     re_lifecycleState := (if re_lifecycleState e \<noteq> MExited then MActive else MExited)\<rparr>)"

definition markMemberShutdownRequested :: "int \<Rightarrow> string \<Rightarrow> string option \<Rightarrow> CoVm \<Rightarrow> CoVm" where
  "markMemberShutdownRequested now memberId requestId = updateMember memberId (\<lambda>e. e\<lparr>re_lifecycleState := MShuttingDown,
     re_shutdownRequestId := orElse requestId (re_shutdownRequestId e), re_lastActiveAt := now\<rparr>)"

definition markMemberExited :: "int \<Rightarrow> string \<Rightarrow> CoVm \<Rightarrow> CoVm" where
  "markMemberExited now memberId = updateMember memberId (\<lambda>e. e\<lparr>re_lifecycleState := MExited, re_lastActiveAt := now\<rparr>)"

definition markExitedByActor :: "int \<Rightarrow> string \<Rightarrow> string option \<Rightarrow> CoVm \<Rightarrow> CoVm" where
  "markExitedByActor now actorKey actorId vm = (case findByActor vm actorKey actorId of
      None \<Rightarrow> vm
    | Some rec \<Rightarrow> markMemberExited now (re_memberId (fst rec)) vm)"

definition createMember :: "CoActor \<Rightarrow> string \<Rightarrow> string \<Rightarrow> string option \<Rightarrow> string \<Rightarrow> int \<Rightarrow> CoVm \<Rightarrow> (VmMemberRosterEntry \<times> CoActor) result \<times> CoVm" where
  "createMember actor memberId name role agentType now vm =
     (let actor' = actor\<lparr>ca_memberIdentity := Some \<lparr>mi_memberId = memberId, mi_name = name\<rparr>\<rparr>;
          fiberId = ca_key actor' @ '':'' @ ca_id actor';
          entry = \<lparr>re_memberId = memberId, re_name = name, re_role = normalizeMemberRole role, re_agentType = agentType,
            re_lane = ''member'', re_fiberId = fiberId, re_actorKey = ca_key actor', re_actorId = ca_id actor', re_createdAt = now,
            re_lastActiveAt = now, re_lifecycleState = MActive, re_shutdownRequestId = None\<rparr>;
          vm' = vm\<lparr>cv_hasDriver := True, cv_actors := obj_put (ca_key actor') actor' (cv_actors vm),
            cv_fiberIndex := (if map_of (cv_fiberIndex vm) fiberId = None then cv_fiberIndex vm @ [(fiberId, ca_key actor')] else cv_fiberIndex vm),
            cv_fibers := jmap_set fiberId \<lparr>fb_status = JStr ''suspended'', fb_waitingReason = JStr ''external''\<rparr> (cv_fibers vm),
            cv_roster := obj_put memberId entry (cv_roster vm)\<rparr>
      in (case buildRecord vm' entry of None \<Rightarrow> Inl ''failed_to_build_member_record'' | Some r \<Rightarrow> Inr r, vm'))"

section \<open>Messages\<close>

definition mailboxFor :: "CoHost \<Rightarrow> string \<Rightarrow> MemberMailbox" where
  "mailboxFor h text = (if parseEnvelopeText h text \<noteq> None then MemberCoordination else MemberChatInbox)"

definition messageKey :: "string \<Rightarrow> MemberMailbox \<Rightarrow> int \<Rightarrow> string \<Rightarrow> string" where
  "messageKey fiberId b ts from = fiberId @ '':'' @ mailboxName b @ '':'' @ show_int ts @ '':'' @ from"

definition sendMessage :: "CoHost \<Rightarrow> int \<Rightarrow> string \<Rightarrow> string \<Rightarrow> string \<Rightarrow> CoVm \<Rightarrow> CoVm" where
  "sendMessage h now to_member from text vm = (case map_of (cv_roster vm) to_member of
      None \<Rightarrow> vm
    | Some rec \<Rightarrow>
        let vm1 = updateMember to_member (\<lambda>e. e\<lparr>re_lastActiveAt := now\<rparr>) vm in
        if map_of (cv_actors vm1) (re_actorKey rec) = None \<or> \<not> cv_hasDriver vm1 then vm1
        else
          let b = mailboxFor h text;
              vm2 = emitFiberSignal h (re_fiberId rec) b \<lparr>mm_from = from, mm_text = text, mm_ts = Some now\<rparr>
                (messageKey (re_fiberId rec) b now from) now vm1;
              vm3 = (if cv_interactiveTurnActive vm2
                then vm2\<lparr>cv_deferredMemberResumes := cv_deferredMemberResumes vm2 @ [re_fiberId rec]\<rparr> else vm2)
          in vm3\<lparr>cv_history := cv_history vm3 @ [MemberMessageSent (re_memberId rec) (re_actorKey rec) (re_actorId rec) from text]\<rparr>)"

definition broadcast :: "CoHost \<Rightarrow> int \<Rightarrow> string \<Rightarrow> string \<Rightarrow> CoVm \<Rightarrow> CoVm" where
  "broadcast h now from text vm = foldl (\<lambda>v e. sendMessage h now (re_memberId e) from text v) vm (obj_values (cv_roster vm))"

end
