(* ===== verification/CoordinationRuntime.thy ===== *)
theory CoordinationRuntime
  imports MemberModel
begin

text \<open>
  Where coordination meets execution: the draining of member mail, the gate in front of every tool and the end of a member
  (\<open>exec/AiAgentExecutor.ts\<close>, \<open>orchestratorCapsule/internals/driverRuntime.ts\<close> of \<open>ai-organ-logic/src\<close>), and the tools
  \<open>PlanReview\<close>, \<open>ShutdownRequest\<close>, \<open>CoordinationStatus\<close> and \<open>ShutdownStatus\<close> of \<open>composer/AIAgent/tools\<close>.

  An actor is named by its key in the VM. A history entry stands for the event that is appended to the orchestration history and
  sent over the bus. Relaying stage events of a holon from chat messages touches none of this state.
\<close>

section \<open>Draining mail\<close>

definition actorAt :: "CoVm \<Rightarrow> string \<Rightarrow> CoActor option" where
  "actorAt vm key = map_of (cv_actors vm) key"

definition appendUserInput :: "string \<Rightarrow> string \<Rightarrow> CoVm \<Rightarrow> CoVm" where
  "appendUserInput key text vm = vm\<lparr>cv_userInputs := cv_userInputs vm @ [(key, text)]\<rparr>"

definition drainChatMessage :: "CoHost \<Rightarrow> int \<Rightarrow> string \<Rightarrow> CoVm \<Rightarrow> MemberMessage \<Rightarrow> CoVm" where
  "drainChatMessage h now key vm m =
     (if mm_text m = [] then vm
      else if parseEnvelopeText h (mm_text m) \<noteq> None
      then updateActor key (sendMail MemberCoordination (m\<lparr>mm_ts := Some (nullish (mm_ts m) now)\<rparr>)) vm
      else
        let vm' = (case Option.bind (actorAt vm key) ca_memberIdentity of None \<Rightarrow> vm | Some i \<Rightarrow> markMemberActive now (mi_memberId i) vm)
        in appendUserInput key (if mm_from m \<noteq> [] then ''Message from '' @ mm_from m @ '':'' @ CHR 0x0A # mm_text m else mm_text m) vm')"

definition drainMemberChatInboxIntoMessages :: "CoHost \<Rightarrow> int \<Rightarrow> string \<Rightarrow> CoVm \<Rightarrow> CoVm" where
  "drainMemberChatInboxIntoMessages h now key vm = (case actorAt vm key of
      None \<Rightarrow> vm
    | Some actor \<Rightarrow> foldl (drainChatMessage h now key) (updateActor key (\<lambda>a. a\<lparr>ca_memberChatInbox := []\<rparr>) vm) (ca_memberChatInbox actor))"

definition ownedBy :: "int \<Rightarrow> IngestResult \<Rightarrow> OwnedCoordination" where
  "ownedBy now r = \<lparr>oc_requestId = ir_request_id r, oc_status = ir_status r, oc_kind = Some (ir_kind r), oc_decision = ir_decision r,
     oc_updatedAt = now\<rparr>"

definition shutdownResponse :: "CoHost \<Rightarrow> string \<Rightarrow> string" where
  "shutdownResponse h request_id = snd (makeOutbound h NShutdown KShutdownResponse request_id
     (JObj [(''decision'', JStr ''approve''), (''reason'', JStr ''shutting down'')]))"

definition answerShutdown :: "CoHost \<Rightarrow> int \<Rightarrow> string \<Rightarrow> MemberIdentity \<Rightarrow> string \<Rightarrow> CoVm \<Rightarrow> CoVm" where
  "answerShutdown h now key i request_id vm =
     (let responder = (if mi_name i \<noteq> [] then mi_name i else key);
          vm' = updateActor key (sendMail MemberCoordination
            \<lparr>mm_from = responder, mm_text = shutdownResponse h request_id, mm_ts = Some now\<rparr>) vm
      in case findByActor vm' key (map_option ca_id (actorAt vm' key)) of
           None \<Rightarrow> vm'
         | Some member \<Rightarrow> markMemberShutdownRequested now (re_memberId (fst member)) (Some request_id) vm')"

definition adoptCoordination :: "int \<Rightarrow> IngestResult \<Rightarrow> CoActor \<Rightarrow> CoActor" where
  "adoptCoordination now r actor =
     (if ir_coordination r = NPlanApproval then actor\<lparr>ca_planApproval := Some (ownedBy now r)\<rparr>
      else if ir_coordination r = NShutdown then actor\<lparr>ca_shutdownCoordination := Some (ownedBy now r)\<rparr>
      else actor)"

definition recordIngest :: "int \<Rightarrow> string \<Rightarrow> MemberMessage \<Rightarrow> IngestResult \<Rightarrow> CoVm \<Rightarrow> CoVm" where
  "recordIngest now key m r vm =
     (let vm1 = appendUserInput key (if ir_injectText r \<noteq> [] then ir_injectText r else mm_text m) vm;
          vm2 = updateActor key (adoptCoordination now r) vm1
      in vm2\<lparr>cv_history := cv_history vm2 @ [CoordinationIngested (mm_from m) (ir_coordination r) (ir_kind r)
           (ir_request_id r) (ir_status r) (ir_decision r)]\<rparr>)"

definition followShutdown :: "CoHost \<Rightarrow> int \<Rightarrow> string \<Rightarrow> IngestResult \<Rightarrow> CoVm \<Rightarrow> CoVm" where
  "followShutdown h now key r vm = (case Option.bind (actorAt vm key) ca_memberIdentity of
      None \<Rightarrow> vm
    | Some i \<Rightarrow>
        if ir_coordination r = NShutdown \<and> ir_kind r = KShutdownRequest then answerShutdown h now key i (ir_request_id r) vm
        else if ir_coordination r = NShutdown \<and> ir_kind r = KShutdownResponse
        then updateActor key (\<lambda>a. a\<lparr>ca_control := ca_control a @ [''shutdown_requested'']\<rparr>) vm
        else vm)"

definition drainCoordinationMessage :: "CoHost \<Rightarrow> int \<Rightarrow> string \<Rightarrow> CoVm \<Rightarrow> MemberMessage \<Rightarrow> CoVm" where
  "drainCoordinationMessage h now key vm m =
     (if mm_text m = [] then vm
      else case ingestMemberInbox h now vm m False of
        (None, vm1) \<Rightarrow> vm1
      | (Some r, vm1) \<Rightarrow> followShutdown h now key r (recordIngest now key m r vm1))"

definition coordinationMail :: "CoVm \<Rightarrow> string \<Rightarrow> MemberMessage list" where
  "coordinationMail vm key = (case actorAt vm key of None \<Rightarrow> [] | Some actor \<Rightarrow> ca_memberCoordination actor)"

text \<open>One round of the loop: the batch that was drained, against a VM in which the mailbox is empty.\<close>

definition drainRound :: "CoHost \<Rightarrow> int \<Rightarrow> string \<Rightarrow> CoVm \<Rightarrow> CoVm" where
  "drainRound h now key vm = foldl (drainCoordinationMessage h now key)
     (updateActor key (\<lambda>a. a\<lparr>ca_memberCoordination := []\<rparr>) vm) (coordinationMail vm key)"

text \<open>The loop ends only because of what it sends to itself; None would be a run that does not end.\<close>

partial_function (option) drainMemberCoordinationIntoMessages :: "CoHost \<Rightarrow> int \<Rightarrow> string \<Rightarrow> CoVm \<Rightarrow> CoVm option" where
  "drainMemberCoordinationIntoMessages h now key vm =
     (if coordinationMail vm key = [] then Some vm else drainMemberCoordinationIntoMessages h now key (drainRound h now key vm))"

section \<open>The gate\<close>

definition isToolAllowed :: "CoActor \<Rightarrow> string \<Rightarrow> bool" where
  "isToolAllowed actor toolName =
     (let p = ca_toolPolicy actor in
      if toolName = [] then False
      else if toolName \<in> set (tp_computedDisabledTools p) then False
      else if nullish (tp_allowedToolsMode p) (if tp_allowedTools p \<noteq> [] then ''exact'' else ''all'') = ''all'' then True
      else toolName \<in> set (tp_allowedTools p))"

definition isWebTool :: "string \<Rightarrow> bool" where
  "isWebTool toolName \<longleftrightarrow> toolName = ''webfetch'' \<or> toolName = ''websearch''"

definition isGatedToolByPlanApproval :: "string \<Rightarrow> bool" where
  "isGatedToolByPlanApproval toolName \<longleftrightarrow> toolName \<in> set [''bash'', ''write'', ''edit'', ''RunDelegateActor'', ''RunDetachedBash'',
     ''DetachedBash'', ''DetachedToolCall'']"

definition isMemberActor :: "CoActor \<Rightarrow> bool" where
  "isMemberActor actor \<longleftrightarrow> ca_memberIdentity actor \<noteq> None"

definition getMemberId :: "CoActor \<Rightarrow> string option" where
  "getMemberId actor = map_option mi_memberId (ca_memberIdentity actor)"

definition isPlanApprovalSatisfied :: "CoordinationStatus option \<Rightarrow> bool" where
  "isPlanApprovalSatisfied status \<longleftrightarrow> status = Some CsApproved \<or> status = Some CsCompleted"

datatype NetworkAccess = NetEnabled | NetDisabled | NetUnknown

definition resolveNetworkAccess :: "(string \<Rightarrow> string) \<Rightarrow> CoVm \<Rightarrow> NetworkAccess" where
  "resolveNetworkAccess lower vm =
     (let raw = foldr (\<lambda>v rest. if v = JUndef \<or> v = JNull then rest else v) (cv_networkAccess vm) JUndef;
          v = (case raw of JStr s \<Rightarrow> lower (js_trim s) | _ \<Rightarrow> [])
      in if v = ''enabled'' then NetEnabled else if v = ''disabled'' then NetDisabled else NetUnknown)"

datatype GateDecision = GateAllow | GateDeny string string | GateDefer string string string

definition apo :: string where
  "apo = [CHR 0x27]"

definition evaluateToolExecutionGates :: "CoHost \<Rightarrow> (string \<Rightarrow> string) \<Rightarrow> int \<Rightarrow> CoVm \<Rightarrow> CoActor \<Rightarrow> string \<Rightarrow> GateDecision" where
  "evaluateToolExecutionGates h lower now vm actor toolName =
     (let named = apo @ toolName @ apo;
          network = (if isWebTool toolName \<and> resolveNetworkAccess lower vm = NetDisabled
            then GateDeny ''network_disabled'' (''Error: policy violation: network access is disabled for tool '' @ named) else GateAllow)
      in if \<not> isToolAllowed actor toolName
         then GateDeny ''tool_disabled'' (''Error: policy violation: tool '' @ named @ '' is disabled'')
         else if isMemberActor actor \<and> isGatedToolByPlanApproval toolName then
           (case ca_planApproval actor of
              None \<Rightarrow> network
            | Some oc \<Rightarrow>
                if oc_requestId oc = [] then network
                else if \<not> isPlanApprovalSatisfied (orElse (map_option cr_status (coordinationGet h now vm (oc_requestId oc))) (Some (oc_status oc)))
                then GateDefer ''plan_approval'' (''Error: policy violation: plan approval required for tool '' @ named
                  @ '' (request_id='' @ oc_requestId oc @ '')'') (oc_requestId oc)
                else network)
         else network)"

section \<open>The end of a member\<close>

definition resolveActorSenderName :: "CoActor \<Rightarrow> string" where
  "resolveActorSenderName actor = (case ca_memberIdentity actor of Some i \<Rightarrow> mi_name i | None \<Rightarrow> ca_key actor)"

definition finalizeShutdownIfNeeded :: "CoHost \<Rightarrow> int \<Rightarrow> string \<Rightarrow> CoVm \<Rightarrow> CoVm" where
  "finalizeShutdownIfNeeded h now key vm = (case actorAt vm key of
      None \<Rightarrow> vm
    | Some actor \<Rightarrow> (case ca_shutdownCoordination actor of
          None \<Rightarrow> vm
        | Some oc \<Rightarrow>
            if oc_requestId oc = [] then vm
            else
              let from = resolveActorSenderName actor;
                  done_text = snd (makeOutbound h NShutdown KShutdownDone (oc_requestId oc) (JObj []));
                  ingested = ingestMemberInbox h now vm \<lparr>mm_from = from, mm_text = done_text, mm_ts = Some now\<rparr> True;
                  vm' = (case ingested of
                     (None, vm1) \<Rightarrow> vm1
                   | (Some r, vm1) \<Rightarrow> (updateActor key (\<lambda>a. a\<lparr>ca_shutdownCoordination := Some (ownedBy now r)\<rparr>) vm1)\<lparr>
                       cv_history := cv_history vm1 @ [CoordinationIngested from (ir_coordination r) (ir_kind r) (ir_request_id r)
                         (ir_status r) (ir_decision r)]\<rparr>)
              in markExitedByActor now (ca_key actor) (Some (ca_id actor)) vm'))"

section \<open>Tools\<close>

definition controlError :: "CoVm \<Rightarrow> CoActor \<Rightarrow> string option" where
  "controlError vm actor = (if ca_type actor \<noteq> ''primary'' then Some ''Error: tool is only available to primary actors''
     else if \<not> cv_hasDriver vm then Some ''missing_driver'' else None)"

datatype PlanReviewTarget = MemberTarget CoActor string | ActorTarget CoActor

definition resolveMemberTarget :: "CoVm \<Rightarrow> CoActor \<Rightarrow> PlanReviewTarget" where
  "resolveMemberTarget vm actor =
     (if \<not> isMemberActor actor then ActorTarget actor
      else case findByActor vm (ca_key actor) (Some (ca_id actor)) of
        None \<Rightarrow> ActorTarget actor
      | Some m \<Rightarrow> MemberTarget actor (re_memberId (fst m)))"

definition findActorOwnedTarget :: "CoVm \<Rightarrow> string \<Rightarrow> PlanReviewTarget option" where
  "findActorOwnedTarget vm requestId = map_option (resolveMemberTarget vm)
     (find (\<lambda>a. map_option oc_requestId (ca_planApproval a) = Some requestId) (obj_values (cv_actors vm)))"

definition mailFor :: "CoHost \<Rightarrow> (CoordinationEnvelope \<Rightarrow> bool) \<Rightarrow> CoVm \<Rightarrow> (CoActor \<times> CoordinationEnvelope) option" where
  "mailFor h P vm = find (\<lambda>p. P (snd p)) (concat (map (\<lambda>a. concat (map (\<lambda>m. case parseEnvelopeText h (mm_text m) of
       None \<Rightarrow> [] | Some env \<Rightarrow> [(a, env)]) (memberMail a))) (obj_values (cv_actors vm))))"

definition findPendingMailboxTarget :: "CoHost \<Rightarrow> CoVm \<Rightarrow> string \<Rightarrow> PlanReviewTarget option" where
  "findPendingMailboxTarget h vm requestId = map_option (\<lambda>p. resolveMemberTarget vm (fst p))
     (mailFor h (\<lambda>env. ce_request_id env = requestId \<and> ce_coordination env = NPlanApproval) vm)"

definition findLegacyMetadataTarget :: "CoVm \<Rightarrow> string option \<Rightarrow> PlanReviewTarget option" where
  "findLegacyMetadataTarget vm lastFrom =
     (if nullish lastFrom [] = [] then None
      else case find (\<lambda>m. Some (re_name (fst m)) = lastFrom \<or> Some (re_memberId (fst m)) = lastFrom \<or> Some (re_actorKey (fst m)) = lastFrom)
          (listRosterRecords vm) of
        None \<Rightarrow> None
      | Some m \<Rightarrow> map_option (\<lambda>a. MemberTarget a (re_memberId (fst m))) (map_of (cv_actors vm) (re_actorKey (fst m))))"

datatype PlanReviewOutput = ReviewNotFound | ReviewOwnerNotFound string CoordinationStatus
  | ReviewQueued string "string option" CoordinationStatus

definition reviewPayload :: "jsv \<Rightarrow> jsv \<Rightarrow> jsv" where
  "reviewPayload approve feedback = JObj [(''decision'', JStr (decisionName (if approve = JBool False then DReject else DApprove))),
     (''feedback'', JStr (as_str feedback))]"

definition planReviewCoreLogic ::
  "CoHost \<Rightarrow> int \<Rightarrow> CoActor \<Rightarrow> jsv \<Rightarrow> jsv \<Rightarrow> jsv \<Rightarrow> CoVm \<Rightarrow> PlanReviewOutput result \<times> CoVm" where
  "planReviewCoreLogic h now self request_id approve feedback vm = (case controlError vm self of
      Some e \<Rightarrow> (Inl e, vm)
    | None \<Rightarrow>
        let requestId = (if request_id = JUndef \<or> request_id = JNull then [] else js_String (ch_shw h) request_id) in
        case coordinationGet h now vm requestId of
          None \<Rightarrow> (Inr ReviewNotFound, vm)
        | Some r \<Rightarrow>
            let text = snd (makeOutbound h NPlanApproval KPlanReview requestId (reviewPayload approve feedback)) in
            (case orElse (findActorOwnedTarget vm requestId)
                (orElse (findPendingMailboxTarget h vm requestId) (findLegacyMetadataTarget vm (cr_last_from r))) of
               None \<Rightarrow> (Inr (ReviewOwnerNotFound requestId (cr_status r)), vm)
             | Some (MemberTarget a memberId) \<Rightarrow>
                 (Inr (ReviewQueued requestId (Some memberId) (cr_status r)), sendMessage h now memberId (ca_key self) text vm)
             | Some (ActorTarget a) \<Rightarrow>
                 let fiber = ca_key a @ '':'' @ ca_id a in
                 (Inr (ReviewQueued requestId None (cr_status r)),
                  emitFiberSignal h fiber MemberCoordination \<lparr>mm_from = ca_key self, mm_text = text, mm_ts = Some now\<rparr>
                    (fiber @ '':memberCoordination:'' @ requestId @ '':'' @ show_int now) now vm)))"

datatype ShutdownRequestOutput = ShutdownMemberNotFound string | ShutdownRequested string CoordinationStatus string

definition shutdownRequestCoreLogic ::
  "CoHost \<Rightarrow> int \<Rightarrow> CoActor \<Rightarrow> string \<Rightarrow> jsv \<Rightarrow> jsv \<Rightarrow> CoVm \<Rightarrow> ShutdownRequestOutput result \<times> CoVm" where
  "shutdownRequestCoreLogic h now self fresh member_id reason vm = (case controlError vm self of
      Some e \<Rightarrow> (Inl e, vm)
    | None \<Rightarrow>
        let target = (if member_id = JUndef \<or> member_id = JNull then [] else js_String (ch_shw h) member_id) in
        case getMember vm target of
          None \<Rightarrow> (Inr (ShutdownMemberNotFound target), vm)
        | Some m \<Rightarrow>
            let text = snd (makeOutbound h NShutdown KShutdownRequest fresh (JObj [(''reason'', JStr (as_str reason))]));
                vm' = sendMessage h now (re_memberId (fst m)) (ca_key self) text vm
            in (Inr (ShutdownRequested fresh (nullish (map_option cr_status (coordinationGet h now vm' fresh)) CsPending) (re_memberId (fst m))), vm'))"

datatype StatusOutput = StatusUnknown
  | StatusRecord CoordinationRecord "(string \<times> string) option" CoordinationRecordSource
  | StatusPending CoordinationEnvelope string string

text \<open>The two status tools differ in whose fields make an owner and in which envelopes they look for.\<close>

definition statusOutput :: "CoHost \<Rightarrow> int \<Rightarrow> (CoActor \<Rightarrow> bool) \<Rightarrow> (CoordinationEnvelope \<Rightarrow> bool) \<Rightarrow> CoVm \<Rightarrow> string \<Rightarrow> StatusOutput" where
  "statusOutput h now owns P vm requestId =
     (let owner = find owns (obj_values (cv_actors vm));
          pending = (case owner of None \<Rightarrow> mailFor h P vm | Some _ \<Rightarrow> None) in
      case coordinationResolve h now vm requestId of
        Some (r, source) \<Rightarrow> StatusRecord r
          (case owner of Some a \<Rightarrow> Some (ca_key a, ca_id a) | None \<Rightarrow> map_option (\<lambda>p. (ca_key (fst p), ca_id (fst p))) pending)
          (if owner \<noteq> None then ActorOwned else if pending \<noteq> None then PendingMailbox else source)
      | None \<Rightarrow> (case pending of
          Some (a, env) \<Rightarrow> StatusPending env (ca_key a) (ca_id a)
        | None \<Rightarrow> StatusUnknown))"

definition ownsRequest :: "string \<Rightarrow> OwnedCoordination option \<Rightarrow> bool" where
  "ownsRequest requestId oc = (map_option oc_requestId oc = Some requestId)"

definition coordinationStatusCoreLogic :: "CoHost \<Rightarrow> int \<Rightarrow> CoVm \<Rightarrow> string \<Rightarrow> StatusOutput" where
  "coordinationStatusCoreLogic h now vm requestId = statusOutput h now
     (\<lambda>a. ownsRequest requestId (ca_planApproval a) \<or> ownsRequest requestId (ca_shutdownCoordination a))
     (\<lambda>env. ce_request_id env = requestId) vm requestId"

definition shutdownStatusCoreLogic :: "CoHost \<Rightarrow> int \<Rightarrow> CoVm \<Rightarrow> string \<Rightarrow> StatusOutput" where
  "shutdownStatusCoreLogic h now vm requestId = statusOutput h now
     (\<lambda>a. ownsRequest requestId (ca_shutdownCoordination a))
     (\<lambda>env. ce_request_id env = requestId \<and> ce_coordination env = NShutdown) vm requestId"

end
