(* ===== verification/CoordinationProps.thy ===== *)
theory CoordinationProps
  imports CoordinationRuntime SignalProps "HOL-Library.Countable"
begin

text \<open>
  Facts on coordination that the claims share: JSON text and envelopes, actors under update, the records a VM holds for a request,
  and the rounds of draining.
\<close>

section \<open>JSON text\<close>

text \<open>Values that survive \<open>JSON.stringify\<close>: nothing undefined, finite numbers, and each key once.\<close>

fun json_plain :: "jsv \<Rightarrow> bool" where
  "json_plain JUndef \<longleftrightarrow> False"
| "json_plain JNull \<longleftrightarrow> True"
| "json_plain (JBool b) \<longleftrightarrow> True"
| "json_plain (JNum n) \<longleftrightarrow> num_finite n"
| "json_plain (JStr s) \<longleftrightarrow> True"
| "json_plain (JArr vs) \<longleftrightarrow> (\<forall>v \<in> set vs. json_plain v)"
| "json_plain (JObj ps) \<longleftrightarrow> distinct (map fst ps) \<and> (\<forall>p \<in> set ps. json_plain (snd p))"

definition jsonText :: "CoHost \<Rightarrow> bool" where
  "jsonText h \<longleftrightarrow> (\<forall>v. json_plain v \<longrightarrow> ch_parse h (ch_stringify h v) = Some v) \<and> ch_parse h [] = None"

instance jnum :: countable by countable_datatype

instance jsv :: countable by countable_datatype

text \<open>Such a host exists: values are numbered.\<close>

definition numberedHost :: CoHost where
  "numberedHost = \<lparr>ch_parse = (\<lambda>s. let v = from_nat (parse_nat s) in if show_nat (to_nat (v :: jsv)) = s then Some v else None),
     ch_stringify = (\<lambda>v. show_nat (to_nat v)), ch_shw = (\<lambda>_. ''1''), ch_lc = unit_compare, ch_lcBase = unit_compare\<rparr>"

lemma numbered_parse [simp]: "ch_parse numberedHost (ch_stringify numberedHost v) = Some v"
  by (simp add: numberedHost_def Let_def)

lemma numbered_json: "jsonText numberedHost"
  by (simp add: jsonText_def) (simp add: numberedHost_def Let_def)

section \<open>Envelopes\<close>

lemma kindOf_name [simp]: "kindOf (JStr (kindName k)) = Some k"
  by (cases k) (simp_all add: kindOf_def kindName_def)

lemma name_known: "n = NShutdown \<or> n = NPlanApproval \<Longrightarrow> \<exists>s. coordinationValue n = JStr s \<and> isAiAgentCoordinationName (JStr s) \<and> nameOf (JStr s) = n"
  by (elim disjE) (simp_all add: coordinationValue_def isAiAgentCoordinationName_def nameOf_def)

lemma outbound_parses:
  assumes "jsonText h" "json_plain payload" "n = NShutdown \<or> n = NPlanApproval"
  shows "parseEnvelopeText h (snd (makeOutbound h n k rid payload))
    = Some \<lparr>ce_coordination = n, ce_kind = k, ce_request_id = rid, ce_payload = orObject payload\<rparr>"
proof -
  obtain s where s: "coordinationValue n = JStr s" "isAiAgentCoordinationName (JStr s)" "nameOf (JStr s) = n"
    using name_known[OF assms(3)] by blast
  have "json_plain (orObject payload)" using assms(2) by (simp add: orObject_def)
  then have "ch_parse h (snd (makeOutbound h n k rid payload)) = Some (JObj [(''type'', JStr ''rad_member_coordination''), (''v'', JNum (Fin 1)),
        (''coordination'', JStr s), (''kind'', JStr (kindName k)), (''request_id'', JStr rid), (''payload'', orObject payload)])"
    using assms(1) s(1) by (simp add: makeOutbound_def jsonText_def)
  moreover have "orObject (orObject v) = orObject v" for v by (simp add: orObject_def)
  ultimately show ?thesis using s(2,3)
    by (simp add: parseEnvelopeText_def isCoordinationEnvelope_def envelopeCoordination_def isAiAgentCoordinationKind_def)
qed

lemma parse_empty [simp]: "jsonText h \<Longrightarrow> parseEnvelopeText h [] = None"
  by (simp add: jsonText_def parseEnvelopeText_def)

lemma response_parses:
  assumes "jsonText h"
  shows "parseEnvelopeText h (shutdownResponse h rid) = Some \<lparr>ce_coordination = NShutdown, ce_kind = KShutdownResponse, ce_request_id = rid,
     ce_payload = JObj [(''decision'', JStr ''approve''), (''reason'', JStr ''shutting down'')]\<rparr>"
  unfolding shutdownResponse_def by (subst outbound_parses[OF assms]) (simp_all add: orObject_def)

section \<open>Actors under update\<close>

lemma actorAt_update: "actorAt (updateActor key f vm) k = (if k = key then map_option f (actorAt vm k) else actorAt vm k)"
proof (cases "map_of (cv_actors vm) key")
  case (Some a)
  then have "key \<in> fst ` set (cv_actors vm)" by (metis domI dom_map_of_conv_image_fst)
  then show ?thesis using Some by (simp add: actorAt_def updateActor_def map_of_kv_replace)
qed (simp add: actorAt_def updateActor_def)

lemma update_fields [simp]:
  "cv_roster (updateActor key f vm) = cv_roster vm" "cv_legacyStore (updateActor key f vm) = cv_legacyStore vm"
  "cv_hasDriver (updateActor key f vm) = cv_hasDriver vm" "cv_history (updateActor key f vm) = cv_history vm"
  "cv_controlSignals (updateActor key f vm) = cv_controlSignals vm" "cv_fiberIndex (updateActor key f vm) = cv_fiberIndex vm"
  "cv_networkAccess (updateActor key f vm) = cv_networkAccess vm"
  by (simp_all add: updateActor_def split: option.splits)

lemma updateMember_fields [simp]:
  "cv_actors (updateMember i g vm) = cv_actors vm" "cv_legacyStore (updateMember i g vm) = cv_legacyStore vm"
  "cv_hasDriver (updateMember i g vm) = cv_hasDriver vm" "cv_history (updateMember i g vm) = cv_history vm"
  "cv_controlSignals (updateMember i g vm) = cv_controlSignals vm" "cv_fiberIndex (updateMember i g vm) = cv_fiberIndex vm"
  by (simp_all add: updateMember_def split: option.splits)

lemma mark_fields [simp]:
  "cv_actors (markMemberActive now i vm) = cv_actors vm" "cv_legacyStore (markMemberActive now i vm) = cv_legacyStore vm"
  "cv_actors (markMemberShutdownRequested now i r vm) = cv_actors vm" "cv_legacyStore (markMemberShutdownRequested now i r vm) = cv_legacyStore vm"
  "cv_actors (markMemberExited now i vm) = cv_actors vm" "cv_legacyStore (markMemberExited now i vm) = cv_legacyStore vm"
  "cv_actors (markExitedByActor now k j vm) = cv_actors vm" "cv_legacyStore (markExitedByActor now k j vm) = cv_legacyStore vm"
  by (simp_all add: markMemberActive_def markMemberShutdownRequested_def markMemberExited_def markExitedByActor_def split: option.splits)

lemma append_fields [simp]:
  "cv_actors (appendUserInput k t vm) = cv_actors vm" "cv_legacyStore (appendUserInput k t vm) = cv_legacyStore vm"
  "cv_roster (appendUserInput k t vm) = cv_roster vm" "cv_hasDriver (appendUserInput k t vm) = cv_hasDriver vm"
  by (simp_all add: appendUserInput_def)

text \<open>Values after an update are values before it or the updated one.\<close>

lemma update_values:
  "a \<in> set (obj_values (cv_actors (updateActor key f vm))) \<Longrightarrow>
     a \<in> set (obj_values (cv_actors vm)) \<or> (\<exists>b \<in> set (obj_values (cv_actors vm)). a = f b)"
proof -
  assume a: "a \<in> set (obj_values (cv_actors (updateActor key f vm)))"
  show ?thesis
  proof (cases "map_of (cv_actors vm) key")
    case (Some b)
    then have "a \<in> snd ` set (kv_replace key (f b) (cv_actors vm))" using a by (simp add: updateActor_def)
    then have "a = f b \<or> a \<in> snd ` set (cv_actors vm)" using kv_replace_entries[of _ _ key "f b" "cv_actors vm"] by fastforce
    moreover have "b \<in> snd ` set (cv_actors vm)" using Some by (rule map_of_in_values)
    ultimately show ?thesis by auto
  qed (use a in \<open>simp add: updateActor_def\<close>)
qed

section \<open>Rounds of draining\<close>

lemma apply_keeps:
  assumes "cr_coordination r = n" "cr_kind r = k"
  shows "cr_coordination (applyEnvelope r n k p) = n" "cr_kind (applyEnvelope r n k p) = k"
    "cr_request_id (applyEnvelope r n k p) = cr_request_id r"
  using assms by (simp_all add: applyEnvelope_def)

lemma ingest_names [simp]:
  "cr_coordination (ingestRecord h now vm m env) = ce_coordination env" "cr_kind (ingestRecord h now vm m env) = ce_kind env"
  "cr_request_id (ingestRecord h now vm m env) = ce_request_id env"
  by (simp_all add: ingestRecord_def Let_def apply_keeps)

text \<open>The message that was ingested, as the caller sees it.\<close>

lemma ingest_cases:
  assumes "ingestMemberInbox h now vm m cache = (res, vm')"
  obtains (ignored) "parseEnvelopeText h (mm_text m) = None" "res = None" "vm' = vm"
    | (handled) env r where "parseEnvelopeText h (mm_text m) = Some env" "res = Some r" "ir_request_id r = ce_request_id env"
        "ir_coordination r = ce_coordination env" "ir_kind r = ce_kind env" "ir_status r = cr_status (ingestRecord h now vm m env)"
        "ir_decision r = cr_decision (ingestRecord h now vm m env)" "\<not> cache \<Longrightarrow> vm' = vm" "cv_actors vm' = cv_actors vm"
proof (cases "parseEnvelopeText h (mm_text m)")
  case None
  then show ?thesis using assms ignored by (simp add: ingestMemberInbox_def)
next
  case (Some env)
  then show ?thesis using assms by (intro handled) (auto simp: ingestMemberInbox_def Let_def)
qed

definition shutdownAsked :: "CoHost \<Rightarrow> MemberMessage \<Rightarrow> bool" where
  "shutdownAsked h m \<longleftrightarrow> (\<exists>env. parseEnvelopeText h (mm_text m) = Some env \<and> ce_coordination env = NShutdown \<and> ce_kind env = KShutdownRequest)"

lemma mail_update:
  "coordinationMail (updateActor key f vm) key = (case actorAt vm key of None \<Rightarrow> [] | Some a \<Rightarrow> ca_memberCoordination (f a))"
  by (simp add: coordinationMail_def actorAt_update split: option.splits)

lemma mail_history [simp]: "coordinationMail (vm\<lparr>cv_history := hs\<rparr>) key = coordinationMail vm key"
  "actorAt (vm\<lparr>cv_history := hs\<rparr>) key = actorAt vm key"
  by (simp_all add: coordinationMail_def actorAt_def)

lemma mail_actors: "cv_actors v = cv_actors w \<Longrightarrow> coordinationMail v key = coordinationMail w key"
  by (simp add: coordinationMail_def actorAt_def)

lemma answer_actors: "cv_actors (answerShutdown h now key i rid vm) = cv_actors (updateActor key (sendMail MemberCoordination
    \<lparr>mm_from = (if mi_name i \<noteq> [] then mi_name i else key), mm_text = shutdownResponse h rid, mm_ts = Some now\<rparr>) vm)"
  unfolding answerShutdown_def Let_def by (simp split: option.split)

lemma record_actor [simp]: "actorAt (recordIngest now key m r vm) k
    = (if k = key then map_option (adoptCoordination now r) (actorAt vm k) else actorAt vm k)"
  by (simp add: recordIngest_def Let_def actorAt_update) (simp add: actorAt_def)

lemma adopt_fields [simp]: "ca_memberCoordination (adoptCoordination now r a) = ca_memberCoordination a"
  "ca_memberChatInbox (adoptCoordination now r a) = ca_memberChatInbox a"
  "ca_memberIdentity (adoptCoordination now r a) = ca_memberIdentity a" "ca_control (adoptCoordination now r a) = ca_control a"
  "ca_toolPolicy (adoptCoordination now r a) = ca_toolPolicy a"
  by (simp_all add: adoptCoordination_def)

lemma record_mail [simp]: "coordinationMail (recordIngest now key m r vm) key = coordinationMail vm key"
  by (simp add: coordinationMail_def split: option.split)

lemma response_not_asked:
  "jsonText h \<Longrightarrow> \<not> shutdownAsked h \<lparr>mm_from = f, mm_text = shutdownResponse h rid, mm_ts = t\<rparr>"
  by (simp add: shutdownAsked_def response_parses)

lemma follow_mail:
  assumes "jsonText h"
  shows "\<exists>rs. coordinationMail (followShutdown h now key r vm) key = coordinationMail vm key @ rs
    \<and> list_all (\<lambda>x. \<not> shutdownAsked h x) rs \<and> (\<not> (ir_coordination r = NShutdown \<and> ir_kind r = KShutdownRequest) \<longrightarrow> rs = [])"
proof (cases "Option.bind (actorAt vm key) ca_memberIdentity")
  case None
  then show ?thesis by (simp add: followShutdown_def)
next
  case (Some i)
  then obtain a where a: "actorAt vm key = Some a" by (cases "actorAt vm key") auto
  have c: "coordinationMail (updateActor key (\<lambda>a. a\<lparr>ca_control := x a\<rparr>) vm) key = coordinationMail vm key" for x
    by (simp add: mail_update a) (simp add: coordinationMail_def a)
  show ?thesis
  proof (cases "ir_coordination r = NShutdown \<and> ir_kind r = KShutdownRequest")
    case True
    let ?m = "\<lparr>mm_from = (if mi_name i \<noteq> [] then mi_name i else key), mm_text = shutdownResponse h (ir_request_id r), mm_ts = Some now\<rparr>"
    have "coordinationMail (answerShutdown h now key i (ir_request_id r) vm) key = coordinationMail vm key @ [?m]"
      using mail_actors[OF answer_actors] by (simp add: mail_update a sendMail_def) (simp add: coordinationMail_def a)
    then show ?thesis using True Some response_not_asked[OF assms] by (intro exI[of _ "[?m]"]) (simp add: followShutdown_def)
  next
    case False
    then show ?thesis using Some c by (intro exI[of _ "[]"]) (auto simp: followShutdown_def)
  qed
qed

lemma drain_message_mail:
  assumes "jsonText h"
  shows "\<exists>rs. coordinationMail (drainCoordinationMessage h now key vm m) key = coordinationMail vm key @ rs
    \<and> list_all (\<lambda>x. \<not> shutdownAsked h x) rs \<and> (\<not> shutdownAsked h m \<longrightarrow> rs = [])"
proof (cases "mm_text m = []")
  case False
  obtain res vm1 where i: "ingestMemberInbox h now vm m False = (res, vm1)" by (cases "ingestMemberInbox h now vm m False")
  from i show ?thesis
  proof (cases rule: ingest_cases)
    case ignored
    then show ?thesis using False i by (simp add: drainCoordinationMessage_def)
  next
    case (handled env r)
    have "shutdownAsked h m \<longleftrightarrow> ir_coordination r = NShutdown \<and> ir_kind r = KShutdownRequest"
      using handled by (simp add: shutdownAsked_def)
    then show ?thesis using False i handled(2,8) follow_mail[OF assms, of now key r "recordIngest now key m r vm"]
      by (simp add: drainCoordinationMessage_def)
  qed
qed (simp add: drainCoordinationMessage_def)

lemma drain_batch_mail:
  assumes "jsonText h"
  shows "\<exists>rs. coordinationMail (foldl (drainCoordinationMessage h now key) vm ms) key = coordinationMail vm key @ rs
    \<and> list_all (\<lambda>x. \<not> shutdownAsked h x) rs \<and> (list_all (\<lambda>x. \<not> shutdownAsked h x) ms \<longrightarrow> rs = [])"
proof (induction ms arbitrary: vm)
  case (Cons m ms)
  obtain rs where rs: "coordinationMail (drainCoordinationMessage h now key vm m) key = coordinationMail vm key @ rs"
      "list_all (\<lambda>x. \<not> shutdownAsked h x) rs" "\<not> shutdownAsked h m \<longrightarrow> rs = []"
    using drain_message_mail[OF assms] by blast
  obtain ss where ss: "coordinationMail (foldl (drainCoordinationMessage h now key) (drainCoordinationMessage h now key vm m) ms) key
        = coordinationMail (drainCoordinationMessage h now key vm m) key @ ss"
      "list_all (\<lambda>x. \<not> shutdownAsked h x) ss" "list_all (\<lambda>x. \<not> shutdownAsked h x) ms \<longrightarrow> ss = []"
    using Cons.IH by blast
  show ?case by (rule exI[of _ "rs @ ss"]) (use rs ss in simp)
qed simp

lemma round_mail:
  assumes "jsonText h"
  shows "list_all (\<lambda>x. \<not> shutdownAsked h x) (coordinationMail (drainRound h now key vm) key)"
    "list_all (\<lambda>x. \<not> shutdownAsked h x) (coordinationMail vm key) \<Longrightarrow> coordinationMail (drainRound h now key vm) key = []"
proof -
  have e: "coordinationMail (updateActor key (\<lambda>a. a\<lparr>ca_memberCoordination := []\<rparr>) vm) key = []"
    by (simp add: mail_update split: option.split)
  show "list_all (\<lambda>x. \<not> shutdownAsked h x) (coordinationMail (drainRound h now key vm) key)"
    using drain_batch_mail[OF assms, of now key "updateActor key (\<lambda>a. a\<lparr>ca_memberCoordination := []\<rparr>) vm"] e
    unfolding drainRound_def by (metis append_Nil)
  show "coordinationMail (drainRound h now key vm) key = []" if "list_all (\<lambda>x. \<not> shutdownAsked h x) (coordinationMail vm key)"
    using drain_batch_mail[OF assms, of now key "updateActor key (\<lambda>a. a\<lparr>ca_memberCoordination := []\<rparr>) vm"] e that
    unfolding drainRound_def by (metis append_Nil)
qed

lemma drain_rounds:
  assumes "jsonText h"
  shows "drainMemberCoordinationIntoMessages h now key vm = Some
    (if coordinationMail vm key = [] then vm
     else if coordinationMail (drainRound h now key vm) key = [] then drainRound h now key vm
     else drainRound h now key (drainRound h now key vm))"
proof -
  have "coordinationMail (drainRound h now key (drainRound h now key vm)) key = []"
    using round_mail[OF assms] by blast
  then show ?thesis
    by (subst drainMemberCoordinationIntoMessages.simps, subst drainMemberCoordinationIntoMessages.simps,
      subst drainMemberCoordinationIntoMessages.simps) simp
qed

end
