(* ===== verification/PlanGate.thy ===== *)
theory PlanGate
  imports CoordinationProps
begin

text \<open>
  The plan approval gate as an invariant. \<open>coStep\<close> is the step relation of a VM in which nobody reviews a plan; \<open>planSafe\<close> is
  what each of its steps keeps: no mail and no actor holds a decision on the requests of a set, and the member stays under its
  plan request.
\<close>

section \<open>The gate without a review\<close>

definition harmless :: "CoHost \<Rightarrow> string set \<Rightarrow> string \<Rightarrow> bool" where
  "harmless h R text \<longleftrightarrow> (case parseEnvelopeText h text of
      None \<Rightarrow> True
    | Some env \<Rightarrow> if ce_coordination env = NPlanApproval then ce_kind env = KPlanRequest \<and> ce_request_id env \<in> R
        else ce_request_id env \<notin> R)"

definition unreviewed :: "CoHost \<Rightarrow> string set \<Rightarrow> CoActor \<Rightarrow> bool" where
  "unreviewed h R a \<longleftrightarrow> list_all (\<lambda>m. harmless h R (mm_text m)) (memberMail a)
     \<and> (case ca_planApproval a of None \<Rightarrow> True | Some oc \<Rightarrow> oc_requestId oc \<in> R \<and> \<not> isPlanApprovalSatisfied (Some (oc_status oc)))
     \<and> (case ca_shutdownCoordination a of None \<Rightarrow> True | Some oc \<Rightarrow> oc_requestId oc \<notin> R)"

definition reviewFree :: "CoHost \<Rightarrow> string set \<Rightarrow> CoVm \<Rightarrow> bool" where
  "reviewFree h R vm \<longleftrightarrow> (\<forall>a \<in> set (obj_values (cv_actors vm)). unreviewed h R a)"

definition underPlan :: "string \<Rightarrow> CoVm \<Rightarrow> bool" where
  "underPlan key vm \<longleftrightarrow> (\<exists>a. actorAt vm key = Some a \<and> isMemberActor a \<and> ca_planApproval a \<noteq> None)"

definition planSafe :: "CoHost \<Rightarrow> string set \<Rightarrow> string \<Rightarrow> CoVm \<Rightarrow> bool" where
  "planSafe h R key vm \<longleftrightarrow> reviewFree h R vm \<and> underPlan key vm"

text \<open>What can happen to a VM while nobody reviews a plan: mail is drained by any actor, harmless mail is sent, members are
  marked, asked to shut down and ended, and new members start.\<close>

inductive coStep :: "CoHost \<Rightarrow> string set \<Rightarrow> CoVm \<Rightarrow> CoVm \<Rightarrow> bool" for h R where
  drainChat: "coStep h R vm (drainMemberChatInboxIntoMessages h now k vm)"
| drainCoordination: "drainMemberCoordinationIntoMessages h now k vm = Some vm' \<Longrightarrow> coStep h R vm vm'"
| send: "harmless h R text \<Longrightarrow> coStep h R vm (sendMessage h now to_member from text vm)"
| shutdown: "fresh \<notin> R \<Longrightarrow> coStep h R vm (snd (shutdownRequestCoreLogic h now self fresh member_id reason vm))"
| finish: "coStep h R vm (finalizeShutdownIfNeeded h now k vm)"
| mark_active: "coStep h R vm (markMemberActive now i vm)"
| mark_exited: "coStep h R vm (markExitedByActor now k j vm)"
| create: "map_of (cv_actors vm) (ca_key a) = None \<Longrightarrow> memberMail a = [] \<Longrightarrow> ca_planApproval a = None \<Longrightarrow> ca_shutdownCoordination a = None
    \<Longrightarrow> coStep h R vm (snd (createMember a i name role agentType now vm))"

lemma safe_update:
  assumes "planSafe h R key vm"
    and "\<And>a. unreviewed h R a \<Longrightarrow> unreviewed h R (f a)"
    and "\<And>a. isMemberActor a \<Longrightarrow> ca_planApproval a \<noteq> None \<Longrightarrow> isMemberActor (f a) \<and> ca_planApproval (f a) \<noteq> None"
  shows "planSafe h R key (updateActor k f vm)"
proof -
  have "reviewFree h R (updateActor k f vm)"
    using assms(1,2) update_values unfolding planSafe_def reviewFree_def by blast
  moreover have "underPlan key (updateActor k f vm)"
    using assms(1,3) by (auto simp: planSafe_def underPlan_def actorAt_update)
  ultimately show ?thesis by (simp add: planSafe_def)
qed

lemma safe_actors: "cv_actors v = cv_actors w \<Longrightarrow> planSafe h R key v = planSafe h R key w"
  by (simp add: planSafe_def reviewFree_def underPlan_def actorAt_def)

lemma send_safe:
  assumes "harmless h R (mm_text m)"
  shows "unreviewed h R a \<Longrightarrow> unreviewed h R (sendMail b m a)"
    "isMemberActor (sendMail b m a) = isMemberActor a" "ca_planApproval (sendMail b m a) = ca_planApproval a"
  using assms by (cases b; simp add: unreviewed_def sendMail_def memberMail_def isMemberActor_def)+

lemma safe_send:
  "planSafe h R key vm \<Longrightarrow> harmless h R (mm_text m) \<Longrightarrow> planSafe h R key (updateActor k (sendMail b m) vm)"
  by (rule safe_update) (simp_all add: send_safe)

lemma safe_emit:
  assumes "planSafe h R key vm" "harmless h R (mm_text m)"
  shows "planSafe h R key (emitFiberSignal h f b m idem t vm)"
proof -
  have "cv_actors (emitFiberSignal h f b m idem t vm) = cv_actors vm
      \<or> (\<exists>k. cv_actors (emitFiberSignal h f b m idem t vm) = cv_actors (updateActor k (sendMail b m) vm))"
    unfolding emitFiberSignal_def Let_def by (auto split: option.splits)
  then show ?thesis using assms safe_actors safe_send by metis
qed

lemma safe_sendMessage:
  assumes "planSafe h R key vm" "harmless h R text"
  shows "planSafe h R key (sendMessage h now to_member from text vm)"
proof (cases "map_of (cv_roster vm) to_member")
  case None
  then show ?thesis using assms(1) by (simp add: sendMessage_def)
next
  case (Some rec)
  define vm1 where "vm1 = updateMember to_member (\<lambda>e. e\<lparr>re_lastActiveAt := now\<rparr>) vm"
  have s1: "planSafe h R key vm1" using assms(1) by (subst safe_actors[of _ vm]) (simp_all add: vm1_def)
  define vm2 where "vm2 = emitFiberSignal h (re_fiberId rec) (mailboxFor h text) \<lparr>mm_from = from, mm_text = text, mm_ts = Some now\<rparr>
                (messageKey (re_fiberId rec) (mailboxFor h text) now from) now vm1"
  have s2: "planSafe h R key vm2" unfolding vm2_def using s1 assms(2) by (intro safe_emit) simp_all
  have "cv_actors (sendMessage h now to_member from text vm) = cv_actors vm1 \<or> cv_actors (sendMessage h now to_member from text vm) = cv_actors vm2"
    unfolding sendMessage_def Let_def Some option.case vm1_def[symmetric] vm2_def[symmetric] by simp
  then show ?thesis using s1 s2 safe_actors by metis
qed

lemma safe_fold: "(\<And>v m. m \<in> set ms \<Longrightarrow> planSafe h R key v \<Longrightarrow> planSafe h R key (g v m)) \<Longrightarrow> planSafe h R key vm \<Longrightarrow> planSafe h R key (foldl g vm ms)"
  by (induction ms arbitrary: vm) auto

lemma safe_mail:
  "planSafe h R key vm \<Longrightarrow> actorAt vm k = Some a \<Longrightarrow> m \<in> set (memberMail a) \<Longrightarrow> harmless h R (mm_text m)"
proof -
  assume a: "planSafe h R key vm" "actorAt vm k = Some a" "m \<in> set (memberMail a)"
  have "a \<in> set (obj_values (cv_actors vm))" using map_of_in_values[of "cv_actors vm" k a] a(2) by (simp add: actorAt_def)
  then have "unreviewed h R a" using a(1) unfolding planSafe_def reviewFree_def by blast
  then show ?thesis using a(3) by (simp add: unreviewed_def list_all_iff)
qed

lemma safe_clear:
  "planSafe h R key vm \<Longrightarrow> planSafe h R key (updateActor k (\<lambda>a. a\<lparr>ca_memberCoordination := []\<rparr>) vm)"
  "planSafe h R key vm \<Longrightarrow> planSafe h R key (updateActor k (\<lambda>a. a\<lparr>ca_memberChatInbox := []\<rparr>) vm)"
  by (erule safe_update; simp add: unreviewed_def memberMail_def isMemberActor_def)+

lemma safe_drainChat:
  assumes "planSafe h R key vm"
  shows "planSafe h R key (drainMemberChatInboxIntoMessages h now k vm)"
proof (cases "actorAt vm k")
  case (Some a)
  have "planSafe h R key (drainChatMessage h now k v m)" if "m \<in> set (ca_memberChatInbox a)" "planSafe h R key v" for v m
  proof -
    have "harmless h R (mm_text m)" using safe_mail[OF assms Some] that(1) by (simp add: memberMail_def)
    then have "planSafe h R key (updateActor k (sendMail MemberCoordination (m\<lparr>mm_ts := t\<rparr>)) v)" for t
      using that(2) by (intro safe_send) simp_all
    moreover have "planSafe h R key (appendUserInput k x (markMemberActive now i v))" "planSafe h R key (appendUserInput k x v)" for x i
      using that(2) by (subst safe_actors[of _ v]; simp)+
    ultimately show ?thesis using that(2) by (simp add: drainChatMessage_def split: option.split)
  qed
  then show ?thesis using Some assms by (simp add: drainMemberChatInboxIntoMessages_def safe_fold safe_clear)
qed (use assms in \<open>simp add: drainMemberChatInboxIntoMessages_def\<close>)

lemma ingested_plan_pending:
  "ce_coordination env = NPlanApproval \<Longrightarrow> ce_kind env = KPlanRequest \<Longrightarrow> cr_status (ingestRecord h now vm m env) = CsPending"
  by (simp add: ingestRecord_def Let_def applyEnvelope_def)

lemma safe_follow:
  assumes "jsonText h" "planSafe h R key vm" "ir_coordination r = NShutdown \<Longrightarrow> ir_request_id r \<notin> R"
  shows "planSafe h R key (followShutdown h now k r vm)"
proof (cases "Option.bind (actorAt vm k) ca_memberIdentity")
  case None
  then show ?thesis using assms(2) by (simp add: followShutdown_def)
next
  case (Some i)
  have "planSafe h R key (answerShutdown h now k i (ir_request_id r) vm)" if "ir_coordination r = NShutdown"
  proof -
    have "harmless h R (shutdownResponse h (ir_request_id r))" using response_parses[OF assms(1)] assms(3) that by (simp add: harmless_def)
    then show ?thesis using assms(2) by (subst safe_actors[OF answer_actors]) (simp add: safe_send)
  qed
  moreover have "planSafe h R key (updateActor k (\<lambda>a. a\<lparr>ca_control := x a\<rparr>) vm)" for x
    using assms(2) by (rule safe_update) (simp_all add: unreviewed_def memberMail_def isMemberActor_def)
  ultimately show ?thesis using assms(2) Some by (simp add: followShutdown_def)
qed

lemma safe_record:
  assumes "planSafe h R key vm" "ir_coordination r = NShutdown \<Longrightarrow> ir_request_id r \<notin> R"
    and "ir_coordination r = NPlanApproval \<Longrightarrow> ir_request_id r \<in> R \<and> ir_status r = CsPending"
  shows "planSafe h R key (recordIngest now k m r vm)"
proof -
  have "planSafe h R key (updateActor k (adoptCoordination now r) (appendUserInput k x vm))" for x
  proof (rule safe_update)
    show "planSafe h R key (appendUserInput k x vm)" using assms(1) by (subst safe_actors[of _ vm]) simp_all
    show "unreviewed h R (adoptCoordination now r a)" if "unreviewed h R a" for a
      using that assms(2,3) by (auto simp: unreviewed_def adoptCoordination_def memberMail_def ownedBy_def isPlanApprovalSatisfied_def)
    show "isMemberActor (adoptCoordination now r a) \<and> ca_planApproval (adoptCoordination now r a) \<noteq> None"
      if "isMemberActor a" "ca_planApproval a \<noteq> None" for a
      using that by (auto simp: isMemberActor_def adoptCoordination_def)
  qed
  then show ?thesis unfolding recordIngest_def Let_def by (subst safe_actors) simp_all
qed

lemma safe_drainMessage:
  assumes "jsonText h" "planSafe h R key vm" "harmless h R (mm_text m)"
  shows "planSafe h R key (drainCoordinationMessage h now k vm m)"
proof (cases "mm_text m = []")
  case False
  obtain res vm1 where i: "ingestMemberInbox h now vm m False = (res, vm1)" by (cases "ingestMemberInbox h now vm m False")
  from i show ?thesis
  proof (cases rule: ingest_cases)
    case ignored
    then show ?thesis using False i assms(2) by (simp add: drainCoordinationMessage_def)
  next
    case (handled env r)
    have "ir_coordination r = NShutdown \<Longrightarrow> ir_request_id r \<notin> R"
        "ir_coordination r = NPlanApproval \<Longrightarrow> ir_request_id r \<in> R \<and> ir_status r = CsPending"
      using assms(3) handled by (auto simp: harmless_def ingested_plan_pending)
    then show ?thesis using False i handled(2,8) assms(1,2)
      by (simp add: drainCoordinationMessage_def safe_follow safe_record)
  qed
qed (use assms in \<open>simp add: drainCoordinationMessage_def\<close>)

lemma safe_round:
  assumes "jsonText h" "planSafe h R key vm"
  shows "planSafe h R key (drainRound h now k vm)"
proof (cases "actorAt vm k")
  case (Some a)
  have "harmless h R (mm_text m)" if "m \<in> set (ca_memberCoordination a)" for m
    using safe_mail[OF assms(2) Some] that by (simp add: memberMail_def)
  then show ?thesis using Some assms
    by (simp add: drainRound_def coordinationMail_def safe_fold safe_clear safe_drainMessage)
qed (use assms in \<open>simp add: drainRound_def coordinationMail_def safe_clear\<close>)

lemma safe_finish:
  assumes "jsonText h" "planSafe h R key vm"
  shows "planSafe h R key (finalizeShutdownIfNeeded h now k vm)"
proof (cases "Option.bind (actorAt vm k) ca_shutdownCoordination")
  case None
  then show ?thesis using assms(2) by (cases "actorAt vm k") (simp_all add: finalizeShutdownIfNeeded_def)
next
  case (Some oc)
  then obtain a where a: "actorAt vm k = Some a" "ca_shutdownCoordination a = Some oc" by (cases "actorAt vm k") auto
  have "a \<in> set (obj_values (cv_actors vm))" using map_of_in_values[of "cv_actors vm" k a] a(1) by (simp add: actorAt_def)
  then have "unreviewed h R a" using assms(2) unfolding planSafe_def reviewFree_def by blast
  then have n: "oc_requestId oc \<notin> R" using a(2) by (simp add: unreviewed_def)
  define m where "m = \<lparr>mm_from = resolveActorSenderName a, mm_text = snd (makeOutbound h NShutdown KShutdownDone (oc_requestId oc) (JObj [])), mm_ts = Some now\<rparr>"
  have p: "parseEnvelopeText h (mm_text m) = Some \<lparr>ce_coordination = NShutdown, ce_kind = KShutdownDone, ce_request_id = oc_requestId oc, ce_payload = JObj []\<rparr>"
    unfolding m_def by (simp add: outbound_parses[OF assms(1)] orObject_def)
  obtain res vm1 where i: "ingestMemberInbox h now vm m True = (res, vm1)" by (cases "ingestMemberInbox h now vm m True")
  from i obtain r where r: "res = Some r" "ir_request_id r = oc_requestId oc" "cv_actors vm1 = cv_actors vm"
    by (cases rule: ingest_cases) (use p in auto)
  have s1: "planSafe h R key vm1" using assms(2) r(3) safe_actors by metis
  have "planSafe h R key (updateActor k (\<lambda>a. a\<lparr>ca_shutdownCoordination := Some (ownedBy now r)\<rparr>) vm1)"
    using s1 n r(2) by (intro safe_update[OF s1]) (simp_all add: unreviewed_def memberMail_def isMemberActor_def ownedBy_def)
  then have s2: "planSafe h R key (markExitedByActor now x y ((updateActor k (\<lambda>a. a\<lparr>ca_shutdownCoordination := Some (ownedBy now r)\<rparr>) vm1)\<lparr>cv_history := hs\<rparr>))"
    for x y hs by (subst safe_actors[of _ "updateActor k (\<lambda>a. a\<lparr>ca_shutdownCoordination := Some (ownedBy now r)\<rparr>) vm1"]) simp_all
  show ?thesis using a i r(1) s2 assms(2) by (simp add: finalizeShutdownIfNeeded_def m_def[symmetric])
qed

lemma safe_create:
  assumes "planSafe h R key vm" "map_of (cv_actors vm) (ca_key a) = None" "memberMail a = []" "ca_planApproval a = None"
    and "ca_shutdownCoordination a = None"
  shows "planSafe h R key (snd (createMember a i name role agentType now vm))"
proof -
  define b where "b = a\<lparr>ca_memberIdentity := Some \<lparr>mi_memberId = i, mi_name = name\<rparr>\<rparr>"
  have act: "cv_actors (snd (createMember a i name role agentType now vm)) = obj_put (ca_key a) b (cv_actors vm)"
    by (simp add: createMember_def Let_def b_def)
  have "ca_key a \<notin> fst ` set (cv_actors vm)" using assms(2) by (simp add: map_of_eq_None_iff)
  then have v: "set (obj_values (obj_put (ca_key a) b (cv_actors vm))) = insert b (set (obj_values (cv_actors vm)))"
    by (simp add: obj_put_def)
  have "unreviewed h R b" using assms(3-5) by (simp add: b_def unreviewed_def memberMail_def)
  then have "reviewFree h R (snd (createMember a i name role agentType now vm))"
    using assms(1) v by (simp add: reviewFree_def act planSafe_def)
  moreover have "underPlan key (snd (createMember a i name role agentType now vm))"
    using assms(1,2) by (auto simp: planSafe_def underPlan_def actorAt_def act jso.lookup_store)
  ultimately show ?thesis by (simp add: planSafe_def)
qed

lemma safe_step:
  assumes "coStep h R vm vm'" "jsonText h" "planSafe h R key vm"
  shows "planSafe h R key vm'"
  using assms(1)
proof cases
  case (drainChat now k)
  then show ?thesis using assms(3) by (simp add: safe_drainChat)
next
  case (drainCoordination now k)
  then show ?thesis using assms(2,3) by (auto simp: drain_rounds safe_round split: if_splits)
next
  case (send body now to_member sender)
  then show ?thesis using assms(3) by (simp add: safe_sendMessage)
next
  case (shutdown rid now self target reason)
  have "harmless h R (snd (makeOutbound h NShutdown KShutdownRequest rid (JObj [(''reason'', JStr (as_str reason))])))"
    using shutdown(2) by (simp add: harmless_def outbound_parses[OF assms(2)])
  then have "planSafe h R key (sendMessage h now x y (snd (makeOutbound h NShutdown KShutdownRequest rid (JObj [(''reason'', JStr (as_str reason))]))) vm)" for x y
    using assms(3) by (intro safe_sendMessage)
  then show ?thesis using assms(3) unfolding shutdown(1) shutdownRequestCoreLogic_def Let_def by (simp split: option.split)
next
  case (finish now k)
  then show ?thesis using assms(2,3) by (simp add: safe_finish)
next
  case (mark_active now i)
  then show ?thesis using assms(3) by (subst safe_actors[of _ vm]) simp_all
next
  case (mark_exited now k j)
  then show ?thesis using assms(3) by (subst safe_actors[of _ vm]) simp_all
next
  case (create a i name role agentType now)
  then show ?thesis using assms(3) by (simp add: safe_create)
qed

text \<open>What the engine answers for a request that an actor owns is the status of an owner.\<close>

lemma get_owned:
  assumes "actorAt vm key = Some a" "ca_planApproval a = Some oc" "oc_requestId oc = rid" "rid \<noteq> []"
  obtains b r where "b \<in> set (obj_values (cv_actors vm))" "r \<in> set (ownedRecords b)" "cr_request_id r = rid"
    "map_option cr_status (coordinationGet h now vm rid) = Some (cr_status r)"
proof -
  have "a \<in> set (obj_values (cv_actors vm))" using map_of_in_values[of "cv_actors vm" key a] assms(1) by (simp add: actorAt_def)
  moreover have "ownedRecord NPlanApproval KPlanRequest oc \<in> set (ownedRecords a)"
    using assms(2-4) by (simp add: ownedRecords_def toActorOwnedRecord_def)
  ultimately have "find (\<lambda>r. cr_request_id r = rid) (concat (map ownedRecords (obj_values (cv_actors vm)))) \<noteq> None"
    using assms(3) by (auto simp: find_None_iff ownedRecord_def)
  then obtain r where r: "findActorOwnedRecord vm rid = Some r" unfolding findActorOwnedRecord_def by blast
  then have m: "r \<in> set (concat (map ownedRecords (obj_values (cv_actors vm))))" "cr_request_id r = rid"
    unfolding findActorOwnedRecord_def find_Some_iff by (metis nth_mem)+
  then obtain b where "b \<in> set (obj_values (cv_actors vm))" "r \<in> set (ownedRecords b)" by (auto simp del: map_map)
  moreover have "map_option cr_status (coordinationGet h now vm rid) = Some (cr_status r)"
    by (simp add: coordinationGet_def coordinationResolve_def r Let_def mergeRecords_def split: option.split)
  ultimately show ?thesis using that m(2) by blast
qed

lemma owned_cases:
  assumes "r \<in> set (ownedRecords a)"
  obtains (plan) oc where "ca_planApproval a = Some oc" "cr_request_id r = oc_requestId oc" "cr_status r = oc_status oc"
    | (shutdown) oc where "ca_shutdownCoordination a = Some oc" "cr_request_id r = oc_requestId oc" "cr_status r = oc_status oc"
  using assms that by (auto simp: ownedRecords_def toActorOwnedRecord_def ownedRecord_def split: option.splits if_splits)

lemma safe_gate:
  assumes "planSafe h R key vm" "[] \<notin> R"
  shows "\<exists>a. actorAt vm key = Some a \<and> (isGatedToolByPlanApproval toolName \<longrightarrow> evaluateToolExecutionGates h lower now vm a toolName \<noteq> GateAllow)"
proof -
  obtain a oc where a: "actorAt vm key = Some a" "isMemberActor a" "ca_planApproval a = Some oc"
    using assms(1) unfolding planSafe_def underPlan_def by auto
  have all: "unreviewed h R b" if "b \<in> set (obj_values (cv_actors vm))" for b
    using assms(1) that unfolding planSafe_def reviewFree_def by blast
  have "a \<in> set (obj_values (cv_actors vm))" using map_of_in_values[of "cv_actors vm" key a] a(1) by (simp add: actorAt_def)
  then have rid: "oc_requestId oc \<in> R" using all a(3) by (force simp: unreviewed_def)
  then have ne: "oc_requestId oc \<noteq> []" using assms(2) by metis
  obtain b r where b: "b \<in> set (obj_values (cv_actors vm))" "r \<in> set (ownedRecords b)" "cr_request_id r = oc_requestId oc"
      "map_option cr_status (coordinationGet h now vm (oc_requestId oc)) = Some (cr_status r)"
    using get_owned[OF a(1,3) refl ne] by metis
  have "\<not> isPlanApprovalSatisfied (Some (cr_status r))"
    using b(2) by (cases rule: owned_cases) (use all[OF b(1)] b(3) rid in \<open>auto simp: unreviewed_def\<close>)
  then have "evaluateToolExecutionGates h lower now vm a toolName \<noteq> GateAllow" if "isGatedToolByPlanApproval toolName"
    unfolding evaluateToolExecutionGates_def Let_def b(4) a(3) using a(2) ne that by (simp add: b(4) orElse_def)
  then show ?thesis using a(1) by blast
qed

end
