(* ===== verification/CoordinationClaims.thy ===== *)
theory CoordinationClaims
  imports PlanGate PermissionProps
begin

text \<open>
  What coordination promises: draining ends, the plan approval gate stays closed until a review, and the two ways around it; a message
  to a member and the key it travels under.
\<close>

section \<open>Draining ends\<close>

text \<open>C27: draining a member's coordination mail ends, though the loop body writes to the mailbox it drains: after at most two rounds the mailbox is empty, for a host whose JSON text reads back.\<close>

theorem drain_terminates:
  assumes "jsonText h"
  shows "\<exists>vm'. drainMemberCoordinationIntoMessages h now key vm = Some vm' \<and> coordinationMail vm' key = []"
  using round_mail[OF assms] by (auto simp: drain_rounds[OF assms])

section \<open>The gate\<close>

text \<open>C4: while no mail carries a decision on the requests of a set, no sequence of draining, sending, shutting down, marking and creating members opens a gated tool to a member that waits for the approval of one of them.\<close>

theorem gate_closed_without_review:
  assumes "jsonText h" and "[] \<notin> R" and "reviewFree h R vm" and "underPlan key vm"
    and "(coStep h R)\<^sup>*\<^sup>* vm vm'" and "isGatedToolByPlanApproval toolName"
  shows "\<exists>a. actorAt vm' key = Some a \<and> evaluateToolExecutionGates h lower now vm' a toolName \<noteq> GateAllow"
proof -
  from assms(5) have "planSafe h R key vm'"
  proof (induction rule: rtranclp_induct)
    case base
    then show ?case using assms(3,4) by (simp add: planSafe_def)
  next
    case (step v w)
    then show ?case using safe_step assms(1) by metis
  qed
  then show ?thesis using safe_gate[OF _ assms(2)] assms(6) by metis
qed

text \<open>A batch of one message that starts no second round.\<close>

lemma drain_single:
  assumes "jsonText h" "actorAt vm key = Some a" "ca_memberCoordination a = [m]" "\<not> shutdownAsked h m"
  shows "drainMemberCoordinationIntoMessages h now key vm
    = Some (drainCoordinationMessage h now key (updateActor key (\<lambda>a. a\<lparr>ca_memberCoordination := []\<rparr>) vm) m)"
proof -
  have m: "coordinationMail vm key = [m]" using assms(2,3) by (simp add: coordinationMail_def)
  have "coordinationMail (drainRound h now key vm) key = []" using round_mail(2)[OF assms(1)] m assms(4) by simp
  then show ?thesis using m by (simp add: drain_rounds[OF assms(1)] drainRound_def)
qed

lemma gated_no_web: "isGatedToolByPlanApproval t \<Longrightarrow> \<not> isWebTool t"
  by (auto simp: isGatedToolByPlanApproval_def isWebTool_def)

lemma unknown_unowned:
  assumes "findActorOwnedRecord vm rid = None" "b \<in> set (obj_values (cv_actors vm))" "r \<in> set (ownedRecords b)"
  shows "cr_request_id r \<noteq> rid"
  using assms by (auto simp: findActorOwnedRecord_def find_None_iff)

text \<open>C26: a plan review opens the gate whatever it reviews: a member that finds one for a request no actor has made, without any decision in it, may use every gated tool its policy allows, whether or not its own plan was approved.\<close>

theorem foreign_review_opens_gate:
  assumes "jsonText h" and "actorAt vm key = Some a" and "isMemberActor a" and "isToolAllowed a toolName" and "isGatedToolByPlanApproval toolName"
    and "ca_memberCoordination a = [m]" and "parseEnvelopeText h (mm_text m) = Some env"
    and "ce_coordination env = NPlanApproval" and "ce_kind env = KPlanReview" and "js_prop (ce_payload env) ''decision'' \<noteq> JStr ''reject''"
    and "findActorOwnedRecord vm (ce_request_id env) = None"
  shows "\<exists>vm' a'. drainMemberCoordinationIntoMessages h now key vm = Some vm' \<and> actorAt vm' key = Some a'
    \<and> evaluateToolExecutionGates h lower now vm' a' toolName = GateAllow"
proof -
  let ?clear = "\<lambda>a :: CoActor. a\<lparr>ca_memberCoordination := []\<rparr>" and ?rid = "ce_request_id env"
  define vm0 where "vm0 = updateActor key ?clear vm"
  have ne: "mm_text m \<noteq> []" using assms(1,7) by (metis parse_empty option.distinct(1))
  have na: "\<not> shutdownAsked h m" using assms(7,8) by (simp add: shutdownAsked_def)
  obtain res vm1 where i: "ingestMemberInbox h now vm0 m False = (res, vm1)" by (cases "ingestMemberInbox h now vm0 m False")
  then obtain r where r: "res = Some r" "ir_request_id r = ?rid" "ir_coordination r = NPlanApproval" "ir_kind r = KPlanReview"
      "ir_status r = cr_status (ingestRecord h now vm0 m env)" "vm1 = vm0"
    by (cases rule: ingest_cases) (use assms(7-9) in auto)
  have st: "ir_status r = CsApproved"
    using assms(8-10) by (simp add: r(5) ingestRecord_def Let_def applyEnvelope_def decisionOf_def decidedStatus_def)
  define vm2 where "vm2 = recordIngest now key m r vm0"
  have f: "followShutdown h now key r vm2 = vm2" using r(3) by (simp add: followShutdown_def split: option.split)
  have d: "drainMemberCoordinationIntoMessages h now key vm = Some vm2"
    using drain_single[OF assms(1,2,6) na] i r(1,6) ne f by (simp add: drainCoordinationMessage_def vm0_def[symmetric] vm2_def[symmetric])
  let ?g = "adoptCoordination now r"
  have at: "actorAt vm2 key = Some (?g (?clear a))" using assms(2) by (simp add: vm2_def vm0_def actorAt_update)
  have plan: "ca_planApproval (?g b) = Some (ownedBy now r)" "ca_shutdownCoordination (?g b) = ca_shutdownCoordination b" for b
    using r(3) by (simp_all add: adoptCoordination_def)
  have acts: "cv_actors vm2 = cv_actors (updateActor key ?g (appendUserInput key x vm0))" if "x = (if ir_injectText r \<noteq> [] then ir_injectText r else mm_text m)" for x
    using that by (simp add: vm2_def recordIngest_def Let_def)
  have vals: "b \<in> set (obj_values (cv_actors vm)) \<or> (\<exists>c \<in> set (obj_values (cv_actors vm)). b = ?clear c \<or> b = ?g c \<or> b = ?g (?clear c))"
    if "b \<in> set (obj_values (cv_actors vm2))" for b
  proof -
    have "b \<in> set (obj_values (cv_actors vm0)) \<or> (\<exists>c \<in> set (obj_values (cv_actors vm0)). b = ?g c)"
      using update_values[of b key ?g "appendUserInput key (if ir_injectText r \<noteq> [] then ir_injectText r else mm_text m) vm0"] that
      by (simp add: acts[OF refl])
    then show ?thesis using update_values[of _ key ?clear vm] unfolding vm0_def by blast
  qed
  have app: "cr_status x = CsApproved" if "b \<in> set (obj_values (cv_actors vm2))" "x \<in> set (ownedRecords b)" "cr_request_id x = ?rid" for b x
  proof -
    have no: "x \<notin> set (ownedRecords c)" if "c \<in> set (obj_values (cv_actors vm))" for c
      using unknown_unowned[OF assms(11) that] \<open>cr_request_id x = ?rid\<close> by blast
    have cl: "ownedRecords (?clear c) = ownedRecords c" for c by (simp add: ownedRecords_def toActorOwnedRecord_def)
    have gx: "cr_status x = CsApproved \<or> x \<in> set (ownedRecords c)" if "x \<in> set (ownedRecords (?g c))" for c
      using that plan st by (auto simp: ownedRecords_def toActorOwnedRecord_def ownedRecord_def ownedBy_def split: option.splits if_splits)
    show ?thesis using vals[OF that(1)] that(2) no cl gx by (elim disjE bexE) metis+
  qed
  have al: "isToolAllowed (?g (?clear a)) toolName" using assms(4) by (simp add: isToolAllowed_def)
  have gate: "evaluateToolExecutionGates h lower now vm2 (?g (?clear a)) toolName = GateAllow"
  proof (cases "?rid = []")
    case True
    then show ?thesis using al assms(5) gated_no_web r(2) by (simp add: evaluateToolExecutionGates_def Let_def plan ownedBy_def)
  next
    case False
    obtain b x where "b \<in> set (obj_values (cv_actors vm2))" "x \<in> set (ownedRecords b)" "cr_request_id x = ?rid"
        "map_option cr_status (coordinationGet h now vm2 ?rid) = Some (cr_status x)"
      by (rule get_owned[OF at plan(1) _ False]) (use r(2) in \<open>auto simp: ownedBy_def\<close>)
    then have "map_option cr_status (coordinationGet h now vm2 ?rid) = Some CsApproved" using app by metis
    then obtain z where "coordinationGet h now vm2 ?rid = Some z" "cr_status z = CsApproved" by auto
    then show ?thesis using al assms(5) gated_no_web r(2)
      unfolding evaluateToolExecutionGates_def Let_def plan by (simp add: ownedBy_def isPlanApprovalSatisfied_def)
  qed
  show ?thesis using d at gate by blast
qed

text \<open>The gate has a way around it: a member that waits for approval is held at the tool write, but multiedit and apply_patch, which the permission rules treat as writing, pass.\<close>

theorem ungated_write_tools:
  assumes "isMemberActor a" and "ca_planApproval a = Some oc" and "oc_requestId oc \<noteq> []"
    and "coordinationGet h now vm (oc_requestId oc) = Some r" and "\<not> isPlanApprovalSatisfied (Some (cr_status r))"
    and "isToolAllowed a ''write''" and "isToolAllowed a toolName" and "toolName \<in> {''multiedit'', ''apply_patch''}"
  shows "(\<exists>message. evaluateToolExecutionGates h lower now vm a ''write'' = GateDefer ''plan_approval'' message (oc_requestId oc))
    \<and> evaluateToolExecutionGates h lower now vm a toolName = GateAllow
    \<and> (\<exists>path. fileRequest host toolName payload = Some (path, WriteAccess))"
proof -
  have "\<not> isGatedToolByPlanApproval toolName" "\<not> isWebTool toolName" "isGatedToolByPlanApproval ''write''"
    using assms(8) by (auto simp: isGatedToolByPlanApproval_def isWebTool_def)
  moreover have "\<exists>path. fileRequest host toolName payload = Some (path, WriteAccess)" using assms(8) by (auto simp: fileRequest_def Let_def)
  ultimately show ?thesis using assms(1-7) by (simp add: evaluateToolExecutionGates_def Let_def)
qed

section \<open>Messages of one millisecond\<close>

lemma emit_new:
  assumes "map_of (ss_idempotencyIndex s) (buildIdempotencyKey i) = None" "signals_wf s" "si_eventId i = None"
    and "em = emitDurableControlSignal shw s i now"
  shows "em_created em" "em_signal em \<in> set (ss_events (em_store em))" "tombs (em_store em) = tombs s"
    "map_of (ss_idempotencyIndex (em_store em)) (buildIdempotencyKey i) = Some (sg_eventId (em_signal em))"
    "distinct (map fst (ss_idempotencyIndex s)) \<Longrightarrow> distinct (map fst (ss_idempotencyIndex (em_store em)))"
proof -
  have "existingSignal s (buildIdempotencyKey i) = None" using assms(1) by (simp add: existingSignal_def)
  then show "em_created em" "em_signal em \<in> set (ss_events (em_store em))" "tombs (em_store em) = tombs s"
    "map_of (ss_idempotencyIndex (em_store em)) (buildIdempotencyKey i) = Some (sg_eventId (em_signal em))"
    "distinct (map fst (ss_idempotencyIndex s)) \<Longrightarrow> distinct (map fst (ss_idempotencyIndex (em_store em)))"
    using assms by (auto simp: emitDurableControlSignal_def Let_def tombs_def jso.lookup_store)
qed

lemma member_key [simp]: "k \<noteq> [] \<Longrightarrow> buildIdempotencyKey (memberSignal actor f b m k t) = k"
  by (simp add: buildIdempotencyKey_def memberSignal_def Let_def)

lemma message_key_nonempty [simp]: "messageKey f b t s \<noteq> []"
  by (simp add: messageKey_def)

lemma roster_update: "map_of (cv_roster (updateMember i g vm)) j = (if j = i then map_option g (map_of (cv_roster vm) j) else map_of (cv_roster vm) j)"
proof (cases "map_of (cv_roster vm) i")
  case (Some e)
  then have "i \<in> fst ` set (cv_roster vm)" by (metis domI dom_map_of_conv_image_fst)
  then show ?thesis using Some by (simp add: updateMember_def map_of_kv_replace)
qed (simp add: updateMember_def)

text \<open>A message to a running member, before and after the signal store has seen its key.\<close>

definition receives :: "CoVm \<Rightarrow> string \<Rightarrow> VmMemberRosterEntry \<Rightarrow> CoActor \<Rightarrow> bool" where
  "receives vm to_member e a \<longleftrightarrow> map_of (cv_roster vm) to_member = Some e \<and> cv_hasDriver vm
     \<and> map_of (cv_fiberIndex vm) (re_fiberId e) = Some (re_actorKey e) \<and> actorAt vm (re_actorKey e) = Some a \<and> \<not> ca_interrupted a"

text \<open>The signal a message travels as.\<close>

definition messageEmit :: "CoHost \<Rightarrow> int \<Rightarrow> VmMemberRosterEntry \<Rightarrow> CoActor \<Rightarrow> string \<Rightarrow> string \<Rightarrow> CoVm \<Rightarrow> EmitResult" where
  "messageEmit h now e a sender body vm = emitDurableControlSignal (ch_shw h) (cv_controlSignals vm)
     (memberSignal a (re_fiberId e) (mailboxFor h body) \<lparr>mm_from = sender, mm_text = body, mm_ts = Some now\<rparr>
       (messageKey (re_fiberId e) (mailboxFor h body) now sender) now) now"

lemma send_effect:
  assumes "receives vm to_member e a" and "em = messageEmit h now e a sender body vm"
    and "msg = \<lparr>mm_from = sender, mm_text = body, mm_ts = Some now\<rparr>"
  shows "cv_history (sendMessage h now to_member sender body vm)
      = cv_history vm @ [MemberMessageSent (re_memberId e) (re_actorKey e) (re_actorId e) sender body]"
    "\<not> em_created em \<Longrightarrow> cv_actors (sendMessage h now to_member sender body vm) = cv_actors vm"
    "em_created em \<Longrightarrow> cv_actors (sendMessage h now to_member sender body vm)
      = cv_actors (updateActor (re_actorKey e) (sendMail (mailboxFor h body) msg) vm)"
    "em_created em \<Longrightarrow> cv_controlSignals (sendMessage h now to_member sender body vm)
      = markDurableControlSignalConsumed (ch_lc h) (ch_shw h) (em_store em) (sg_eventId (em_signal em)) now"
    "receives (sendMessage h now to_member sender body vm) to_member (e\<lparr>re_lastActiveAt := now\<rparr>)
      (if em_created em then sendMail (mailboxFor h body) msg a else a)"
proof -
  define vm1 where "vm1 = updateMember to_member (\<lambda>e. e\<lparr>re_lastActiveAt := now\<rparr>) vm"
  note r = assms(1)[unfolded receives_def actorAt_def]
  have r1: "map_of (cv_roster vm1) to_member = Some (e\<lparr>re_lastActiveAt := now\<rparr>)" using r by (simp add: vm1_def roster_update)
  have v: "cv_actors vm1 = cv_actors vm" "cv_hasDriver vm1 = cv_hasDriver vm" "cv_fiberIndex vm1 = cv_fiberIndex vm"
      "cv_controlSignals vm1 = cv_controlSignals vm" "cv_history vm1 = cv_history vm"
    by (simp_all add: vm1_def)
  define vm2 where "vm2 = (if em_created em then (updateActor (re_actorKey e) (sendMail (mailboxFor h body) msg) vm1)\<lparr>
        cv_controlSignals := markDurableControlSignalConsumed (ch_lc h) (ch_shw h) (em_store em) (sg_eventId (em_signal em)) now,
        cv_scheduled := cv_scheduled vm1 @ [(re_fiberId e, sg_signalClass (em_signal em))]\<rparr> else vm1)"
  have "emitFiberSignal h (re_fiberId e) (mailboxFor h body) msg (messageKey (re_fiberId e) (mailboxFor h body) now sender) now vm1 = vm2"
    using r by (simp add: emitFiberSignal_def v Let_def vm2_def assms(2) messageEmit_def assms(3))
  then have s: "sendMessage h now to_member sender body vm = (let vm3 = (if cv_interactiveTurnActive vm2
        then vm2\<lparr>cv_deferredMemberResumes := cv_deferredMemberResumes vm2 @ [re_fiberId e]\<rparr> else vm2)
      in vm3\<lparr>cv_history := cv_history vm3 @ [MemberMessageSent (re_memberId e) (re_actorKey e) (re_actorId e) sender body]\<rparr>)"
    using r unfolding sendMessage_def assms(3) vm1_def[symmetric] Let_def by (simp add: v vm1_def[symmetric])
  have u: "cv_actors (updateActor k f vm1) = cv_actors (updateActor k f vm)" for k f
    by (simp add: updateActor_def v split: option.split)
  have at: "map_of (cv_actors (updateActor k f vm)) k = map_option f (map_of (cv_actors vm) k)" for k f
    using actorAt_update[of k f vm k] by (simp add: actorAt_def)
  show "cv_history (sendMessage h now to_member sender body vm)
      = cv_history vm @ [MemberMessageSent (re_memberId e) (re_actorKey e) (re_actorId e) sender body]"
    "\<not> em_created em \<Longrightarrow> cv_actors (sendMessage h now to_member sender body vm) = cv_actors vm"
    "em_created em \<Longrightarrow> cv_actors (sendMessage h now to_member sender body vm)
      = cv_actors (updateActor (re_actorKey e) (sendMail (mailboxFor h body) msg) vm)"
    "em_created em \<Longrightarrow> cv_controlSignals (sendMessage h now to_member sender body vm)
      = markDurableControlSignalConsumed (ch_lc h) (ch_shw h) (em_store em) (sg_eventId (em_signal em)) now"
    by (simp_all add: s Let_def vm2_def v u)
  have "ca_interrupted (sendMail b msg a) = ca_interrupted a" for b by (cases b) (simp_all add: sendMail_def)
  then show "receives (sendMessage h now to_member sender body vm) to_member (e\<lparr>re_lastActiveAt := now\<rparr>)
      (if em_created em then sendMail (mailboxFor h body) msg a else a)"
    using r r1 by (simp add: receives_def s Let_def vm2_def actorAt_def v u at)
qed

text \<open>Of two messages that one sender sends to one mailbox of a member in the same millisecond the second is lost: it shares the first one's idempotency key and no actor changes, yet the history records both as sent.\<close>

theorem same_millisecond_message_lost:
  assumes "receives vm to_member e a" and "mailboxFor h second = mailboxFor h first"
    and "signals_wf (cv_controlSignals vm)" and "distinct (map fst (ss_idempotencyIndex (cv_controlSignals vm)))"
    and "length (tombs (cv_controlSignals vm)) < 128"
    and "map_of (ss_idempotencyIndex (cv_controlSignals vm)) (messageKey (re_fiberId e) (mailboxFor h first) now sender) = None"
  shows "actorAt (sendMessage h now to_member sender first vm) (re_actorKey e)
      = Some (sendMail (mailboxFor h first) \<lparr>mm_from = sender, mm_text = first, mm_ts = Some now\<rparr> a)
    \<and> cv_actors (sendMessage h now to_member sender second (sendMessage h now to_member sender first vm))
      = cv_actors (sendMessage h now to_member sender first vm)
    \<and> cv_history (sendMessage h now to_member sender second (sendMessage h now to_member sender first vm))
      = cv_history vm @ [MemberMessageSent (re_memberId e) (re_actorKey e) (re_actorId e) sender first,
          MemberMessageSent (re_memberId e) (re_actorKey e) (re_actorId e) sender second]"
proof -
  define em where "em = messageEmit h now e a sender first vm"
  define i where "i = memberSignal a (re_fiberId e) (mailboxFor h first) \<lparr>mm_from = sender, mm_text = first, mm_ts = Some now\<rparr>
       (messageKey (re_fiberId e) (mailboxFor h first) now sender) now"
  have em: "em = emitDurableControlSignal (ch_shw h) (cv_controlSignals vm) i now" by (simp add: em_def messageEmit_def i_def)
  have k: "buildIdempotencyKey i = messageKey (re_fiberId e) (mailboxFor h first) now sender" "si_eventId i = None"
    by (simp_all add: i_def) (simp add: memberSignal_def)
  note new = emit_new[OF _ assms(3) k(2) em, unfolded k(1), OF assms(6)]
  note one = send_effect[OF assms(1) em_def refl]
  define b where "b = sendMail (mailboxFor h first) \<lparr>mm_from = sender, mm_text = first, mm_ts = Some now\<rparr> a"
  have r2: "receives (sendMessage h now to_member sender first vm) to_member (e\<lparr>re_lastActiveAt := now\<rparr>) b"
    using one(5) new(1) by (simp add: b_def)
  have "\<not> em_created (messageEmit h now (e\<lparr>re_lastActiveAt := now\<rparr>) b sender second (sendMessage h now to_member sender first vm))"
    unfolding messageEmit_def one(4)[OF new(1)]
    by (rule consumed_not_recreated)
      (use new emit_wf[OF assms(3) k(2)] assms(2,4,5) em in simp_all)
  then show ?thesis using send_effect(1,2)[OF r2 refl refl] one(1) r2 by (simp add: receives_def b_def)
qed

end
