(* ===== verification/ShutdownClaims.thy ===== *)
theory ShutdownClaims
  imports PlanGate
begin

text \<open>
  The engine's two ways to read a record agree, and the course of a shutdown: a member enrolled in the roster, what it does with the
  envelopes of a shutdown, and where that leaves it.
\<close>

section \<open>Listing and lookup\<close>

definition keyedBy :: "('a \<Rightarrow> string) \<Rightarrow> (string \<times> 'a) list \<Rightarrow> bool" where
  "keyedBy f m \<longleftrightarrow> distinct (map fst m) \<and> (\<forall>(k, v) \<in> set m. f v = k)"

lemma keyed_set: "keyedBy f m \<Longrightarrow> f v = k \<Longrightarrow> keyedBy f (jmap_set k v m)"
  by (auto simp: keyedBy_def jsm.distinct_store jmap_set_def dest!: kv_replace_entries split: if_splits)

lemma keyed_find:
  assumes "keyedBy f m" "mset xs = mset (map snd m)"
  shows "find (\<lambda>v. f v = k) xs = map_of m k"
proof -
  have vals: "v \<in> set xs \<longleftrightarrow> (\<exists>j. (j, v) \<in> set m)" for v
    using mset_eq_setD[OF assms(2)] by force
  show ?thesis
  proof (cases "find (\<lambda>v. f v = k) xs")
    case None
    then have "k \<notin> fst ` set m" using vals assms(1) unfolding find_None_iff keyedBy_def by force
    then have "map_of m k = None" by (simp add: map_of_eq_None_iff)
    then show ?thesis using None by simp
  next
    case (Some v)
    then have v: "v \<in> set xs" "f v = k" unfolding find_Some_iff by (metis nth_mem)+
    then obtain j where j: "(j, v) \<in> set m" using vals by auto
    then have "f v = j" using assms(1) by (auto simp: keyedBy_def)
    then have "(k, v) \<in> set m" using j v(2) by simp
    then show ?thesis using Some assms(1) by (simp add: keyedBy_def)
  qed
qed

lemma find_filter: "filter P xs = x # ys \<Longrightarrow> find P xs = Some x"
  by (induction xs) (auto split: if_splits)

lemma merge_id [simp]: "cr_request_id (mergeRecords r s) = cr_request_id r"
  "cr_status (mergeRecords r s) = cr_status r" "cr_decision (mergeRecords r s) = cr_decision r"
  "cr_kind (mergeRecords r s) = cr_kind r" "cr_coordination (mergeRecords r s) = cr_coordination r"
  by (simp_all add: mergeRecords_def split: option.split)

lemma fold_merge_keyed: "keyedBy cr_request_id m \<Longrightarrow> keyedBy cr_request_id (foldl mergeInto m rs)"
  by (induction rs arbitrary: m) (simp_all add: mergeInto_def keyed_set)

lemma fold_merge_other: "rid \<notin> cr_request_id ` set rs \<Longrightarrow> map_of (foldl mergeInto m rs) rid = map_of m rid"
  by (induction rs arbitrary: m) (simp_all add: mergeInto_def jsm.lookup_store)

text \<open>Where one record of a list names a request, it is merged over what was there.\<close>

lemma fold_merge_one:
  assumes "filter (\<lambda>r. cr_request_id r = rid) rs = [r]"
  shows "map_of (foldl mergeInto m rs) rid = Some (mergeRecords r (map_of m rid))"
proof -
  obtain us vs where rs: "rs = us @ r # vs" "\<forall>u \<in> set us. cr_request_id u \<noteq> rid" "cr_request_id r = rid" "filter (\<lambda>r. cr_request_id r = rid) vs = []"
    using assms by (auto simp: filter_eq_Cons_iff)
  have "rid \<notin> cr_request_id ` set us" "rid \<notin> cr_request_id ` set vs" using rs(2,4) by (auto simp: filter_empty_conv)
  then show ?thesis using rs(1,3) by (simp add: fold_merge_other mergeInto_def jsm.lookup_store)
qed

lemma collect_keyed: "keyedBy cr_request_id m \<Longrightarrow> keyedBy cr_request_id (foldl (collectMessage h now) m ms)"
proof (induction ms arbitrary: m)
  case (Cons x ms)
  have "keyedBy cr_request_id (collectMessage h now m x)"
    using Cons.prems by (auto simp: collectMessage_def Let_def apply_keeps intro!: keyed_set split: option.split)
  then show ?case using Cons.IH by simp
qed simp

lemma stored_fold:
  assumes "\<forall>(k, v) \<in> set st. f v = k"
  shows "foldl (\<lambda>m r. jmap_set (f r) r m) m (map snd st) = foldl (\<lambda>m e. jmap_set (fst e) (snd e) m) m st"
  using assms by (induction st arbitrary: m) auto

lemma keyed_filter:
  assumes "keyedBy f m"
  shows "filter (\<lambda>v. f v = k) (map snd m) = (case map_of m k of None \<Rightarrow> [] | Some v \<Rightarrow> [v])"
  using assms
proof (induction m)
  case (Cons e m)
  obtain j v where e: "e = (j, v)" by (cases e)
  have "keyedBy f m" "f v = j" "j \<notin> fst ` set m" using Cons.prems by (auto simp: keyedBy_def e)
  then show ?case using Cons.IH by (auto simp: e map_of_eq_None_iff[symmetric])
qed simp

text \<open>What a caller sees of a record, whichever way it was asked for.\<close>

definition recordView :: "CoordinationRecord \<Rightarrow> CoordinationName \<times> CoordinationKind \<times> CoordinationStatus \<times> CoordinationDecision option" where
  "recordView r = (cr_coordination r, cr_kind r, cr_status r, cr_decision r)"

lemma view_merge [simp]: "recordView (mergeRecords r s) = recordView r"
  by (simp add: recordView_def)

text \<open>Listing and lookup agree: for a request that at most one actor owns, the list holds a record exactly where a lookup finds one, with the same coordination, kind, status and decision.\<close>

theorem list_agrees_with_get:
  assumes "keyedBy cr_request_id (cv_legacyStore vm)"
    and "length (filter (\<lambda>r. cr_request_id r = rid) (concat (map ownedRecords (obj_values (cv_actors vm))))) \<le> 1"
  shows "map_option recordView (find (\<lambda>r. cr_request_id r = rid) (coordinationList h now vm))
    = map_option recordView (coordinationGet h now vm rid)"
proof -
  define stored where "stored = foldl (\<lambda>m r. jmap_set (cr_request_id r) r m) [] (obj_values (cv_legacyStore vm))"
  define pend where "pend = collectPendingMailboxRecords h now vm"
  define owned where "owned = concat (map ownedRecords (obj_values (cv_actors vm)))"
  define m where "m = foldl mergeInto (foldl mergeInto stored (map snd pend)) owned"
  have st: "stored = foldl (\<lambda>m e. jmap_set (fst e) (snd e) m) [] (cv_legacyStore vm)"
    using assms(1) stored_fold by (fastforce simp: stored_def keyedBy_def)
  have "map_of (rev (cv_legacyStore vm)) = map_of (cv_legacyStore vm)"
    using assms(1) by (intro map_of_eqI) (auto simp: keyedBy_def rev_map[symmetric])
  then have s1: "map_of stored rid = map_of (cv_legacyStore vm) rid" by (simp add: st jsm.lookup_fold)
  have ks: "keyedBy cr_request_id stored"
  proof -
    have "keyedBy cr_request_id (foldl (\<lambda>m r. jmap_set (cr_request_id r) r m) m xs)" if "keyedBy cr_request_id m" for m xs
      using that by (induction xs arbitrary: m) (simp_all add: keyed_set)
    moreover have "keyedBy cr_request_id []" by (simp add: keyedBy_def)
    ultimately show ?thesis unfolding stored_def by blast
  qed
  have kp: "keyedBy cr_request_id pend"
    unfolding pend_def collectPendingMailboxRecords_def by (rule collect_keyed) (simp add: keyedBy_def)
  have km: "keyedBy cr_request_id m" using ks by (simp add: m_def fold_merge_keyed)
  have l: "find (\<lambda>r. cr_request_id r = rid) (coordinationList h now vm) = map_of m rid"
    by (rule keyed_find[OF km]) (simp add: coordinationList_def Let_def m_def owned_def pend_def stored_def)
  have p: "map_of (foldl mergeInto stored (map snd pend)) rid = (case map_of pend rid of
      None \<Rightarrow> map_of (cv_legacyStore vm) rid | Some r \<Rightarrow> Some (mergeRecords r (map_of (cv_legacyStore vm) rid)))"
  proof (cases "map_of pend rid")
    case None
    then have "rid \<notin> cr_request_id ` set (map snd pend)" using keyed_filter[OF kp, of rid] by (auto simp: filter_empty_conv)
    then have "map_of (foldl mergeInto stored (map snd pend)) rid = map_of stored rid" by (rule fold_merge_other)
    then show ?thesis using None s1 by simp
  next
    case (Some r)
    then show ?thesis using keyed_filter[OF kp, of rid] s1 by (simp add: fold_merge_one[of rid "map snd pend" r])
  qed
  show ?thesis
  proof (cases "filter (\<lambda>r. cr_request_id r = rid) owned")
    case Nil
    then have "rid \<notin> cr_request_id ` set owned" by (auto simp: filter_empty_conv)
    then have "findActorOwnedRecord vm rid = None" "map_of m rid = map_of (foldl mergeInto stored (map snd pend)) rid"
      by (auto simp: findActorOwnedRecord_def find_None_iff owned_def m_def fold_merge_other)
    then show ?thesis using p by (simp add: l coordinationGet_def coordinationResolve_def Let_def pend_def option.map_comp comp_def option.map_ident split: option.split)
  next
    case (Cons r rs)
    then have one: "filter (\<lambda>r. cr_request_id r = rid) owned = [r]" using assms(2) by (cases rs) (simp_all add: owned_def)
    then have "find (\<lambda>r. cr_request_id r = rid) owned = Some r" by (metis find_filter)
    then have "findActorOwnedRecord vm rid = Some r" by (simp add: findActorOwnedRecord_def owned_def)
    then show ?thesis using fold_merge_one[OF one] by (simp add: l m_def coordinationGet_def coordinationResolve_def Let_def split: option.split)
  qed
qed

section \<open>Shutting down\<close>

text \<open>A member that runs under its own roster entry.\<close>

definition ownEntry :: "CoActor \<Rightarrow> VmMemberRosterEntry \<Rightarrow> bool" where
  "ownEntry a e \<longleftrightarrow> re_actorKey e = ca_key a \<and> (ca_id a = [] \<or> re_actorId e = ca_id a)"

definition enrolled :: "CoVm \<Rightarrow> CoActor \<Rightarrow> VmMemberRosterEntry \<Rightarrow> bool" where
  "enrolled vm a e \<longleftrightarrow> actorAt vm (ca_key a) = Some a \<and> cv_hasDriver vm \<and> keyedBy re_memberId (cv_roster vm)
     \<and> find (ownEntry a) (obj_values (cv_roster vm)) = Some e"

lemma enrolled_found:
  assumes "enrolled vm a e"
  shows "\<exists>e'. findByActor vm (ca_key a) (Some (ca_id a)) = Some (e', a) \<and> re_memberId e' = re_memberId e"
proof -
  have f: "find (ownEntry a) (obj_values (cv_roster vm)) = Some e" using assms by (simp add: enrolled_def)
  moreover have "ownEntry a e" using f unfolding find_Some_iff by auto
  ultimately have "find (\<lambda>e. re_actorKey e = ca_key a \<and> (ca_id a = [] \<or> re_actorId e = ca_id a)) (obj_values (cv_roster vm)) = Some e"
      "re_actorKey e = ca_key a"
    by (simp_all add: ownEntry_def[abs_def])
  then show ?thesis using assms by (simp add: findByActor_def buildRecord_def actorAt_def enrolled_def)
qed

lemma find_replaced:
  assumes "\<forall>(k, v) \<in> set m. f v = k" "find P (map snd m) = Some e" "P e'"
  shows "find P (map snd (kv_replace (f e) e' m)) = Some e'"
  using assms(1,2)
proof (induction m)
  case (Cons x m)
  then show ?case using assms(3) by (cases x) (auto split: if_splits)
qed simp

lemma replaced_keyed: "keyedBy f m \<Longrightarrow> f v = k \<Longrightarrow> keyedBy f (kv_replace k v m)"
  by (auto simp: keyedBy_def dest!: kv_replace_entries)

lemma enrolled_update:
  assumes "enrolled vm a e" "re_memberId (g e) = re_memberId e" "re_actorKey (g e) = re_actorKey e" "re_actorId (g e) = re_actorId e"
  shows "enrolled (updateMember (re_memberId e) g vm) a (g e)"
proof -
  have k: "keyedBy re_memberId (cv_roster vm)" and f: "find (ownEntry a) (map snd (cv_roster vm)) = Some e"
    using assms(1) by (simp_all add: enrolled_def)
  have "ownEntry a e" "e \<in> set (map snd (cv_roster vm))" using f unfolding find_Some_iff by (metis nth_mem)+
  then obtain j where j: "(j, e) \<in> set (cv_roster vm)" by auto
  then have "j = re_memberId e" using k by (auto simp: keyedBy_def)
  then have r: "map_of (cv_roster vm) (re_memberId e) = Some e" using j k by (simp add: keyedBy_def)
  have "ownEntry a (g e)" using \<open>ownEntry a e\<close> assms(3,4) by (simp add: ownEntry_def)
  then have "find (ownEntry a) (map snd (kv_replace (re_memberId e) (g e) (cv_roster vm))) = Some (g e)"
    using k f by (intro find_replaced) (simp_all add: keyedBy_def)
  moreover have "keyedBy re_memberId (kv_replace (re_memberId e) (g e) (cv_roster vm))" using k assms(2) by (intro replaced_keyed) simp_all
  ultimately show ?thesis using assms(1) r by (simp add: enrolled_def updateMember_def actorAt_def)
qed

lemma enrolled_actor:
  assumes "enrolled vm a e" "ca_key (f a) = ca_key a" "ca_id (f a) = ca_id a"
  shows "enrolled (updateActor (ca_key a) f vm) (f a) e"
proof -
  have "ownEntry (f a) = ownEntry a" using assms(2,3) by (simp add: ownEntry_def fun_eq_iff)
  then show ?thesis using assms by (simp add: enrolled_def actorAt_update)
qed

lemma enrolled_append [simp]: "enrolled (appendUserInput k x vm) a e = enrolled vm a e"
  by (simp add: enrolled_def actorAt_def appendUserInput_def)

lemma enrolled_history [simp]: "enrolled (vm\<lparr>cv_history := hs\<rparr>) a e = enrolled vm a e"
  by (simp add: enrolled_def actorAt_def)

lemma enrolled_record:
  assumes "enrolled vm a e"
  shows "enrolled (recordIngest now (ca_key a) m r vm) (adoptCoordination now r a) e"
proof -
  have "enrolled (updateActor (ca_key a) (adoptCoordination now r) (appendUserInput (ca_key a) x vm)) (adoptCoordination now r a) e" for x
    using assms by (intro enrolled_actor) (simp_all add: adoptCoordination_def)
  then show ?thesis by (simp add: recordIngest_def Let_def)
qed

text \<open>What a member does with a shutdown envelope from its mailbox: it adopts what the engine made of it, and then answers a request or
  turns a response into a control entry.\<close>

lemma drain_shutdown:
  assumes "enrolled vm a e" "mm_text m \<noteq> []" "parseEnvelopeText h (mm_text m) = Some env" "ce_coordination env = NShutdown"
  obtains r vm2 where "drainCoordinationMessage h now (ca_key a) vm m = followShutdown h now (ca_key a) r vm2"
    "enrolled vm2 (a\<lparr>ca_shutdownCoordination := Some (ownedBy now r)\<rparr>) e" "ir_request_id r = ce_request_id env"
    "ir_coordination r = NShutdown" "ir_kind r = ce_kind env"
    "ce_kind env = KShutdownResponse \<Longrightarrow> ir_status r = decidedStatus (decisionOf (ce_payload env))"
proof -
  obtain res vm1 where i: "ingestMemberInbox h now vm m False = (res, vm1)" by (cases "ingestMemberInbox h now vm m False")
  then obtain r where r: "res = Some r" "ir_request_id r = ce_request_id env" "ir_coordination r = NShutdown" "ir_kind r = ce_kind env"
      "ir_status r = cr_status (ingestRecord h now vm m env)" "vm1 = vm"
    by (cases rule: ingest_cases) (use assms(3,4) in auto)
  have "adoptCoordination now r a = a\<lparr>ca_shutdownCoordination := Some (ownedBy now r)\<rparr>" using r(3) by (simp add: adoptCoordination_def)
  then have "enrolled (recordIngest now (ca_key a) m r vm) (a\<lparr>ca_shutdownCoordination := Some (ownedBy now r)\<rparr>) e"
    using enrolled_record[OF assms(1)] by metis
  moreover have "ir_status r = decidedStatus (decisionOf (ce_payload env))" if "ce_kind env = KShutdownResponse"
    using that assms(4) by (simp add: r(5) ingestRecord_def Let_def applyEnvelope_def)
  ultimately show ?thesis using that[of r "recordIngest now (ca_key a) m r vm"] assms(2) i r(1-4,6)
    by (simp add: drainCoordinationMessage_def)
qed

lemma follow_response:
  assumes "enrolled vm a e" "ca_memberIdentity a \<noteq> None" "ir_coordination r = NShutdown" "ir_kind r = KShutdownResponse"
  shows "enrolled (followShutdown h now (ca_key a) r vm) (a\<lparr>ca_control := ca_control a @ [''shutdown_requested'']\<rparr>) e"
proof -
  have "enrolled (updateActor (ca_key a) (\<lambda>a. a\<lparr>ca_control := ca_control a @ [''shutdown_requested'']\<rparr>) vm)
      (a\<lparr>ca_control := ca_control a @ [''shutdown_requested'']\<rparr>) e"
    using assms(1) enrolled_actor[of vm a e "\<lambda>a. a\<lparr>ca_control := ca_control a @ [''shutdown_requested'']\<rparr>"] by simp
  then show ?thesis using assms by (auto simp: followShutdown_def enrolled_def)
qed

lemma follow_request:
  assumes "enrolled vm a e" "ca_memberIdentity a \<noteq> None" "ir_coordination r = NShutdown" "ir_kind r = KShutdownRequest"
  obtains e' responder where "re_lifecycleState e' = MShuttingDown" "re_memberId e' = re_memberId e"
    "enrolled (followShutdown h now (ca_key a) r vm) (a\<lparr>ca_memberCoordination := ca_memberCoordination a
      @ [\<lparr>mm_from = responder, mm_text = shutdownResponse h (ir_request_id r), mm_ts = Some now\<rparr>]\<rparr>) e'"
proof -
  obtain i where i: "ca_memberIdentity a = Some i" using assms(2) by blast
  define msg where "msg = \<lparr>mm_from = (if mi_name i \<noteq> [] then mi_name i else ca_key a), mm_text = shutdownResponse h (ir_request_id r), mm_ts = Some now\<rparr>"
  define b where "b = sendMail MemberCoordination msg a"
  define vm1 where "vm1 = updateActor (ca_key a) (sendMail MemberCoordination msg) vm"
  have bk: "ca_key b = ca_key a" "ca_id b = ca_id a" by (simp_all add: b_def sendMail_def)
  have v1: "enrolled vm1 b e" unfolding vm1_def b_def using assms(1) by (intro enrolled_actor) (simp_all add: sendMail_def)
  then obtain e1 where e1: "findByActor vm1 (ca_key a) (Some (ca_id a)) = Some (e1, b)" "re_memberId e1 = re_memberId e"
    using enrolled_found[OF v1] bk by auto
  let ?g = "\<lambda>e. e\<lparr>re_lifecycleState := MShuttingDown, re_shutdownRequestId := orElse (Some (ir_request_id r)) (re_shutdownRequestId e), re_lastActiveAt := now\<rparr>"
  have "actorAt vm1 (ca_key a) = Some b" "actorAt vm (ca_key a) = Some a" using v1 assms(1) bk by (simp_all add: enrolled_def)
  then have "followShutdown h now (ca_key a) r vm = updateMember (re_memberId e) ?g vm1"
    using assms(3,4) i e1 bk by (simp add: followShutdown_def answerShutdown_def Let_def msg_def[symmetric] vm1_def[symmetric]
        markMemberShutdownRequested_def)
  then have "enrolled (followShutdown h now (ca_key a) r vm) b (?g e)" using enrolled_update[OF v1, of ?g] by simp
  then show ?thesis using that[of "?g e" "mm_from msg"] by (simp add: b_def sendMail_def msg_def)
qed

text \<open>C28: a shutdown request is carried through: the member that drains it answers itself, ends up with an approved shutdown and the control entry that ends its run, and its roster entry says it is shutting down.\<close>

theorem shutdown_ends_member:
  assumes "jsonText h" and "enrolled vm a e" and "ca_memberIdentity a \<noteq> None" and "ca_memberCoordination a = [m]"
    and "parseEnvelopeText h (mm_text m) = Some env" and "ce_coordination env = NShutdown" and "ce_kind env = KShutdownRequest"
    and "ce_request_id env \<noteq> []"
  shows "\<exists>vm' a' e'. drainMemberCoordinationIntoMessages h now (ca_key a) vm = Some vm' \<and> enrolled vm' a' e'
    \<and> ca_key a' = ca_key a \<and> ca_control a' = ca_control a @ [''shutdown_requested'']
    \<and> map_option (\<lambda>oc. (oc_requestId oc, oc_status oc)) (ca_shutdownCoordination a') = Some (ce_request_id env, CsApproved)
    \<and> re_memberId e' = re_memberId e \<and> re_lifecycleState e' = MShuttingDown"
proof -
  define vm0 where "vm0 = updateActor (ca_key a) (\<lambda>a. a\<lparr>ca_memberCoordination := []\<rparr>) vm"
  have ne: "mm_text m \<noteq> []" using assms(1,5) by (metis parse_empty option.distinct(1))
  have v0: "enrolled vm0 (a\<lparr>ca_memberCoordination := []\<rparr>) e"
    unfolding vm0_def using assms(2) enrolled_actor[of vm a e "\<lambda>a. a\<lparr>ca_memberCoordination := []\<rparr>"] by simp
  obtain r vm1 where one: "drainCoordinationMessage h now (ca_key a) vm0 m = followShutdown h now (ca_key a) r vm1"
      "enrolled vm1 (a\<lparr>ca_memberCoordination := [], ca_shutdownCoordination := Some (ownedBy now r)\<rparr>) e"
      "ir_request_id r = ce_request_id env" "ir_coordination r = NShutdown" "ir_kind r = KShutdownRequest"
    by (rule drain_shutdown[OF v0 ne assms(5,6)]) (use assms(7) in auto)
  obtain e1 from1 where two: "re_lifecycleState e1 = MShuttingDown" "re_memberId e1 = re_memberId e"
      "enrolled (followShutdown h now (ca_key a) r vm1) (a\<lparr>ca_shutdownCoordination := Some (ownedBy now r), ca_memberCoordination :=
        [\<lparr>mm_from = from1, mm_text = shutdownResponse h (ce_request_id env), mm_ts = Some now\<rparr>]\<rparr>) e1"
    by (rule follow_request[OF one(2) _ one(4,5)]) (use assms(3) one(3) in auto)
  define vm2 where "vm2 = drainRound h now (ca_key a) vm"
  have c: "coordinationMail vm (ca_key a) = [m]" using assms(2,4) by (simp add: coordinationMail_def enrolled_def)
  define m2 where "m2 = \<lparr>mm_from = from1, mm_text = shutdownResponse h (ce_request_id env), mm_ts = Some now\<rparr>"
  let ?a2 = "a\<lparr>ca_shutdownCoordination := Some (ownedBy now r), ca_memberCoordination := [m2]\<rparr>"
  have v2: "enrolled vm2 ?a2 e1" using two(3) one(1) by (simp add: vm2_def drainRound_def c vm0_def[symmetric] m2_def)
  then have c2: "coordinationMail vm2 (ca_key a) = [m2]" by (simp add: coordinationMail_def enrolled_def)
  note env2 = response_parses[OF assms(1), of "ce_request_id env"]
  have ne2: "mm_text m2 \<noteq> []" using assms(1) env2 unfolding m2_def by (auto simp del: not_None_eq)
  define vm3 where "vm3 = updateActor (ca_key a) (\<lambda>a. a\<lparr>ca_memberCoordination := []\<rparr>) vm2"
  have v3: "enrolled vm3 (a\<lparr>ca_shutdownCoordination := Some (ownedBy now r), ca_memberCoordination := []\<rparr>) e1"
    unfolding vm3_def using v2 enrolled_actor[of vm2 ?a2 e1 "\<lambda>a. a\<lparr>ca_memberCoordination := []\<rparr>"] by simp
  obtain r2 vm4 where three: "drainCoordinationMessage h now (ca_key a) vm3 m2 = followShutdown h now (ca_key a) r2 vm4"
      "enrolled vm4 (a\<lparr>ca_memberCoordination := [], ca_shutdownCoordination := Some (ownedBy now r2)\<rparr>) e1"
      "ir_request_id r2 = ce_request_id env" "ir_coordination r2 = NShutdown" "ir_kind r2 = KShutdownResponse" "ir_status r2 = CsApproved"
    by (rule drain_shutdown[OF v3 ne2]) (use env2 in \<open>auto simp: m2_def decisionOf_def decidedStatus_def\<close>)
  have four: "enrolled (followShutdown h now (ca_key a) r2 vm4)
      (a\<lparr>ca_memberCoordination := [], ca_shutdownCoordination := Some (ownedBy now r2), ca_control := ca_control a @ [''shutdown_requested'']\<rparr>) e1"
    using follow_response[OF three(2) _ three(4,5)] assms(3) by simp
  have "drainMemberCoordinationIntoMessages h now (ca_key a) vm = Some (followShutdown h now (ca_key a) r2 vm4)"
    by (simp add: drain_rounds[OF assms(1)] c vm2_def[symmetric] c2) (simp add: drainRound_def c2 vm3_def[symmetric] three(1))
  then show ?thesis using four two(1,2) three(3,6)
    by (intro exI[of _ "followShutdown h now (ca_key a) r2 vm4"] exI[of _ e1]
      exI[of _ "a\<lparr>ca_memberCoordination := [], ca_shutdownCoordination := Some (ownedBy now r2), ca_control := ca_control a @ [''shutdown_requested'']\<rparr>"])
      (simp add: ownedBy_def)
qed

text \<open>A shutdown response that rejects is recorded as rejected and still ends the member: the control entry is sent whatever the decision.\<close>

theorem rejected_shutdown_still_ends:
  assumes "jsonText h" and "enrolled vm a e" and "ca_memberIdentity a \<noteq> None" and "ca_memberCoordination a = [m]"
    and "parseEnvelopeText h (mm_text m) = Some env" and "ce_coordination env = NShutdown" and "ce_kind env = KShutdownResponse"
    and "js_prop (ce_payload env) ''decision'' = JStr ''reject''"
  shows "\<exists>vm' a'. drainMemberCoordinationIntoMessages h now (ca_key a) vm = Some vm' \<and> actorAt vm' (ca_key a) = Some a'
    \<and> map_option oc_status (ca_shutdownCoordination a') = Some CsRejected
    \<and> ca_control a' = ca_control a @ [''shutdown_requested'']"
proof -
  define vm0 where "vm0 = updateActor (ca_key a) (\<lambda>a. a\<lparr>ca_memberCoordination := []\<rparr>) vm"
  have ne: "mm_text m \<noteq> []" using assms(1,5) by (metis parse_empty option.distinct(1))
  have v0: "enrolled vm0 (a\<lparr>ca_memberCoordination := []\<rparr>) e"
    unfolding vm0_def using assms(2) enrolled_actor[of vm a e "\<lambda>a. a\<lparr>ca_memberCoordination := []\<rparr>"] by simp
  obtain r vm1 where one: "drainCoordinationMessage h now (ca_key a) vm0 m = followShutdown h now (ca_key a) r vm1"
      "enrolled vm1 (a\<lparr>ca_memberCoordination := [], ca_shutdownCoordination := Some (ownedBy now r)\<rparr>) e"
      "ir_coordination r = NShutdown" "ir_kind r = KShutdownResponse" "ir_status r = CsRejected"
    by (rule drain_shutdown[OF v0 ne assms(5,6)]) (use assms(7,8) in \<open>auto simp: decisionOf_def decidedStatus_def\<close>)
  have two: "enrolled (followShutdown h now (ca_key a) r vm1)
      (a\<lparr>ca_memberCoordination := [], ca_shutdownCoordination := Some (ownedBy now r), ca_control := ca_control a @ [''shutdown_requested'']\<rparr>) e"
    using follow_response[OF one(2) _ one(3,4)] assms(3) by simp
  have c: "coordinationMail vm (ca_key a) = [m]" using assms(2,4) by (simp add: coordinationMail_def enrolled_def)
  have "list_all (\<lambda>x. \<not> shutdownAsked h x) (coordinationMail vm (ca_key a))" using assms(5,7) by (simp add: c shutdownAsked_def)
  then have "coordinationMail (drainRound h now (ca_key a) vm) (ca_key a) = []" by (rule round_mail(2)[OF assms(1)])
  then have "drainMemberCoordinationIntoMessages h now (ca_key a) vm = Some (followShutdown h now (ca_key a) r vm1)"
    by (simp add: drain_rounds[OF assms(1)] c drainRound_def vm0_def[symmetric] one(1))
  then show ?thesis using two one(5) by (simp add: enrolled_def ownedBy_def)
qed

end
