(* ===== verification/CoordinationWitnesses.thy ===== *)
theory CoordinationWitnesses
  imports CoordinationClaims ShutdownClaims
begin

text \<open>The claims on coordination at a VM with one member, with a host whose JSON text numbers values.\<close>

definition demoMail :: "CoordinationName \<Rightarrow> CoordinationKind \<Rightarrow> string \<Rightarrow> jsv \<Rightarrow> MemberMessage" where
  "demoMail n k rid payload = \<lparr>mm_from = ''lead'', mm_text = snd (makeOutbound numberedHost n k rid payload), mm_ts = Some 5\<rparr>"

definition demoMember :: "MemberMessage list \<Rightarrow> CoActor" where
  "demoMember mail = \<lparr>ca_key = ''m'', ca_id = ''1'', ca_type = ''delegate'', ca_memberIdentity = Some \<lparr>mi_memberId = ''w'', mi_name = ''Wu''\<rparr>,
     ca_planApproval = Some \<lparr>oc_requestId = ''r'', oc_status = CsPending, oc_kind = Some KPlanRequest, oc_decision = None, oc_updatedAt = 1\<rparr>,
     ca_shutdownCoordination = None, ca_memberCoordination = mail, ca_memberChatInbox = [], ca_control = [], ca_interrupted = False, ca_executionOrigin = JUndef,
     ca_toolPolicy = \<lparr>tp_allowedToolsMode = Some ''all'', tp_allowedTools = [], tp_computedDisabledTools = []\<rparr>, ca_messages = [],
     ca_lastMemberResultNotifiedAt = None\<rparr>"

definition demoEntry :: VmMemberRosterEntry where
  "demoEntry = \<lparr>re_memberId = ''w'', re_name = ''Wu'', re_role = ''worker'', re_agentType = ''coder'', re_lane = ''member'', re_fiberId = ''m:1'',
     re_actorKey = ''m'', re_actorId = ''1'', re_createdAt = 1, re_lastActiveAt = 1, re_lifecycleState = MActive, re_shutdownRequestId = None\<rparr>"

definition demoVm :: "MemberMessage list \<Rightarrow> CoVm" where
  "demoVm mail = \<lparr>cv_actors = [(''m'', demoMember mail)], cv_legacyStore = [], cv_roster = [(''w'', demoEntry)], cv_hasDriver = True,
     cv_fiberIndex = [(''m:1'', ''m'')], cv_fibers = [], cv_controlSignals = createEmptyDurableControlSignalStore, cv_history = [],
     cv_userInputs = [], cv_interactiveTurnActive = False, cv_deferredMemberResumes = [], cv_scheduled = [], cv_networkAccess = []\<rparr>"

lemma demo_parses:
  "json_plain payload \<Longrightarrow> n = NShutdown \<or> n = NPlanApproval \<Longrightarrow> parseEnvelopeText numberedHost (mm_text (demoMail n k rid payload))
    = Some \<lparr>ce_coordination = n, ce_kind = k, ce_request_id = rid, ce_payload = orObject payload\<rparr>"
  by (simp add: demoMail_def outbound_parses[OF numbered_json])

lemma demo_actor: "actorAt (demoVm mail) ''m'' = Some (demoMember mail)"
  by (simp add: actorAt_def demoVm_def)

lemma demo_member: "ca_key (demoMember mail) = ''m''" "ca_memberCoordination (demoMember mail) = mail" "isMemberActor (demoMember mail)"
  "isToolAllowed (demoMember mail) t \<longleftrightarrow> t \<noteq> []" "ca_memberIdentity (demoMember mail) \<noteq> None"
  by (simp_all add: demoMember_def isMemberActor_def isToolAllowed_def)

lemma demo_enrolled: "enrolled (demoVm mail) (demoMember mail) demoEntry"
  by (simp add: enrolled_def demo_actor demo_member) (simp add: demoVm_def demoEntry_def keyedBy_def ownEntry_def demoMember_def)

lemma demo_owned: "rid \<noteq> ''r'' \<Longrightarrow> findActorOwnedRecord (demoVm mail) rid = None"
  by (simp add: findActorOwnedRecord_def ownedRecords_def toActorOwnedRecord_def ownedRecord_def demoVm_def demoMember_def)

lemma demo_collect: "collectPendingMailboxRecords h now (demoVm mail) = foldl (collectMessage h now) [] mail"
  by (simp add: collectPendingMailboxRecords_def memberMail_def demoVm_def demoMember_def)

theorem drain_terminates_witness:
  "\<exists>vm'. drainMemberCoordinationIntoMessages numberedHost 9 ''m'' (demoVm [demoMail NShutdown KShutdownRequest ''s'' (JObj [])]) = Some vm'
    \<and> coordinationMail vm' ''m'' = []"
  by (rule drain_terminates[OF numbered_json])

theorem gate_closed_without_review_witness:
  "\<exists>vm' a. drainMemberCoordinationIntoMessages numberedHost 9 ''m'' (demoVm [demoMail NPlanApproval KPlanRequest ''r'' (JObj [])]) = Some vm'
    \<and> actorAt vm' ''m'' = Some a \<and> evaluateToolExecutionGates numberedHost id 9 vm' a ''bash'' \<noteq> GateAllow"
proof -
  let ?m = "demoMail NPlanApproval KPlanRequest ''r'' (JObj [])"
  obtain vm' where d: "drainMemberCoordinationIntoMessages numberedHost 9 ''m'' (demoVm [?m]) = Some vm'"
    using drain_rounds[OF numbered_json] by blast
  have "\<exists>a. actorAt vm' ''m'' = Some a \<and> evaluateToolExecutionGates numberedHost id 9 vm' a ''bash'' \<noteq> GateAllow"
  proof (rule gate_closed_without_review[OF numbered_json, where R = "{''r''}"])
    show "[] \<notin> {''r''}" by simp
    show "reviewFree numberedHost {''r''} (demoVm [?m])"
      by (simp add: reviewFree_def unreviewed_def harmless_def demo_parses demoVm_def demoMember_def memberMail_def isPlanApprovalSatisfied_def)
    show "underPlan ''m'' (demoVm [?m])" by (simp add: underPlan_def demo_actor) (simp add: demoMember_def isMemberActor_def)
    show "(coStep numberedHost {''r''})\<^sup>*\<^sup>* (demoVm [?m]) vm'" using coStep.drainCoordination[OF d] by (rule r_into_rtranclp)
    show "isGatedToolByPlanApproval ''bash''" by (simp add: isGatedToolByPlanApproval_def)
  qed
  then show ?thesis using d by blast
qed

theorem foreign_review_opens_gate_witness:
  "\<exists>vm' a'. drainMemberCoordinationIntoMessages numberedHost 9 ''m'' (demoVm [demoMail NPlanApproval KPlanReview ''x'' (JObj [])]) = Some vm'
    \<and> actorAt vm' ''m'' = Some a' \<and> evaluateToolExecutionGates numberedHost id 9 vm' a' ''bash'' = GateAllow"
proof (rule foreign_review_opens_gate[OF numbered_json demo_actor demo_member(3)])
  let ?m = "demoMail NPlanApproval KPlanReview ''x'' (JObj [])"
  show "isToolAllowed (demoMember [?m]) ''bash''" by (simp add: demo_member)
  show "isGatedToolByPlanApproval ''bash''" by (simp add: isGatedToolByPlanApproval_def)
  show "ca_memberCoordination (demoMember [?m]) = [?m]" by (rule demo_member)
  show "parseEnvelopeText numberedHost (mm_text ?m) = Some \<lparr>ce_coordination = NPlanApproval, ce_kind = KPlanReview, ce_request_id = ''x'',
      ce_payload = JObj []\<rparr>"
    by (simp add: demo_parses orObject_def)
qed (simp_all add: demo_owned)

lemma demo_pending: "map_option cr_status (coordinationGet h 9 (demoVm []) ''r'') = Some CsPending"
  by (simp add: coordinationGet_def coordinationResolve_def findActorOwnedRecord_def ownedRecords_def toActorOwnedRecord_def ownedRecord_def
      demoVm_def demoMember_def Let_def)

theorem ungated_write_tools_witness:
  "evaluateToolExecutionGates numberedHost id 9 (demoVm []) (demoMember []) ''multiedit'' = GateAllow"
proof -
  obtain r where "coordinationGet numberedHost 9 (demoVm []) ''r'' = Some r" "cr_status r = CsPending" using demo_pending by auto
  then show ?thesis
    using ungated_write_tools[of "demoMember []" "\<lparr>oc_requestId = ''r'', oc_status = CsPending, oc_kind = Some KPlanRequest, oc_decision = None,
        oc_updatedAt = 1\<rparr>" numberedHost 9 "demoVm []" r "''multiedit''" id]
    by (simp add: demo_member isPlanApprovalSatisfied_def) (simp add: demoMember_def)
qed

lemma demo_receives: "receives (demoVm []) ''w'' demoEntry (demoMember [])"
  by (simp add: receives_def demo_actor demoEntry_def) (simp add: demoVm_def demoEntry_def demoMember_def)

lemma demo_signals: "cv_controlSignals (demoVm mail) = createEmptyDurableControlSignalStore"
  by (simp add: demoVm_def)

theorem same_millisecond_message_lost_witness:
  "cv_actors (sendMessage numberedHost 9 ''w'' ''lead'' ''two'' (sendMessage numberedHost 9 ''w'' ''lead'' ''one'' (demoVm [])))
    = cv_actors (sendMessage numberedHost 9 ''w'' ''lead'' ''one'' (demoVm []))"
proof -
  have "show_nat n \<noteq> ''one''" "show_nat n \<noteq> ''two''" for n
  proof -
    have "\<not> is_digit (CHR ''o'')" by code_simp
    then have "CHR ''o'' \<notin> set (show_nat n)" using show_nat_digits by blast
    then show "show_nat n \<noteq> ''one''" "show_nat n \<noteq> ''two''" by auto
  qed
  then have "ch_parse numberedHost ''one'' = None" "ch_parse numberedHost ''two'' = None" by (simp_all add: numberedHost_def Let_def)
  then have "parseEnvelopeText numberedHost ''one'' = None" "parseEnvelopeText numberedHost ''two'' = None" by (simp_all add: parseEnvelopeText_def)
  moreover have "distinct (map fst (ss_idempotencyIndex (cv_controlSignals (demoVm []))))" "length (tombs (cv_controlSignals (demoVm []))) < 128"
      "map_of (ss_idempotencyIndex (cv_controlSignals (demoVm []))) k = None" for k
    by (simp_all add: demo_signals createEmptyDurableControlSignalStore_def tombs_def)
  ultimately show ?thesis
    using same_millisecond_message_lost[OF demo_receives, of numberedHost "''two''" "''one''" 9 "''lead''"]
    by (simp add: demo_signals empty_wf mailboxFor_def)
qed

theorem list_agrees_with_get_witness:
  "map_option recordView (find (\<lambda>r. cr_request_id r = ''r'') (coordinationList numberedHost 9 (demoVm [])))
    = map_option recordView (coordinationGet numberedHost 9 (demoVm []) ''r'')"
proof (rule list_agrees_with_get)
  show "keyedBy cr_request_id (cv_legacyStore (demoVm []))" by (simp add: keyedBy_def demoVm_def)
  show "length (filter (\<lambda>r. cr_request_id r = ''r'') (concat (map ownedRecords (obj_values (cv_actors (demoVm [])))))) \<le> 1"
    by (simp add: ownedRecords_def toActorOwnedRecord_def ownedRecord_def demoVm_def demoMember_def)
qed

theorem shutdown_ends_member_witness:
  "\<exists>vm' a' e'. drainMemberCoordinationIntoMessages numberedHost 9 ''m'' (demoVm [demoMail NShutdown KShutdownRequest ''s'' (JObj [])]) = Some vm'
    \<and> enrolled vm' a' e' \<and> ca_control a' = [''shutdown_requested''] \<and> re_lifecycleState e' = MShuttingDown"
proof -
  let ?m = "demoMail NShutdown KShutdownRequest ''s'' (JObj [])"
  have "parseEnvelopeText numberedHost (mm_text ?m) = Some \<lparr>ce_coordination = NShutdown, ce_kind = KShutdownRequest, ce_request_id = ''s'',
      ce_payload = JObj []\<rparr>" by (simp add: demo_parses orObject_def)
  moreover have "ca_control (demoMember [?m]) = []" by (simp add: demoMember_def)
  ultimately show ?thesis
    using shutdown_ends_member[OF numbered_json demo_enrolled demo_member(5,2), of ?m] unfolding demo_member(1) by fastforce
qed

theorem rejected_shutdown_still_ends_witness:
  "\<exists>vm' a'. drainMemberCoordinationIntoMessages numberedHost 9 ''m''
      (demoVm [demoMail NShutdown KShutdownResponse ''s'' (JObj [(''decision'', JStr ''reject'')])]) = Some vm'
    \<and> actorAt vm' ''m'' = Some a' \<and> ca_control a' = [''shutdown_requested'']"
proof -
  let ?m = "demoMail NShutdown KShutdownResponse ''s'' (JObj [(''decision'', JStr ''reject'')])"
  have "parseEnvelopeText numberedHost (mm_text ?m) = Some \<lparr>ce_coordination = NShutdown, ce_kind = KShutdownResponse, ce_request_id = ''s'',
      ce_payload = JObj [(''decision'', JStr ''reject'')]\<rparr>" by (simp add: demo_parses orObject_def)
  moreover have "ca_control (demoMember [?m]) = []" by (simp add: demoMember_def)
  ultimately show ?thesis
    using rejected_shutdown_still_ends[OF numbered_json demo_enrolled demo_member(5,2), of ?m] unfolding demo_member(1) by fastforce
qed

end
