(* ===== verification/JournalModel.thy ===== *)
theory JournalModel
  imports CoordinationModel "HOL-Library.List_Lexorder" "HOL-Library.Char_ord"
begin

text \<open>
  The facts of the task pump journal and their bytes: \<open>ai-organ-contract/src/organization/HolonTaskPumpJournal.ts\<close>,
  the parsing, identities and digests of \<open>ai-organ-logic/src/organization/HolonTaskPumpJournal.ts\<close>, the origin of
  \<open>HolonTaskRuntimeContract.ts\<close> there, and the canonical clone of
  \<open>vendor/task-manager/task-manager-contract/src/canonical.ts\<close> on plain data.

  Bytes are texts. \<open>JournalHost\<close> collects the host: JSON, the hexadecimal SHA-256 of a text, Unicode normalization and the
  two conversions of dates, the first of which throws for a text that is no date. An exception is the code of a journal
  error or \<open>ENOENT\<close>, or the class of another error.
\<close>

record JournalHost =
  jh_text :: CoHost
  jh_sha :: "string \<Rightarrow> string"
  jh_nfc :: "string \<Rightarrow> string"
  jh_isoOf :: "string \<Rightarrow> string option"
  jh_isoAt :: "int \<Rightarrow> string"

definition INVALID :: string where "INVALID = ''EIDOLON_HOLON_PUMP_JOURNAL_INVALID''"

definition TAMPERED :: string where "TAMPERED = ''EIDOLON_HOLON_PUMP_JOURNAL_TAMPERED''"

definition CONFLICT :: string where "CONFLICT = ''EIDOLON_HOLON_PUMP_JOURNAL_CONFLICT''"

definition LOCK_TIMEOUT :: string where "LOCK_TIMEOUT = ''EIDOLON_HOLON_PUMP_JOURNAL_LOCK_TIMEOUT''"

definition LOCK_CONFLICT :: string where "LOCK_CONFLICT = ''EIDOLON_HOLON_PUMP_JOURNAL_LOCK_CONFLICT''"

definition ENOENT :: string where "ENOENT = ''ENOENT''"

section \<open>Canonical data\<close>

fun ownData :: "jsv \<Rightarrow> bool" where
  "ownData JUndef \<longleftrightarrow> False"
| "ownData (JNum n) \<longleftrightarrow> num_finite n"
| "ownData (JArr vs) \<longleftrightarrow> (\<forall>v \<in> set vs. ownData v)"
| "ownData (JObj ps) \<longleftrightarrow> (\<forall>p \<in> set ps. ownData (snd p))"
| "ownData _ \<longleftrightarrow> True"

text \<open>Keys are installed in the order of their code units, and enumerated as the language enumerates them.\<close>

fun canonicalValue :: "jsv \<Rightarrow> jsv" where
  "canonicalValue (JArr vs) = JArr (map canonicalValue vs)"
| "canonicalValue (JObj ps) = JObj (let qs = map (\<lambda>p. (fst p, canonicalValue (snd p))) ps in
     obj_of (map (\<lambda>k. (k, the (map_of qs k))) (sort (map fst qs))))"
| "canonicalValue v = v"

definition canonicalOwnDataClone :: "jsv \<Rightarrow> jsv result" where
  "canonicalOwnDataClone v = (if ownData v then Inr (canonicalValue v) else Inl ''TypeError'')"

definition canonicalOwnDataDigest :: "JournalHost \<Rightarrow> jsv \<Rightarrow> string result" where
  "canonicalOwnDataDigest h v =
     bind_result (canonicalOwnDataClone v) (\<lambda>c. Inr (''sha256:'' @ jh_sha h (ch_stringify (jh_text h) c)))"

definition canonicalBytes :: "JournalHost \<Rightarrow> jsv \<Rightarrow> string" where
  "canonicalBytes h v = ch_stringify (jh_text h) v"

section \<open>Texts\<close>

definition controlFree :: "string \<Rightarrow> bool" where
  "controlFree s \<longleftrightarrow> list_all (\<lambda>c. 32 \<le> (of_char c :: nat) \<and> (of_char c :: nat) \<noteq> 127) s"

definition exactString :: "JournalHost \<Rightarrow> string \<Rightarrow> bool" where
  "exactString h s \<longleftrightarrow> s \<noteq> [] \<and> s = js_trim s \<and> s = jh_nfc h s \<and> controlFree s"

definition exactText :: "JournalHost \<Rightarrow> string \<Rightarrow> jsv \<Rightarrow> string result" where
  "exactText h code v = (case v of JStr s \<Rightarrow> if exactString h s then Inr s else Inl code | _ \<Rightarrow> Inl code)"

text \<open>The shape of a timestamp: digits where the pattern has none of its own characters.\<close>

definition isoShape :: "string \<Rightarrow> bool" where
  "isoShape s \<longleftrightarrow> list_all2 (\<lambda>c p. if p = CHR ''d'' then is_digit c else c = p) s ''dddd-dd-ddTdd:dd:dd.dddZ''"

definition exactTimestamp :: "JournalHost \<Rightarrow> jsv \<Rightarrow> string result" where
  "exactTimestamp h v = bind_result (exactText h INVALID v) (\<lambda>s.
     if \<not> isoShape s then Inl INVALID
     else case jh_isoOf h s of None \<Rightarrow> Inl ''RangeError'' | Some t \<Rightarrow> if t = s then Inr s else Inl INVALID)"

definition safePositive :: "jsv \<Rightarrow> int option" where
  "safePositive v = (case v of
      JNum (Fin q) \<Rightarrow> if q = of_int \<lfloor>q\<rfloor> \<and> is_safe_integer \<lfloor>q\<rfloor> \<and> 0 < \<lfloor>q\<rfloor> then Some \<lfloor>q\<rfloor> else None
    | _ \<Rightarrow> None)"

definition jsInt :: "int \<Rightarrow> jsv" where
  "jsInt n = JNum (Fin (of_int n))"

text \<open>Reading a property of a value throws where the value is null or undefined.\<close>

definition propOf :: "jsv \<Rightarrow> string \<Rightarrow> jsv result" where
  "propOf v k = (if v = JNull \<or> v = JUndef then Inl ''TypeError'' else Inr (js_prop v k))"

section \<open>Origins\<close>

datatype HolonTaskRuntimeOrigin =
    ProductOrigin (po_surface: string) (po_request: string)
  | WorkflowOrigin (wo_kind: string) (wo_workflow: string) (wo_run: string) (wo_node: string) (wo_invocation: string)
  | ServiceOrigin (so_service: string) (so_request: string)

text \<open>Errors of the runtime contract are their own class.\<close>

definition CONTRACT :: string where "CONTRACT = ''HolonTaskRuntimeContractError''"

definition exactKeys :: "jsv obj \<Rightarrow> string list \<Rightarrow> bool" where
  "exactKeys ps expected \<longleftrightarrow> list_all (\<lambda>k. k \<in> set expected) (map fst ps) \<and> list_all (\<lambda>k. k \<in> set (map fst ps)) expected"

definition resourceRef :: "JournalHost \<Rightarrow> jsv \<Rightarrow> string result" where
  "resourceRef h v = bind_result (exactText h CONTRACT v) (\<lambda>s.
     let rest = drop (length ''resource://'') s in
     if \<not> starts_with ''resource://'' s \<or> rest = [] \<or> hd rest = CHR ''/'' \<or> \<not> list_all (\<lambda>c. \<not> js_space c) rest \<or> js_includes rest ''://''
     then Inl CONTRACT else Inr s)"

definition normalizeHolonTaskRuntimeOrigin :: "JournalHost \<Rightarrow> jsv \<Rightarrow> HolonTaskRuntimeOrigin result" where
  "normalizeHolonTaskRuntimeOrigin h v = (case v of
      JObj ps \<Rightarrow>
        let text = (\<lambda>k. exactText h CONTRACT (js_prop v k)) in
        bind_result (text ''kind'') (\<lambda>kind.
          if kind = ''product'' then
            if \<not> exactKeys ps [''kind'', ''surface'', ''requestRef''] then Inl CONTRACT
            else bind_result (text ''surface'') (\<lambda>s. bind_result (text ''requestRef'') (\<lambda>r. Inr (ProductOrigin s r)))
          else if kind = ''workflow'' then
            if \<not> exactKeys ps [''kind'', ''workflowKind'', ''workflowRef'', ''runId'', ''nodeId'', ''invocationId''] then Inl CONTRACT
            else bind_result (text ''workflowKind'') (\<lambda>k. if k \<notin> set [''AICtrlWorkflow'', ''AIDataWorkflow''] then Inl CONTRACT
              else bind_result (resourceRef h (js_prop v ''workflowRef'')) (\<lambda>w. bind_result (text ''runId'') (\<lambda>r.
                bind_result (text ''nodeId'') (\<lambda>n. bind_result (text ''invocationId'') (\<lambda>i. Inr (WorkflowOrigin k w r n i))))))
          else if kind = ''service'' then
            if \<not> exactKeys ps [''kind'', ''serviceRef'', ''requestRef''] then Inl CONTRACT
            else bind_result (resourceRef h (js_prop v ''serviceRef'')) (\<lambda>s. bind_result (text ''requestRef'') (\<lambda>r. Inr (ServiceOrigin s r)))
          else Inl CONTRACT)
    | _ \<Rightarrow> Inl CONTRACT)"

definition originValue :: "HolonTaskRuntimeOrigin \<Rightarrow> jsv" where
  "originValue g = (case g of
      ProductOrigin s r \<Rightarrow> JObj [(''kind'', JStr ''product''), (''surface'', JStr s), (''requestRef'', JStr r)]
    | WorkflowOrigin k w r n i \<Rightarrow> JObj [(''kind'', JStr ''workflow''), (''workflowKind'', JStr k), (''workflowRef'', JStr w),
        (''runId'', JStr r), (''nodeId'', JStr n), (''invocationId'', JStr i)]
    | ServiceOrigin s r \<Rightarrow> JObj [(''kind'', JStr ''service''), (''serviceRef'', JStr s), (''requestRef'', JStr r)])"

section \<open>Subscriptions\<close>

definition SUBSCRIPTION_VERSION :: string where "SUBSCRIPTION_VERSION = ''eidolon.holon-task-pump/v2''"

definition JOURNAL_VERSION :: string where "JOURNAL_VERSION = ''eidolon.holon-task-pump/v1''"

datatype HolonTaskPumpRecoveryScope =
    StandaloneScope (rs_scope: string)
  | WorkflowScope (rs_instance: string) (rs_run: string) (rs_node: string)

record HolonTaskRuntimeProcessorConfig =
  pc_leaseDurationMs :: int
  pc_maxSteps :: int

text \<open>A subscription that was projected from a legacy fact has its keys in another order.\<close>

record HolonTaskPumpSubscription =
  ts_subscriptionId :: string
  ts_admissionId :: string
  ts_deploymentId :: string
  ts_bindingRef :: string
  ts_holonRef :: string
  ts_snapshotReceiptId :: string
  ts_taskSpaceId :: string
  ts_taskId :: string
  ts_origin :: HolonTaskRuntimeOrigin
  ts_recoveryScope :: HolonTaskPumpRecoveryScope
  ts_processorConfig :: HolonTaskRuntimeProcessorConfig
  ts_input :: jsv
  ts_inputDigest :: string
  ts_createdAt :: string
  ts_projected :: bool

definition processorConfig :: "jsv \<Rightarrow> HolonTaskRuntimeProcessorConfig result" where
  "processorConfig v = (case (safePositive (js_prop v ''leaseDurationMs''), safePositive (js_prop v ''maxSteps'')) of
      (Some l, Some m) \<Rightarrow> Inr \<lparr>pc_leaseDurationMs = l, pc_maxSteps = m\<rparr>
    | _ \<Rightarrow> Inl INVALID)"

definition recoveryScope :: "JournalHost \<Rightarrow> jsv \<Rightarrow> HolonTaskPumpRecoveryScope result" where
  "recoveryScope h v = (let text = (\<lambda>k. exactText h INVALID (js_prop v k)) in
     if js_prop v ''kind'' = JStr ''standalone'' then bind_result (text ''scopeRef'') (\<lambda>s. Inr (StandaloneScope s))
     else if js_prop v ''kind'' = JStr ''workflow'' then
       bind_result (text ''workflowInstanceId'') (\<lambda>w. bind_result (text ''runId'') (\<lambda>r. bind_result (text ''nodeId'') (\<lambda>n.
         Inr (WorkflowScope w r n))))
     else Inl INVALID)"

definition scopeValue :: "HolonTaskPumpRecoveryScope \<Rightarrow> jsv" where
  "scopeValue s = (case s of
      StandaloneScope r \<Rightarrow> JObj [(''kind'', JStr ''standalone''), (''scopeRef'', JStr r)]
    | WorkflowScope w r n \<Rightarrow> JObj [(''kind'', JStr ''workflow''), (''workflowInstanceId'', JStr w), (''runId'', JStr r), (''nodeId'', JStr n)])"

definition configValue :: "HolonTaskRuntimeProcessorConfig \<Rightarrow> jsv" where
  "configValue c = JObj [(''leaseDurationMs'', jsInt (pc_leaseDurationMs c)), (''maxSteps'', jsInt (pc_maxSteps c))]"

definition bindingRefOf :: "JournalHost \<Rightarrow> jsv \<Rightarrow> string result" where
  "bindingRefOf h v = bind_result (exactText h INVALID v) (\<lambda>s.
     if starts_with ''resource://'' s \<and> drop (length ''resource://'') s \<noteq> [] then Inr s else Inl INVALID)"

text \<open>What a subscription is identified by: all of it but the time, the input and where it is run.\<close>

definition subscriptionIdentity :: "string \<Rightarrow> string \<Rightarrow> string \<Rightarrow> string \<Rightarrow> string \<Rightarrow> HolonTaskPumpRecoveryScope \<Rightarrow> jsv" where
  "subscriptionIdentity admission deployment receipt space task scope = JObj [(''admissionId'', JStr admission), (''deploymentId'', JStr deployment),
     (''snapshotReceiptId'', JStr receipt), (''taskSpaceId'', JStr space), (''taskId'', JStr task), (''recoveryScope'', scopeValue scope)]"

definition subscription :: "JournalHost \<Rightarrow> jsv \<Rightarrow> HolonTaskPumpSubscription result" where
  "subscription h v = (let text = (\<lambda>k. exactText h INVALID (js_prop v k)) in
     if v = JNull \<or> v = JUndef then Inl ''TypeError'' else
     bind_result (bindingRefOf h (js_prop v ''bindingRef'')) (\<lambda>bindingRef.
     bind_result (canonicalOwnDataClone (js_prop v ''input'')) (\<lambda>input.
     bind_result (recoveryScope h (js_prop v ''recoveryScope'')) (\<lambda>scope.
     bind_result (text ''admissionId'') (\<lambda>admission.
     bind_result (text ''deploymentId'') (\<lambda>deployment.
     bind_result (text ''snapshotReceiptId'') (\<lambda>receipt.
     bind_result (text ''taskSpaceId'') (\<lambda>space.
     bind_result (text ''taskId'') (\<lambda>task.
     bind_result (canonicalOwnDataDigest h (subscriptionIdentity admission deployment receipt space task scope)) (\<lambda>subscriptionId.
     bind_result (text ''holonRef'') (\<lambda>holonRef.
     bind_result (normalizeHolonTaskRuntimeOrigin h (js_prop v ''origin'')) (\<lambda>origin.
     bind_result (processorConfig (js_prop v ''processorConfig'')) (\<lambda>config.
     bind_result (canonicalOwnDataDigest h input) (\<lambda>inputDigest.
     bind_result (exactTimestamp h (js_prop v ''createdAt'')) (\<lambda>createdAt.
     Inr \<lparr>ts_subscriptionId = subscriptionId, ts_admissionId = admission, ts_deploymentId = deployment, ts_bindingRef = bindingRef,
       ts_holonRef = holonRef, ts_snapshotReceiptId = receipt, ts_taskSpaceId = space, ts_taskId = task, ts_origin = origin,
       ts_recoveryScope = scope, ts_processorConfig = config, ts_input = input, ts_inputDigest = inputDigest, ts_createdAt = createdAt,
       ts_projected = False\<rparr>)))))))))))))))"

definition subscriptionValue :: "HolonTaskPumpSubscription \<Rightarrow> jsv" where
  "subscriptionValue s =
     (let version = (''schemaVersion'', JStr SUBSCRIPTION_VERSION); sid = (''subscriptionId'', JStr (ts_subscriptionId s));
          admission = (''admissionId'', JStr (ts_admissionId s)); deployment = (''deploymentId'', JStr (ts_deploymentId s));
          binding = (''bindingRef'', JStr (ts_bindingRef s)); holon = (''holonRef'', JStr (ts_holonRef s));
          receipt = (''snapshotReceiptId'', JStr (ts_snapshotReceiptId s)); space = (''taskSpaceId'', JStr (ts_taskSpaceId s));
          task = (''taskId'', JStr (ts_taskId s)); origin = (''origin'', originValue (ts_origin s));
          scope = (''recoveryScope'', scopeValue (ts_recoveryScope s)); config = (''processorConfig'', configValue (ts_processorConfig s));
          rest = [(''input'', ts_input s), (''inputDigest'', JStr (ts_inputDigest s)), (''createdAt'', JStr (ts_createdAt s))]
      in JObj (if ts_projected s
           then [version, sid, admission, deployment, binding, holon, receipt, space, task, origin, scope, config] @ rest
           else [version, sid, admission, deployment, receipt, space, task, scope, binding, holon, origin, config] @ rest))"

record LegacyHolonTaskPumpSubscription =
  ls_subscriptionId :: string
  ls_deploymentId :: string
  ls_bindingRef :: string
  ls_holonRef :: string
  ls_snapshotReceiptId :: string
  ls_taskSpaceId :: string
  ls_taskId :: string
  ls_workflowInstanceId :: string
  ls_runId :: string
  ls_nodeId :: string
  ls_origin :: "HolonTaskRuntimeOrigin option"
  ls_input :: jsv
  ls_inputDigest :: string
  ls_createdAt :: string

definition legacySubscription :: "JournalHost \<Rightarrow> jsv \<Rightarrow> LegacyHolonTaskPumpSubscription result" where
  "legacySubscription h v = (let text = (\<lambda>k. exactText h INVALID (js_prop v k)) in
     bind_result (bindingRefOf h (js_prop v ''bindingRef'')) (\<lambda>bindingRef.
     bind_result (canonicalOwnDataClone (js_prop v ''input'')) (\<lambda>input.
     bind_result (text ''deploymentId'') (\<lambda>deployment.
     bind_result (text ''snapshotReceiptId'') (\<lambda>receipt.
     bind_result (text ''taskSpaceId'') (\<lambda>space.
     bind_result (text ''taskId'') (\<lambda>task.
     bind_result (text ''runId'') (\<lambda>run.
     bind_result (text ''nodeId'') (\<lambda>node.
     bind_result (canonicalOwnDataDigest h (JObj [(''deploymentId'', JStr deployment), (''snapshotReceiptId'', JStr receipt),
       (''taskSpaceId'', JStr space), (''taskId'', JStr task), (''runId'', JStr run), (''nodeId'', JStr node)])) (\<lambda>subscriptionId.
     bind_result (text ''holonRef'') (\<lambda>holonRef.
     bind_result (text ''workflowInstanceId'') (\<lambda>workflow.
     bind_result (if js_prop v ''origin'' = JUndef then Inr None
       else bind_result (normalizeHolonTaskRuntimeOrigin h (js_prop v ''origin'')) (\<lambda>g. Inr (Some g))) (\<lambda>origin.
     bind_result (canonicalOwnDataDigest h input) (\<lambda>inputDigest.
     bind_result (exactTimestamp h (js_prop v ''createdAt'')) (\<lambda>createdAt.
     Inr \<lparr>ls_subscriptionId = subscriptionId, ls_deploymentId = deployment, ls_bindingRef = bindingRef, ls_holonRef = holonRef,
       ls_snapshotReceiptId = receipt, ls_taskSpaceId = space, ls_taskId = task, ls_workflowInstanceId = workflow, ls_runId = run,
       ls_nodeId = node, ls_origin = origin, ls_input = input, ls_inputDigest = inputDigest, ls_createdAt = createdAt\<rparr>)))))))))))))))"

definition legacyValue :: "LegacyHolonTaskPumpSubscription \<Rightarrow> jsv" where
  "legacyValue s = JObj ([(''schemaVersion'', JStr JOURNAL_VERSION), (''subscriptionId'', JStr (ls_subscriptionId s)),
     (''deploymentId'', JStr (ls_deploymentId s)), (''snapshotReceiptId'', JStr (ls_snapshotReceiptId s)),
     (''taskSpaceId'', JStr (ls_taskSpaceId s)), (''taskId'', JStr (ls_taskId s)), (''runId'', JStr (ls_runId s)),
     (''nodeId'', JStr (ls_nodeId s)), (''bindingRef'', JStr (ls_bindingRef s)), (''holonRef'', JStr (ls_holonRef s)),
     (''workflowInstanceId'', JStr (ls_workflowInstanceId s))]
     @ (case ls_origin s of None \<Rightarrow> [] | Some g \<Rightarrow> [(''origin'', originValue g)])
     @ [(''input'', ls_input s), (''inputDigest'', JStr (ls_inputDigest s)), (''createdAt'', JStr (ls_createdAt s))])"

definition projectLegacy :: "JournalHost \<Rightarrow> LegacyHolonTaskPumpSubscription \<Rightarrow> HolonTaskPumpSubscription result" where
  "projectLegacy h s =
     bind_result (canonicalOwnDataDigest h (JObj [(''deploymentId'', JStr (ls_deploymentId s)), (''bindingRef'', JStr (ls_bindingRef s)),
       (''snapshotReceiptId'', JStr (ls_snapshotReceiptId s)), (''nodeId'', JStr (ls_nodeId s))])) (\<lambda>d.
     Inr \<lparr>ts_subscriptionId = ls_subscriptionId s, ts_admissionId = ''legacy-workflow:'' @ d, ts_deploymentId = ls_deploymentId s,
       ts_bindingRef = ls_bindingRef s, ts_holonRef = ls_holonRef s, ts_snapshotReceiptId = ls_snapshotReceiptId s,
       ts_taskSpaceId = ls_taskSpaceId s, ts_taskId = ls_taskId s,
       ts_origin = nullish (ls_origin s) (ServiceOrigin ''resource://eidolon.legacy-workflow-holon-task-pump'' (ls_subscriptionId s)),
       ts_recoveryScope = WorkflowScope (ls_workflowInstanceId s) (ls_runId s) (ls_nodeId s),
       ts_processorConfig = \<lparr>pc_leaseDurationMs = 30000, pc_maxSteps = 1024\<rparr>, ts_input = ls_input s, ts_inputDigest = ls_inputDigest s,
       ts_createdAt = ls_createdAt s, ts_projected = True\<rparr>)"

definition parseJson :: "JournalHost \<Rightarrow> string \<Rightarrow> jsv result" where
  "parseJson h bytes = (case ch_parse (jh_text h) bytes of None \<Rightarrow> Inl ''SyntaxError'' | Some v \<Rightarrow> Inr v)"

definition parseSubscription :: "JournalHost \<Rightarrow> string \<Rightarrow> HolonTaskPumpSubscription result" where
  "parseSubscription h bytes =
     bind_result (parseJson h bytes) (\<lambda>v.
     bind_result (propOf v ''schemaVersion'') (\<lambda>version.
     if version = JStr JOURNAL_VERSION then
       bind_result (legacySubscription h v) (\<lambda>s.
         if JStr (ls_subscriptionId s) \<noteq> js_prop v ''subscriptionId'' \<or> JStr (ls_inputDigest s) \<noteq> js_prop v ''inputDigest''
            \<or> bytes \<noteq> canonicalBytes h (legacyValue s)
         then Inl TAMPERED else projectLegacy h s)
     else
       bind_result (subscription h v) (\<lambda>s.
         if JStr (ts_subscriptionId s) \<noteq> js_prop v ''subscriptionId'' \<or> JStr (ts_inputDigest s) \<noteq> js_prop v ''inputDigest''
            \<or> bytes \<noteq> canonicalBytes h (subscriptionValue s)
         then Inl TAMPERED else Inr s)))"

definition retainFirstSubscriptionObservation ::
  "JournalHost \<Rightarrow> HolonTaskPumpSubscription \<Rightarrow> HolonTaskPumpSubscription \<Rightarrow> HolonTaskPumpSubscription result" where
  "retainFirstSubscriptionObservation h existing candidate =
     (if canonicalBytes h (subscriptionValue existing) \<noteq> canonicalBytes h (subscriptionValue (candidate\<lparr>ts_createdAt := ts_createdAt existing\<rparr>))
      then Inl CONFLICT else Inr existing)"

section \<open>Intents and results\<close>

record HolonTaskPumpDispatchIntent =
  di_intentId :: string
  di_deploymentId :: string
  di_taskSpaceId :: string
  di_taskId :: string
  di_claimId :: string
  di_attempt :: int
  di_leaseEpoch :: int
  di_invocationRef :: string
  di_input :: jsv
  di_inputDigest :: string
  di_preparedAt :: string

definition createHolonTaskPumpDispatchIntent :: "JournalHost \<Rightarrow> jsv \<Rightarrow> HolonTaskPumpDispatchIntent result" where
  "createHolonTaskPumpDispatchIntent h v = (let text = (\<lambda>k. exactText h INVALID (js_prop v k)) in
     if v = JNull \<or> v = JUndef then Inl ''TypeError'' else
     case (safePositive (js_prop v ''attempt''), safePositive (js_prop v ''leaseEpoch'')) of
       (Some attempt, Some leaseEpoch) \<Rightarrow>
         bind_result (canonicalOwnDataClone (js_prop v ''input'')) (\<lambda>input.
         bind_result (text ''deploymentId'') (\<lambda>deployment.
         bind_result (text ''taskSpaceId'') (\<lambda>space.
         bind_result (text ''taskId'') (\<lambda>task.
         bind_result (text ''claimId'') (\<lambda>claim.
         bind_result (text ''invocationRef'') (\<lambda>invocation.
         bind_result (canonicalOwnDataDigest h (JObj [(''deploymentId'', JStr deployment), (''taskSpaceId'', JStr space), (''taskId'', JStr task),
           (''claimId'', JStr claim), (''attempt'', jsInt attempt), (''leaseEpoch'', jsInt leaseEpoch),
           (''invocationRef'', JStr invocation)])) (\<lambda>intentId.
         bind_result (canonicalOwnDataDigest h input) (\<lambda>inputDigest.
         bind_result (exactTimestamp h (js_prop v ''preparedAt'')) (\<lambda>preparedAt.
         Inr \<lparr>di_intentId = intentId, di_deploymentId = deployment, di_taskSpaceId = space, di_taskId = task, di_claimId = claim,
           di_attempt = attempt, di_leaseEpoch = leaseEpoch, di_invocationRef = invocation, di_input = input, di_inputDigest = inputDigest,
           di_preparedAt = preparedAt\<rparr>)))))))))
     | _ \<Rightarrow> Inl INVALID)"

definition intentValue :: "HolonTaskPumpDispatchIntent \<Rightarrow> jsv" where
  "intentValue i = JObj [(''schemaVersion'', JStr JOURNAL_VERSION), (''intentId'', JStr (di_intentId i)),
     (''deploymentId'', JStr (di_deploymentId i)), (''taskSpaceId'', JStr (di_taskSpaceId i)), (''taskId'', JStr (di_taskId i)),
     (''claimId'', JStr (di_claimId i)), (''attempt'', jsInt (di_attempt i)), (''leaseEpoch'', jsInt (di_leaseEpoch i)),
     (''invocationRef'', JStr (di_invocationRef i)), (''input'', di_input i), (''inputDigest'', JStr (di_inputDigest i)),
     (''preparedAt'', JStr (di_preparedAt i))]"

definition parseIntent :: "JournalHost \<Rightarrow> string \<Rightarrow> HolonTaskPumpDispatchIntent result" where
  "parseIntent h bytes =
     bind_result (parseJson h bytes) (\<lambda>v.
     bind_result (createHolonTaskPumpDispatchIntent h v) (\<lambda>i.
     if JStr (di_intentId i) \<noteq> js_prop v ''intentId'' \<or> JStr (di_inputDigest i) \<noteq> js_prop v ''inputDigest''
        \<or> bytes \<noteq> canonicalBytes h (intentValue i)
     then Inl TAMPERED else Inr i))"

text \<open>The fields of a receipt that were read back are whatever the bytes held, until they are verified.\<close>

record HolonTaskPumpResultReceipt =
  rr_schemaVersion :: jsv
  rr_intentId :: jsv
  rr_invocationRef :: jsv
  rr_output :: jsv
  rr_outputDigest :: jsv
  rr_acceptedAt :: jsv
  rr_receiptDigest :: string

definition receiptBody :: "HolonTaskPumpResultReceipt \<Rightarrow> (string \<times> jsv) list" where
  "receiptBody r = [(''schemaVersion'', rr_schemaVersion r), (''intentId'', rr_intentId r), (''invocationRef'', rr_invocationRef r),
     (''output'', rr_output r), (''outputDigest'', rr_outputDigest r), (''acceptedAt'', rr_acceptedAt r)]"

definition receiptValue :: "HolonTaskPumpResultReceipt \<Rightarrow> jsv" where
  "receiptValue r = JObj (receiptBody r @ [(''receiptDigest'', JStr (rr_receiptDigest r))])"

definition sealReceipt :: "JournalHost \<Rightarrow> HolonTaskPumpResultReceipt \<Rightarrow> HolonTaskPumpResultReceipt result" where
  "sealReceipt h r = bind_result (canonicalOwnDataDigest h (JObj (receiptBody r))) (\<lambda>d. Inr (r\<lparr>rr_receiptDigest := d\<rparr>))"

definition resultReceipt :: "JournalHost \<Rightarrow> HolonTaskPumpDispatchIntent \<Rightarrow> jsv \<Rightarrow> string \<Rightarrow> HolonTaskPumpResultReceipt result" where
  "resultReceipt h intent outputValue acceptedAt =
     bind_result (canonicalOwnDataClone outputValue) (\<lambda>output.
     bind_result (canonicalOwnDataDigest h output) (\<lambda>outputDigest.
     bind_result (exactTimestamp h (JStr acceptedAt)) (\<lambda>accepted.
     sealReceipt h \<lparr>rr_schemaVersion = JStr JOURNAL_VERSION, rr_intentId = JStr (di_intentId intent),
       rr_invocationRef = JStr (di_invocationRef intent), rr_output = output, rr_outputDigest = JStr outputDigest,
       rr_acceptedAt = JStr accepted, rr_receiptDigest = []\<rparr>)))"

definition parseResult :: "JournalHost \<Rightarrow> string \<Rightarrow> HolonTaskPumpResultReceipt result" where
  "parseResult h bytes =
     bind_result (parseJson h bytes) (\<lambda>v.
     bind_result (propOf v ''schemaVersion'') (\<lambda>version.
     bind_result (canonicalOwnDataClone (js_prop v ''output'')) (\<lambda>output.
     bind_result (sealReceipt h \<lparr>rr_schemaVersion = version, rr_intentId = js_prop v ''intentId'', rr_invocationRef = js_prop v ''invocationRef'',
       rr_output = output, rr_outputDigest = js_prop v ''outputDigest'', rr_acceptedAt = js_prop v ''acceptedAt'',
       rr_receiptDigest = []\<rparr>) (\<lambda>expected.
     if version \<noteq> JStr JOURNAL_VERSION then Inl TAMPERED
     else bind_result (canonicalOwnDataDigest h (js_prop v ''output'')) (\<lambda>d.
       if js_prop v ''outputDigest'' \<noteq> JStr d \<or> js_prop v ''receiptDigest'' \<noteq> JStr (rr_receiptDigest expected)
          \<or> bytes \<noteq> canonicalBytes h (receiptValue expected)
       then Inl TAMPERED else Inr expected)))))"

end
