(* ===== verification/JournalDispatch.thy ===== *)
theory JournalDispatch
  imports JournalModel
begin

text \<open>
  The journal at work: the files and locks of \<open>ai-support/src/organization/FileHolonTaskPumpJournalStore.ts\<close> and the operations
  of \<open>createHolonTaskPumpJournal\<close> in \<open>ai-organ-logic/src/organization/HolonTaskPumpJournal.ts\<close>.

  A dispatch waits at every access to a file, so it is modelled as a machine: \<open>DispatchPoint\<close> names the places at which it
  waits, and one step (\<open>advance\<close>) runs from one to the next. Any number of dispatchers, in one process or several, share files
  and locks. A candidate file that is linked to its final name is one access; creating a lock file and writing its owner are two.
  What comes from outside is in a \<open>DispatchOracle\<close>: a fresh token, the outcome of the effect, and of the fault observer.
\<close>

section \<open>Facts\<close>

datatype JournalCollection = SubscriptionsFacts | IntentsFacts | ResultsFacts

type_synonym JournalFiles = "((JournalCollection \<times> string) \<times> string) list"

definition fileKey :: "JournalHost \<Rightarrow> string \<Rightarrow> string" where
  "fileKey h identity = jh_sha h identity"

definition readFact :: "JournalHost \<Rightarrow> JournalFiles \<Rightarrow> JournalCollection \<times> string \<Rightarrow> string result" where
  "readFact h fs k = (case map_of fs (fst k, fileKey h (snd k) @ ''.json'') of None \<Rightarrow> Inl ENOENT | Some bytes \<Rightarrow> Inr bytes)"

definition writeImmutable :: "JournalHost \<Rightarrow> JournalFiles \<Rightarrow> JournalCollection \<times> string \<Rightarrow> string \<Rightarrow> unit result \<times> JournalFiles" where
  "writeImmutable h fs k bytes = (let target = (fst k, fileKey h (snd k) @ ''.json'') in
     case map_of fs target of
       None \<Rightarrow> (Inr (), jmap_set target bytes fs)
     | Some present \<Rightarrow> (if present = bytes then Inr () else Inl CONFLICT, fs))"

definition listFacts :: "JournalFiles \<Rightarrow> JournalCollection \<Rightarrow> string list" where
  "listFacts fs c = (let names = sort (filter (\<lambda>n. drop (length n - 5) n = ''.json'') (map snd (filter (\<lambda>k. fst k = c) (map fst fs))))
     in map (\<lambda>n. the (map_of fs (c, n))) names)"

section \<open>Operations without waiting for others\<close>

definition subscribe :: "JournalHost \<Rightarrow> JournalFiles \<Rightarrow> jsv \<Rightarrow> HolonTaskPumpSubscription result \<times> JournalFiles" where
  "subscribe h fs v = (case subscription h v of
      Inl e \<Rightarrow> (Inl e, fs)
    | Inr s \<Rightarrow>
        let k = (SubscriptionsFacts, ts_subscriptionId s); back = (\<lambda>fs'. bind_result (readFact h fs' k) (parseSubscription h)) in
        (case writeImmutable h fs k (canonicalBytes h (subscriptionValue s)) of
           (Inl e, fs') \<Rightarrow> (if e \<noteq> CONFLICT then Inl e
              else bind_result (back fs') (\<lambda>existing. retainFirstSubscriptionObservation h existing s), fs')
         | (Inr _, fs') \<Rightarrow> (back fs', fs')))"

definition listSubscriptions :: "JournalHost \<Rightarrow> JournalFiles \<Rightarrow> jsv \<Rightarrow> HolonTaskPumpSubscription list result" where
  "listSubscriptions h fs runIdValue =
     bind_result (if runIdValue = JUndef then Inr None else bind_result (exactText h INVALID runIdValue) (\<lambda>r. Inr (Some r))) (\<lambda>runId.
     bind_result (map_result (parseSubscription h) (listFacts fs SubscriptionsFacts)) (\<lambda>values.
     Inr (filter (\<lambda>s. case runId of None \<Rightarrow> True
        | Some r \<Rightarrow> (case ts_recoveryScope s of WorkflowScope _ run _ \<Rightarrow> run = r | _ \<Rightarrow> False)) values)))"

definition listDispatchIntents :: "JournalHost \<Rightarrow> JournalFiles \<Rightarrow> HolonTaskPumpDispatchIntent list result" where
  "listDispatchIntents h fs = map_result (parseIntent h) (listFacts fs IntentsFacts)"

definition readResult :: "JournalHost \<Rightarrow> JournalFiles \<Rightarrow> string \<Rightarrow> HolonTaskPumpResultReceipt option result" where
  "readResult h fs intentIdValue =
     bind_result (exactText h INVALID (JStr intentIdValue)) (\<lambda>intentId.
       case readFact h fs (ResultsFacts, intentId) of
         Inl e \<Rightarrow> (if e = ENOENT then Inr None else Inl e)
       | Inr bytes \<Rightarrow> bind_result (parseResult h bytes) (\<lambda>receipt.
           if rr_intentId receipt \<noteq> JStr intentId then Inl TAMPERED else Inr (Some receipt)))"

section \<open>Dispatching\<close>

text \<open>Before its first wait a dispatch checks the intent it was given.\<close>

definition beginDispatch :: "JournalHost \<Rightarrow> jsv \<Rightarrow> HolonTaskPumpDispatchIntent result" where
  "beginDispatch h given = bind_result (createHolonTaskPumpDispatchIntent h given) (\<lambda>intent.
     if JStr (di_intentId intent) \<noteq> js_prop given ''intentId'' \<or> JStr (di_inputDigest intent) \<noteq> js_prop given ''inputDigest''
     then Inl TAMPERED else Inr intent)"

type_synonym DispatchOutcome = "(HolonTaskPumpResultReceipt \<times> bool) result"

text \<open>Where a dispatch waits; a deadline is carried while the lock is sought.\<close>

datatype DispatchPoint =
    AtWriteIntent | AtReadIntent | AtLookup
  | AtAcquire int | AtBusy int | AtStale int | AtSteal int | AtSleep int | AtLockWrite
  | AtRecheck | AtEffect | AtObserve jsv | AtPublish jsv | AtReadBack
  | AtRelease DispatchOutcome | AtUnlink DispatchOutcome | Settled DispatchOutcome

record DispatchWorker =
  wk_intent :: HolonTaskPumpDispatchIntent
  wk_pid :: int
  wk_token :: string
  wk_point :: DispatchPoint

text \<open>A lock file: who created it, what it says of its owner (token and process), and when it was written.\<close>

record LockFile =
  lf_maker :: string
  lf_owner :: "(string \<times> int) option"
  lf_mtime :: int

record JournalWorld =
  jw_files :: JournalFiles
  jw_locks :: "(string \<times> LockFile) list"
  jw_now :: int
  jw_dead :: "int list"
  jw_tokens :: "string list" \<comment> \<open>the tokens drawn so far\<close>
  jw_effects :: "(string \<times> string) list" \<comment> \<open>intent and idempotency key of every effect that was run to its end\<close>
  jw_workers :: "DispatchWorker list"

record DispatchOracle =
  or_token :: string
  or_effect :: "jsv result"
  or_fault :: "unit result"

definition lockKey :: "JournalHost \<Rightarrow> DispatchWorker \<Rightarrow> string" where
  "lockKey h wk = fileKey h (di_intentId (wk_intent wk))"

definition pidAlive :: "JournalWorld \<Rightarrow> int \<Rightarrow> bool" where
  "pidAlive w pid \<longleftrightarrow> pid \<notin> set (jw_dead w)"

definition resultKey :: "DispatchWorker \<Rightarrow> JournalCollection \<times> string" where
  "resultKey wk = (ResultsFacts, di_intentId (wk_intent wk))"

definition goto :: "DispatchPoint \<Rightarrow> DispatchWorker \<Rightarrow> DispatchWorker" where
  "goto p wk = wk\<lparr>wk_point := p\<rparr>"

text \<open>A step of the lock: \<open>acquire\<close> and \<open>release\<close> of the file store.\<close>

definition acquireStep :: "JournalHost \<Rightarrow> DispatchOracle \<Rightarrow> int \<Rightarrow> DispatchWorker \<Rightarrow> JournalWorld \<Rightarrow> DispatchWorker \<times> JournalWorld" where
  "acquireStep h o' deadline wk w = (case map_of (jw_locks w) (lockKey h wk) of
      None \<Rightarrow> (goto AtLockWrite (wk\<lparr>wk_token := or_token o'\<rparr>),
        w\<lparr>jw_locks := jmap_set (lockKey h wk) \<lparr>lf_maker = or_token o', lf_owner = None, lf_mtime = jw_now w\<rparr> (jw_locks w),
          jw_tokens := or_token o' # jw_tokens w\<rparr>)
    | Some _ \<Rightarrow> (goto (AtBusy deadline) wk, w))"

definition busyStep :: "JournalHost \<Rightarrow> int \<Rightarrow> int \<Rightarrow> DispatchWorker \<Rightarrow> JournalWorld \<Rightarrow> DispatchWorker \<times> JournalWorld" where
  "busyStep h lockTimeoutMs deadline wk w = (case map_of (jw_locks w) (lockKey h wk) of
      Some facts \<Rightarrow> (goto (if lockTimeoutMs < jw_now w - lf_mtime facts then AtStale deadline else AtSleep deadline) wk, w)
    | None \<Rightarrow> (goto (AtSleep deadline) wk, w))"

definition staleStep :: "JournalHost \<Rightarrow> int \<Rightarrow> DispatchWorker \<Rightarrow> JournalWorld \<Rightarrow> DispatchWorker \<times> JournalWorld" where
  "staleStep h deadline wk w = (case map_of (jw_locks w) (lockKey h wk) of
      None \<Rightarrow> (goto (Settled (Inl ENOENT)) wk, w)
    | Some file \<Rightarrow> (case lf_owner file of
        None \<Rightarrow> (goto (Settled (Inl ''SyntaxError'')) wk, w)
      | Some (_, pid) \<Rightarrow> (goto (if pidAlive w pid then AtSleep deadline else AtSteal deadline) wk, w)))"

definition sleepStep :: "int \<Rightarrow> DispatchWorker \<Rightarrow> JournalWorld \<Rightarrow> DispatchWorker \<times> JournalWorld" where
  "sleepStep deadline wk w = (goto (if deadline \<le> jw_now w then Settled (Inl LOCK_TIMEOUT) else AtAcquire deadline) wk, w)"

definition stealStep :: "JournalHost \<Rightarrow> int \<Rightarrow> DispatchWorker \<Rightarrow> JournalWorld \<Rightarrow> DispatchWorker \<times> JournalWorld" where
  "stealStep h deadline wk w = (goto (AtAcquire deadline) wk, w\<lparr>jw_locks := kv_delete (lockKey h wk) (jw_locks w)\<rparr>)"

text \<open>The owner is written to the file that was created, also where its name is gone or leads to another file by now.\<close>

definition lockWriteStep :: "JournalHost \<Rightarrow> DispatchWorker \<Rightarrow> JournalWorld \<Rightarrow> DispatchWorker \<times> JournalWorld" where
  "lockWriteStep h wk w = (goto AtRecheck wk, case map_of (jw_locks w) (lockKey h wk) of
      None \<Rightarrow> w
    | Some file \<Rightarrow> if lf_maker file = wk_token wk
        then w\<lparr>jw_locks := jmap_set (lockKey h wk) (file\<lparr>lf_owner := Some (wk_token wk, wk_pid wk), lf_mtime := jw_now w\<rparr>) (jw_locks w)\<rparr>
        else w)"

definition releaseStep :: "JournalHost \<Rightarrow> DispatchOutcome \<Rightarrow> DispatchWorker \<Rightarrow> JournalWorld \<Rightarrow> DispatchWorker \<times> JournalWorld" where
  "releaseStep h outcome wk w = (case map_of (jw_locks w) (lockKey h wk) of
      None \<Rightarrow> (goto (Settled (Inl ENOENT)) wk, w)
    | Some file \<Rightarrow> (case lf_owner file of
        None \<Rightarrow> (goto (Settled (Inl ''SyntaxError'')) wk, w)
      | Some (token, _) \<Rightarrow>
          if token \<noteq> wk_token wk then (goto (Settled (Inl LOCK_CONFLICT)) wk, w)
          else (goto (AtUnlink outcome) wk, w)))"

definition unlinkStep :: "JournalHost \<Rightarrow> DispatchOutcome \<Rightarrow> DispatchWorker \<Rightarrow> JournalWorld \<Rightarrow> DispatchWorker \<times> JournalWorld" where
  "unlinkStep h outcome wk w = (if map_of (jw_locks w) (lockKey h wk) = None then (goto (Settled (Inl ENOENT)) wk, w)
     else (goto (Settled outcome) wk, w\<lparr>jw_locks := kv_delete (lockKey h wk) (jw_locks w)\<rparr>))"

text \<open>What a dispatch does between two waits.\<close>

definition advance :: "JournalHost \<Rightarrow> int \<Rightarrow> DispatchOracle \<Rightarrow> DispatchWorker \<Rightarrow> JournalWorld \<Rightarrow> DispatchWorker \<times> JournalWorld" where
  "advance h lockTimeoutMs o' wk w =
     (let intent = wk_intent wk in case wk_point wk of
        AtWriteIntent \<Rightarrow> (case writeImmutable h (jw_files w) (IntentsFacts, di_intentId intent) (canonicalBytes h (intentValue intent)) of
            (Inl e, fs) \<Rightarrow> (goto (Settled (Inl e)) wk, w\<lparr>jw_files := fs\<rparr>)
          | (Inr _, fs) \<Rightarrow> (goto AtReadIntent wk, w\<lparr>jw_files := fs\<rparr>))
      | AtReadIntent \<Rightarrow> (goto (case bind_result (readFact h (jw_files w) (IntentsFacts, di_intentId intent)) (parseIntent h) of
            Inl e \<Rightarrow> Settled (Inl e) | Inr _ \<Rightarrow> AtLookup) wk, w)
      | AtLookup \<Rightarrow> (goto (case readResult h (jw_files w) (di_intentId intent) of
            Inl e \<Rightarrow> Settled (Inl e) | Inr (Some r) \<Rightarrow> Settled (Inr (r, True)) | Inr None \<Rightarrow> AtAcquire (jw_now w + lockTimeoutMs)) wk, w)
      | AtAcquire deadline \<Rightarrow> acquireStep h o' deadline wk w
      | AtBusy deadline \<Rightarrow> busyStep h lockTimeoutMs deadline wk w
      | AtStale deadline \<Rightarrow> staleStep h deadline wk w
      | AtSteal deadline \<Rightarrow> stealStep h deadline wk w
      | AtSleep deadline \<Rightarrow> sleepStep deadline wk w
      | AtLockWrite \<Rightarrow> lockWriteStep h wk w
      | AtRecheck \<Rightarrow> (goto (case readResult h (jw_files w) (di_intentId intent) of
            Inl e \<Rightarrow> AtRelease (Inl e) | Inr (Some r) \<Rightarrow> AtRelease (Inr (r, True)) | Inr None \<Rightarrow> AtEffect) wk, w)
      | AtEffect \<Rightarrow> (case or_effect o' of
            Inl e \<Rightarrow> (goto (AtRelease (Inl e)) wk, w)
          | Inr output \<Rightarrow> (goto (AtObserve output) wk, w\<lparr>jw_effects := jw_effects w @ [(di_intentId intent, di_invocationRef intent)]\<rparr>))
      | AtObserve output \<Rightarrow> (goto (case or_fault o' of Inl e \<Rightarrow> AtRelease (Inl e) | Inr _ \<Rightarrow> AtPublish output) wk, w)
      | AtPublish output \<Rightarrow> (case resultReceipt h intent output (jh_isoAt h (jw_now w)) of
            Inl e \<Rightarrow> (goto (AtRelease (Inl e)) wk, w)
          | Inr receipt \<Rightarrow> (case writeImmutable h (jw_files w) (resultKey wk) (canonicalBytes h (receiptValue receipt)) of
                (Inl e, fs) \<Rightarrow> (goto (AtRelease (Inl e)) wk, w\<lparr>jw_files := fs\<rparr>)
              | (Inr _, fs) \<Rightarrow> (goto AtReadBack wk, w\<lparr>jw_files := fs\<rparr>)))
      | AtReadBack \<Rightarrow> (goto (AtRelease (bind_result (readFact h (jw_files w) (resultKey wk)) (\<lambda>bytes.
            bind_result (parseResult h bytes) (\<lambda>r. Inr (r, False))))) wk, w)
      | AtRelease outcome \<Rightarrow> releaseStep h outcome wk w
      | AtUnlink outcome \<Rightarrow> unlinkStep h outcome wk w
      | Settled outcome \<Rightarrow> (wk, w))"

section \<open>Dispatchers together\<close>

datatype PumpEvent = Work nat DispatchOracle | Tick int | Die int

definition pumpApply :: "JournalHost \<Rightarrow> int \<Rightarrow> PumpEvent \<Rightarrow> JournalWorld \<Rightarrow> JournalWorld" where
  "pumpApply h lockTimeoutMs e w = (case e of
      Work i o' \<Rightarrow>
        if i < length (jw_workers w) \<and> pidAlive w (wk_pid (jw_workers w ! i))
        then (case advance h lockTimeoutMs o' (jw_workers w ! i) w of (wk, w') \<Rightarrow> w'\<lparr>jw_workers := (jw_workers w)[i := wk]\<rparr>)
        else w
    | Tick d \<Rightarrow> w\<lparr>jw_now := jw_now w + max d 0\<rparr>
    | Die pid \<Rightarrow> w\<lparr>jw_dead := pid # jw_dead w\<rparr>)"

text \<open>Tokens are never drawn twice.\<close>

definition freshEvent :: "JournalWorld \<Rightarrow> PumpEvent \<Rightarrow> bool" where
  "freshEvent w e = (case e of
      Work i o' \<Rightarrow> (case wk_point (jw_workers w ! i) of AtAcquire _ \<Rightarrow> or_token o' \<notin> set (jw_tokens w) | _ \<Rightarrow> True)
    | _ \<Rightarrow> True)"

text \<open>What can be reached from a world by events of a kind.\<close>

inductive pumpReach :: "JournalHost \<Rightarrow> int \<Rightarrow> (PumpEvent \<Rightarrow> bool) \<Rightarrow> JournalWorld \<Rightarrow> JournalWorld \<Rightarrow> bool"
  for h lockTimeoutMs kind w0 where
  reach_start: "pumpReach h lockTimeoutMs kind w0 w0"
| reach_step: "pumpReach h lockTimeoutMs kind w0 w \<Longrightarrow> kind e \<Longrightarrow> freshEvent w e \<Longrightarrow> pumpReach h lockTimeoutMs kind w0 (pumpApply h lockTimeoutMs e w)"

end
