(* ===== verification/JournalProps.thy ===== *)
theory JournalProps
  imports JournalDispatch CoordinationProps
begin

text \<open>
  Facts on the journal that its claims share: the store of immutable facts as an interface, canonical values and their bytes, and
  what a step of a dispatcher leaves alone.
\<close>

section \<open>Immutable facts\<close>

text \<open>The contract between the journal and a store: what was written is read back, nothing that can be read changes, and writing
  again is accepted for the same bytes only.\<close>

locale immutable_facts =
  fixes look :: "'s \<Rightarrow> 'k \<Rightarrow> string result"
    and put :: "'s \<Rightarrow> 'k \<Rightarrow> string \<Rightarrow> unit result \<times> 's"
  assumes put_look: "fst (put s k b) = Inr () \<Longrightarrow> look (snd (put s k b)) k = Inr b"
    and put_keeps: "look s j = Inr c \<Longrightarrow> look (snd (put s k b)) j = Inr c"
    and put_again: "look s k = Inr c \<Longrightarrow> fst (put s k b) = (if b = c then Inr () else Inl CONFLICT)"
    and put_new: "look s k = Inl ENOENT \<Longrightarrow> fst (put s k b) = Inr ()"
    and put_error: "fst (put s k b) = Inl e \<Longrightarrow> e = CONFLICT \<and> (\<exists>c. look s k = Inr c \<and> c \<noteq> b)"
begin

text \<open>Facts survive any number of writes.\<close>

lemma fact_stable: "look s j = Inr c \<Longrightarrow> look (foldl (\<lambda>s w. snd (put s (fst w) (snd w))) s ws) j = Inr c"
  by (induction ws arbitrary: s) (simp_all add: put_keeps)

lemma first_write_wins:
  assumes "fst (put s k b) = Inr ()"
  shows "fst (put (foldl (\<lambda>s w. snd (put s (fst w) (snd w))) (snd (put s k b)) ws) k c) = (if c = b then Inr () else Inl CONFLICT)"
  by (rule put_again) (rule fact_stable, rule put_look, rule assms)

end

interpretation files: immutable_facts "readFact h" "writeImmutable h" for h
  by unfold_locales (auto simp: readFact_def writeImmutable_def Let_def jsm.lookup_store split: option.splits if_splits)

section \<open>Canonical values\<close>

lemma lookup_obj_of: "distinct (map fst es) \<Longrightarrow> map_of (obj_of es) = map_of es"
proof -
  assume d: "distinct (map fst es)"
  then have "map_of (rev es) = map_of es" by (intro map_of_eqI) (auto simp: rev_map[symmetric])
  then show ?thesis by (simp add: obj_of_def jso.lookup_fold)
qed

lemma keys_obj_of: "distinct (map fst (obj_of es))" "fst ` set (obj_of es) = fst ` set es"
  using jso.distinct_fold[of "[]" es] jso.keys_fold[of "[]" es] by (simp_all add: obj_of_def)

lemma values_obj_of: "x \<in> snd ` set (obj_of es) \<Longrightarrow> x \<in> snd ` set es"
proof -
  assume "x \<in> snd ` set (obj_of es)"
  then obtain k where "(k, x) \<in> set (obj_of es)" by auto
  then have "map_of (obj_of es) k = Some x" using keys_obj_of(1) by simp
  then have "map_of (rev es) k = Some x" by (simp add: obj_of_def jso.lookup_fold)
  then have "(k, x) \<in> set es" using map_of_SomeD by fastforce
  then show ?thesis by force
qed

lemma json_own: "json_plain v \<Longrightarrow> ownData v"
  by (induction v rule: json_plain.induct) auto

lemma canonical_plain: "ownData v \<Longrightarrow> json_plain (canonicalValue v)"
proof (induction v rule: canonicalValue.induct)
  case (2 ps)
  define qs where "qs = map (\<lambda>p. (fst p, canonicalValue (snd p))) ps"
  define es where "es = map (\<lambda>k. (k, the (map_of qs k))) (sort (map fst qs))"
  have "json_plain x" if x: "x \<in> snd ` set es" for x
  proof -
    obtain k where k: "k \<in> set (sort (map fst qs))" "x = the (map_of qs k)" using x by (auto simp: es_def simp del: set_sort)
    then have "map_of qs k = Some x" by (cases "map_of qs k") (auto simp: map_of_eq_None_iff)
    then have "(k, x) \<in> set qs" by (rule map_of_SomeD)
    then obtain p where "p \<in> set ps" "x = canonicalValue (snd p)" by (auto simp: qs_def)
    then show ?thesis using 2 by simp
  qed
  moreover have "canonicalValue (JObj ps) = JObj (obj_of es)" by (simp add: qs_def es_def Let_def)
  moreover have "json_plain (snd p)" if "p \<in> set (obj_of es)" for p
    by (rule calculation(1), rule values_obj_of) (use that in simp)
  ultimately show ?case using keys_obj_of(1)[of es] by simp
qed auto

lemma canonical_own: "ownData v \<Longrightarrow> ownData (canonicalValue v)"
  by (simp add: canonical_plain json_own)

lemma canonical_idem: "json_plain v \<Longrightarrow> canonicalValue (canonicalValue v) = canonicalValue v"
proof (induction v rule: canonicalValue.induct)
  case (2 ps)
  define qs where "qs = map (\<lambda>p. (fst p, canonicalValue (snd p))) ps"
  define es where "es = map (\<lambda>k. (k, the (map_of qs k))) (sort (map fst qs))"
  have d: "distinct (map fst qs)" using 2(2) by (simp add: qs_def comp_def)
  have c: "canonicalValue (JObj ps) = JObj (obj_of es)" by (simp add: qs_def es_def Let_def)
  have ek: "map fst es = sort (map fst qs)" by (simp add: es_def comp_def)
  have de: "distinct (map fst es)" using d by (simp add: ek)
  have fix_value: "canonicalValue (snd p) = snd p" if "p \<in> set (obj_of es)" for p
  proof -
    have x: "snd p \<in> snd ` set es" by (rule values_obj_of) (use that in simp)
    then obtain k where k: "k \<in> set (sort (map fst qs))" "snd p = the (map_of qs k)" using x by (auto simp: es_def simp del: set_sort)
    then have "map_of qs k = Some (snd p)" by (cases "map_of qs k") (auto simp: map_of_eq_None_iff)
    then have "(k, snd p) \<in> set qs" by (rule map_of_SomeD)
    then obtain q where "q \<in> set ps" "snd p = canonicalValue (snd q)" by (auto simp: qs_def)
    then show ?thesis using 2 by simp
  qed
  then have m: "map (\<lambda>p. (fst p, canonicalValue (snd p))) (obj_of es) = obj_of es" by (intro map_idI) simp
  have s: "sort (map fst (obj_of es)) = map fst es"
  proof -
    have "fst ` set es = fst ` set qs" using arg_cong[OF ek, of set] by simp
    then show ?thesis using keys_obj_of[of es] de by (intro sorted_distinct_set_unique) (simp_all add: ek)
  qed
  have t: "map (\<lambda>k. (k, the (map_of (obj_of es) k))) (map fst es) = es"
  proof -
    have "(fst p, the (map_of es (fst p))) = p" if "p \<in> set es" for p
    proof -
      have "map_of es (fst p) = Some (snd p)" using de that by (intro map_of_is_SomeI) simp_all
      then show ?thesis by simp
    qed
    then show ?thesis by (simp add: lookup_obj_of[OF de] map_idI comp_def)
  qed
  have "canonicalValue (JObj (obj_of es)) = JObj (obj_of es)" by (simp only: canonicalValue.simps Let_def m s t)
  then show ?case by (simp only: c)
qed auto

lemma digest_own: "ownData v \<Longrightarrow> \<exists>d. canonicalOwnDataDigest h v = Inr d"
  by (simp add: canonicalOwnDataDigest_def canonicalOwnDataClone_def)

section \<open>Facts and their bytes\<close>

lemma exact_text [simp]: "exactText h c v = Inr s \<longleftrightarrow> v = JStr s \<and> exactString h s"
  by (auto simp: exactText_def split: jsv.splits if_splits)

lemma exact_text_str [simp]: "exactString h s \<Longrightarrow> exactText h c (JStr s) = Inr s"
  by simp

lemma timestamp_fix: "exactTimestamp h v = Inr s \<Longrightarrow> v = JStr s \<and> exactTimestamp h (JStr s) = Inr s"
proof -
  assume a: "exactTimestamp h v = Inr s"
  have "v = JStr s" using a unfolding exactTimestamp_def
    by (cases "exactText h INVALID v") (simp_all split: if_splits option.splits)
  then show ?thesis using a by simp
qed

lemma safe_int: "safePositive v = Some n \<Longrightarrow> safePositive (jsInt n) = Some n"
  by (auto simp: safePositive_def jsInt_def split: jsv.splits jnum.splits if_splits)

lemma clone_fix: "json_plain v \<Longrightarrow> canonicalOwnDataClone v = Inr c \<Longrightarrow> json_plain c \<and> canonicalOwnDataClone c = Inr c"
  by (auto simp: canonicalOwnDataClone_def canonical_plain canonical_own canonical_idem split: if_splits)

lemma resource_fix: "resourceRef h v = Inr s \<Longrightarrow> v = JStr s \<and> resourceRef h (JStr s) = Inr s"
proof -
  assume a: "resourceRef h v = Inr s"
  have "v = JStr s" using a unfolding resourceRef_def Let_def by (cases "exactText h CONTRACT v") (simp_all split: if_splits)
  then show ?thesis using a by simp
qed

lemma binding_fix: "bindingRefOf h v = Inr s \<Longrightarrow> v = JStr s \<and> bindingRefOf h (JStr s) = Inr s"
proof -
  assume a: "bindingRefOf h v = Inr s"
  have "v = JStr s" using a unfolding bindingRefOf_def by (cases "exactText h INVALID v") (simp_all split: if_splits)
  then show ?thesis using a by simp
qed

lemma json_int [simp]: "json_plain (jsInt n)"
  by (simp add: jsInt_def)

lemma bytes_back:
  assumes "jsonText (jh_text h)" "json_plain v"
  shows "parseJson h (canonicalBytes h v) = Inr v"
  using assms by (simp add: parseJson_def canonicalBytes_def jsonText_def)

lemma intent_facts:
  assumes "createHolonTaskPumpDispatchIntent h v = Inr i"
  obtains "safePositive (jsInt (di_attempt i)) = Some (di_attempt i)" "safePositive (jsInt (di_leaseEpoch i)) = Some (di_leaseEpoch i)"
    "canonicalOwnDataClone (js_prop v ''input'') = Inr (di_input i)" "exactString h (di_deploymentId i)" "exactString h (di_taskSpaceId i)"
    "exactString h (di_taskId i)" "exactString h (di_claimId i)" "exactString h (di_invocationRef i)"
    "canonicalOwnDataDigest h (JObj [(''deploymentId'', JStr (di_deploymentId i)), (''taskSpaceId'', JStr (di_taskSpaceId i)),
       (''taskId'', JStr (di_taskId i)), (''claimId'', JStr (di_claimId i)), (''attempt'', jsInt (di_attempt i)),
       (''leaseEpoch'', jsInt (di_leaseEpoch i)), (''invocationRef'', JStr (di_invocationRef i))]) = Inr (di_intentId i)"
    "canonicalOwnDataDigest h (di_input i) = Inr (di_inputDigest i)" "exactTimestamp h (JStr (di_preparedAt i)) = Inr (di_preparedAt i)"
proof -
  have "v \<noteq> JNull \<and> v \<noteq> JUndef" using assms by (auto simp: createHolonTaskPumpDispatchIntent_def)
  moreover obtain a l where "safePositive (js_prop v ''attempt'') = Some a" "safePositive (js_prop v ''leaseEpoch'') = Some l"
    using assms calculation by (auto simp: createHolonTaskPumpDispatchIntent_def Let_def split: option.splits)
  moreover have "safePositive (jsInt a) = Some a" "safePositive (jsInt l) = Some l" using calculation(2,3) by (auto intro: safe_int)
  moreover have "exactTimestamp h (js_prop v ''preparedAt'') = Inr (di_preparedAt i)"
    using assms calculation by (auto simp: createHolonTaskPumpDispatchIntent_def Let_def bind_result_eq_Inr)
  then have "exactTimestamp h (JStr (di_preparedAt i)) = Inr (di_preparedAt i)" using timestamp_fix by metis
  ultimately show ?thesis using assms that
    by (auto simp: createHolonTaskPumpDispatchIntent_def Let_def bind_result_eq_Inr)
qed

lemma intent_fixed:
  assumes "createHolonTaskPumpDispatchIntent h v = Inr i" "json_plain (js_prop v ''input'')"
  shows "createHolonTaskPumpDispatchIntent h (intentValue i) = Inr i" "json_plain (intentValue i)"
proof -
  from assms(1) obtain f: "safePositive (jsInt (di_attempt i)) = Some (di_attempt i)" "safePositive (jsInt (di_leaseEpoch i)) = Some (di_leaseEpoch i)"
    "canonicalOwnDataClone (js_prop v ''input'') = Inr (di_input i)" "exactString h (di_deploymentId i)" "exactString h (di_taskSpaceId i)"
    "exactString h (di_taskId i)" "exactString h (di_claimId i)" "exactString h (di_invocationRef i)"
    "canonicalOwnDataDigest h (JObj [(''deploymentId'', JStr (di_deploymentId i)), (''taskSpaceId'', JStr (di_taskSpaceId i)),
       (''taskId'', JStr (di_taskId i)), (''claimId'', JStr (di_claimId i)), (''attempt'', jsInt (di_attempt i)),
       (''leaseEpoch'', jsInt (di_leaseEpoch i)), (''invocationRef'', JStr (di_invocationRef i))]) = Inr (di_intentId i)"
    "canonicalOwnDataDigest h (di_input i) = Inr (di_inputDigest i)" "exactTimestamp h (JStr (di_preparedAt i)) = Inr (di_preparedAt i)"
    by (rule intent_facts)
  have c: "json_plain (di_input i)" "canonicalOwnDataClone (di_input i) = Inr (di_input i)" using clone_fix[OF assms(2) f(3)] by simp_all
  have t: "exactText h INVALID (JStr s) = Inr s" if "exactString h s" for s using that by simp
  show "createHolonTaskPumpDispatchIntent h (intentValue i) = Inr i"
    by (simp add: createHolonTaskPumpDispatchIntent_def intentValue_def Let_def f c t)
  show "json_plain (intentValue i)" using c by (simp add: intentValue_def)
qed

lemma intent_read_back:
  assumes "jsonText (jh_text h)" "createHolonTaskPumpDispatchIntent h v = Inr i" "json_plain (js_prop v ''input'')"
  shows "parseIntent h (canonicalBytes h (intentValue i)) = Inr i"
  using intent_fixed[OF assms(2,3)] assms(1) by (simp add: parseIntent_def bytes_back) (simp add: intentValue_def)

lemma receipt_read_back:
  assumes "jsonText (jh_text h)" "resultReceipt h i v t = Inr r" "json_plain v"
  shows "parseResult h (canonicalBytes h (receiptValue r)) = Inr r" "rr_intentId r = JStr (di_intentId i)"
proof -
  obtain out d acc where f: "canonicalOwnDataClone v = Inr out" "canonicalOwnDataDigest h out = Inr d" "exactTimestamp h (JStr t) = Inr acc"
      and s: "sealReceipt h \<lparr>rr_schemaVersion = JStr JOURNAL_VERSION, rr_intentId = JStr (di_intentId i),
       rr_invocationRef = JStr (di_invocationRef i), rr_output = out, rr_outputDigest = JStr d, rr_acceptedAt = JStr acc, rr_receiptDigest = []\<rparr> = Inr r"
    using assms(2) by (auto simp: resultReceipt_def bind_result_eq_Inr)
  then obtain e where r: "r = \<lparr>rr_schemaVersion = JStr JOURNAL_VERSION, rr_intentId = JStr (di_intentId i),
       rr_invocationRef = JStr (di_invocationRef i), rr_output = out, rr_outputDigest = JStr d, rr_acceptedAt = JStr acc, rr_receiptDigest = e\<rparr>"
    by (auto simp: sealReceipt_def bind_result_eq_Inr)
  have c: "json_plain out" "canonicalOwnDataClone out = Inr out" using clone_fix[OF assms(3) f(1)] by simp_all
  then have "json_plain (receiptValue r)" by (simp add: r receiptValue_def receiptBody_def)
  then have b: "parseJson h (canonicalBytes h (receiptValue r)) = Inr (receiptValue r)" by (rule bytes_back[OF assms(1)])
  have p: "js_prop (receiptValue r) ''schemaVersion'' = JStr JOURNAL_VERSION" "js_prop (receiptValue r) ''intentId'' = JStr (di_intentId i)"
      "js_prop (receiptValue r) ''invocationRef'' = JStr (di_invocationRef i)" "js_prop (receiptValue r) ''output'' = out"
      "js_prop (receiptValue r) ''outputDigest'' = JStr d" "js_prop (receiptValue r) ''acceptedAt'' = JStr acc"
      "js_prop (receiptValue r) ''receiptDigest'' = JStr (rr_receiptDigest r)" "receiptValue r \<noteq> JNull" "receiptValue r \<noteq> JUndef"
    by (simp_all add: r receiptValue_def receiptBody_def)
  show "parseResult h (canonicalBytes h (receiptValue r)) = Inr r"
    by (simp add: parseResult_def b propOf_def p c(2) s f(2))
  show "rr_intentId r = JStr (di_intentId i)" by (simp add: r)
qed

end
