(* ===== verification/JournalReceipts.thy ===== *)
theory JournalReceipts
  imports JournalProps
begin

text \<open>
  What a step of a dispatcher leaves alone, and the receipts that dispatchers return.
\<close>

section \<open>What a step leaves alone\<close>

lemma goto_simps [simp]: "wk_point (goto p wk) = p" "wk_intent (goto p wk) = wk_intent wk" "wk_pid (goto p wk) = wk_pid wk"
  "wk_token (goto p wk) = wk_token wk" "lockKey h (goto p wk) = lockKey h wk" "resultKey (goto p wk) = resultKey wk"
  by (simp_all add: goto_def lockKey_def resultKey_def)

lemma lock_steps_files [simp]:
  "jw_files (snd (acquireStep h o' d wk w)) = jw_files w" "jw_files (snd (busyStep h t d wk w)) = jw_files w"
  "jw_files (snd (staleStep h d wk w)) = jw_files w" "jw_files (snd (stealStep h d wk w)) = jw_files w"
  "jw_files (snd (sleepStep d wk w)) = jw_files w" "jw_files (snd (lockWriteStep h wk w)) = jw_files w"
  "jw_files (snd (releaseStep h oc wk w)) = jw_files w" "jw_files (snd (unlinkStep h oc wk w)) = jw_files w"
  by (simp_all add: acquireStep_def busyStep_def staleStep_def stealStep_def sleepStep_def lockWriteStep_def releaseStep_def unlinkStep_def
      split: option.splits prod.splits)

lemma lock_steps_intent [simp]:
  "wk_intent (fst (acquireStep h o' d wk w)) = wk_intent wk" "wk_intent (fst (busyStep h t d wk w)) = wk_intent wk"
  "wk_intent (fst (staleStep h d wk w)) = wk_intent wk" "wk_intent (fst (stealStep h d wk w)) = wk_intent wk"
  "wk_intent (fst (sleepStep d wk w)) = wk_intent wk" "wk_intent (fst (lockWriteStep h wk w)) = wk_intent wk"
  "wk_intent (fst (releaseStep h oc wk w)) = wk_intent wk" "wk_intent (fst (unlinkStep h oc wk w)) = wk_intent wk"
  by (simp_all add: acquireStep_def busyStep_def staleStep_def stealStep_def sleepStep_def lockWriteStep_def releaseStep_def unlinkStep_def
      split: option.splits prod.splits)

lemma advance_intent [simp]: "wk_intent (fst (advance h t o' wk w)) = wk_intent wk"
  by (cases "wk_point wk") (simp_all add: advance_def Let_def split: sum.splits prod.splits)

lemma advance_keeps_facts:
  assumes "readFact h (jw_files w) k = Inr b"
  shows "readFact h (jw_files (snd (advance h t o' wk w))) k = Inr b"
proof -
  have "readFact h (snd (writeImmutable h (jw_files w) j c)) k = Inr b" for j c using files.put_keeps[OF assms] .
  then have "readFact h fs k = Inr b" if "writeImmutable h (jw_files w) j c = (r, fs)" for j c r fs using that by (metis snd_conv)
  then show ?thesis using assms by (cases "wk_point wk") (auto simp: advance_def Let_def split: sum.splits prod.splits)
qed

section \<open>Receipts\<close>

text \<open>The receipt a dispatcher is about to return.\<close>

fun pointReceipt :: "DispatchPoint \<Rightarrow> HolonTaskPumpResultReceipt option" where
  "pointReceipt (AtRelease (Inr (r, _))) = Some r"
| "pointReceipt (AtUnlink (Inr (r, _))) = Some r"
| "pointReceipt (Settled (Inr (r, _))) = Some r"
| "pointReceipt _ = None"

definition storedReceipt :: "JournalHost \<Rightarrow> JournalFiles \<Rightarrow> string \<Rightarrow> HolonTaskPumpResultReceipt \<Rightarrow> bool" where
  "storedReceipt h fs intentId r \<longleftrightarrow> (\<exists>bytes. readFact h fs (ResultsFacts, intentId) = Inr bytes \<and> parseResult h bytes = Inr r)"

lemma read_result_stored: "readResult h fs i = Inr (Some r) \<Longrightarrow> storedReceipt h fs i r"
  by (auto simp: readResult_def bind_result_eq_Inr storedReceipt_def split: sum.splits if_splits)

lemma read_back_stored:
  "bind_result (readFact h fs (resultKey wk)) (\<lambda>bytes. bind_result (parseResult h bytes) (\<lambda>r. Inr (r, False))) = Inr (r, b)
    \<Longrightarrow> storedReceipt h fs (di_intentId (wk_intent wk)) r"
  by (auto simp: storedReceipt_def bind_result_eq_Inr resultKey_def)

lemma outcome_receipt: "pointReceipt (AtRelease oc) = Some r \<longleftrightarrow> (\<exists>b. oc = Inr (r, b))" "pointReceipt (AtUnlink oc) = Some r \<longleftrightarrow> (\<exists>b. oc = Inr (r, b))"
  "pointReceipt (Settled oc) = Some r \<longleftrightarrow> (\<exists>b. oc = Inr (r, b))"
  by (cases oc; auto)+

lemma advance_receipt:
  assumes "pointReceipt (wk_point (fst (advance h t o' wk w))) = Some r"
    and "\<And>r. pointReceipt (wk_point wk) = Some r \<Longrightarrow> storedReceipt h (jw_files w) (di_intentId (wk_intent wk)) r"
  shows "storedReceipt h (jw_files w) (di_intentId (wk_intent wk)) r"
proof (cases "wk_point wk")
  case AtLookup
  then show ?thesis using assms(1) read_result_stored by (auto simp: advance_def Let_def split: sum.splits option.splits)
next
  case AtRecheck
  then show ?thesis using assms(1) read_result_stored by (auto simp: advance_def Let_def split: sum.splits option.splits)
next
  case AtReadBack
  then show ?thesis using assms(1) read_back_stored by (auto simp: advance_def outcome_receipt)
next
  case (AtRelease oc)
  then show ?thesis using assms by (auto simp: advance_def Let_def releaseStep_def outcome_receipt split: option.splits prod.splits if_splits)
next
  case (AtUnlink oc)
  then show ?thesis using assms by (auto simp: advance_def Let_def unlinkStep_def outcome_receipt split: if_splits)
next
  case (Settled oc)
  then show ?thesis using assms by (simp add: advance_def Let_def)
qed (use assms(1) in \<open>auto simp: advance_def Let_def acquireStep_def busyStep_def staleStep_def stealStep_def sleepStep_def lockWriteStep_def
    split: sum.splits prod.splits option.splits if_splits\<close>)

definition receiptsStored :: "JournalHost \<Rightarrow> JournalWorld \<Rightarrow> bool" where
  "receiptsStored h w \<longleftrightarrow> (\<forall>wk \<in> set (jw_workers w). \<forall>r. pointReceipt (wk_point wk) = Some r
     \<longrightarrow> storedReceipt h (jw_files w) (di_intentId (wk_intent wk)) r)"

lemma stored_kept: "storedReceipt h (jw_files w) i r \<Longrightarrow> storedReceipt h (jw_files (snd (advance h t o' wk w))) i r"
  unfolding storedReceipt_def using advance_keeps_facts by blast

lemma receipts_step:
  assumes "receiptsStored h w"
  shows "receiptsStored h (pumpApply h t e w)"
proof (cases e)
  case (Work i o')
  show ?thesis
  proof (cases "i < length (jw_workers w) \<and> pidAlive w (wk_pid (jw_workers w ! i))")
    case True
    define wk where "wk = jw_workers w ! i"
    obtain wk' w' where a: "advance h t o' wk w = (wk', w')" by (cases "advance h t o' wk w")
    have m: "wk \<in> set (jw_workers w)" using True by (simp add: wk_def)
    have ad: "wk' = fst (advance h t o' wk w)" "w' = snd (advance h t o' wk w)" by (simp_all add: a)
    have p: "pumpApply h t e w = w'\<lparr>jw_workers := (jw_workers w)[i := wk']\<rparr>"
      using True a by (simp add: pumpApply_def Work wk_def[symmetric])
    have old: "storedReceipt h (jw_files w') (di_intentId (wk_intent x)) r"
      if "x \<in> set (jw_workers w)" "pointReceipt (wk_point x) = Some r" for x r
      using assms that unfolding receiptsStored_def ad(2) by (blast intro: stored_kept)
    have new: "storedReceipt h (jw_files w') (di_intentId (wk_intent wk')) r" if "pointReceipt (wk_point wk') = Some r" for r
    proof -
      have "storedReceipt h (jw_files w) (di_intentId (wk_intent wk)) r"
        by (rule advance_receipt[of h t o' wk w]) (use that m assms in \<open>auto simp: ad receiptsStored_def\<close>)
      then show ?thesis unfolding ad by (simp add: stored_kept)
    qed
    have "x = wk' \<or> x \<in> set (jw_workers w)" if "x \<in> set ((jw_workers w)[i := wk'])" for x
      using set_update_subset_insert[of "jw_workers w" i wk'] that by auto
    then show ?thesis using old new unfolding p receiptsStored_def by auto
  next
    case False
    then have "pumpApply h t e w = w" by (auto simp: pumpApply_def Work)
    then show ?thesis using assms by simp
  qed
qed (use assms in \<open>simp_all add: pumpApply_def receiptsStored_def\<close>)

text \<open>C7: receipts agree. However dispatchers of any intents are interleaved, die, lose their lock or wait past it, whenever two of them
  return for the same intent, fresh or replayed, they return the same receipt, and it is the one on disk.\<close>

theorem receipts_agree:
  assumes "pumpReach h t kind w0 w" and "\<forall>wk \<in> set (jw_workers w0). wk_point wk = AtWriteIntent"
    and "a \<in> set (jw_workers w)" and "b \<in> set (jw_workers w)" and "di_intentId (wk_intent a) = di_intentId (wk_intent b)"
    and "wk_point a = Settled (Inr (r, replayed))" and "wk_point b = Settled (Inr (r', replayed'))"
  shows "r = r' \<and> storedReceipt h (jw_files w) (di_intentId (wk_intent a)) r"
proof -
  have "receiptsStored h w0" using assms(2) by (simp add: receiptsStored_def)
  with assms(1) have "receiptsStored h w" by (induction rule: pumpReach.induct) (simp_all add: receipts_step)
  then have "storedReceipt h (jw_files w) (di_intentId (wk_intent a)) r" "storedReceipt h (jw_files w) (di_intentId (wk_intent a)) r'"
    using assms(3-7) unfolding receiptsStored_def by (metis pointReceipt.simps(3))+
  then show ?thesis by (auto simp: storedReceipt_def)
qed

end
