(* ===== verification/JournalLocks.thy ===== *)
theory JournalLocks
  imports JournalReceipts
begin

text \<open>
  The invariant of one key of the journal, its lock file and its effect, and the steps that keep it.
\<close>

section \<open>At most one effect\<close>

text \<open>A dispatcher between the creation and the removal of its lock file, and one whose effect is not on disk yet.\<close>

fun critical :: "DispatchPoint \<Rightarrow> bool" where
  "critical AtLockWrite = True" | "critical AtRecheck = True" | "critical AtEffect = True" | "critical (AtObserve _) = True"
| "critical (AtPublish _) = True" | "critical AtReadBack = True" | "critical (AtRelease _) = True" | "critical (AtUnlink _) = True"
| "critical _ = False"

fun unpublished :: "DispatchPoint \<Rightarrow> jsv option" where
  "unpublished (AtObserve v) = Some v" | "unpublished (AtPublish v) = Some v" | "unpublished _ = None"

definition holders :: "JournalHost \<Rightarrow> JournalWorld \<Rightarrow> string \<Rightarrow> nat set" where
  "holders h w k = {i. i < length (jw_workers w) \<and> critical (wk_point (jw_workers w ! i)) \<and> lockKey h (jw_workers w ! i) = k}"

definition fits :: "LockFile \<Rightarrow> DispatchWorker \<Rightarrow> bool" where
  "fits lf wk \<longleftrightarrow> lf_maker lf = wk_token wk
     \<and> lf_owner lf = (if wk_point wk = AtLockWrite then None else Some (wk_token wk, wk_pid wk))"

definition onDisk :: "JournalWorld \<Rightarrow> string \<Rightarrow> bool" where
  "onDisk w k \<longleftrightarrow> map_of (jw_files w) (ResultsFacts, k @ ''.json'') \<noteq> None"

definition effectCount :: "JournalHost \<Rightarrow> JournalWorld \<Rightarrow> string \<Rightarrow> nat" where
  "effectCount h w k = length (filter (\<lambda>e. fileKey h (fst e) = k) (jw_effects w))"

text \<open>What holds of one key: the lock file is there while somebody is critical, and is his; and an effect that was run is on disk or
  in the hands of him who ran it.\<close>

definition lockInv :: "JournalHost \<Rightarrow> JournalWorld \<Rightarrow> string \<Rightarrow> bool" where
  "lockInv h w k \<longleftrightarrow> (case map_of (jw_locks w) k of
      None \<Rightarrow> holders h w k = {}
    | Some lf \<Rightarrow> \<exists>i. holders h w k = {i} \<and> fits lf (jw_workers w ! i) \<and> pidAlive w (wk_pid (jw_workers w ! i)))"

definition effectInv :: "JournalHost \<Rightarrow> JournalWorld \<Rightarrow> string \<Rightarrow> bool" where
  "effectInv h w k \<longleftrightarrow> effectCount h w k = 0
     \<or> effectCount h w k = 1 \<and> (onDisk w k \<or> (\<exists>i \<in> holders h w k. unpublished (wk_point (jw_workers w ! i)) \<noteq> None))"

definition pointInv :: "JournalHost \<Rightarrow> JournalWorld \<Rightarrow> DispatchWorker \<Rightarrow> bool" where
  "pointInv h w wk \<longleftrightarrow> (case wk_point wk of
      AtSteal _ \<Rightarrow> False
    | AtEffect \<Rightarrow> effectCount h w (lockKey h wk) = 0 \<and> \<not> onDisk w (lockKey h wk)
    | AtObserve v \<Rightarrow> ownData v \<and> \<not> onDisk w (lockKey h wk)
    | AtPublish v \<Rightarrow> ownData v \<and> \<not> onDisk w (lockKey h wk)
    | _ \<Rightarrow> True)"

definition keyInv :: "JournalHost \<Rightarrow> JournalWorld \<Rightarrow> string \<Rightarrow> bool" where
  "keyInv h w k \<longleftrightarrow> lockInv h w k \<and> effectInv h w k \<and> (\<forall>wk \<in> set (jw_workers w). lockKey h wk = k \<longrightarrow> pointInv h w wk)"

text \<open>The world after a worker has moved.\<close>

definition moved :: "JournalWorld \<Rightarrow> nat \<Rightarrow> DispatchWorker \<Rightarrow> JournalWorld \<Rightarrow> JournalWorld" where
  "moved w i wk w' = w'\<lparr>jw_workers := (jw_workers w)[i := wk]\<rparr>"

text \<open>A step at another key.\<close>

lemma other_key:
  assumes "keyInv h w k" "i < length (jw_workers w)" "lockKey h (jw_workers w ! i) \<noteq> k" "lockKey h wk = lockKey h (jw_workers w ! i)"
    "map_of (jw_locks w') k = map_of (jw_locks w) k" "onDisk w' k = onDisk w k" "effectCount h w' k = effectCount h w k" "jw_dead w' = jw_dead w"
  shows "keyInv h (moved w i wk w') k"
proof -
  have n: "(jw_workers w)[i := wk] ! j = jw_workers w ! j" if "j \<noteq> i" for j using that by simp
  have hd: "holders h (moved w i wk w') k = holders h w k"
  proof -
    have "j \<in> holders h (moved w i wk w') k \<longleftrightarrow> j \<in> holders h w k" for j
      using assms(2-4) by (cases "j = i") (simp_all add: holders_def moved_def)
    then show ?thesis by blast
  qed
  have ni: "i \<notin> holders h w k" using assms(3) by (simp add: holders_def)
  have same: "onDisk (moved w i wk w') j = onDisk w' j" "effectCount h (moved w i wk w') j = effectCount h w' j"
      "pidAlive (moved w i wk w') p = pidAlive w p" "jw_locks (moved w i wk w') = jw_locks w'"
      "jw_workers (moved w i wk w') = (jw_workers w)[i := wk]" for j p
    using assms(8) by (simp_all add: moved_def onDisk_def effectCount_def pidAlive_def)
  have "lockInv h (moved w i wk w') k"
  proof (cases "map_of (jw_locks w) k")
    case None
    then show ?thesis using assms(1,5) by (simp add: keyInv_def lockInv_def hd same)
  next
    case (Some lf)
    then obtain j where "holders h w k = {j}" "fits lf (jw_workers w ! j)" "pidAlive w (wk_pid (jw_workers w ! j))"
      using assms(1) by (auto simp: keyInv_def lockInv_def)
    moreover have "j \<noteq> i" using ni calculation(1) by blast
    ultimately show ?thesis using Some assms(5) by (simp add: lockInv_def hd same)
  qed
  moreover have "effectInv h (moved w i wk w') k"
  proof -
    have "unpublished (wk_point ((jw_workers w)[i := wk] ! j)) = unpublished (wk_point (jw_workers w ! j))" if "j \<in> holders h w k" for j
      using that ni by (cases "j = i") auto
    then show ?thesis using assms(1,6,7) by (simp add: keyInv_def effectInv_def hd same)
  qed
  moreover have "pointInv h (moved w i wk w') x" if "x \<in> set ((jw_workers w)[i := wk])" "lockKey h x = k" for x
  proof -
    have "x \<in> set (jw_workers w)" using set_update_subset_insert[of "jw_workers w" i wk] that assms(3,4) by auto
    then have "pointInv h w x" using assms(1) that(2) by (simp add: keyInv_def)
    then show ?thesis using assms(6,7) that(2) by (cases "wk_point x") (simp_all add: pointInv_def same)
  qed
  ultimately show ?thesis by (simp add: keyInv_def same)
qed

text \<open>A step at its own key: what a move has to show, with the points before and after it.\<close>

lemma own_key:
  assumes inv: "keyInv h w k" and i: "i < length (jw_workers w)" "wk = jw_workers w ! i" "lockKey h wk = k" "lockKey h wk' = k"
    and dead: "jw_dead w' = jw_dead w" "wk_pid wk' = wk_pid wk" "pidAlive w (wk_pid wk)"
    and lock_in: "critical (wk_point wk') \<Longrightarrow> \<exists>lf. map_of (jw_locks w') k = Some lf \<and> fits lf wk'"
    and enter: "critical (wk_point wk') \<Longrightarrow> \<not> critical (wk_point wk) \<Longrightarrow> map_of (jw_locks w) k = None"
    and out: "\<not> critical (wk_point wk') \<Longrightarrow> map_of (jw_locks w') k = (if critical (wk_point wk) then None else map_of (jw_locks w) k)"
    and eff: "critical (wk_point wk) \<or> critical (wk_point wk') \<Longrightarrow> effectCount h w' k = 0
      \<or> effectCount h w' k = 1 \<and> (onDisk w' k \<or> critical (wk_point wk') \<and> unpublished (wk_point wk') \<noteq> None)"
    and calm: "\<not> critical (wk_point wk) \<Longrightarrow> \<not> critical (wk_point wk') \<Longrightarrow> effectCount h w' k = effectCount h w k \<and> onDisk w' k = onDisk w k"
    and point: "pointInv h w' wk'"
  shows "keyInv h (moved w i wk' w') k"
proof -
  have same: "onDisk (moved w i wk' w') j = onDisk w' j" "effectCount h (moved w i wk' w') j = effectCount h w' j"
      "pidAlive (moved w i wk' w') p = pidAlive w p" "jw_locks (moved w i wk' w') = jw_locks w'"
      "jw_workers (moved w i wk' w') = (jw_workers w)[i := wk']" for j p
    using dead(1) by (simp_all add: moved_def onDisk_def effectCount_def pidAlive_def)
  have hd: "holders h (moved w i wk' w') k = (if critical (wk_point wk') then insert i (holders h w k) else holders h w k - {i})"
  proof (rule set_eqI)
    fix j
    show "j \<in> holders h (moved w i wk' w') k \<longleftrightarrow> j \<in> (if critical (wk_point wk') then insert i (holders h w k) else holders h w k - {i})"
      using i by (cases "j = i") (simp_all add: holders_def same)
  qed
  have mine: "holders h w k = {i}" if "critical (wk_point wk)"
  proof -
    have m: "i \<in> holders h w k" using that i by (simp add: holders_def)
    have "lockInv h w k" using inv by (simp add: keyInv_def)
    then obtain j where "holders h w k = {j}" using m by (cases "map_of (jw_locks w) k") (auto simp: lockInv_def)
    then show ?thesis using m by simp
  qed
  have free: "holders h w k = {}" if "critical (wk_point wk')" "\<not> critical (wk_point wk)"
    using inv enter[OF that] by (simp add: keyInv_def lockInv_def)
  have one: "holders h (moved w i wk' w') k = {i}" if "critical (wk_point wk')"
    using that mine free by (cases "critical (wk_point wk)") (simp_all add: hd)
  have rest: "holders h (moved w i wk' w') k = (if critical (wk_point wk) then {} else holders h w k)" if "\<not> critical (wk_point wk')"
  proof (cases "critical (wk_point wk)")
    case False
    then have "i \<notin> holders h w k" using i by (simp add: holders_def)
    then show ?thesis using that False by (simp add: hd)
  qed (use that mine in \<open>simp add: hd\<close>)
  have nth: "(jw_workers w)[i := wk'] ! j = jw_workers w ! j" if "j \<in> holders h w k" "\<not> critical (wk_point wk)" for j
    using that i by (cases "j = i") (simp_all add: holders_def)
  have "lockInv h (moved w i wk' w') k"
  proof (cases "critical (wk_point wk')")
    case True
    then show ?thesis using lock_in[OF True] one[OF True] dead i by (auto simp: lockInv_def same)
  next
    case False
    show ?thesis
    proof (cases "critical (wk_point wk)")
      case True
      then show ?thesis using out[OF False] rest[OF False] by (simp add: lockInv_def same)
    next
      case no: False
      have "lockInv h w k" using inv by (simp add: keyInv_def)
      then show ?thesis using out[OF False] rest[OF False] no nth by (auto simp: lockInv_def same split: option.splits)
    qed
  qed
  moreover have "effectInv h (moved w i wk' w') k"
  proof (cases "critical (wk_point wk) \<or> critical (wk_point wk')")
    case True
    then show ?thesis using eff[OF True] one i(1) by (auto simp: effectInv_def same)
  next
    case False
    then have "effectInv h w k" "effectCount h w' k = effectCount h w k \<and> onDisk w' k = onDisk w k" using inv calm by (simp_all add: keyInv_def)
    then show ?thesis using rest False nth by (auto simp: effectInv_def same)
  qed
  moreover have "pointInv h (moved w i wk' w') x" if x: "x \<in> set ((jw_workers w)[i := wk'])" "lockKey h x = k" for x
  proof -
    obtain j where j: "j < length (jw_workers w)" "x = (jw_workers w)[i := wk'] ! j" using x(1) by (auto simp: in_set_conv_nth)
    show ?thesis
    proof (cases "j = i")
      case True
      then show ?thesis using point j by (cases "wk_point wk'") (simp_all add: pointInv_def same)
    next
      case False
      then have xj: "x = jw_workers w ! j" using j by simp
      then have old: "pointInv h w x" using inv j x(2) by (simp add: keyInv_def)
      have nc: "\<not> critical (wk_point x)" if "critical (wk_point wk) \<or> critical (wk_point wk')"
      proof
        assume "critical (wk_point x)"
        then have "j \<in> holders h w k" using xj j(1) x(2) by (simp add: holders_def)
        then show False using that mine free False by (cases "critical (wk_point wk)") auto
      qed
      show ?thesis
      proof (cases "critical (wk_point wk) \<or> critical (wk_point wk')")
        case True
        then show ?thesis using nc old by (cases "wk_point x") (simp_all add: pointInv_def same)
      next
        case no: False
        then show ?thesis using calm old x(2) by (cases "wk_point x") (simp_all add: pointInv_def same)
      qed
    qed
  qed
  ultimately show ?thesis by (simp add: keyInv_def same)
qed

lemma my_lock:
  assumes "keyInv h w (lockKey h wk)" "i < length (jw_workers w)" "wk = jw_workers w ! i" "critical (wk_point wk)"
  shows "\<exists>lf. map_of (jw_locks w) (lockKey h wk) = Some lf \<and> fits lf wk \<and> holders h w (lockKey h wk) = {i}"
proof -
  have m: "i \<in> holders h w (lockKey h wk)" using assms(2-4) by (simp add: holders_def)
  have "lockInv h w (lockKey h wk)" using assms(1) by (simp add: keyInv_def)
  then show ?thesis using m assms(3) by (cases "map_of (jw_locks w) (lockKey h wk)") (auto simp: lockInv_def)
qed

lemma held_alive:
  assumes "keyInv h w k" "map_of (jw_locks w) k = Some lf" "lf_owner lf = Some (token, pid)"
  shows "pidAlive w pid"
proof -
  have "lockInv h w k" using assms(1) by (simp add: keyInv_def)
  then show ?thesis using assms(2,3) by (auto simp: lockInv_def fits_def split: if_splits)
qed

definition calmOracle :: "DispatchOracle \<Rightarrow> bool" where
  "calmOracle o' \<longleftrightarrow> or_fault o' = Inr () \<and> (case or_effect o' of Inl _ \<Rightarrow> True | Inr v \<Rightarrow> ownData v)"

text \<open>The clock of the host prints timestamps that are accepted.\<close>

definition goodClock :: "JournalHost \<Rightarrow> bool" where
  "goodClock h \<longleftrightarrow> (\<forall>t. exactTimestamp h (JStr (jh_isoAt h t)) = Inr (jh_isoAt h t))"

lemma receipt_made: "goodClock h \<Longrightarrow> ownData v \<Longrightarrow> \<exists>r. resultReceipt h i v (jh_isoAt h t) = Inr r"
proof -
  assume a: "goodClock h" "ownData v"
  obtain d where "canonicalOwnDataDigest h (canonicalValue v) = Inr d" using digest_own[OF canonical_own[OF a(2)]] by blast
  moreover have "\<exists>e. canonicalOwnDataDigest h (JObj (receiptBody \<lparr>rr_schemaVersion = JStr JOURNAL_VERSION, rr_intentId = JStr (di_intentId i),
       rr_invocationRef = JStr (di_invocationRef i), rr_output = canonicalValue v, rr_outputDigest = JStr d,
       rr_acceptedAt = JStr (jh_isoAt h t), rr_receiptDigest = []\<rparr>)) = Inr e" for d
    by (rule digest_own) (simp add: receiptBody_def canonical_own[OF a(2)])
  moreover have "exactTimestamp h (JStr (jh_isoAt h t)) = Inr (jh_isoAt h t)" using a(1) by (simp add: goodClock_def)
  moreover have "canonicalOwnDataClone v = Inr (canonicalValue v)" using a(2) by (simp add: canonicalOwnDataClone_def)
  ultimately show ?thesis by (auto simp: resultReceipt_def sealReceipt_def bind_result_eq_Inr)
qed

lemma write_absent:
  assumes "\<not> onDisk w (lockKey h wk)"
  shows "\<exists>fs. writeImmutable h (jw_files w) (resultKey wk) b = (Inr (), fs) \<and> map_of fs (ResultsFacts, lockKey h wk @ ''.json'') = Some b"
  using assms by (simp add: writeImmutable_def Let_def resultKey_def onDisk_def lockKey_def jsm.lookup_store split: option.split)

lemma read_none_absent: "readResult h (jw_files w) (di_intentId (wk_intent wk)) = Inr None \<Longrightarrow> \<not> onDisk w (lockKey h wk)"
  by (auto simp: readResult_def readFact_def onDisk_def lockKey_def bind_result_eq_Inr split: option.splits sum.splits if_splits)

lemma quiet_files:
  assumes "writeImmutable h fs (IntentsFacts, i) b = (r, fs')"
  shows "map_of fs' (ResultsFacts, k) = map_of fs (ResultsFacts, k)"
  using assms by (auto simp: writeImmutable_def Let_def jsm.lookup_store split: option.splits)

lemma own_step:
  assumes inv: "keyInv h w (lockKey h wk)" and i: "i < length (jw_workers w)" "wk = jw_workers w ! i" and alive: "pidAlive w (wk_pid wk)"
    and adv: "advance h t o' wk w = (wk', w')" and calm: "calmOracle o'" "goodClock h"
  shows "keyInv h (moved w i wk' w') (lockKey h wk)"
proof -
  let ?k = "lockKey h wk"
  have keep: "wk_pid wk' = wk_pid wk \<and> lockKey h wk' = lockKey h wk \<and> jw_dead w' = jw_dead w"
    using adv by (cases "wk_point wk") (auto simp: advance_def Let_def acquireStep_def busyStep_def staleStep_def stealStep_def sleepStep_def
      lockWriteStep_def releaseStep_def unlinkStep_def lockKey_def goto_def split: sum.splits prod.splits option.splits if_splits)
  have pt: "pointInv h w wk" using inv i by (simp add: keyInv_def)
  have ef: "effectInv h w ?k" using inv by (simp add: keyInv_def)
  note own = own_key[OF inv i refl, of wk' w']
  have ef1: "effectCount h w ?k = 0 \<or> effectCount h w ?k = 1 \<and> (onDisk w ?k \<or> unpublished (wk_point wk) \<noteq> None)" if "critical (wk_point wk)"
    using ef my_lock[OF inv i that] i(2) by (auto simp: effectInv_def)
  show ?thesis
  proof (cases "wk_point wk")
    case AtWriteIntent
    obtain r fs where wr: "writeImmutable h (jw_files w) (IntentsFacts, di_intentId (wk_intent wk)) (canonicalBytes h (intentValue (wk_intent wk))) = (r, fs)"
      by (cases "writeImmutable h (jw_files w) (IntentsFacts, di_intentId (wk_intent wk)) (canonicalBytes h (intentValue (wk_intent wk)))")
    show ?thesis by (rule own) (use adv wr keep alive AtWriteIntent quiet_files[OF wr] in
      \<open>auto simp: advance_def Let_def pointInv_def effectCount_def onDisk_def split: sum.splits\<close>)
  next
    case AtReadIntent
    show ?thesis by (rule own) (use adv keep alive AtReadIntent in \<open>auto simp: advance_def Let_def pointInv_def split: sum.splits\<close>)
  next
    case AtLookup
    show ?thesis by (rule own) (use adv keep alive AtLookup in \<open>auto simp: advance_def Let_def pointInv_def split: sum.splits option.splits\<close>)
  next
    case (AtAcquire d)
    show ?thesis
    proof (cases "map_of (jw_locks w) ?k")
      case None
      then have "effectInv h w ?k" "holders h w ?k = {}" using inv by (simp_all add: keyInv_def lockInv_def)
      then have "effectCount h w ?k = 0 \<or> effectCount h w ?k = 1 \<and> onDisk w ?k" by (simp add: effectInv_def)
      then show ?thesis by (intro own) (use adv keep alive AtAcquire None in
        \<open>auto simp: advance_def Let_def acquireStep_def pointInv_def fits_def effectCount_def onDisk_def jsm.lookup_store\<close>)
    next
      case (Some lf)
      show ?thesis by (rule own) (use adv keep alive AtAcquire Some in \<open>auto simp: advance_def Let_def acquireStep_def pointInv_def\<close>)
    qed
  next
    case (AtBusy d)
    show ?thesis by (rule own) (use adv keep alive AtBusy in \<open>auto simp: advance_def Let_def busyStep_def pointInv_def split: option.splits if_splits\<close>)
  next
    case (AtStale d)
    show ?thesis by (rule own) (use adv keep alive AtStale held_alive[OF inv] in
      \<open>auto simp: advance_def Let_def staleStep_def pointInv_def split: option.splits if_splits\<close>)
  next
    case (AtSteal d)
    then show ?thesis using pt by (simp add: pointInv_def)
  next
    case (AtSleep d)
    show ?thesis by (rule own) (use adv keep alive AtSleep in \<open>auto simp: advance_def Let_def sleepStep_def pointInv_def split: if_splits\<close>)
  next
    case AtLockWrite
    then obtain lf where lf: "map_of (jw_locks w) ?k = Some lf" "fits lf wk" using my_lock[OF inv i] by auto
    show ?thesis by (rule own) (use adv keep alive AtLockWrite lf ef1 in
      \<open>auto simp: advance_def Let_def lockWriteStep_def pointInv_def fits_def effectCount_def onDisk_def jsm.lookup_store goto_def\<close>)
  next
    case AtRecheck
    then obtain lf where lf: "map_of (jw_locks w) ?k = Some lf" "fits lf wk" using my_lock[OF inv i] by auto
    show ?thesis by (rule own) (use adv keep alive AtRecheck lf ef1 read_none_absent[of h w wk] in
      \<open>auto simp: advance_def Let_def pointInv_def fits_def goto_def split: sum.splits option.splits\<close>)
  next
    case AtEffect
    then obtain lf where lf: "map_of (jw_locks w) ?k = Some lf" "fits lf wk" using my_lock[OF inv i] by auto
    show ?thesis by (rule own) (use adv keep alive AtEffect lf pt calm in
      \<open>auto simp: advance_def Let_def pointInv_def fits_def goto_def calmOracle_def effectCount_def onDisk_def lockKey_def split: sum.splits\<close>)
  next
    case (AtObserve v)
    then obtain lf where lf: "map_of (jw_locks w) ?k = Some lf" "fits lf wk" using my_lock[OF inv i] by auto
    show ?thesis by (rule own) (use adv keep alive AtObserve lf pt calm ef1 in
      \<open>auto simp: advance_def Let_def pointInv_def fits_def goto_def calmOracle_def split: sum.splits\<close>)
  next
    case (AtPublish v)
    then obtain lf where lf: "map_of (jw_locks w) ?k = Some lf" "fits lf wk" using my_lock[OF inv i] by auto
    have v: "ownData v" "\<not> onDisk w ?k" using pt AtPublish by (simp_all add: pointInv_def)
    obtain r where r: "resultReceipt h (wk_intent wk) v (jh_isoAt h (jw_now w)) = Inr r" using receipt_made[OF calm(2) v(1)] by blast
    obtain fs where fs: "writeImmutable h (jw_files w) (resultKey wk) (canonicalBytes h (receiptValue r)) = (Inr (), fs)"
        "map_of fs (ResultsFacts, ?k @ ''.json'') = Some (canonicalBytes h (receiptValue r))" using write_absent[OF v(2)] by blast
    show ?thesis by (rule own) (use adv keep alive AtPublish lf ef1 r fs in
      \<open>auto simp: advance_def Let_def pointInv_def fits_def goto_def effectCount_def onDisk_def\<close>)
  next
    case AtReadBack
    then obtain lf where lf: "map_of (jw_locks w) ?k = Some lf" "fits lf wk" using my_lock[OF inv i] by auto
    show ?thesis by (rule own) (use adv keep alive AtReadBack lf ef1 in \<open>auto simp: advance_def Let_def pointInv_def fits_def goto_def\<close>)
  next
    case (AtRelease oc)
    then obtain lf where lf: "map_of (jw_locks w) ?k = Some lf" "fits lf wk" using my_lock[OF inv i] by auto
    show ?thesis by (rule own) (use adv keep alive AtRelease lf ef1 in
      \<open>auto simp: advance_def Let_def releaseStep_def pointInv_def fits_def goto_def split: if_splits\<close>)
  next
    case (AtUnlink oc)
    then obtain lf where lf: "map_of (jw_locks w) ?k = Some lf" "fits lf wk" using my_lock[OF inv i] by auto
    show ?thesis by (rule own) (use adv keep alive AtUnlink lf ef1 in
      \<open>auto simp: advance_def Let_def unlinkStep_def pointInv_def effectCount_def onDisk_def\<close>)
  next
    case (Settled oc)
    show ?thesis by (rule own) (use adv keep alive Settled in \<open>auto simp: advance_def Let_def pointInv_def\<close>)
  qed
qed

end
