(* ===== verification/JournalClaims.thy ===== *)
theory JournalClaims
  imports JournalLocks
begin

text \<open>
  At most one effect, the stale lock that breaks it, and a dispatch with its replay.
\<close>

lemma frame_step:
  assumes "advance h t o' wk w = (wk', w')" "k \<noteq> lockKey h wk"
  shows "map_of (jw_locks w') k = map_of (jw_locks w) k" "onDisk w' k = onDisk w k" "effectCount h w' k = effectCount h w k"
    "jw_dead w' = jw_dead w" "lockKey h wk' = lockKey h wk"
proof -
  show "map_of (jw_locks w') k = map_of (jw_locks w) k" "effectCount h w' k = effectCount h w k"
    "jw_dead w' = jw_dead w" "lockKey h wk' = lockKey h wk"
    using assms by (cases "wk_point wk"; auto simp: advance_def Let_def acquireStep_def busyStep_def staleStep_def stealStep_def sleepStep_def
      lockWriteStep_def releaseStep_def unlinkStep_def lockKey_def goto_def effectCount_def jsm.lookup_store
      split: sum.splits prod.splits option.splits if_splits)+
  have "map_of (snd (writeImmutable h fs j b)) (ResultsFacts, k @ ''.json'') = map_of fs (ResultsFacts, k @ ''.json'')"
    if "fst j = IntentsFacts \<or> fileKey h (snd j) = lockKey h wk" for fs j b
    using that assms(2) by (auto simp: writeImmutable_def Let_def jsm.lookup_store split: option.split)
  then have "map_of fs' (ResultsFacts, k @ ''.json'') = map_of fs (ResultsFacts, k @ ''.json'')"
    if "writeImmutable h fs j b = (r, fs')" "fst j = IntentsFacts \<or> fileKey h (snd j) = lockKey h wk" for fs j b r fs'
    using that by (metis snd_conv)
  note f = this
  have g: "fileKey h (snd (resultKey wk)) = lockKey h wk" by (simp add: resultKey_def lockKey_def)
  show "onDisk w' k = onDisk w k"
    using assms(1) by (cases "wk_point wk") (auto simp: advance_def Let_def acquireStep_def busyStep_def staleStep_def stealStep_def sleepStep_def
      lockWriteStep_def releaseStep_def unlinkStep_def onDisk_def f g split: sum.splits prod.splits option.splits if_splits)
qed

definition calmEvent :: "PumpEvent \<Rightarrow> bool" where
  "calmEvent e = (case e of Work _ o' \<Rightarrow> calmOracle o' | Tick _ \<Rightarrow> True | Die _ \<Rightarrow> False)"

lemma key_step:
  assumes "\<And>k. keyInv h w k" "calmEvent e" "goodClock h"
  shows "keyInv h (pumpApply h t e w) k"
proof (cases e)
  case (Work i o')
  show ?thesis
  proof (cases "i < length (jw_workers w) \<and> pidAlive w (wk_pid (jw_workers w ! i))")
    case True
    define wk where "wk = jw_workers w ! i"
    obtain wk' w' where a: "advance h t o' wk w = (wk', w')" by (cases "advance h t o' wk w")
    have p: "pumpApply h t e w = moved w i wk' w'" using True a by (simp add: pumpApply_def Work wk_def[symmetric] moved_def)
    show ?thesis
    proof (cases "k = lockKey h wk")
      case same: True
      show ?thesis unfolding p same
        by (rule own_step[OF _ _ wk_def _ a]) (use assms True in \<open>simp_all add: wk_def[symmetric] calmEvent_def Work\<close>)
    next
      case other: False
      show ?thesis unfolding p
        by (rule other_key) (use assms(1) True other frame_step[OF a other] in \<open>simp_all add: wk_def[symmetric]\<close>)
    qed
  next
    case False
    then have "pumpApply h t e w = w" by (auto simp: pumpApply_def Work)
    then show ?thesis using assms by simp
  qed
next
  case (Tick d)
  let ?w = "w\<lparr>jw_now := jw_now w + max d 0\<rparr>"
  have s: "holders h ?w k = holders h w k" "onDisk ?w k = onDisk w k" "effectCount h ?w k = effectCount h w k"
      "pidAlive ?w p = pidAlive w p" "jw_workers ?w = jw_workers w" "jw_locks ?w = jw_locks w" for k p
    by (simp_all add: holders_def onDisk_def effectCount_def pidAlive_def)
  have "lockInv h ?w k = lockInv h w k" "effectInv h ?w k = effectInv h w k" "pointInv h ?w x = pointInv h w x" for x
    unfolding lockInv_def effectInv_def pointInv_def s by (rule refl)+
  then show ?thesis using assms(1)[of k] by (simp add: pumpApply_def Tick keyInv_def)
next
  case (Die pid)
  then show ?thesis using assms(2) by (simp add: calmEvent_def)
qed

text \<open>C3: while no process dies, the effect of an intent is run to its end at most once, for any number of dispatchers, any
  interleaving of their steps and any waits, where the effect gives plain data or throws and the observer of faults does not throw.\<close>

theorem effect_at_most_once:
  assumes "goodClock h" and "pumpReach h t calmEvent w0 w"
    and "jw_locks w0 = []" and "jw_effects w0 = []" and "\<forall>wk \<in> set (jw_workers w0). wk_point wk = AtWriteIntent"
  shows "length (filter (\<lambda>e. fst e = intentId) (jw_effects w)) \<le> 1"
proof -
  have start: "keyInv h w0 k" for k
  proof -
    have "holders h w0 k = {}" using assms(5) by (auto simp: holders_def)
    then show ?thesis using assms(3-5) by (auto simp: keyInv_def lockInv_def effectInv_def effectCount_def pointInv_def)
  qed
  from assms(2) have "\<forall>k. keyInv h w k" by (induction rule: pumpReach.induct) (use start key_step assms(1) in auto)
  then have "effectInv h w (fileKey h intentId)" by (simp add: keyInv_def)
  then have c: "effectCount h w (fileKey h intentId) \<le> 1" by (auto simp: effectInv_def)
  have "length (filter (\<lambda>e. fst e = intentId) xs) \<le> length (filter (\<lambda>e. fileKey h (fst e) = fileKey h intentId) xs)" for xs :: "(string \<times> string) list"
    by (induction xs) auto
  then show ?thesis using c unfolding effectCount_def by (rule order_trans)
qed

section \<open>A stale lock\<close>

fun allowedRun :: "JournalHost \<Rightarrow> int \<Rightarrow> (PumpEvent \<Rightarrow> bool) \<Rightarrow> JournalWorld \<Rightarrow> PumpEvent list \<Rightarrow> bool" where
  "allowedRun h t kind w [] = True"
| "allowedRun h t kind w (e # es) = (kind e \<and> freshEvent w e \<and> allowedRun h t kind (pumpApply h t e w) es)"

lemma run_reaches:
  "pumpReach h t kind w0 w \<Longrightarrow> allowedRun h t kind w es \<Longrightarrow> pumpReach h t kind w0 (foldl (\<lambda>w e. pumpApply h t e w) w es)"
  by (induction es arbitrary: w) (auto intro: reach_step)

definition plainOracle :: "string \<Rightarrow> jsv \<Rightarrow> DispatchOracle" where
  "plainOracle token v = \<lparr>or_token = token, or_effect = Inr v, or_fault = Inr ()\<rparr>"

text \<open>Two dispatchers of one intent seek the lock of a process that is gone.\<close>

definition staleWorld :: "JournalHost \<Rightarrow> HolonTaskPumpDispatchIntent \<Rightarrow> JournalFiles \<Rightarrow> int \<Rightarrow> int \<Rightarrow> int \<Rightarrow> int \<Rightarrow> JournalWorld" where
  "staleWorld h intent fs now written deadline gone =
     \<lparr>jw_files = fs, jw_locks = [(fileKey h (di_intentId intent), \<lparr>lf_maker = ''old'', lf_owner = Some (''old'', gone), lf_mtime = written\<rparr>)],
      jw_now = now, jw_dead = [gone], jw_tokens = [''old''], jw_effects = [],
      jw_workers = [\<lparr>wk_intent = intent, wk_pid = gone + 1, wk_token = [], wk_point = AtAcquire deadline\<rparr>,
        \<lparr>wk_intent = intent, wk_pid = gone + 2, wk_token = [], wk_point = AtAcquire deadline\<rparr>]\<rparr>"

text \<open>The schedule in which both see the lock before one of them removes it, and the other one removes the new lock.\<close>

definition stealSchedule :: "jsv \<Rightarrow> PumpEvent list" where
  "stealSchedule v = (let a = Work 0 (plainOracle ''a'' v); b = Work 1 (plainOracle ''b'' v) in
     [a, b, a, b, a, b, b, b, b, b, a, a, a, a, a, b])"

text \<open>C31: the lock of a dead process can be taken twice. Two dispatchers that both find it stale and its owner gone both unlink
  the path: the second one removes the lock the first has just made, and the effect of one intent is run twice, though no process
  dies from there on and no token is drawn twice.\<close>

theorem stale_lock_two_effects:
  assumes "lockTimeoutMs < now - written" and "readResult h fs (di_intentId intent) = Inr None" and "ownData v"
  shows "\<exists>w. pumpReach h lockTimeoutMs calmEvent (staleWorld h intent fs now written deadline gone) w
    \<and> jw_effects w = [(di_intentId intent, di_invocationRef intent), (di_intentId intent, di_invocationRef intent)]"
proof -
  let ?w = "staleWorld h intent fs now written deadline gone"
  have "allowedRun h lockTimeoutMs calmEvent ?w (stealSchedule v)
      \<and> jw_effects (foldl (\<lambda>w e. pumpApply h lockTimeoutMs e w) ?w (stealSchedule v))
        = [(di_intentId intent, di_invocationRef intent), (di_intentId intent, di_invocationRef intent)]"
    using assms by (simp add: staleWorld_def stealSchedule_def Let_def plainOracle_def pumpApply_def pidAlive_def advance_def acquireStep_def
        busyStep_def staleStep_def stealStep_def lockWriteStep_def lockKey_def goto_def calmEvent_def calmOracle_def freshEvent_def
        jmap_set_def kv_delete_def)
  then show ?thesis using run_reaches[OF reach_start] by blast
qed

section \<open>A dispatch and its replay\<close>

definition freshWorld :: "HolonTaskPumpDispatchIntent \<Rightarrow> JournalFiles \<Rightarrow> int \<Rightarrow> JournalWorld" where
  "freshWorld intent fs now = \<lparr>jw_files = fs, jw_locks = [], jw_now = now, jw_dead = [], jw_tokens = [], jw_effects = [],
     jw_workers = replicate 2 \<lparr>wk_intent = intent, wk_pid = 1, wk_token = [], wk_point = AtWriteIntent\<rparr>\<rparr>"

text \<open>The first dispatcher runs to its end before the second one starts.\<close>

definition replaySchedule :: "jsv \<Rightarrow> jsv \<Rightarrow> PumpEvent list" where
  "replaySchedule v v' = replicate 12 (Work 0 (plainOracle ''a'' v)) @ replicate 3 (Work 1 (plainOracle ''b'' v'))"

lemma replay_run:
  assumes "jsonText (jh_text h)" and "goodClock h" and "createHolonTaskPumpDispatchIntent h given = Inr intent" and "json_plain (js_prop given ''input'')"
    and "json_plain v" and "readFact h fs (IntentsFacts, di_intentId intent) = Inl ENOENT" and "readResult h fs (di_intentId intent) = Inr None"
    and kind: "kind (Work 0 (plainOracle ''a'' v))" "kind (Work 1 (plainOracle ''b'' v'))"
  shows "\<exists>r. let w = foldl (\<lambda>w e. pumpApply h lockTimeoutMs e w) (freshWorld intent fs now) (replaySchedule v v') in
      jw_workers w = [\<lparr>wk_intent = intent, wk_pid = 1, wk_token = ''a'', wk_point = Settled (Inr (r, False))\<rparr>,
        \<lparr>wk_intent = intent, wk_pid = 1, wk_token = [], wk_point = Settled (Inr (r, True))\<rparr>]
      \<and> rr_output r = canonicalValue v \<and> jw_effects w = [(di_intentId intent, di_invocationRef intent)] \<and> jw_locks w = []
      \<and> allowedRun h lockTimeoutMs kind (freshWorld intent fs now) (replaySchedule v v')"
proof -
  let ?ki = "(IntentsFacts, di_intentId intent)" and ?kr = "(ResultsFacts, di_intentId intent)" and ?bi = "canonicalBytes h (intentValue intent)"
  define fs1 where "fs1 = snd (writeImmutable h fs ?ki ?bi)"
  have wi: "writeImmutable h fs ?ki ?bi = (Inr (), fs1)" using files.put_new[OF assms(6)] by (simp add: fs1_def prod_eq_iff)
  then have ri: "readFact h fs1 ?ki = Inr ?bi" using files.put_look[of h fs ?ki ?bi] by simp
  note parse = intent_read_back[OF assms(1,3,4)]
  have ex: "exactString h (di_intentId intent)" using assms(7) by (auto simp: readResult_def bind_result_eq_Inr)
  have "readFact h fs ?kr = Inl ENOENT" using assms(7)
    by (auto simp: readResult_def bind_result_eq_Inr split: sum.splits if_splits)
  then have none1: "readFact h fs1 ?kr = Inl ENOENT"
    by (simp add: fs1_def readFact_def writeImmutable_def Let_def jsm.lookup_store split: option.splits)
  then have rr1: "readResult h fs1 (di_intentId intent) = Inr None" using ex by (simp add: readResult_def)
  obtain r where r: "resultReceipt h intent v (jh_isoAt h now) = Inr r" using receipt_made[OF assms(2) json_own[OF assms(5)]] by blast
  note rb = receipt_read_back[OF assms(1) r assms(5)]
  have out: "rr_output r = canonicalValue v"
    using r by (auto simp: resultReceipt_def sealReceipt_def bind_result_eq_Inr canonicalOwnDataClone_def split: if_splits)
  define fs2 where "fs2 = snd (writeImmutable h fs1 ?kr (canonicalBytes h (receiptValue r)))"
  have wr: "writeImmutable h fs1 ?kr (canonicalBytes h (receiptValue r)) = (Inr (), fs2)"
    using files.put_new[OF none1] by (simp add: fs2_def prod_eq_iff)
  then have rf: "readFact h fs2 ?kr = Inr (canonicalBytes h (receiptValue r))" using files.put_look[of h fs1 ?kr] by (metis fst_conv snd_conv)
  have ri2: "readFact h fs2 ?ki = Inr ?bi" using files.put_keeps[OF ri] by (simp add: fs2_def)
  have wi2: "writeImmutable h fs2 ?ki ?bi = (Inr (), fs2)"
    using ri2 by (simp add: writeImmutable_def Let_def readFact_def split: option.splits)
  have rr2: "readResult h fs2 (di_intentId intent) = Inr (Some r)" using ex rf rb by (simp add: readResult_def)
  note steps = freshWorld_def replaySchedule_def plainOracle_def pumpApply_def pidAlive_def advance_def Let_def acquireStep_def
    lockWriteStep_def releaseStep_def unlinkStep_def lockKey_def resultKey_def goto_def jmap_set_def kv_delete_def eval_nat_numeral
    wi ri parse rr1 r wr rf rb(1) wi2 ri2 rr2
  have "let w = foldl (\<lambda>w e. pumpApply h lockTimeoutMs e w) (freshWorld intent fs now) (replaySchedule v v') in
      jw_workers w = [\<lparr>wk_intent = intent, wk_pid = 1, wk_token = ''a'', wk_point = Settled (Inr (r, False))\<rparr>,
        \<lparr>wk_intent = intent, wk_pid = 1, wk_token = [], wk_point = Settled (Inr (r, True))\<rparr>]
      \<and> jw_effects w = [(di_intentId intent, di_invocationRef intent)] \<and> jw_locks w = []"
    by (simp add: steps)
  moreover have "allowedRun h lockTimeoutMs kind (freshWorld intent fs now) (replaySchedule v v')"
    using kind by (simp add: steps freshEvent_def)
  ultimately show ?thesis using out by (auto simp: Let_def)
qed

text \<open>C29: a dispatch on an intent without a result comes to its end, in twelve steps, with the receipt of what its effect gave;
  a second one comes to its end in three with the same receipt as a replay, whatever its own effect would have given. One effect is
  run and no lock is left.\<close>

theorem dispatch_then_replay:
  assumes "jsonText (jh_text h)" and "goodClock h" and "createHolonTaskPumpDispatchIntent h given = Inr intent" and "json_plain (js_prop given ''input'')"
    and "json_plain v" and "readFact h fs (IntentsFacts, di_intentId intent) = Inl ENOENT" and "readResult h fs (di_intentId intent) = Inr None"
  shows "\<exists>r. let w = foldl (\<lambda>w e. pumpApply h lockTimeoutMs e w) (freshWorld intent fs now) (replaySchedule v v') in
      map wk_point (jw_workers w) = [Settled (Inr (r, False)), Settled (Inr (r, True))]
      \<and> rr_output r = canonicalValue v \<and> jw_effects w = [(di_intentId intent, di_invocationRef intent)] \<and> jw_locks w = []"
proof -
  from replay_run[OF assms, of "\<lambda>e. True" v' lockTimeoutMs now] obtain r where
    "let w = foldl (\<lambda>w e. pumpApply h lockTimeoutMs e w) (freshWorld intent fs now) (replaySchedule v v') in
      jw_workers w = [\<lparr>wk_intent = intent, wk_pid = 1, wk_token = ''a'', wk_point = Settled (Inr (r, False))\<rparr>,
        \<lparr>wk_intent = intent, wk_pid = 1, wk_token = [], wk_point = Settled (Inr (r, True))\<rparr>]
      \<and> rr_output r = canonicalValue v \<and> jw_effects w = [(di_intentId intent, di_invocationRef intent)] \<and> jw_locks w = []"
    by (auto simp: Let_def)
  then show ?thesis by (auto simp: Let_def)
qed

end
