(* ===== verification/JournalSubscriptions.thy ===== *)
theory JournalSubscriptions
  imports JournalProps
begin

text \<open>
  Subscriptions: each part of one is a fixed point of its own parser, so its bytes are read back, and the first observation of a
  subscription is the one that stays.
\<close>

definition originOk :: "JournalHost \<Rightarrow> HolonTaskRuntimeOrigin \<Rightarrow> bool" where
  "originOk h g = (case g of
      ProductOrigin s r \<Rightarrow> exactString h ''product'' \<and> exactString h s \<and> exactString h r
    | WorkflowOrigin k w r n i \<Rightarrow> exactString h ''workflow'' \<and> exactString h k \<and> k \<in> set [''AICtrlWorkflow'', ''AIDataWorkflow'']
        \<and> resourceRef h (JStr w) = Inr w \<and> exactString h r \<and> exactString h n \<and> exactString h i
    | ServiceOrigin s r \<Rightarrow> exactString h ''service'' \<and> resourceRef h (JStr s) = Inr s \<and> exactString h r)"

lemma origin_ok:
  assumes "normalizeHolonTaskRuntimeOrigin h v = Inr g"
  shows "originOk h g"
proof -
  obtain ps where v: "v = JObj ps" using assms by (cases v) (simp_all add: normalizeHolonTaskRuntimeOrigin_def)
  obtain kind where k: "exactText h CONTRACT (js_prop (JObj ps) ''kind'') = Inr kind"
    using assms by (cases "exactText h CONTRACT (js_prop (JObj ps) ''kind'')") (simp_all add: normalizeHolonTaskRuntimeOrigin_def v Let_def)
  then have e: "exactString h kind" by simp
  note a = assms[unfolded normalizeHolonTaskRuntimeOrigin_def v jsv.case Let_def k bind_result.simps]
  consider "kind = ''product''" | "kind = ''workflow''" | "kind = ''service''"
    using a by (cases "kind = ''product''"; cases "kind = ''workflow''"; cases "kind = ''service''") simp_all
  then show ?thesis
  proof cases
    case 1
    then obtain s r where "g = ProductOrigin s r" "exactString h s" "exactString h r"
      using a by (auto simp: bind_result_eq_Inr simp del: js_prop.simps split: if_splits)
    then show ?thesis using 1 e by (simp add: originOk_def)
  next
    case 2
    then obtain k w r n i where "g = WorkflowOrigin k w r n i" "exactString h k" "k \<in> set [''AICtrlWorkflow'', ''AIDataWorkflow'']"
        "resourceRef h (js_prop (JObj ps) ''workflowRef'') = Inr w" "exactString h r" "exactString h n" "exactString h i"
      using a by (auto simp: bind_result_eq_Inr simp del: js_prop.simps split: if_splits)
    moreover have "resourceRef h (JStr w) = Inr w" using resource_fix[OF calculation(4)] by (rule conjunct2)
    ultimately show ?thesis using 2 e by (simp add: originOk_def)
  next
    case 3
    then obtain s r where "g = ServiceOrigin s r" "resourceRef h (js_prop (JObj ps) ''serviceRef'') = Inr s" "exactString h r"
      using a by (auto simp: bind_result_eq_Inr simp del: js_prop.simps split: if_splits)
    moreover have "resourceRef h (JStr s) = Inr s" using resource_fix[OF calculation(2)] by (rule conjunct2)
    ultimately show ?thesis using 3 e by (simp add: originOk_def)
  qed
qed

lemma origin_fix:
  assumes "normalizeHolonTaskRuntimeOrigin h v = Inr g"
  shows "normalizeHolonTaskRuntimeOrigin h (originValue g) = Inr g" "json_plain (originValue g)"
  using origin_ok[OF assms]
  by (cases g; simp add: normalizeHolonTaskRuntimeOrigin_def originValue_def Let_def exactKeys_def originOk_def)+

lemma scope_fix: "recoveryScope h v = Inr s \<Longrightarrow> recoveryScope h (scopeValue s) = Inr s" "json_plain (scopeValue s)"
proof -
  show "json_plain (scopeValue s)" by (cases s) (simp_all add: scopeValue_def)
  assume a: "recoveryScope h v = Inr s"
  show "recoveryScope h (scopeValue s) = Inr s"
  proof (cases "js_prop v ''kind'' = JStr ''standalone''")
    case True
    then show ?thesis using a by (auto simp: recoveryScope_def scopeValue_def Let_def bind_result_eq_Inr)
  next
    case False
    then have "js_prop v ''kind'' = JStr ''workflow''" using a by (simp add: recoveryScope_def Let_def split: if_splits)
    then show ?thesis using a by (auto simp: recoveryScope_def scopeValue_def Let_def bind_result_eq_Inr)
  qed
qed

lemma config_fix: "processorConfig v = Inr c \<Longrightarrow> processorConfig (configValue c) = Inr c" "json_plain (configValue c)"
proof -
  show "json_plain (configValue c)" by (simp add: configValue_def)
  assume "processorConfig v = Inr c"
  then obtain l m where "safePositive (js_prop v ''leaseDurationMs'') = Some l" "safePositive (js_prop v ''maxSteps'') = Some m"
      "c = \<lparr>pc_leaseDurationMs = l, pc_maxSteps = m\<rparr>"
    by (auto simp: processorConfig_def split: option.splits)
  then show "processorConfig (configValue c) = Inr c" using safe_int by (simp add: processorConfig_def configValue_def)
qed

lemma subscription_fixed:
  assumes "subscription h v = Inr s" "json_plain (js_prop v ''input'')"
  shows "subscription h (subscriptionValue s) = Inr s" "json_plain (subscriptionValue s)" "\<not> ts_projected s"
proof -
  have v: "v \<noteq> JNull \<and> v \<noteq> JUndef" using assms(1) by (auto simp: subscription_def Let_def)
  have f: "bindingRefOf h (js_prop v ''bindingRef'') = Inr (ts_bindingRef s)" "canonicalOwnDataClone (js_prop v ''input'') = Inr (ts_input s)"
    "recoveryScope h (js_prop v ''recoveryScope'') = Inr (ts_recoveryScope s)" "exactString h (ts_admissionId s)"
    "exactString h (ts_deploymentId s)" "exactString h (ts_snapshotReceiptId s)" "exactString h (ts_taskSpaceId s)" "exactString h (ts_taskId s)"
    "canonicalOwnDataDigest h (subscriptionIdentity (ts_admissionId s) (ts_deploymentId s) (ts_snapshotReceiptId s) (ts_taskSpaceId s)
       (ts_taskId s) (ts_recoveryScope s)) = Inr (ts_subscriptionId s)" "exactString h (ts_holonRef s)"
    "normalizeHolonTaskRuntimeOrigin h (js_prop v ''origin'') = Inr (ts_origin s)"
    "processorConfig (js_prop v ''processorConfig'') = Inr (ts_processorConfig s)" "canonicalOwnDataDigest h (ts_input s) = Inr (ts_inputDigest s)"
    "exactTimestamp h (js_prop v ''createdAt'') = Inr (ts_createdAt s)" "\<not> ts_projected s"
    using assms(1) v by (auto simp: subscription_def Let_def bind_result_eq_Inr)
  have c: "json_plain (ts_input s)" "canonicalOwnDataClone (ts_input s) = Inr (ts_input s)" using clone_fix[OF assms(2) f(2)] by simp_all
  have b: "bindingRefOf h (JStr (ts_bindingRef s)) = Inr (ts_bindingRef s)" using binding_fix[OF f(1)] by (rule conjunct2)
  have t: "exactTimestamp h (JStr (ts_createdAt s)) = Inr (ts_createdAt s)" using timestamp_fix[OF f(14)] by (rule conjunct2)
  have p: "js_prop (subscriptionValue s) ''bindingRef'' = JStr (ts_bindingRef s)" "js_prop (subscriptionValue s) ''input'' = ts_input s"
    "js_prop (subscriptionValue s) ''recoveryScope'' = scopeValue (ts_recoveryScope s)" "js_prop (subscriptionValue s) ''admissionId'' = JStr (ts_admissionId s)"
    "js_prop (subscriptionValue s) ''deploymentId'' = JStr (ts_deploymentId s)" "js_prop (subscriptionValue s) ''snapshotReceiptId'' = JStr (ts_snapshotReceiptId s)"
    "js_prop (subscriptionValue s) ''taskSpaceId'' = JStr (ts_taskSpaceId s)" "js_prop (subscriptionValue s) ''taskId'' = JStr (ts_taskId s)"
    "js_prop (subscriptionValue s) ''holonRef'' = JStr (ts_holonRef s)" "js_prop (subscriptionValue s) ''origin'' = originValue (ts_origin s)"
    "js_prop (subscriptionValue s) ''processorConfig'' = configValue (ts_processorConfig s)"
    "js_prop (subscriptionValue s) ''createdAt'' = JStr (ts_createdAt s)" "subscriptionValue s \<noteq> JNull" "subscriptionValue s \<noteq> JUndef"
    using f(15) by (simp_all add: subscriptionValue_def Let_def)
  show "subscription h (subscriptionValue s) = Inr s"
    by (simp add: subscription_def Let_def p b c t f scope_fix(1)[OF f(3)] origin_fix(1)[OF f(11)] config_fix(1)[OF f(12)])
  show "json_plain (subscriptionValue s)"
    using f(15) c(1) scope_fix(2) config_fix(2) origin_fix(2)[OF f(11)] by (simp add: subscriptionValue_def Let_def)
  show "\<not> ts_projected s" by (rule f(15))
qed

lemma subscription_read_back:
  assumes "jsonText (jh_text h)" "subscription h v = Inr s" "json_plain (js_prop v ''input'')"
  shows "parseSubscription h (canonicalBytes h (subscriptionValue s)) = Inr s"
proof -
  note f = subscription_fixed[OF assms(2,3)]
  have "js_prop (subscriptionValue s) ''schemaVersion'' = JStr SUBSCRIPTION_VERSION" "js_prop (subscriptionValue s) ''subscriptionId'' = JStr (ts_subscriptionId s)"
    "js_prop (subscriptionValue s) ''inputDigest'' = JStr (ts_inputDigest s)" "subscriptionValue s \<noteq> JNull" "subscriptionValue s \<noteq> JUndef"
    using f(3) by (simp_all add: subscriptionValue_def Let_def)
  moreover have "SUBSCRIPTION_VERSION \<noteq> JOURNAL_VERSION" by (simp add: SUBSCRIPTION_VERSION_def JOURNAL_VERSION_def)
  ultimately show ?thesis using f(1) by (simp add: parseSubscription_def bytes_back[OF assms(1) f(2)] propOf_def)
qed

lemma value_inject:
  assumes "\<not> ts_projected s" "\<not> ts_projected t" "subscriptionValue s = subscriptionValue t"
  shows "s = t"
proof -
  have "scopeValue a = scopeValue b \<Longrightarrow> a = b" for a b by (cases a; cases b) (simp_all add: scopeValue_def)
  moreover have "originValue a = originValue b \<Longrightarrow> a = b" for a b by (cases a; cases b) (simp_all add: originValue_def)
  moreover have "configValue a = configValue b \<Longrightarrow> a = b" for a b by (simp add: configValue_def jsInt_def)
  ultimately show ?thesis using assms by (simp add: subscriptionValue_def Let_def)
qed

lemma bytes_inject:
  assumes "jsonText (jh_text h)" "json_plain v" "json_plain w" "canonicalBytes h v = canonicalBytes h w"
  shows "v = w"
proof -
  have "parseJson h (canonicalBytes h v) = parseJson h (canonicalBytes h w)" using assms(4) by simp
  then show ?thesis by (simp add: bytes_back assms(1-3))
qed

text \<open>C30: a subscription is stored once and its first observation stays: it is read back as it was given, a later observation that
  differs in its time alone is answered with the first one, and any other difference under the same identity is a conflict. In
  neither case does a stored fact change.\<close>

theorem subscription_first_observation:
  assumes "jsonText (jh_text h)" and "subscription h v = Inr s" and "json_plain (js_prop v ''input'')"
    and "readFact h fs (SubscriptionsFacts, ts_subscriptionId s) = Inl ENOENT"
    and "subscription h v' = Inr s'" and "json_plain (js_prop v' ''input'')" and "ts_subscriptionId s' = ts_subscriptionId s"
  shows "fst (subscribe h fs v) = Inr s
    \<and> subscribe h (snd (subscribe h fs v)) v'
      = (if s' = s\<lparr>ts_createdAt := ts_createdAt s'\<rparr> then Inr s else Inl CONFLICT, snd (subscribe h fs v))"
proof -
  let ?k = "(SubscriptionsFacts, ts_subscriptionId s)" and ?b = "canonicalBytes h (subscriptionValue s)" and ?b' = "canonicalBytes h (subscriptionValue s')"
  define fs1 where "fs1 = snd (writeImmutable h fs ?k ?b)"
  note f = subscription_fixed[OF assms(2,3)] and f' = subscription_fixed[OF assms(5,6)] and rb = subscription_read_back[OF assms(1-3)]
  have w: "writeImmutable h fs ?k ?b = (Inr (), fs1)" using files.put_new[OF assms(4)] by (simp add: fs1_def prod_eq_iff)
  then have r: "readFact h fs1 ?k = Inr ?b" using files.put_look[of h fs ?k ?b] by simp
  have one: "subscribe h fs v = (Inr s, fs1)" by (simp add: subscribe_def assms(2) Let_def w r rb)
  have again: "writeImmutable h fs1 ?k b = (if b = ?b then Inr () else Inl CONFLICT, fs1)" for b
    using files.put_again[OF r, of b] r
    by (simp add: writeImmutable_def Let_def readFact_def split: option.splits)
  have same: "?b' = canonicalBytes h (subscriptionValue (s\<lparr>ts_createdAt := ts_createdAt s'\<rparr>)) \<longleftrightarrow> s' = s\<lparr>ts_createdAt := ts_createdAt s'\<rparr>"
  proof
    let ?t = "s\<lparr>ts_createdAt := ts_createdAt s'\<rparr>"
    assume e: "?b' = canonicalBytes h (subscriptionValue ?t)"
    have "json_plain (subscriptionValue ?t)" using f(2,3) by (simp add: subscriptionValue_def Let_def)
    then show "s' = ?t" using bytes_inject[OF assms(1) f'(2) _ e] f(3) f'(3) by (intro value_inject) simp_all
  qed simp
  have retained: "canonicalBytes h (subscriptionValue s) = canonicalBytes h (subscriptionValue (s'\<lparr>ts_createdAt := ts_createdAt s\<rparr>))
      \<longleftrightarrow> s' = s\<lparr>ts_createdAt := ts_createdAt s'\<rparr>"
  proof
    let ?t = "s'\<lparr>ts_createdAt := ts_createdAt s\<rparr>"
    assume e: "canonicalBytes h (subscriptionValue s) = canonicalBytes h (subscriptionValue ?t)"
    have "json_plain (subscriptionValue ?t)" using f'(2,3) by (simp add: subscriptionValue_def Let_def)
    then have "s = ?t" using bytes_inject[OF assms(1) f(2) _ e] f(3) f'(3) by (intro value_inject) simp_all
    then show "s' = s\<lparr>ts_createdAt := ts_createdAt s'\<rparr>" by (cases s; cases s') simp
  next
    assume "s' = s\<lparr>ts_createdAt := ts_createdAt s'\<rparr>"
    then have "s'\<lparr>ts_createdAt := ts_createdAt s\<rparr> = s" by (cases s; cases s') simp
    then show "canonicalBytes h (subscriptionValue s) = canonicalBytes h (subscriptionValue (s'\<lparr>ts_createdAt := ts_createdAt s\<rparr>))" by simp
  qed
  have two: "subscribe h fs1 v' = (if s' = s\<lparr>ts_createdAt := ts_createdAt s'\<rparr> then Inr s else Inl CONFLICT, fs1)"
  proof (cases "?b' = ?b")
    case True
    then have "s' = s" using bytes_inject[OF assms(1) f'(2) f(2)] f(3) f'(3) by (intro value_inject) simp_all
    then show ?thesis by (simp add: subscribe_def assms(5) Let_def again r rb)
  next
    case False
    then show ?thesis
      by (simp add: subscribe_def assms(5,7) Let_def again r rb retainFirstSubscriptionObservation_def retained)
  qed
  show ?thesis by (simp add: one two)
qed

end
