(* ===== verification/JournalWitnesses.thy ===== *)
theory JournalWitnesses
  imports JournalClaims JournalSubscriptions
begin

text \<open>The claims on the journal at one intent and one subscription, with a host whose JSON text numbers values.\<close>

definition demoTime :: string where "demoTime = ''2026-01-01T00:00:00.000Z''"

definition demoHost :: JournalHost where
  "demoHost = \<lparr>jh_text = numberedHost, jh_sha = (\<lambda>s. ''d''), jh_nfc = id, jh_isoOf = Some, jh_isoAt = (\<lambda>t. demoTime)\<rparr>"

lemma demo_host [simp]: "jsonText (jh_text demoHost)" "jh_isoAt demoHost t = demoTime"
  by (simp_all add: demoHost_def numbered_json)

lemma demo_exact: "exactString demoHost s \<longleftrightarrow> s \<noteq> [] \<and> s = js_trim s \<and> controlFree s"
  by (simp add: exactString_def demoHost_def)

lemma demo_texts [simp]: "exactString demoHost ''x''" "exactString demoHost ''y''" "exactString demoHost ''sha256:d''"
  "exactString demoHost ''product''" "exactString demoHost ''resource://b''" "exactString demoHost demoTime"
  unfolding demo_exact demoTime_def by code_simp+

lemma demo_time [simp]: "exactTimestamp demoHost (JStr demoTime) = Inr demoTime"
proof -
  have "isoShape demoTime" unfolding demoTime_def by code_simp
  then show ?thesis by (simp add: exactTimestamp_def) (simp add: demoHost_def)
qed

lemma demo_clock: "goodClock demoHost"
  by (simp add: goodClock_def)

lemma demo_digest [simp]: "ownData v \<Longrightarrow> canonicalOwnDataDigest demoHost v = Inr ''sha256:d''"
  by (simp add: canonicalOwnDataDigest_def canonicalOwnDataClone_def) (simp add: demoHost_def)

lemma demo_one [simp]: "safePositive (jsInt 1) = Some 1"
  by (simp add: safePositive_def jsInt_def is_safe_integer_def max_safe_integer_def)

definition demoIntent :: HolonTaskPumpDispatchIntent where
  "demoIntent = \<lparr>di_intentId = ''sha256:d'', di_deploymentId = ''x'', di_taskSpaceId = ''x'', di_taskId = ''x'', di_claimId = ''x'',
     di_attempt = 1, di_leaseEpoch = 1, di_invocationRef = ''y'', di_input = JNull, di_inputDigest = ''sha256:d'', di_preparedAt = demoTime\<rparr>"

lemma demo_intent: "createHolonTaskPumpDispatchIntent demoHost (intentValue demoIntent) = Inr demoIntent"
  by (simp add: createHolonTaskPumpDispatchIntent_def intentValue_def demoIntent_def Let_def canonicalOwnDataClone_def
      del: exact_text) (simp add: jsInt_def)

lemma demo_key [simp]: "di_intentId demoIntent = ''sha256:d''" "di_invocationRef demoIntent = ''y''"
  by (simp_all add: demoIntent_def)

lemma demo_absent [simp]: "readFact demoHost [] k = Inl ENOENT" "readResult demoHost [] ''sha256:d'' = Inr None"
  by (simp_all add: readResult_def readFact_def)

theorem dispatch_then_replay_witness:
  "\<exists>r. let w = foldl (\<lambda>w e. pumpApply demoHost 5000 e w) (freshWorld demoIntent [] 7) (replaySchedule (JBool True) JUndef) in
      map wk_point (jw_workers w) = [Settled (Inr (r, False)), Settled (Inr (r, True))]
      \<and> rr_output r = JBool True \<and> jw_effects w = [(''sha256:d'', ''y'')] \<and> jw_locks w = []"
  using dispatch_then_replay[OF demo_host(1) demo_clock demo_intent, of "JBool True" "[]" 5000 7 JUndef]
  by (simp add: intentValue_def) (simp add: demoIntent_def)

theorem stale_lock_two_effects_witness:
  "\<exists>w. pumpReach demoHost 5000 calmEvent (staleWorld demoHost demoIntent [] 20000 1000 25000 4) w
    \<and> jw_effects w = [(''sha256:d'', ''y''), (''sha256:d'', ''y'')]"
  using stale_lock_two_effects[of 5000 20000 1000 demoHost "[]" demoIntent JNull 25000 4] by simp

text \<open>The world in which the first dispatcher has returned and the second one its replay.\<close>

definition demoEnd :: JournalWorld where
  "demoEnd = foldl (\<lambda>w e. pumpApply demoHost 5000 e w) (freshWorld demoIntent [] 7) (replaySchedule (JBool True) JNull)"

lemma demo_end:
  "\<exists>r. jw_workers demoEnd = [\<lparr>wk_intent = demoIntent, wk_pid = 1, wk_token = ''a'', wk_point = Settled (Inr (r, False))\<rparr>,
      \<lparr>wk_intent = demoIntent, wk_pid = 1, wk_token = [], wk_point = Settled (Inr (r, True))\<rparr>]
    \<and> jw_effects demoEnd = [(''sha256:d'', ''y'')] \<and> pumpReach demoHost 5000 calmEvent (freshWorld demoIntent [] 7) demoEnd"
proof -
  have plain: "json_plain (js_prop (intentValue demoIntent) ''input'')" by (simp add: intentValue_def) (simp add: demoIntent_def)
  have calm: "calmEvent (Work i (plainOracle t v))" if "ownData v" for i t v using that by (simp add: calmEvent_def calmOracle_def plainOracle_def)
  from replay_run[OF demo_host(1) demo_clock demo_intent plain, of "JBool True" "[]" calmEvent JNull 5000 7] obtain r where
    r: "let w = demoEnd in jw_workers w = [\<lparr>wk_intent = demoIntent, wk_pid = 1, wk_token = ''a'', wk_point = Settled (Inr (r, False))\<rparr>,
        \<lparr>wk_intent = demoIntent, wk_pid = 1, wk_token = [], wk_point = Settled (Inr (r, True))\<rparr>]
      \<and> jw_effects w = [(''sha256:d'', ''y'')]"
    "allowedRun demoHost 5000 calmEvent (freshWorld demoIntent [] 7) (replaySchedule (JBool True) JNull)"
    by (auto simp: calm Let_def demoEnd_def[symmetric])
  then show ?thesis using run_reaches[OF reach_start r(2)] by (auto simp: Let_def demoEnd_def[symmetric])
qed

lemma demo_start: "jw_locks (freshWorld i fs n) = []" "jw_effects (freshWorld i fs n) = []"
  "\<forall>wk \<in> set (jw_workers (freshWorld i fs n)). wk_point wk = AtWriteIntent"
  by (simp_all add: freshWorld_def)

theorem effect_at_most_once_witness:
  "length (filter (\<lambda>e. fst e = ''sha256:d'') (jw_effects demoEnd)) \<le> 1 \<and> jw_effects demoEnd = [(''sha256:d'', ''y'')]"
proof
  obtain r where d: "jw_effects demoEnd = [(''sha256:d'', ''y'')]" "pumpReach demoHost 5000 calmEvent (freshWorld demoIntent [] 7) demoEnd"
    using demo_end by blast
  show "length (filter (\<lambda>e. fst e = ''sha256:d'') (jw_effects demoEnd)) \<le> 1"
    by (rule effect_at_most_once[OF demo_clock d(2) demo_start])
  show "jw_effects demoEnd = [(''sha256:d'', ''y'')]" by (rule d(1))
qed

theorem receipts_agree_witness:
  "\<exists>r. map wk_point (jw_workers demoEnd) = [Settled (Inr (r, False)), Settled (Inr (r, True))]
    \<and> storedReceipt demoHost (jw_files demoEnd) ''sha256:d'' r"
proof -
  obtain r where d: "jw_workers demoEnd = [\<lparr>wk_intent = demoIntent, wk_pid = 1, wk_token = ''a'', wk_point = Settled (Inr (r, False))\<rparr>,
      \<lparr>wk_intent = demoIntent, wk_pid = 1, wk_token = [], wk_point = Settled (Inr (r, True))\<rparr>]"
    "pumpReach demoHost 5000 calmEvent (freshWorld demoIntent [] 7) demoEnd"
    using demo_end by blast
  have "r = r \<and> storedReceipt demoHost (jw_files demoEnd) (di_intentId (wk_intent (jw_workers demoEnd ! 0))) r"
    by (rule receipts_agree[OF d(2) demo_start(3), where b = "jw_workers demoEnd ! 1" and replayed = False and replayed' = True]) (simp_all add: d(1))
  then show ?thesis by (simp add: d(1))
qed

section \<open>A subscription\<close>

definition demoSubscription :: "string \<Rightarrow> HolonTaskPumpSubscription" where
  "demoSubscription space = \<lparr>ts_subscriptionId = ''sha256:d'', ts_admissionId = ''x'', ts_deploymentId = ''x'', ts_bindingRef = ''resource://b'',
     ts_holonRef = ''x'', ts_snapshotReceiptId = ''x'', ts_taskSpaceId = space, ts_taskId = ''x'', ts_origin = ProductOrigin ''x'' ''y'',
     ts_recoveryScope = StandaloneScope ''x'', ts_processorConfig = \<lparr>pc_leaseDurationMs = 1, pc_maxSteps = 1\<rparr>, ts_input = JNull,
     ts_inputDigest = ''sha256:d'', ts_createdAt = demoTime, ts_projected = False\<rparr>"

lemma demo_subscription:
  "exactString demoHost space \<Longrightarrow> subscription demoHost (subscriptionValue (demoSubscription space)) = Inr (demoSubscription space)"
proof -
  assume "exactString demoHost space"
  moreover have "bindingRefOf demoHost (JStr ''resource://b'') = Inr ''resource://b''" by (simp add: bindingRefOf_def starts_with_def)
  moreover have "ownData (subscriptionIdentity a b c d e (StandaloneScope f))" for a b c d e f
    by (simp add: subscriptionIdentity_def scopeValue_def)
  ultimately show ?thesis
    by (simp add: subscription_def subscriptionValue_def demoSubscription_def Let_def scopeValue_def originValue_def configValue_def
        recoveryScope_def processorConfig_def normalizeHolonTaskRuntimeOrigin_def exactKeys_def canonicalOwnDataClone_def)
qed

theorem subscription_first_observation_witness:
  "fst (subscribe demoHost [] (subscriptionValue (demoSubscription ''x''))) = Inr (demoSubscription ''x'')
    \<and> fst (subscribe demoHost (snd (subscribe demoHost [] (subscriptionValue (demoSubscription ''x'')))) (subscriptionValue (demoSubscription ''y'')))
      = Inl CONFLICT"
proof -
  have plain: "json_plain (js_prop (subscriptionValue (demoSubscription space)) ''input'')" for space
    by (simp add: subscriptionValue_def Let_def) (simp add: demoSubscription_def)
  have k: "ts_subscriptionId (demoSubscription space) = ''sha256:d''" for space by (simp add: demoSubscription_def)
  have ne: "demoSubscription ''y'' \<noteq> (demoSubscription ''x'')\<lparr>ts_createdAt := c\<rparr>" for c by (simp add: demoSubscription_def)
  show ?thesis
    using subscription_first_observation[OF demo_host(1) demo_subscription[OF demo_texts(1)] plain _ demo_subscription[OF demo_texts(2)] plain, of "[]"] k ne
    by simp
qed

end
