(* ===== verification/EditText.thy ===== *)
theory EditText
  imports ShellModel
begin

text \<open>
  Text editing of the file tools: replacements, line diffs and unified diffs of
  \<open>ai-organ-logic/src/composer/AIAgent/tools/_file-editing.ts\<close>.

  \<open>EditHost\<close> is the host: \<open>JSON.stringify\<close>, the ellipsis (a character outside the modelled code units) and the variable
  \<open>HOME\<close> of the process.
\<close>

record EditHost =
  eh_json :: "jsv \<Rightarrow> string"
  eh_ellipsis :: string
  eh_HOME :: "string option"

section \<open>Strings\<close>

text \<open>The first occurrence of a string: what is before and after it.\<close>

fun find_sub :: "string \<Rightarrow> string \<Rightarrow> (string \<times> string) option" where
  "find_sub sub [] = (if sub = [] then Some ([], []) else None)"
| "find_sub sub (c # s) = (if starts_with sub (c # s) then Some ([], drop (length sub) (c # s))
     else map_option (\<lambda>(a, r). (c # a, r)) (find_sub sub s))"

lemma find_sub_Some: "find_sub sub s = Some (a, r) \<Longrightarrow> s = a @ sub @ r"
  by (induction sub s arbitrary: a rule: find_sub.induct) (auto split: if_splits elim: starts_withE)

text \<open>\<open>split\<close> with a string.\<close>

function js_split :: "string \<Rightarrow> string \<Rightarrow> string list" where
  "js_split sub s = (if sub = [] then map (\<lambda>c. [c]) s
     else case find_sub sub s of None \<Rightarrow> [s] | Some (a, r) \<Rightarrow> a # js_split sub r)"
  by pat_completeness auto
termination
  by (relation "measure (\<lambda>(sub, s). length s)") (auto dest: find_sub_Some)

declare js_split.simps [simp del]

text \<open>\<open>replace\<close> with a string: the first occurrence, and a replacement in which a dollar sign may have a meaning.\<close>

fun expandReplacement :: "string \<Rightarrow> string \<Rightarrow> string \<Rightarrow> string \<Rightarrow> string" where
  "expandReplacement pre matched after [] = []"
| "expandReplacement pre matched after [c] = [c]"
| "expandReplacement pre matched after (c # d # s) =
     (if c \<noteq> CHR ''$'' then c # expandReplacement pre matched after (d # s)
      else if d = CHR ''$'' then CHR ''$'' # expandReplacement pre matched after s
      else if d = CHR ''&'' then matched @ expandReplacement pre matched after s
      else if d = backquote then pre @ expandReplacement pre matched after s
      else if d = squote then after @ expandReplacement pre matched after s
      else c # expandReplacement pre matched after (d # s))"

definition js_replaceFirst :: "string \<Rightarrow> string \<Rightarrow> string \<Rightarrow> string" where
  "js_replaceFirst s sub new = (case find_sub sub s of
      None \<Rightarrow> s
    | Some (a, r) \<Rightarrow> a @ expandReplacement a sub r new @ r)"

text \<open>\<open>replace(/\r\n/g, "\n")\<close> and \<open>replace(/\n/g, "\r\n")\<close>.\<close>

fun crlfToLf :: "string \<Rightarrow> string" where
  "crlfToLf [] = []"
| "crlfToLf [c] = [c]"
| "crlfToLf (c # d # s) = (if c = carriage \<and> d = newline then newline # crlfToLf s else c # crlfToLf (d # s))"

definition lfToCrlf :: "string \<Rightarrow> string" where
  "lfToCrlf s = concat (map (\<lambda>c. if c = newline then [carriage, newline] else [c]) s)"

fun collapseWhite :: "bool \<Rightarrow> string \<Rightarrow> string" where
  "collapseWhite inside [] = []"
| "collapseWhite inside (c # s) =
     (if js_space c then (if inside then collapseWhite True s else CHR '' '' # collapseWhite True s) else c # collapseWhite False s)"

definition summarizeLine :: "EditHost \<Rightarrow> string \<Rightarrow> string" where
  "summarizeLine eh text = (let compact = js_trim (collapseWhite False text) in
     if compact = [] then [] else if length compact \<le> 80 then compact else take 79 compact @ eh_ellipsis eh)"

definition trimDiff :: "string \<Rightarrow> string" where
  "trimDiff s = rev (dropWhile (\<lambda>c. c = newline) (rev (dropWhile (\<lambda>c. c = newline) s)))"

section \<open>Line diffs\<close>

datatype DiffKind = DiffContext | DiffAdd | DiffRemove

datatype DiffOp = DiffOp (do_type: DiffKind) (do_line: string)

definition splitDiffLines :: "string \<Rightarrow> string list" where
  "splitDiffLines text = (if text = [] then [] else split_on newline text)"

text \<open>The table of the diff, filled from its last row and column; a row is computed from the row below it.\<close>

fun dpRow :: "string \<Rightarrow> string list \<Rightarrow> nat list \<Rightarrow> nat list" where
  "dpRow b [] below = [0]"
| "dpRow b (a # as) below =
     (let row = dpRow b as (tl below) in (if b = a then below ! 1 + 1 else max (hd below) (hd row)) # row)"

fun dpTable :: "string list \<Rightarrow> string list \<Rightarrow> nat list list" where
  "dpTable [] after = [replicate (length after + 1) 0]"
| "dpTable (b # bs) after = (let rows = dpTable bs after in dpRow b after (hd rows) # rows)"

function lineWalk :: "nat list list \<Rightarrow> string list \<Rightarrow> string list \<Rightarrow> nat \<Rightarrow> nat \<Rightarrow> DiffOp list" where
  "lineWalk dp pre after i j =
     (if i < length pre \<and> j < length after then
        (if pre ! i = after ! j then DiffOp DiffContext (pre ! i) # lineWalk dp pre after (i + 1) (j + 1)
         else if dp ! i ! (j + 1) \<le> dp ! (i + 1) ! j then DiffOp DiffRemove (pre ! i) # lineWalk dp pre after (i + 1) j
         else DiffOp DiffAdd (after ! j) # lineWalk dp pre after i (j + 1))
      else map (DiffOp DiffRemove) (drop i pre) @ map (DiffOp DiffAdd) (drop j after))"
  by pat_completeness auto
termination
  by (relation "measure (\<lambda>(dp, pre, after, i, j). (length pre - i) + (length after - j))") (auto, arith?)

declare lineWalk.simps [simp del]

definition buildLineDiff :: "string list \<Rightarrow> string list \<Rightarrow> DiffOp list" where
  "buildLineDiff pre after = lineWalk (dpTable pre after) pre after 0 0"

section \<open>Unified diffs\<close>

definition formatUnifiedRange :: "nat \<Rightarrow> nat \<Rightarrow> string" where
  "formatUnifiedRange startLine n =
     (if n = 0 then show_nat (startLine - 1) @ '',0''
      else if n = 1 then show_nat startLine
      else show_nat startLine @ '','' @ show_nat n)"

definition prefixCounts :: "DiffKind \<Rightarrow> DiffOp list \<Rightarrow> nat list" where
  "prefixCounts skipped ops = foldl (\<lambda>ps d. ps @ [last ps + (if do_type d = skipped then 0 else 1)]) [0] ops"

record DiffHunk =
  dh_startIndex :: nat
  dh_lines :: "DiffOp list"
  dh_trailingContext :: nat

definition contextWindow :: nat where
  "contextWindow = 3"

definition pushHunk :: "DiffHunk list \<times> DiffHunk option \<Rightarrow> DiffHunk list \<times> DiffHunk option" where
  "pushHunk st = (case snd st of None \<Rightarrow> st | Some h \<Rightarrow> (fst st @ [h], None))"

text \<open>One round of the loop over the operations of a diff. A hunk is rendered when it is pushed; here it is kept.\<close>

definition hunkStep :: "DiffOp list \<Rightarrow> DiffHunk list \<times> DiffHunk option \<Rightarrow> nat \<Rightarrow> DiffHunk list \<times> DiffHunk option" where
  "hunkStep ops st index = (let d = ops ! index in
     if do_type d = DiffContext then
       (case snd st of
          None \<Rightarrow> st
        | Some h \<Rightarrow>
            if dh_trailingContext h < contextWindow
            then (fst st, Some (h\<lparr>dh_lines := dh_lines h @ [d], dh_trailingContext := dh_trailingContext h + 1\<rparr>))
            else pushHunk st)
     else
       let h = (case snd st of
            Some h \<Rightarrow> h
          | None \<Rightarrow> let start = index - contextWindow in
              \<lparr>dh_startIndex = start, dh_lines = drop start (take index ops), dh_trailingContext = 0\<rparr>)
       in (fst st, Some (h\<lparr>dh_lines := dh_lines h @ [d], dh_trailingContext := 0\<rparr>)))"

definition collectHunks :: "DiffOp list \<Rightarrow> DiffHunk list" where
  "collectHunks ops = fst (pushHunk (foldl (hunkStep ops) ([], None) [0..<length ops]))"

definition diffMark :: "DiffKind \<Rightarrow> string" where
  "diffMark k = (case k of DiffContext \<Rightarrow> '' '' | DiffRemove \<Rightarrow> ''-'' | DiffAdd \<Rightarrow> ''+'')"

definition hunkRange :: "DiffKind \<Rightarrow> DiffOp list \<Rightarrow> DiffHunk \<Rightarrow> nat \<times> nat" where
  "hunkRange skipped ops h = (let prefix = prefixCounts skipped ops; start = dh_startIndex h; stop = start + length (dh_lines h) in
     (prefix ! start + 1, prefix ! stop - prefix ! start))"

definition renderHunk :: "DiffOp list \<Rightarrow> DiffHunk \<Rightarrow> string list" where
  "renderHunk ops h =
     (let (bs, bc) = hunkRange DiffAdd ops h; (as, ac) = hunkRange DiffRemove ops h in
      (''@@ -'' @ formatUnifiedRange bs bc @ '' +'' @ formatUnifiedRange as ac @ '' @@'')
        # map (\<lambda>d. diffMark (do_type d) @ do_line d) (dh_lines h))"

definition buildUnifiedDiff :: "string \<Rightarrow> string \<Rightarrow> string \<Rightarrow> string" where
  "buildUnifiedDiff filePath pre after =
     (if pre = after then []
      else let ops = buildLineDiff (splitDiffLines pre) (splitDiffLines after) in
        trimDiff (js_join [newline] ([''--- '' @ filePath, ''+++ '' @ filePath] @ concat (map (renderHunk ops) (collectHunks ops)))))"

record FileSnapshot =
  sn_filePath :: string
  sn_before :: string
  sn_after :: string

definition buildMultiFileUnifiedDiff :: "FileSnapshot list \<Rightarrow> string" where
  "buildMultiFileUnifiedDiff entries =
     trimDiff (js_join [newline, newline] (filter (\<lambda>d. js_trim d \<noteq> [])
       (map (\<lambda>e. buildUnifiedDiff (sn_filePath e) (sn_before e) (sn_after e)) entries)))"

section \<open>String edits\<close>

datatype EditStrategy = ExactStrategy | NormalizedNewlines

record ApplyStringEditSuccess =
  es_next :: string
  es_replacements :: int
  es_strategy :: EditStrategy

record ApplyStringEditFailure =
  ef_message :: string
  ef_detail :: string
  ef_suggestions :: "string list"

definition DEFAULT_EDIT_FAILURE_SUGGESTIONS :: "string list" where
  "DEFAULT_EDIT_FAILURE_SUGGESTIONS =
     [''Read the file again and copy the exact oldString snippet, including whitespace and surrounding punctuation.'',
      ''If the change spans multiple lines or nearby hunks, switch to apply_patch instead of retrying edit.'']"

definition replaceContentExact :: "string \<Rightarrow> string \<Rightarrow> string \<Rightarrow> bool \<Rightarrow> ApplyStringEditSuccess option" where
  "replaceContentExact content oldString newString replaceAll =
     (if \<not> js_includes content oldString then None
      else if replaceAll then Some \<lparr>es_next = js_join newString (js_split oldString content),
        es_replacements = int (length (js_split oldString content)) - 1, es_strategy = ExactStrategy\<rparr>
      else Some \<lparr>es_next = js_replaceFirst content oldString newString, es_replacements = 1, es_strategy = ExactStrategy\<rparr>)"

definition detectDominantNewline :: "string \<Rightarrow> string" where
  "detectDominantNewline content = (if js_includes content [carriage, newline] then [carriage, newline] else [newline])"

definition convertToDominantNewline :: "string \<Rightarrow> string \<Rightarrow> string" where
  "convertToDominantNewline content nl = (if nl = [newline] then content else lfToCrlf content)"

definition buildEditFailureDetail :: "EditHost \<Rightarrow> string \<Rightarrow> string \<Rightarrow> string" where
  "buildEditFailureDetail eh content oldString =
     (let normalizedContent = crlfToLf content; normalizedOld = crlfToLf oldString; trimmed = js_trim normalizedOld;
          lines = filter (\<lambda>l. l \<noteq> []) (map js_trim (split_on newline normalizedOld)) in
      if trimmed \<noteq> [] \<and> trimmed \<noteq> normalizedOld \<and> js_includes normalizedContent trimmed
      then ''A similar snippet exists only after trimming whitespace; copy the exact snippet with its original indentation and newlines''
      else case lines of
        first # _ \<Rightarrow>
          (if js_includes normalizedContent first then
             let preview = summarizeLine eh first in
             if preview \<noteq> [] then ''A similar line exists ('' @ eh_json eh (JStr preview) @ ''), but the full snippet does not match exactly''
             else ''A similar line exists, but the full snippet does not match exactly''
           else ''oldString not found exactly in file content'')
      | [] \<Rightarrow> ''oldString not found exactly in file content'')"

definition applyStringEdit :: "EditHost \<Rightarrow> string \<Rightarrow> string \<Rightarrow> string \<Rightarrow> bool \<Rightarrow> ApplyStringEditFailure + ApplyStringEditSuccess" where
  "applyStringEdit eh content oldString newString replaceAll =
     (case replaceContentExact content oldString newString replaceAll of
        Some r \<Rightarrow> Inr r
      | None \<Rightarrow>
          (case replaceContentExact (crlfToLf content) (crlfToLf oldString) (crlfToLf newString) replaceAll of
             Some r \<Rightarrow> Inr (r\<lparr>es_next := convertToDominantNewline (es_next r) (detectDominantNewline content),
               es_strategy := NormalizedNewlines\<rparr>)
           | None \<Rightarrow> Inl \<lparr>ef_message = ''oldString not found exactly in file content'',
               ef_detail = buildEditFailureDetail eh content oldString, ef_suggestions = DEFAULT_EDIT_FAILURE_SUGGESTIONS\<rparr>))"

text \<open>The payload of a result; a property whose value is undefined is not printed.\<close>

definition encodeFileEditResult :: "EditHost \<Rightarrow> (string \<times> jsv) list \<Rightarrow> string" where
  "encodeFileEditResult eh payload = eh_json eh (JObj payload)"

definition formatEditNotFoundError :: "EditHost \<Rightarrow> string \<Rightarrow> ApplyStringEditFailure \<Rightarrow> nat option \<Rightarrow> string" where
  "formatEditNotFoundError eh filePath failure editIndex =
     (let suffix = (case editIndex of None \<Rightarrow> [] | Some i \<Rightarrow> '' (edit #'' @ show_nat (i + 1) @ '')'');
          detail = (if js_trim (ef_detail failure) \<noteq> [] then ef_detail failure else ef_message failure);
          told = js_trim detail \<noteq> [] in
      encodeFileEditResult eh
        [(''message'', JStr (''Text not found in '' @ filePath @ suffix @ (if told then '': '' @ detail else []))),
         (''filePath'', JStr filePath), (''error'', JStr ''not_found''),
         (''detail'', if told then JStr detail else JUndef),
         (''suggestions'', JArr (map JStr (ef_suggestions failure))),
         (''editIndex'', case editIndex of None \<Rightarrow> JUndef | Some i \<Rightarrow> JNum (Fin (of_nat (i + 1))))])"

end
