(* ===== verification/PatchModel.thy ===== *)
theory PatchModel
  imports EditText PermissionRuntime
begin

text \<open>
  The patch tool: parsing a patch, finding the place of a hunk and applying hunks to a text
  (\<open>ai-organ-logic/src/composer/AIAgent/tools/ApplyPatch/Logic.ts\<close>), and the resolution of a path in a file tool
  (\<open>tools/_shared.ts\<close>). The lines of a patch that are not read yet stand for the index into them.
\<close>

section \<open>Data\<close>

record PatchPath =
  pp_raw :: string
  pp_absolute :: string

datatype PatchLine = ContextLine string | AddLine string | RemoveLine string

datatype MatchMode = Exact | AnchoredExact | Normalized | Fuzzy

definition modeName :: "MatchMode \<Rightarrow> string" where
  "modeName m = (case m of Exact \<Rightarrow> ''exact'' | AnchoredExact \<Rightarrow> ''anchored_exact'' | Normalized \<Rightarrow> ''normalized'' | Fuzzy \<Rightarrow> ''fuzzy'')"

record PatchHunk =
  ph_anchors :: "string list"
  ph_lines :: "PatchLine list"

datatype PatchOp =
    AddOp (op_file: PatchPath) (op_lines: "string list")
  | DeleteOp (op_file: PatchPath)
  | UpdateOp (op_file: PatchPath) (op_moveTo: "PatchPath option") (op_hunks: "PatchHunk list")

section \<open>Paths\<close>

definition toolExpandHomePath :: "EditHost \<Rightarrow> string \<Rightarrow> string" where
  "toolExpandHomePath eh p =
     (if \<not> starts_with ''~'' p then p
      else case eh_HOME eh of
        None \<Rightarrow> p
      | Some home \<Rightarrow>
          if home = [] then p
          else if p = ''~'' then home
          else if starts_with ''~/'' p then path_join home [drop 2 p]
          else p)"

definition resolveToolPath :: "Host \<Rightarrow> EditHost \<Rightarrow> string \<Rightarrow> string \<Rightarrow> string" where
  "resolveToolPath h eh workdir p = (let expanded = toolExpandHomePath eh p in
     if path_isAbsolute expanded then path_resolve (h_cwd h) expanded else path_resolve2 (h_cwd h) workdir expanded)"

definition normalizePatchTarget :: "Host \<Rightarrow> EditHost \<Rightarrow> string \<Rightarrow> string \<Rightarrow> PatchPath result" where
  "normalizePatchTarget h eh workdir filePath = (let trimmed = js_trim filePath in
     if trimmed = [] then Inl (''invalid patch path: '' @ filePath)
     else Inr \<lparr>pp_raw = trimmed, pp_absolute = resolveToolPath h eh workdir trimmed\<rparr>)"

section \<open>Parsing\<close>

definition END_OF_FILE :: string where
  "END_OF_FILE = ''*** End of File''"

fun parseAddFile :: "PatchPath \<Rightarrow> string list \<Rightarrow> (string list \<times> string list) result" where
  "parseAddFile pf [] = Inr ([], [])"
| "parseAddFile pf (row # rows) =
     (if starts_with ''*** '' row then Inr ([], row # rows)
      else if row = END_OF_FILE then parseAddFile pf rows
      else if \<not> starts_with ''+'' row then Inl (''add file lines must start with + ('' @ pp_raw pf @ '')'')
      else bind_result (parseAddFile pf rows) (\<lambda>(content, rest). Inr (drop 1 row # content, rest)))"

fun takeAnchors :: "string list \<Rightarrow> string list \<times> string list" where
  "takeAnchors [] = ([], [])"
| "takeAnchors (row # rows) =
     (if starts_with ''@@'' row then (let (anchors, rest) = takeAnchors rows in (js_trim (drop 2 row) # anchors, rest))
      else ([], row # rows))"

definition patchLine :: "PatchPath \<Rightarrow> string \<Rightarrow> PatchLine result" where
  "patchLine pf row =
     (if starts_with ''-'' row then Inr (RemoveLine (drop 1 row))
      else if starts_with ''+'' row then Inr (AddLine (drop 1 row))
      else if starts_with '' '' row then Inr (ContextLine (drop 1 row))
      else if row = [] then Inr (ContextLine [])
      else Inl (''invalid hunk line in '' @ pp_raw pf @ '': '' @ row))"

fun takeHunkLines :: "PatchPath \<Rightarrow> string list \<Rightarrow> (PatchLine list \<times> string list) result" where
  "takeHunkLines pf [] = Inr ([], [])"
| "takeHunkLines pf (row # rows) =
     (if starts_with ''@@'' row \<or> starts_with ''*** '' row then Inr ([], row # rows)
      else if row = END_OF_FILE then takeHunkLines pf rows
      else bind_result (patchLine pf row) (\<lambda>l. bind_result (takeHunkLines pf rows) (\<lambda>(ls, rest). Inr (l # ls, rest))))"

lemma takeAnchors_length: "takeAnchors rows = (anchors, rest) \<Longrightarrow> length rows = length anchors + length rest"
  by (induction rows arbitrary: anchors) (auto split: if_splits prod.splits)

lemma takeHunkLines_length: "takeHunkLines pf rows = Inr (ls, rest) \<Longrightarrow> length rest \<le> length rows"
  by (induction pf rows arbitrary: ls rule: takeHunkLines.induct) (fastforce simp: bind_result_eq_Inr split: if_splits)+

lemma parseAddFile_length: "parseAddFile pf rows = Inr (ls, rest) \<Longrightarrow> length rest \<le> length rows"
  by (induction pf rows arbitrary: ls rule: parseAddFile.induct) (fastforce simp: bind_result_eq_Inr split: if_splits)+

function parseHunks :: "PatchPath \<Rightarrow> string list \<Rightarrow> (PatchHunk list \<times> string list) result" where
  "parseHunks pf [] = Inr ([], [])"
| "parseHunks pf (row # rows) =
     (if starts_with ''*** '' row then Inr ([], row # rows)
      else case takeAnchors (row # rows) of (anchors, body) \<Rightarrow>
        if anchors = [] then Inl (''update patch for '' @ pp_raw pf @ '' must start hunks with @@'')
        else case takeHunkLines pf body of
          Inl e \<Rightarrow> Inl e
        | Inr (ls, rest) \<Rightarrow>
            if ls = [] then Inl (''update hunk for '' @ pp_raw pf @ '' has no body lines'')
            else case parseHunks pf rest of
              Inl e \<Rightarrow> Inl e
            | Inr (hunks, rest') \<Rightarrow> Inr (\<lparr>ph_anchors = anchors, ph_lines = ls\<rparr> # hunks, rest'))"
  by pat_completeness auto
termination
proof (relation "measure (\<lambda>(pf, rows). length rows)", goal_cases)
  case (2 pf row rows anchors body a ls rest)
  have "length (row # rows) = length anchors + length body" using takeAnchors_length 2 by metis
  moreover have "length rest \<le> length body" using takeHunkLines_length 2 by blast
  moreover have "0 < length anchors" using 2 by simp
  ultimately show ?case by (simp del: length_greater_0_conv)
qed simp

declare parseHunks.simps(2) [simp del]

definition parseUpdateFile ::
  "Host \<Rightarrow> EditHost \<Rightarrow> string \<Rightarrow> PatchPath \<Rightarrow> string list \<Rightarrow> (PatchPath option \<times> PatchHunk list \<times> string list) result" where
  "parseUpdateFile h eh workdir pf rows =
     bind_result (case rows of
         row # rest \<Rightarrow>
           (if starts_with ''*** Move to: '' row
            then bind_result (normalizePatchTarget h eh workdir (drop (length ''*** Move to: '') row)) (\<lambda>p. Inr (Some p, rest))
            else Inr (None, rows))
       | [] \<Rightarrow> Inr (None, rows)) (\<lambda>(moveTo, rows').
     bind_result (parseHunks pf rows') (\<lambda>(hunks, rest).
       if moveTo = None \<and> hunks = [] then Inl (''update patch for '' @ pp_raw pf @ '' must include at least one hunk'')
       else Inr (moveTo, hunks, rest)))"

lemma parseHunks_length: "parseHunks pf rows = Inr (hs, rest) \<Longrightarrow> length rest \<le> length rows"
proof (induction pf rows arbitrary: hs rule: parseHunks.induct)
  case (2 pf row rows)
  note ih = "2.IH"
  show ?case
  proof (cases "starts_with ''*** '' row")
    case False
    obtain anchors body where t: "takeAnchors (row # rows) = (anchors, body)" by (cases "takeAnchors (row # rows)")
    from "2.prems" False t obtain ls rest1 hunks where s: "anchors \<noteq> []" "takeHunkLines pf body = Inr (ls, rest1)" "ls \<noteq> []"
        "parseHunks pf rest1 = Inr (hunks, rest)"
      by (auto simp: parseHunks.simps(2) split: if_splits sum.splits)
    have "length rest \<le> length rest1" using ih[OF False t[symmetric] s(1) s(2) refl s(3) s(4)] by simp
    then show ?thesis using takeAnchors_length[OF t] takeHunkLines_length[OF s(2)] by simp
  qed (use "2.prems" in \<open>simp add: parseHunks.simps(2)\<close>)
qed simp

lemma parseUpdateFile_length: "parseUpdateFile h eh w pf rows = Inr (m, hs, rest) \<Longrightarrow> length rest \<le> length rows"
proof -
  assume "parseUpdateFile h eh w pf rows = Inr (m, hs, rest)"
  then obtain rows' where "parseHunks pf rows' = Inr (hs, rest)" "length rows' \<le> length rows"
    by (auto simp: parseUpdateFile_def bind_result_eq_Inr split: list.splits if_splits)
  then show ?thesis using parseHunks_length by fastforce
qed

text \<open>The directives up to the end of the patch, and what comes after it; \<open>None\<close> where there is no end.\<close>

function parseOps :: "Host \<Rightarrow> EditHost \<Rightarrow> string \<Rightarrow> string list \<Rightarrow> (PatchOp list \<times> string list option) result" where
  "parseOps h eh w [] = Inr ([], None)"
| "parseOps h eh w (line # rows) =
     (if line = ''*** End Patch'' then Inr ([], Some rows)
      else if starts_with ''*** Add File: '' line then
        (case normalizePatchTarget h eh w (drop (length ''*** Add File: '') line) of
          Inl e \<Rightarrow> Inl e
        | Inr pf \<Rightarrow> (case parseAddFile pf rows of
            Inl e \<Rightarrow> Inl e
          | Inr (content, rest) \<Rightarrow> bind_result (parseOps h eh w rest) (\<lambda>(ops, after). Inr (AddOp pf content # ops, after))))
      else if starts_with ''*** Delete File: '' line then
        (case normalizePatchTarget h eh w (drop (length ''*** Delete File: '') line) of
          Inl e \<Rightarrow> Inl e
        | Inr pf \<Rightarrow> bind_result (parseOps h eh w rows) (\<lambda>(ops, after). Inr (DeleteOp pf # ops, after)))
      else if starts_with ''*** Update File: '' line then
        (case normalizePatchTarget h eh w (drop (length ''*** Update File: '') line) of
          Inl e \<Rightarrow> Inl e
        | Inr pf \<Rightarrow> (case parseUpdateFile h eh w pf rows of
            Inl e \<Rightarrow> Inl e
          | Inr (moveTo, hunks, rest) \<Rightarrow> bind_result (parseOps h eh w rest) (\<lambda>(ops, after). Inr (UpdateOp pf moveTo hunks # ops, after))))
      else if js_trim line = [] then parseOps h eh w rows
      else Inl (''unrecognized patch directive: '' @ line))"
  by pat_completeness auto
termination
  by (relation "measure (\<lambda>(h, eh, w, rows). length rows)")
    (auto dest!: parseAddFile_length parseUpdateFile_length)

declare parseOps.simps(2) [simp del]

definition patchLines :: "string \<Rightarrow> string list" where
  "patchLines patchText = split_on newline (crlfToLf patchText)"

definition parsePatch :: "Host \<Rightarrow> EditHost \<Rightarrow> string \<Rightarrow> string \<Rightarrow> PatchOp list result" where
  "parsePatch h eh patchText workdir =
     (case patchLines patchText of
        [] \<Rightarrow> Inl ''patch must start with *** Begin Patch''
      | first # rows \<Rightarrow>
          if first \<noteq> ''*** Begin Patch'' then Inl ''patch must start with *** Begin Patch''
          else bind_result (parseOps h eh workdir rows) (\<lambda>(ops, after).
            case after of
              None \<Rightarrow> Inl ''patch must end with *** End Patch''
            | Some trailing \<Rightarrow>
                if filter (\<lambda>l. js_trim l \<noteq> []) trailing \<noteq> [] then Inl ''patch must not contain content after *** End Patch''
                else if ops = [] then Inl ''patch must contain at least one file operation''
                else Inr ops))"

end
