(* ===== verification/PatchApply.thy ===== *)
theory PatchApply
  imports PatchModel
begin

text \<open>
  Applying the hunks of a patch to a text: where a hunk is found, in which mode, and what the text becomes
  (\<open>ApplyPatch/Logic.ts\<close>), with the messages and suggestions of a failure.
\<close>

section \<open>Messages\<close>

definition hunkOldLines :: "PatchHunk \<Rightarrow> string list" where
  "hunkOldLines hunk = concat (map (\<lambda>l. case l of ContextLine v \<Rightarrow> [v] | AddLine v \<Rightarrow> [] | RemoveLine v \<Rightarrow> [v]) (ph_lines hunk))"

definition hunkNewLines :: "PatchHunk \<Rightarrow> string list" where
  "hunkNewLines hunk = concat (map (\<lambda>l. case l of ContextLine v \<Rightarrow> [v] | AddLine v \<Rightarrow> [v] | RemoveLine v \<Rightarrow> []) (ph_lines hunk))"

definition nonEmpty :: "string list \<Rightarrow> string list" where
  "nonEmpty ss = filter (\<lambda>s. s \<noteq> []) ss"

definition hunkLabel :: "PatchHunk \<Rightarrow> string" where
  "hunkLabel hunk = (let label = js_join '' -> '' (nonEmpty (ph_anchors hunk)) in if label = [] then ''unnamed hunk'' else label)"

definition firstIndex :: "('a \<Rightarrow> bool) \<Rightarrow> 'a list \<Rightarrow> nat option" where
  "firstIndex p xs = find (\<lambda>i. p (xs ! i)) [0..<length xs]"

definition buildMissingHunkMessage :: "EditHost \<Rightarrow> string list \<Rightarrow> string list \<Rightarrow> string \<Rightarrow> PatchHunk \<Rightarrow> string" where
  "buildMissingHunkMessage eh lines target filePath hunk =
     (let head = ''update hunk not found in '' @ filePath @ '' ('' @ hunkLabel hunk @ ''); expected '';
          plain = head @ eh_json eh (JStr (js_join '' / '' (take 3 (nonEmpty (map (summarizeLine eh) target))))) in
      case nonEmpty (map js_trim target) of
        [] \<Rightarrow> plain
      | first # _ \<Rightarrow>
          (case firstIndex (\<lambda>l. js_includes l first \<or> js_includes (js_trim l) first) lines of
             None \<Rightarrow> plain
           | Some i \<Rightarrow> head @ eh_json eh (JStr (summarizeLine eh first)) @ ''; nearest current line '' @ show_nat (i + 1) @ '': ''
               @ eh_json eh (JStr (summarizeLine eh (lines ! i)))))"

definition buildAmbiguousHunkMessage :: "EditHost \<Rightarrow> string list \<Rightarrow> string \<Rightarrow> PatchHunk \<Rightarrow> MatchMode \<Rightarrow> nat \<Rightarrow> string" where
  "buildAmbiguousHunkMessage eh target filePath hunk mode n =
     (let head = ''update hunk is ambiguous in '' @ filePath @ '' ('' @ hunkLabel hunk @ ''); '' @ modeName mode @ '' matched '' @ show_nat n
            @ '' candidate locations'';
          preview = (case nonEmpty (map js_trim target) of [] \<Rightarrow> [] | first # _ \<Rightarrow> summarizeLine eh first)
      in if preview \<noteq> [] then head @ '' for '' @ eh_json eh (JStr preview) else head)"

section \<open>Finding a block of lines\<close>

definition lineMatches :: "string \<Rightarrow> string \<Rightarrow> MatchMode \<Rightarrow> bool" where
  "lineMatches a b mode =
     (if mode = Exact \<or> mode = AnchoredExact then a = b
      else if mode = Normalized then trimEnd a = trimEnd b
      else filter (\<lambda>c. \<not> js_space c) a = filter (\<lambda>c. \<not> js_space c) b)"

definition lineBlockMatches :: "string list \<Rightarrow> string list \<Rightarrow> nat \<Rightarrow> MatchMode \<Rightarrow> bool" where
  "lineBlockMatches lines target index mode \<longleftrightarrow>
     target = [] \<or> index + length target \<le> length lines
       \<and> list_all (\<lambda>k. lineMatches (lines ! (index + k)) (target ! k) mode) [0..<length target]"

definition blockPlaces :: "string list \<Rightarrow> string list \<Rightarrow> nat \<Rightarrow> nat list" where
  "blockPlaces lines target startIndex = [startIndex..<Suc (length lines) - length target]"

definition findLineBlock :: "string list \<Rightarrow> string list \<Rightarrow> nat \<Rightarrow> MatchMode \<Rightarrow> nat option" where
  "findLineBlock lines target startIndex mode =
     (if target = [] then Some (min startIndex (length lines))
      else find (\<lambda>i. lineBlockMatches lines target i mode) (blockPlaces lines target startIndex))"

definition findAllLineBlocks :: "string list \<Rightarrow> string list \<Rightarrow> nat \<Rightarrow> MatchMode \<Rightarrow> nat list" where
  "findAllLineBlocks lines target startIndex mode =
     (if target = [] then [min startIndex (length lines)]
      else filter (\<lambda>i. lineBlockMatches lines target i mode) (blockPlaces lines target startIndex))"

fun resolveAnchorStart :: "string list \<Rightarrow> string \<Rightarrow> nat \<Rightarrow> string list \<Rightarrow> nat result" where
  "resolveAnchorStart lines filePath start [] = Inr start"
| "resolveAnchorStart lines filePath start (anchor # anchors) =
     (if anchor = [] then resolveAnchorStart lines filePath start anchors
      else case find (\<lambda>i. start \<le> i \<and> js_includes (lines ! i) anchor) [0..<length lines] of
        None \<Rightarrow> Inl (''anchor not found in '' @ filePath @ '': '' @ anchor)
      | Some i \<Rightarrow> resolveAnchorStart lines filePath (i + 1) anchors)"

definition chooseUniqueFuzzyCandidate ::
  "EditHost \<Rightarrow> string list \<Rightarrow> string list \<Rightarrow> nat \<Rightarrow> MatchMode \<Rightarrow> string \<Rightarrow> PatchHunk \<Rightarrow> nat option result" where
  "chooseUniqueFuzzyCandidate eh lines oldLines start mode filePath hunk =
     (case findAllLineBlocks lines oldLines start mode of
        [] \<Rightarrow> Inr None
      | [i] \<Rightarrow> Inr (Some i)
      | candidates \<Rightarrow> Inl (buildAmbiguousHunkMessage eh oldLines filePath hunk mode (length candidates)))"

definition findFuzzyLocation ::
  "EditHost \<Rightarrow> string list \<Rightarrow> PatchHunk \<Rightarrow> nat \<Rightarrow> string \<Rightarrow> (nat \<times> MatchMode) result" where
  "findFuzzyLocation eh lines hunk start filePath = (let oldLines = hunkOldLines hunk in
     bind_result (chooseUniqueFuzzyCandidate eh lines oldLines start Normalized filePath hunk) (\<lambda>normalized.
       case normalized of
         Some i \<Rightarrow> Inr (i, Normalized)
       | None \<Rightarrow> bind_result (chooseUniqueFuzzyCandidate eh lines oldLines start Fuzzy filePath hunk) (\<lambda>fuzzy.
           case fuzzy of
             Some i \<Rightarrow> Inr (i, Fuzzy)
           | None \<Rightarrow> Inl (buildMissingHunkMessage eh lines oldLines filePath hunk))))"

definition findHunkLocation ::
  "EditHost \<Rightarrow> string list \<Rightarrow> PatchHunk \<Rightarrow> nat \<Rightarrow> string \<Rightarrow> (nat \<times> MatchMode) result" where
  "findHunkLocation eh lines hunk cursor filePath =
     (let oldLines = hunkOldLines hunk in
      if list_ex (\<lambda>a. a \<noteq> []) (ph_anchors hunk) then
        bind_result (resolveAnchorStart lines filePath 0 (ph_anchors hunk)) (\<lambda>start.
          case findLineBlock lines oldLines start AnchoredExact of
            Some i \<Rightarrow> Inr (i, AnchoredExact)
          | None \<Rightarrow> findFuzzyLocation eh lines hunk start filePath)
      else case findLineBlock lines oldLines cursor Exact of
        Some i \<Rightarrow> Inr (i, Exact)
      | None \<Rightarrow> (case findLineBlock lines oldLines 0 Exact of
          Some i \<Rightarrow> Inr (i, Exact)
        | None \<Rightarrow> findFuzzyLocation eh lines hunk cursor filePath))"

section \<open>Applying hunks\<close>

definition splice :: "nat \<Rightarrow> nat \<Rightarrow> 'a list \<Rightarrow> 'a list \<Rightarrow> 'a list" where
  "splice index n new xs = take index xs @ new @ drop (index + n) xs"

fun applyHunks ::
  "EditHost \<Rightarrow> string \<Rightarrow> PatchHunk list \<Rightarrow> string list \<Rightarrow> nat \<Rightarrow> (string list \<times> MatchMode list) result" where
  "applyHunks eh filePath [] lines cursor = Inr (lines, [])"
| "applyHunks eh filePath (hunk # hunks) lines cursor =
     bind_result (findHunkLocation eh lines hunk cursor filePath) (\<lambda>(index, mode).
     bind_result (applyHunks eh filePath hunks (splice index (length (hunkOldLines hunk)) (hunkNewLines hunk) lines)
         (index + length (hunkNewLines hunk))) (\<lambda>(next_lines, modes).
       Inr (next_lines, mode # modes)))"

record AppliedHunks =
  ah_next :: string
  ah_matchModes :: "MatchMode list"

definition applyHunksToText :: "EditHost \<Rightarrow> string \<Rightarrow> PatchHunk list \<Rightarrow> string \<Rightarrow> AppliedHunks result" where
  "applyHunksToText eh content hunks filePath =
     bind_result (applyHunks eh filePath hunks (split_on newline (crlfToLf content)) 0) (\<lambda>(lines, modes).
       Inr \<lparr>ah_next = convertToDominantNewline (js_join [newline] lines) (detectDominantNewline content), ah_matchModes = modes\<rparr>)"

section \<open>Failures\<close>

definition primaryPatchFilePath :: "PatchOp list \<Rightarrow> string option" where
  "primaryPatchFilePath ops = (case ops of
      [AddOp pf _] \<Rightarrow> Some (pp_raw pf)
    | [DeleteOp pf] \<Rightarrow> Some (pp_raw pf)
    | [UpdateOp pf moveTo _] \<Rightarrow> Some (pp_raw (nullish moveTo pf))
    | _ \<Rightarrow> None)"

definition buildApplyPatchFailureSuggestions :: "string \<Rightarrow> string list" where
  "buildApplyPatchFailureSuggestions detail = (let normalized = js_lower detail; has = js_includes normalized in
     if has ''hunk not found'' \<or> has ''anchor not found'' then
       [''Read the target file again and copy the exact current hunk, including unchanged context lines.'',
        ''Reduce the patch to a smaller single-hunk change after confirming the current file contents.'',
        ''Use a named @@ anchor such as @@ def methodName or @@ class TypeName to locate the intended region.'',
        ''If the file changed since the patch was drafted, rebuild the patch from a fresh read before retrying.'']
     else if has ''ambiguous'' then
       [''Read the file again and include more unchanged context so the target hunk is unique.'',
        ''Add a named @@ anchor near the intended block before retrying.'',
        ''Reduce the patch to a smaller single-location change instead of patching repeated similar blocks.'']
     else if has ''*** begin patch'' \<or> has ''unrecognized patch directive'' \<or> has ''patch must'' then
       [''Use the exact apply_patch envelope with *** Begin Patch and *** End Patch.'',
        ''For updates, include a matching *** Update File line and at least one @@ hunk unless the update only moves the file.'',
        ''If formatting keeps failing, reread the target file and rebuild a smaller patch from scratch.'']
     else
       [''Read the target file again and copy the exact current hunk before retrying.'',
        ''Reduce the patch to a smaller single-file or single-hunk change.'',
        ''If the target block moved or changed, rebuild the patch from a fresh read of the file.''])"

end
