(* ===== verification/FileTools.thy ===== *)
theory FileTools
  imports PatchApply
begin

text \<open>
  The file tools: planning and committing a patch (\<open>ApplyPatch/Logic.ts\<close>), and the tools \<open>Edit\<close>, \<open>Multiedit\<close> and \<open>Write\<close>
  (\<open>ai-organ-logic/src/composer/AIAgent/tools\<close>), each behind its permission check.

  A disk maps the components of absolute paths to directories and text files; the root is a directory. The operations of
  \<open>node:fs\<close> are those the tools use, with the failures their use can meet on such a disk; a failure is its code. Links,
  access rights and other processes are left out.
\<close>

section \<open>The disk\<close>

datatype DiskNode = DirNode | FileNode string

type_synonym Disk = "(string list \<times> DiskNode) list"

definition pathParts :: "string \<Rightarrow> string list" where
  "pathParts p = filter (\<lambda>s. s \<noteq> []) (split_on sep p)"

definition nodeAt :: "Disk \<Rightarrow> string list \<Rightarrow> DiskNode option" where
  "nodeAt d ps = (if ps = [] then Some DirNode else map_of d ps)"

text \<open>Some directory on the way is a file.\<close>

definition blockedBy :: "Disk \<Rightarrow> string list \<Rightarrow> bool" where
  "blockedBy d ps \<longleftrightarrow> list_ex (\<lambda>k. case nodeAt d (take k ps) of Some (FileNode _) \<Rightarrow> True | _ \<Rightarrow> False) [0..<length ps]"

definition fsStat :: "Disk \<Rightarrow> string \<Rightarrow> DiskNode result" where
  "fsStat d p = (let ps = pathParts p in
     if blockedBy d ps then Inl ''ENOTDIR'' else case nodeAt d ps of None \<Rightarrow> Inl ''ENOENT'' | Some n \<Rightarrow> Inr n)"

definition fsRead :: "Disk \<Rightarrow> string \<Rightarrow> string result" where
  "fsRead d p = bind_result (fsStat d p) (\<lambda>n. case n of DirNode \<Rightarrow> Inl ''EISDIR'' | FileNode content \<Rightarrow> Inr content)"

text \<open>\<open>mkdir\<close> with \<open>recursive\<close>: every prefix of the path becomes a directory.\<close>

fun mkdirAll :: "string list list \<Rightarrow> Disk \<Rightarrow> unit result \<times> Disk" where
  "mkdirAll [] d = (Inr (), d)"
| "mkdirAll (ps # rest) d = (case nodeAt d ps of
      Some DirNode \<Rightarrow> mkdirAll rest d
    | Some (FileNode _) \<Rightarrow> (Inl (if rest = [] then ''EEXIST'' else ''ENOTDIR''), d)
    | None \<Rightarrow> mkdirAll rest (jmap_set ps DirNode d))"

definition prefixesOf :: "string list \<Rightarrow> string list list" where
  "prefixesOf ps = map (\<lambda>k. take k ps) [1..<Suc (length ps)]"

definition fsMkdir :: "Disk \<Rightarrow> string \<Rightarrow> unit result \<times> Disk" where
  "fsMkdir d p = mkdirAll (prefixesOf (pathParts p)) d"

definition fsWrite :: "Disk \<Rightarrow> string \<Rightarrow> string \<Rightarrow> unit result \<times> Disk" where
  "fsWrite d p content = (let ps = pathParts p in
     if blockedBy d ps then (Inl ''ENOTDIR'', d)
     else if nodeAt d ps = Some DirNode then (Inl ''EISDIR'', d)
     else if nodeAt d (butlast ps) = None then (Inl ''ENOENT'', d)
     else (Inr (), jmap_set ps (FileNode content) d))"

definition fsRemove :: "Disk \<Rightarrow> string \<Rightarrow> unit result \<times> Disk" where
  "fsRemove d p = (let ps = pathParts p in
     if blockedBy d ps then (Inl ''ENOTDIR'', d)
     else case nodeAt d ps of
       None \<Rightarrow> (Inr (), d)
     | Some DirNode \<Rightarrow> (Inl ''ERR_FS_EISDIR'', d)
     | Some (FileNode _) \<Rightarrow> (Inr (), kv_delete ps d))"

section \<open>Planning a patch\<close>

definition maybeStat :: "Disk \<Rightarrow> string \<Rightarrow> DiskNode option result" where
  "maybeStat d p = (case fsStat d p of Inr n \<Rightarrow> Inr (Some n) | Inl e \<Rightarrow> if e = ''ENOENT'' then Inr None else Inl e)"

definition renderAddedFile :: "string list \<Rightarrow> string" where
  "renderAddedFile lines = (if lines = [] then [] else js_join [newline] lines @ [newline])"

record StagedPatchPlan =
  sp_snapshots :: "FileSnapshot list"
  sp_writes :: "(string \<times> string) list"
  sp_deletes :: "string list"
  sp_touchedFiles :: "string list"
  sp_touchedFilesAbsolute :: "string list"
  sp_addedCount :: nat
  sp_updatedCount :: nat
  sp_deletedCount :: nat
  sp_movedCount :: nat
  sp_matchModesUsed :: "MatchMode list"

definition emptyPlan :: StagedPatchPlan where
  "emptyPlan = \<lparr>sp_snapshots = [], sp_writes = [], sp_deletes = [], sp_touchedFiles = [], sp_touchedFilesAbsolute = [],
     sp_addedCount = 0, sp_updatedCount = 0, sp_deletedCount = 0, sp_movedCount = 0, sp_matchModesUsed = []\<rparr>"

definition pushUnique :: "'a \<Rightarrow> 'a list \<Rightarrow> 'a list" where
  "pushUnique x xs = (if x \<in> set xs then xs else xs @ [x])"

definition addTouched :: "PatchPath \<Rightarrow> StagedPatchPlan \<Rightarrow> StagedPatchPlan" where
  "addTouched pf plan = plan\<lparr>sp_touchedFiles := pushUnique (pp_raw pf) (sp_touchedFiles plan),
     sp_touchedFilesAbsolute := pushUnique (pp_absolute pf) (sp_touchedFilesAbsolute plan)\<rparr>"

text \<open>The destination of a move; a move to the path itself is an update in place.\<close>

definition movesTo :: "PatchOp \<Rightarrow> PatchPath option" where
  "movesTo op = (case op of
      UpdateOp pf (Some to) _ \<Rightarrow> if pp_absolute to \<noteq> pp_absolute pf then Some to else None
    | _ \<Rightarrow> None)"

definition opPaths :: "PatchOp \<Rightarrow> PatchPath list" where
  "opPaths op = op_file op # (case movesTo op of None \<Rightarrow> [] | Some to \<Rightarrow> [to])"

fun checkDuplicates :: "string \<Rightarrow> string list \<Rightarrow> PatchPath list \<Rightarrow> unit result" where
  "checkDuplicates cwd seen [] = Inr ()"
| "checkDuplicates cwd seen (pf # pfs) = (let key = path_resolve cwd (pp_absolute pf) in
     if key \<in> set seen then Inl (''duplicate patch path: '' @ pp_raw pf) else checkDuplicates cwd (key # seen) pfs)"

definition ensureNoDuplicateTouchedPaths :: "Host \<Rightarrow> PatchOp list \<Rightarrow> unit result" where
  "ensureNoDuplicateTouchedPaths h ops = checkDuplicates (h_cwd h) [] (concat (map opPaths ops))"

definition snapshot :: "string \<Rightarrow> string \<Rightarrow> string \<Rightarrow> FileSnapshot" where
  "snapshot f b a = \<lparr>sn_filePath = f, sn_before = b, sn_after = a\<rparr>"

text \<open>An existing file: its text.\<close>

definition existingFile :: "string \<Rightarrow> Disk \<Rightarrow> PatchPath \<Rightarrow> string result" where
  "existingFile what d pf = bind_result (maybeStat d (pp_absolute pf)) (\<lambda>st. case st of
      None \<Rightarrow> Inl (what @ '' target does not exist: '' @ pp_raw pf)
    | Some DirNode \<Rightarrow> Inl (what @ '' target is a directory: '' @ pp_raw pf)
    | Some (FileNode _) \<Rightarrow> Inr [])"

definition stageOp :: "EditHost \<Rightarrow> Disk \<Rightarrow> PatchOp \<Rightarrow> StagedPatchPlan \<Rightarrow> StagedPatchPlan result" where
  "stageOp eh d op plan = (case op of
      AddOp pf lines \<Rightarrow>
        bind_result (maybeStat d (pp_absolute pf)) (\<lambda>st.
          if st \<noteq> None then Inl (''add target already exists: '' @ pp_raw pf)
          else let after = renderAddedFile lines in
            Inr (addTouched pf (plan\<lparr>sp_snapshots := sp_snapshots plan @ [snapshot (pp_raw pf) [] after],
              sp_writes := sp_writes plan @ [(pp_absolute pf, after)], sp_addedCount := sp_addedCount plan + 1\<rparr>)))
    | DeleteOp pf \<Rightarrow>
        bind_result (existingFile ''delete'' d pf) (\<lambda>_.
        bind_result (fsRead d (pp_absolute pf)) (\<lambda>content.
          Inr (addTouched pf (plan\<lparr>sp_snapshots := sp_snapshots plan @ [snapshot (pp_raw pf) content []],
            sp_deletes := sp_deletes plan @ [pp_absolute pf], sp_deletedCount := sp_deletedCount plan + 1\<rparr>))))
    | UpdateOp pf _ hunks \<Rightarrow>
        bind_result (existingFile ''update'' d pf) (\<lambda>_.
        bind_result (case movesTo op of
            None \<Rightarrow> Inr ()
          | Some to \<Rightarrow> bind_result (maybeStat d (pp_absolute to)) (\<lambda>st.
              if st \<noteq> None then Inl (''move destination already exists: '' @ pp_raw to) else Inr ())) (\<lambda>_.
        bind_result (fsRead d (pp_absolute pf)) (\<lambda>content.
        bind_result (applyHunksToText eh content hunks (pp_raw pf)) (\<lambda>applied.
          let plan' = plan\<lparr>sp_matchModesUsed := foldl (\<lambda>ms m. pushUnique m ms) (sp_matchModesUsed plan) (ah_matchModes applied)\<rparr> in
          case movesTo op of
            Some to \<Rightarrow> Inr (addTouched to (addTouched pf (plan'\<lparr>
                sp_snapshots := sp_snapshots plan' @ [snapshot (pp_raw pf) content [], snapshot (pp_raw to) [] (ah_next applied)],
                sp_writes := sp_writes plan' @ [(pp_absolute to, ah_next applied)],
                sp_deletes := sp_deletes plan' @ [pp_absolute pf], sp_movedCount := sp_movedCount plan' + 1\<rparr>)))
          | None \<Rightarrow> Inr (addTouched pf (plan'\<lparr>
                sp_snapshots := sp_snapshots plan' @ [snapshot (pp_raw pf) content (ah_next applied)],
                sp_writes := sp_writes plan' @ [(pp_absolute pf, ah_next applied)], sp_updatedCount := sp_updatedCount plan' + 1\<rparr>)))))))"

fun stageOps :: "EditHost \<Rightarrow> Disk \<Rightarrow> PatchOp list \<Rightarrow> StagedPatchPlan \<Rightarrow> StagedPatchPlan result" where
  "stageOps eh d [] plan = Inr plan"
| "stageOps eh d (op # ops) plan = bind_result (stageOp eh d op plan) (stageOps eh d ops)"

definition buildStagedPatchPlan :: "Host \<Rightarrow> EditHost \<Rightarrow> Disk \<Rightarrow> PatchOp list \<Rightarrow> StagedPatchPlan result" where
  "buildStagedPatchPlan h eh d ops = bind_result (ensureNoDuplicateTouchedPaths h ops) (\<lambda>_. stageOps eh d ops emptyPlan)"

section \<open>Committing a patch\<close>

fun commitWrites :: "(string \<times> string) list \<Rightarrow> Disk \<Rightarrow> unit result \<times> Disk" where
  "commitWrites [] d = (Inr (), d)"
| "commitWrites ((p, content) # ws) d = (case fsMkdir d (path_dirname p) of
      (Inl e, d1) \<Rightarrow> (Inl e, d1)
    | (Inr _, d1) \<Rightarrow> (case fsWrite d1 p content of
        (Inl e, d2) \<Rightarrow> (Inl e, d2)
      | (Inr _, d2) \<Rightarrow> commitWrites ws d2))"

fun commitDeletes :: "string list \<Rightarrow> Disk \<Rightarrow> unit result \<times> Disk" where
  "commitDeletes [] d = (Inr (), d)"
| "commitDeletes (p # ps) d = (case fsRemove d p of
      (Inl e, d1) \<Rightarrow> (Inl e, d1)
    | (Inr _, d1) \<Rightarrow> commitDeletes ps d1)"

definition commitStagedPatchPlan :: "StagedPatchPlan \<Rightarrow> Disk \<Rightarrow> unit result \<times> Disk" where
  "commitStagedPatchPlan plan d = (case commitWrites (sp_writes plan) d of
      (Inl e, d1) \<Rightarrow> (Inl e, d1)
    | (Inr _, d1) \<Rightarrow> commitDeletes (sp_deletes plan) d1)"

section \<open>Permissions\<close>

definition filePayload :: "string \<Rightarrow> (string \<times> jsv) list \<Rightarrow> jsv \<Rightarrow> jsv" where
  "filePayload rawPath details scopeIntent = JObj ((''filePath'', JStr rawPath) # details @ [(''scopeIntent'', scopeIntent)])"

definition opTargets :: "PatchOp \<Rightarrow> string list" where
  "opTargets op = (case op of
      UpdateOp pf (Some to) _ \<Rightarrow> [pp_raw pf, pp_raw to]
    | _ \<Rightarrow> [pp_raw (op_file op)])"

fun ensurePatchPermissions :: "Host \<Rightarrow> int \<Rightarrow> jsv \<Rightarrow> string list \<Rightarrow> ToolRuntime \<Rightarrow> string option \<times> ToolRuntime" where
  "ensurePatchPermissions h now scopeIntent [] rt = (None, rt)"
| "ensurePatchPermissions h now scopeIntent (p # ps) rt =
     (case authorizeLocalToolCall h now rt ''apply_patch'' (filePayload p [] scopeIntent) None of
        (Refused output, rt') \<Rightarrow> (Some output, rt')
      | (Authorized, rt') \<Rightarrow> ensurePatchPermissions h now scopeIntent ps rt')"

section \<open>The tools\<close>

text \<open>\<open>String(v ?? "")\<close>\<close>

definition inputText :: "Host \<Rightarrow> jsv \<Rightarrow> string" where
  "inputText h v = (if v = JUndef \<or> v = JNull then [] else js_String (h_shw h) v)"

definition workDirOf :: "ToolRuntime \<Rightarrow> string option" where
  "workDirOf rt = (case tr_workDir rt of JStr w \<Rightarrow> (if js_trim w = [] then None else Some w) | _ \<Rightarrow> None)"

definition jnat :: "nat \<Rightarrow> jsv" where
  "jnat n = JNum (Fin (of_nat n))"

definition REFRESH_HINT :: string where
  "REFRESH_HINT = ''Files changed by apply_patch; any earlier read_file output or file context for these paths is stale. Re-read the touched files before building another patch against them.''"

definition patchSucceeded :: "EditHost \<Rightarrow> PatchOp list \<Rightarrow> StagedPatchPlan \<Rightarrow> string" where
  "patchSucceeded eh ops plan = encodeFileEditResult eh
     [(''message'', JStr (''Patch applied successfully ('' @ show_nat (length ops) @ '' operation'' @ (if length ops = 1 then [] else ''s'') @ '').'')),
      (''ok'', JBool True), (''diff'', JStr (buildMultiFileUnifiedDiff (sp_snapshots plan))),
      (''touched_files'', JArr (map JStr (sp_touchedFiles plan))),
      (''touched_files_absolute'', JArr (map JStr (sp_touchedFilesAbsolute plan))),
      (''added_count'', jnat (sp_addedCount plan)), (''updated_count'', jnat (sp_updatedCount plan)),
      (''deleted_count'', jnat (sp_deletedCount plan)), (''moved_count'', jnat (sp_movedCount plan)),
      (''match_modes_used'', JArr (map (\<lambda>m. JStr (modeName m)) (sp_matchModesUsed plan))),
      (''context_refresh_hint'', JStr REFRESH_HINT)]"

definition patchFailed :: "EditHost \<Rightarrow> PatchOp list \<Rightarrow> string \<Rightarrow> string" where
  "patchFailed eh ops detail = (let filePath = primaryPatchFilePath ops in encodeFileEditResult eh
     [(''message'', JStr (case filePath of
         Some f \<Rightarrow> ''Patch could not be applied to '' @ f @ '': '' @ detail
       | None \<Rightarrow> ''Patch could not be applied: '' @ detail)),
      (''filePath'', case filePath of Some f \<Rightarrow> JStr f | None \<Rightarrow> JUndef), (''error'', JStr ''patch_failed''),
      (''detail'', JStr detail), (''suggestions'', JArr (map JStr (buildApplyPatchFailureSuggestions detail)))])"

definition applyPatchCoreLogic ::
  "Host \<Rightarrow> EditHost \<Rightarrow> int \<Rightarrow> jsv \<Rightarrow> ToolRuntime \<times> Disk \<Rightarrow> string \<times> ToolRuntime \<times> Disk" where
  "applyPatchCoreLogic h eh now input st = (case st of (rt, d) \<Rightarrow>
     (case workDirOf rt of
        None \<Rightarrow> (''Error: workDir not configured'', st)
      | Some workdir \<Rightarrow>
          let patchText = inputText h (coalesce (js_prop input ''patchText'') (js_prop input ''patch'')) in
          if js_trim patchText = [] then (''Error: patchText is required'', st)
          else (case parsePatch h eh patchText workdir of
             Inl detail \<Rightarrow> (patchFailed eh [] detail, st)
           | Inr ops \<Rightarrow> (case ensurePatchPermissions h now (js_prop input ''scopeIntent'') (concat (map opTargets ops)) rt of
               (Some output, rt') \<Rightarrow> (output, rt', d)
             | (None, rt') \<Rightarrow> (case buildStagedPatchPlan h eh d ops of
                 Inl detail \<Rightarrow> (patchFailed eh ops detail, rt', d)
               | Inr plan \<Rightarrow> (case commitStagedPatchPlan plan d of
                   (Inl detail, d') \<Rightarrow> (patchFailed eh ops detail, rt', d')
                 | (Inr _, d') \<Rightarrow> (patchSucceeded eh ops plan, rt', d')))))))"

definition applyPatchResourceTargets :: "Host \<Rightarrow> EditHost \<Rightarrow> jsv \<Rightarrow> string \<Rightarrow> string list result" where
  "applyPatchResourceTargets h eh input workDir =
     bind_result (parsePatch h eh (inputText h (coalesce (js_prop input ''patchText'') (js_prop input ''patch''))) workDir) (\<lambda>ops.
       Inr (concat (map (\<lambda>op. case op of
           UpdateOp pf (Some to) _ \<Rightarrow> [pp_absolute pf, pp_absolute to]
         | _ \<Rightarrow> [pp_absolute (op_file op)]) ops)))"

text \<open>The other tools reject when the disk does: \<open>Inl\<close> is the exception.\<close>

definition editCoreLogic :: "Host \<Rightarrow> EditHost \<Rightarrow> int \<Rightarrow> jsv \<Rightarrow> ToolRuntime \<times> Disk \<Rightarrow> string result \<times> ToolRuntime \<times> Disk" where
  "editCoreLogic h eh now input st = (case st of (rt, d) \<Rightarrow>
     (case workDirOf rt of
        None \<Rightarrow> (Inr ''Error: workDir not configured'', st)
      | Some workdir \<Rightarrow>
          let rawPath = inputText h (js_prop input ''filePath''); oldString = inputText h (js_prop input ''oldString'');
              newString = inputText h (js_prop input ''newString'') in
          if js_trim rawPath = [] \<or> oldString = [] then (Inr ''Error: filePath and oldString required'', st)
          else (case authorizeLocalToolCall h now rt ''edit'' (filePayload rawPath [(''oldString'', JStr oldString), (''newString'', JStr newString),
              (''replaceAll'', js_prop input ''replaceAll'')] (js_prop input ''scopeIntent'')) None of
            (Refused output, rt') \<Rightarrow> (Inr output, rt', d)
          | (Authorized, rt') \<Rightarrow>
              let full = resolveToolPath h eh workdir rawPath in
              (case fsRead d full of
                Inl e \<Rightarrow> (Inl e, rt', d)
              | Inr content \<Rightarrow>
                  (case applyStringEdit eh content oldString newString (truthy (js_prop input ''replaceAll'')) of
                    Inl failure \<Rightarrow> (Inr (formatEditNotFoundError eh rawPath failure None), rt', d)
                  | Inr applied \<Rightarrow> (case fsWrite d full (es_next applied) of
                      (Inl e, d') \<Rightarrow> (Inl e, rt', d')
                    | (Inr _, d') \<Rightarrow> (Inr (encodeFileEditResult eh [(''message'', JStr (''Edited '' @ rawPath)), (''filePath'', JStr rawPath),
                        (''diff'', JStr (buildUnifiedDiff rawPath content (es_next applied)))]), rt', d')))))))"

text \<open>The edits of a multiple edit are entries of an array; one without an old string is skipped.\<close>

fun applyEdits :: "Host \<Rightarrow> EditHost \<Rightarrow> nat \<Rightarrow> jsv list \<Rightarrow> string \<Rightarrow> nat \<Rightarrow> (ApplyStringEditFailure \<times> nat) + (string \<times> nat)" where
  "applyEdits h eh index [] content applied = Inr (content, applied)"
| "applyEdits h eh index (e # es) content applied =
     (let oldString = inputText h (js_prop e ''oldString''); newString = inputText h (js_prop e ''newString'') in
      if oldString = [] then applyEdits h eh (index + 1) es content applied
      else case applyStringEdit eh content oldString newString (truthy (js_prop e ''replaceAll'')) of
        Inl failure \<Rightarrow> Inl (failure, index)
      | Inr r \<Rightarrow> applyEdits h eh (index + 1) es (es_next r) (applied + 1))"

definition multieditCoreLogic :: "Host \<Rightarrow> EditHost \<Rightarrow> int \<Rightarrow> jsv \<Rightarrow> ToolRuntime \<times> Disk \<Rightarrow> string result \<times> ToolRuntime \<times> Disk" where
  "multieditCoreLogic h eh now input st = (case st of (rt, d) \<Rightarrow>
     (case workDirOf rt of
        None \<Rightarrow> (Inr ''Error: workDir not configured'', st)
      | Some workdir \<Rightarrow>
          let rawPath = inputText h (js_prop input ''filePath''); given = coalesce (js_prop input ''edits'') (JArr []) in
          if js_trim rawPath = [] then (Inr ''Error: filePath required'', st)
          else (case authorizeLocalToolCall h now rt ''multiedit'' (filePayload rawPath [(''edits'', js_prop input ''edits'')]
              (js_prop input ''scopeIntent'')) None of
            (Refused output, rt') \<Rightarrow> (Inr output, rt', d)
          | (Authorized, rt') \<Rightarrow>
              let full = resolveToolPath h eh workdir rawPath in
              (case fsRead d full of
                Inl e \<Rightarrow> (Inl e, rt', d)
              | Inr content \<Rightarrow>
                  (case (case given of JArr edits \<Rightarrow> Inr (applyEdits h eh 0 edits content 0) | _ \<Rightarrow> Inl ''TypeError'') of
                    Inl e \<Rightarrow> (Inl e, rt', d)
                  | Inr (Inl (failure, index)) \<Rightarrow> (Inr (formatEditNotFoundError eh rawPath failure (Some index)), rt', d)
                  | Inr (Inr (next_content, applied)) \<Rightarrow> (case fsWrite d full next_content of
                      (Inl e, d') \<Rightarrow> (Inl e, rt', d')
                    | (Inr _, d') \<Rightarrow> (Inr (encodeFileEditResult eh
                        [(''message'', JStr (''Edited '' @ rawPath @ (if 1 < applied then '' ('' @ show_nat applied @ '' edits)'' else []))),
                         (''filePath'', JStr rawPath), (''diff'', JStr (buildUnifiedDiff rawPath content next_content))]), rt', d')))))))"

definition writeCoreLogic :: "Host \<Rightarrow> EditHost \<Rightarrow> int \<Rightarrow> jsv \<Rightarrow> ToolRuntime \<times> Disk \<Rightarrow> string result \<times> ToolRuntime \<times> Disk" where
  "writeCoreLogic h eh now input st = (case st of (rt, d) \<Rightarrow>
     (case workDirOf rt of
        None \<Rightarrow> (Inr ''Error: workDir not configured'', st)
      | Some workdir \<Rightarrow>
          let rawPath = inputText h (js_prop input ''filePath'') in
          if js_trim rawPath = [] then (Inr ''Error: filePath required'', st)
          else (case authorizeLocalToolCall h now rt ''write'' (filePayload rawPath [(''content'', js_prop input ''content'')]
              (js_prop input ''scopeIntent'')) None of
            (Refused output, rt') \<Rightarrow> (Inr output, rt', d)
          | (Authorized, rt') \<Rightarrow>
              let full = resolveToolPath h eh workdir rawPath in
              (case fsMkdir d (path_dirname full) of
                (Inl e, d1) \<Rightarrow> (Inl e, rt', d1)
              | (Inr _, d1) \<Rightarrow> (case fsWrite d1 full (inputText h (js_prop input ''content'')) of
                  (Inl e, d2) \<Rightarrow> (Inl e, rt', d2)
                | (Inr _, d2) \<Rightarrow> (Inr ''Wrote file successfully.'', rt', d2))))))"

end
