(* ===== verification/DiskProps.thy ===== *)
theory DiskProps
  imports FileTools PermissionFiles "HOL-Library.Sublist"
begin

text \<open>
  Disks whose entries have their directories above them, and what the operations of the file tools do to the node at each path.
\<close>

section \<open>Trees\<close>

definition isFile :: "Disk \<Rightarrow> string list \<Rightarrow> bool" where
  "isFile d ps \<longleftrightarrow> (\<exists>c. nodeAt d ps = Some (FileNode c))"

definition fileText :: "Disk \<Rightarrow> string list \<Rightarrow> string option" where
  "fileText d ps = (case nodeAt d ps of Some (FileNode c) \<Rightarrow> Some c | _ \<Rightarrow> None)"

definition treeDisk :: "Disk \<Rightarrow> bool" where
  "treeDisk d \<longleftrightarrow> distinct (map fst d) \<and> (\<forall>ps. ps \<noteq> [] \<longrightarrow> nodeAt d ps \<noteq> None \<longrightarrow> nodeAt d (butlast ps) = Some DirNode)"

lemma root_node [simp]: "nodeAt d [] = Some DirNode"
  by (simp add: nodeAt_def)

lemma blocked_iff: "blockedBy d ps \<longleftrightarrow> (\<exists>q. strict_prefix q ps \<and> isFile d q)"
proof
  assume "blockedBy d ps"
  then obtain k where k: "k < length ps" "isFile d (take k ps)"
    unfolding blockedBy_def list_ex_iff isFile_def by (fastforce split: option.splits DiskNode.splits)
  have "take k ps \<noteq> ps" by (rule notI, drule arg_cong[of _ _ length]) (use k(1) in simp)
  then have "strict_prefix (take k ps) ps" by (simp add: strict_prefix_def take_is_prefix)
  then show "\<exists>q. strict_prefix q ps \<and> isFile d q" using k by blast
next
  assume "\<exists>q. strict_prefix q ps \<and> isFile d q"
  then obtain q where q: "strict_prefix q ps" "isFile d q" by blast
  then have "q = take (length q) ps" "length q < length ps"
    by (auto simp: strict_prefix_def prefix_def)
  then have "isFile d (take (length q) ps)" "length q \<in> set [0..<length ps]" using q by simp_all
  then show "blockedBy d ps" unfolding blockedBy_def list_ex_iff isFile_def
    by (intro bexI[of _ "length q"]) auto
qed

lemma tree_above:
  assumes "treeDisk d" "nodeAt d ps \<noteq> None" "strict_prefix q ps"
  shows "nodeAt d q = Some DirNode"
  using assms(2,3)
proof (induction ps rule: rev_induct)
  case (snoc x ps)
  have "nodeAt d ps = Some DirNode" using assms(1) snoc.prems(1) unfolding treeDisk_def by (metis butlast_snoc snoc_eq_iff_butlast)
  moreover have "q = ps \<or> strict_prefix q ps" using snoc.prems(2) by (auto simp: strict_prefix_def prefix_snoc)
  ultimately show ?case using snoc.IH by auto
qed simp

lemma node_set: "ps \<noteq> [] \<Longrightarrow> nodeAt (jmap_set ps n d) q = (if q = ps then Some n else nodeAt d q)"
  by (simp add: nodeAt_def jsm.lookup_store)

lemma distinct_set: "distinct (map fst d) \<Longrightarrow> distinct (map fst (jmap_set ps n d))"
  by (auto simp: jmap_set_def)

lemma node_delete: "ps \<noteq> [] \<Longrightarrow> nodeAt (kv_delete ps d) q = (if q = ps then None else nodeAt d q)"
  by (simp add: nodeAt_def)

lemma tree_set:
  assumes "treeDisk d" "ps \<noteq> []" "nodeAt d (butlast ps) = Some DirNode" "n = DirNode \<or> nodeAt d ps \<noteq> Some DirNode"
  shows "treeDisk (jmap_set ps n d)"
proof -
  have "nodeAt (jmap_set ps n d) (butlast qs) = Some DirNode" if q: "qs \<noteq> []" "nodeAt (jmap_set ps n d) qs \<noteq> None" for qs
  proof (cases "qs = ps")
    case True
    then have "butlast qs \<noteq> ps" using q(1) by (metis append_butlast_last_id not_Cons_self2 append_self_conv)
    then show ?thesis using assms(2,3) True by (simp add: node_set)
  next
    case False
    then have "nodeAt d (butlast qs) = Some DirNode" using q assms(1,2) by (simp add: node_set treeDisk_def)
    then show ?thesis using assms(2,4) by (auto simp: node_set)
  qed
  then show ?thesis using assms(1) by (simp add: treeDisk_def distinct_set)
qed

lemma tree_delete:
  assumes "treeDisk d" "ps \<noteq> []" "isFile d ps"
  shows "treeDisk (kv_delete ps d)"
proof -
  have "nodeAt (kv_delete ps d) (butlast qs) = Some DirNode" if q: "qs \<noteq> []" "nodeAt (kv_delete ps d) qs \<noteq> None" for qs
  proof -
    have "nodeAt d qs \<noteq> None" using q assms(2) by (auto simp: node_delete split: if_splits)
    then have "nodeAt d (butlast qs) = Some DirNode" using q(1) assms(1) by (simp add: treeDisk_def)
    then show ?thesis using assms(2,3) by (auto simp: node_delete isFile_def)
  qed
  moreover have "distinct (map fst (kv_delete ps d))" using assms(1) by (auto simp: treeDisk_def)
  ultimately show ?thesis by (simp add: treeDisk_def)
qed

end
