(* ===== verification/CommitProps.thy ===== *)
theory CommitProps
  imports DiskProps
begin

text \<open>Making directories, writing and removing: what a commit does to a tree of files.\<close>

section \<open>Paths\<close>

definition resolved :: "string \<Rightarrow> bool" where
  "resolved p \<longleftrightarrow> (\<exists>segs. p = abs_path segs \<and> list_all component segs)"

lemma resolved_resolve: "resolved (path_resolve cwd p)"
  unfolding resolved_def path_resolve_def by (intro exI[of _ "segs_of cwd p"]) (simp add: segs_components)

lemma parts_abs: "list_all component segs \<Longrightarrow> pathParts (abs_path segs) = segs"
proof -
  assume c: "list_all component segs"
  show ?thesis
  proof (cases "segs = []")
    case False
    have "split_on sep (js_join [sep] segs) = segs"
      using c False by (intro split_on_join) (auto simp: list_all_iff component_def)
    moreover have "filter (\<lambda>s. s \<noteq> []) segs = segs" using c by (auto simp: list_all_iff component_def intro: filter_True)
    ultimately show ?thesis by (simp add: pathParts_def abs_path_def)
  qed (simp add: pathParts_def abs_path_def)
qed

lemma parts_inject: "resolved p \<Longrightarrow> resolved q \<Longrightarrow> pathParts p = pathParts q \<longleftrightarrow> p = q"
  by (auto simp: resolved_def parts_abs)

lemma parts_dirname: "resolved p \<Longrightarrow> pathParts p \<noteq> [] \<Longrightarrow> pathParts (path_dirname p) = butlast (pathParts p)"
proof -
  assume "resolved p" "pathParts p \<noteq> []"
  then obtain segs where s: "p = abs_path segs" "list_all component segs" "segs \<noteq> []" by (auto simp: resolved_def parts_abs)
  then obtain xs x where "segs = xs @ [x]" by (cases segs rule: rev_cases) auto
  then show ?thesis using s dirname_abs[of x xs] by (simp add: parts_abs)
qed

section \<open>One write\<close>

lemma mkdir_append: "mkdirAll xs d = (Inr (), d1) \<Longrightarrow> mkdirAll (xs @ ys) d = mkdirAll ys d1"
  by (induction xs d rule: mkdirAll.induct) (auto split: option.splits DiskNode.splits)

lemma prefixes_snoc: "prefixesOf (ps @ [x]) = prefixesOf ps @ [ps @ [x]]"
proof -
  have "map (\<lambda>k. take k (ps @ [x])) [1..<Suc (length ps)] = map (\<lambda>k. take k ps) [1..<Suc (length ps)]" by (rule map_cong) auto
  then show ?thesis by (simp add: prefixesOf_def)
qed

lemma mkdir_ok:
  assumes "treeDisk d" "\<forall>q. prefix q ps \<longrightarrow> \<not> isFile d q"
  shows "\<exists>d'. mkdirAll (prefixesOf ps) d = (Inr (), d') \<and> treeDisk d' \<and> (\<forall>q. nodeAt d' q = (if prefix q ps then Some DirNode else nodeAt d q))"
  using assms(2)
proof (induction ps rule: rev_induct)
  case Nil
  then show ?case using assms(1) by (simp add: prefixesOf_def)
next
  case (snoc x ps)
  then obtain d1 where d1: "mkdirAll (prefixesOf ps) d = (Inr (), d1)" "treeDisk d1"
      "\<forall>q. nodeAt d1 q = (if prefix q ps then Some DirNode else nodeAt d q)" by (auto simp: prefix_snoc)
  let ?p = "ps @ [x]"
  have p: "nodeAt d1 ?p = nodeAt d ?p" using d1(3) by auto
  have nf: "\<not> isFile d ?p" using snoc.prems by simp
  show ?case
  proof (cases "nodeAt d ?p")
    case None
    have t: "treeDisk (jmap_set ?p DirNode d1)" using d1 by (intro tree_set) simp_all
    have "mkdirAll (prefixesOf ?p) d = (Inr (), jmap_set ?p DirNode d1)"
      by (simp add: prefixes_snoc mkdir_append[OF d1(1)] p None)
    then show ?thesis using t d1(3) by (intro exI[of _ "jmap_set ?p DirNode d1"]) (simp add: node_set prefix_snoc)
  next
    case (Some n)
    then have n: "n = DirNode" using nf by (cases n) (auto simp: isFile_def)
    have "mkdirAll (prefixesOf ?p) d = (Inr (), d1)" by (simp add: prefixes_snoc mkdir_append[OF d1(1)] p Some n)
    then show ?thesis using d1(2,3) Some n by (intro exI[of _ d1]) (auto simp: prefix_snoc)
  qed
qed

lemma strict_butlast: "ps \<noteq> [] \<Longrightarrow> prefix q (butlast ps) \<longleftrightarrow> strict_prefix q ps"
  by (cases ps rule: rev_cases) (auto simp: strict_prefix_def prefix_snoc)

definition writable :: "Disk \<Rightarrow> string list \<Rightarrow> bool" where
  "writable d ps \<longleftrightarrow> ps \<noteq> [] \<and> \<not> blockedBy d ps \<and> nodeAt d ps \<noteq> Some DirNode"

lemma write_ok:
  assumes "treeDisk d" "resolved p" "writable d (pathParts p)"
  shows "\<exists>d1 d2. fsMkdir d (path_dirname p) = (Inr (), d1) \<and> fsWrite d1 p c = (Inr (), d2) \<and> treeDisk d2
    \<and> (\<forall>q. nodeAt d2 q = (if q = pathParts p then Some (FileNode c) else if strict_prefix q (pathParts p) then Some DirNode else nodeAt d q))"
proof -
  let ?ps = "pathParts p"
  have ne: "?ps \<noteq> []" using assms(3) by (simp add: writable_def)
  have nf: "\<forall>q. prefix q (butlast ?ps) \<longrightarrow> \<not> isFile d q" using assms(3) ne by (simp add: strict_butlast writable_def blocked_iff)
  obtain d1 where d1: "mkdirAll (prefixesOf (butlast ?ps)) d = (Inr (), d1)" "treeDisk d1"
      "\<forall>q. nodeAt d1 q = (if prefix q (butlast ?ps) then Some DirNode else nodeAt d q)" using mkdir_ok[OF assms(1) nf] by blast
  have m: "fsMkdir d (path_dirname p) = (Inr (), d1)" using d1(1) parts_dirname[OF assms(2) ne] by (simp add: fsMkdir_def)
  have up: "nodeAt d1 (butlast ?ps) = Some DirNode" using d1(3) by simp
  have here: "nodeAt d1 ?ps = nodeAt d ?ps" using d1(3) ne by (simp add: strict_butlast)
  have "\<not> blockedBy d1 ?ps" using d1(3) ne by (auto simp: blocked_iff isFile_def strict_butlast)
  then have w: "fsWrite d1 p c = (Inr (), jmap_set ?ps (FileNode c) d1)" using up here assms(3) by (simp add: fsWrite_def Let_def writable_def)
  have "treeDisk (jmap_set ?ps (FileNode c) d1)" using d1(2) ne up here assms(3) by (intro tree_set) (simp_all add: writable_def)
  then show ?thesis using m w d1(3) ne by (intro exI[of _ d1] exI[of _ "jmap_set ?ps (FileNode c) d1"]) (simp add: node_set strict_butlast)
qed

section \<open>All writes\<close>

text \<open>No written path is inside another one.\<close>

definition apart :: "string list list \<Rightarrow> bool" where
  "apart pss \<longleftrightarrow> distinct pss \<and> (\<forall>p \<in> set pss. \<forall>q \<in> set pss. \<not> strict_prefix p q)"

lemma commit_writes:
  assumes "treeDisk d" "\<forall>w \<in> set ws. resolved (fst w) \<and> writable d (pathParts (fst w))" "apart (map (\<lambda>w. pathParts (fst w)) ws)"
  shows "\<exists>d'. commitWrites ws d = (Inr (), d') \<and> treeDisk d'
    \<and> (\<forall>q. nodeAt d' q = (case map_of (map (\<lambda>w. (pathParts (fst w), snd w)) ws) q of
          Some c \<Rightarrow> Some (FileNode c)
        | None \<Rightarrow> if \<exists>w \<in> set ws. strict_prefix q (pathParts (fst w)) then Some DirNode else nodeAt d q))"
  using assms
proof (induction ws arbitrary: d)
  case (Cons w ws)
  obtain p c where w: "w = (p, c)" by (cases w)
  let ?ps = "pathParts p"
  have rw: "resolved p" "writable d ?ps" using Cons.prems(2) by (simp_all add: w)
  obtain d1 d2 where s: "fsMkdir d (path_dirname p) = (Inr (), d1)" "fsWrite d1 p c = (Inr (), d2)" "treeDisk d2"
      and n: "\<forall>q. nodeAt d2 q = (if q = ?ps then Some (FileNode c) else if strict_prefix q ?ps then Some DirNode else nodeAt d q)"
    using write_ok[OF Cons.prems(1) rw] by blast
  have ap: "apart (map (\<lambda>w. pathParts (fst w)) ws)" using Cons.prems(3) by (auto simp: apart_def)
  have other: "\<not> strict_prefix ?ps (pathParts (fst v)) \<and> \<not> strict_prefix (pathParts (fst v)) ?ps \<and> pathParts (fst v) \<noteq> ?ps" if "v \<in> set ws" for v
  proof -
    have v: "pathParts (fst v) \<in> set (map (\<lambda>w. pathParts (fst w)) ws)" using that by simp
    have "distinct (?ps # map (\<lambda>w. pathParts (fst w)) ws)" using Cons.prems(3) by (simp add: apart_def w)
    then have "pathParts (fst v) \<noteq> ?ps" using v by (metis distinct.simps(2))
    moreover have "?ps \<in> set (map (\<lambda>w. pathParts (fst w)) (w # ws))" "pathParts (fst v) \<in> set (map (\<lambda>w. pathParts (fst w)) (w # ws))"
      using v by (simp_all add: w)
    then have "\<not> strict_prefix ?ps (pathParts (fst v)) \<and> \<not> strict_prefix (pathParts (fst v)) ?ps"
      using Cons.prems(3) unfolding apart_def by blast
    ultimately show ?thesis by simp
  qed
  have "resolved (fst v) \<and> writable d2 (pathParts (fst v))" if v: "v \<in> set ws" for v
  proof -
    have old: "resolved (fst v)" "writable d (pathParts (fst v))" using Cons.prems(2) v by simp_all
    have "\<not> isFile d2 q" if "strict_prefix q (pathParts (fst v))" for q
    proof -
      have "q \<noteq> ?ps" using that other[OF v] by blast
      then show ?thesis using that old n by (auto simp: writable_def blocked_iff isFile_def)
    qed
    then have "writable d2 (pathParts (fst v))" using old other[OF v] n by (auto simp: writable_def blocked_iff)
    then show ?thesis using old by simp
  qed
  then obtain d' where d': "commitWrites ws d2 = (Inr (), d')" "treeDisk d'"
      "\<forall>q. nodeAt d' q = (case map_of (map (\<lambda>w. (pathParts (fst w), snd w)) ws) q of
          Some c \<Rightarrow> Some (FileNode c)
        | None \<Rightarrow> if \<exists>w \<in> set ws. strict_prefix q (pathParts (fst w)) then Some DirNode else nodeAt d2 q)"
    using Cons.IH[OF s(3) _ ap] by blast
  have here: "map_of (map (\<lambda>w. (pathParts (fst w), snd w)) ws) ?ps = None" "\<not> (\<exists>v \<in> set ws. strict_prefix ?ps (pathParts (fst v)))"
    using other by (force simp: map_of_eq_None_iff)+
  have "nodeAt d' q = (case map_of (map (\<lambda>w. (pathParts (fst w), snd w)) (w # ws)) q of
          Some c \<Rightarrow> Some (FileNode c)
        | None \<Rightarrow> if \<exists>v \<in> set (w # ws). strict_prefix q (pathParts (fst v)) then Some DirNode else nodeAt d q)" for q
    using d'(3) n here by (cases "q = ?ps") (auto simp: w split: option.splits)
  then show ?case using s d'(1,2) by (simp add: w)
qed simp

section \<open>All deletes\<close>

lemma remove_ok:
  assumes "treeDisk d" "isFile d (pathParts p)"
  shows "\<exists>d'. fsRemove d p = (Inr (), d') \<and> treeDisk d' \<and> (\<forall>q. nodeAt d' q = (if q = pathParts p then None else nodeAt d q))"
proof -
  obtain c where c: "nodeAt d (pathParts p) = Some (FileNode c)" using assms(2) by (auto simp: isFile_def)
  then have ne: "pathParts p \<noteq> []" by (metis DiskNode.distinct(1) option.inject root_node)
  have "nodeAt d q = Some DirNode" if "strict_prefix q (pathParts p)" for q using tree_above[OF assms(1) _ that] c by simp
  then have "\<not> blockedBy d (pathParts p)" by (auto simp: blocked_iff isFile_def)
  then have "fsRemove d p = (Inr (), kv_delete (pathParts p) d)" by (simp add: fsRemove_def Let_def c)
  then show ?thesis using tree_delete[OF assms(1) ne assms(2)] node_delete[OF ne] by auto
qed

lemma commit_deletes:
  assumes "treeDisk d" "\<forall>p \<in> set ps. isFile d (pathParts p)" "distinct (map pathParts ps)"
  shows "\<exists>d'. commitDeletes ps d = (Inr (), d') \<and> treeDisk d' \<and> (\<forall>q. nodeAt d' q = (if q \<in> pathParts ` set ps then None else nodeAt d q))"
  using assms
proof (induction ps arbitrary: d)
  case (Cons p ps)
  then obtain d1 where d1: "fsRemove d p = (Inr (), d1)" "treeDisk d1" "\<forall>q. nodeAt d1 q = (if q = pathParts p then None else nodeAt d q)"
    using remove_ok[of d p] by auto
  have "isFile d1 (pathParts r)" if "r \<in> set ps" for r
  proof -
    have "pathParts r \<in> set (map pathParts ps)" "distinct (pathParts p # map pathParts ps)" using Cons.prems(3) that by simp_all
    then have "pathParts r \<noteq> pathParts p" by (metis distinct.simps(2))
    then show ?thesis using Cons.prems(2) d1(3) that by (simp add: isFile_def)
  qed
  then obtain d' where "commitDeletes ps d1 = (Inr (), d')" "treeDisk d'" "\<forall>q. nodeAt d' q = (if q \<in> pathParts ` set ps then None else nodeAt d1 q)"
    using Cons.IH[OF d1(2)] Cons.prems(3) by auto
  then show ?case using d1(1,3) by (intro exI[of _ d']) auto
qed simp

end
