(* ===== verification/PlanProps.thy ===== *)
theory PlanProps
  imports CommitProps
begin

text \<open>What a staged plan says of the disk it was built on, and that its commit does what the operations say.\<close>

section \<open>Staged operations\<close>

definition freePath :: "Disk \<Rightarrow> string \<Rightarrow> bool" where
  "freePath d p \<longleftrightarrow> \<not> blockedBy d (pathParts p) \<and> nodeAt d (pathParts p) = None"

definition presentText :: "Disk \<Rightarrow> string \<Rightarrow> string \<Rightarrow> bool" where
  "presentText d p c \<longleftrightarrow> \<not> blockedBy d (pathParts p) \<and> nodeAt d (pathParts p) = Some (FileNode c)"

definition stagedOp :: "EditHost \<Rightarrow> Disk \<Rightarrow> PatchOp \<Rightarrow> (string \<times> string) list \<Rightarrow> string list \<Rightarrow> bool" where
  "stagedOp eh d op ws ds = (case op of
      AddOp pf ls \<Rightarrow> freePath d (pp_absolute pf) \<and> ws = [(pp_absolute pf, renderAddedFile ls)] \<and> ds = []
    | DeleteOp pf \<Rightarrow> (\<exists>c. presentText d (pp_absolute pf) c) \<and> ws = [] \<and> ds = [pp_absolute pf]
    | UpdateOp pf _ hunks \<Rightarrow> (\<exists>c applied. presentText d (pp_absolute pf) c \<and> applyHunksToText eh c hunks (pp_raw pf) = Inr applied
        \<and> (case movesTo op of
             None \<Rightarrow> ws = [(pp_absolute pf, ah_next applied)] \<and> ds = []
           | Some m \<Rightarrow> freePath d (pp_absolute m) \<and> ws = [(pp_absolute m, ah_next applied)] \<and> ds = [pp_absolute pf])))"

lemma stat_some: "maybeStat d p = Inr (Some n) \<longleftrightarrow> \<not> blockedBy d (pathParts p) \<and> nodeAt d (pathParts p) = Some n"
  by (auto simp: maybeStat_def fsStat_def Let_def split: option.splits)

lemma stat_none: "maybeStat d p = Inr None \<longleftrightarrow> freePath d p"
  by (auto simp: maybeStat_def fsStat_def freePath_def Let_def split: option.splits)

lemma read_present: "fsRead d p = Inr c \<longleftrightarrow> presentText d p c"
  by (auto simp: fsRead_def fsStat_def presentText_def Let_def bind_result_eq_Inr split: option.splits DiskNode.splits)

lemma touched_simps [simp]: "sp_writes (addTouched pf plan) = sp_writes plan" "sp_deletes (addTouched pf plan) = sp_deletes plan"
  by (simp_all add: addTouched_def)

lemma stage_op:
  assumes "stageOp eh d op plan = Inr plan'"
  shows "\<exists>ws ds. stagedOp eh d op ws ds \<and> sp_writes plan' = sp_writes plan @ ws \<and> sp_deletes plan' = sp_deletes plan @ ds"
proof (cases op)
  case (AddOp pf ls)
  then show ?thesis using assms by (auto simp: stageOp_def stagedOp_def bind_result_eq_Inr stat_none Let_def split: if_splits)
next
  case (DeleteOp pf)
  then show ?thesis using assms by (auto simp: stageOp_def stagedOp_def bind_result_eq_Inr read_present)
next
  case (UpdateOp pf to hunks)
  obtain c applied where s: "presentText d (pp_absolute pf) c" "applyHunksToText eh c hunks (pp_raw pf) = Inr applied"
      and m: "\<And>t. movesTo op = Some t \<Longrightarrow> freePath d (pp_absolute t)"
    using assms by (auto simp: UpdateOp stageOp_def bind_result_eq_Inr read_present stat_none split: option.splits if_splits)
  have r: "fsRead d (pp_absolute pf) = Inr c" using s(1) by (simp add: read_present)
  obtain a where a: "existingFile ''update'' d pf = Inr a" using assms by (auto simp: UpdateOp stageOp_def bind_result_eq_Inr)
  show ?thesis
  proof (cases "movesTo op")
    case None
    have "stagedOp eh d op [(pp_absolute pf, ah_next applied)] []" using None s unfolding UpdateOp stagedOp_def by auto
    moreover have "sp_writes plan' = sp_writes plan @ [(pp_absolute pf, ah_next applied)] \<and> sp_deletes plan' = sp_deletes plan @ []"
      using assms None r s(2) a by (auto simp: UpdateOp stageOp_def bind_result_eq_Inr Let_def)
    ultimately show ?thesis by blast
  next
    case (Some t)
    have "stagedOp eh d op [(pp_absolute t, ah_next applied)] [pp_absolute pf]"
      using Some s m[OF Some] unfolding UpdateOp stagedOp_def by auto
    moreover have "sp_writes plan' = sp_writes plan @ [(pp_absolute t, ah_next applied)] \<and> sp_deletes plan' = sp_deletes plan @ [pp_absolute pf]"
      using assms Some r s(2) a by (auto simp: UpdateOp stageOp_def bind_result_eq_Inr Let_def split: if_splits)
    ultimately show ?thesis by blast
  qed
qed

lemma stage_ops:
  "stageOps eh d ops plan = Inr plan' \<Longrightarrow> \<exists>wss. length wss = length ops \<and> list_all2 (\<lambda>op w. stagedOp eh d op (fst w) (snd w)) ops wss
    \<and> sp_writes plan' = sp_writes plan @ concat (map fst wss) \<and> sp_deletes plan' = sp_deletes plan @ concat (map snd wss)"
proof (induction ops arbitrary: plan)
  case (Cons op ops)
  then obtain plan1 where p: "stageOp eh d op plan = Inr plan1" "stageOps eh d ops plan1 = Inr plan'" by (auto simp: bind_result_eq_Inr)
  obtain ws ds where o: "stagedOp eh d op ws ds" "sp_writes plan1 = sp_writes plan @ ws" "sp_deletes plan1 = sp_deletes plan @ ds"
    using stage_op[OF p(1)] by blast
  obtain wss where "length wss = length ops" "list_all2 (\<lambda>op w. stagedOp eh d op (fst w) (snd w)) ops wss"
    "sp_writes plan' = sp_writes plan1 @ concat (map fst wss)" "sp_deletes plan' = sp_deletes plan1 @ concat (map snd wss)"
    using Cons.IH[OF p(2)] by blast
  then show ?case using o by (intro exI[of _ "(ws, ds) # wss"]) simp
qed simp

section \<open>Distinct paths\<close>

definition touchedBy :: "PatchOp \<Rightarrow> string list" where
  "touchedBy op = map pp_absolute (opPaths op)"

lemma no_duplicates:
  "checkDuplicates cwd seen pfs = Inr () \<Longrightarrow> \<forall>pf \<in> set pfs. path_resolve cwd (pp_absolute pf) = pp_absolute pf \<Longrightarrow>
    distinct (map pp_absolute pfs) \<and> set seen \<inter> set (map pp_absolute pfs) = {}"
  by (induction cwd seen pfs rule: checkDuplicates.induct) (auto simp: Let_def split: if_splits)

lemma staged_touched:
  "stagedOp eh d op ws ds \<Longrightarrow> mset (map fst ws @ ds) = mset (touchedBy op)"
  by (cases op) (auto simp: stagedOp_def touchedBy_def opPaths_def movesTo_def split: option.splits if_splits)

lemma staged_all_touched:
  "list_all2 (\<lambda>op w. stagedOp eh d op (fst w) (snd w)) ops wss \<Longrightarrow>
    mset (map fst (concat (map fst wss)) @ concat (map snd wss)) = mset (concat (map touchedBy ops))"
proof (induction ops wss rule: list_all2_induct)
  case (Cons op ops w wss)
  have "mset (touchedBy op) = mset (map fst (fst w)) + mset (snd w)" using staged_touched[OF Cons(1)] by simp
  then show ?case using Cons(3) by (simp add: ac_simps)
qed simp

text \<open>What an operation leaves on the disk.\<close>

definition opDone :: "EditHost \<Rightarrow> Disk \<Rightarrow> Disk \<Rightarrow> PatchOp \<Rightarrow> bool" where
  "opDone eh d d' op = (let here = (\<lambda>disk pf. fileText disk (pathParts (pp_absolute pf))) in case op of
      AddOp pf ls \<Rightarrow> here d pf = None \<and> here d' pf = Some (renderAddedFile ls)
    | DeleteOp pf \<Rightarrow> here d pf \<noteq> None \<and> here d' pf = None
    | UpdateOp pf _ hunks \<Rightarrow> (\<exists>c applied. here d pf = Some c \<and> applyHunksToText eh c hunks (pp_raw pf) = Inr applied
        \<and> (case movesTo op of
             None \<Rightarrow> here d' pf = Some (ah_next applied)
           | Some to \<Rightarrow> here d to = None \<and> here d' to = Some (ah_next applied) \<and> here d' pf = None)))"

text \<open>The writes of a plan are not inside each other.\<close>

definition writtenPaths :: "PatchOp list \<Rightarrow> string list" where
  "writtenPaths ops = concat (map (\<lambda>op. case op of
      AddOp pf _ \<Rightarrow> [pp_absolute pf]
    | DeleteOp _ \<Rightarrow> []
    | UpdateOp pf _ _ \<Rightarrow> [case movesTo op of None \<Rightarrow> pp_absolute pf | Some to \<Rightarrow> pp_absolute to]) ops)"

definition noNesting :: "PatchOp list \<Rightarrow> bool" where
  "noNesting ops \<longleftrightarrow> (\<forall>p \<in> set (writtenPaths ops). \<forall>q \<in> set (writtenPaths ops). \<not> strict_prefix (pathParts p) (pathParts q))"

lemma staged_written:
  "list_all2 (\<lambda>op w. stagedOp eh d op (fst w) (snd w)) ops wss \<Longrightarrow> map fst (concat (map fst wss)) = writtenPaths ops"
proof (induction ops wss rule: list_all2_induct)
  case (Cons op ops w wss)
  then show ?case by (cases op) (auto simp: stagedOp_def writtenPaths_def split: option.splits)
qed (simp add: writtenPaths_def)

definition resolvedOps :: "Host \<Rightarrow> PatchOp list \<Rightarrow> bool" where
  "resolvedOps h ops \<longleftrightarrow> (\<forall>p \<in> set (concat (map touchedBy ops)). resolved p \<and> path_resolve (h_cwd h) p = p)"

lemma staged_facts:
  "stagedOp eh d op ws ds \<Longrightarrow> (\<forall>w \<in> set ws. writable d (pathParts (fst w))) \<and> (\<forall>p \<in> set ds. isFile d (pathParts p))"
proof -
  assume a: "stagedOp eh d op ws ds"
  have "writable d (pathParts p)" if "freePath d p" for p using that by (auto simp: writable_def freePath_def)
  moreover have "writable d (pathParts p)" if "presentText d p c" for p c using that by (auto simp: writable_def presentText_def)
  moreover have "isFile d (pathParts p)" if "presentText d p c" for p c using that by (auto simp: presentText_def isFile_def)
  ultimately show ?thesis using a by (cases op) (auto simp: stagedOp_def split: option.splits)
qed

lemma staged_all_facts:
  "list_all2 (\<lambda>op w. stagedOp eh d op (fst w) (snd w)) ops wss \<Longrightarrow>
    (\<forall>w \<in> set (concat (map fst wss)). writable d (pathParts (fst w))) \<and> (\<forall>p \<in> set (concat (map snd wss)). isFile d (pathParts p))"
proof (induction ops wss rule: list_all2_induct)
  case (Cons op ops w wss)
  then show ?case using staged_facts[OF Cons(1)] by auto
qed simp

lemma text_iff: "fileText d q = (case nodeAt d q of Some (FileNode c) \<Rightarrow> Some c | _ \<Rightarrow> None)" "fileText d q = None \<longleftrightarrow> \<not> isFile d q"
  "fileText d q = Some c \<longleftrightarrow> nodeAt d q = Some (FileNode c)"
  by (auto simp: fileText_def isFile_def split: option.splits DiskNode.splits)

lemma opDone_staged:
  assumes st: "stagedOp eh d op ws ds"
    and on: "\<And>p c. (p, c) \<in> set ws \<Longrightarrow> fileText d' (pathParts p) = Some c"
    and off: "\<And>p. p \<in> set ds \<Longrightarrow> fileText d' (pathParts p) = None"
  shows "opDone eh d d' op"
proof -
  have present: "fileText d (pathParts p) = Some c" if "presentText d p c" for p c using that by (simp add: presentText_def text_iff(3))
  have free: "fileText d (pathParts p) = None" if "freePath d p" for p using that by (simp add: freePath_def text_iff(1))
  show ?thesis
  proof (cases op)
    case (AddOp pf ls)
    then show ?thesis using st on free by (simp add: stagedOp_def opDone_def)
  next
    case (DeleteOp pf)
    then show ?thesis using st off present by (auto simp: stagedOp_def opDone_def)
  next
    case (UpdateOp pf to hunks)
    then obtain c applied where c: "presentText d (pp_absolute pf) c" "applyHunksToText eh c hunks (pp_raw pf) = Inr applied"
        and m: "case movesTo op of
             None \<Rightarrow> ws = [(pp_absolute pf, ah_next applied)] \<and> ds = []
           | Some m \<Rightarrow> freePath d (pp_absolute m) \<and> ws = [(pp_absolute m, ah_next applied)] \<and> ds = [pp_absolute pf]"
      using st by (auto simp: stagedOp_def)
    have "case movesTo op of
             None \<Rightarrow> fileText d' (pathParts (pp_absolute pf)) = Some (ah_next applied)
           | Some m \<Rightarrow> fileText d (pathParts (pp_absolute m)) = None \<and> fileText d' (pathParts (pp_absolute m)) = Some (ah_next applied)
               \<and> fileText d' (pathParts (pp_absolute pf)) = None"
      using m on off free by (simp split: option.splits)
    then show ?thesis using present[OF c(1)] c(2) by (auto simp: opDone_def UpdateOp Let_def)
  qed
qed

text \<open>Writes to distinct paths outside each other, then deletes of files.\<close>

lemma commit_texts:
  assumes tree: "treeDisk d" and ws: "\<forall>w \<in> set ws. resolved (fst w) \<and> writable d (pathParts (fst w))"
    and ds: "\<forall>p \<in> set ds. isFile d (pathParts p)" and dist: "distinct (map pathParts (map fst ws @ ds))"
    and nest: "\<forall>p \<in> set (map fst ws). \<forall>q \<in> set (map fst ws). \<not> strict_prefix (pathParts p) (pathParts q)"
  shows "\<exists>d1 d'. commitWrites ws d = (Inr (), d1) \<and> commitDeletes ds d1 = (Inr (), d') \<and> treeDisk d'
    \<and> (\<forall>q. fileText d' q = (if q \<in> pathParts ` set ds then None
         else case map_of (map (\<lambda>w. (pathParts (fst w), snd w)) ws) q of Some c \<Rightarrow> Some c | None \<Rightarrow> fileText d q))"
proof -
  let ?W = "map (\<lambda>w. (pathParts (fst w), snd w)) ws"
  have "distinct (map (\<lambda>w. pathParts (fst w)) ws)" using dist by (simp add: comp_def)
  then have ap: "apart (map (\<lambda>w. pathParts (fst w)) ws)" using nest by (auto simp: apart_def)
  obtain d1 where d1: "commitWrites ws d = (Inr (), d1)" "treeDisk d1"
      and n1: "\<forall>q. nodeAt d1 q = (case map_of ?W q of Some c \<Rightarrow> Some (FileNode c)
        | None \<Rightarrow> if \<exists>w \<in> set ws. strict_prefix q (pathParts (fst w)) then Some DirNode else nodeAt d q)"
    using commit_writes[OF tree ws ap] by blast
  have above: "\<not> isFile d q" if "w \<in> set ws" "strict_prefix q (pathParts (fst w))" for w q
    using ws that unfolding writable_def blocked_iff by blast
  have "isFile d1 (pathParts p)" if p: "p \<in> set ds" for p
  proof -
    have f: "isFile d (pathParts p)" using ds p by blast
    have "pathParts p \<notin> set (map pathParts (map fst ws))"
    proof
      assume "pathParts p \<in> set (map pathParts (map fst ws))"
      moreover have "pathParts p \<in> set (map pathParts ds)" using p by simp
      ultimately show False using dist by (simp only: map_append distinct_append) blast
    qed
    then have "pathParts p \<notin> fst ` set ?W" by (simp add: image_image)
    then have "map_of ?W (pathParts p) = None" by (simp add: map_of_eq_None_iff)
    then have "nodeAt d1 (pathParts p) = nodeAt d (pathParts p)" using n1 above f by auto
    then show ?thesis using f by (simp add: isFile_def)
  qed
  moreover have "distinct (map pathParts ds)" using dist by simp
  ultimately obtain d' where d': "commitDeletes ds d1 = (Inr (), d')" "treeDisk d'"
      "\<forall>q. nodeAt d' q = (if q \<in> pathParts ` set ds then None else nodeAt d1 q)" using commit_deletes[OF d1(2)] by blast
  have "fileText d' q = (if q \<in> pathParts ` set ds then None else case map_of ?W q of Some c \<Rightarrow> Some c | None \<Rightarrow> fileText d q)" for q
  proof (cases "q \<in> pathParts ` set ds")
    case True
    then show ?thesis using d'(3) by (simp add: text_iff(1))
  next
    case False
    then have "nodeAt d' q = nodeAt d1 q" using d'(3) by simp
    moreover have "fileText d1 q = (case map_of ?W q of Some c \<Rightarrow> Some c | None \<Rightarrow> fileText d q)"
    proof (cases "map_of ?W q")
      case None
      show ?thesis
      proof (cases "\<exists>w \<in> set ws. strict_prefix q (pathParts (fst w))")
        case True
        then have "\<not> isFile d q" using above by blast
        then have "fileText d q = None" by (simp add: text_iff(2))
        moreover have "nodeAt d1 q = Some DirNode" using n1 None True by simp
        ultimately show ?thesis using None by (simp add: text_iff(1))
      next
        case no: False
        have "nodeAt d1 q = nodeAt d q" using n1 None no by simp
        then show ?thesis using None by (simp add: text_iff(1))
      qed
    next
      case (Some c)
      then show ?thesis using n1 by (simp add: text_iff(1))
    qed
    ultimately show ?thesis using False by (simp add: text_iff(1))
  qed
  then show ?thesis using d1(1) d' by blast
qed

lemma list_all2_partner: "list_all2 P xs ys \<Longrightarrow> x \<in> set xs \<Longrightarrow> \<exists>y \<in> set ys. P x y"
  by (induction xs ys rule: list_all2_induct) auto

theorem commit_does_ops:
  assumes tree: "treeDisk d" and plan: "buildStagedPatchPlan h eh d ops = Inr plan" and res: "resolvedOps h ops" and nest: "noNesting ops"
  shows "\<exists>d'. commitStagedPatchPlan plan d = (Inr (), d') \<and> treeDisk d' \<and> (\<forall>op \<in> set ops. opDone eh d d' op)
    \<and> (\<forall>q. q \<notin> pathParts ` set (concat (map touchedBy ops)) \<longrightarrow> fileText d' q = fileText d q)"
proof -
  obtain wss where w: "list_all2 (\<lambda>op w. stagedOp eh d op (fst w) (snd w)) ops wss"
      "sp_writes plan = concat (map fst wss)" "sp_deletes plan = concat (map snd wss)"
    using plan stage_ops[of eh d ops emptyPlan plan] by (auto simp: buildStagedPatchPlan_def bind_result_eq_Inr emptyPlan_def)
  let ?ws = "sp_writes plan" and ?ds = "sp_deletes plan" and ?all = "concat (map touchedBy ops)"
  have all: "mset (map fst ?ws @ ?ds) = mset ?all" using staged_all_touched[OF w(1)] by (simp add: w)
  then have sets: "set (map fst ?ws) \<union> set ?ds = set ?all" by (metis mset_eq_setD set_append)
  have "touchedBy = (\<lambda>op. map pp_absolute (opPaths op))" by (simp add: fun_eq_iff touchedBy_def)
  then have "map pp_absolute (concat (map opPaths ops)) = ?all" by (simp add: map_concat comp_def)
  moreover have "\<forall>pf \<in> set (concat (map opPaths ops)). path_resolve (h_cwd h) (pp_absolute pf) = pp_absolute pf"
    using res by (auto simp: resolvedOps_def touchedBy_def)
  ultimately have "distinct ?all" using plan no_duplicates[of "h_cwd h" "[]" "concat (map opPaths ops)"]
    by (simp add: buildStagedPatchPlan_def ensureNoDuplicateTouchedPaths_def bind_result_eq_Inr)
  then have dist: "distinct (map fst ?ws @ ?ds)" using all by (metis mset_eq_imp_distinct_iff)
  have inj: "inj_on pathParts (set ?all)" using res by (auto simp: inj_on_def resolvedOps_def parts_inject)
  have dparts: "distinct (map pathParts (map fst ?ws @ ?ds))"
    using dist inj sets by (subst distinct_map) (simp add: Un_commute)
  have facts: "(\<forall>v \<in> set ?ws. writable d (pathParts (fst v))) \<and> (\<forall>p \<in> set ?ds. isFile d (pathParts p))"
    using staged_all_facts[OF w(1)] by (simp add: w)
  have "resolved (fst v)" if "v \<in> set ?ws" for v
  proof -
    have "fst v \<in> set (map fst ?ws)" using that by simp
    then have "fst v \<in> set ?all" using sets by blast
    then show ?thesis using res unfolding resolvedOps_def by blast
  qed
  moreover have "map fst ?ws = writtenPaths ops" using staged_written[OF w(1)] by (simp add: w)
  ultimately obtain d1 d' where c: "commitWrites ?ws d = (Inr (), d1)" "commitDeletes ?ds d1 = (Inr (), d')" "treeDisk d'"
      and t: "\<And>q. fileText d' q = (if q \<in> pathParts ` set ?ds then None
         else case map_of (map (\<lambda>w. (pathParts (fst w), snd w)) ?ws) q of Some c \<Rightarrow> Some c | None \<Rightarrow> fileText d q)"
    using commit_texts[OF tree _ _ dparts] facts nest by (auto simp: noNesting_def)
  have written: "fileText d' (pathParts p) = Some c" if "(p, c) \<in> set ?ws" for p c
  proof -
    have "distinct (map fst (map (\<lambda>w. (pathParts (fst w), snd w)) ?ws))" using dparts by (simp add: comp_def)
    moreover have "(pathParts p, c) \<in> set (map (\<lambda>w. (pathParts (fst w), snd w)) ?ws)" using that by force
    ultimately have m: "map_of (map (\<lambda>w. (pathParts (fst w), snd w)) ?ws) (pathParts p) = Some c" by (rule map_of_is_SomeI)
    have "pathParts p \<in> set (map pathParts (map fst ?ws))" using that by force
    then have "pathParts p \<notin> set (map pathParts ?ds)" using dparts by (simp only: map_append distinct_append) blast
    then show ?thesis using m t by simp
  qed
  have gone: "fileText d' (pathParts p) = None" if "p \<in> set ?ds" for p using that t by simp
  have "opDone eh d d' op" if o: "op \<in> set ops" for op
  proof -
    obtain v where v: "v \<in> set wss" "stagedOp eh d op (fst v) (snd v)" using list_all2_partner[OF w(1) o] by blast
    have "\<forall>x \<in> set (fst v). x \<in> set ?ws" "\<forall>x \<in> set (snd v). x \<in> set ?ds" using v(1) by (auto simp: w)
    then have v_on: "\<And>p c. (p, c) \<in> set (fst v) \<Longrightarrow> fileText d' (pathParts p) = Some c"
        and v_off: "\<And>p. p \<in> set (snd v) \<Longrightarrow> fileText d' (pathParts p) = None"
      using written gone by blast+
    show ?thesis using opDone_staged[OF v(2) v_on v_off] .
  qed
  moreover have "fileText d' q = fileText d q" if "q \<notin> pathParts ` set ?all" for q
  proof -
    have "q \<notin> pathParts ` set ?ds" "q \<notin> pathParts ` set (map fst ?ws)" using that sets by blast+
    moreover from this(2) have "map_of (map (\<lambda>w. (pathParts (fst w), snd w)) ?ws) q = None"
      by (simp add: map_of_eq_None_iff image_image)
    ultimately show ?thesis using t by simp
  qed
  ultimately show ?thesis using c by (auto simp: commitStagedPatchPlan_def)
qed

end
