(* ===== verification/PatchTool.thy ===== *)
theory PatchTool
  imports PlanProps
begin

text \<open>The patch tool as a whole: every patch that parses is resolved, and is either done or not done.\<close>

definition resolvedPatchPath :: "Host \<Rightarrow> PatchPath \<Rightarrow> bool" where
  "resolvedPatchPath h pf \<longleftrightarrow> (\<exists>p. pp_absolute pf = path_resolve (h_cwd h) p)"

definition resolvedOp :: "Host \<Rightarrow> PatchOp \<Rightarrow> bool" where
  "resolvedOp h op \<longleftrightarrow> resolvedPatchPath h (op_file op)
     \<and> (case op of UpdateOp _ (Some to) _ \<Rightarrow> resolvedPatchPath h to | _ \<Rightarrow> True)"

lemma resolved_target: "normalizePatchTarget h eh w p = Inr pf \<Longrightarrow> resolvedPatchPath h pf"
  unfolding normalizePatchTarget_def resolvedPatchPath_def resolveToolPath_def path_resolve2_def Let_def
  by (cases "js_trim p = []") auto

lemma resolved_move:
  assumes "parseUpdateFile h eh w pf rows = Inr (Some to, hs, rest)"
  shows "resolvedPatchPath h to"
  using assms resolved_target[of h eh w _ to]
  by (cases rows) (auto simp: parseUpdateFile_def bind_result_eq_Inr split: if_splits)

lemma resolved_ops: "parseOps h eh w rows = Inr (ops, after) \<Longrightarrow> \<forall>op \<in> set ops. resolvedOp h op"
proof (induction h eh w rows arbitrary: ops rule: parseOps.induct)
  case (2 h eh w line rows)
  show ?case
  proof (cases "line = ''*** End Patch''")
    case False
    note line = this
    show ?thesis
    proof (cases "starts_with ''*** Add File: '' line")
      case True
      then obtain pf content rest ops' where s: "normalizePatchTarget h eh w (drop (length ''*** Add File: '') line) = Inr pf"
          "parseAddFile pf rows = Inr (content, rest)" "parseOps h eh w rest = Inr (ops', after)" "ops = AddOp pf content # ops'"
        using 2(5) line by (auto simp: parseOps.simps(2) bind_result_eq_Inr split: sum.splits)
      then show ?thesis using 2(1)[OF line True s(1) s(2) refl s(3)] resolved_target[OF s(1)] by (simp add: resolvedOp_def)
    next
      case add: False
      show ?thesis
      proof (cases "starts_with ''*** Delete File: '' line")
        case True
        then obtain pf ops' where s: "normalizePatchTarget h eh w (drop (length ''*** Delete File: '') line) = Inr pf"
            "parseOps h eh w rows = Inr (ops', after)" "ops = DeleteOp pf # ops'"
          using 2(5) line add by (auto simp: parseOps.simps(2) bind_result_eq_Inr split: sum.splits)
        then show ?thesis using 2(2)[OF line add True s(1) s(2)] resolved_target[OF s(1)] by (simp add: resolvedOp_def)
      next
        case del: False
        show ?thesis
        proof (cases "starts_with ''*** Update File: '' line")
          case True
          then obtain pf to hs rest ops' where s: "normalizePatchTarget h eh w (drop (length ''*** Update File: '') line) = Inr pf"
              "parseUpdateFile h eh w pf rows = Inr (to, hs, rest)" "parseOps h eh w rest = Inr (ops', after)" "ops = UpdateOp pf to hs # ops'"
            using 2(5) line add del by (auto simp: parseOps.simps(2) bind_result_eq_Inr split: sum.splits)
          have "case to of Some p \<Rightarrow> resolvedPatchPath h p | None \<Rightarrow> True"
            using s(2) by (cases to) (auto intro: resolved_move)
          then show ?thesis using 2(3)[OF line add del True s(1) s(2) refl refl s(3)] resolved_target[OF s(1)]
            by (cases to) (simp_all add: s(4) resolvedOp_def)
        next
          case upd: False
          then have b: "js_trim line = []" "parseOps h eh w rows = Inr (ops, after)"
            using 2(5) line add del by (auto simp: parseOps.simps(2) split: if_splits)
          show ?thesis using 2(4)[OF line add del upd b] .
        qed
      qed
    qed
  qed (use 2(5) in \<open>simp add: parseOps.simps(2)\<close>)
qed simp

lemma parsed_resolved:
  assumes "parsePatch h eh txt w = Inr ops"
  shows "resolvedOps h ops"
proof -
  obtain rows after where "parseOps h eh w rows = Inr (ops, after)"
    using assms by (auto simp: parsePatch_def bind_result_eq_Inr split: list.splits if_splits option.splits)
  then have r: "\<forall>op \<in> set ops. resolvedOp h op" by (rule resolved_ops)
  have ok: "resolved (pp_absolute pf) \<and> path_resolve (h_cwd h) (pp_absolute pf) = pp_absolute pf" if "resolvedPatchPath h pf" for pf
    using that by (auto simp: resolvedPatchPath_def resolved_resolve)
  have "resolved p \<and> path_resolve (h_cwd h) p = p" if "op \<in> set ops" "p \<in> set (touchedBy op)" for op p
  proof -
    have "p = pp_absolute (op_file op) \<or> (\<exists>pf to hs. op = UpdateOp pf (Some to) hs \<and> p = pp_absolute to)"
      using that(2) by (cases op) (auto simp: touchedBy_def opPaths_def movesTo_def split: option.splits if_splits)
    then show ?thesis
    proof
      assume "p = pp_absolute (op_file op)"
      then show ?thesis using r that(1) ok by (simp add: resolvedOp_def)
    next
      assume "\<exists>pf to hs. op = UpdateOp pf (Some to) hs \<and> p = pp_absolute to"
      then obtain pf to hs where o: "op = UpdateOp pf (Some to) hs" "p = pp_absolute to" by blast
      have "resolvedOp h op" using r that(1) by blast
      then show ?thesis using ok by (simp add: o resolvedOp_def)
    qed
  qed
  then show ?thesis unfolding resolvedOps_def by auto
qed

text \<open>The text of the patch in the input of the tool.\<close>

definition patchTextOf :: "Host \<Rightarrow> jsv \<Rightarrow> string" where
  "patchTextOf h input = inputText h (coalesce (js_prop input ''patchText'') (js_prop input ''patch''))"

text \<open>What a call of the tool can be.\<close>

lemma patch_call:
  assumes call: "applyPatchCoreLogic h eh now input (rt, d) = (out, rt', d')" and wd: "workDirOf rt = Some w"
    and some: "js_trim (patchTextOf h input) \<noteq> []" and parse: "parsePatch h eh (patchTextOf h input) w = Inr ops"
  shows "ensurePatchPermissions h now (js_prop input ''scopeIntent'') (concat (map opTargets ops)) rt = (Some out, rt') \<and> d' = d
    \<or> ensurePatchPermissions h now (js_prop input ''scopeIntent'') (concat (map opTargets ops)) rt = (None, rt') \<and>
      ((\<exists>detail. buildStagedPatchPlan h eh d ops = Inl detail \<and> out = patchFailed eh ops detail \<and> d' = d)
      \<or> (\<exists>plan. buildStagedPatchPlan h eh d ops = Inr plan \<and>
          ((\<exists>detail. commitStagedPatchPlan plan d = (Inl detail, d') \<and> out = patchFailed eh ops detail)
          \<or> commitStagedPatchPlan plan d = (Inr (), d') \<and> out = patchSucceeded eh ops plan)))"
proof -
  obtain po rt1 where p: "ensurePatchPermissions h now (js_prop input ''scopeIntent'') (concat (map opTargets ops)) rt = (po, rt1)"
    by (cases "ensurePatchPermissions h now (js_prop input ''scopeIntent'') (concat (map opTargets ops)) rt")
  note run = call wd some parse p
  show ?thesis
  proof (cases po)
    case (Some refusal)
    then show ?thesis using run by (simp add: applyPatchCoreLogic_def patchTextOf_def Let_def)
  next
    case po: None
    show ?thesis
    proof (cases "buildStagedPatchPlan h eh d ops")
      case (Inl e)
      then show ?thesis using run po by (simp add: applyPatchCoreLogic_def patchTextOf_def Let_def)
    next
      case plan: (Inr plan)
      obtain r d1 where c: "commitStagedPatchPlan plan d = (r, d1)" by (cases "commitStagedPatchPlan plan d")
      show ?thesis
      proof (cases r)
        case (Inl e)
        then show ?thesis using run po plan c by (simp add: applyPatchCoreLogic_def patchTextOf_def Let_def)
      next
        case (Inr u)
        then show ?thesis using run po plan c by (simp add: applyPatchCoreLogic_def patchTextOf_def Let_def)
      qed
    qed
  qed
qed

end
