(* ===== verification/PatchToolClaims.thy ===== *)
theory PatchToolClaims
  imports PatchTool
begin

text \<open>What a call of the patch tool leaves on the disk.\<close>

text \<open>C33: a patch without nested new files is done as a whole or not at all. If the tool reports success, every operation has been
  done - new files hold their lines, deleted files are gone, updated ones hold the patched text of what they held, moved ones do
  so at their destination and are gone - and no other file has changed; otherwise the disk is untouched and the tool reports a
  refused permission or a failed patch.\<close>

theorem patch_done_or_untouched:
  assumes "treeDisk d" and "noNesting ops" and "workDirOf rt = Some w" and "js_trim (patchTextOf h input) \<noteq> []"
    and "parsePatch h eh (patchTextOf h input) w = Inr ops" and "applyPatchCoreLogic h eh now input (rt, d) = (out, rt', d')"
  shows "(\<exists>plan. out = patchSucceeded eh ops plan \<and> treeDisk d' \<and> (\<forall>op \<in> set ops. opDone eh d d' op)
      \<and> (\<forall>q. q \<in> pathParts ` set (concat (map touchedBy ops)) \<or> fileText d' q = fileText d q))
    \<or> d' = d \<and> (\<exists>detail. out = patchFailed eh ops detail)
    \<or> d' = d \<and> fst (ensurePatchPermissions h now (js_prop input ''scopeIntent'') (concat (map opTargets ops)) rt) = Some out"
proof -
  have fin: "\<exists>d1. commitStagedPatchPlan plan d = (Inr (), d1) \<and> treeDisk d1 \<and> (\<forall>op \<in> set ops. opDone eh d d1 op)
      \<and> (\<forall>q. q \<notin> pathParts ` set (concat (map touchedBy ops)) \<longrightarrow> fileText d1 q = fileText d q)"
    if "buildStagedPatchPlan h eh d ops = Inr plan" for plan
    by (rule commit_does_ops[OF assms(1) that parsed_resolved[OF assms(5)] assms(2)])
  consider (refused) "ensurePatchPermissions h now (js_prop input ''scopeIntent'') (concat (map opTargets ops)) rt = (Some out, rt')" "d' = d"
    | (failed) detail where "out = patchFailed eh ops detail" "d' = d"
    | (committed) plan where "buildStagedPatchPlan h eh d ops = Inr plan"
        "(\<exists>detail. commitStagedPatchPlan plan d = (Inl detail, d')) \<or> commitStagedPatchPlan plan d = (Inr (), d') \<and> out = patchSucceeded eh ops plan"
    using patch_call[OF assms(6,3,4,5)] by blast
  then show ?thesis
  proof cases
    case refused
    then show ?thesis by simp
  next
    case failed
    then show ?thesis by blast
  next
    case committed
    then have "commitStagedPatchPlan plan d = (Inr (), d')" "out = patchSucceeded eh ops plan" using fin[OF committed(1)] by auto
    then show ?thesis using fin[OF committed(1)] by auto
  qed
qed

section \<open>New files inside each other\<close>

lemma mkdir_file:
  "mkdirAll pss d = (r, d') \<Longrightarrow> (\<forall>q. nodeAt d q \<noteq> None \<longrightarrow> nodeAt d' q = nodeAt d q) \<and> ((\<exists>ps \<in> set pss. isFile d ps) \<longrightarrow> (\<exists>e. r = Inl e))"
proof (induction pss d arbitrary: r d' rule: mkdirAll.induct)
  case (2 ps rest d)
  show ?case
  proof (cases "nodeAt d ps")
    case None
    then have ne: "ps \<noteq> []" by auto
    have n: "nodeAt (jmap_set ps DirNode d) q = (if q = ps then Some DirNode else nodeAt d q)" for q by (rule node_set[OF ne])
    have "mkdirAll rest (jmap_set ps DirNode d) = (r, d')" using 2(3) None by simp
    note ih = 2(1)[OF None this]
    have "nodeAt d' q = nodeAt d q" if "nodeAt d q \<noteq> None" for q
    proof -
      have "q \<noteq> ps" using that None by auto
      then show ?thesis using ih that by (simp add: n)
    qed
    moreover have "\<exists>e. r = Inl e" if "x \<in> set (ps # rest)" "isFile d x" for x
    proof -
      have "x \<noteq> ps" using that(2) None by (auto simp: isFile_def)
      then have "x \<in> set rest" "isFile (jmap_set ps DirNode d) x" using that by (simp_all add: isFile_def n)
      then show ?thesis using ih by blast
    qed
    ultimately show ?thesis by blast
  next
    case (Some n)
    show ?thesis
    proof (cases n)
      case DirNode
      then have "mkdirAll rest d = (r, d')" "\<not> isFile d ps" using 2(3) Some by (simp_all add: isFile_def)
      then show ?thesis using 2(2)[OF Some DirNode] by auto
    next
      case (FileNode c)
      then show ?thesis using 2(3) Some by auto
    qed
  qed
qed simp

lemma free_below:
  assumes tree: "treeDisk d" and free: "freePath d p" and below: "strict_prefix (pathParts p) (pathParts q)"
  shows "freePath d q"
proof -
  have none: "nodeAt d (pathParts p) = None" using free by (simp add: freePath_def)
  have off: "nodeAt d r = None" if "prefix (pathParts p) r" for r
  proof (rule ccontr)
    assume r: "nodeAt d r \<noteq> None"
    then have "r \<noteq> pathParts p" using none by auto
    then have "strict_prefix (pathParts p) r" using that by (simp add: strict_prefix_def)
    then show False using tree_above[OF tree r] none by simp
  qed
  have "\<not> isFile d r" if r: "strict_prefix r (pathParts q)" for r
  proof (cases "strict_prefix r (pathParts p)")
    case True
    then show ?thesis using free unfolding freePath_def blocked_iff by blast
  next
    case False
    then have "prefix (pathParts p) r" using r below
      by (metis prefix_order.dual_order.strict_implies_order prefix_order.le_neq_trans prefix_order.order_refl prefix_same_cases)
    then show ?thesis using off by (simp add: isFile_def)
  qed
  moreover have "nodeAt d (pathParts q) = None" using below by (intro off) (simp add: strict_prefix_def)
  ultimately show ?thesis unfolding freePath_def blocked_iff by blast
qed

lemma nested_commit:
  assumes tree: "treeDisk d" and free: "freePath d p" and below: "strict_prefix (pathParts p) (pathParts q)"
    and res: "resolved p" "resolved q"
  shows "\<exists>e d'. commitWrites [(p, c), (q, c')] d = (Inl e, d') \<and> fileText d' (pathParts p) = Some c"
proof -
  have pn: "nodeAt d (pathParts p) = None" "\<not> blockedBy d (pathParts p)" using free by (simp_all add: freePath_def)
  then have "pathParts p \<noteq> []" by auto
  then have "writable d (pathParts p)" using pn by (simp add: writable_def)
  then obtain d1 d2 where s: "fsMkdir d (path_dirname p) = (Inr (), d1)" "fsWrite d1 p c = (Inr (), d2)" "treeDisk d2"
      "\<forall>r. nodeAt d2 r = (if r = pathParts p then Some (FileNode c) else if strict_prefix r (pathParts p) then Some DirNode else nodeAt d r)"
    using write_ok[OF tree res(1)] by blast
  have f: "nodeAt d2 (pathParts p) = Some (FileNode c)" using s(4) by simp
  have qn: "pathParts q \<noteq> []" using below by auto
  obtain r d3 where m: "fsMkdir d2 (path_dirname q) = (r, d3)" by (cases "fsMkdir d2 (path_dirname q)")
  have m': "mkdirAll (prefixesOf (butlast (pathParts q))) d2 = (r, d3)" using m parts_dirname[OF res(2) qn] by (simp add: fsMkdir_def)
  have "prefix (pathParts p) (butlast (pathParts q))" using strict_butlast[OF qn] below by blast
  then obtain zs where z: "butlast (pathParts q) = pathParts p @ zs" by (auto simp: prefix_def)
  have "pathParts p \<in> set (prefixesOf (butlast (pathParts q)))"
    unfolding prefixesOf_def z using \<open>pathParts p \<noteq> []\<close>
    unfolding set_map by (intro image_eqI[of _ _ "length (pathParts p)"]) (simp_all add: Suc_le_eq)
  moreover have "isFile d2 (pathParts p)" using f by (simp add: isFile_def)
  ultimately obtain e where "r = Inl e" using mkdir_file[OF m'] by blast
  moreover have "fileText d3 (pathParts p) = Some c" using mkdir_file[OF m'] f by (simp add: text_iff(3))
  ultimately show ?thesis using s m by simp
qed

text \<open>C39: a patch that adds a file and then a file inside that path passes the planning, which looks at the disk before the first
  write. The commit then fails on the second file with the first one written: the tool reports that the patch could not be
  applied, and leaves half of it on the disk.\<close>

theorem nested_adds_half_done:
  assumes "treeDisk d" and "freePath d (pp_absolute pf)" and "strict_prefix (pathParts (pp_absolute pf)) (pathParts (pp_absolute pg))"
    and "workDirOf rt = Some w" and "js_trim (patchTextOf h input) \<noteq> []"
    and "parsePatch h eh (patchTextOf h input) w = Inr [AddOp pf ls, AddOp pg ms]"
    and "ensurePatchPermissions h now (js_prop input ''scopeIntent'') [pp_raw pf, pp_raw pg] rt = (None, rt')"
  shows "\<exists>detail d'. applyPatchCoreLogic h eh now input (rt, d) = (patchFailed eh [AddOp pf ls, AddOp pg ms] detail, rt', d')
    \<and> fileText d (pathParts (pp_absolute pf)) = None \<and> fileText d' (pathParts (pp_absolute pf)) = Some (renderAddedFile ls)"
proof -
  let ?ops = "[AddOp pf ls, AddOp pg ms]"
  have "resolvedOps h ?ops" by (rule parsed_resolved[OF assms(6)])
  then have res: "resolved (pp_absolute pf)" "resolved (pp_absolute pg)" "path_resolve (h_cwd h) (pp_absolute pf) = pp_absolute pf"
      "path_resolve (h_cwd h) (pp_absolute pg) = pp_absolute pg"
    by (simp_all add: resolvedOps_def touchedBy_def opPaths_def movesTo_def)
  have ne: "pp_absolute pg \<noteq> pp_absolute pf" using assms(3) by auto
  have free: "maybeStat d (pp_absolute pf) = Inr None" "maybeStat d (pp_absolute pg) = Inr None"
    using assms(2) free_below[OF assms(1,2,3)] by (simp_all add: stat_none)
  obtain plan where plan: "buildStagedPatchPlan h eh d ?ops = Inr plan"
      and wr: "sp_writes plan = [(pp_absolute pf, renderAddedFile ls), (pp_absolute pg, renderAddedFile ms)]"
    using ne by (auto simp: buildStagedPatchPlan_def ensureNoDuplicateTouchedPaths_def opPaths_def movesTo_def res Let_def
      stageOp_def free emptyPlan_def)
  obtain e d1 where c: "commitWrites (sp_writes plan) d = (Inl e, d1)" "fileText d1 (pathParts (pp_absolute pf)) = Some (renderAddedFile ls)"
    unfolding wr using nested_commit[OF assms(1,2,3) res(1,2)] by blast
  then have "commitStagedPatchPlan plan d = (Inl e, d1)" by (simp add: commitStagedPatchPlan_def)
  moreover have "concat (map opTargets ?ops) = [pp_raw pf, pp_raw pg]" by (simp add: opTargets_def)
  moreover obtain out rt1 d' where call: "applyPatchCoreLogic h eh now input (rt, d) = (out, rt1, d')"
    by (cases "applyPatchCoreLogic h eh now input (rt, d)")
  ultimately have "out = patchFailed eh ?ops e" "rt1 = rt'" "d' = d1"
    using patch_call[OF call assms(4,5,6)] assms(7) plan by auto
  moreover have "fileText d (pathParts (pp_absolute pf)) = None" using assms(2) by (simp add: freePath_def text_iff(1))
  ultimately show ?thesis using call c(2) by blast
qed

end
