(* ===== verification/FileGuards.thy ===== *)
theory FileGuards
  imports PatchTool PermissionClaims
begin

text \<open>
  The file tools behind their permission check. The check expands the aliases of the home directory in
  \<open>LocalPermissionPaths.ts\<close>, the tools those in \<open>tools/_shared.ts\<close>: where both read the same path, no tool
  changes a protected or private file; where they do not, the file that is written is not the one that was checked.
\<close>

section \<open>The path that is checked and the path that is used\<close>

text \<open>The paths both sides read alike: the aliases the tools know, and the paths the check leaves as they are.\<close>

definition sharedAlias :: "string \<Rightarrow> bool" where
  "sharedAlias p \<longleftrightarrow> p = ''~'' \<or> starts_with ''~/'' p \<or> expandHomePath [] p = p"

lemma alias_cases:
  assumes "list_all (\<lambda>a. a \<noteq> []) aliases"
  shows "(\<forall>home. replaceAlias i aliases home p = p)
    \<or> (\<exists>n. 0 < n \<and> n \<le> length p \<and> (\<forall>home. replaceAlias i aliases home p = home @ drop n p))"
proof (cases "find (\<lambda>a. starts_with ((if i then js_lower else id) a) ((if i then js_lower else id) p)
    \<and> pathEnd (drop (length a) p)) aliases")
  case None
  then show ?thesis by (simp add: replaceAlias_def Let_def)
next
  case (Some a)
  then have "a \<in> set aliases" "starts_with ((if i then js_lower else id) a) ((if i then js_lower else id) p)"
    by (auto simp: find_Some_iff)
  then have "0 < length a" "length a \<le> length p"
    using assms by (auto simp: list_all_iff js_lower_def elim!: starts_withE dest!: arg_cong[of _ _ length] split: if_splits)
  moreover have "replaceAlias i aliases home p = home @ drop (length a) p" for home
    using Some by (simp add: replaceAlias_def Let_def)
  ultimately show ?thesis by blast
qed

lemma replaced_shorter:
  assumes "list_all (\<lambda>a. a \<noteq> []) aliases"
  shows "length (replaceAlias i aliases [] p) \<le> length p"
    and "length (replaceAlias i aliases [] p) = length p \<Longrightarrow> replaceAlias i aliases home p = p"
  using alias_cases[OF assms, of i p] by auto

lemma expand_left:
  assumes "expandHomePath [] p = p"
  shows "expandHomePath home p = p"
proof -
  let ?win = "[''$env:HOME'', ''$env:USERPROFILE'', ''${env:HOME}'', ''${env:USERPROFILE}'', ''%HOME%'', ''%USERPROFILE%'']"
    and ?posix = "[''~'', ''$HOME'', ''$USERPROFILE'', ''${HOME}'', ''${USERPROFILE}'']"
  have w: "list_all (\<lambda>a. a \<noteq> []) ?win" and x: "list_all (\<lambda>a. a \<noteq> []) ?posix" by simp_all
  have e: "replaceAlias False ?posix [] (replaceAlias True ?win [] p) = p" using assms unfolding expandHomePath_def .
  have "length (replaceAlias True ?win [] p) = length p"
    using replaced_shorter(1)[OF w, of True p] replaced_shorter(1)[OF x, of False "replaceAlias True ?win [] p"] unfolding e
    by (rule le_antisym)
  then have win: "replaceAlias True ?win h p = p" for h by (rule replaced_shorter(2)[OF w])
  have "length (replaceAlias False ?posix [] p) = length p" using e unfolding win by (rule arg_cong)
  then have "replaceAlias False ?posix home p = p" by (rule replaced_shorter(2)[OF x])
  then show ?thesis unfolding expandHomePath_def win .
qed

lemma norm_append: "norm_parts acc (xs @ ys) = norm_parts (rev (norm_parts acc xs)) ys"
  by (induction acc xs rule: norm_parts.induct) simp_all

lemma split_abs: "norm_parts [] (split_on sep (abs_path (norm_parts [] (split_on sep s)))) = norm_parts [] (split_on sep s)"
proof -
  have "list_all component (norm_parts [] (split_on sep s))" by (rule norm_parts_components) (auto dest: split_on_free)
  then show ?thesis using segs_abs_path[of "norm_parts [] (split_on sep s)" "[]"] by (simp add: segs_of_def)
qed

lemma resolve_join: "path_isAbsolute home \<Longrightarrow> path_resolve cwd (path_join home [x]) = path_resolve cwd (home @ [sep] @ x)"
proof -
  assume "path_isAbsolute home"
  then have "path_isAbsolute (home @ [sep] @ x)" by (cases home) (simp_all add: path_isAbsolute_def starts_with_def)
  then have "path_join home [x] = path_resolve cwd (home @ [sep] @ x)" by (simp add: path_join_def path_resolve_def segs_of_def)
  then show ?thesis by simp
qed

lemma resolve_nested:
  assumes "w \<noteq> []" "\<not> path_isAbsolute p"
  shows "path_resolve2 cwd (path_resolve cwd w) p = path_resolve2 cwd w p"
proof -
  define base where "base = (if path_isAbsolute w then w else cwd @ [sep] @ w)"
  have w: "segs_of cwd w = norm_parts [] (split_on sep base)" by (simp add: segs_of_def base_def)
  have ne: "path_resolve cwd w \<noteq> []" by (simp add: path_resolve_def abs_path_def)
  have c: "list_all component (segs_of cwd w)" by (rule segs_components)
  have r: "norm_parts [] (split_on sep (path_resolve cwd w)) = segs_of cwd w"
    unfolding path_resolve_def w by (rule split_abs)
  have "path_isAbsolute (path_resolve cwd w @ [sep] @ p)" by (simp add: path_resolve_def abs_path_def path_isAbsolute_def starts_with_def)
  then have "segs_of cwd (path_resolve cwd w @ [sep] @ p) = norm_parts (rev (segs_of cwd w)) (split_on sep p)"
    by (simp add: segs_of_def split_on_append norm_append r[unfolded segs_of_def])
  moreover have "segs_of cwd (w @ [sep] @ p) = norm_parts (rev (segs_of cwd w)) (split_on sep p)"
  proof -
    have "path_isAbsolute (w @ [sep] @ p) = path_isAbsolute w" using assms(1) by (cases w) (simp_all add: path_isAbsolute_def starts_with_def)
    then have "segs_of cwd (w @ [sep] @ p) = norm_parts [] (split_on sep (base @ [sep] @ p))" by (simp add: segs_of_def base_def)
    also have "\<dots> = norm_parts (rev (segs_of cwd w)) (split_on sep p)" by (simp add: split_on_append norm_append w)
    finally show ?thesis .
  qed
  ultimately show ?thesis using assms ne by (simp add: path_resolve2_def path_resolve_def)
qed

lemma same_path:
  assumes home: "eh_HOME eh = Some (h_home h)" "path_isAbsolute (h_home h)" and w: "w \<noteq> []" and p: "sharedAlias p"
  shows "resolveRequestedPath h (path_resolve (h_cwd h) w) p = resolveToolPath h eh w p"
proof -
  have hn: "h_home h \<noteq> []" using home(2) by (auto simp: path_isAbsolute_def starts_with_def)
  have win: "replaceAlias True [''$env:HOME'', ''$env:USERPROFILE'', ''${env:HOME}'', ''${env:USERPROFILE}'', ''%HOME%'', ''%USERPROFILE%'']
      (h_home h) (CHR 0x7E # r) = CHR 0x7E # r" for r
    by (simp add: replaceAlias_def starts_with_def js_lower_def to_lower_def)
  consider (home) "p = ''~''" | (below) x where "p = ''~/'' @ x" | (plain) "p \<noteq> ''~''" "\<not> starts_with ''~/'' p" "expandHomePath [] p = p"
    using p unfolding sharedAlias_def by (metis starts_withE)
  then show ?thesis
  proof cases
    case home
    have "expandHomePath (h_home h) p = h_home h" unfolding home expandHomePath_def win
      by (simp add: replaceAlias_def starts_with_def pathEnd_def)
    then show ?thesis using assms(1,2) hn
      by (simp add: resolveRequestedPath_def resolveToolPath_def toolExpandHomePath_def home starts_with_def)
  next
    case (below x)
    have p': "p = CHR 0x7E # sep # x" by (simp add: below sep_def)
    have "expandHomePath (h_home h) p = h_home h @ [sep] @ x" unfolding p' expandHomePath_def win
      by (simp add: replaceAlias_def starts_with_def pathEnd_def)
    moreover have "path_isAbsolute (h_home h @ [sep] @ x)" using home(2) hn by (cases "h_home h") (simp_all add: path_isAbsolute_def starts_with_def)
    moreover have "path_isAbsolute (path_join (h_home h) [x])" by (simp add: path_join_def)
    moreover have "toolExpandHomePath eh p = path_join (h_home h) [x]" using home(1) hn
      by (simp add: toolExpandHomePath_def p' starts_with_def sep_def)
    ultimately show ?thesis using resolve_join[OF home(2)] by (simp add: resolveRequestedPath_def resolveToolPath_def)
  next
    case plain
    have "toolExpandHomePath eh p = p" using plain(1,2) home(1) by (simp add: toolExpandHomePath_def)
    moreover have "expandHomePath (h_home h) p = p" using plain(3) by (rule expand_left)
    moreover have "path_resolve2 (h_cwd h) (path_resolve (h_cwd h) w) p = path_resolve2 (h_cwd h) w p" if "\<not> path_isAbsolute p"
      using resolve_nested[OF w that] .
    moreover have "path_resolve (h_cwd h) (path_resolve2 (h_cwd h) w p) = path_resolve2 (h_cwd h) w p" by (simp add: path_resolve2_def)
    ultimately show ?thesis by (simp add: resolveRequestedPath_def resolveToolPath_def)
  qed
qed

section \<open>Closed paths\<close>

text \<open>The private runtime data and the protected permission configuration, as the runtime's authority has them.\<close>

definition closedPath :: "Host \<Rightarrow> ToolRuntime \<Rightarrow> string \<Rightarrow> bool" where
  "closedPath h rt p = (let a = resolveLocalPermissionAuthorityRootFromRuntime (tr_metadata rt) in
     isPrivateRuntimePath h p a False = Inr True \<or> isProtectedPermissionConfigPath h p a = Inr True)"

definition writingTools :: "string list" where
  "writingTools = [''edit'', ''multiedit'', ''write'', ''apply_patch'']"

lemma payload_request: "tool \<in> set writingTools \<Longrightarrow> fileRequest h tool (filePayload raw details s) = Some (raw, WriteAccess)"
  by (auto simp: fileRequest_def filePayload_def writingTools_def)

lemma work_dir: "workDirOf rt = Some w \<Longrightarrow> js_trim w = w \<Longrightarrow> stringOr shw (tr_workDir rt) = w \<and> w \<noteq> []"
  by (auto simp: workDirOf_def stringOr_def split: jsv.splits if_splits)

lemma closed_refused:
  assumes "eh_HOME eh = Some (h_home h)" "path_isAbsolute (h_home h)" "workDirOf rt = Some w" "js_trim w = w" "sharedAlias raw"
    and "closedPath h rt (resolveToolPath h eh w raw)" "tool \<in> set writingTools"
  shows "\<exists>output. authorizeLocalToolCall h now rt tool (filePayload raw details s) None = (Refused output, rt)"
proof (rule file_call_refused[OF payload_request[OF assms(7)] refl refl])
  have w: "stringOr (h_shw h) (tr_workDir rt) = w" "w \<noteq> []" using work_dir[OF assms(3,4)] by auto
  have "(tool = ''grep'' \<or> tool = ''glob'') = False" using assms(7) by (auto simp: writingTools_def)
  then show "isPrivateRuntimePath h (resolveRequestedPath h (path_resolve (h_cwd h) (stringOr (h_shw h) (tr_workDir rt))) raw)
        (resolveLocalPermissionAuthorityRootFromRuntime (tr_metadata rt)) (tool = ''grep'' \<or> tool = ''glob'') = Inr True
      \<or> WriteAccess = WriteAccess \<and> isProtectedPermissionConfigPath h
        (resolveRequestedPath h (path_resolve (h_cwd h) (stringOr (h_shw h) (tr_workDir rt))) raw)
        (resolveLocalPermissionAuthorityRootFromRuntime (tr_metadata rt)) = Inr True"
    using assms(6) unfolding w(1) same_path[OF assms(1,2) w(2) assms(5)] by (simp add: closedPath_def Let_def)
qed

lemma authorized_same: "authorizeLocalToolCall h now rt tool payload b = (Authorized, rt') \<Longrightarrow> rt' = rt"
  by (auto simp: authorizeLocalToolCall_def refusal_def Let_def split: if_splits sum.splits prod.splits)

lemma patch_refused:
  assumes "raw \<in> set raws" "\<exists>output. authorizeLocalToolCall h now rt ''apply_patch'' (filePayload raw [] s) None = (Refused output, rt)"
  shows "\<exists>reply rt'. ensurePatchPermissions h now s raws rt = (Some reply, rt')"
  using assms(1)
proof (induction raws)
  case (Cons p ps)
  obtain r rt1 where c: "authorizeLocalToolCall h now rt ''apply_patch'' (filePayload p [] s) None = (r, rt1)"
    by (cases "authorizeLocalToolCall h now rt ''apply_patch'' (filePayload p [] s) None")
  show ?case
  proof (cases r)
    case Authorized
    then have "rt1 = rt" "p \<noteq> raw" using authorized_same c assms(2) by fastforce+
    then show ?thesis using Cons c Authorized by simp
  next
    case (Refused refusal)
    then show ?thesis using c by simp
  qed
qed simp

text \<open>C32: no file tool changes a protected or private file, whatever the mode, the rules and the grants of the session, where the
  path has no alias that only the check expands, both sides have the same absolute home directory and the work directory has
  no white space around it: an edit, a multiple edit and a write of such a path leave the disk and the
  runtime as they are, and a patch with such a path, as source or destination, leaves the disk as it is.\<close>

theorem file_tools_spare_closed_paths:
  assumes home: "eh_HOME eh = Some (h_home h)" "path_isAbsolute (h_home h)" and w: "workDirOf rt = Some w" "js_trim w = w"
    and call: "inputText h (js_prop input ''filePath'') = raw" "sharedAlias raw" "closedPath h rt (resolveToolPath h eh w raw)"
    and patch: "parsePatch h eh (patchTextOf h patch) w = Inr ops" "op \<in> set ops" "target \<in> set (opTargets op)" "sharedAlias target"
      "closedPath h rt (resolveToolPath h eh w target)"
  shows "snd (editCoreLogic h eh now input (rt, d)) = (rt, d) \<and> snd (multieditCoreLogic h eh now input (rt, d)) = (rt, d)
    \<and> snd (writeCoreLogic h eh now input (rt, d)) = (rt, d) \<and> snd (snd (applyPatchCoreLogic h eh now patch (rt, d))) = d"
proof -
  have tools: "\<exists>output. authorizeLocalToolCall h now rt t (filePayload raw ds s) None = (Refused output, rt)" if "t \<in> set writingTools" for t ds s
    by (rule closed_refused[OF home w call(2,3) that])
  obtain e where e: "authorizeLocalToolCall h now rt ''edit'' (filePayload raw [(''oldString'', JStr (inputText h (js_prop input ''oldString''))),
      (''newString'', JStr (inputText h (js_prop input ''newString''))), (''replaceAll'', js_prop input ''replaceAll'')]
      (js_prop input ''scopeIntent'')) None = (Refused e, rt)" using tools[of "''edit''"] by (auto simp: writingTools_def)
  obtain m where m: "authorizeLocalToolCall h now rt ''multiedit'' (filePayload raw [(''edits'', js_prop input ''edits'')]
      (js_prop input ''scopeIntent'')) None = (Refused m, rt)" using tools[of "''multiedit''"] by (auto simp: writingTools_def)
  obtain v where v: "authorizeLocalToolCall h now rt ''write'' (filePayload raw [(''content'', js_prop input ''content'')]
      (js_prop input ''scopeIntent'')) None = (Refused v, rt)" using tools[of "''write''"] by (auto simp: writingTools_def)
  have "target \<in> set (concat (map opTargets ops))" using patch(2,3) by auto
  moreover have "\<exists>output. authorizeLocalToolCall h now rt ''apply_patch'' (filePayload target [] (js_prop patch ''scopeIntent'')) None = (Refused output, rt)"
    by (rule closed_refused[OF home w patch(4,5)]) (simp add: writingTools_def)
  ultimately obtain reply rt' where "ensurePatchPermissions h now (js_prop patch ''scopeIntent'') (concat (map opTargets ops)) rt = (Some reply, rt')"
    using patch_refused by blast
  then have "snd (snd (applyPatchCoreLogic h eh now patch (rt, d))) = d"
    using w(1) patch(1) by (simp add: applyPatchCoreLogic_def patchTextOf_def Let_def)
  moreover have "snd (editCoreLogic h eh now input (rt, d)) = (rt, d)"
    using w(1) e by (simp add: editCoreLogic_def call(1) Let_def)
  moreover have "snd (multieditCoreLogic h eh now input (rt, d)) = (rt, d)"
    using w(1) m by (simp add: multieditCoreLogic_def call(1) Let_def)
  moreover have "snd (writeCoreLogic h eh now input (rt, d)) = (rt, d)"
    using w(1) v by (simp add: writeCoreLogic_def call(1) Let_def)
  ultimately show ?thesis by simp
qed

section \<open>The path of an alias only the check knows\<close>

lemma lower_aliases:
  "js_lower ''$env:HOME'' = ''$env:home''" "js_lower ''$env:USERPROFILE'' = ''$env:userprofile''" "js_lower ''${env:HOME}'' = ''${env:home}''"
  "js_lower ''${env:USERPROFILE}'' = ''${env:userprofile}''" "js_lower ''%HOME%'' = ''%home%''" "js_lower ''%USERPROFILE%'' = ''%userprofile%''"
  "js_lower ''$HOME/'' = ''$home/''"
  by code_simp+

lemma expand_HOME: "expandHomePath home (''$HOME/'' @ rel) = home @ [sep] @ rel"
proof -
  have "js_lower (''$HOME/'' @ rel) = ''$home/'' @ js_lower rel"
    unfolding lower_aliases(7)[symmetric] by (simp add: js_lower_def)
  then have "replaceAlias True [''$env:HOME'', ''$env:USERPROFILE'', ''${env:HOME}'', ''${env:USERPROFILE}'', ''%HOME%'', ''%USERPROFILE%'']
      home (''$HOME/'' @ rel) = ''$HOME/'' @ rel"
    unfolding replaceAlias_def Let_def if_True find.simps lower_aliases by (simp add: starts_with_def)
  moreover have "replaceAlias False [''~'', ''$HOME'', ''$USERPROFILE'', ''${HOME}'', ''${USERPROFILE}''] home (''$HOME/'' @ rel) = home @ [sep] @ rel"
    by (simp add: replaceAlias_def starts_with_def pathEnd_def sep_def)
  ultimately show ?thesis by (simp add: expandHomePath_def)
qed

lemma trim_nonempty: "\<not> js_space x \<Longrightarrow> js_trim (x # xs) \<noteq> []"
  by (simp add: js_trim_def)

lemma resolved_tool: "resolved (resolveToolPath h eh w p)"
  unfolding resolveToolPath_def path_resolve2_def Let_def by (auto simp: resolved_resolve)

text \<open>C38: the check of a write reads \<open>$HOME/x\<close> as a path in the home directory, the tool as one in the work directory. A write of
  such a path that the check lets through changes the other file, and does so where that file is a protected one.\<close>

theorem home_alias_writes_unchecked_file:
  assumes "inputText h (js_prop input ''filePath'') = ''$HOME/'' @ rel" and "workDirOf rt = Some w" and "path_isAbsolute (h_home h)"
    and "authorizeLocalToolCall h now rt ''write'' (filePayload (''$HOME/'' @ rel) [(''content'', js_prop input ''content'')]
      (js_prop input ''scopeIntent'')) None = (Authorized, rt)"
    and "treeDisk d" and "writable d (pathParts (path_resolve2 (h_cwd h) w (''$HOME/'' @ rel)))"
    and "closedPath h rt (path_resolve2 (h_cwd h) w (''$HOME/'' @ rel))"
  shows "\<exists>d'. writeCoreLogic h eh now input (rt, d) = (Inr ''Wrote file successfully.'', rt, d')
    \<and> resolveRequestedPath h (path_resolve (h_cwd h) w) (''$HOME/'' @ rel) = path_resolve (h_cwd h) (h_home h @ [sep] @ rel)
    \<and> fileText d' (pathParts (path_resolve2 (h_cwd h) w (''$HOME/'' @ rel))) = Some (inputText h (js_prop input ''content''))"
proof -
  let ?raw = "''$HOME/'' @ rel"
  have t: "resolveToolPath h eh w ?raw = path_resolve2 (h_cwd h) w ?raw"
    by (simp add: resolveToolPath_def toolExpandHomePath_def starts_with_def path_isAbsolute_def sep_def)
  have "path_isAbsolute (h_home h @ [sep] @ rel)" using assms(3) by (cases "h_home h") (simp_all add: path_isAbsolute_def starts_with_def)
  then have p: "resolveRequestedPath h (path_resolve (h_cwd h) w) ?raw = path_resolve (h_cwd h) (h_home h @ [sep] @ rel)"
    unfolding resolveRequestedPath_def expand_HOME by simp
  have res: "resolved (path_resolve2 (h_cwd h) w ?raw)" using resolved_tool[of h eh w ?raw] by (simp only: t)
  have "js_trim ?raw \<noteq> []"
    using trim_nonempty[of "CHR ''$''" "''HOME/'' @ rel"] by (simp add: js_space_def)
  obtain d1 d2 where s: "fsMkdir d (path_dirname (path_resolve2 (h_cwd h) w ?raw)) = (Inr (), d1)"
      "fsWrite d1 (path_resolve2 (h_cwd h) w ?raw) (inputText h (js_prop input ''content'')) = (Inr (), d2)"
      "nodeAt d2 (pathParts (path_resolve2 (h_cwd h) w ?raw)) = Some (FileNode (inputText h (js_prop input ''content'')))"
    using write_ok[OF assms(5) res assms(6), of "inputText h (js_prop input ''content'')"] by auto
  have "writeCoreLogic h eh now input (rt, d) = (Inr ''Wrote file successfully.'', rt, d2)"
    unfolding writeCoreLogic_def Let_def split assms(1,2) option.case
    using \<open>js_trim ?raw \<noteq> []\<close> assms(4) s(1,2) t by (simp only: if_False Authorization.case prod.case sum.case refl)
  then show ?thesis using p s(3) by (auto simp: text_iff(3))
qed

end
