(* ===== verification/DiffProps.thy ===== *)
theory DiffProps
  imports EditText "HOL-Library.Sublist"
begin

text \<open>
  Line diffs: the table holds the lengths of longest common subsequences, and the walk through it gives an alignment that
  keeps as many lines as can be kept.
\<close>

section \<open>Longest common subsequences\<close>

fun lcsLength :: "'a list \<Rightarrow> 'a list \<Rightarrow> nat" where
  "lcsLength [] ys = 0"
| "lcsLength (x # xs) [] = 0"
| "lcsLength (x # xs) (y # ys) =
     (if x = y then lcsLength xs ys + 1 else max (lcsLength xs (y # ys)) (lcsLength (x # xs) ys))"

lemma lcs_right_empty [simp]: "lcsLength xs [] = 0"
  by (cases xs) simp_all

lemma lcs_upper: "subseq zs xs \<Longrightarrow> subseq zs ys \<Longrightarrow> length zs \<le> lcsLength xs ys"
proof (induction xs ys arbitrary: zs rule: lcsLength.induct)
  case (3 x xs y ys)
  show ?case
  proof (cases zs)
    case (Cons z zs')
    show ?thesis
    proof (cases "x = y")
      case True
      have "subseq zs' xs" "subseq zs' ys"
        using "3.prems" by (auto simp: Cons dest: subseq_Cons' split: if_splits)
      then show ?thesis using "3.IH"(1)[OF True] by (simp add: Cons True)
    next
      case False
      then consider "z \<noteq> x" | "z \<noteq> y" by auto
      then show ?thesis
      proof cases
        case 1
        then have "subseq zs xs" using "3.prems"(1) by (simp add: Cons)
        then show ?thesis using "3.IH"(2)[OF False _ "3.prems"(2)] False by (simp add: le_max_iff_disj)
      next
        case 2
        then have "subseq zs ys" using "3.prems"(2) by (simp add: Cons)
        then show ?thesis using "3.IH"(3)[OF False "3.prems"(1)] False by (simp add: le_max_iff_disj)
      qed
    qed
  qed simp
qed auto

section \<open>The table\<close>

definition lcsRow :: "string list \<Rightarrow> string list \<Rightarrow> nat list" where
  "lcsRow bs news = map (\<lambda>j. lcsLength bs (drop j news)) [0..<Suc (length news)]"

lemma lcsRow_Cons: "lcsRow bs (a # news) = lcsLength bs (a # news) # lcsRow bs news"
  unfolding lcsRow_def by (subst upt_conv_Cons) (simp_all add: map_Suc_upt[symmetric] comp_def del: upt_Suc)

lemma dpRow_lcs: "dpRow b news (lcsRow bs news) = lcsRow (b # bs) news"
proof (induction news)
  case Nil
  then show ?case by (simp add: lcsRow_def)
next
  case (Cons a news)
  have h: "hd (lcsRow cs news) = lcsLength cs news" "lcsRow cs news ! 0 = lcsLength cs news" for cs
    by (simp_all add: lcsRow_def upt_conv_Cons del: upt_Suc)
  show ?case using Cons by (simp add: lcsRow_Cons h Let_def)
qed

lemma dpTable_lcs: "dpTable olds news = map (\<lambda>i. lcsRow (drop i olds) news) [0..<Suc (length olds)]"
proof (induction olds)
  case Nil
  have "replicate (Suc (length news)) (0::nat) = map (\<lambda>j. 0) [0..<Suc (length news)]" by (simp add: map_replicate_trivial del: upt_Suc)
  then show ?case by (simp add: lcsRow_def)
next
  case (Cons b olds)
  have h: "hd (dpTable olds news) = lcsRow olds news" using Cons by (simp add: upt_conv_Cons del: upt_Suc)
  have "map (\<lambda>i. lcsRow (drop i (b # olds)) news) [0..<Suc (length (b # olds))]
      = lcsRow (b # olds) news # map (\<lambda>i. lcsRow (drop i olds) news) [0..<Suc (length olds)]"
    by (subst upt_conv_Cons) (simp_all add: map_Suc_upt[symmetric] comp_def del: upt_Suc)
  moreover have "dpTable (b # olds) news = lcsRow (b # olds) news # dpTable olds news" by (simp only: dpTable.simps Let_def h dpRow_lcs)
  ultimately show ?case using Cons by simp
qed

lemma dpTable_nth: "i \<le> length olds \<Longrightarrow> j \<le> length news \<Longrightarrow> dpTable olds news ! i ! j = lcsLength (drop i olds) (drop j news)"
  by (simp add: dpTable_lcs lcsRow_def del: upt_Suc)

section \<open>The walk\<close>

definition oldSide :: "DiffOp list \<Rightarrow> string list" where
  "oldSide ops = map do_line (filter (\<lambda>d. do_type d \<noteq> DiffAdd) ops)"

definition newSide :: "DiffOp list \<Rightarrow> string list" where
  "newSide ops = map do_line (filter (\<lambda>d. do_type d \<noteq> DiffRemove) ops)"

definition keptLines :: "DiffOp list \<Rightarrow> string list" where
  "keptLines ops = map do_line (filter (\<lambda>d. do_type d = DiffContext) ops)"

lemma side_simps [simp]:
  "oldSide [] = []" "newSide [] = []" "keptLines [] = []"
  "oldSide (DiffOp k l # ops) = (if k = DiffAdd then oldSide ops else l # oldSide ops)"
  "newSide (DiffOp k l # ops) = (if k = DiffRemove then newSide ops else l # newSide ops)"
  "keptLines (DiffOp k l # ops) = (if k = DiffContext then l # keptLines ops else keptLines ops)"
  "oldSide (ops @ ops') = oldSide ops @ oldSide ops'" "newSide (ops @ ops') = newSide ops @ newSide ops'"
  "keptLines (ops @ ops') = keptLines ops @ keptLines ops'"
  by (simp_all add: oldSide_def newSide_def keptLines_def)

lemma side_map [simp]:
  "oldSide (map (DiffOp k) ls) = (if k = DiffAdd then [] else ls)" "newSide (map (DiffOp k) ls) = (if k = DiffRemove then [] else ls)"
  "keptLines (map (DiffOp k) ls) = (if k = DiffContext then ls else [])"
  by (induction ls; cases k; simp)+

lemma kept_subseq: "subseq (keptLines ops) (oldSide ops)" "subseq (keptLines ops) (newSide ops)"
proof -
  have "subseq (keptLines ops) (oldSide ops) \<and> subseq (keptLines ops) (newSide ops)"
  proof (induction ops)
    case (Cons d ops)
    obtain k l where "d = DiffOp k l" by (cases d)
    then show ?case using Cons by (cases k) (auto intro: subseq_Cons')
  qed simp
  then show "subseq (keptLines ops) (oldSide ops)" "subseq (keptLines ops) (newSide ops)" by simp_all
qed

lemma walk_sides:
  "i \<le> length olds \<Longrightarrow> j \<le> length news \<Longrightarrow>
    oldSide (lineWalk dp olds news i j) = drop i olds \<and> newSide (lineWalk dp olds news i j) = drop j news"
proof (induction dp olds news i j rule: lineWalk.induct)
  case (1 dp olds news i j)
  show ?case
  proof (cases "i < length olds \<and> j < length news")
    case True
    then have d: "drop i olds = olds ! i # drop (Suc i) olds" "drop j news = news ! j # drop (Suc j) news"
      by (simp_all add: Cons_nth_drop_Suc)
    show ?thesis using 1 True by (subst (1 2) lineWalk.simps) (simp add: d)
  next
    case False
    then show ?thesis using 1 by (subst (1 2) lineWalk.simps) auto
  qed
qed

lemma walk_kept:
  "i \<le> length olds \<Longrightarrow> j \<le> length news \<Longrightarrow>
    length (keptLines (lineWalk (dpTable olds news) olds news i j)) = lcsLength (drop i olds) (drop j news)"
proof (induction "dpTable olds news" olds news i j rule: lineWalk.induct)
  case (1 olds news i j)
  show ?case
  proof (cases "i < length olds \<and> j < length news")
    case True
    then have d: "drop i olds = olds ! i # drop (Suc i) olds" "drop j news = news ! j # drop (Suc j) news"
      by (simp_all add: Cons_nth_drop_Suc)
    have t: "dpTable olds news ! i ! Suc j = lcsLength (drop i olds) (drop (Suc j) news)"
        "dpTable olds news ! Suc i ! j = lcsLength (drop (Suc i) olds) (drop j news)" using True by (simp_all add: dpTable_nth)
    show ?thesis using 1 True by (subst lineWalk.simps) (simp add: t, simp add: d max_def)
  next
    case False
    then show ?thesis using 1 by (subst lineWalk.simps) auto
  qed
qed

end
