(* ===== verification/DiffClaims.thy ===== *)
theory DiffClaims
  imports DiffProps
begin

text \<open>
  What the diffs of the file tools promise: the smallest line diff, and hunks that are slices of it, hold every change and
  may yet overlap.
\<close>

text \<open>C36: a line diff of two texts is correct and as small as can be: without its added lines it is the old text, without its removed
  lines the new one, and no common subsequence of lines is longer than the lines it keeps.\<close>

theorem line_diff_optimal:
  assumes "subseq zs olds" and "subseq zs news"
  shows "oldSide (buildLineDiff olds news) = olds \<and> newSide (buildLineDiff olds news) = news
    \<and> length zs \<le> length (keptLines (buildLineDiff olds news))"
  using lcs_upper[OF assms] walk_sides[of 0 olds 0 news] walk_kept[of 0 olds 0 news] by (simp add: buildLineDiff_def)

theorem line_diff_optimal_witness:
  "oldSide (buildLineDiff [''a'', ''b'', ''c''] [''a'', ''c'', ''d'']) = [''a'', ''b'', ''c'']
    \<and> newSide (buildLineDiff [''a'', ''b'', ''c''] [''a'', ''c'', ''d'']) = [''a'', ''c'', ''d'']
    \<and> 2 \<le> length (keptLines (buildLineDiff [''a'', ''b'', ''c''] [''a'', ''c'', ''d'']))"
  using line_diff_optimal[of "[''a'', ''c'']" "[''a'', ''b'', ''c'']" "[''a'', ''c'', ''d'']"] by simp

section \<open>Hunks\<close>

definition isChange :: "DiffOp list \<Rightarrow> nat \<Rightarrow> bool" where
  "isChange ops i \<longleftrightarrow> do_type (ops ! i) \<noteq> DiffContext"

text \<open>A hunk is the part of the diff between two positions.\<close>

definition hunkStop :: "DiffHunk \<Rightarrow> nat" where
  "hunkStop k = dh_startIndex k + length (dh_lines k)"

definition isSlice :: "DiffOp list \<Rightarrow> DiffHunk \<Rightarrow> bool" where
  "isSlice ops k \<longleftrightarrow> hunkStop k \<le> length ops \<and> dh_lines k = drop (dh_startIndex k) (take (hunkStop k) ops)"

definition inHunk :: "DiffHunk \<Rightarrow> nat \<Rightarrow> bool" where
  "inHunk k i \<longleftrightarrow> dh_startIndex k \<le> i \<and> i < hunkStop k"

definition hunksInv :: "DiffOp list \<Rightarrow> nat \<Rightarrow> DiffHunk list \<times> DiffHunk option \<Rightarrow> bool" where
  "hunksInv ops n st \<longleftrightarrow> (\<forall>k \<in> set (fst st). isSlice ops k) \<and> (\<forall>k. snd st = Some k \<longrightarrow> isSlice ops k \<and> hunkStop k = n)
     \<and> (\<forall>i < n. isChange ops i \<longrightarrow> (\<exists>k \<in> set (fst st). inHunk k i) \<or> (\<exists>k. snd st = Some k \<and> inHunk k i))"

lemma slice_extend:
  assumes "isSlice ops k" "hunkStop k < length ops"
  shows "isSlice ops (k\<lparr>dh_lines := dh_lines k @ [ops ! hunkStop k], dh_trailingContext := t\<rparr>)"
    "hunkStop (k\<lparr>dh_lines := dh_lines k @ [ops ! hunkStop k], dh_trailingContext := t\<rparr>) = Suc (hunkStop k)"
  using assms by (simp_all add: isSlice_def hunkStop_def take_Suc_conv_app_nth)

lemma hunks_step:
  assumes inv: "hunksInv ops n st" and n: "n < length ops"
  shows "hunksInv ops (Suc n) (hunkStep ops st n)"
proof -
  obtain hs cur where st: "st = (hs, cur)" by (cases st)
  have less: "i < Suc n \<longleftrightarrow> i < n \<or> i = n" for i by auto
  have keep: "inHunk (k\<lparr>dh_lines := dh_lines k @ [d], dh_trailingContext := t\<rparr>) i" if "inHunk k i" for k d t i
    using that by (simp add: inHunk_def hunkStop_def)
  have last: "inHunk (k\<lparr>dh_lines := dh_lines k @ [d], dh_trailingContext := t\<rparr>) n" if "hunkStop k = n" for k d t
    using that by (simp add: inHunk_def hunkStop_def)
  show ?thesis
  proof (cases "do_type (ops ! n) = DiffContext")
    case ctx: True
    then have nc: "\<not> isChange ops n" by (simp add: isChange_def)
    show ?thesis
    proof (cases cur)
      case None
      then show ?thesis using inv nc ctx by (simp add: st hunksInv_def hunkStep_def less)
    next
      case (Some k)
      then have k: "isSlice ops k" "hunkStop k = n" using inv by (simp_all add: st hunksInv_def)
      show ?thesis
      proof (cases "dh_trailingContext k < contextWindow")
        case True
        then show ?thesis using inv nc ctx Some k n slice_extend[OF k(1), of "dh_trailingContext k + 1"]
          by (auto simp: st hunksInv_def hunkStep_def less intro: keep)
      next
        case False
        then show ?thesis using inv nc ctx Some k by (auto simp: st hunksInv_def hunkStep_def pushHunk_def less)
      qed
    qed
  next
    case change: False
    define k where "k = (case cur of Some k \<Rightarrow> k | None \<Rightarrow> \<lparr>dh_startIndex = n - contextWindow,
        dh_lines = drop (n - contextWindow) (take n ops), dh_trailingContext = 0\<rparr>)"
    have k: "isSlice ops k" "hunkStop k = n" using inv n
      by (auto simp: k_def st hunksInv_def isSlice_def hunkStop_def split: option.splits)
    have s: "hunkStep ops st n = (hs, Some (k\<lparr>dh_lines := dh_lines k @ [ops ! n], dh_trailingContext := 0\<rparr>))"
      using change by (cases cur) (simp_all add: hunkStep_def st k_def Let_def)
    show ?thesis unfolding s using inv k n slice_extend[OF k(1), of 0] last[OF k(2)] keep
      by (auto simp: st hunksInv_def less k_def split: option.splits)
  qed
qed

lemma hunks_fold: "n \<le> length ops \<Longrightarrow> hunksInv ops n (foldl (hunkStep ops) ([], None) [0..<n])"
proof (induction n)
  case 0
  then show ?case by (simp add: hunksInv_def)
next
  case (Suc n)
  then show ?case using hunks_step[of ops n] by simp
qed

text \<open>The hunks of a unified diff are consecutive parts of the line diff, and every added or removed line is in one of them.\<close>

lemma hunks_hold_every_change:
  assumes "i < length ops" and "do_type (ops ! i) \<noteq> DiffContext" and "k' \<in> set (collectHunks ops)"
  shows "(\<exists>k \<in> set (collectHunks ops). dh_startIndex k \<le> i \<and> i < dh_startIndex k + length (dh_lines k))
    \<and> dh_lines k' = take (length (dh_lines k')) (drop (dh_startIndex k') ops)"
proof -
  define st where "st = foldl (hunkStep ops) ([], None) [0..<length ops]"
  have inv: "hunksInv ops (length ops) st" unfolding st_def by (rule hunks_fold) simp
  have c: "set (collectHunks ops) = set (fst st) \<union> {k. snd st = Some k}"
    by (auto simp: collectHunks_def st_def[symmetric] pushHunk_def split: option.splits)
  have "isSlice ops k" if "k \<in> set (collectHunks ops)" for k using that inv by (auto simp: c hunksInv_def)
  then have "dh_lines k' = drop (dh_startIndex k') (take (hunkStop k') ops)" using assms(3) by (simp add: isSlice_def)
  then have "dh_lines k' = take (length (dh_lines k')) (drop (dh_startIndex k') ops)" by (simp add: hunkStop_def drop_take)
  moreover have "isChange ops i" using assms(2) by (simp add: isChange_def)
  then have "\<exists>k \<in> set (collectHunks ops). inHunk k i" using inv assms(1) unfolding hunksInv_def c by blast
  ultimately show ?thesis unfolding inHunk_def hunkStop_def by simp
qed

text \<open>Two changes with four or five unchanged lines between them give two hunks that overlap: the second one begins before the
  first one ends, so a line is shown, and counted in both headers, twice.\<close>

theorem near_hunks_overlap:
  assumes "do_type d \<noteq> DiffContext" and "do_type d' \<noteq> DiffContext" and "\<forall>c \<in> set cs. do_type c = DiffContext"
    and "length cs = 4 \<or> length cs = 5"
  shows "\<exists>k k'. collectHunks (d # cs @ [d']) = [k, k'] \<and> dh_startIndex k' < dh_startIndex k + length (dh_lines k)"
proof -
  have eval: "collectHunks ops = fst (pushHunk (foldl (hunkStep ops) ([], None) ns))" if "ns = [0..<length ops]" for ops ns
    using that by (simp add: collectHunks_def)
  note step = hunkStep_def pushHunk_def contextWindow_def Let_def eval_nat_numeral
  obtain c1 c2 c3 c4 rest where cs: "cs = c1 # c2 # c3 # c4 # rest" "rest = [] \<or> (\<exists>c5. rest = [c5])"
    using assms(4) by (auto simp: eval_nat_numeral length_Suc_conv)
  have c: "do_type c1 = DiffContext" "do_type c2 = DiffContext" "do_type c3 = DiffContext" "do_type c4 = DiffContext"
    using assms(3) by (simp_all add: cs(1))
  show ?thesis
  proof (cases rest)
    case Nil
    have "collectHunks (d # cs @ [d']) = fst (pushHunk (foldl (hunkStep (d # cs @ [d'])) ([], None)
        [0, Suc 0, Suc (Suc 0), Suc (Suc (Suc 0)), Suc (Suc (Suc (Suc 0))), Suc (Suc (Suc (Suc (Suc 0))))]))"
      by (rule eval) (simp add: cs(1) Nil upt_rec)
    then show ?thesis using assms(1,2) c by (simp add: cs(1) Nil step)
  next
    case (Cons c5 more)
    then have r: "rest = [c5]" "do_type c5 = DiffContext" using cs assms(3) by auto
    have "collectHunks (d # cs @ [d']) = fst (pushHunk (foldl (hunkStep (d # cs @ [d'])) ([], None)
        [0, Suc 0, Suc (Suc 0), Suc (Suc (Suc 0)), Suc (Suc (Suc (Suc 0))), Suc (Suc (Suc (Suc (Suc 0)))),
         Suc (Suc (Suc (Suc (Suc (Suc 0)))))]))"
      by (rule eval) (simp add: cs(1) r upt_rec)
    then show ?thesis using assms(1,2) c r by (simp add: cs(1) step)
  qed
qed

end
