(* ===== verification/EditClaims.thy ===== *)
theory EditClaims
  imports EditText
begin

text \<open>What an edit of a text does: which occurrences are replaced, and by what.\<close>

section \<open>Occurrences\<close>

lemma includes_append: "js_includes (x @ sub @ y) sub"
  by (auto simp: js_includes_def list_ex_iff starts_with_def intro!: bexI[of _ "length x"])

lemma includesE:
  assumes "js_includes s sub"
  obtains x y where "s = x @ sub @ y"
proof -
  obtain i where "starts_with sub (drop i s)" using assms unfolding js_includes_def list_ex_iff by blast
  then obtain r where "drop i s = sub @ r" by (rule starts_withE)
  then have "s = take i s @ sub @ r" by (metis append_take_drop_id)
  then show ?thesis by (rule that)
qed

lemma find_sub_at: "\<exists>a r. find_sub sub (x @ sub @ y) = Some (a, r) \<and> length a \<le> length x"
proof (induction x)
  case Nil
  then show ?case by (cases sub; cases y) (auto simp: starts_with_def)
next
  case (Cons c x)
  then show ?case by auto
qed

lemma find_sub_None: "find_sub sub s = None \<longleftrightarrow> \<not> js_includes s sub"
proof
  assume n: "find_sub sub s = None"
  show "\<not> js_includes s sub"
  proof
    assume "js_includes s sub"
    then obtain x y where "s = x @ sub @ y" by (rule includesE)
    then show False using find_sub_at[of sub x y] n by auto
  qed
next
  assume "\<not> js_includes s sub"
  then show "find_sub sub s = None" by (cases "find_sub sub s") (auto dest!: find_sub_Some simp: includes_append)
qed

text \<open>What is before the first occurrence holds none.\<close>

lemma find_sub_first: "find_sub sub s = Some (a, r) \<Longrightarrow> sub \<noteq> [] \<Longrightarrow> \<not> js_includes a sub"
proof
  assume f: "find_sub sub s = Some (a, r)" and ne: "sub \<noteq> []" and i: "js_includes a sub"
  obtain x y where a: "a = x @ sub @ y" using i by (rule includesE)
  then have "s = x @ sub @ y @ sub @ r" using find_sub_Some[OF f] by simp
  then obtain b q where "find_sub sub s = Some (b, q)" "length b \<le> length x" using find_sub_at[of sub x "y @ sub @ r"] by auto
  then have "b = a" using f by simp
  then show False using \<open>length b \<le> length x\<close> a ne by simp
qed

lemma split_join: "sub \<noteq> [] \<Longrightarrow> js_join sub (js_split sub s) = s \<and> js_split sub s \<noteq> [] \<and> (\<forall>p \<in> set (js_split sub s). \<not> js_includes p sub)"
proof (induction sub s rule: js_split.induct)
  case (1 sub s)
  show ?case
  proof (cases "find_sub sub s")
    case None
    moreover from None have "\<not> js_includes s sub" by (simp add: find_sub_None)
    ultimately show ?thesis using "1.prems" by (simp add: js_split.simps[of sub s])
  next
    case (Some ar)
    obtain a r where ar: "ar = (a, r)" by (cases ar)
    have ih: "js_join sub (js_split sub r) = r" "js_split sub r \<noteq> []" "\<forall>p \<in> set (js_split sub r). \<not> js_includes p sub"
      using "1.IH"[OF "1.prems" Some ar[symmetric] "1.prems"] by auto
    have "js_join sub (a # js_split sub r) = a @ sub @ js_join sub (js_split sub r)" using ih(2) by (cases "js_split sub r") auto
    moreover have "js_split sub s = a # js_split sub r" using "1.prems" Some ar by (simp add: js_split.simps[of sub s])
    moreover have "s = a @ sub @ r" "\<not> js_includes a sub" using find_sub_Some find_sub_first Some ar "1.prems" by blast+
    ultimately show ?thesis using ih by simp
  qed
qed

lemma replacement_plain: "CHR ''$'' \<notin> set new \<Longrightarrow> expandReplacement p m q new = new"
  by (induction p m q new rule: expandReplacement.induct) auto

lemma exact_first:
  "find_sub oldString content = Some (a, r) \<Longrightarrow> CHR ''$'' \<notin> set plain \<Longrightarrow>
   replaceContentExact content oldString plain False
     = Some \<lparr>es_next = a @ plain @ r, es_replacements = 1, es_strategy = ExactStrategy\<rparr>"
  using find_sub_None[of oldString content]
  by (auto simp: replaceContentExact_def js_replaceFirst_def replacement_plain)

lemma exact_all:
  "find_sub oldString content = Some (a, r) \<Longrightarrow>
   replaceContentExact content oldString newString True = Some \<lparr>es_next = js_join newString (js_split oldString content),
     es_replacements = int (length (js_split oldString content)) - 1, es_strategy = ExactStrategy\<rparr>"
  using find_sub_None[of oldString content] by (auto simp: replaceContentExact_def)

lemma exact_none: "find_sub oldString content = None \<Longrightarrow> replaceContentExact content oldString newString b = None"
  using find_sub_None[of oldString content] by (simp add: replaceContentExact_def)

lemma crlf_chars: "c \<in> set (crlfToLf s) \<Longrightarrow> c \<in> set s"
  by (induction s rule: crlfToLf.induct) (auto split: if_splits)

lemma crlf_nonempty: "s \<noteq> [] \<Longrightarrow> crlfToLf s \<noteq> []"
  by (cases s rule: crlfToLf.cases) auto

section \<open>Claims\<close>

text \<open>C37: an edit whose old string, not empty, occurs in the text puts the new string in the place of the first occurrence and
  nothing else changes, where the new string has no dollar sign; with \<open>replaceAll\<close>, and any new string, it puts it between the
  parts of the text that hold no occurrence. Where the old string does not occur literally but does once each carriage
  return and line feed is read as a line feed, in both, the same happens to the text read this way, with the new string read
  this way too, and every line feed of the result becomes the line break of the text (with a carriage return where the text
  has one of these anywhere). Otherwise the edit fails, whatever the new string is.\<close>

theorem edit_replaces_occurrences:
  assumes "oldString \<noteq> []" and "CHR ''$'' \<notin> set plain"
  shows "case find_sub oldString content of
    Some (a, r) \<Rightarrow> \<exists>s s' ps. applyStringEdit eh content oldString plain False = Inr s \<and> es_next s = a @ plain @ r
      \<and> content = a @ oldString @ r \<and> \<not> js_includes a oldString
      \<and> applyStringEdit eh content oldString newString True = Inr s' \<and> es_next s' = js_join newString ps
      \<and> content = js_join oldString ps \<and> es_replacements s' = int (length ps) - 1 \<and> (\<forall>p \<in> set ps. \<not> js_includes p oldString)
  | None \<Rightarrow> (case find_sub (crlfToLf oldString) (crlfToLf content) of
      Some (a, r) \<Rightarrow> \<exists>s s' ps. applyStringEdit eh content oldString plain False = Inr s
        \<and> es_next s = convertToDominantNewline (a @ crlfToLf plain @ r) (detectDominantNewline content)
        \<and> crlfToLf content = a @ crlfToLf oldString @ r \<and> \<not> js_includes a (crlfToLf oldString)
        \<and> applyStringEdit eh content oldString newString True = Inr s'
        \<and> es_next s' = convertToDominantNewline (js_join (crlfToLf newString) ps) (detectDominantNewline content)
        \<and> crlfToLf content = js_join (crlfToLf oldString) ps \<and> es_replacements s' = int (length ps) - 1
        \<and> (\<forall>p \<in> set ps. \<not> js_includes p (crlfToLf oldString))
    | None \<Rightarrow> \<exists>f. applyStringEdit eh content oldString newString replaceAll = Inl f)"
proof (cases "find_sub oldString content")
  case (Some ar)
  obtain a r where ar: "find_sub oldString content = Some (a, r)" using Some by (cases ar) simp
  show ?thesis unfolding ar option.case prod.case
    by (intro exI conjI; (simp add: applyStringEdit_def exact_first[OF ar assms(2)] exact_all[OF ar])?)
      (rule find_sub_Some[OF ar] find_sub_first[OF ar assms(1)] | simp add: split_join[OF assms(1)])+
next
  case None
  note none = exact_none[OF None]
  let ?old = "crlfToLf oldString"
  have ne: "?old \<noteq> []" using assms(1) by (rule crlf_nonempty)
  have plain: "CHR ''$'' \<notin> set (crlfToLf plain)" using assms(2) crlf_chars by blast
  show ?thesis
  proof (cases "find_sub ?old (crlfToLf content)")
    case (Some ar)
    obtain a r where ar: "find_sub ?old (crlfToLf content) = Some (a, r)" using Some by (cases ar) simp
    show ?thesis unfolding None ar option.case prod.case
      by (intro exI conjI; (simp add: applyStringEdit_def none exact_first[OF ar plain] exact_all[OF ar])?)
        (rule find_sub_Some[OF ar] find_sub_first[OF ar ne] | simp add: split_join[OF ne])+
  qed (simp add: None applyStringEdit_def none exact_none)
qed

text \<open>C40: a dollar sign in the new string of a single edit is not taken as it is: an edit to two dollar signs leaves one, and an edit
  to a dollar sign and an ampersand leaves the text as it was, and both report success. With \<open>replaceAll\<close> the same new string
  is written as it is.\<close>

theorem dollar_not_literal:
  assumes "oldString \<noteq> []" and "find_sub oldString content = Some (a, r)"
  shows "\<exists>s s' ps. applyStringEdit eh content oldString ''$$'' False = Inr s \<and> es_next s = a @ ''$'' @ r
    \<and> applyStringEdit eh content oldString ''$&'' False = Inr s' \<and> es_next s' = content
    \<and> map_sum id es_next (applyStringEdit eh content oldString ''$$'' True) = Inr (js_join ''$$'' ps) \<and> content = js_join oldString ps"
proof -
  have i: "js_includes content oldString" using assms(2) find_sub_None[of oldString content] by auto
  note def = applyStringEdit_def replaceContentExact_def i js_replaceFirst_def assms(2)
  have "\<exists>s. applyStringEdit eh content oldString ''$$'' False = Inr s \<and> es_next s = a @ ''$'' @ r" by (simp add: def)
  moreover have "\<exists>s. applyStringEdit eh content oldString ''$&'' False = Inr s \<and> es_next s = content"
    by (simp add: def) (simp add: find_sub_Some[OF assms(2)])
  moreover have "map_sum id es_next (applyStringEdit eh content oldString ''$$'' True) = Inr (js_join ''$$'' (js_split oldString content))"
    by (simp add: def)
  moreover have "content = js_join oldString (js_split oldString content)" using split_join[OF assms(1)] by simp
  ultimately show ?thesis by metis
qed

end
