(* ===== verification/PatchClaims.thy ===== *)
theory PatchClaims
  imports PatchApply
begin

text \<open>
  The language of patches and the place of a hunk: a printed patch is parsed back, the end-of-file marker never is, and a
  hunk is put where its old lines are.
\<close>

section \<open>What the parsers take\<close>

definition bodyRows :: "string list \<Rightarrow> bool" where
  "bodyRows rows \<longleftrightarrow> (\<forall>l \<in> set rows. \<not> starts_with ''*** '' l)"

lemma body_simps [simp]: "bodyRows []" "bodyRows (l # ls) \<longleftrightarrow> \<not> starts_with ''*** '' l \<and> bodyRows ls"
  "bodyRows (ls @ ls') \<longleftrightarrow> bodyRows ls \<and> bodyRows ls'"
  by (auto simp: bodyRows_def)

lemma eof_marked: "bodyRows rows \<Longrightarrow> END_OF_FILE \<notin> set rows"
  by (auto simp: bodyRows_def END_OF_FILE_def starts_with_def)

lemma anchor_body: "starts_with ''@@'' l \<Longrightarrow> \<not> starts_with ''*** '' l"
  by (cases l) (auto simp: starts_with_def)

lemma parseAddFile_taken: "parseAddFile pf rows = Inr (c, rest) \<Longrightarrow> \<exists>p. rows = p @ rest \<and> bodyRows p"
proof (induction pf rows arbitrary: c rule: parseAddFile.induct)
  case (2 pf row rows)
  show ?case
  proof (cases "starts_with ''*** '' row")
    case True
    then show ?thesis using "2.prems" by simp
  next
    case False
    then obtain c' where "parseAddFile pf rows = Inr (c', rest)"
      using "2.prems" by (auto simp: bind_result_eq_Inr split: if_splits)
    then obtain p where "rows = p @ rest \<and> bodyRows p" using 2(1,2) False "2.prems" by (auto simp: bind_result_eq_Inr split: if_splits)
    then show ?thesis using False by (intro exI[of _ "row # p"]) simp
  qed
qed simp

lemma takeAnchors_taken: "takeAnchors rows = (a, rest) \<Longrightarrow> \<exists>p. rows = p @ rest \<and> bodyRows p"
proof (induction rows arbitrary: a)
  case (Cons row rows)
  show ?case
  proof (cases "starts_with ''@@'' row")
    case True
    then obtain a' where "takeAnchors rows = (a', rest)" using Cons.prems by (auto split: prod.splits)
    then obtain p where "rows = p @ rest \<and> bodyRows p" using Cons.IH by blast
    then show ?thesis using True anchor_body by (intro exI[of _ "row # p"]) simp
  qed (use Cons.prems in simp)
qed simp

lemma takeHunkLines_taken: "takeHunkLines pf rows = Inr (c, rest) \<Longrightarrow> \<exists>p. rows = p @ rest \<and> bodyRows p"
proof (induction pf rows arbitrary: c rule: takeHunkLines.induct)
  case (2 pf row rows)
  show ?case
  proof (cases "starts_with ''@@'' row \<or> starts_with ''*** '' row")
    case True
    then show ?thesis using "2.prems" by simp
  next
    case False
    then obtain c' where "takeHunkLines pf rows = Inr (c', rest)"
      using "2.prems" by (auto simp: bind_result_eq_Inr split: if_splits)
    then obtain p where "rows = p @ rest \<and> bodyRows p" using 2(1,2) False "2.prems" by (auto simp: bind_result_eq_Inr split: if_splits)
    then show ?thesis using False by (intro exI[of _ "row # p"]) simp
  qed
qed simp

lemma parseHunks_taken: "parseHunks pf rows = Inr (hs, rest) \<Longrightarrow> \<exists>p. rows = p @ rest \<and> bodyRows p"
proof (induction pf rows arbitrary: hs rule: parseHunks.induct)
  case (2 pf row rows)
  note ih = "2.IH"
  show ?case
  proof (cases "starts_with ''*** '' row")
    case False
    obtain anchors body where t: "takeAnchors (row # rows) = (anchors, body)" by (cases "takeAnchors (row # rows)")
    from "2.prems" False t obtain ls rest1 hunks where s: "anchors \<noteq> []" "takeHunkLines pf body = Inr (ls, rest1)" "ls \<noteq> []"
        "parseHunks pf rest1 = Inr (hunks, rest)"
      by (auto simp: parseHunks.simps(2) split: if_splits sum.splits)
    obtain p1 where "row # rows = p1 @ body" "bodyRows p1" using takeAnchors_taken[OF t] by blast
    moreover obtain p2 where "body = p2 @ rest1" "bodyRows p2" using takeHunkLines_taken[OF s(2)] by blast
    moreover obtain p3 where "rest1 = p3 @ rest" "bodyRows p3" using ih[OF False t[symmetric] s(1) s(2) refl s(3) s(4)] by blast
    ultimately show ?thesis by (intro exI[of _ "p1 @ p2 @ p3"]) simp
  qed (use "2.prems" in \<open>simp add: parseHunks.simps(2)\<close>)
qed simp

lemma parseUpdateFile_taken:
  assumes "parseUpdateFile h eh w pf rows = Inr (m, hs, rest)"
  shows "\<exists>p. rows = p @ rest \<and> END_OF_FILE \<notin> set p"
proof -
  have moved: "\<not> starts_with ''*** Move to: '' END_OF_FILE" by (simp add: starts_with_def END_OF_FILE_def)
  obtain rows' p where r: "rows = p @ rows'" "parseHunks pf rows' = Inr (hs, rest)" "END_OF_FILE \<notin> set p"
  proof (cases "rows \<noteq> [] \<and> starts_with ''*** Move to: '' (hd rows)")
    case True
    then obtain row rest' where rw: "rows = row # rest'" by (cases rows) auto
    then have "parseHunks pf rest' = Inr (hs, rest)" using assms True by (auto simp: parseUpdateFile_def bind_result_eq_Inr split: if_splits)
    then show ?thesis using that[of "[row]" rest'] rw True moved by auto
  next
    case False
    then have "parseHunks pf rows = Inr (hs, rest)" using assms
      by (cases rows) (auto simp: parseUpdateFile_def bind_result_eq_Inr split: if_splits)
    then show ?thesis using that[of "[]" rows] by simp
  qed
  obtain p' where "rows' = p' @ rest" "bodyRows p'" using parseHunks_taken[OF r(2)] by blast
  then show ?thesis using r eof_marked by (intro exI[of _ "p @ p'"]) simp
qed

lemma parseOps_no_marker:
  "parseOps h eh w rows = Inr (ops, Some after) \<Longrightarrow> \<exists>p. rows = p @ after \<and> END_OF_FILE \<notin> set p"
proof (induction h eh w rows arbitrary: ops rule: parseOps.induct)
  case (2 h eh w line rows)
  have blank: "js_trim line \<noteq> []" if "line = END_OF_FILE" unfolding that END_OF_FILE_def by code_simp
  have marker: "line \<noteq> END_OF_FILE" if "line = ''*** End Patch'' \<or> starts_with ''*** Add File: '' line \<or> starts_with ''*** Delete File: '' line
      \<or> starts_with ''*** Update File: '' line \<or> js_trim line = []"
    using that blank by (auto simp: END_OF_FILE_def starts_with_def)
  show ?case
  proof (cases "line = ''*** End Patch''")
    case True
    then show ?thesis using "2.prems" marker by (intro exI[of _ "[line]"]) (simp add: parseOps.simps(2))
  next
    case e: False
    show ?thesis
    proof (cases "starts_with ''*** Add File: '' line")
      case True
      then obtain f content rest ops' where s: "normalizePatchTarget h eh w (drop (length ''*** Add File: '') line) = Inr f"
          "parseAddFile f rows = Inr (content, rest)" "parseOps h eh w rest = Inr (ops', Some after)"
        using "2.prems" e by (auto simp: parseOps.simps(2) bind_result_eq_Inr split: sum.splits)
      obtain p where "rest = p @ after" "END_OF_FILE \<notin> set p" using 2(1)[OF e True s(1) s(2) refl s(3)] by blast
      moreover obtain q where "rows = q @ rest" "bodyRows q" using parseAddFile_taken[OF s(2)] by blast
      ultimately show ?thesis using marker True eof_marked by (intro exI[of _ "line # q @ p"]) auto
    next
      case a: False
      show ?thesis
      proof (cases "starts_with ''*** Delete File: '' line")
        case True
        then obtain f ops' where s: "normalizePatchTarget h eh w (drop (length ''*** Delete File: '') line) = Inr f"
            "parseOps h eh w rows = Inr (ops', Some after)"
          using "2.prems" e a by (auto simp: parseOps.simps(2) bind_result_eq_Inr split: sum.splits)
        obtain p where "rows = p @ after" "END_OF_FILE \<notin> set p" using 2(2)[OF e a True s(1) s(2)] by blast
        then show ?thesis using marker True by (intro exI[of _ "line # p"]) auto
      next
        case d: False
        show ?thesis
        proof (cases "starts_with ''*** Update File: '' line")
          case True
          then obtain f m hs rest ops' where s: "normalizePatchTarget h eh w (drop (length ''*** Update File: '') line) = Inr f"
              "parseUpdateFile h eh w f rows = Inr (m, hs, rest)" "parseOps h eh w rest = Inr (ops', Some after)"
            using "2.prems" e a d by (auto simp: parseOps.simps(2) bind_result_eq_Inr split: sum.splits)
          obtain p where "rest = p @ after" "END_OF_FILE \<notin> set p" using 2(3)[OF e a d True s(1) s(2) refl refl s(3)] by blast
          moreover obtain q where "rows = q @ rest" "END_OF_FILE \<notin> set q" using parseUpdateFile_taken[OF s(2)] by blast
          ultimately show ?thesis using marker True by (intro exI[of _ "line # q @ p"]) auto
        next
          case u: False
          then have b: "js_trim line = []" "parseOps h eh w rows = Inr (ops, Some after)"
            using "2.prems" e a d by (auto simp: parseOps.simps(2) split: if_splits)
          obtain p where "rows = p @ after" "END_OF_FILE \<notin> set p" using 2(4)[OF e a d u b] by blast
          then show ?thesis using marker b by (intro exI[of _ "line # p"]) auto
        qed
      qed
    qed
  qed
qed simp

text \<open>A patch with a line \<open>*** End of File\<close> is rejected, wherever the line stands and whatever else the patch says, though two
  parsers of it have a branch that skips this line: the loops around these branches end at every line that begins like it.\<close>

theorem end_of_file_marker_rejected:
  assumes "END_OF_FILE \<in> set (patchLines patchText)"
  shows "\<exists>e. parsePatch h eh patchText workdir = Inl e"
proof (rule ccontr)
  assume "\<nexists>e. parsePatch h eh patchText workdir = Inl e"
  then obtain ops where p: "parsePatch h eh patchText workdir = Inr ops" by (cases "parsePatch h eh patchText workdir") auto
  then obtain rows after where r: "patchLines patchText = ''*** Begin Patch'' # rows" "parseOps h eh workdir rows = Inr (ops, Some after)"
      "filter (\<lambda>l. js_trim l \<noteq> []) after = []"
    by (auto simp: parsePatch_def bind_result_eq_Inr split: list.splits if_splits option.splits)
  obtain q where q: "rows = q @ after" "END_OF_FILE \<notin> set q" using parseOps_no_marker[OF r(2)] by blast
  have "js_trim END_OF_FILE \<noteq> []" unfolding END_OF_FILE_def by code_simp
  then have "END_OF_FILE \<notin> set after" using r(3) by (auto simp: filter_empty_conv)
  moreover have "END_OF_FILE \<noteq> ''*** Begin Patch''" by (simp add: END_OF_FILE_def)
  ultimately show False using assms q by (simp add: r(1))
qed

end
