(* ===== verification/PatchPrint.thy ===== *)
theory PatchPrint
  imports PatchApply
begin

text \<open>A printer of patches, the specification of their format: what it prints is parsed back.\<close>

section \<open>The printer\<close>

definition linePrint :: "PatchLine \<Rightarrow> string" where
  "linePrint l = (case l of ContextLine v \<Rightarrow> '' '' @ v | AddLine v \<Rightarrow> ''+'' @ v | RemoveLine v \<Rightarrow> ''-'' @ v)"

definition hunkPrint :: "PatchHunk \<Rightarrow> string list" where
  "hunkPrint hunk = map (\<lambda>a. ''@@ '' @ a) (ph_anchors hunk) @ map linePrint (ph_lines hunk)"

definition opPrint :: "PatchOp \<Rightarrow> string list" where
  "opPrint op = (case op of
      AddOp pf ls \<Rightarrow> (''*** Add File: '' @ pp_raw pf) # map (\<lambda>l. ''+'' @ l) ls
    | DeleteOp pf \<Rightarrow> [''*** Delete File: '' @ pp_raw pf]
    | UpdateOp pf moveTo hunks \<Rightarrow> (''*** Update File: '' @ pp_raw pf)
        # (case moveTo of None \<Rightarrow> [] | Some m \<Rightarrow> [''*** Move to: '' @ pp_raw m]) @ concat (map hunkPrint hunks))"

definition printPatch :: "PatchOp list \<Rightarrow> string" where
  "printPatch ops = js_join [newline] (''*** Begin Patch'' # concat (map opPrint ops) @ [''*** End Patch''])"

section \<open>Operations that can be printed\<close>

definition plainLine :: "string \<Rightarrow> bool" where
  "plainLine s \<longleftrightarrow> newline \<notin> set s \<and> carriage \<notin> set s"

definition lineText :: "PatchLine \<Rightarrow> string" where
  "lineText l = (case l of ContextLine v \<Rightarrow> v | AddLine v \<Rightarrow> v | RemoveLine v \<Rightarrow> v)"

definition printablePath :: "Host \<Rightarrow> EditHost \<Rightarrow> string \<Rightarrow> PatchPath \<Rightarrow> bool" where
  "printablePath h eh w pf \<longleftrightarrow> plainLine (pp_raw pf) \<and> pp_raw pf \<noteq> [] \<and> js_trim (pp_raw pf) = pp_raw pf
     \<and> pp_absolute pf = resolveToolPath h eh w (pp_raw pf)"

definition printableHunk :: "PatchHunk \<Rightarrow> bool" where
  "printableHunk hunk \<longleftrightarrow> ph_anchors hunk \<noteq> [] \<and> ph_lines hunk \<noteq> [] \<and> (\<forall>a \<in> set (ph_anchors hunk). plainLine a \<and> js_trim a = a)
     \<and> (\<forall>l \<in> set (ph_lines hunk). plainLine (lineText l))"

definition printableOp :: "Host \<Rightarrow> EditHost \<Rightarrow> string \<Rightarrow> PatchOp \<Rightarrow> bool" where
  "printableOp h eh w op \<longleftrightarrow> printablePath h eh w (op_file op) \<and> (case op of
      AddOp _ ls \<Rightarrow> (\<forall>l \<in> set ls. plainLine l)
    | DeleteOp _ \<Rightarrow> True
    | UpdateOp _ moveTo hunks \<Rightarrow> (\<forall>m. moveTo = Some m \<longrightarrow> printablePath h eh w m) \<and> (\<forall>k \<in> set hunks. printableHunk k)
        \<and> (moveTo \<noteq> None \<or> hunks \<noteq> []))"

section \<open>Reading back\<close>

lemma crlf_plain: "carriage \<notin> set s \<Longrightarrow> crlfToLf s = s"
  by (induction s rule: crlfToLf.induct) auto

lemma plain_simps [simp]: "plainLine []" "plainLine (c # s) \<longleftrightarrow> c \<noteq> newline \<and> c \<noteq> carriage \<and> plainLine s"
  "plainLine (s @ t) \<longleftrightarrow> plainLine s \<and> plainLine t"
  by (auto simp: plainLine_def)

definition directive :: "string list \<Rightarrow> bool" where
  "directive rest \<longleftrightarrow> rest = [] \<or> starts_with ''*** '' (hd rest)"

lemma read_add: "directive rest \<Longrightarrow> parseAddFile pf (map (\<lambda>l. ''+'' @ l) ls @ rest) = Inr (ls, rest)"
proof (induction ls)
  case Nil
  then show ?case by (cases rest) (auto simp: directive_def)
next
  case (Cons l ls)
  then show ?case by (simp add: starts_with_def END_OF_FILE_def)
qed

lemma read_anchor: "js_trim a = a \<Longrightarrow> js_trim (CHR '' '' # a) = a"
  by (simp add: js_trim_def js_space_def)

lemma read_anchors:
  "\<forall>a \<in> set anchors. js_trim a = a \<Longrightarrow> rest = [] \<or> \<not> starts_with ''@@'' (hd rest) \<Longrightarrow>
    takeAnchors (map (\<lambda>a. ''@@ '' @ a) anchors @ rest) = (anchors, rest)"
proof (induction anchors)
  case Nil
  then show ?case by (cases rest) auto
next
  case (Cons a anchors)
  then show ?case using read_anchor[of a] by (simp add: starts_with_def)
qed

lemma read_lines:
  "rest = [] \<or> starts_with ''@@'' (hd rest) \<or> starts_with ''*** '' (hd rest) \<Longrightarrow>
    takeHunkLines pf (map linePrint ls @ rest) = Inr (ls, rest)"
proof (induction ls)
  case Nil
  then show ?case by (cases rest) auto
next
  case (Cons l ls)
  then show ?case by (cases l) (simp_all add: starts_with_def linePrint_def patchLine_def END_OF_FILE_def)
qed

lemma hunk_head:
  assumes "printableHunk k"
  shows "\<exists>a as'. hunkPrint k @ rest = (''@@ '' @ a) # as'"
  using assms by (cases "ph_anchors k") (auto simp: printableHunk_def hunkPrint_def)

lemma line_head: "\<not> starts_with ''@@'' (linePrint l)"
  by (cases l) (simp_all add: linePrint_def starts_with_def)

lemma read_hunks:
  "\<forall>k \<in> set hunks. printableHunk k \<Longrightarrow> directive rest \<Longrightarrow> parseHunks pf (concat (map hunkPrint hunks) @ rest) = Inr (hunks, rest)"
proof (induction hunks)
  case Nil
  then show ?case by (cases rest) (auto simp: directive_def parseHunks.simps(2))
next
  case (Cons k hunks)
  let ?more = "concat (map hunkPrint hunks) @ rest"
  have k: "printableHunk k" and ih: "parseHunks pf ?more = Inr (hunks, rest)" using Cons by simp_all
  have more: "?more = [] \<or> starts_with ''@@'' (hd ?more) \<or> starts_with ''*** '' (hd ?more)"
  proof (cases hunks)
    case Nil
    then show ?thesis using Cons.prems(2) by (auto simp: directive_def)
  next
    case (Cons k' ks)
    then have "printableHunk k'" using Cons.prems(1) \<open>hunks = k' # ks\<close> by simp
    then obtain a as' where "hunkPrint k' @ (concat (map hunkPrint ks) @ rest) = (''@@ '' @ a) # as'" using hunk_head by blast
    then show ?thesis using Cons by (simp add: starts_with_def)
  qed
  have anchors: "takeAnchors (hunkPrint k @ ?more) = (ph_anchors k, map linePrint (ph_lines k) @ ?more)"
  proof -
    have "ph_lines k \<noteq> []" using k by (simp add: printableHunk_def)
    then obtain l ls where "ph_lines k = l # ls" by (cases "ph_lines k") auto
    then have "\<not> starts_with ''@@'' (hd (map linePrint (ph_lines k) @ ?more))" by (simp add: line_head)
    then show ?thesis using read_anchors[of "ph_anchors k" "map linePrint (ph_lines k) @ ?more"] k
      by (simp add: hunkPrint_def printableHunk_def)
  qed
  obtain a as' where h: "hunkPrint k @ ?more = (''@@ '' @ a) # as'" using hunk_head[OF k] by blast
  have nd: "\<not> starts_with ''*** '' (''@@ '' @ a)" by (simp add: starts_with_def)
  have ne: "ph_anchors k \<noteq> []" "ph_lines k \<noteq> []" using k by (simp_all add: printableHunk_def)
  have "parseHunks pf (hunkPrint k @ ?more) = Inr (k # hunks, rest)"
    using anchors[unfolded h] nd ne read_lines[OF more, of pf "ph_lines k"] ih
    unfolding h by (subst parseHunks.simps(2)) simp
  then show ?case by simp
qed

lemma read_path: "printablePath h eh w pf \<Longrightarrow> normalizePatchTarget h eh w (pp_raw pf) = Inr pf"
  by (simp add: printablePath_def normalizePatchTarget_def Let_def)

lemma read_update:
  assumes "printableOp h eh w (UpdateOp pf moveTo hunks)" "directive rest"
  shows "parseUpdateFile h eh w pf ((case moveTo of None \<Rightarrow> [] | Some m \<Rightarrow> [''*** Move to: '' @ pp_raw m]) @ concat (map hunkPrint hunks) @ rest)
    = Inr (moveTo, hunks, rest)"
proof (cases moveTo)
  case (Some m)
  then have "normalizePatchTarget h eh w (pp_raw m) = Inr m" using assms read_path by (simp add: printableOp_def)
  moreover have "parseHunks pf (concat (map hunkPrint hunks) @ rest) = Inr (hunks, rest)"
    using assms by (intro read_hunks) (simp_all add: printableOp_def)
  ultimately show ?thesis by (simp add: parseUpdateFile_def Some starts_with_def)
next
  case None
  then have ne: "hunks \<noteq> []" and p: "\<forall>k \<in> set hunks. printableHunk k" using assms by (simp_all add: printableOp_def)
  then obtain k ks where ks: "hunks = k # ks" by (cases hunks) auto
  then obtain a as' where "hunkPrint k @ (concat (map hunkPrint ks) @ rest) = (''@@ '' @ a) # as'" using hunk_head p by (metis list.set_intros(1))
  then have c: "concat (map hunkPrint hunks) @ rest = (''@@ '' @ a) # as'" by (simp add: ks)
  have "parseHunks pf (concat (map hunkPrint hunks) @ rest) = Inr (hunks, rest)" using p assms(2) by (intro read_hunks)
  then show ?thesis using ne unfolding None c by (simp add: parseUpdateFile_def starts_with_def)
qed

lemma op_head: "\<exists>l ls. opPrint op = l # ls \<and> starts_with ''*** '' l"
  by (cases op) (simp_all add: opPrint_def starts_with_def)

lemma directive_ops: "directive (concat (map opPrint ops) @ [''*** End Patch''])"
proof (cases ops)
  case Nil
  then show ?thesis by (simp add: directive_def starts_with_def)
next
  case (Cons op ops')
  obtain l ls where "opPrint op = l # ls" "starts_with ''*** '' l" using op_head by blast
  then show ?thesis by (simp add: directive_def Cons)
qed

lemma read_ops:
  "\<forall>op \<in> set ops. printableOp h eh w op \<Longrightarrow> parseOps h eh w (concat (map opPrint ops) @ [''*** End Patch'']) = Inr (ops, Some [])"
proof (induction ops)
  case Nil
  then show ?case by (simp add: parseOps.simps(2))
next
  case (Cons op ops)
  have ih: "parseOps h eh w (concat (map opPrint ops) @ [''*** End Patch'']) = Inr (ops, Some [])" using Cons by simp
  have p: "printableOp h eh w op" and path: "normalizePatchTarget h eh w (pp_raw (op_file op)) = Inr (op_file op)"
    using Cons read_path by (simp_all add: printableOp_def)
  show ?case
  proof (cases op)
    case (AddOp pf ls)
    have o: "opPrint (AddOp pf ls) = (''*** Add File: '' @ pp_raw pf) # map (\<lambda>l. ''+'' @ l) ls" by (simp add: opPrint_def)
    show ?thesis using path ih read_add[OF directive_ops, of pf ls ops] by (simp add: AddOp o parseOps.simps(2) starts_with_def)
  next
    case (DeleteOp pf)
    have o: "opPrint (DeleteOp pf) = [''*** Delete File: '' @ pp_raw pf]" by (simp add: opPrint_def)
    show ?thesis using path ih by (simp add: DeleteOp o parseOps.simps(2) starts_with_def)
  next
    case (UpdateOp pf moveTo hunks)
    define body where "body = (case moveTo of None \<Rightarrow> [] | Some m \<Rightarrow> [''*** Move to: '' @ pp_raw m]) @ concat (map hunkPrint hunks)"
    have o: "opPrint (UpdateOp pf moveTo hunks) = (''*** Update File: '' @ pp_raw pf) # body" by (simp add: opPrint_def body_def)
    have "parseUpdateFile h eh w pf (body @ concat (map opPrint ops) @ [''*** End Patch'']) = Inr (moveTo, hunks, concat (map opPrint ops) @ [''*** End Patch''])"
      using read_update[OF p[unfolded UpdateOp] directive_ops, of ops] by (simp add: body_def)
    then show ?thesis using path ih by (simp add: UpdateOp o parseOps.simps(2) starts_with_def)
  qed
qed

lemma op_plain: "printableOp h eh w op \<Longrightarrow> \<forall>l \<in> set (opPrint op). plainLine l"
proof -
  assume p: "printableOp h eh w op"
  have "plainLine (linePrint l)" if "plainLine (lineText l)" for l
    using that by (cases l) (simp_all add: linePrint_def lineText_def newline_def carriage_def)
  then have "\<forall>l \<in> set (hunkPrint k). plainLine l" if "printableHunk k" for k
    using that by (auto simp: hunkPrint_def printableHunk_def newline_def carriage_def)
  then show ?thesis using p
    by (cases op) (auto simp: opPrint_def printableOp_def printablePath_def newline_def carriage_def split: option.splits)
qed

lemma join_plain: "\<forall>l \<in> set ls. plainLine l \<Longrightarrow> carriage \<notin> set (js_join [newline] ls)"
  by (induction "[newline]" ls rule: js_join.induct) (auto simp: plainLine_def newline_def carriage_def)

text \<open>C34: a patch that is printed from operations is parsed back to them, for all operations that can be printed: paths and anchors
  without outer white space, hunks with an anchor and a line, updates that move or change something, no line breaks in a line.\<close>

theorem print_parse_patch:
  assumes "ops \<noteq> []" and "\<forall>op \<in> set ops. printableOp h eh w op"
  shows "parsePatch h eh (printPatch ops) w = Inr ops"
proof -
  let ?ls = "''*** Begin Patch'' # concat (map opPrint ops) @ [''*** End Patch'']"
  have "plainLine ''*** Begin Patch''" "plainLine ''*** End Patch''" by (simp_all add: newline_def carriage_def)
  then have plain: "\<forall>l \<in> set ?ls. plainLine l" using assms(2) op_plain by auto
  then have "patchLines (printPatch ops) = ?ls" unfolding patchLines_def printPatch_def
    by (subst crlf_plain[OF join_plain[OF plain]]) (intro split_on_join, auto simp: plainLine_def)
  then show ?thesis using read_ops[OF assms(2)] assms(1) by (simp add: parsePatch_def)
qed

end
