(* ===== verification/FileToolWitnesses.thy ===== *)
theory FileToolWitnesses
  imports PatchToolClaims FileGuards DiffClaims EditClaims PatchClaims PatchPrint PermissionWitnesses
begin

text \<open>Witnesses: the theorems on the file tools at concrete texts, patches and disks.\<close>

section \<open>A host\<close>

definition demoEdit :: EditHost where
  "demoEdit = \<lparr>eh_json = (\<lambda>_. ''json''), eh_ellipsis = ''...'', eh_HOME = Some ''/h''\<rparr>"

definition patchFrom :: "string list \<Rightarrow> jsv" where
  "patchFrom ls = JObj [(''patchText'', JStr (js_join [newline] (''*** Begin Patch'' # ls @ [''*** End Patch''])))]"

definition addA :: PatchOp where
  "addA = AddOp \<lparr>pp_raw = ''a'', pp_absolute = ''/w/a''\<rparr> [''x'']"

definition addAB :: PatchOp where
  "addAB = AddOp \<lparr>pp_raw = ''a/b'', pp_absolute = ''/w/a/b''\<rparr> [''y'']"

definition nestedPatch :: jsv where
  "nestedPatch = patchFrom [''*** Add File: a'', ''+x'', ''*** Add File: a/b'', ''+y'']"

definition onePatch :: jsv where
  "onePatch = patchFrom [''*** Add File: a'', ''+x'']"

lemma parsed:
  "parsePatch (plainHost ps) demoEdit (patchTextOf (plainHost ps) onePatch) ''/w'' = Inr [addA]"
  "parsePatch (plainHost ps) demoEdit (patchTextOf (plainHost ps) nestedPatch) ''/w'' = Inr [addA, addAB]"
  "js_trim (patchTextOf (plainHost ps) onePatch) \<noteq> []" "js_trim (patchTextOf (plainHost ps) nestedPatch) \<noteq> []"
  by code_simp+

lemma parts: "pathParts ''/w/a'' = [''w'', ''a'']" "pathParts ''/w/a/b'' = [''w'', ''a'', ''b'']" by code_simp+

lemma full_auto: "isDangerousExecProtocolMode (tr_metadata session)" "resolveExecProtocolAdditionalWritableRoots (tr_metadata session) = []"
  "resolveLocalPermissionGrantFromRuntime (tr_localPermissionGrant session) = None"
  by (simp_all add: session_def) code_simp+

lemma full_auto_authorizes:
  assumes "resolveRequestedPath (plainHost ps) ''/w'' raw = p" "isProtectedPermissionConfigPath (plainHost ps) p None = Inr False"
    and "path_resolve ''/'' p = p" "tool \<in> set writingTools" "map_of details ''scopeIntent'' = None"
  shows "authorizeLocalToolCall (plainHost ps) now session tool (filePayload raw details JUndef) None = (Authorized, session)"
proof -
  let ?h = "plainHost ps"
  have t: "(tool = ''grep'' \<or> tool = ''glob'') = False" "(if tool = ''bash'' then None else None) = None" using assms(4) by (auto simp: writingTools_def)
  have "js_prop (filePayload raw details JUndef) ''scopeIntent'' = JUndef"
    using assms(5) by (simp add: filePayload_def map_add_def)
  then have scope: "resolveFileToolScopeIntent (h_shw ?h) (js_prop (filePayload raw details JUndef) ''scopeIntent'') = Inr WorkspaceScope"
    by (simp add: resolveFileToolScopeIntent_def)
  obtain d where d: "evaluateFilePermission ?h ''/w'' raw WriteAccess tool None None [] WorkspaceScope = Inr d"
      "de_action d = Allow \<or> de_reasonCode d \<noteq> Some PrivateRuntimeData \<and> de_resolvedPath d = Some p"
  proof (cases "isPathWithin ''/'' p ''/w''")
    case True
    then show ?thesis
      by (intro that, simp add: evaluateFilePermission_def Let_def w_resolved assms(1,2) plain_rules ruleDecision_def decide_def, simp)
  next
    case False
    then show ?thesis
      by (intro that, simp add: evaluateFilePermission_def Let_def w_resolved assms(1,2) decide_def, simp)
  qed
  have "evaluateLocalToolPermission ?h ''/w'' tool (filePayload raw details JUndef) None None [] None = Inr d"
    using tool_file[OF payload_request[OF assms(4)]] scope d(1) by (simp add: w_resolved)
  then show ?thesis using d(2) t assms(2,3) by (auto simp: authorizeLocalToolCall_def session_values full_auto Let_def)
qed

section \<open>Texts\<close>

theorem edit_replaces_occurrences_witness:
  "\<exists>s s' ps. applyStringEdit demoEdit ''abcb'' ''b'' ''x'' False = Inr s \<and> es_next s = ''a'' @ ''x'' @ ''cb''
    \<and> ''abcb'' = ''a'' @ ''b'' @ ''cb'' \<and> \<not> js_includes ''a'' ''b''
    \<and> applyStringEdit demoEdit ''abcb'' ''b'' ''$'' True = Inr s' \<and> es_next s' = js_join ''$'' ps
    \<and> ''abcb'' = js_join ''b'' ps \<and> es_replacements s' = int (length ps) - 1 \<and> (\<forall>p \<in> set ps. \<not> js_includes p ''b'')"
proof -
  have found: "find_sub ''b'' ''abcb'' = Some (''a'', ''cb'')" by code_simp
  have "CHR ''$'' \<notin> set ''x''" "''b'' \<noteq> []" by simp_all
  from edit_replaces_occurrences[OF this(2,1), where content = "''abcb''" and newString = "''$''" and eh = demoEdit]
  show ?thesis unfolding found option.case prod.case .
qed

theorem dollar_not_literal_witness:
  "\<exists>s s' ps. applyStringEdit demoEdit ''abc'' ''b'' ''$$'' False = Inr s \<and> es_next s = ''a'' @ ''$'' @ ''c''
    \<and> applyStringEdit demoEdit ''abc'' ''b'' ''$&'' False = Inr s' \<and> es_next s' = ''abc''
    \<and> map_sum id es_next (applyStringEdit demoEdit ''abc'' ''b'' ''$$'' True) = Inr (js_join ''$$'' ps) \<and> ''abc'' = js_join ''b'' ps"
proof (rule dollar_not_literal)
  show "find_sub ''b'' ''abc'' = Some (''a'', ''c'')" by code_simp
qed simp

theorem near_hunks_overlap_witness:
  "\<exists>k k'. collectHunks (DiffOp DiffAdd ''a'' # replicate 4 (DiffOp DiffContext ''c'') @ [DiffOp DiffAdd ''b'']) = [k, k']
    \<and> dh_startIndex k' < dh_startIndex k + length (dh_lines k)"
  by (rule near_hunks_overlap) (simp_all)

theorem end_of_file_marker_rejected_witness:
  "\<exists>e. parsePatch (plainHost []) demoEdit (js_join [newline] [''*** Begin Patch'', ''*** Add File: a'', ''+x'', ''*** End of File'', ''*** End Patch'']) ''/w'' = Inl e"
proof (rule end_of_file_marker_rejected)
  show "END_OF_FILE \<in> set (patchLines (js_join [newline]
      [''*** Begin Patch'', ''*** Add File: a'', ''+x'', ''*** End of File'', ''*** End Patch'']))" by code_simp
qed

definition updateA :: PatchOp where
  "updateA = UpdateOp \<lparr>pp_raw = ''a'', pp_absolute = ''/w/a''\<rparr> (Some \<lparr>pp_raw = ''a/b'', pp_absolute = ''/w/a/b''\<rparr>)
     [\<lparr>ph_anchors = [''f'', []], ph_lines = [ContextLine ''x'', RemoveLine ''y'', AddLine []]\<rparr>]"

lemma demo_paths: "resolveToolPath (plainHost ps) demoEdit ''/w'' ''a'' = ''/w/a''" "resolveToolPath (plainHost ps) demoEdit ''/w'' ''a/b'' = ''/w/a/b''"
  by code_simp+

theorem print_parse_patch_witness:
  "parsePatch (plainHost []) demoEdit (printPatch [updateA, addA, DeleteOp \<lparr>pp_raw = ''a'', pp_absolute = ''/w/a''\<rparr>]) ''/w''
    = Inr [updateA, addA, DeleteOp \<lparr>pp_raw = ''a'', pp_absolute = ''/w/a''\<rparr>]"
proof (rule print_parse_patch)
  have t: "js_trim ''a'' = ''a''" "js_trim ''a/b'' = ''a/b''" "js_trim ''f'' = ''f''" "js_trim [] = []" by code_simp+
  show "\<forall>op \<in> set [updateA, addA, DeleteOp \<lparr>pp_raw = ''a'', pp_absolute = ''/w/a''\<rparr>]. printableOp (plainHost []) demoEdit ''/w'' op"
    by (simp add: updateA_def addA_def printableOp_def printablePath_def printableHunk_def plainLine_def lineText_def demo_paths t newline_def carriage_def)
qed simp

section \<open>Patches\<close>

lemma work_dir_session: "workDirOf session = Some ''/w''"
proof -
  have "js_trim ''/w'' = ''/w''" by code_simp
  then show ?thesis by (simp add: workDirOf_def session_def)
qed

lemma empty_tree: "treeDisk []"
  by (simp add: treeDisk_def nodeAt_def)

theorem patch_done_or_untouched_witness:
  "\<exists>out rt' d'. applyPatchCoreLogic (plainHost []) demoEdit 0 onePatch (session, []) = (out, rt', d')
    \<and> ((\<exists>plan. out = patchSucceeded demoEdit [addA] plan \<and> treeDisk d' \<and> (\<forall>op \<in> set [addA]. opDone demoEdit [] d' op)
          \<and> (\<forall>q. q \<in> pathParts ` set (concat (map touchedBy [addA])) \<or> fileText d' q = fileText [] q))
      \<or> d' = [] \<and> (\<exists>detail. out = patchFailed demoEdit [addA] detail)
      \<or> d' = [] \<and> fst (ensurePatchPermissions (plainHost []) 0 (js_prop onePatch ''scopeIntent'') (concat (map opTargets [addA])) session) = Some out)"
proof -
  obtain out rt' d' where call: "applyPatchCoreLogic (plainHost []) demoEdit 0 onePatch (session, []) = (out, rt', d')"
    by (cases "applyPatchCoreLogic (plainHost []) demoEdit 0 onePatch (session, [])")
  have "noNesting [addA]" by (simp add: noNesting_def writtenPaths_def addA_def)
  note run = patch_done_or_untouched[OF empty_tree this work_dir_session parsed(3) parsed(1) call]
  show ?thesis by (rule exI[of _ out], rule exI[of _ rt'], rule exI[of _ d'], rule conjI[OF call run])
qed

lemma open_paths: "resolveRequestedPath (plainHost ps) ''/w'' ''a'' = ''/w/a''" "resolveRequestedPath (plainHost ps) ''/w'' ''a/b'' = ''/w/a/b''"
  "path_resolve ''/'' ''/w/a'' = ''/w/a''" "path_resolve ''/'' ''/w/a/b'' = ''/w/a/b''"
proof -
  have r: "path_resolve2 ''/'' ''/w'' ''a'' = ''/w/a''" "path_resolve2 ''/'' ''/w'' ''a/b'' = ''/w/a/b''" by code_simp+
  show p: "path_resolve ''/'' ''/w/a'' = ''/w/a''" "path_resolve ''/'' ''/w/a/b'' = ''/w/a/b''" by code_simp+
  have n: "\<not> path_isAbsolute ''a''" "\<not> path_isAbsolute ''a/b''" by code_simp+
  show "resolveRequestedPath (plainHost ps) ''/w'' ''a'' = ''/w/a''" "resolveRequestedPath (plainHost ps) ''/w'' ''a/b'' = ''/w/a/b''"
    by (simp_all add: resolveRequestedPath_def Let_def expand_plain n r p)
qed

lemma nothing_protected: "isProtectedPermissionConfigPath (plainHost []) p None = Inr False"
  by (simp add: isProtectedPermissionConfigPath_def canonicalProtectionPath_def protectedPermissionConfigPaths_def)

lemma nested_allowed: "ensurePatchPermissions (plainHost []) 0 (js_prop nestedPatch ''scopeIntent'') [''a'', ''a/b''] session = (None, session)"
proof -
  have "js_prop nestedPatch ''scopeIntent'' = JUndef" by (simp add: nestedPatch_def patchFrom_def)
  moreover have "authorizeLocalToolCall (plainHost []) 0 session ''apply_patch'' (filePayload ''a'' [] JUndef) None = (Authorized, session)"
    by (rule full_auto_authorizes[OF open_paths(1) nothing_protected open_paths(3)]) (simp_all add: writingTools_def)
  moreover have "authorizeLocalToolCall (plainHost []) 0 session ''apply_patch'' (filePayload ''a/b'' [] JUndef) None = (Authorized, session)"
    by (rule full_auto_authorizes[OF open_paths(2) nothing_protected open_paths(4)]) (simp_all add: writingTools_def)
  ultimately show ?thesis by simp
qed

theorem nested_adds_half_done_witness:
  "\<exists>detail d'. applyPatchCoreLogic (plainHost []) demoEdit 0 nestedPatch (session, []) = (patchFailed demoEdit [addA, addAB] detail, session, d')
    \<and> fileText [] [''w'', ''a''] = None \<and> fileText d' [''w'', ''a''] = Some (renderAddedFile [''x''])"
proof -
  let ?f = "\<lparr>pp_raw = ''a'', pp_absolute = ''/w/a''\<rparr>" and ?g = "\<lparr>pp_raw = ''a/b'', pp_absolute = ''/w/a/b''\<rparr>"
  have "freePath [] (pp_absolute ?f)" by (simp add: freePath_def parts nodeAt_def blocked_iff isFile_def)
  moreover have "strict_prefix (pathParts (pp_absolute ?f)) (pathParts (pp_absolute ?g))" by (simp add: parts)
  moreover have "parsePatch (plainHost []) demoEdit (patchTextOf (plainHost []) nestedPatch) ''/w'' = Inr [AddOp ?f [''x''], AddOp ?g [''y'']]"
    using parsed(2) by (simp add: addA_def addAB_def)
  moreover have "ensurePatchPermissions (plainHost []) 0 (js_prop nestedPatch ''scopeIntent'') [pp_raw ?f, pp_raw ?g] session = (None, session)"
    using nested_allowed by simp
  ultimately show ?thesis using nested_adds_half_done[OF empty_tree _ _ work_dir_session parsed(4)] by (fastforce simp: addA_def addAB_def parts)
qed

section \<open>Closed paths\<close>

definition callFor :: "string \<Rightarrow> jsv" where
  "callFor p = JObj [(''filePath'', JStr p), (''content'', JStr ''x'')]"

lemma closed_demo: "closedPath (plainHost [''/w/a'']) session ''/w/a''"
  by (simp add: closedPath_def session_values isProtectedPermissionConfigPath_def canonicalProtectionPath_def protectedPermissionConfigPaths_def)

theorem file_tools_spare_closed_paths_witness:
  "snd (editCoreLogic (plainHost [''/w/a'']) demoEdit 0 (callFor ''a'') (session, [])) = (session, [])
    \<and> snd (multieditCoreLogic (plainHost [''/w/a'']) demoEdit 0 (callFor ''a'') (session, [])) = (session, [])
    \<and> snd (writeCoreLogic (plainHost [''/w/a'']) demoEdit 0 (callFor ''a'') (session, [])) = (session, [])
    \<and> snd (snd (applyPatchCoreLogic (plainHost [''/w/a'']) demoEdit 0 onePatch (session, []))) = []"
proof (rule file_tools_spare_closed_paths[OF _ _ work_dir_session])
  show "eh_HOME demoEdit = Some (h_home (plainHost [''/w/a'']))" by (simp add: demoEdit_def)
  show "path_isAbsolute (h_home (plainHost [''/w/a'']))" by (simp add: path_isAbsolute_def starts_with_def sep_def)
  show "js_trim ''/w'' = ''/w''" by code_simp
  show "inputText (plainHost [''/w/a'']) (js_prop (callFor ''a'') ''filePath'') = ''a''" by (simp add: callFor_def inputText_def)
  show "sharedAlias ''a''" by (simp add: sharedAlias_def expand_plain)
  show "closedPath (plainHost [''/w/a'']) session (resolveToolPath (plainHost [''/w/a'']) demoEdit ''/w'' ''a'')"
    by (simp add: demo_paths closed_demo)
  show "parsePatch (plainHost [''/w/a'']) demoEdit (patchTextOf (plainHost [''/w/a'']) onePatch) ''/w'' = Inr [addA]" by (rule parsed)
  show "addA \<in> set [addA]" by simp
  show "''a'' \<in> set (opTargets addA)" by (simp add: addA_def opTargets_def)
  show "sharedAlias ''a''" by (simp add: sharedAlias_def expand_plain)
  show "closedPath (plainHost [''/w/a'']) session (resolveToolPath (plainHost [''/w/a'']) demoEdit ''/w'' ''a'')"
    by (simp add: demo_paths closed_demo)
qed

lemma alias_texts: "path_resolve ''/'' (''/h'' @ [sep] @ ''../a'') = ''/a''" "path_isAbsolute (''/h'' @ [sep] @ ''../a'')"
  by code_simp+

lemma alias_paths:
  "path_resolve2 ''/'' ''/w'' (''$HOME/'' @ ''../a'') = ''/w/a''" "resolveRequestedPath (plainHost ps) ''/w'' (''$HOME/'' @ ''../a'') = ''/a''"
  "path_resolve ''/'' ''/a'' = ''/a''" "isPathWithin ''/'' ''/a'' ''/w/a'' = False"
proof -
  show "resolveRequestedPath (plainHost ps) ''/w'' (''$HOME/'' @ ''../a'') = ''/a''"
    unfolding resolveRequestedPath_def expand_HOME Let_def plain_fields if_P[OF alias_texts(2)] by (rule alias_texts)
qed (code_simp+)

theorem home_alias_writes_unchecked_file_witness:
  "closedPath (plainHost [''/w/a'']) session ''/w/a''
    \<and> (\<exists>d'. writeCoreLogic (plainHost [''/w/a'']) demoEdit 0 (callFor ''$HOME/../a'') (session, []) = (Inr ''Wrote file successfully.'', session, d')
      \<and> fileText d' [''w'', ''a''] = Some ''x'')"
proof -
  let ?h = "plainHost [''/w/a'']" and ?i = "callFor (''$HOME/'' @ ''../a'')"
  have c: "js_prop ?i ''content'' = JStr ''x''" "js_prop ?i ''scopeIntent'' = JUndef" "inputText ?h (js_prop ?i ''filePath'') = ''$HOME/'' @ ''../a''"
    by (simp_all add: callFor_def inputText_def)
  have "isProtectedPermissionConfigPath ?h ''/a'' None = Inr False"
    by (simp add: isProtectedPermissionConfigPath_def canonicalProtectionPath_def protectedPermissionConfigPaths_def alias_paths)
  then have a: "authorizeLocalToolCall ?h 0 session ''write'' (filePayload (''$HOME/'' @ ''../a'') [(''content'', js_prop ?i ''content'')]
      (js_prop ?i ''scopeIntent'')) None = (Authorized, session)"
    unfolding c by (intro full_auto_authorizes[OF alias_paths(2) _ alias_paths(3)]) (simp_all add: writingTools_def)
  have home: "path_isAbsolute (h_home ?h)" by (simp add: path_isAbsolute_def starts_with_def sep_def)
  have free: "writable [] (pathParts (path_resolve2 (h_cwd ?h) ''/w'' (''$HOME/'' @ ''../a'')))"
    unfolding plain_fields alias_paths parts by (simp add: writable_def blocked_iff isFile_def nodeAt_def)
  have closed: "closedPath ?h session (path_resolve2 (h_cwd ?h) ''/w'' (''$HOME/'' @ ''../a''))"
    unfolding plain_fields alias_paths by (rule closed_demo)
  obtain d' where w: "writeCoreLogic ?h demoEdit 0 ?i (session, []) = (Inr ''Wrote file successfully.'', session, d')"
      "fileText d' (pathParts (path_resolve2 (h_cwd ?h) ''/w'' (''$HOME/'' @ ''../a''))) = Some (inputText ?h (js_prop ?i ''content''))"
    using home_alias_writes_unchecked_file[OF c(3) work_dir_session home a empty_tree free closed, where eh = demoEdit]
    by (elim exE conjE) (rule that)
  have x: "inputText ?h (JStr ''x'') = ''x''" by (simp add: inputText_def)
  have i: "''$HOME/'' @ ''../a'' = ''$HOME/../a''" by simp
  have "fileText d' [''w'', ''a''] = Some ''x''" using w(2) unfolding plain_fields alias_paths parts c x .
  then show ?thesis using closed_demo w(1) unfolding i by (intro conjI exI[of _ d'])
qed

end
