(* ===== verification/HunkClaims.thy ===== *)
theory HunkClaims
  imports PatchApply
begin

text \<open>Where a hunk is applied, and what it replaces there.\<close>

definition blockAt :: "string list \<Rightarrow> nat \<Rightarrow> nat \<Rightarrow> string list" where
  "blockAt lines i n = take n (drop i lines)"

definition blockMatches :: "MatchMode \<Rightarrow> string list \<Rightarrow> string list \<Rightarrow> bool" where
  "blockMatches m block old = list_all2 (\<lambda>a b. lineMatches a b m) block old"

lemma block_matches:
  "lineBlockMatches lines old i m \<Longrightarrow> i \<le> length lines \<Longrightarrow> i + length old \<le> length lines \<and> blockMatches m (blockAt lines i (length old)) old"
  by (auto simp: lineBlockMatches_def blockMatches_def blockAt_def list_all2_conv_all_nth list_all_iff)

definition placed :: "string list \<Rightarrow> string list \<Rightarrow> nat \<Rightarrow> MatchMode \<Rightarrow> bool" where
  "placed lines old i m \<longleftrightarrow> i + length old \<le> length lines \<and> blockMatches m (blockAt lines i (length old)) old"

lemma found_block: "findLineBlock lines old start m = Some i \<Longrightarrow> placed lines old i m"
proof (cases "old = []")
  case False
  assume "findLineBlock lines old start m = Some i"
  then have "lineBlockMatches lines old i m" "i \<in> set (blockPlaces lines old start)"
    using False by (auto simp: findLineBlock_def find_Some_iff)
  then show ?thesis using block_matches[of lines old i m] False by (auto simp: placed_def blockPlaces_def lineBlockMatches_def)
qed (auto simp: findLineBlock_def placed_def blockMatches_def blockAt_def)

lemma found_all: "i \<in> set (findAllLineBlocks lines old start m) \<Longrightarrow> placed lines old i m"
proof (cases "old = []")
  case False
  assume "i \<in> set (findAllLineBlocks lines old start m)"
  then have "lineBlockMatches lines old i m" using False by (auto simp: findAllLineBlocks_def)
  then show ?thesis using block_matches[of lines old i m] False by (auto simp: placed_def lineBlockMatches_def)
qed (auto simp: findAllLineBlocks_def placed_def blockMatches_def blockAt_def)

lemma chosen: "chooseUniqueFuzzyCandidate eh lines old start m f hunk = Inr (Some i) \<longleftrightarrow> findAllLineBlocks lines old start m = [i]"
  by (auto simp: chooseUniqueFuzzyCandidate_def split: list.splits)

text \<open>The line from which a hunk is looked for.\<close>

definition hunkStart :: "string list \<Rightarrow> string \<Rightarrow> PatchHunk \<Rightarrow> nat \<Rightarrow> nat result" where
  "hunkStart lines f hunk cursor = (if list_ex (\<lambda>a. a \<noteq> []) (ph_anchors hunk) then resolveAnchorStart lines f 0 (ph_anchors hunk) else Inr cursor)"

text \<open>A place that is not literal is the only one from that line on.\<close>

definition onlyPlace :: "string list \<Rightarrow> string \<Rightarrow> PatchHunk \<Rightarrow> nat \<Rightarrow> MatchMode \<Rightarrow> nat \<Rightarrow> bool" where
  "onlyPlace lines f hunk cursor m i \<longleftrightarrow>
     (\<exists>start. hunkStart lines f hunk cursor = Inr start \<and> findAllLineBlocks lines (hunkOldLines hunk) start m = [i])"

lemma fuzzy_location:
  assumes "findFuzzyLocation eh lines hunk start f = Inr (i, m)"
  shows "findAllLineBlocks lines (hunkOldLines hunk) start m = [i]" "placed lines (hunkOldLines hunk) i m" "m = Normalized \<or> m = Fuzzy"
proof -
  show a: "findAllLineBlocks lines (hunkOldLines hunk) start m = [i]"
    using assms by (auto simp: findFuzzyLocation_def Let_def bind_result_eq_Inr chosen split: option.splits)
  show "placed lines (hunkOldLines hunk) i m" using found_all[of i lines "hunkOldLines hunk" start m] a by simp
  show "m = Normalized \<or> m = Fuzzy" using assms by (auto simp: findFuzzyLocation_def Let_def bind_result_eq_Inr split: option.splits)
qed

lemma hunk_location:
  assumes "findHunkLocation eh lines hunk cursor f = Inr (i, m)"
  shows "placed lines (hunkOldLines hunk) i m
    \<and> (m = Exact \<or> m = AnchoredExact \<or> (m = Normalized \<or> m = Fuzzy) \<and> onlyPlace lines f hunk cursor m i)"
proof (cases "list_ex (\<lambda>a. a \<noteq> []) (ph_anchors hunk)")
  case True
  then obtain start where s: "resolveAnchorStart lines f 0 (ph_anchors hunk) = Inr start"
      "findLineBlock lines (hunkOldLines hunk) start AnchoredExact = Some i \<and> m = AnchoredExact \<or> findFuzzyLocation eh lines hunk start f = Inr (i, m)"
    using assms by (auto simp: findHunkLocation_def Let_def bind_result_eq_Inr split: option.splits)
  then have here: "hunkStart lines f hunk cursor = Inr start" using True by (simp add: hunkStart_def)
  from s(2) show ?thesis
  proof
    assume "findLineBlock lines (hunkOldLines hunk) start AnchoredExact = Some i \<and> m = AnchoredExact"
    then show ?thesis using found_block by auto
  next
    assume "findFuzzyLocation eh lines hunk start f = Inr (i, m)"
    then show ?thesis using here fuzzy_location by (simp add: onlyPlace_def)
  qed
next
  case False
  then have "findLineBlock lines (hunkOldLines hunk) cursor Exact = Some i \<and> m = Exact
      \<or> findLineBlock lines (hunkOldLines hunk) 0 Exact = Some i \<and> m = Exact \<or> findFuzzyLocation eh lines hunk cursor f = Inr (i, m)"
    using assms by (auto simp: findHunkLocation_def Let_def bind_result_eq_Inr split: option.splits)
  moreover have "hunkStart lines f hunk cursor = Inr cursor" unfolding hunkStart_def if_not_P[OF False] ..
  ultimately show ?thesis using found_block fuzzy_location[of eh lines hunk cursor f i m] by (auto simp: onlyPlace_def)
qed

text \<open>C35: a hunk replaces lines that match its old lines: the first hunk of an update that succeeds cuts out one block that matches them
  in the mode that is reported - literally, or, where only white space differs, at the only place from the anchor or cursor on - puts
  its new lines there, changes no other line, and the next hunk goes on after the new lines.\<close>

theorem hunk_replaces_matching_block:
  assumes "applyHunks eh f (hunk # hunks) lines cursor = Inr (out, modes)"
  shows "\<exists>above block below m ms. lines = above @ block @ below \<and> blockMatches m block (hunkOldLines hunk) \<and> modes = m # ms
    \<and> (block = hunkOldLines hunk \<or> (m = Normalized \<or> m = Fuzzy) \<and> onlyPlace lines f hunk cursor m (length above))
    \<and> applyHunks eh f hunks (above @ hunkNewLines hunk @ below) (length above + length (hunkNewLines hunk)) = Inr (out, ms)"
proof -
  let ?old = "hunkOldLines hunk"
  obtain i m ms where loc: "findHunkLocation eh lines hunk cursor f = Inr (i, m)" and modes: "modes = m # ms"
      and rest: "applyHunks eh f hunks (splice i (length ?old) (hunkNewLines hunk) lines) (i + length (hunkNewLines hunk)) = Inr (out, ms)"
    using assms by (auto simp: bind_result_eq_Inr)
  have p: "i + length ?old \<le> length lines" "blockMatches m (blockAt lines i (length ?old)) ?old"
      "m = Exact \<or> m = AnchoredExact \<or> (m = Normalized \<or> m = Fuzzy) \<and> onlyPlace lines f hunk cursor m i"
    using hunk_location[OF loc] by (simp_all add: placed_def)
  have len: "length (take i lines) = i" using p(1) by simp
  have lines: "lines = take i lines @ blockAt lines i (length ?old) @ drop (i + length ?old) lines"
    unfolding blockAt_def by (metis append_take_drop_id drop_drop add.commute)
  have "list_all2 (=) (blockAt lines i (length ?old)) ?old" if "m = Exact \<or> m = AnchoredExact"
  proof -
    have "(\<lambda>a b. lineMatches a b m) = (=)" using that by (auto simp: fun_eq_iff lineMatches_def)
    then show ?thesis using p(2) by (simp add: blockMatches_def)
  qed
  then have "blockAt lines i (length ?old) = ?old" if "m = Exact \<or> m = AnchoredExact" using that by (simp only: list.rel_eq)
  then have mode: "blockAt lines i (length ?old) = ?old \<or> (m = Normalized \<or> m = Fuzzy) \<and> onlyPlace lines f hunk cursor m (length (take i lines))"
    using p(3) len by auto
  have next_hunk: "applyHunks eh f hunks (take i lines @ hunkNewLines hunk @ drop (i + length ?old) lines)
      (length (take i lines) + length (hunkNewLines hunk)) = Inr (out, ms)" using rest by (simp only: splice_def len)
  from lines p(2) modes mode next_hunk show ?thesis by blast
qed

theorem hunk_replaces_matching_block_witness:
  "\<exists>above block below m ms. [''a'', ''b '', ''c''] = above @ block @ below \<and> blockMatches m block [''b''] \<and> [Normalized] = m # ms
    \<and> (block = [''b''] \<or> (m = Normalized \<or> m = Fuzzy)
      \<and> onlyPlace [''a'', ''b '', ''c''] ''f'' \<lparr>ph_anchors = [[]], ph_lines = [RemoveLine ''b'', AddLine ''x'']\<rparr> 0 m (length above))
    \<and> applyHunks \<lparr>eh_json = (\<lambda>_. []), eh_ellipsis = [], eh_HOME = None\<rparr> ''f'' [] (above @ [''x''] @ below) (length above + length [''x''])
      = Inr ([''a'', ''x'', ''c''], ms)"
proof -
  let ?eh = "\<lparr>eh_json = (\<lambda>_. []), eh_ellipsis = [], eh_HOME = None\<rparr>"
  let ?hunk = "\<lparr>ph_anchors = [[]], ph_lines = [RemoveLine ''b'', AddLine ''x'']\<rparr>"
  have "applyHunks ?eh ''f'' [?hunk] [''a'', ''b '', ''c''] 0 = Inr ([''a'', ''x'', ''c''], [Normalized])" by code_simp
  moreover have "hunkOldLines ?hunk = [''b'']" "hunkNewLines ?hunk = [''x'']" by code_simp+
  ultimately show ?thesis using hunk_replaces_matching_block[of ?eh "''f''" ?hunk "[]" "[''a'', ''b '', ''c'']" 0] by metis
qed

end
