(* ===== verification/Spec2Isabelle.thy ===== *)
theory Spec2Isabelle
  imports TurnReducer ScrollBounds ControlTheorems RecoveryProps SignalProps HeartbeatClaims TimelineRefinement TaskTreeClaims SafepointProps GoalClaims
    PermissionWitnesses ShellScan CoordinationWitnesses JournalWitnesses FileToolWitnesses HunkClaims
begin

text \<open>
  Verification of the control logic of eidolon-anchor, an agent runtime in TypeScript.

  \<^bold>\<open>The program.\<close> A session runs AI agents as actors. A turn of a conversation is a state machine (\<open>TurnReducer\<close>) that calls a
  model, selects tool calls, has each of them gated and records the results. Effects such as tool calls are commands of a
  durable engine, the runtime control, whose evidence is rebuilt after a crash. Actors are woken by control signals that
  survive a restart, by a heartbeat scheduler and by mail of other members; a snapshot of a session is taken only when no
  actor is in the middle of something. Members of a team ask their lead for plan approval and shutdown by messages
  (coordination). Tools are authorized against rule files and workspaces (permissions). A task pump dispatches work to other
  processes through a journal on disk. The tools that write files parse patches, look for their hunks and stage the result. The user interface shows live streams (bounded timeline) in a scroll controller that
  holds a window of a long list.

  \<^bold>\<open>Theories.\<close> \<open>JsPrelude\<close> holds the language: values, numbers with \<open>NaN\<close>, objects as association lists with the enumeration
  order of their keys, maps, texts, and results (\<open>Inl\<close> an error). Paths below are under \<open>src/cell/packages\<close>, unless they begin
  with \<open>shared\<close>, \<open>vendor\<close> or \<open>terminal\<close>.

  \<^item> \<open>TurnReducer\<close>: \<open>ai-core-contract/src/runtime/TurnState.ts\<close>, \<open>ai-organ-logic/src/runtime/TurnReducer.ts\<close>. States, events and
    effects are datatypes; a step is the reducer itself. Terminal turns absorb every event; a tool call is dispatched only
    after its selection and a gate decision.
  \<^item> \<open>ScrollModel\<close>, \<open>ScrollProps\<close>, \<open>ScrollBounds\<close>: \<open>shared/packages/depa-scroll-contract\<close>, \<open>depa-scroll-logic\<close>. One record for the
    state, one function per input; an accepted configuration bounds everything that is retained.
  \<^item> \<open>ControlModel\<close>, \<open>ControlProps\<close>, \<open>ControlTheorems\<close>: the engine of \<open>ai-runtime-control-logic/src/engineCapsule\<close>, its contract and
    in-memory ports. The command deque of the package \<open>depa-actor\<close> is a parameter with the laws \<open>deque_laws\<close>; ports are
    functions on a world that may fail. Cohort commits are atomic, runs return and leave no effect requested.
  \<^item> \<open>Recovery\<close>, \<open>RecoveryProps\<close>: \<open>recoveryScanner.ts\<close>, the coordinator capsule and the pure helpers of
    \<open>ai-runtime-control-composer/src/index.ts\<close>. A recoverable session has no pending effect once its interrupted ones are failed.
  \<^item> \<open>SignalModel\<close>, \<open>SignalProps\<close>: \<open>runtime/DurableControlSignals.ts\<close>. Idempotency, consumption, bounded tombstones, round trip
    of snapshots.
  \<^item> \<open>HeartbeatModel\<close>, \<open>HeartbeatProps\<close>, \<open>HeartbeatTheorems\<close>, \<open>HeartbeatClaims\<close>: \<open>runtime/heartbeatScheduler.ts\<close>. Limits of fires,
    ticks, and the cancellation that is lost while a delivery is awaited.
  \<^item> \<open>TimelineModel\<close>, \<open>TimelineSpec\<close>, \<open>TimelineProps\<close>, \<open>TimelineRefinement\<close>: \<open>stream/BoundedTimeline.ts\<close>. The abstract timeline keeps
    complete histories; the code's is a refinement of it for every sequence of client operations.
  \<^item> \<open>TaskTreeModel\<close>, \<open>TaskTreeProps\<close>, \<open>TaskTreeClaims\<close>: \<open>plan/TaskTreeManager.ts\<close>. Nodes are reached by paths; a rejected
    operation keeps the tree it had changed already. Distinct ids and limits of width and depth.
  \<^item> \<open>SafepointModel\<close>, \<open>SafepointProps\<close>: \<open>ai-runtime-control-logic/src/index.ts\<close> and the barriers of \<open>vendor/depa-actor-control\<close>.
  \<^item> \<open>GoalModel\<close>, \<open>GoalProps\<close>, \<open>GoalClaims\<close>: \<open>goals/ThreadGoalManager.ts\<close>, \<open>ThreadGoalRuntime.ts\<close> and the turn accounting of
    \<open>exec/AiAgentExecutor.ts\<close>. A goal is active exactly while it is authorized; completion needs an audit.
  \<^item> \<open>PosixPaths\<close>, \<open>JsRegex\<close>, \<open>PermissionRules\<close>, \<open>PermissionModel\<close>, \<open>ShellModel\<close>, \<open>BashPermission\<close>, \<open>PermissionRuntime\<close>,
    \<open>PermissionFiles\<close> and the claims in \<open>PermissionProps\<close>, \<open>PermissionClaims\<close>, \<open>PermissionGrants\<close>, \<open>PermissionLimits\<close>, \<open>ShellScan\<close>,
    \<open>PermissionWitnesses\<close>: \<open>ai-organ-logic/src/permissions\<close>, \<open>ai-core-logic/src/permissions\<close>, \<open>ai-support/src/permissions\<close>. The parser
    of shell commands, rules, approvals and the access file; what is protected, and where that falls short.
  \<^item> \<open>CoordinationModel\<close>, \<open>MemberModel\<close>, \<open>CoordinationRuntime\<close> with \<open>CoordinationProps\<close>, \<open>PlanGate\<close>, \<open>CoordinationClaims\<close>,
    \<open>ShutdownClaims\<close>, \<open>CoordinationWitnesses\<close>: \<open>coordination/CoordinationEngine.ts\<close>, \<open>organization/MemberManager.ts\<close>, the tools on
    top of them, and the gate and the draining of mail in \<open>exec/AiAgentExecutor.ts\<close>. The steps of a session are the relation
    \<open>coStep\<close>; no sequence of them without a review opens the gate of a member whose plan waits.
  \<^item> \<open>JournalModel\<close>, \<open>JournalDispatch\<close> with \<open>JournalProps\<close>, \<open>JournalSubscriptions\<close>, \<open>JournalReceipts\<close>, \<open>JournalLocks\<close>,
    \<open>JournalClaims\<close>, \<open>JournalWitnesses\<close>: \<open>organization/HolonTaskPumpJournal.ts\<close> and
    \<open>ai-support/src/organization/FileHolonTaskPumpJournalStore.ts\<close>. A dispatcher is a machine with one point for every wait; the
    relation \<open>pumpReach\<close> interleaves any number of them. One effect per intent, one receipt, and the stale lock that breaks
    the first.
  \<^item> \<open>EditText\<close>, \<open>PatchModel\<close>, \<open>PatchApply\<close>, \<open>FileTools\<close>: \<open>composer/AIAgent/tools\<close>, with \<open>_file-editing.ts\<close>, the tools \<open>ApplyPatch\<close>,
    \<open>Edit\<close>, \<open>Multiedit\<close> and \<open>Write\<close>, and the paths of \<open>_shared.ts\<close>. Texts and diffs (\<open>DiffProps\<close>, \<open>DiffClaims\<close>,
    \<open>EditClaims\<close>), patches read and printed (\<open>PatchClaims\<close>, \<open>PatchPrint\<close>), hunks (\<open>HunkClaims\<close>), the disk as a tree and
    what a commit leaves on it (\<open>DiskProps\<close>, \<open>CommitProps\<close>, \<open>PlanProps\<close>, \<open>PatchTool\<close>, \<open>PatchToolClaims\<close>), and the tools
    behind their permission check (\<open>FileGuards\<close>, \<open>FileToolWitnesses\<close>). A patch is done or not done; no tool writes a
    protected file whose path it reads as the check does.
  \<^bold>\<open>Interfaces.\<close> The locales state what a client relies on, and each is interpreted on the model's definitions: maps
  and objects of the language in \<open>JsPrelude\<close>, the immutable facts of the journal in \<open>JournalProps\<close>, and those of the
  component theories. What is outside the repository is a parameter: a record of the host (JSON text, localeCompare, SHA-256,
  dates, the file system's answers), the ports of the engine, a clock or a fresh id as an argument. \<open>jsonText\<close> is
  the one law of JSON text: what was printed is read back; \<open>numberedHost\<close> shows that it can hold.

  \<^bold>\<open>Errors, loops and bounds.\<close> What throws is \<open>Inl\<close>, beside the state as it is at that moment where the code mutates in place.
  Loops are structural recursion or have a measure; those that may run for long carry fuel: the
  scan of a shell command for executables as many rounds as it has characters, which is proved to be enough, the draining
  of coordination mail its length and the answers it makes, which the termination theorem bounds by two rounds; the
  engine's step budget is the code's own. Numbers are exact rationals with the two infinities and \<open>NaN\<close>, which is exact for the
  integers below \<open>2 ^ 53\<close> the components count with; 32-bit hashes are words. Characters are code units below 256.

  \<^bold>\<open>What modelling showed.\<close> Places where the code does not do what it means to, each a theorem, a lemma or a remark
  at its definition: among them a file that an approval widens to its parent directory, redirections and work directories
  that pass by protected files, a plan review nobody asked for that opens a gate, two messages within a millisecond of which
  one is lost, a cancelled heartbeat that fires on, a consumed checkpoint that stops, a lock taken twice, a path that is checked as one file
  and written as another, and a patch that fails half done.

  \<^bold>\<open>Not modelled.\<close> The loops around model calls, provider formats and network clients; the workflow runtime and its authoring
  store, the conversation capsule, file stores and hosts, which are services over files, processes and the vendored task
  manager; rendering and input of the terminal, the browser and the HTTP servers. In the modelled components: JSON printers of
  tool results, the file-backed ports of the runtime control, the checkpoint and upgrade workflows over session files,
  the walk over the file system that looks for links into private data, and errors of the file system other than those the
  code looks at.
\<close>

end
